(* ===== verification/Go_Prelude.thy ===== *)
theory Go_Prelude
  imports Main "HOL-Library.Word" "HOL-Library.Sublist" "HOL-Library.Multiset" "HOL-Library.AList"
begin

text \<open>
  Shared vocabulary of the development: Go errors as values, the parts of Go's
  \<^verbatim>\<open>strings\<close>, \<^verbatim>\<open>strconv\<close>, \<^verbatim>\<open>fmt\<close>, \<^verbatim>\<open>slices\<close> and \<^verbatim>\<open>math/big\<close> the sources call, byte
  strings, and the lemmas on them that the components share.

  A Go \<^verbatim>\<open>string\<close> is a byte sequence, here \<^typ>\<open>string\<close> (an Isabelle \<^typ>\<open>char\<close> is a byte).
  A \<^verbatim>\<open>[]byte\<close> is \<open>bytes\<close>; where the source distinguishes a nil slice from an empty
  one, the model has a \<open>bytes option\<close>. Case mapping and white space are those of ASCII.
\<close>

named_theorems go_simps \<open>unfolding rules of the Go library functions used by the sources\<close>
named_theorems go_str \<open>facts about the text functions: which characters a result holds\<close>

section \<open>Errors as values\<close>

text \<open>
  An \<^verbatim>\<open>error\<close> made by \<^verbatim>\<open>errors.New\<close> or by \<^verbatim>\<open>fmt.Errorf\<close> without \<^verbatim>\<open>%w\<close> is \<open>ENew\<close>; a package-level
  error variable, which \<^verbatim>\<open>errors.Is\<close> recognises, is \<open>ESentinel\<close>; \<^verbatim>\<open>fmt.Errorf\<close> with \<^verbatim>\<open>%w\<close> is
  \<open>EWrap\<close> with the text before and after the wrapped error.
\<close>

datatype gerror =
    ENew string
  | ESentinel string
  | EWrap string gerror string

type_synonym 'a res = "gerror + 'a"
type_synonym byte = "8 word"
type_synonym bytes = "byte list"

fun Error :: "gerror \<Rightarrow> string" where
  "Error (ENew s) = s"
| "Error (ESentinel s) = s"
| "Error (EWrap pre e post) = pre @ Error e @ post"

fun errors_Is :: "gerror \<Rightarrow> string \<Rightarrow> bool" where
  "errors_Is (ENew s) t = False"
| "errors_Is (ESentinel s) t = (s = t)"
| "errors_Is (EWrap pre e post) t = errors_Is e t"

text \<open>\<open>err_of\<close> is the error of a call whose other result is dropped.\<close>

fun err_of :: "'a res \<Rightarrow> gerror option" where
  "err_of (Inl e) = Some e"
| "err_of (Inr x) = None"

definition bind_res :: "'a res \<Rightarrow> ('a \<Rightarrow> 'b res) \<Rightarrow> 'b res" where
  "bind_res r f = (case r of Inl e \<Rightarrow> Inl e | Inr x \<Rightarrow> f x)"

lemma bind_res_simps [simp]:
  "bind_res (Inl e) f = Inl e"
  "bind_res (Inr x) f = f x"
  by (simp_all add: bind_res_def)

lemma bind_res_Inr:
  "bind_res r f = Inr y \<longleftrightarrow> (\<exists>x. r = Inr x \<and> f x = Inr y)"
  by (cases r) auto

text \<open>
  A call that may not return: a run-time panic, or \<^verbatim>\<open>logger.Fatal\<close>, which exits the process.
\<close>

datatype 'a outcome = Aborts string | Returns 'a

definition bind_out :: "'a outcome \<Rightarrow> ('a \<Rightarrow> 'b outcome) \<Rightarrow> 'b outcome" where
  "bind_out r f = (case r of Aborts s \<Rightarrow> Aborts s | Returns x \<Rightarrow> f x)"

lemma bind_out_simps [simp]:
  "bind_out (Aborts s) f = Aborts s"
  "bind_out (Returns x) f = f x"
  by (simp_all add: bind_out_def)

lemma bind_out_Returns:
  "bind_out r f = Returns y \<longleftrightarrow> (\<exists>x. r = Returns x \<and> f x = Returns y)"
  by (cases r) auto

section \<open>Strings\<close>

subsection \<open>Containment and prefixes\<close>

text \<open>\<^verbatim>\<open>strings.Contains\<close>: the pattern occurs at some position.\<close>

fun str_contains :: "string \<Rightarrow> string \<Rightarrow> bool" where
  "str_contains [] p = (p = [])"
| "str_contains (c # s) p = (prefix p (c # s) \<or> str_contains s p)"

lemma str_contains_iff: "str_contains s p \<longleftrightarrow> (\<exists>u v. s = u @ p @ v)"
proof (induction s)
  case Nil
  show ?case by auto
next
  case (Cons c s)
  show ?case
  proof
    assume "str_contains (c # s) p"
    then consider "prefix p (c # s)" | "str_contains s p" by auto
    then show "\<exists>u v. c # s = u @ p @ v"
    proof cases
      case 1
      then obtain v where "c # s = [] @ p @ v" by (auto simp: prefix_def)
      then show ?thesis by blast
    next
      case 2
      with Cons.IH obtain u v where "s = u @ p @ v" by auto
      then have "c # s = (c # u) @ p @ v" by simp
      then show ?thesis by blast
    qed
  next
    assume "\<exists>u v. c # s = u @ p @ v"
    then obtain u v where uv: "c # s = u @ p @ v" by blast
    show "str_contains (c # s) p"
    proof (cases u)
      case Nil
      with uv have "prefix p (c # s)" by (simp add: prefix_def)
      then show ?thesis by simp
    next
      case (Cons d u')
      with uv have "s = u' @ p @ v" by simp
      with Cons.IH show ?thesis by auto
    qed
  qed
qed

lemma str_contains_trans:
  assumes "str_contains s p" and "str_contains p q"
  shows "str_contains s q"
proof -
  from assms obtain u v u' v' where "s = u @ p @ v" and "p = u' @ q @ v'"
    by (auto simp: str_contains_iff)
  then have "s = (u @ u') @ q @ (v' @ v)" by simp
  then show ?thesis unfolding str_contains_iff by blast
qed

lemma str_contains_map: "str_contains s p \<Longrightarrow> str_contains (map f s) (map f p)"
  by (auto simp: str_contains_iff) blast

lemma str_contains_append: "str_contains s p \<Longrightarrow> str_contains (a @ s @ b) p"
proof -
  assume "str_contains s p"
  then obtain u v where "s = u @ p @ v" by (auto simp: str_contains_iff)
  then have "a @ s @ b = (a @ u) @ p @ (v @ b)" by simp
  then show ?thesis unfolding str_contains_iff by blast
qed

subsection \<open>Case and white space\<close>

definition lower_char :: "char \<Rightarrow> char" where
  "lower_char c = (let n = of_char c :: nat in if 65 \<le> n \<and> n \<le> 90 then char_of (n + 32) else c)"

definition to_lower :: "string \<Rightarrow> string" where
  "to_lower s = map lower_char s"

definition upper_char :: "char \<Rightarrow> char" where
  "upper_char c = (let n = of_char c :: nat in if 97 \<le> n \<and> n \<le> 122 then char_of (n - 32) else c)"

definition to_upper :: "string \<Rightarrow> string" where
  "to_upper s = map upper_char s"

definition is_space :: "char \<Rightarrow> bool" where
  "is_space c = (let n = of_char c :: nat in n = 32 \<or> (9 \<le> n \<and> n \<le> 13))"

definition trim_space :: "string \<Rightarrow> string" where
  "trim_space s = rev (dropWhile is_space (rev (dropWhile is_space s)))"

lemma trim_space_id:
  assumes "s = [] \<or> (\<not> is_space (hd s) \<and> \<not> is_space (last s))"
  shows "trim_space s = s"
proof (cases s)
  case Nil
  then show ?thesis by (simp add: trim_space_def)
next
  case (Cons c t)
  with assms have "dropWhile is_space s = s" and "\<not> is_space (last s)"
    by auto
  moreover have "dropWhile is_space (rev s) = rev s"
    using \<open>\<not> is_space (last s)\<close> Cons by (simp add: dropWhile_eq_self_iff hd_rev del: rev.simps)
  ultimately show ?thesis by (simp add: trim_space_def)
qed

subsection \<open>Splitting and joining\<close>

text \<open>\<^verbatim>\<open>strings.Split\<close> on a one-byte separator: always at least one part.\<close>

fun str_split :: "char \<Rightarrow> string \<Rightarrow> string list" where
  "str_split d [] = [[]]"
| "str_split d (c # s) =
     (if c = d then [] # str_split d s
      else (case str_split d s of [] \<Rightarrow> [[c]] | p # ps \<Rightarrow> (c # p) # ps))"

text \<open>\<^verbatim>\<open>strings.SplitN\<close> with a positive count: the last part is the unsplit rest.\<close>

fun str_splitN :: "nat \<Rightarrow> char \<Rightarrow> string \<Rightarrow> string list" where
  "str_splitN 0 d s = []"
| "str_splitN (Suc 0) d s = [s]"
| "str_splitN (Suc (Suc n)) d s =
     (case dropWhile (\<lambda>c. c \<noteq> d) s of
        [] \<Rightarrow> [s]
      | _ # rest \<Rightarrow> takeWhile (\<lambda>c. c \<noteq> d) s # str_splitN (Suc n) d rest)"

text \<open>The part \<^verbatim>\<open>strings.Cut\<close> returns before the separator, the whole text without one.\<close>

definition cut_before :: "char \<Rightarrow> string \<Rightarrow> string" where
  "cut_before d s = takeWhile (\<lambda>c. c \<noteq> d) s"

fun str_join :: "string list \<Rightarrow> string \<Rightarrow> string" where
  "str_join [] sep = []"
| "str_join [p] sep = p"
| "str_join (p # q # ps) sep = p @ sep @ str_join (q # ps) sep"

lemma str_split_nonempty [simp]: "str_split d s \<noteq> []"
  by (induction s) (auto split: list.splits)

lemma hd_str_split: "hd (str_split d s) = cut_before d s"
  by (induction s) (auto simp: cut_before_def split: list.splits)

lemma cut_before_append: "d \<notin> set s \<Longrightarrow> cut_before d (s @ d # t) = s"
  by (induction s) (auto simp: cut_before_def)

lemma cut_before_id: "d \<notin> set s \<Longrightarrow> cut_before d s = s"
  by (induction s) (auto simp: cut_before_def)

lemma split_first_sep:
  "d \<notin> set s \<Longrightarrow> takeWhile (\<lambda>c. c \<noteq> d) (s @ d # t) = s"
  "d \<notin> set s \<Longrightarrow> dropWhile (\<lambda>c. c \<noteq> d) (s @ d # t) = d # t"
  by (induction s) auto

lemma str_splitN_sep:
  "d \<notin> set s \<Longrightarrow> str_splitN (Suc (Suc n)) d (s @ d # t) = s # str_splitN (Suc n) d t"
  by (simp add: split_first_sep)

lemma sep_append_inj:
  assumes "a @ d # s = b @ d # t" and "d \<notin> set a" and "d \<notin> set b"
  shows "a = b \<and> s = t"
  using assms
proof (induction a arbitrary: b)
  case Nil
  then show ?case by (cases b) auto
next
  case (Cons x a)
  from Cons.prems obtain y b' where "b = y # b'" by (cases b) auto
  with Cons show ?case by auto
qed

lemma sep_append_inj2:
  assumes "s @ d # a = t @ d # b" and "d \<notin> set a" and "d \<notin> set b"
  shows "s = t \<and> a = b"
proof -
  from assms(1) have "rev (s @ d # a) = rev (t @ d # b)" by simp
  then have "rev a @ d # rev s = rev b @ d # rev t" by simp
  then show ?thesis using sep_append_inj [of "rev a" d "rev s" "rev b" "rev t"] assms by simp
qed

subsection \<open>Decimal numbers\<close>

definition digit_char :: "nat \<Rightarrow> char" where
  "digit_char n = char_of (48 + n)"

fun show_nat :: "nat \<Rightarrow> string" where
  "show_nat n = (if n < 10 then [digit_char n] else show_nat (n div 10) @ [digit_char (n mod 10)])"

declare show_nat.simps [simp del]

text \<open>\<^verbatim>\<open>strconv.Itoa\<close> and the verb \<^verbatim>\<open>%d\<close>.\<close>

definition itoa :: "int \<Rightarrow> string" where
  "itoa i = (if i < 0 then CHR ''-'' # show_nat (nat (- i)) else show_nat (nat i))"

text \<open>The verb \<^verbatim>\<open>%t\<close>.\<close>

definition show_bool :: "bool \<Rightarrow> string" where
  "show_bool b = (if b then ''true'' else ''false'')"

lemma of_char_digit: "n < 10 \<Longrightarrow> of_char (digit_char n) = 48 + n"
  by (simp add: digit_char_def)

lemma digit_char_inj: "m < 10 \<Longrightarrow> n < 10 \<Longrightarrow> digit_char m = digit_char n \<longleftrightarrow> m = n"
  by (metis add_left_cancel of_char_digit)

lemma show_nat_chars: "c \<in> set (show_nat n) \<Longrightarrow> \<exists>d < 10. c = digit_char d"
proof (induction n rule: show_nat.induct)
  case (1 n)
  show ?case
  proof (cases "n < 10")
    case True
    with "1.prems" show ?thesis by (auto simp: show_nat.simps [of n])
  next
    case False
    with "1.prems" have "c \<in> set (show_nat (n div 10)) \<or> c = digit_char (n mod 10)"
      by (auto simp: show_nat.simps [of n])
    moreover have "n mod 10 < 10" by simp
    ultimately show ?thesis using "1.IH" [OF False] by blast
  qed
qed

lemma show_nat_nonempty [simp]: "show_nat n \<noteq> []"
  by (subst show_nat.simps) simp

lemma show_nat_inj: "show_nat m = show_nat n \<longleftrightarrow> m = n"
proof
  show "show_nat m = show_nat n \<Longrightarrow> m = n"
  proof (induction m arbitrary: n rule: show_nat.induct)
    case (1 m)
    show ?case
    proof (cases "m < 10")
      case True
      with "1.prems" have eq: "[digit_char m] = show_nat n" by (simp add: show_nat.simps [of m])
      then have "n < 10"
        by (rule_tac ccontr) (auto simp: show_nat.simps [of n] dest: sym)
      with eq True show ?thesis by (auto simp: show_nat.simps [of n] digit_char_inj)
    next
      case False
      with "1.prems" have eq: "show_nat (m div 10) @ [digit_char (m mod 10)] = show_nat n"
        by (simp add: show_nat.simps [of m])
      have n: "\<not> n < 10"
        using eq by (auto simp: show_nat.simps [of n])
      with eq have "show_nat (m div 10) = show_nat (n div 10)"
        and d: "digit_char (m mod 10) = digit_char (n mod 10)"
        by (auto simp: show_nat.simps [of n])
      with "1.IH" [OF False] have "m div 10 = n div 10" by blast
      moreover from d have "m mod 10 = n mod 10" by (simp add: digit_char_inj)
      ultimately show ?thesis by (metis div_mult_mod_eq)
    qed
  qed
qed simp

lemma itoa_nonempty [simp]: "itoa i \<noteq> []"
  by (simp add: itoa_def)

lemma itoa_chars: "c \<in> set (itoa i) \<Longrightarrow> c = CHR ''-'' \<or> (\<exists>d < 10. c = digit_char d)"
  by (auto simp: itoa_def dest: show_nat_chars split: if_splits)

lemma itoa_no_colon [go_str]: "CHR '':'' \<notin> set (itoa i)"
proof
  assume "CHR '':'' \<in> set (itoa i)"
  then obtain d where d: "d < 10" "CHR '':'' = digit_char d" by (auto dest: itoa_chars)
  then have "(of_char (CHR '':'') :: nat) = 48 + d" by (metis of_char_digit)
  with d(1) show False by simp
qed

lemma show_nat_no_minus: "CHR ''-'' \<notin> set (show_nat n)"
proof
  assume "CHR ''-'' \<in> set (show_nat n)"
  then obtain d where d: "d < 10" "CHR ''-'' = digit_char d" by (auto dest: show_nat_chars)
  then have "(of_char (CHR ''-'') :: nat) = 48 + d" by (metis of_char_digit)
  then show False by simp
qed

lemma itoa_inj: "itoa i = itoa j \<longleftrightarrow> i = j"
proof
  assume eq: "itoa i = itoa j"
  have hd: "CHR ''-'' # s \<noteq> show_nat n" for s n
    using show_nat_no_minus [of n] by (metis list.set_intros(1))
  show "i = j"
    using eq hd hd [symmetric] by (auto simp: itoa_def show_nat_inj split: if_splits)
qed simp

section \<open>Byte strings and big integers\<close>

definition go_bytes :: "string \<Rightarrow> bytes" where
  "go_bytes s = map of_char s"

definition go_string :: "bytes \<Rightarrow> string" where
  "go_string b = map (\<lambda>w. char_of (unat w)) b"

lemma unat_byte_less [simp]: "unat (x :: byte) < 256"
proof -
  have "unat x < 2 ^ LENGTH(8)" by (rule unsigned_less)
  then show ?thesis by simp
qed

lemma unat_of_char [simp]: "unat (of_char c :: byte) = of_char c"
proof -
  have "of_char c < (256 :: nat)"
    by (metis mod_less_divisor of_char_mod_256 zero_less_numeral)
  then have "unat (word_of_nat (of_char c) :: byte) = of_char c"
    by (simp add: unat_of_nat)
  then show ?thesis by (simp add: of_nat_of_char)
qed

lemma go_string_go_bytes [simp]: "go_string (go_bytes s) = s"
  by (simp add: go_string_def go_bytes_def comp_def)

lemma go_bytes_go_string [simp]: "go_bytes (go_string b) = b"
proof -
  have "(of_char (char_of (unat w)) :: byte) = w" for w :: byte
  proof -
    have "unat (of_char (char_of (unat w)) :: byte) = of_char (char_of (unat w))"
      by (rule unat_of_char)
    also have "\<dots> = unat w"
      using unat_byte_less [of w] by simp
    finally show ?thesis by (simp add: word_unat_eq_iff)
  qed
  then show ?thesis by (simp add: go_string_def go_bytes_def comp_def)
qed

lemma go_bytes_inj [simp]: "go_bytes s = go_bytes t \<longleftrightarrow> s = t"
  by (metis go_string_go_bytes)

lemma length_go_bytes [simp]: "length (go_bytes s) = length s"
  by (simp add: go_bytes_def)

text \<open>\<^verbatim>\<open>(*big.Int).SetBytes\<close>: the big-endian value of a byte string.\<close>

definition be_nat :: "bytes \<Rightarrow> nat" where
  "be_nat b = foldl (\<lambda>n x. n * 256 + unat x) 0 b"

text \<open>\<^verbatim>\<open>(*big.Int).Bytes\<close>: the shortest big-endian representation.\<close>

fun nat_be :: "nat \<Rightarrow> bytes" where
  "nat_be n = (if n = 0 then [] else nat_be (n div 256) @ [word_of_nat (n mod 256)])"

declare nat_be.simps [simp del]

lemma nat_be_0 [simp]: "nat_be 0 = []"
  by (simp add: nat_be.simps)

lemma be_nat_Nil [simp]: "be_nat [] = 0"
  by (simp add: be_nat_def)

lemma be_nat_snoc [simp]: "be_nat (b @ [x]) = be_nat b * 256 + unat x"
  by (simp add: be_nat_def)

lemma be_nat_nat_be [simp]: "be_nat (nat_be n) = n"
proof (induction n rule: nat_be.induct)
  case (1 n)
  show ?case
  proof (cases "n = 0")
    case False
    then have "be_nat (nat_be n) = n div 256 * 256 + unat (word_of_nat (n mod 256) :: byte)"
      using "1.IH" by (simp add: nat_be.simps [of n])
    also have "unat (word_of_nat (n mod 256) :: byte) = n mod 256"
      by (simp add: unat_of_nat)
    finally show ?thesis by simp
  qed simp
qed

lemma be_nat_eq_0: "be_nat b = 0 \<longleftrightarrow> (\<forall>x \<in> set b. x = 0)"
  by (induction b rule: rev_induct) (auto simp: unat_eq_0)

lemma nat_be_be_nat: "nat_be (be_nat b) = dropWhile (\<lambda>x. x = 0) b"
proof (induction b rule: rev_induct)
  case (snoc x b)
  show ?case
  proof (cases "be_nat (b @ [x]) = 0")
    case True
    then have "\<forall>y \<in> set (b @ [x]). y = 0" by (simp only: be_nat_eq_0)
    then have "dropWhile (\<lambda>x. x = 0) (b @ [x]) = []" by (simp only: dropWhile_eq_Nil_conv)
    with True show ?thesis by simp
  next
    case False
    have "be_nat (b @ [x]) div 256 = be_nat b" and "be_nat (b @ [x]) mod 256 = unat x"
      by simp_all
    with False have eq: "nat_be (be_nat (b @ [x])) = nat_be (be_nat b) @ [x]"
      by (subst nat_be.simps) simp
    show ?thesis
    proof (cases "\<forall>y \<in> set b. y = 0")
      case True
      with False have "x \<noteq> 0" by (auto simp: be_nat_eq_0)
      with True eq snoc.IH show ?thesis by (simp add: dropWhile_append)
    next
      case False
      with eq snoc.IH show ?thesis by (auto simp: dropWhile_append)
    qed
  qed
qed simp

lemma be_nat_less: "be_nat b < 256 ^ length b"
proof (induction b rule: rev_induct)
  case (snoc x b)
  have "be_nat b * 256 + unat x < (be_nat b + 1) * 256" by simp
  also have "\<dots> \<le> 256 ^ length b * 256" using snoc.IH by (intro mult_right_mono) simp_all
  finally show ?case by simp
qed simp

lemma nat_be_length: "n < 256 ^ k \<Longrightarrow> length (nat_be n) \<le> k"
proof (induction k arbitrary: n)
  case (Suc k)
  show ?case
  proof (cases "n = 0")
    case False
    from Suc.prems have "n div 256 < 256 ^ k" by (simp add: less_mult_imp_div_less mult.commute)
    then have "length (nat_be (n div 256)) \<le> k" by (rule Suc.IH)
    with False show ?thesis by (simp add: nat_be.simps [of n])
  qed simp
qed simp

lemma be_nat_leading_zeros [simp]: "be_nat (replicate k 0 @ b) = be_nat b"
proof (induction b rule: rev_induct)
  case Nil
  have "be_nat (replicate k 0) = 0" by (simp add: be_nat_eq_0)
  then show ?case by simp
next
  case (snoc x b)
  then show ?case by (simp flip: append_assoc)
qed

section \<open>Lists as the sources use them\<close>

text \<open>\<^verbatim>\<open>slices.Contains\<close>.\<close>

definition slices_contains :: "'a list \<Rightarrow> 'a \<Rightarrow> bool" where
  "slices_contains xs x = (x \<in> set xs)"

lemma filter_mset_length_le: "distinct xs \<Longrightarrow> distinct ys \<Longrightarrow>
  length (filter (\<lambda>x. x \<in> set ys) xs) = card (set xs \<inter> set ys)"
  by (metis distinct_card distinct_filter inter_set_filter Int_commute)

text \<open>
  A Go map whose size the sources ask for is an association list with distinct keys.
\<close>

type_synonym ('k, 'v) gomap = "('k \<times> 'v) list"

abbreviation gomap_ok :: "('k, 'v) gomap \<Rightarrow> bool" where
  "gomap_ok m \<equiv> distinct (map fst m)"

lemma gomap_length: "gomap_ok m \<Longrightarrow> length m = card (dom (map_of m))"
  by (metis distinct_card dom_map_of_conv_image_fst length_map set_map)

lemma gomap_update_ok [intro]: "gomap_ok m \<Longrightarrow> gomap_ok (AList.update k v m)"
  by (rule distinct_update)

lemma gomap_delete_ok [intro]: "gomap_ok m \<Longrightarrow> gomap_ok (AList.delete k m)"
  by (rule distinct_delete)

lemma map_of_update [simp]: "map_of (AList.update k v m) = (map_of m)(k \<mapsto> v)"
  by (rule update_conv')

lemma map_of_delete [simp]: "map_of (AList.delete k m) = (map_of m)(k := None)"
  by (rule delete_conv')

section \<open>Hexadecimal text\<close>

fun hex_value :: "char \<Rightarrow> nat option" where
  "hex_value c = (let n = of_char c :: nat in
     if 48 \<le> n \<and> n \<le> 57 then Some (n - 48)
     else if 97 \<le> n \<and> n \<le> 102 then Some (n - 87)
     else if 65 \<le> n \<and> n \<le> 70 then Some (n - 55) else None)"

declare hex_value.simps [simp del]

definition hex_digit :: "nat \<Rightarrow> char" where
  "hex_digit n = (if n < 10 then char_of (48 + n) else char_of (87 + n))"

lemma hex_value_digit [simp]: "n < 16 \<Longrightarrow> hex_value (hex_digit n) = Some n"
  by (simp add: hex_value.simps hex_digit_def Let_def)

text \<open>\<^verbatim>\<open>hex.EncodeToString\<close> and \<^verbatim>\<open>hex.DecodeString\<close>.\<close>

definition hex_Encode :: "bytes \<Rightarrow> string" where
  "hex_Encode b = concat (map (\<lambda>x. [hex_digit (unat x div 16), hex_digit (unat x mod 16)]) b)"

fun hex_Decode :: "string \<Rightarrow> bytes res" where
  "hex_Decode [] = Inr []"
| "hex_Decode [c] =
     (case hex_value c of None \<Rightarrow> Inl (ENew ''encoding/hex: invalid byte'')
      | Some i \<Rightarrow> Inl (ENew ''encoding/hex: odd length hex string''))"
| "hex_Decode (c # d # s) =
     (case (hex_value c, hex_value d) of
        (Some i, Some j) \<Rightarrow> bind_res (hex_Decode s) (\<lambda>b. Inr (word_of_nat (i * 16 + j) # b))
      | _ \<Rightarrow> Inl (ENew ''encoding/hex: invalid byte''))"

lemma hex_Decode_Encode [simp]: "hex_Decode (hex_Encode b) = Inr b"
proof (induction b)
  case (Cons x b)
  have "unat x div 16 < 16" by (simp add: less_mult_imp_div_less)
  moreover have "unat x div 16 * 16 + unat x mod 16 = unat x" by simp
  ultimately show ?case
    using Cons by (simp add: hex_Encode_def del: of_nat_add of_nat_mult)
qed (simp add: hex_Encode_def)

end
