(* ===== verification/Json.thy ===== *)
theory Json
  imports Go_Prelude
begin

text \<open>
  The part of Go's \<^verbatim>\<open>encoding/json\<close> and \<^verbatim>\<open>encoding/base64\<close> that the sources use: compact
  rendering with Go's string escapes, a parser for JSON text, base64 for \<^verbatim>\<open>[]byte\<close> fields, and
  the decoding of struct fields by (case-insensitive) name. The text is assumed to be valid
  UTF-8 without the separators U+2028 and U+2029, whose bytes pass unchanged.

  The main facts are \<open>json_parse_render\<close> (rendering then parsing is the identity),
  \<open>json_render_inj\<close>, and \<open>base64_inj\<close> with \<open>base64_decode_encode\<close>.
\<close>

text \<open>A number is kept as its literal, the way the Go decoder does before it converts it.\<close>

datatype json =
    JNull
  | JBool bool
  | JNum string
  | JStr string
  | JArr "json list"
  | JObj "(string \<times> json) list"

section \<open>Rendering\<close>

text \<open>
  One byte of a string. Bytes from 0x80 on pass unchanged, which is what Go does in valid UTF-8 except
  for the two separators; it would replace invalid sequences by U+FFFD.
\<close>

definition json_escape_char :: "char \<Rightarrow> string" where
  "json_escape_char c =
     (let n = of_char c :: nat in
      if n = 34 \<or> n = 92 then [CHR 0x5C, c]
      else if n = 8 then [CHR 0x5C, CHR ''b'']
      else if n = 12 then [CHR 0x5C, CHR ''f'']
      else if n = 10 then [CHR 0x5C, CHR ''n'']
      else if n = 13 then [CHR 0x5C, CHR ''r'']
      else if n = 9 then [CHR 0x5C, CHR ''t'']
      else if n < 32 \<or> n = 60 \<or> n = 62 \<or> n = 38
        then [CHR 0x5C, CHR ''u'', CHR ''0'', CHR ''0'', hex_digit (n div 16), hex_digit (n mod 16)]
      else [c])"

definition json_quote :: "string \<Rightarrow> string" where
  "json_quote s = CHR 0x22 # concat (map json_escape_char s) @ [CHR 0x22]"

fun json_render :: "json \<Rightarrow> string" where
  "json_render JNull = ''null''"
| "json_render (JBool b) = show_bool b"
| "json_render (JNum l) = l"
| "json_render (JStr s) = json_quote s"
| "json_render (JArr xs) = ''['' @ str_join (map json_render xs) '','' @ '']''"
| "json_render (JObj ms) =
     ''{'' @ str_join (map (\<lambda>(k, v). json_quote k @ '':'' @ json_render v) ms) '','' @ ''}''"

section \<open>Parsing\<close>

definition is_json_ws :: "char \<Rightarrow> bool" where
  "is_json_ws c = (c \<in> {CHR '' '', CHR 0x09, CHR 0x0A, CHR 0x0D})"

definition skip_ws :: "string \<Rightarrow> string" where
  "skip_ws s = dropWhile is_json_ws s"

definition is_digit :: "char \<Rightarrow> bool" where
  "is_digit c = (let n = of_char c :: nat in 48 \<le> n \<and> n \<le> 57)"

fun hex4 :: "string \<Rightarrow> (nat \<times> string) option" where
  "hex4 (a # b # c # d # r) =
     (case (hex_value a, hex_value b, hex_value c, hex_value d) of
        (Some w, Some x, Some y, Some z) \<Rightarrow> Some (w * 4096 + x * 256 + y * 16 + z, r)
      | _ \<Rightarrow> None)"
| "hex4 _ = None"

definition utf8 :: "nat \<Rightarrow> string" where
  "utf8 n =
     (if n < 128 then [char_of n]
      else if n < 2048 then [char_of (192 + n div 64), char_of (128 + n mod 64)]
      else if n < 65536
        then [char_of (224 + n div 4096), char_of (128 + n div 64 mod 64), char_of (128 + n mod 64)]
      else [char_of (240 + n div 262144), char_of (128 + n div 4096 mod 64),
            char_of (128 + n div 64 mod 64), char_of (128 + n mod 64)])"

text \<open>A surrogate pair is one code point; a lone surrogate becomes U+FFFD.\<close>

definition unicode_escape :: "nat \<Rightarrow> string \<Rightarrow> string \<times> string" where
  "unicode_escape n r =
     (if n < 55296 \<or> 57343 < n then (utf8 n, r)
      else if prefix [CHR 0x5C, CHR ''u''] r then
        (case hex4 (drop 2 r) of
           Some (m, r') \<Rightarrow>
             if n < 56320 \<and> 56320 \<le> m \<and> m \<le> 57343
             then (utf8 (65536 + (n - 55296) * 1024 + (m - 56320)), r')
             else (utf8 65533, r)
         | None \<Rightarrow> (utf8 65533, r))
      else (utf8 65533, r))"

definition simple_escape :: "char \<Rightarrow> char option" where
  "simple_escape c =
     (if c = CHR 0x22 \<or> c = CHR 0x5C \<or> c = CHR ''/'' then Some c
      else if c = CHR ''b'' then Some (CHR 0x08)
      else if c = CHR ''f'' then Some (CHR 0x0C)
      else if c = CHR ''n'' then Some (CHR 0x0A)
      else if c = CHR ''r'' then Some (CHR 0x0D)
      else if c = CHR ''t'' then Some (CHR 0x09) else None)"

text \<open>The text after an opening quote; the fuel is at least its length.\<close>

fun parse_chars :: "nat \<Rightarrow> string \<Rightarrow> (string \<times> string) option" where
  "parse_chars 0 s = None"
| "parse_chars (Suc n) [] = None"
| "parse_chars (Suc n) (c # s) =
     (if c = CHR 0x22 then Some ([], s)
      else if c = CHR 0x5C then
        (case s of
           [] \<Rightarrow> None
         | e # r \<Rightarrow>
             if e = CHR ''u'' then
               (case hex4 r of
                  None \<Rightarrow> None
                | Some (k, r') \<Rightarrow>
                    (let (t, r'') = unicode_escape k r' in
                     map_option (\<lambda>(u, w). (t @ u, w)) (parse_chars n r'')))
             else (case simple_escape e of
                     None \<Rightarrow> None
                   | Some d \<Rightarrow> map_option (\<lambda>(u, w). (d # u, w)) (parse_chars n r)))
      else if (of_char c :: nat) < 32 then None
      else map_option (\<lambda>(u, w). (c # u, w)) (parse_chars n s))"

definition parse_string :: "string \<Rightarrow> (string \<times> string) option" where
  "parse_string s = parse_chars (Suc (length s)) s"

text \<open>The number literal at the head of a text: sign, integer part, fraction, exponent.\<close>

definition lit_sign :: "string \<Rightarrow> string \<times> string" where
  "lit_sign s = (if s \<noteq> [] \<and> hd s = CHR ''-'' then (''-'', tl s) else ([], s))"

definition lit_int :: "string \<Rightarrow> string \<times> string" where
  "lit_int s = (if s \<noteq> [] \<and> hd s = CHR ''0'' then (''0'', tl s)
     else (takeWhile is_digit s, dropWhile is_digit s))"

definition lit_frac :: "string \<Rightarrow> string \<times> string" where
  "lit_frac s = (if s \<noteq> [] \<and> hd s = CHR ''.'' \<and> takeWhile is_digit (tl s) \<noteq> []
     then (CHR ''.'' # takeWhile is_digit (tl s), dropWhile is_digit (tl s)) else ([], s))"

definition lit_exp :: "string \<Rightarrow> string \<times> string" where
  "lit_exp s =
     (if s \<noteq> [] \<and> (hd s = CHR ''e'' \<or> hd s = CHR ''E'') then
        (let t = tl s;
             (sg, t') = (if t \<noteq> [] \<and> (hd t = CHR ''+'' \<or> hd t = CHR ''-'') then ([hd t], tl t)
                         else ([], t))
         in if takeWhile is_digit t' = [] then ([], s)
            else (hd s # sg @ takeWhile is_digit t', dropWhile is_digit t'))
      else ([], s))"

definition number_literal :: "string \<Rightarrow> (string \<times> string) option" where
  "number_literal s =
     (let (sg, s1) = lit_sign s; (ip, s2) = lit_int s1; (fr, s3) = lit_frac s2; (ex, s4) = lit_exp s3
      in if ip = [] then None else Some (sg @ ip @ fr @ ex, s4))"

text \<open>
  The value parser consumes one unit of fuel per call; twice the length of the text is
  enough, since every second call consumes a character.
\<close>

fun parse_value :: "nat \<Rightarrow> string \<Rightarrow> (json \<times> string) option"
  and parse_elems :: "nat \<Rightarrow> string \<Rightarrow> (json list \<times> string) option"
  and parse_members :: "nat \<Rightarrow> string \<Rightarrow> ((string \<times> json) list \<times> string) option" where
  "parse_value 0 s = None"
| "parse_value (Suc n) s =
     (case skip_ws s of
        [] \<Rightarrow> None
      | c # t \<Rightarrow>
          if c = CHR ''{'' then
            (case skip_ws t of
               [] \<Rightarrow> None
             | d # u \<Rightarrow> if d = CHR ''}'' then Some (JObj [], u)
                        else map_option (\<lambda>(ms, r). (JObj ms, r)) (parse_members n (d # u)))
          else if c = CHR ''['' then
            (case skip_ws t of
               [] \<Rightarrow> None
             | d # u \<Rightarrow> if d = CHR '']'' then Some (JArr [], u)
                        else map_option (\<lambda>(xs, r). (JArr xs, r)) (parse_elems n (d # u)))
          else if c = CHR 0x22 then map_option (\<lambda>(x, r). (JStr x, r)) (parse_string t)
          else if prefix ''true'' (c # t) then Some (JBool True, drop 4 (c # t))
          else if prefix ''false'' (c # t) then Some (JBool False, drop 5 (c # t))
          else if prefix ''null'' (c # t) then Some (JNull, drop 4 (c # t))
          else map_option (\<lambda>(l, r). (JNum l, r)) (number_literal (c # t)))"
| "parse_elems 0 s = None"
| "parse_elems (Suc n) s =
     (case parse_value n s of
        None \<Rightarrow> None
      | Some (v, r) \<Rightarrow>
          (case skip_ws r of
             [] \<Rightarrow> None
           | d # u \<Rightarrow>
               if d = CHR '']'' then Some ([v], u)
               else if d = CHR '','' then map_option (\<lambda>(vs, w). (v # vs, w)) (parse_elems n u)
               else None))"
| "parse_members 0 s = None"
| "parse_members (Suc n) s =
     (case skip_ws s of
        [] \<Rightarrow> None
      | q # t \<Rightarrow>
          if q \<noteq> CHR 0x22 then None
          else (case parse_string t of
                  None \<Rightarrow> None
                | Some (k, r) \<Rightarrow>
                    (case skip_ws r of
                       [] \<Rightarrow> None
                     | c # r' \<Rightarrow>
                         if c \<noteq> CHR '':'' then None
                         else (case parse_value n r' of
                                 None \<Rightarrow> None
                               | Some (v, r'') \<Rightarrow>
                                   (case skip_ws r'' of
                                      [] \<Rightarrow> None
                                    | d # u \<Rightarrow>
                                        if d = CHR ''}'' then Some ([(k, v)], u)
                                        else if d = CHR '','' then
                                          map_option (\<lambda>(ms, w). ((k, v) # ms, w)) (parse_members n u)
                                        else None)))))"

text \<open>\<^verbatim>\<open>json.Unmarshal\<close> wants one value and nothing but white space after it.\<close>

definition json_parse :: "string \<Rightarrow> json option" where
  "json_parse s =
     (case parse_value (2 * length s + 1) s of
        Some (j, r) \<Rightarrow> if skip_ws r = [] then Some j else None
      | None \<Rightarrow> None)"

section \<open>Rendering then parsing\<close>

lemma of_char_less_256 [simp]: "of_char c < (256 :: nat)"
  by (metis mod_less_divisor of_char_mod_256 zero_less_numeral)

lemma hex4_byte:
  "n < 256 \<Longrightarrow> hex4 (CHR ''0'' # CHR ''0'' # hex_digit (n div 16) # hex_digit (n mod 16) # r) = Some (n, r)"
proof -
  assume "n < 256"
  then have "hex_value (hex_digit (n div 16)) = Some (n div 16)"
    and "hex_value (hex_digit (n mod 16)) = Some (n mod 16)"
    by (simp_all add: hex_value_digit)
  moreover have "hex_value (CHR ''0'') = Some 0" by (simp add: hex_value.simps)
  ultimately show ?thesis by simp
qed

lemma parse_chars_escape_char:
  "parse_chars (Suc n) (json_escape_char c @ t) = map_option (\<lambda>(u, w). (c # u, w)) (parse_chars n t)"
proof -
  have eq: "c = d \<longleftrightarrow> (of_char c :: nat) = of_char d" for d by simp
  have chars: "of_char c = (9 :: nat) \<Longrightarrow> CHR 0x09 = c" "of_char c = (13 :: nat) \<Longrightarrow> CHR 0x0D = c"
    "of_char c = (10 :: nat) \<Longrightarrow> CHR 0x0A = c" "of_char c = (12 :: nat) \<Longrightarrow> CHR 0x0C = c"
    "of_char c = (8 :: nat) \<Longrightarrow> CHR 0x08 = c" "of_char c = (60 :: nat) \<Longrightarrow> char_of (60 :: nat) = c"
    "of_char c = (62 :: nat) \<Longrightarrow> char_of (62 :: nat) = c" "of_char c = (38 :: nat) \<Longrightarrow> char_of (38 :: nat) = c"
    using eq [of "CHR 0x09"] eq [of "CHR 0x0D"] eq [of "CHR 0x0A"] eq [of "CHR 0x0C"] eq [of "CHR 0x08"]
    by (simp, simp, simp, simp, simp, metis char_of_char, metis char_of_char, metis char_of_char)
  show ?thesis
    by (auto dest: chars simp: json_escape_char_def Let_def simple_escape_def hex4_byte unicode_escape_def utf8_def
        eq simp del: of_char_eq_iff hex4.simps)
qed

lemma parse_chars_escape:
  "length s < n \<Longrightarrow> parse_chars n (concat (map json_escape_char s) @ CHR 0x22 # r) = Some (s, r)"
proof (induction s arbitrary: n)
  case Nil
  then show ?case by (cases n) auto
next
  case (Cons c s)
  then obtain m where "n = Suc m" "length s < m" by (cases n) auto
  with Cons.IH show ?case by (simp add: parse_chars_escape_char)
qed

lemma length_json_escape_char: "1 \<le> length (json_escape_char c)"
  by (simp add: json_escape_char_def Let_def)

lemma length_concat_escape: "length s \<le> length (concat (map json_escape_char s))"
proof (induction s)
  case (Cons c s)
  with length_json_escape_char [of c] show ?case by simp
qed simp

lemma parse_string_quote:
  "parse_string (concat (map json_escape_char s) @ CHR 0x22 # r) = Some (s, r)"
  using length_concat_escape [of s] by (simp add: parse_string_def parse_chars_escape)

lemma is_digit_digit_char [simp]: "d < 10 \<Longrightarrow> is_digit (digit_char d)"
  by (simp add: is_digit_def of_char_digit)

lemma show_nat_digits: "c \<in> set (show_nat n) \<Longrightarrow> is_digit c"
  using is_digit_digit_char show_nat_chars by blast

lemma show_nat_0: "show_nat 0 = ''0''"
proof -
  have "(of_char (digit_char 0) :: nat) = of_char (CHR ''0'')" by (simp add: of_char_digit)
  then have "digit_char 0 = CHR ''0''" by (simp only: of_char_eq_iff)
  then show ?thesis by (simp add: show_nat.simps)
qed

lemma show_nat_hd: "hd (show_nat n) = CHR ''0'' \<Longrightarrow> show_nat n = ''0''"
proof (induction n rule: show_nat.induct)
  case (1 n)
  show ?case
  proof (cases "n < 10")
    case True
    with "1.prems" show ?thesis by (simp add: show_nat.simps [of n])
  next
    case False
    then have "hd (show_nat (n div 10)) = CHR ''0''"
      using "1.prems" by (simp add: show_nat.simps [of n] hd_append)
    then have "show_nat (n div 10) = show_nat 0"
      using "1.IH" [OF False] by (simp add: show_nat_0)
    with False show ?thesis by (simp add: show_nat_inj)
  qed
qed

definition ends_value :: "string \<Rightarrow> bool" where
  "ends_value r = (r = [] \<or> hd r \<in> {CHR '','', CHR '']'', CHR ''}''})"

lemma takeWhile_digits:
  assumes "ends_value r"
  shows "takeWhile is_digit (show_nat n @ r) = show_nat n"
    and "dropWhile is_digit (show_nat n @ r) = r"
proof -
  have "\<not> is_digit (hd r)" if "r \<noteq> []"
    using assms that by (auto simp: ends_value_def is_digit_def)
  then have "takeWhile is_digit r = []" "dropWhile is_digit r = r"
    by (cases r; auto)+
  then show "takeWhile is_digit (show_nat n @ r) = show_nat n"
    and "dropWhile is_digit (show_nat n @ r) = r"
    by (simp_all add: show_nat_digits takeWhile_append dropWhile_append3)
qed

lemma number_literal_unsigned:
  assumes "ends_value r"
  shows "number_literal (show_nat n @ r) = Some (show_nat n, r)"
proof -
  have "hd (show_nat n @ r) \<noteq> CHR ''-''" using show_nat_no_minus [of n]
    by (metis hd_append2 hd_in_set show_nat_nonempty)
  then have sg: "lit_sign (show_nat n @ r) = ([], show_nat n @ r)" by (simp add: lit_sign_def)
  have ip: "lit_int (show_nat n @ r) = (show_nat n, r)"
    using takeWhile_digits [OF assms, of n] show_nat_hd [of n] by (auto simp: lit_int_def)
  have "lit_frac r = ([], r)" "lit_exp r = ([], r)"
    using assms by (auto simp: lit_frac_def lit_exp_def ends_value_def)
  with sg ip show ?thesis by (simp add: number_literal_def)
qed

lemma number_literal_itoa:
  assumes "ends_value r"
  shows "number_literal (itoa i @ r) = Some (itoa i, r)"
proof (cases "i < 0")
  case True
  let ?s = "show_nat (nat (- i))"
  have "number_literal (?s @ r) = Some (?s, r)" by (rule number_literal_unsigned [OF assms])
  moreover have "lit_sign (?s @ r) = ([], ?s @ r)"
    using show_nat_no_minus [of "nat (- i)"]
    by (auto simp: lit_sign_def) (metis hd_in_set show_nat_nonempty)
  moreover have "lit_sign (CHR ''-'' # ?s @ r) = (''-'', ?s @ r)" by (simp add: lit_sign_def)
  ultimately show ?thesis
    using True by (auto simp: number_literal_def itoa_def split: prod.splits if_splits)
qed (simp add: itoa_def number_literal_unsigned [OF assms])

text \<open>The values the sources marshal: numbers are decimal integers.\<close>

fun wf_json :: "json \<Rightarrow> bool" where
  "wf_json (JNum l) = (\<exists>i. l = itoa i)"
| "wf_json (JArr xs) = (\<forall>x \<in> set xs. wf_json x)"
| "wf_json (JObj ms) = (\<forall>m \<in> set ms. wf_json (snd m))"
| "wf_json _ = True"

fun need :: "json \<Rightarrow> nat" where
  "need (JArr xs) = Suc (sum_list (map (\<lambda>x. Suc (need x)) xs))"
| "need (JObj ms) = Suc (sum_list (map (\<lambda>m. Suc (need (snd m))) ms))"
| "need _ = 1"

lemma str_join_Cons: "ps \<noteq> [] \<Longrightarrow> str_join (p # ps) sep = p @ sep @ str_join ps sep"
  by (cases ps) simp_all

lemma length_str_join:
  "ps \<noteq> [] \<Longrightarrow> Suc (length (str_join ps '','')) = sum_list (map (\<lambda>p. Suc (length p)) ps)"
  by (induction ps rule: induct_list012) (auto simp: str_join_Cons)

lemma json_render_nonempty: "wf_json j \<Longrightarrow> json_render j \<noteq> []"
  by (cases j) (auto simp: show_bool_def json_quote_def)

lemma sum_list_le:
  "(\<And>x. x \<in> set xs \<Longrightarrow> f x \<le> (2 :: nat) * g x) \<Longrightarrow>
   sum_list (map (\<lambda>x. Suc (f x)) xs) \<le> 2 * sum_list (map (\<lambda>x. Suc (g x)) xs)"
proof (induction xs)
  case (Cons x xs)
  then have "f x \<le> 2 * g x" "sum_list (map (\<lambda>x. Suc (f x)) xs) \<le> 2 * sum_list (map (\<lambda>x. Suc (g x)) xs)"
    by auto
  then show ?case by simp
qed simp

lemma need_le: "wf_json j \<Longrightarrow> need j \<le> 2 * length (json_render j)"
proof (induction j rule: need.induct)
  case (1 xs)
  have "need x \<le> 2 * length (json_render x)" if "x \<in> set xs" for x using 1 that by auto
  from sum_list_le [of xs need "\<lambda>x. length (json_render x)", OF this]
  have "sum_list (map (\<lambda>x. Suc (need x)) xs) \<le> 2 * sum_list (map (\<lambda>x. Suc (length (json_render x))) xs)"
    by blast
  then show ?case
    using length_str_join [of "map json_render xs"] by (cases "xs = []") (auto simp: comp_def)
next
  case (2 ms)
  let ?r = "\<lambda>(k, v). json_quote k @ '':'' @ json_render v"
  have "need (snd m) \<le> 2 * length (?r m)" if "m \<in> set ms" for m
  proof -
    have "need (snd m) \<le> 2 * length (json_render (snd m))" using 2 that by auto
    also have "\<dots> \<le> 2 * length (?r m)" by (cases m) simp
    finally show ?thesis .
  qed
  from sum_list_le [of ms "\<lambda>m. need (snd m)" "\<lambda>m. length (?r m)", OF this]
  have "sum_list (map (\<lambda>m. Suc (need (snd m))) ms) \<le> 2 * sum_list (map (\<lambda>m. Suc (length (?r m))) ms)"
    by blast
  then show ?case
    using length_str_join [of "map ?r ms"] by (cases "ms = []") (auto simp: comp_def)
qed (auto simp: show_bool_def json_quote_def Suc_le_eq)

definition value_start :: "char \<Rightarrow> bool" where
  "value_start c = (\<not> is_json_ws c \<and> c \<notin> {CHR '']'', CHR ''}'', CHR '','', CHR '':''})"

lemma digit_start: "is_digit c \<Longrightarrow> value_start c \<and> c \<notin> {CHR ''{'', CHR ''['', CHR 0x22, CHR ''t'', CHR ''f'', CHR ''n''}"
  by (auto simp: is_digit_def value_start_def is_json_ws_def)

lemma itoa_hd:
  obtains c t where "itoa i = c # t" "value_start c"
    "c \<notin> {CHR ''{'', CHR ''['', CHR 0x22, CHR ''t'', CHR ''f'', CHR ''n''}"
proof (cases "i < 0")
  case True
  then show ?thesis using that [of "CHR ''-''"] by (simp add: itoa_def value_start_def is_json_ws_def)
next
  case False
  obtain c t where ct: "show_nat (nat i) = c # t" by (cases "show_nat (nat i)") simp_all
  then have "is_digit c" using show_nat_digits by (metis list.set_intros(1))
  with False ct show ?thesis using that [of c t] digit_start [of c] by (simp add: itoa_def)
qed

lemma json_render_hd:
  assumes "wf_json j"
  obtains c t where "json_render j = c # t" "value_start c"
proof (cases j)
  case (JNum l)
  with assms obtain i where "l = itoa i" by auto
  with JNum show ?thesis using itoa_hd [of i] that by auto
next
  case (JBool b)
  then show ?thesis using that by (cases b) (auto simp: show_bool_def value_start_def is_json_ws_def)
qed (use that in \<open>auto simp: show_bool_def json_quote_def value_start_def is_json_ws_def\<close>)

lemma skip_ws_start: "\<not> is_json_ws c \<Longrightarrow> skip_ws (c # s) = c # s"
  by (simp add: skip_ws_def)


lemma parse_elems_render:
  assumes "\<And>x n r. x \<in> set xs \<Longrightarrow> need x \<le> n \<Longrightarrow> ends_value r \<Longrightarrow>
      parse_value n (json_render x @ r) = Some (x, r)"
    and "xs \<noteq> []" and "sum_list (map (\<lambda>x. Suc (need x)) xs) \<le> n"
  shows "parse_elems n (str_join (map json_render xs) '','' @ CHR '']'' # r) = Some (xs, r)"
  using assms
proof (induction xs arbitrary: n)
  case (Cons x xs)
  then obtain m where n: "n = Suc m" by (cases n) auto
  show ?case
  proof (cases "xs = []")
    case True
    have "parse_value m (json_render x @ CHR '']'' # r) = Some (x, CHR '']'' # r)"
      using Cons.prems n by (intro Cons.prems(1)) (auto simp: ends_value_def)
    with n True show ?thesis by (simp add: skip_ws_start is_json_ws_def)
  next
    case False
    let ?t = "str_join (map json_render xs) '','' @ CHR '']'' # r"
    have "parse_value m (json_render x @ CHR '','' # ?t) = Some (x, CHR '','' # ?t)"
      using Cons.prems n by (intro Cons.prems(1)) (auto simp: ends_value_def)
    moreover have "parse_elems m ?t = Some (xs, r)"
      using Cons.prems n False by (intro Cons.IH) auto
    ultimately show ?thesis
      using n False by (simp add: str_join_Cons skip_ws_start is_json_ws_def)
  qed
qed simp

lemma parse_members_render:
  assumes "\<And>m n r. m \<in> set ms \<Longrightarrow> need (snd m) \<le> n \<Longrightarrow> ends_value r \<Longrightarrow>
      parse_value n (json_render (snd m) @ r) = Some (snd m, r)"
    and "ms \<noteq> []" and "sum_list (map (\<lambda>m. Suc (need (snd m))) ms) \<le> n"
  shows "parse_members n (str_join (map (\<lambda>(k, v). json_quote k @ '':'' @ json_render v) ms) '','' @
     CHR ''}'' # r) = Some (ms, r)"
  using assms
proof (induction ms arbitrary: n)
  case (Cons m ms)
  then obtain p where n: "n = Suc p" by (cases n) auto
  obtain k v where m: "m = (k, v)" by (cases m)
  show ?case
  proof (cases "ms = []")
    case True
    have "parse_value p (json_render v @ CHR ''}'' # r) = Some (v, CHR ''}'' # r)"
      using Cons.prems(1) [of m p "CHR ''}'' # r"] Cons.prems(3) n m by (auto simp: ends_value_def)
    with n m True show ?thesis
      by (simp add: skip_ws_start is_json_ws_def json_quote_def parse_string_quote)
  next
    case False
    let ?t = "str_join (map (\<lambda>(k, v). json_quote k @ '':'' @ json_render v) ms) '','' @ CHR ''}'' # r"
    have "parse_value p (json_render v @ CHR '','' # ?t) = Some (v, CHR '','' # ?t)"
      using Cons.prems(1) [of m p "CHR '','' # ?t"] Cons.prems(3) n m by (auto simp: ends_value_def)
    moreover have "parse_members p ?t = Some (ms, r)"
      using Cons.prems n False by (intro Cons.IH) auto
    ultimately show ?thesis
      using n m False
      by (simp add: str_join_Cons skip_ws_start is_json_ws_def json_quote_def parse_string_quote)
  qed
qed simp

lemma str_join_hd:
  assumes "ps \<noteq> []" and "hd ps = c # t"
  obtains u where "str_join ps sep = c # u"
proof (cases ps)
  case (Cons p qs)
  with assms that show ?thesis by (cases qs) auto
qed (use assms in simp)

lemma parse_value_render:
  "wf_json j \<Longrightarrow> need j \<le> n \<Longrightarrow> ends_value r \<Longrightarrow> parse_value n (json_render j @ r) = Some (j, r)"
proof (induction j arbitrary: n r rule: need.induct [case_names Arr Obj Null Bool Num Str])
  case (Arr xs)
  then obtain m where n: "n = Suc m" by (cases n) auto
  show ?case
  proof (cases "xs = []")
    case True
    with n show ?thesis by (simp add: skip_ws_start is_json_ws_def)
  next
    case False
    then have "wf_json (hd xs)" using Arr.prems(1) by simp
    then obtain c t where "json_render (hd xs) = c # t" and c: "value_start c" by (rule json_render_hd)
    then obtain u where u: "str_join (map json_render xs) '','' = c # u"
      using str_join_hd [of "map json_render xs" c t "'',''"] False by (auto simp: hd_map)
    have "parse_elems m (str_join (map json_render xs) '','' @ CHR '']'' # r) = Some (xs, r)"
      using Arr n False by (intro parse_elems_render) auto
    with n u c show ?thesis by (auto simp: skip_ws_start is_json_ws_def value_start_def)
  qed
next
  case (Obj ms)
  then obtain m where n: "n = Suc m" by (cases n) auto
  let ?r = "\<lambda>(k, v). json_quote k @ '':'' @ json_render v"
  show ?case
  proof (cases "ms = []")
    case True
    with n show ?thesis by (simp add: skip_ws_start is_json_ws_def)
  next
    case False
    obtain t where "?r (hd ms) = CHR 0x22 # t" by (cases "hd ms") (simp add: json_quote_def)
    then obtain u where u: "str_join (map ?r ms) '','' = CHR 0x22 # u"
      using str_join_hd [of "map ?r ms" "CHR 0x22" t "'',''"] False by (auto simp: hd_map)
    have "parse_members m (str_join (map ?r ms) '','' @ CHR ''}'' # r) = Some (ms, r)"
      using Obj n False by (intro parse_members_render) auto
    with n u show ?thesis by (auto simp: skip_ws_start is_json_ws_def)
  qed
next
  case (Num l)
  then obtain i m where l: "l = itoa i" and n: "n = Suc m" by (cases n) auto
  obtain c t where ct: "itoa i = c # t" and c: "value_start c"
    "c \<notin> {CHR ''{'', CHR ''['', CHR 0x22, CHR ''t'', CHR ''f'', CHR ''n''}" by (rule itoa_hd)
  have "number_literal (c # t @ r) = Some (c # t, r)"
    using number_literal_itoa [OF Num.prems(3), of i] ct by simp
  with ct c l n show ?case by (auto simp: skip_ws_start value_start_def)
next
  case (Bool b)
  then obtain m where "n = Suc m" by (cases n) auto
  then show ?case by (cases b) (simp_all add: show_bool_def skip_ws_start is_json_ws_def)
next
  case (Str s)
  then obtain m where "n = Suc m" by (cases n) auto
  then show ?case by (simp add: skip_ws_start is_json_ws_def json_quote_def parse_string_quote)
next
  case Null
  then obtain m where "n = Suc m" by (cases n) auto
  then show ?case by (simp add: skip_ws_start is_json_ws_def)
qed

lemma json_parse_render:
  assumes "wf_json j"
  shows "json_parse (json_render j) = Some j"
proof -
  have "parse_value (2 * length (json_render j) + 1) (json_render j @ []) = Some (j, [])"
    using need_le [OF assms] by (intro parse_value_render [OF assms]) (auto simp: ends_value_def)
  then show ?thesis by (simp add: json_parse_def skip_ws_def)
qed

lemma json_render_inj:
  "wf_json i \<Longrightarrow> wf_json j \<Longrightarrow> json_render i = json_render j \<longleftrightarrow> i = j"
  by (metis json_parse_render option.inject)

section \<open>Base64\<close>

definition b64_char :: "nat \<Rightarrow> char" where
  "b64_char n = (if n < 26 then char_of (65 + n) else if n < 52 then char_of (71 + n)
     else if n < 62 then char_of (n - 4) else if n = 62 then CHR ''+'' else CHR ''/'')"

definition b64_value :: "char \<Rightarrow> nat option" where
  "b64_value c = (let n = of_char c :: nat in
     if 65 \<le> n \<and> n \<le> 90 then Some (n - 65)
     else if 97 \<le> n \<and> n \<le> 122 then Some (n - 71)
     else if 48 \<le> n \<and> n \<le> 57 then Some (n + 4)
     else if n = 43 then Some 62 else if n = 47 then Some 63 else None)"

fun base64_encode :: "bytes \<Rightarrow> string" where
  "base64_encode [] = []"
| "base64_encode [a] =
     [b64_char (unat a div 4), b64_char (unat a mod 4 * 16), CHR ''='', CHR ''='']"
| "base64_encode [a, b] =
     [b64_char (unat a div 4), b64_char (unat a mod 4 * 16 + unat b div 16),
      b64_char (unat b mod 16 * 4), CHR ''='']"
| "base64_encode (a # b # c # r) =
     b64_char (unat a div 4) # b64_char (unat a mod 4 * 16 + unat b div 16) #
     b64_char (unat b mod 16 * 4 + unat c div 64) # b64_char (unat c mod 64) # base64_encode r"

text \<open>\<^verbatim>\<open>base64.StdEncoding\<close> skips line breaks and wants the padding; extra bits are dropped.\<close>

fun base64_groups :: "string \<Rightarrow> bytes option" where
  "base64_groups [] = Some []"
| "base64_groups (p # q # x # y # r) =
     (case (b64_value p, b64_value q) of
        (Some i, Some j) \<Rightarrow>
          if x = CHR ''='' \<and> y = CHR ''='' \<and> r = [] then Some [word_of_nat (i * 4 + j div 16)]
          else (case b64_value x of
                  None \<Rightarrow> None
                | Some k \<Rightarrow>
                    if y = CHR ''='' \<and> r = []
                    then Some [word_of_nat (i * 4 + j div 16), word_of_nat (j mod 16 * 16 + k div 4)]
                    else (case (b64_value y, base64_groups r) of
                            (Some l, Some bs) \<Rightarrow>
                              Some (word_of_nat (i * 4 + j div 16) # word_of_nat (j mod 16 * 16 + k div 4) #
                                    word_of_nat (k mod 4 * 64 + l) # bs)
                          | _ \<Rightarrow> None))
      | _ \<Rightarrow> None)"
| "base64_groups _ = None"

definition base64_decode :: "string \<Rightarrow> bytes option" where
  "base64_decode s = base64_groups (filter (\<lambda>c. c \<noteq> CHR 0x0A \<and> c \<noteq> CHR 0x0D) s)"

lemma b64_char_code:
  "n < 64 \<Longrightarrow> (of_char (b64_char n) :: nat) =
     (if n < 26 then 65 + n else if n < 52 then 71 + n else if n < 62 then n - 4
      else if n = 62 then 43 else 47)"
  by (simp add: b64_char_def)

lemma b64_value_char [simp]: "n < 64 \<Longrightarrow> b64_value (b64_char n) = Some n"
  by (auto simp: b64_value_def b64_char_code Let_def)

lemma b64_char_ne:
  "n < 64 \<Longrightarrow> b64_char n \<noteq> CHR ''='' \<and> b64_char n \<noteq> CHR 0x0A \<and> b64_char n \<noteq> CHR 0x0D"
proof -
  assume n: "n < 64"
  have "b64_value (CHR ''='') = None" "b64_value (CHR 0x0A) = None" "b64_value (CHR 0x0D) = None"
    by (simp_all add: b64_value_def)
  with b64_value_char [OF n] show ?thesis by (metis option.distinct(1))
qed

lemma word_of_nat_unat: "word_of_nat (unat (x :: byte)) = x"
  by simp

lemma byte_parts:
  fixes a b c :: byte
  shows "unat a div 4 < 64" "unat a mod 4 * 16 < 64" "unat a mod 4 * 16 + unat b div 16 < 64"
    "unat b mod 16 * 4 < 64" "unat b mod 16 * 4 + unat c div 64 < 64" "unat c mod 64 < 64"
    "unat a div 4 * 4 + (unat a mod 4 * 16 + unat b div 16) div 16 = unat a"
    "(unat a mod 4 * 16 + unat b div 16) mod 16 * 16 + (unat b mod 16 * 4 + unat c div 64) div 4 = unat b"
    "(unat b mod 16 * 4 + unat c div 64) mod 4 * 64 + unat c mod 64 = unat c"
    "unat a div 4 * 4 + (unat a mod 4 * 16) div 16 = unat a"
    "(unat a mod 4 * 16 + unat b div 16) mod 16 * 16 + (unat b mod 16 * 4) div 4 = unat b"
proof -
  have *: "unat a < 256" "unat b < 256" "unat c < 256" by simp_all
  have d: "unat b div 16 < 16" "unat c div 64 < 4" using * by linarith+
  have m: "unat a mod 4 < 4" "unat b mod 16 < 16" by simp_all
  show "unat a div 4 < 64" using * by linarith
  show "unat a mod 4 * 16 < 64" using m by linarith
  show "unat a mod 4 * 16 + unat b div 16 < 64" using m d by linarith
  show "unat b mod 16 * 4 < 64" using m by linarith
  show "unat b mod 16 * 4 + unat c div 64 < 64" using m d by linarith
  show "unat c mod 64 < 64" by simp
  have "(unat a mod 4 * 16 + unat b div 16) div 16 = unat a mod 4" using d by simp
  then show "unat a div 4 * 4 + (unat a mod 4 * 16 + unat b div 16) div 16 = unat a" by simp
  have "(unat a mod 4 * 16 + unat b div 16) mod 16 = unat b div 16"
    "(unat b mod 16 * 4 + unat c div 64) div 4 = unat b mod 16" using d by simp_all
  then show "(unat a mod 4 * 16 + unat b div 16) mod 16 * 16 + (unat b mod 16 * 4 + unat c div 64) div 4 = unat b"
    by simp
  have "(unat b mod 16 * 4 + unat c div 64) mod 4 = unat c div 64" using d by simp
  then show "(unat b mod 16 * 4 + unat c div 64) mod 4 * 64 + unat c mod 64 = unat c" by simp
  show "unat a div 4 * 4 + (unat a mod 4 * 16) div 16 = unat a" by simp
  have "(unat a mod 4 * 16 + unat b div 16) mod 16 = unat b div 16" using d by simp
  then show "(unat a mod 4 * 16 + unat b div 16) mod 16 * 16 + (unat b mod 16 * 4) div 4 = unat b"
    by simp
qed

lemma base64_encode_no_break:
  "c \<in> set (base64_encode b) \<Longrightarrow> c \<noteq> CHR 0x0A \<and> c \<noteq> CHR 0x0D"
proof (induction b rule: base64_encode.induct)
  case (4 x y z r)
  then show ?case using b64_char_ne [OF byte_parts(1)] b64_char_ne [OF byte_parts(3)]
      b64_char_ne [OF byte_parts(5)] b64_char_ne [OF byte_parts(6)]
    by (simp only: base64_encode.simps list.set insert_iff) metis
next
  case (3 x y)
  then show ?case using b64_char_ne [OF byte_parts(1)] b64_char_ne [OF byte_parts(3)]
      b64_char_ne [OF byte_parts(4)] by auto
next
  case (2 x)
  then show ?case using b64_char_ne [OF byte_parts(1)] b64_char_ne [OF byte_parts(2)] by auto
qed simp

lemma base64_groups_encode: "base64_groups (base64_encode b) = Some b"
proof (induction b rule: base64_encode.induct)
  case (4 x y z r)
  note v = b64_value_char [OF byte_parts(1) [of x]] b64_value_char [OF byte_parts(3) [of x y]]
    b64_value_char [OF byte_parts(5) [of y z]] b64_value_char [OF byte_parts(6) [of z]]
  note ne = b64_char_ne [OF byte_parts(5) [of y z]] b64_char_ne [OF byte_parts(6) [of z]]
  from 4 show ?case
    by (simp only: base64_encode.simps base64_groups.simps v ne byte_parts option.case prod.case
        simp_thms if_False word_of_nat_unat)
next
  case (3 x y)
  note v = b64_value_char [OF byte_parts(1) [of x]] b64_value_char [OF byte_parts(3) [of x y]]
    b64_value_char [OF byte_parts(4) [of y]]
  note ne = b64_char_ne [OF byte_parts(4) [of y]]
  show ?case
    by (simp only: base64_encode.simps base64_groups.simps v ne byte_parts option.case prod.case
        simp_thms if_False if_True word_of_nat_unat)
next
  case (2 x)
  note v = b64_value_char [OF byte_parts(1) [of x]] b64_value_char [OF byte_parts(2) [of x]]
  show ?case
    by (simp only: base64_encode.simps base64_groups.simps v byte_parts option.case prod.case
        simp_thms if_False if_True word_of_nat_unat)
qed simp

lemma base64_decode_encode: "base64_decode (base64_encode b) = Some b"
proof -
  have "filter (\<lambda>c. c \<noteq> CHR 0x0A \<and> c \<noteq> CHR 0x0D) (base64_encode b) = base64_encode b"
    using base64_encode_no_break by (simp add: filter_id_conv)
  then show ?thesis by (simp add: base64_decode_def base64_groups_encode)
qed

lemma base64_inj: "base64_encode a = base64_encode b \<longleftrightarrow> a = b"
  by (metis base64_groups_encode option.inject)

section \<open>Struct fields\<close>

text \<open>
  The encoders of field types. A nil slice renders as \<^verbatim>\<open>null\<close>; a \<^verbatim>\<open>[]byte\<close> renders as base64.
\<close>

definition enc_int :: "int \<Rightarrow> json" where
  "enc_int i = JNum (itoa i)"

definition enc_bytes :: "bytes option \<Rightarrow> json" where
  "enc_bytes b = (case b of None \<Rightarrow> JNull | Some x \<Rightarrow> JStr (base64_encode x))"

definition enc_strings :: "string list option \<Rightarrow> json" where
  "enc_strings l = (case l of None \<Rightarrow> JNull | Some xs \<Rightarrow> JArr (map JStr xs))"

text \<open>\<^verbatim>\<open>strconv.ParseInt\<close> of a literal at 64 bits.\<close>

definition digits_value :: "string \<Rightarrow> nat" where
  "digits_value s = foldl (\<lambda>n c. n * 10 + (of_char c - 48)) 0 s"

definition parse_int64 :: "string \<Rightarrow> int option" where
  "parse_int64 l =
     (let neg = (l \<noteq> [] \<and> hd l = CHR ''-''); ds = (if neg then tl l else l);
          v = (if neg then - int (digits_value ds) else int (digits_value ds))
      in if ds \<noteq> [] \<and> list_all is_digit ds \<and> - (2 ^ 63) \<le> v \<and> v < 2 ^ 63 then Some v else None)"

text \<open>
  A setter stores a decoded value into a struct; \<^verbatim>\<open>null\<close> leaves scalars as they are and makes
  slices nil. \<open>decode_struct\<close> applies the setter of each known member in order, so that the
  last of several members of one name wins, and ignores unknown members.
\<close>

definition set_string :: "(string \<Rightarrow> 'r \<Rightarrow> 'r) \<Rightarrow> json \<Rightarrow> 'r \<Rightarrow> 'r option" where
  "set_string upd v r = (case v of JNull \<Rightarrow> Some r | JStr s \<Rightarrow> Some (upd s r) | _ \<Rightarrow> None)"

definition set_bool :: "(bool \<Rightarrow> 'r \<Rightarrow> 'r) \<Rightarrow> json \<Rightarrow> 'r \<Rightarrow> 'r option" where
  "set_bool upd v r = (case v of JNull \<Rightarrow> Some r | JBool b \<Rightarrow> Some (upd b r) | _ \<Rightarrow> None)"

definition set_int :: "(int \<Rightarrow> 'r \<Rightarrow> 'r) \<Rightarrow> json \<Rightarrow> 'r \<Rightarrow> 'r option" where
  "set_int upd v r = (case v of JNull \<Rightarrow> Some r
     | JNum l \<Rightarrow> map_option (\<lambda>i. upd i r) (parse_int64 l) | _ \<Rightarrow> None)"

definition dec_byte :: "json \<Rightarrow> byte option" where
  "dec_byte v = (case v of JNull \<Rightarrow> Some 0
     | JNum l \<Rightarrow> (case parse_int64 l of
         Some i \<Rightarrow> if 0 \<le> i \<and> i < 256 then Some (word_of_int i) else None | None \<Rightarrow> None)
     | _ \<Rightarrow> None)"

definition set_bytes :: "(bytes option \<Rightarrow> 'r \<Rightarrow> 'r) \<Rightarrow> json \<Rightarrow> 'r \<Rightarrow> 'r option" where
  "set_bytes upd v r = (case v of JNull \<Rightarrow> Some (upd None r)
     | JStr s \<Rightarrow> map_option (\<lambda>b. upd (Some b) r) (base64_decode s)
     | JArr xs \<Rightarrow> map_option (\<lambda>b. upd (Some b) r) (those (map dec_byte xs))
     | _ \<Rightarrow> None)"

definition dec_string :: "json \<Rightarrow> string option" where
  "dec_string v = (case v of JNull \<Rightarrow> Some [] | JStr s \<Rightarrow> Some s | _ \<Rightarrow> None)"

definition set_strings :: "(string list option \<Rightarrow> 'r \<Rightarrow> 'r) \<Rightarrow> json \<Rightarrow> 'r \<Rightarrow> 'r option" where
  "set_strings upd v r = (case v of JNull \<Rightarrow> Some (upd None r)
     | JArr xs \<Rightarrow> map_option (\<lambda>ss. upd (Some ss) r) (those (map dec_string xs)) | _ \<Rightarrow> None)"

type_synonym 'r field = "string \<times> (json \<Rightarrow> 'r \<Rightarrow> 'r option)"

fun find_field :: "'r field list \<Rightarrow> string \<Rightarrow> (json \<Rightarrow> 'r \<Rightarrow> 'r option) option" where
  "find_field [] k = None"
| "find_field ((name, f) # fs) k = (if to_lower name = to_lower k then Some f else find_field fs k)"

fun decode_members :: "'r field list \<Rightarrow> (string \<times> json) list \<Rightarrow> 'r \<Rightarrow> 'r option" where
  "decode_members fs [] r = Some r"
| "decode_members fs ((k, v) # ms) r =
     (case find_field fs k of
        None \<Rightarrow> decode_members fs ms r
      | Some f \<Rightarrow> (case f v r of None \<Rightarrow> None | Some r' \<Rightarrow> decode_members fs ms r'))"

definition decode_struct :: "'r field list \<Rightarrow> 'r \<Rightarrow> json \<Rightarrow> 'r option" where
  "decode_struct fs r j = (case j of JNull \<Rightarrow> Some r | JObj ms \<Rightarrow> decode_members fs ms r | _ \<Rightarrow> None)"

definition unmarshal_error :: gerror where
  "unmarshal_error = ENew ''invalid JSON value''"

text \<open>\<^verbatim>\<open>json.Unmarshal\<close> into a struct with the given fields; the text of its errors, which names the offending value, is abbreviated.\<close>

definition json_Unmarshal :: "'r field list \<Rightarrow> 'r \<Rightarrow> bytes \<Rightarrow> 'r res" where
  "json_Unmarshal fs r b =
     (case json_parse (go_string b) of
        None \<Rightarrow> Inl unmarshal_error
      | Some j \<Rightarrow> (case decode_struct fs r j of None \<Rightarrow> Inl unmarshal_error | Some r' \<Rightarrow> Inr r'))"

definition json_Marshal :: "json \<Rightarrow> bytes" where
  "json_Marshal j = go_bytes (json_render j)"

lemma digits_value_snoc: "digits_value (s @ [c]) = digits_value s * 10 + (of_char c - 48)"
  by (simp add: digits_value_def)

lemma digits_value_show_nat [simp]: "digits_value (show_nat n) = n"
proof (induction n rule: show_nat.induct)
  case (1 n)
  show ?case
  proof (cases "n < 10")
    case True
    then show ?thesis by (simp add: show_nat.simps [of n] digits_value_def of_char_digit)
  next
    case False
    then have "digits_value (show_nat n) = n div 10 * 10 + n mod 10"
      using "1.IH" by (simp add: show_nat.simps [of n] digits_value_snoc of_char_digit)
    then show ?thesis by simp
  qed
qed

lemma parse_int64_itoa:
  assumes "- (2 ^ 63) \<le> i" and "i < 2 ^ 63"
  shows "parse_int64 (itoa i) = Some i"
proof -
  have d: "list_all is_digit (show_nat n)" for n by (simp add: list_all_iff show_nat_digits)
  have "hd (show_nat n) \<noteq> CHR ''-''" for n
    using show_nat_no_minus [of n] by (metis hd_in_set show_nat_nonempty)
  with d assms show ?thesis by (simp add: parse_int64_def itoa_def Let_def) linarith
qed

lemma wf_json_enc [simp]:
  "wf_json (enc_int i)" "wf_json (enc_bytes b)" "wf_json (enc_strings l)"
  by (auto simp: enc_int_def enc_bytes_def enc_strings_def split: option.splits)

lemma set_enc [simp]:
  "set_string upd (JStr s) r = Some (upd s r)"
  "set_bool upd2 (JBool c) r = Some (upd2 c r)"
  "- (2 ^ 63) \<le> i \<Longrightarrow> i < 2 ^ 63 \<Longrightarrow> set_int upd3 (enc_int i) r = Some (upd3 i r)"
  "set_bytes upd4 (enc_bytes b) r = Some (upd4 b r)"
  by (auto simp: set_string_def set_bool_def set_int_def enc_int_def parse_int64_itoa set_bytes_def
      enc_bytes_def base64_decode_encode split: option.splits)

lemma those_dec_string [simp]: "those (map (dec_string \<circ> JStr) xs) = Some xs"
  by (induction xs) (simp_all add: dec_string_def)

lemma set_strings_enc [simp]: "set_strings upd (enc_strings l) r = Some (upd l r)"
  by (auto simp: set_strings_def enc_strings_def split: option.splits)

lemma json_Unmarshal_Marshal:
  "wf_json (JObj ms) \<Longrightarrow> json_Unmarshal fs r (json_Marshal (JObj ms)) =
     (case decode_members fs ms r of None \<Rightarrow> Inl unmarshal_error | Some r' \<Rightarrow> Inr r')"
  by (simp only: json_Unmarshal_def json_Marshal_def go_string_go_bytes json_parse_render
      decode_struct_def option.case json.case)

lemma json_Marshal_inj: "wf_json i \<Longrightarrow> wf_json j \<Longrightarrow> json_Marshal i = json_Marshal j \<longleftrightarrow> i = j"
  by (simp add: json_Marshal_def json_render_inj)

lemma enc_inj [simp]:
  "enc_int i = enc_int j \<longleftrightarrow> i = j"
  "enc_bytes a = enc_bytes b \<longleftrightarrow> a = b"
  by (auto simp: enc_int_def itoa_inj enc_bytes_def base64_inj split: option.splits)

lemma enc_strings_inj [simp]: "enc_strings a = enc_strings b \<longleftrightarrow> a = b"
proof -
  have "map JStr xs = map JStr ys \<longleftrightarrow> xs = ys" for xs ys
    by (rule inj_map_eq_map) (auto simp: inj_def)
  then show ?thesis by (auto simp: enc_strings_def split: option.splits)
qed

end
