(* ===== verification/Party_Ids.thy ===== *)
theory Party_Ids
  imports Go_Prelude
begin

text \<open>
  Party identities of the threshold protocols (\<^verbatim>\<open>pkg/mpc/party_id.go\<close>) and the versioned
  storage names (\<^verbatim>\<open>walletIDWithVersion\<close> of \<^verbatim>\<open>pkg/mpc/session.go\<close>).

  A \<^verbatim>\<open>tss.PartyID\<close> of tss-lib is the record of the three values given to \<^verbatim>\<open>tss.NewPartyID\<close>; its
  key is the natural number that \<^verbatim>\<open>KeyInt\<close> returns. The random identifiers of
  \<^verbatim>\<open>uuid.NewString\<close> come from a supply \<open>uuid\<close> (the identifier of the \<open>i\<close>-th call) and the
  order that \<^verbatim>\<open>tss.SortPartyIDs\<close> gives is a parameter.
\<close>

record PartyID =
  pid_Id :: string
  pid_Moniker :: string
  pid_Key :: nat

definition BackwardCompatibleVersion :: int where
  "BackwardCompatibleVersion = 0"

definition DefaultVersion :: int where
  "DefaultVersion = 1"

definition KeyBytes :: "PartyID \<Rightarrow> string" where
  "KeyBytes p = go_string (nat_be (pid_Key p))"

definition createPartyID :: "string \<Rightarrow> string \<Rightarrow> string \<Rightarrow> int \<Rightarrow> PartyID" where
  "createPartyID uuid nodeID label version =
     (let key = if version = BackwardCompatibleVersion
                then be_nat (go_bytes nodeID)
                else be_nat (go_bytes (nodeID @ '':'' @ itoa version))
      in \<lparr>pid_Id = uuid, pid_Moniker = label, pid_Key = key\<rparr>)"

fun partyIDToNodeID :: "PartyID option \<Rightarrow> string" where
  "partyIDToNodeID None = []"
| "partyIDToNodeID (Some p) = trim_space (cut_before CHR '':'' (KeyBytes p))"

definition partyIDsToNodeIDs :: "PartyID list \<Rightarrow> string list" where
  "partyIDsToNodeIDs pids = map (\<lambda>p. partyIDToNodeID (Some p)) pids"

definition comparePartyIDs :: "PartyID \<Rightarrow> PartyID \<Rightarrow> bool" where
  "comparePartyIDs x y = (KeyBytes x = KeyBytes y)"

text \<open>The loop of \<^verbatim>\<open>generatePartyIDs\<close>: \<open>self\<close> is overwritten by each matching peer.\<close>

fun generatePartyIDs_loop ::
  "(nat \<Rightarrow> string) \<Rightarrow> nat \<Rightarrow> string \<Rightarrow> string \<Rightarrow> int \<Rightarrow> string list \<Rightarrow>
   PartyID option \<Rightarrow> PartyID list \<Rightarrow> PartyID option \<times> PartyID list" where
  "generatePartyIDs_loop uuid i nodeID label version [] self acc = (self, acc)"
| "generatePartyIDs_loop uuid i nodeID label version (peerID # peers) self acc =
     (let partyID = createPartyID (uuid i) peerID label version;
          self' = if peerID = nodeID then Some partyID else self
      in generatePartyIDs_loop uuid (Suc i) nodeID label version peers self' (acc @ [partyID]))"

definition generatePartyIDs ::
  "(PartyID list \<Rightarrow> PartyID list) \<Rightarrow> (nat \<Rightarrow> string) \<Rightarrow> string \<Rightarrow> string \<Rightarrow> string list \<Rightarrow> int \<Rightarrow>
   PartyID option \<times> PartyID list" where
  "generatePartyIDs SortPartyIDs uuid nodeID label readyPeerIDs version =
     (let (self, partyIDs) =
            generatePartyIDs_loop uuid 0 nodeID label version readyPeerIDs None []
      in (self, SortPartyIDs partyIDs))"

definition walletIDWithVersion :: "string \<Rightarrow> int \<Rightarrow> string" where
  "walletIDWithVersion walletID version =
     (if version > 0 then walletID @ ''_v'' @ itoa version else walletID)"

section \<open>Node identifiers survive the big-integer key\<close>

text \<open>
  A node identifier is read back from a party key when it has no colon, no outer white
  space and does not start with a NUL byte (\<^verbatim>\<open>big.Int\<close> drops leading zero bytes). UUIDs and
  the names accepted by the peer configuration are of this form.
\<close>

definition wf_nodeID :: "string \<Rightarrow> bool" where
  "wf_nodeID s = (s \<noteq> [] \<and> CHR '':'' \<notin> set s \<and> hd s \<noteq> CHR 0x00 \<and>
     \<not> is_space (hd s) \<and> \<not> is_space (last s))"

lemma of_char_eq_0: "(of_char c :: byte) = 0 \<longleftrightarrow> c = CHR 0x00"
proof
  assume "(of_char c :: byte) = 0"
  then have "unat (of_char c :: byte) = 0" by simp
  then have "(of_char c :: nat) = of_char (CHR 0x00)" by (simp only: unat_of_char) simp
  then show "c = CHR 0x00" by (simp only: of_char_eq_iff)
qed simp

lemma key_bytes_roundtrip:
  assumes "s \<noteq> []" and "hd s \<noteq> CHR 0x00"
  shows "go_string (nat_be (be_nat (go_bytes s))) = s"
proof -
  from assms obtain c t where s: "s = c # t" and "c \<noteq> CHR 0x00" by (cases s) auto
  then have "dropWhile (\<lambda>x. x = 0) (go_bytes s) = go_bytes s"
    by (simp add: go_bytes_def of_char_eq_0)
  then show ?thesis by (simp add: nat_be_be_nat)
qed

definition party_key_text :: "string \<Rightarrow> int \<Rightarrow> string" where
  "party_key_text nodeID version =
     (if version = BackwardCompatibleVersion then nodeID else nodeID @ '':'' @ itoa version)"

lemma pid_Key_createPartyID:
  "pid_Key (createPartyID u n l v) = be_nat (go_bytes (party_key_text n v))"
  by (simp add: createPartyID_def party_key_text_def)

lemma KeyBytes_createPartyID:
  assumes "wf_nodeID n"
  shows "KeyBytes (createPartyID u n l v) = party_key_text n v"
proof -
  have "party_key_text n v \<noteq> []" and "hd (party_key_text n v) \<noteq> CHR 0x00"
    using assms by (auto simp: party_key_text_def wf_nodeID_def)
  then show ?thesis
    by (simp add: KeyBytes_def pid_Key_createPartyID key_bytes_roundtrip)
qed

lemma partyIDToNodeID_create:
  assumes "wf_nodeID n"
  shows "partyIDToNodeID (Some (createPartyID u n l v)) = n"
proof -
  have "cut_before CHR '':'' (party_key_text n v) = n"
    using assms by (auto simp: party_key_text_def wf_nodeID_def cut_before_id cut_before_append)
  then show ?thesis
    using assms by (simp add: KeyBytes_createPartyID trim_space_id wf_nodeID_def)
qed

lemma party_key_text_inj:
  assumes "wf_nodeID n" and "wf_nodeID m" and "party_key_text n v = party_key_text m w"
  shows "n = m \<and> v = w"
proof -
  have cut: "cut_before CHR '':'' (party_key_text k x) = k" if "wf_nodeID k" for k x
    using that by (auto simp: party_key_text_def wf_nodeID_def cut_before_id cut_before_append)
  have nm: "n = m" using cut [OF assms(1)] cut [OF assms(2)] assms(3) by metis
  then show ?thesis
    using assms(3) by (auto simp: party_key_text_def itoa_inj split: if_splits)
qed

lemma createPartyID_key_eq_iff:
  assumes "wf_nodeID n" and "wf_nodeID m"
  shows "pid_Key (createPartyID u n l v) = pid_Key (createPartyID u' m l' w) \<longleftrightarrow> n = m \<and> v = w"
proof
  assume "pid_Key (createPartyID u n l v) = pid_Key (createPartyID u' m l' w)"
  then have "KeyBytes (createPartyID u n l v) = KeyBytes (createPartyID u' m l' w)"
    by (simp add: KeyBytes_def)
  with assms show "n = m \<and> v = w" by (simp add: KeyBytes_createPartyID party_key_text_inj)
qed (simp add: pid_Key_createPartyID)

lemma comparePartyIDs_iff: "comparePartyIDs x y \<longleftrightarrow> pid_Key x = pid_Key y"
  unfolding comparePartyIDs_def KeyBytes_def by (metis be_nat_nat_be go_bytes_go_string)

section \<open>The party lists of a session\<close>

lemma generatePartyIDs_loop_map:
  assumes "\<And>u p. p \<in> set peers \<Longrightarrow> f (createPartyID u p label version) = g p"
  shows "map f (snd (generatePartyIDs_loop uuid i nodeID label version peers self acc)) =
     map f acc @ map g peers"
  using assms by (induction peers arbitrary: i self acc) (simp_all add: Let_def)

lemma generatePartyIDs_loop_self:
  assumes "self = None \<or> (\<exists>p u. self = Some p \<and> p \<in> set acc \<and> p = createPartyID u nodeID label version)"
    and "generatePartyIDs_loop uuid i nodeID label version peers self acc = (r, all)"
  shows "(r \<noteq> None \<longleftrightarrow> self \<noteq> None \<or> nodeID \<in> set peers) \<and>
    (r = None \<or> (\<exists>p u. r = Some p \<and> p \<in> set all \<and> p = createPartyID u nodeID label version))"
  using assms
proof (induction peers arbitrary: i self acc)
  case (Cons p peers)
  let ?q = "createPartyID (uuid i) p label version"
  let ?self = "if p = nodeID then Some ?q else self"
  have "?self = None \<or> (\<exists>p u. ?self = Some p \<and> p \<in> set (acc @ [?q]) \<and> p = createPartyID u nodeID label version)"
    using Cons.prems(1) by auto
  moreover have "generatePartyIDs_loop uuid (Suc i) nodeID label version peers ?self (acc @ [?q]) = (r, all)"
    using Cons.prems(2) by (simp add: Let_def)
  ultimately show ?case using Cons.IH [of ?self "acc @ [?q]" "Suc i"] by auto
qed auto

lemma generatePartyIDs_unfold:
  assumes "generatePartyIDs SortPartyIDs uuid nodeID label peers version = (self, all)"
  obtains ps where "generatePartyIDs_loop uuid 0 nodeID label version peers None [] = (self, ps)"
    and "all = SortPartyIDs ps"
  using assms by (auto simp: generatePartyIDs_def split: prod.splits)

lemma generatePartyIDs_nodes:
  assumes "\<And>xs. mset (SortPartyIDs xs) = mset xs"
    and "\<forall>p \<in> set peers. wf_nodeID p"
    and "generatePartyIDs SortPartyIDs uuid nodeID label peers version = (self, all)"
  shows "mset (partyIDsToNodeIDs all) = mset peers"
proof -
  from assms(3) obtain ps where
    ps: "generatePartyIDs_loop uuid 0 nodeID label version peers None [] = (self, ps)"
    and all: "all = SortPartyIDs ps" by (rule generatePartyIDs_unfold)
  have "map (\<lambda>p. partyIDToNodeID (Some p)) ps = peers"
    using generatePartyIDs_loop_map [of peers "\<lambda>p. partyIDToNodeID (Some p)" label version id uuid 0
      nodeID None "[]"] ps assms(2) by (simp add: partyIDToNodeID_create del: partyIDToNodeID.simps)
  then show ?thesis
    using all assms(1) [of ps] unfolding partyIDsToNodeIDs_def by (metis mset_map)
qed

lemma generatePartyIDs_keys:
  assumes "\<And>xs. mset (SortPartyIDs xs) = mset xs"
    and "generatePartyIDs SortPartyIDs uuid nodeID label peers version = (self, all)"
  shows "mset (map pid_Key all) = mset (map (\<lambda>p. be_nat (go_bytes (party_key_text p version))) peers)"
proof -
  from assms(2) obtain ps where
    ps: "generatePartyIDs_loop uuid 0 nodeID label version peers None [] = (self, ps)"
    and all: "all = SortPartyIDs ps" by (rule generatePartyIDs_unfold)
  have "map pid_Key ps = map (\<lambda>p. be_nat (go_bytes (party_key_text p version))) peers"
    using generatePartyIDs_loop_map [of peers pid_Key label version
      "\<lambda>p. be_nat (go_bytes (party_key_text p version))" uuid 0 nodeID None "[]"] ps
    by (simp add: pid_Key_createPartyID)
  then show ?thesis using all assms(1) [of ps] by (metis mset_map)
qed

lemma generatePartyIDs_self:
  assumes "\<And>xs. mset (SortPartyIDs xs) = mset xs"
    and "generatePartyIDs SortPartyIDs uuid nodeID label peers version = (self, all)"
  shows "self \<noteq> None \<longleftrightarrow> nodeID \<in> set peers"
    and "self = Some p \<Longrightarrow> p \<in> set all \<and> (\<exists>u. p = createPartyID u nodeID label version)"
proof -
  from assms(2) obtain ps where
    ps: "generatePartyIDs_loop uuid 0 nodeID label version peers None [] = (self, ps)"
    and all: "all = SortPartyIDs ps" by (rule generatePartyIDs_unfold)
  note self = generatePartyIDs_loop_self [OF disjI1 [OF refl] ps]
  show "self \<noteq> None \<longleftrightarrow> nodeID \<in> set peers" using self by auto
  show "self = Some p \<Longrightarrow> p \<in> set all \<and> (\<exists>u. p = createPartyID u nodeID label version)"
    using self all assms(1) [of ps] by (metis mset_eq_setD option.distinct(1) option.inject)
qed

section \<open>Versioned storage names\<close>

lemma walletIDWithVersion_inj:
  assumes "0 \<le> v" and "0 \<le> w"
    and "walletIDWithVersion x v = walletIDWithVersion x w"
  shows "v = w"
  using assms by (auto simp: walletIDWithVersion_def itoa_inj split: if_splits)

text \<open>Later share versions never overwrite the share of an earlier one.\<close>

lemma walletIDWithVersion_Suc_neq:
  "0 \<le> v \<Longrightarrow> walletIDWithVersion x (v + 1) \<noteq> walletIDWithVersion x v"
  using walletIDWithVersion_inj [of "v + 1" v x] by auto

end
