(* ===== verification/Messages.thy ===== *)
theory Messages
  imports Json Party_Ids
begin

text \<open>
  The wire messages of \<^verbatim>\<open>pkg/types\<close>: the requests an initiator signs (key generation, signing,
  resharing), the payload an authorizer signs, and the protocol messages \<^verbatim>\<open>TssMessage\<close> and
  \<^verbatim>\<open>ECDHMessage\<close> with the bytes that are signed for them.

  The JSON form of a \<^verbatim>\<open>tss.PartyID\<close> belongs to tss-lib; it is the parameter \<open>json_pid\<close>.
  A \<^verbatim>\<open>time.Time\<close> is kept as the text of its JSON form.
\<close>

section \<open>Initiator messages\<close>

type_synonym KeyType = string

definition KeyTypeSecp256k1 :: KeyType where
  "KeyTypeSecp256k1 = ''secp256k1''"

definition KeyTypeEd25519 :: KeyType where
  "KeyTypeEd25519 = ''ed25519''"

definition EventInitiatorKeyTypeEd25519 :: string where
  "EventInitiatorKeyTypeEd25519 = ''ed25519''"

definition EventInitiatorKeyTypeP256 :: string where
  "EventInitiatorKeyTypeP256 = ''p256''"

record AuthorizerSignature =
  as_AuthorizerID :: string
  as_Signature :: bytes

record GenerateKeyMessage =
  gk_WalletID :: string
  gk_Signature :: "bytes option"
  gk_AuthorizerSignatures :: "AuthorizerSignature list"

record SignTxMessage =
  st_KeyType :: KeyType
  st_WalletID :: string
  st_NetworkInternalCode :: string
  st_TxID :: string
  st_Tx :: "bytes option"
  st_Signature :: "bytes option"
  st_DerivationPath :: "32 word list"
  st_AuthorizerSignatures :: "AuthorizerSignature list"

record ResharingMessage =
  rs_SessionID :: string
  rs_NodeIDs :: "string list option"
  rs_NewThreshold :: int
  rs_KeyType :: KeyType
  rs_WalletID :: string
  rs_Signature :: "bytes option"
  rs_AuthorizerSignatures :: "AuthorizerSignature list"

text \<open>The interface \<^verbatim>\<open>InitiatorMessage\<close> and its three implementations.\<close>

datatype InitiatorMessage =
    GenerateKey GenerateKeyMessage
  | SignTx SignTxMessage
  | Resharing ResharingMessage

definition SignTx_payload :: "SignTxMessage \<Rightarrow> json" where
  "SignTx_payload m = JObj
     [(''key_type'', JStr (st_KeyType m)),
      (''wallet_id'', JStr (st_WalletID m)),
      (''network_internal_code'', JStr (st_NetworkInternalCode m)),
      (''tx_id'', JStr (st_TxID m)),
      (''tx'', enc_bytes (st_Tx m))]"

definition enc_AuthorizerSignature :: "AuthorizerSignature \<Rightarrow> json" where
  "enc_AuthorizerSignature a = JObj
     [(''authorizer_id'', JStr (as_AuthorizerID a)),
      (''signature'', enc_bytes (Some (as_Signature a)))]"

text \<open>The two fields tagged \<^verbatim>\<open>omitempty\<close> are left out when empty.\<close>

definition enc_ResharingMessage :: "ResharingMessage \<Rightarrow> json" where
  "enc_ResharingMessage m = JObj
     ([(''session_id'', JStr (rs_SessionID m)),
       (''node_ids'', enc_strings (rs_NodeIDs m)),
       (''new_threshold'', enc_int (rs_NewThreshold m)),
       (''key_type'', JStr (rs_KeyType m)),
       (''wallet_id'', JStr (rs_WalletID m))] @
      (if rs_Signature m = None \<or> rs_Signature m = Some [] then []
       else [(''signature'', enc_bytes (rs_Signature m))]) @
      (if rs_AuthorizerSignatures m = [] then []
       else [(''authorizer_signatures'', JArr (map enc_AuthorizerSignature (rs_AuthorizerSignatures m)))]))"

fun Raw :: "InitiatorMessage \<Rightarrow> bytes" where
  "Raw (GenerateKey m) = go_bytes (gk_WalletID m)"
| "Raw (SignTx m) = json_Marshal (SignTx_payload m)"
| "Raw (Resharing m) =
     json_Marshal (enc_ResharingMessage (m\<lparr>rs_Signature := None, rs_AuthorizerSignatures := []\<rparr>))"

fun Sig :: "InitiatorMessage \<Rightarrow> bytes option" where
  "Sig (GenerateKey m) = gk_Signature m"
| "Sig (SignTx m) = st_Signature m"
| "Sig (Resharing m) = rs_Signature m"

fun InitiatorID :: "InitiatorMessage \<Rightarrow> string" where
  "InitiatorID (GenerateKey m) = gk_WalletID m"
| "InitiatorID (SignTx m) = st_TxID m"
| "InitiatorID (Resharing m) = rs_WalletID m"

fun GetAuthorizerSignatures :: "InitiatorMessage \<Rightarrow> AuthorizerSignature list" where
  "GetAuthorizerSignatures (GenerateKey m) = gk_AuthorizerSignatures m"
| "GetAuthorizerSignatures (SignTx m) = st_AuthorizerSignatures m"
| "GetAuthorizerSignatures (Resharing m) = rs_AuthorizerSignatures m"

definition authorizer_payload :: "InitiatorMessage \<Rightarrow> json" where
  "authorizer_payload msg = JObj
     [(''initiator_id'', JStr (InitiatorID msg)),
      (''initiator_raw'', enc_bytes (Some (Raw msg))),
      (''initiator_sig'', enc_bytes (Sig msg))]"

definition ComposeAuthorizerRaw :: "InitiatorMessage \<Rightarrow> bytes" where
  "ComposeAuthorizerRaw msg = json_Marshal (authorizer_payload msg)"

section \<open>Protocol messages\<close>

record TssMessage =
  tm_WalletID :: string
  tm_MsgBytes :: "bytes option"
  tm_IsBroadcast :: bool
  tm_From :: "PartyID option"
  tm_To :: "PartyID list option"
  tm_IsToOldCommittee :: bool
  tm_IsToOldAndNewCommittees :: bool
  tm_Signature :: "bytes option"

definition NewTssMessage ::
  "string \<Rightarrow> bytes option \<Rightarrow> bool \<Rightarrow> PartyID option \<Rightarrow> PartyID list option \<Rightarrow> TssMessage" where
  "NewTssMessage walletID msgBytes isBroadcast from to =
     \<lparr>tm_WalletID = walletID, tm_MsgBytes = msgBytes, tm_IsBroadcast = isBroadcast,
      tm_From = from, tm_To = to, tm_IsToOldCommittee = False,
      tm_IsToOldAndNewCommittees = False, tm_Signature = None\<rparr>"

definition enc_pids :: "(PartyID \<Rightarrow> json) \<Rightarrow> PartyID list option \<Rightarrow> json" where
  "enc_pids json_pid ps = (case ps of None \<Rightarrow> JNull | Some xs \<Rightarrow> JArr (map json_pid xs))"

definition enc_TssMessage :: "(PartyID \<Rightarrow> json) \<Rightarrow> TssMessage \<Rightarrow> json" where
  "enc_TssMessage json_pid m = JObj
     [(''sessionID'', JStr (tm_WalletID m)),
      (''msgBytes'', enc_bytes (tm_MsgBytes m)),
      (''isBroadcast'', JBool (tm_IsBroadcast m)),
      (''from'', case tm_From m of None \<Rightarrow> JNull | Some p \<Rightarrow> json_pid p),
      (''to'', enc_pids json_pid (tm_To m)),
      (''isToOldCommittee'', JBool (tm_IsToOldCommittee m)),
      (''isToOldAndNewCommittees'', JBool (tm_IsToOldAndNewCommittees m)),
      (''signature'', enc_bytes (tm_Signature m))]"

definition MarshalTssMessage :: "(PartyID \<Rightarrow> json) \<Rightarrow> TssMessage \<Rightarrow> bytes" where
  "MarshalTssMessage json_pid m = json_Marshal (enc_TssMessage json_pid m)"

definition MarshalTssResharingMessage ::
  "(PartyID \<Rightarrow> json) \<Rightarrow> bytes option \<Rightarrow> bool \<Rightarrow> bool \<Rightarrow> bool \<Rightarrow> PartyID option \<Rightarrow>
   PartyID list option \<Rightarrow> bytes" where
  "MarshalTssResharingMessage json_pid msgBytes isToOldCommittee isBroadcast
       isToOldAndNewCommittees from to =
     json_Marshal (enc_TssMessage json_pid
       \<lparr>tm_WalletID = [], tm_MsgBytes = msgBytes, tm_IsBroadcast = isBroadcast,
        tm_From = from, tm_To = to, tm_IsToOldCommittee = isToOldCommittee,
        tm_IsToOldAndNewCommittees = isToOldAndNewCommittees, tm_Signature = None\<rparr>)"

definition set_pid ::
  "(json \<Rightarrow> PartyID option) \<Rightarrow> json \<Rightarrow> TssMessage \<Rightarrow> TssMessage option" where
  "set_pid dec_pid v m = (if v = JNull then Some (m\<lparr>tm_From := None\<rparr>)
     else map_option (\<lambda>p. m\<lparr>tm_From := Some p\<rparr>) (dec_pid v))"

definition set_pids ::
  "(json \<Rightarrow> PartyID option) \<Rightarrow> json \<Rightarrow> TssMessage \<Rightarrow> TssMessage option" where
  "set_pids dec_pid v m = (case v of JNull \<Rightarrow> Some (m\<lparr>tm_To := None\<rparr>)
     | JArr xs \<Rightarrow> map_option (\<lambda>ps. m\<lparr>tm_To := Some ps\<rparr>) (those (map dec_pid xs))
     | _ \<Rightarrow> None)"

definition TssMessage_fields :: "(json \<Rightarrow> PartyID option) \<Rightarrow> TssMessage field list" where
  "TssMessage_fields dec_pid =
     [(''sessionID'', set_string (\<lambda>s m. m\<lparr>tm_WalletID := s\<rparr>)),
      (''msgBytes'', set_bytes (\<lambda>b m. m\<lparr>tm_MsgBytes := b\<rparr>)),
      (''isBroadcast'', set_bool (\<lambda>b m. m\<lparr>tm_IsBroadcast := b\<rparr>)),
      (''from'', set_pid dec_pid),
      (''to'', set_pids dec_pid),
      (''isToOldCommittee'', set_bool (\<lambda>b m. m\<lparr>tm_IsToOldCommittee := b\<rparr>)),
      (''isToOldAndNewCommittees'', set_bool (\<lambda>b m. m\<lparr>tm_IsToOldAndNewCommittees := b\<rparr>)),
      (''signature'', set_bytes (\<lambda>b m. m\<lparr>tm_Signature := b\<rparr>))]"

definition UnmarshalTssMessage :: "(json \<Rightarrow> PartyID option) \<Rightarrow> bytes \<Rightarrow> TssMessage res" where
  "UnmarshalTssMessage dec_pid b =
     json_Unmarshal (TssMessage_fields dec_pid) (NewTssMessage [] None False None None) b"

text \<open>The keys of the signed map in the order \<^verbatim>\<open>json.Marshal\<close> sorts them; \<^verbatim>\<open>msg.From\<close> is not nil.\<close>

definition TssMessage_signing :: "(PartyID \<Rightarrow> json) \<Rightarrow> PartyID \<Rightarrow> TssMessage \<Rightarrow> json" where
  "TssMessage_signing json_pid from m = JObj
     [(''from'', JStr (pid_Id from)),
      (''isBroadcast'', JBool (tm_IsBroadcast m)),
      (''isToOldAndNewCommittees'', JBool (tm_IsToOldAndNewCommittees m)),
      (''isToOldCommittee'', JBool (tm_IsToOldCommittee m)),
      (''msgBytes'', enc_bytes (tm_MsgBytes m)),
      (''sessionID'', JStr (tm_WalletID m)),
      (''to'', enc_pids json_pid (tm_To m))]"

definition MarshalForSigning :: "(PartyID \<Rightarrow> json) \<Rightarrow> PartyID \<Rightarrow> TssMessage \<Rightarrow> bytes" where
  "MarshalForSigning json_pid from m = json_Marshal (TssMessage_signing json_pid from m)"

record StartMessage =
  sm_Params :: "bytes option"

definition MarshalStartMessage :: "bytes option \<Rightarrow> bytes" where
  "MarshalStartMessage params = json_Marshal (JObj [(''params'', enc_bytes params)])"

definition UnmarshalStartMessage :: "bytes \<Rightarrow> StartMessage res" where
  "UnmarshalStartMessage b =
     json_Unmarshal [(''params'', set_bytes (\<lambda>b m. m\<lparr>sm_Params := b\<rparr>))] \<lparr>sm_Params = None\<rparr> b"

record ECDHMessage =
  em_From :: string
  em_PublicKey :: "bytes option"
  em_Timestamp :: string
  em_Signature :: "bytes option"

definition ECDH_MarshalForSigning :: "ECDHMessage \<Rightarrow> bytes" where
  "ECDH_MarshalForSigning msg = json_Marshal (JObj
     [(''from'', JStr (em_From msg)),
      (''publicKey'', enc_bytes (em_PublicKey msg)),
      (''timestamp'', JStr (em_Timestamp msg))])"

section \<open>What a signature covers\<close>

lemma wf_payloads [simp]:
  "wf_json (SignTx_payload m)" "wf_json (enc_ResharingMessage r)" "wf_json (authorizer_payload i)"
  by (auto simp: SignTx_payload_def enc_ResharingMessage_def enc_AuthorizerSignature_def
      authorizer_payload_def)

lemma Raw_SignTx_eq:
  "Raw (SignTx m) = Raw (SignTx m') \<longleftrightarrow>
     st_KeyType m = st_KeyType m' \<and> st_WalletID m = st_WalletID m' \<and>
     st_NetworkInternalCode m = st_NetworkInternalCode m' \<and> st_TxID m = st_TxID m' \<and>
     st_Tx m = st_Tx m'"
  by (simp add: json_Marshal_inj) (auto simp: SignTx_payload_def)

lemma Raw_Resharing_eq:
  "Raw (Resharing m) = Raw (Resharing m') \<longleftrightarrow>
     rs_SessionID m = rs_SessionID m' \<and> rs_NodeIDs m = rs_NodeIDs m' \<and>
     rs_NewThreshold m = rs_NewThreshold m' \<and> rs_KeyType m = rs_KeyType m' \<and>
     rs_WalletID m = rs_WalletID m'"
  by (simp add: json_Marshal_inj) (auto simp: enc_ResharingMessage_def)

lemma Raw_SignTx_neq_Resharing: "Raw (SignTx m) \<noteq> Raw (Resharing r)"
  by (simp add: json_Marshal_inj) (simp add: SignTx_payload_def enc_ResharingMessage_def)

lemma ComposeAuthorizerRaw_eq:
  "ComposeAuthorizerRaw m = ComposeAuthorizerRaw m' \<longleftrightarrow>
     InitiatorID m = InitiatorID m' \<and> Raw m = Raw m' \<and> Sig m = Sig m'"
  unfolding ComposeAuthorizerRaw_def
  by (simp only: json_Marshal_inj wf_payloads) (auto simp: authorizer_payload_def)

section \<open>Protocol messages survive the wire\<close>

lemma wf_enc_pids: "(\<And>p. wf_json (json_pid p)) \<Longrightarrow> wf_json (enc_pids json_pid ps)"
  by (auto simp: enc_pids_def split: option.splits)

lemma wf_enc_TssMessage: "(\<And>p. wf_json (json_pid p)) \<Longrightarrow> wf_json (enc_TssMessage json_pid m)"
  by (auto simp: enc_TssMessage_def wf_enc_pids split: option.splits)

lemma set_pids_enc:
  assumes "\<And>p. dec_pid (json_pid p) = Some p"
  shows "set_pids dec_pid (enc_pids json_pid ps) m = Some (m\<lparr>tm_To := ps\<rparr>)"
proof -
  have "those (map (dec_pid \<circ> json_pid) xs) = Some xs" for xs by (induction xs) (simp_all add: assms)
  then show ?thesis by (auto simp: set_pids_def enc_pids_def split: option.splits)
qed

lemma set_pid_enc:
  assumes "\<And>p. dec_pid (json_pid p) = Some p" and "\<And>p. json_pid p \<noteq> JNull"
  shows "set_pid dec_pid (case ps of None \<Rightarrow> JNull | Some p \<Rightarrow> json_pid p) m = Some (m\<lparr>tm_From := ps\<rparr>)"
  using assms by (cases ps) (auto simp: set_pid_def)

lemma find_TssMessage_fields [simp]:
  "find_field (TssMessage_fields d) ''sessionID'' = Some (set_string (\<lambda>s m. m\<lparr>tm_WalletID := s\<rparr>))"
  "find_field (TssMessage_fields d) ''msgBytes'' = Some (set_bytes (\<lambda>b m. m\<lparr>tm_MsgBytes := b\<rparr>))"
  "find_field (TssMessage_fields d) ''isBroadcast'' = Some (set_bool (\<lambda>b m. m\<lparr>tm_IsBroadcast := b\<rparr>))"
  "find_field (TssMessage_fields d) ''from'' = Some (set_pid d)"
  "find_field (TssMessage_fields d) ''to'' = Some (set_pids d)"
  "find_field (TssMessage_fields d) ''isToOldCommittee'' =
     Some (set_bool (\<lambda>b m. m\<lparr>tm_IsToOldCommittee := b\<rparr>))"
  "find_field (TssMessage_fields d) ''isToOldAndNewCommittees'' =
     Some (set_bool (\<lambda>b m. m\<lparr>tm_IsToOldAndNewCommittees := b\<rparr>))"
  "find_field (TssMessage_fields d) ''signature'' = Some (set_bytes (\<lambda>b m. m\<lparr>tm_Signature := b\<rparr>))"
  by (simp_all add: TssMessage_fields_def to_lower_def lower_char_def)

lemma Unmarshal_MarshalTssMessage:
  assumes "\<And>p. wf_json (json_pid p)" and "\<And>p. json_pid p \<noteq> JNull"
    and "\<And>p. dec_pid (json_pid p) = Some p"
  shows "UnmarshalTssMessage dec_pid (MarshalTssMessage json_pid m) = Inr m"
proof -
  have "wf_json (enc_TssMessage json_pid m)" using assms(1) by (rule wf_enc_TssMessage)
  then show ?thesis
    unfolding UnmarshalTssMessage_def MarshalTssMessage_def enc_TssMessage_def
    by (simp add: json_Unmarshal_Marshal set_pid_enc [OF assms(3,2)] set_pids_enc [OF assms(3)]
        NewTssMessage_def)
qed

lemma Unmarshal_MarshalStartMessage:
  "UnmarshalStartMessage (MarshalStartMessage b) = Inr \<lparr>sm_Params = b\<rparr>"
  unfolding UnmarshalStartMessage_def MarshalStartMessage_def
  by (subst json_Unmarshal_Marshal) simp_all

lemma MarshalForSigning_eq:
  assumes "\<And>p. wf_json (json_pid p)" and "inj json_pid"
  shows "MarshalForSigning json_pid f m = MarshalForSigning json_pid f' m' \<longleftrightarrow>
    pid_Id f = pid_Id f' \<and> tm_IsBroadcast m = tm_IsBroadcast m' \<and>
    tm_IsToOldAndNewCommittees m = tm_IsToOldAndNewCommittees m' \<and>
    tm_IsToOldCommittee m = tm_IsToOldCommittee m' \<and> tm_MsgBytes m = tm_MsgBytes m' \<and>
    tm_WalletID m = tm_WalletID m' \<and> tm_To m = tm_To m'"
proof -
  have wf: "wf_json (TssMessage_signing json_pid f m)" for f m
    using assms(1) by (simp add: TssMessage_signing_def wf_enc_pids)
  have "enc_pids json_pid a = enc_pids json_pid b \<longleftrightarrow> a = b" for a b
    using assms(2) by (auto simp: enc_pids_def inj_map_eq_map split: option.splits)
  then show ?thesis
    unfolding MarshalForSigning_def
    by (simp only: json_Marshal_inj [OF wf wf]) (auto simp: TssMessage_signing_def)
qed

end
