(* ===== verification/Events.thy ===== *)
theory Events
  imports Messages
begin

text \<open>
  \<^verbatim>\<open>pkg/event\<close>: the subjects on which results are published, the operation identifiers, the
  result records, and the classification of error texts into error codes. The wrapping helper
  of \<^verbatim>\<open>pkg/common/errors\<close> is here too.
\<close>

section \<open>Result subjects\<close>

definition keygenResultSubjectPrefix :: string where
  "keygenResultSubjectPrefix = ''mpc.mpc_keygen_result''"

definition signingResultSubjectPrefix :: string where
  "signingResultSubjectPrefix = ''mpc.mpc_signing_result''"

definition reshareResultSubjectPrefix :: string where
  "reshareResultSubjectPrefix = ''mpc.mpc_reshare_result''"

definition signingResultCompleteToken :: string where
  "signingResultCompleteToken = ''complete''"

definition ResultStreamSubjects :: "string list" where
  "ResultStreamSubjects =
     [keygenResultSubjectPrefix @ ''.>'', signingResultSubjectPrefix @ ''.>'',
      reshareResultSubjectPrefix @ ''.>'']"

definition scopedSubject :: "string \<Rightarrow> string \<Rightarrow> string \<Rightarrow> string" where
  "scopedSubject pre clientID tail =
     (let parts = [pre];
          parts = (if clientID \<noteq> [] then parts @ [clientID] else parts);
          parts = parts @ [tail]
      in str_join parts ''.'')"

definition KeygenResultSubject :: "string \<Rightarrow> string \<Rightarrow> string" where
  "KeygenResultSubject clientID walletID = scopedSubject keygenResultSubjectPrefix clientID walletID"

definition KeygenResultSubscriptionSubject :: "string \<Rightarrow> string" where
  "KeygenResultSubscriptionSubject clientID = scopedSubject keygenResultSubjectPrefix clientID ''*''"

definition SigningResultSubject :: "string \<Rightarrow> string" where
  "SigningResultSubject clientID =
     scopedSubject signingResultSubjectPrefix clientID signingResultCompleteToken"

definition SigningResultSubscriptionSubject :: "string \<Rightarrow> string" where
  "SigningResultSubscriptionSubject clientID = SigningResultSubject clientID"

definition ReshareResultSubject :: "string \<Rightarrow> string \<Rightarrow> string" where
  "ReshareResultSubject clientID sessionID = scopedSubject reshareResultSubjectPrefix clientID sessionID"

definition ReshareResultSubscriptionSubject :: "string \<Rightarrow> string" where
  "ReshareResultSubscriptionSubject clientID = scopedSubject reshareResultSubjectPrefix clientID ''*''"

definition ResultConsumerName :: "string \<Rightarrow> string \<Rightarrow> string" where
  "ResultConsumerName base clientID = (if clientID = [] then base else base @ ''.'' @ clientID)"

definition ScopedOperationID :: "string \<Rightarrow> string \<Rightarrow> string" where
  "ScopedOperationID clientID operationID =
     (if clientID = [] then operationID else clientID @ '':'' @ operationID)"

section \<open>Result events\<close>

text \<open>
  \<^verbatim>\<open>ErrorCode\<close> and \<^verbatim>\<open>ResultType\<close> are string types with named constants; \<open>OtherErrorCode\<close> and
  \<open>OtherResultType\<close> stand for the other strings, which only a received event can hold.
\<close>

datatype ErrorCode =
    NoErrorCode
  | ErrorCodeUnknown
  | ErrorCodeNetworkTimeout | ErrorCodeNetworkConnection | ErrorCodeNetworkSubscription
  | ErrorCodeMessageRouting | ErrorCodeDirectMessaging
  | ErrorCodeSessionTimeout | ErrorCodeSessionCreation | ErrorCodeSessionInitialization
  | ErrorCodeSessionCleanup | ErrorCodeSessionDuplicate | ErrorCodeSessionStale
  | ErrorCodeInsufficientParticipants | ErrorCodeIncompatiblePeerIDs | ErrorCodePeerNotReady
  | ErrorCodePeerUnavailable | ErrorCodeParticipantNotFound
  | ErrorCodeKeyNotFound | ErrorCodeKeyAlreadyExists | ErrorCodeKeyGeneration | ErrorCodeKeySave
  | ErrorCodeKeyLoad | ErrorCodeKeyInfoSave | ErrorCodeKeyInfoLoad | ErrorCodeKeyEncoding
  | ErrorCodeKeyDecoding | ErrorCodeMsgValidation
  | ErrorCodeSignatureGeneration | ErrorCodeSignatureVerification
  | ErrorCodeInvalidInitiatorSignature | ErrorCodePreParamsGeneration | ErrorCodeTSSPartyCreation
  | ErrorCodeMissingAuthorizerSignature | ErrorCodeInvalidAuthorizerSignature
  | ErrorCodeMarshalFailure | ErrorCodeUnmarshalFailure | ErrorCodeDataCorruption
  | ErrorCodeStorageRead | ErrorCodeStorageWrite | ErrorCodeStorageInit
  | ErrorCodeMessageVerification | ErrorCodeMessageFormat | ErrorCodeMessageDelivery
  | ErrorCodeMaxDeliveryAttempts
  | ErrorCodeInvalidConfiguration | ErrorCodeInvalidThreshold | ErrorCodeInvalidSessionType
  | ErrorCodeResourceExhausted | ErrorCodeMemoryAllocation | ErrorCodeConcurrencyLimit
  | ErrorCodeKeygenFailure | ErrorCodeSigningFailure | ErrorCodeReshareFailure
  | ErrorCodeContextCancelled | ErrorCodeOperationAborted | ErrorCodeNotMajority
  | ErrorCodeClusterNotReady
  | OtherErrorCode string

datatype ResultType = ResultTypeSuccess | ResultTypeError | OtherResultType string

record KeygenResultEvent =
  kr_WalletID :: string
  kr_ECDSAPubKey :: bytes
  kr_EDDSAPubKey :: bytes
  kr_ResultType :: ResultType
  kr_ErrorReason :: string
  kr_ErrorCode :: ErrorCode

record SigningResultEvent =
  sr_ResultType :: ResultType
  sr_ErrorCode :: ErrorCode
  sr_ErrorReason :: string
  sr_IsTimeout :: bool
  sr_NetworkInternalCode :: string
  sr_WalletID :: string
  sr_TxID :: string
  sr_R :: bytes
  sr_S :: bytes
  sr_SignatureRecovery :: bytes
  sr_Signature :: bytes

record ResharingResultEvent =
  rr_WalletID :: string
  rr_NewThreshold :: int
  rr_KeyType :: KeyType
  rr_PubKey :: bytes
  rr_ResultType :: ResultType
  rr_ErrorReason :: string
  rr_ErrorCode :: ErrorCode

section \<open>Error codes\<close>

fun contains :: "string \<Rightarrow> string list \<Rightarrow> bool" where
  "contains str [] = False"
| "contains str (p # ps) = (str_contains (to_lower str) (to_lower p) \<or> contains str ps)"

definition error_code_of_text :: "string \<Rightarrow> ErrorCode" where
  "error_code_of_text s =
    (if contains s [''missing required authorizer signature''] then ErrorCodeMissingAuthorizerSignature
     else if contains s [''authorizer'', ''verification failed''] then ErrorCodeInvalidAuthorizerSignature
     else if contains s [''validation''] then ErrorCodeMsgValidation
     else if contains s [''timeout'', ''timed out''] then ErrorCodeNetworkTimeout
     else if contains s [''connection'', ''connect''] then ErrorCodeNetworkConnection
     else if contains s [''send''] then ErrorCodePeerUnavailable
     else if contains s [''not enough'', ''insufficient''] then ErrorCodeInsufficientParticipants
     else if contains s [''incompatible''] then ErrorCodeIncompatiblePeerIDs
     else if contains s [''not found'', ''no such key''] then ErrorCodeKeyNotFound
     else if contains s [''exists''] then ErrorCodeKeyAlreadyExists
     else if contains s [''marshal''] then ErrorCodeMarshalFailure
     else if contains s [''unmarshal''] then ErrorCodeUnmarshalFailure
     else if contains s [''storage'', ''kvstore''] then ErrorCodeStorageRead
     else if contains s [''save'', ''put''] then ErrorCodeStorageWrite
     else if contains s [''session''] then ErrorCodeSessionCreation
     else if contains s [''verify'', ''verification''] then ErrorCodeMessageVerification
     else if contains s [''delivery'', ''deliver''] then ErrorCodeMessageDelivery
     else if contains s [''context'', ''cancelled''] then ErrorCodeContextCancelled
     else if contains s [''invalid signature from initiator''] then ErrorCodeInvalidInitiatorSignature
     else if contains s [''duplicate''] then ErrorCodeSessionDuplicate
     else ErrorCodeUnknown)"

definition GetErrorCodeFromError :: "gerror option \<Rightarrow> ErrorCode" where
  "GetErrorCodeFromError err =
     (case err of None \<Rightarrow> NoErrorCode | Some e \<Rightarrow> error_code_of_text (Error e))"

definition Wrap :: "gerror \<Rightarrow> string \<Rightarrow> gerror" where
  "Wrap err msg = EWrap (msg @ '': '') err []"

section \<open>Subjects determine client and operation\<close>

definition token :: "string \<Rightarrow> bool" where
  "token s = (s \<noteq> [] \<and> CHR ''.'' \<notin> set s)"

lemma scopedSubject_simps:
  "scopedSubject pre [] tail = pre @ CHR ''.'' # tail"
  "c \<noteq> [] \<Longrightarrow> scopedSubject pre c tail = pre @ CHR ''.'' # c @ CHR ''.'' # tail"
  by (simp_all add: scopedSubject_def)

lemma scopedSubject_inj:
  assumes "token t" and "token t'" and "c = [] \<or> token c" and "c' = [] \<or> token c'"
    and "scopedSubject pre c t = scopedSubject pre c' t'"
  shows "c = c' \<and> t = t'"
proof -
  have "t = t' \<and> (c = [] \<longleftrightarrow> c' = [])"
  proof (cases "c = []")
    case True
    with assms show ?thesis
      by (cases "c' = []") (auto simp: scopedSubject_simps token_def)
  next
    case False
    show ?thesis
    proof (cases "c' = []")
      case True
      with False assms show ?thesis
        by (auto simp: scopedSubject_simps token_def)
    next
      case c': False
      with False assms have "c @ CHR ''.'' # t = c' @ CHR ''.'' # t'"
        by (simp add: scopedSubject_simps)
      then have "c = c' \<and> t = t'"
        using sep_append_inj [of c "CHR ''.''" t c' t'] False c' assms by (simp add: token_def)
      with False c' show ?thesis by simp
    qed
  qed
  moreover have "c = c'" if "c \<noteq> []" "c' \<noteq> []"
    using that assms sep_append_inj [of c "CHR ''.''" t c' t']
    by (auto simp: scopedSubject_simps token_def)
  ultimately show ?thesis by auto
qed

text \<open>
  The server decides which subscriptions a subject matches; \<open>M\<close> stands for it. It is documented to
  compare the tokens between the dots of valid subjects, where \<^verbatim>\<open>*\<close> in a subscription stands for one
  token and a final \<^verbatim>\<open>>\<close> for one or more. Tokens are not empty and hold no white space, and a subject
  that is published holds no wildcard. Nothing is said of other texts. \<open>nats_match\<close> is one \<open>M\<close> of this kind.
\<close>

fun nats_match_tokens :: "string list \<Rightarrow> string list \<Rightarrow> bool" where
  "nats_match_tokens [] [] = True"
| "nats_match_tokens (p # ps) [] = False"
| "nats_match_tokens [] (t # ts) = False"
| "nats_match_tokens (p # ps) (t # ts) =
     (if p = ''>'' \<and> ps = [] then True
      else (p = ''*'' \<or> p = t) \<and> nats_match_tokens ps ts)"

definition subject_token :: "string \<Rightarrow> bool" where
  "subject_token s \<longleftrightarrow> token s \<and> (\<forall>c \<in> set s. \<not> is_space c)"

definition plain_token :: "string \<Rightarrow> bool" where
  "plain_token s \<longleftrightarrow> subject_token s \<and> s \<noteq> ''*'' \<and> s \<noteq> ''>''"

definition nats_ok :: "(string \<Rightarrow> string \<Rightarrow> bool) \<Rightarrow> bool" where
  "nats_ok M \<longleftrightarrow>
     (\<forall>sub subj. list_all subject_token (str_split CHR ''.'' sub) \<and> list_all plain_token (str_split CHR ''.'' subj) \<longrightarrow>
        M sub subj = nats_match_tokens (str_split CHR ''.'' sub) (str_split CHR ''.'' subj))"

definition nats_match :: "string \<Rightarrow> string \<Rightarrow> bool" where
  "nats_match subscription subject =
     nats_match_tokens (str_split CHR ''.'' subscription) (str_split CHR ''.'' subject)"

lemma nats_match_ok: "nats_ok nats_match"
  by (simp add: nats_ok_def nats_match_def)

lemma str_split_no_sep: "d \<notin> set s \<Longrightarrow> str_split d s = [s]"
  by (induction s) auto

lemma str_split_sep: "d \<notin> set s \<Longrightarrow> str_split d (s @ d # t) = s # str_split d t"
  by (induction s) auto

lemma contains_mono: "contains s [p] \<Longrightarrow> p \<in> set ps \<Longrightarrow> contains s ps"
  by (induction ps) auto

lemma to_lower_append: "to_lower (a @ b) = to_lower a @ to_lower b"
  by (simp add: to_lower_def)

lemma contains_append: "contains s [p] \<Longrightarrow> contains (a @ s @ b) [p]"
  by (simp add: to_lower_append str_contains_append)

lemma contains_sub:
  assumes "contains s [p]" and "contains p [q]" shows "contains s [q]"
  using assms by (auto intro: str_contains_trans)

end
