(* ===== verification/Requests.thy ===== *)
theory Requests
  imports Events
begin

text \<open>
  The wire forms between initiators and nodes: decoding of the three request messages and of
  their authorizer signatures, encoding of the three result events, the NATS message with its
  headers, and the idempotency keys of \<^verbatim>\<open>pkg/eventconsumer\<close>.
\<close>

section \<open>NATS messages\<close>

text \<open>\<^verbatim>\<open>Header.Get\<close> of a missing header is the empty string.\<close>

record natsMsg =
  nm_Data :: bytes
  nm_Reply :: string
  nm_Header :: "string \<Rightarrow> string"

definition ClientIDHeader :: string where
  "ClientIDHeader = ''ClientID''"

definition clientID_of :: "natsMsg \<Rightarrow> string" where
  "clientID_of m = nm_Header m ClientIDHeader"

section \<open>Decoding requests\<close>

text \<open>
  A failed \<^verbatim>\<open>json.Unmarshal\<close> leaves the struct as far as it was filled: untouched when the text
  is not JSON, otherwise without the members of the wrong type.
\<close>

fun decode_partial :: "'r field list \<Rightarrow> (string \<times> json) list \<Rightarrow> 'r \<Rightarrow> 'r" where
  "decode_partial fs [] r = r"
| "decode_partial fs ((k, v) # ms) r =
     decode_partial fs ms
       (case find_field fs k of None \<Rightarrow> r | Some f \<Rightarrow> (case f v r of None \<Rightarrow> r | Some r' \<Rightarrow> r'))"

definition Unmarshal_partial :: "'r field list \<Rightarrow> 'r \<Rightarrow> bytes \<Rightarrow> 'r" where
  "Unmarshal_partial fs r b =
     (case json_parse (go_string b) of Some (JObj ms) \<Rightarrow> decode_partial fs ms r | _ \<Rightarrow> r)"

definition AuthorizerSignature_fields :: "AuthorizerSignature field list" where
  "AuthorizerSignature_fields =
     [(''authorizer_id'', set_string (\<lambda>s a. a\<lparr>as_AuthorizerID := s\<rparr>)),
      (''signature'', set_bytes (\<lambda>b a. a\<lparr>as_Signature := (case b of None \<Rightarrow> [] | Some x \<Rightarrow> x)\<rparr>))]"

definition set_sigs :: "(AuthorizerSignature list \<Rightarrow> 'r \<Rightarrow> 'r) \<Rightarrow> json \<Rightarrow> 'r \<Rightarrow> 'r option" where
  "set_sigs upd v r = (case v of JNull \<Rightarrow> Some (upd [] r)
     | JArr xs \<Rightarrow> map_option (\<lambda>l. upd l r)
         (those (map (decode_struct AuthorizerSignature_fields \<lparr>as_AuthorizerID = [], as_Signature = []\<rparr>) xs))
     | _ \<Rightarrow> None)"

definition dec_uint32 :: "json \<Rightarrow> 32 word option" where
  "dec_uint32 v = (case v of JNull \<Rightarrow> Some 0
     | JNum l \<Rightarrow> (case parse_int64 l of
         Some i \<Rightarrow> if 0 \<le> i \<and> i < 2 ^ 32 then Some (word_of_int i) else None | None \<Rightarrow> None)
     | _ \<Rightarrow> None)"

definition set_path :: "(32 word list \<Rightarrow> 'r \<Rightarrow> 'r) \<Rightarrow> json \<Rightarrow> 'r \<Rightarrow> 'r option" where
  "set_path upd v r = (case v of JNull \<Rightarrow> Some (upd [] r)
     | JArr xs \<Rightarrow> map_option (\<lambda>l. upd l r) (those (map dec_uint32 xs)) | _ \<Rightarrow> None)"

definition GenerateKeyMessage_fields :: "GenerateKeyMessage field list" where
  "GenerateKeyMessage_fields =
     [(''wallet_id'', set_string (\<lambda>s m. m\<lparr>gk_WalletID := s\<rparr>)),
      (''signature'', set_bytes (\<lambda>b m. m\<lparr>gk_Signature := b\<rparr>)),
      (''authorizer_signatures'', set_sigs (\<lambda>l m. m\<lparr>gk_AuthorizerSignatures := l\<rparr>))]"

definition zero_GenerateKeyMessage :: GenerateKeyMessage where
  "zero_GenerateKeyMessage = \<lparr>gk_WalletID = [], gk_Signature = None, gk_AuthorizerSignatures = []\<rparr>"

definition SignTxMessage_fields :: "SignTxMessage field list" where
  "SignTxMessage_fields =
     [(''key_type'', set_string (\<lambda>s m. m\<lparr>st_KeyType := s\<rparr>)),
      (''wallet_id'', set_string (\<lambda>s m. m\<lparr>st_WalletID := s\<rparr>)),
      (''network_internal_code'', set_string (\<lambda>s m. m\<lparr>st_NetworkInternalCode := s\<rparr>)),
      (''tx_id'', set_string (\<lambda>s m. m\<lparr>st_TxID := s\<rparr>)),
      (''tx'', set_bytes (\<lambda>b m. m\<lparr>st_Tx := b\<rparr>)),
      (''signature'', set_bytes (\<lambda>b m. m\<lparr>st_Signature := b\<rparr>)),
      (''derivation_path'', set_path (\<lambda>l m. m\<lparr>st_DerivationPath := l\<rparr>)),
      (''authorizer_signatures'', set_sigs (\<lambda>l m. m\<lparr>st_AuthorizerSignatures := l\<rparr>))]"

definition zero_SignTxMessage :: SignTxMessage where
  "zero_SignTxMessage = \<lparr>st_KeyType = [], st_WalletID = [], st_NetworkInternalCode = [], st_TxID = [],
     st_Tx = None, st_Signature = None, st_DerivationPath = [], st_AuthorizerSignatures = []\<rparr>"

definition ResharingMessage_fields :: "ResharingMessage field list" where
  "ResharingMessage_fields =
     [(''session_id'', set_string (\<lambda>s m. m\<lparr>rs_SessionID := s\<rparr>)),
      (''node_ids'', set_strings (\<lambda>l m. m\<lparr>rs_NodeIDs := l\<rparr>)),
      (''new_threshold'', set_int (\<lambda>n m. m\<lparr>rs_NewThreshold := n\<rparr>)),
      (''key_type'', set_string (\<lambda>s m. m\<lparr>rs_KeyType := s\<rparr>)),
      (''wallet_id'', set_string (\<lambda>s m. m\<lparr>rs_WalletID := s\<rparr>)),
      (''signature'', set_bytes (\<lambda>b m. m\<lparr>rs_Signature := b\<rparr>)),
      (''authorizer_signatures'', set_sigs (\<lambda>l m. m\<lparr>rs_AuthorizerSignatures := l\<rparr>))]"

definition zero_ResharingMessage :: ResharingMessage where
  "zero_ResharingMessage = \<lparr>rs_SessionID = [], rs_NodeIDs = None, rs_NewThreshold = 0, rs_KeyType = [],
     rs_WalletID = [], rs_Signature = None, rs_AuthorizerSignatures = []\<rparr>"

section \<open>Encoding results\<close>

fun error_code_string :: "ErrorCode \<Rightarrow> string" where
  "error_code_string NoErrorCode = []"
| "error_code_string ErrorCodeUnknown = ''ERROR_UNKNOWN''"
| "error_code_string ErrorCodeNetworkTimeout = ''ERROR_NETWORK_TIMEOUT''"
| "error_code_string ErrorCodeNetworkConnection = ''ERROR_NETWORK_CONNECTION''"
| "error_code_string ErrorCodeNetworkSubscription = ''ERROR_NETWORK_SUBSCRIPTION''"
| "error_code_string ErrorCodeMessageRouting = ''ERROR_MESSAGE_ROUTING''"
| "error_code_string ErrorCodeDirectMessaging = ''ERROR_DIRECT_MESSAGING''"
| "error_code_string ErrorCodeSessionTimeout = ''ERROR_SESSION_TIMEOUT''"
| "error_code_string ErrorCodeSessionCreation = ''ERROR_SESSION_CREATION''"
| "error_code_string ErrorCodeSessionInitialization = ''ERROR_SESSION_INITIALIZATION''"
| "error_code_string ErrorCodeSessionCleanup = ''ERROR_SESSION_CLEANUP''"
| "error_code_string ErrorCodeSessionDuplicate = ''ERROR_SESSION_DUPLICATE''"
| "error_code_string ErrorCodeSessionStale = ''ERROR_SESSION_STALE''"
| "error_code_string ErrorCodeInsufficientParticipants = ''ERROR_INSUFFICIENT_PARTICIPANTS''"
| "error_code_string ErrorCodeIncompatiblePeerIDs = ''ERROR_INCOMPATIBLE_PEER_IDS''"
| "error_code_string ErrorCodePeerNotReady = ''ERROR_PEER_NOT_READY''"
| "error_code_string ErrorCodePeerUnavailable = ''ERROR_PEER_UNAVAILABLE''"
| "error_code_string ErrorCodeParticipantNotFound = ''ERROR_PARTICIPANT_NOT_FOUND''"
| "error_code_string ErrorCodeKeyNotFound = ''ERROR_KEY_NOT_FOUND''"
| "error_code_string ErrorCodeKeyAlreadyExists = ''ERROR_KEY_ALREADY_EXISTS''"
| "error_code_string ErrorCodeKeyGeneration = ''ERROR_KEY_GENERATION''"
| "error_code_string ErrorCodeKeySave = ''ERROR_KEY_SAVE''"
| "error_code_string ErrorCodeKeyLoad = ''ERROR_KEY_LOAD''"
| "error_code_string ErrorCodeKeyInfoSave = ''ERROR_KEY_INFO_SAVE''"
| "error_code_string ErrorCodeKeyInfoLoad = ''ERROR_KEY_INFO_LOAD''"
| "error_code_string ErrorCodeKeyEncoding = ''ERROR_KEY_ENCODING''"
| "error_code_string ErrorCodeKeyDecoding = ''ERROR_KEY_DECODING''"
| "error_code_string ErrorCodeMsgValidation = ''ERROR_MSG_VALIDATION''"
| "error_code_string ErrorCodeSignatureGeneration = ''ERROR_SIGNATURE_GENERATION''"
| "error_code_string ErrorCodeSignatureVerification = ''ERROR_SIGNATURE_VERIFICATION''"
| "error_code_string ErrorCodeInvalidInitiatorSignature = ''ERROR_INVALID_INITIATOR_SIGNATURE''"
| "error_code_string ErrorCodePreParamsGeneration = ''ERROR_PRE_PARAMS_GENERATION''"
| "error_code_string ErrorCodeTSSPartyCreation = ''ERROR_TSS_PARTY_CREATION''"
| "error_code_string ErrorCodeMissingAuthorizerSignature = ''ERROR_MISSING_AUTHORIZER_SIGNATURE''"
| "error_code_string ErrorCodeInvalidAuthorizerSignature = ''ERROR_INVALID_AUTHORIZER_SIGNATURE''"
| "error_code_string ErrorCodeMarshalFailure = ''ERROR_MARSHAL_FAILURE''"
| "error_code_string ErrorCodeUnmarshalFailure = ''ERROR_UNMARSHAL_FAILURE''"
| "error_code_string ErrorCodeDataCorruption = ''ERROR_DATA_CORRUPTION''"
| "error_code_string ErrorCodeStorageRead = ''ERROR_STORAGE_READ''"
| "error_code_string ErrorCodeStorageWrite = ''ERROR_STORAGE_WRITE''"
| "error_code_string ErrorCodeStorageInit = ''ERROR_STORAGE_INIT''"
| "error_code_string ErrorCodeMessageVerification = ''ERROR_MESSAGE_VERIFICATION''"
| "error_code_string ErrorCodeMessageFormat = ''ERROR_MESSAGE_FORMAT''"
| "error_code_string ErrorCodeMessageDelivery = ''ERROR_MESSAGE_DELIVERY''"
| "error_code_string ErrorCodeMaxDeliveryAttempts = ''ERROR_MAX_DELIVERY_ATTEMPTS''"
| "error_code_string ErrorCodeInvalidConfiguration = ''ERROR_INVALID_CONFIGURATION''"
| "error_code_string ErrorCodeInvalidThreshold = ''ERROR_INVALID_THRESHOLD''"
| "error_code_string ErrorCodeInvalidSessionType = ''ERROR_INVALID_SESSION_TYPE''"
| "error_code_string ErrorCodeResourceExhausted = ''ERROR_RESOURCE_EXHAUSTED''"
| "error_code_string ErrorCodeMemoryAllocation = ''ERROR_MEMORY_ALLOCATION''"
| "error_code_string ErrorCodeConcurrencyLimit = ''ERROR_CONCURRENCY_LIMIT''"
| "error_code_string ErrorCodeKeygenFailure = ''ERROR_KEYGEN_FAILURE''"
| "error_code_string ErrorCodeSigningFailure = ''ERROR_SIGNING_FAILURE''"
| "error_code_string ErrorCodeReshareFailure = ''ERROR_RESHARE_FAILURE''"
| "error_code_string ErrorCodeContextCancelled = ''ERROR_CONTEXT_CANCELLED''"
| "error_code_string ErrorCodeOperationAborted = ''ERROR_OPERATION_ABORTED''"
| "error_code_string ErrorCodeNotMajority = ''ERROR_NOT_MAJORITY''"
| "error_code_string ErrorCodeClusterNotReady = ''ERROR_CLUSTER_NOT_READY''"
| "error_code_string (OtherErrorCode s) = s"

fun result_type_string :: "ResultType \<Rightarrow> string" where
  "result_type_string ResultTypeSuccess = ''success''"
| "result_type_string ResultTypeError = ''error''"
| "result_type_string (OtherResultType s) = s"

text \<open>A pub-key field of a result is nil when it was never set, which the model writes as \<open>[]\<close>.\<close>

definition enc_opt_bytes :: "bytes \<Rightarrow> json" where
  "enc_opt_bytes b = enc_bytes (if b = [] then None else Some b)"

definition enc_KeygenResultEvent :: "KeygenResultEvent \<Rightarrow> json" where
  "enc_KeygenResultEvent e = JObj
     [(''wallet_id'', JStr (kr_WalletID e)),
      (''ecdsa_pub_key'', enc_opt_bytes (kr_ECDSAPubKey e)),
      (''eddsa_pub_key'', enc_opt_bytes (kr_EDDSAPubKey e)),
      (''result_type'', JStr (result_type_string (kr_ResultType e))),
      (''error_reason'', JStr (kr_ErrorReason e)),
      (''error_code'', JStr (error_code_string (kr_ErrorCode e)))]"

definition enc_SigningResultEvent :: "SigningResultEvent \<Rightarrow> json" where
  "enc_SigningResultEvent e = JObj
     [(''result_type'', JStr (result_type_string (sr_ResultType e))),
      (''error_code'', JStr (error_code_string (sr_ErrorCode e))),
      (''error_reason'', JStr (sr_ErrorReason e)),
      (''is_timeout'', JBool (sr_IsTimeout e)),
      (''network_internal_code'', JStr (sr_NetworkInternalCode e)),
      (''wallet_id'', JStr (sr_WalletID e)),
      (''tx_id'', JStr (sr_TxID e)),
      (''r'', enc_opt_bytes (sr_R e)),
      (''s'', enc_opt_bytes (sr_S e)),
      (''signature_recovery'', enc_opt_bytes (sr_SignatureRecovery e)),
      (''signature'', enc_opt_bytes (sr_Signature e))]"

definition enc_ResharingResultEvent :: "ResharingResultEvent \<Rightarrow> json" where
  "enc_ResharingResultEvent e = JObj
     [(''wallet_id'', JStr (rr_WalletID e)),
      (''new_threshold'', enc_int (rr_NewThreshold e)),
      (''key_type'', JStr (rr_KeyType e)),
      (''pub_key'', enc_opt_bytes (rr_PubKey e)),
      (''result_type'', JStr (result_type_string (rr_ResultType e))),
      (''error_reason'', JStr (rr_ErrorReason e)),
      (''error_code'', JStr (error_code_string (rr_ErrorCode e)))]"

section \<open>Idempotency keys\<close>

text \<open>The formats are a fixed prefix and \<^verbatim>\<open>%s\<close>.\<close>

definition composeIdempotentKey :: "string \<Rightarrow> natsMsg \<Rightarrow> string \<Rightarrow> string" where
  "composeIdempotentKey baseID natMsg fmt_prefix =
     (let sid = nm_Header natMsg ''SessionID'';
          uniqueKey = (if sid \<noteq> [] then baseID @ '':'' @ sid else baseID)
      in fmt_prefix @ ScopedOperationID (clientID_of natMsg) uniqueKey)"

definition composeKeygenIdempotentKey :: "string \<Rightarrow> natsMsg \<Rightarrow> string" where
  "composeKeygenIdempotentKey walletID natMsg = composeIdempotentKey walletID natMsg ''mpc.mpc_keygen_result.''"

definition composeSigningIdempotentKey :: "string \<Rightarrow> natsMsg \<Rightarrow> string" where
  "composeSigningIdempotentKey txID natMsg = composeIdempotentKey txID natMsg ''mpc.mpc_signing_result.''"

definition composeReshareIdempotentKey :: "string \<Rightarrow> natsMsg \<Rightarrow> string" where
  "composeReshareIdempotentKey sessionID natMsg = composeIdempotentKey sessionID natMsg ''mpc.mpc_reshare_result.''"

text \<open>
  The key determines client, operation and delivery session when their texts hold no colon and
  both requests agree on whether a client and a session are named.
\<close>

lemma composeIdempotentKey_inj:
  assumes "composeIdempotentKey b m pre = composeIdempotentKey b' m' pre"
    and "CHR '':'' \<notin> set b" "CHR '':'' \<notin> set b'"
    and "CHR '':'' \<notin> set (clientID_of m)" "CHR '':'' \<notin> set (clientID_of m')"
    and "clientID_of m = [] \<longleftrightarrow> clientID_of m' = []"
    and "nm_Header m ''SessionID'' = [] \<longleftrightarrow> nm_Header m' ''SessionID'' = []"
  shows "b = b' \<and> clientID_of m = clientID_of m' \<and> nm_Header m ''SessionID'' = nm_Header m' ''SessionID''"
proof -
  let ?u = "\<lambda>b m. if nm_Header m ''SessionID'' \<noteq> [] then b @ '':'' @ nm_Header m ''SessionID'' else b"
  have sc: "ScopedOperationID (clientID_of m) (?u b m) = ScopedOperationID (clientID_of m') (?u b' m')"
    using assms(1) by (simp add: composeIdempotentKey_def Let_def)
  have cu: "clientID_of m = clientID_of m' \<and> ?u b m = ?u b' m'"
  proof (cases "clientID_of m = []")
    case True
    then show ?thesis using sc assms(6) by (simp add: ScopedOperationID_def)
  next
    case False
    then have "clientID_of m @ CHR '':'' # ?u b m = clientID_of m' @ CHR '':'' # ?u b' m'"
      using sc assms(6) by (simp add: ScopedOperationID_def)
    from sep_append_inj [OF this] show ?thesis using assms(4,5) by simp
  qed
  show ?thesis
  proof (cases "nm_Header m ''SessionID'' = []")
    case True
    then show ?thesis using cu assms(7) by simp
  next
    case False
    then have "b @ CHR '':'' # nm_Header m ''SessionID'' = b' @ CHR '':'' # nm_Header m' ''SessionID''"
      using cu assms(7) by simp
    from sep_append_inj [OF this] show ?thesis using assms(2,3) cu by simp
  qed
qed

definition all_error_codes :: "ErrorCode list" where
  "all_error_codes =
     [NoErrorCode, ErrorCodeUnknown, ErrorCodeNetworkTimeout, ErrorCodeNetworkConnection,
      ErrorCodeNetworkSubscription, ErrorCodeMessageRouting, ErrorCodeDirectMessaging,
      ErrorCodeSessionTimeout, ErrorCodeSessionCreation, ErrorCodeSessionInitialization,
      ErrorCodeSessionCleanup, ErrorCodeSessionDuplicate, ErrorCodeSessionStale,
      ErrorCodeInsufficientParticipants, ErrorCodeIncompatiblePeerIDs, ErrorCodePeerNotReady,
      ErrorCodePeerUnavailable, ErrorCodeParticipantNotFound, ErrorCodeKeyNotFound,
      ErrorCodeKeyAlreadyExists, ErrorCodeKeyGeneration, ErrorCodeKeySave, ErrorCodeKeyLoad,
      ErrorCodeKeyInfoSave, ErrorCodeKeyInfoLoad, ErrorCodeKeyEncoding, ErrorCodeKeyDecoding,
      ErrorCodeMsgValidation, ErrorCodeSignatureGeneration, ErrorCodeSignatureVerification,
      ErrorCodeInvalidInitiatorSignature, ErrorCodePreParamsGeneration,
      ErrorCodeTSSPartyCreation, ErrorCodeMissingAuthorizerSignature,
      ErrorCodeInvalidAuthorizerSignature, ErrorCodeMarshalFailure, ErrorCodeUnmarshalFailure,
      ErrorCodeDataCorruption, ErrorCodeStorageRead, ErrorCodeStorageWrite,
      ErrorCodeStorageInit, ErrorCodeMessageVerification, ErrorCodeMessageFormat,
      ErrorCodeMessageDelivery, ErrorCodeMaxDeliveryAttempts, ErrorCodeInvalidConfiguration,
      ErrorCodeInvalidThreshold, ErrorCodeInvalidSessionType, ErrorCodeResourceExhausted,
      ErrorCodeMemoryAllocation, ErrorCodeConcurrencyLimit, ErrorCodeKeygenFailure,
      ErrorCodeSigningFailure, ErrorCodeReshareFailure, ErrorCodeContextCancelled,
      ErrorCodeOperationAborted, ErrorCodeNotMajority, ErrorCodeClusterNotReady]"

definition named_code :: "ErrorCode \<Rightarrow> bool" where
  "named_code c = (case c of OtherErrorCode _ \<Rightarrow> False | _ \<Rightarrow> True)"

lemma set_all_error_codes: "named_code a \<longleftrightarrow> a \<in> set all_error_codes"
  by (cases a) (simp_all add: all_error_codes_def named_code_def)

lemma distinct_error_code_strings: "distinct (map error_code_string all_error_codes)"
  by code_simp

lemma error_code_string_inj:
  "named_code a \<Longrightarrow> named_code b \<Longrightarrow> error_code_string a = error_code_string b \<Longrightarrow> a = b"
  using distinct_error_code_strings set_all_error_codes by (auto simp: distinct_map inj_on_def)

text \<open>Reading a code or a result type back from its string.\<close>

definition parse_error_code :: "string \<Rightarrow> ErrorCode" where
  "parse_error_code s =
     (case find (\<lambda>c. error_code_string c = s) all_error_codes of Some c \<Rightarrow> c | None \<Rightarrow> OtherErrorCode s)"

definition parse_result_type :: "string \<Rightarrow> ResultType" where
  "parse_result_type s =
     (if s = ''success'' then ResultTypeSuccess else if s = ''error'' then ResultTypeError else OtherResultType s)"

lemma parse_error_code_string [simp]: "named_code c \<Longrightarrow> parse_error_code (error_code_string c) = c"
proof -
  assume c: "named_code c"
  then obtain c' where f: "find (\<lambda>d. error_code_string d = error_code_string c) all_error_codes = Some c'"
    using set_all_error_codes by (metis (mono_tags, lifting) find_None_iff option.exhaust)
  then have "error_code_string c' = error_code_string c" "c' \<in> set all_error_codes"
    by (auto simp: find_Some_iff)
  with c f show ?thesis using error_code_string_inj set_all_error_codes by (simp add: parse_error_code_def)
qed

lemma parse_result_type_string [simp]:
  "parse_result_type (result_type_string ResultTypeSuccess) = ResultTypeSuccess"
  "parse_result_type (result_type_string ResultTypeError) = ResultTypeError"
  by (simp_all add: parse_result_type_def)

end
