(* ===== verification/Messaging.thy ===== *)
theory Messaging
  imports Requests
begin

text \<open>
  \<^verbatim>\<open>pkg/messaging\<close>: the JetStream broker that carries requests, the result queues, publish and
  subscribe, and direct messages between nodes.

  The NATS library is outside of the sources: an operation takes the answers of the calls it
  makes as arguments and returns, beside its own result, what it asked the library to do. The
  enumerations of the library that the sources name are datatypes here; a duration is an
  integer of nanoseconds.
\<close>

section \<open>Configuration of a broker\<close>

definition Second :: int where "Second = 1000000000"
definition Millisecond :: int where "Millisecond = 1000000"
definition Hour :: int where "Hour = 3600 * Second"

datatype RetentionPolicy = LimitsPolicy | InterestPolicy | WorkQueuePolicy
datatype StorageType = FileStorage | MemoryStorage
datatype DiscardPolicy = DiscardOld | DiscardNew
datatype DeliverPolicy =
    DeliverAllPolicy | DeliverLastPolicy | DeliverNewPolicy
  | DeliverByStartSequencePolicy | DeliverByStartTimePolicy | DeliverLastPerSubjectPolicy
datatype AckPolicy = AckExplicitPolicy | AckAllPolicy | AckNonePolicy

definition ErrConsumerCreation :: string where "ErrConsumerCreation = ''failed to create consumer''"
definition ErrStreamCreation :: string where "ErrStreamCreation = ''failed to create stream''"
definition ErrConnectionClosed :: string where "ErrConnectionClosed = ''connection is closed''"

definition DefaultAckWait :: int where "DefaultAckWait = 30 * Second"
definition DefaultMaxDeliveryAttempts :: int where "DefaultMaxDeliveryAttempts = 3"
definition DefaultConsumerPrefix :: string where "DefaultConsumerPrefix = ''consumer''"
definition DefaultStreamMaxAge :: int where "DefaultStreamMaxAge = 7 * 24 * Hour"
definition DefaultStreamMaxBytes :: int where "DefaultStreamMaxBytes = 100000000"
definition DefaultBackoffDuration :: int where "DefaultBackoffDuration = 30 * Second"

record brokerConfiguration =
  bc_streamName :: string
  bc_subjects :: "string list"
  bc_description :: string
  bc_retention :: RetentionPolicy
  bc_storage :: StorageType
  bc_maxAge :: int
  bc_discard :: DiscardPolicy
  bc_ackWait :: int
  bc_maxDeliveryAttempts :: int
  bc_consumerNamePrefix :: string
  bc_deliverPolicy :: DeliverPolicy
  bc_backoffDurations :: "int list"
  bc_maxAckPending :: int
  bc_maxBytes :: int

type_synonym BrokerOption = "brokerConfiguration \<Rightarrow> brokerConfiguration"

definition WithStreamDescription :: "string \<Rightarrow> BrokerOption" where
  "WithStreamDescription description cfg = cfg\<lparr>bc_description := description\<rparr>"

definition WithRetentionPolicy :: "RetentionPolicy \<Rightarrow> BrokerOption" where
  "WithRetentionPolicy policy cfg = cfg\<lparr>bc_retention := policy\<rparr>"

definition WithStorageType :: "StorageType \<Rightarrow> BrokerOption" where
  "WithStorageType storage cfg = cfg\<lparr>bc_storage := storage\<rparr>"

definition WithMaxAge :: "int \<Rightarrow> BrokerOption" where
  "WithMaxAge maxAge cfg = cfg\<lparr>bc_maxAge := maxAge\<rparr>"

definition WithDiscardPolicy :: "DiscardPolicy \<Rightarrow> BrokerOption" where
  "WithDiscardPolicy policy cfg = cfg\<lparr>bc_discard := policy\<rparr>"

definition WithAckWait :: "int \<Rightarrow> BrokerOption" where
  "WithAckWait ackWait cfg = cfg\<lparr>bc_ackWait := ackWait\<rparr>"

definition WithMaxDeliveryAttempts :: "int \<Rightarrow> BrokerOption" where
  "WithMaxDeliveryAttempts maxAttempts cfg = cfg\<lparr>bc_maxDeliveryAttempts := maxAttempts\<rparr>"

definition WithConsumerNamePrefix :: "string \<Rightarrow> BrokerOption" where
  "WithConsumerNamePrefix pre cfg = cfg\<lparr>bc_consumerNamePrefix := pre\<rparr>"

definition WithDeliverPolicy :: "DeliverPolicy \<Rightarrow> BrokerOption" where
  "WithDeliverPolicy policy cfg = cfg\<lparr>bc_deliverPolicy := policy\<rparr>"

definition WithBackoffDurations :: "int list \<Rightarrow> BrokerOption" where
  "WithBackoffDurations durations cfg = cfg\<lparr>bc_backoffDurations := durations\<rparr>"

definition WithMaxBytes :: "int \<Rightarrow> BrokerOption" where
  "WithMaxBytes maxBytes cfg = cfg\<lparr>bc_maxBytes := maxBytes\<rparr>"

definition WithMaxAckPending :: "int \<Rightarrow> BrokerOption" where
  "WithMaxAckPending maxAckPending cfg = cfg\<lparr>bc_maxAckPending := maxAckPending\<rparr>"

definition default_configuration :: "string \<Rightarrow> string list \<Rightarrow> brokerConfiguration" where
  "default_configuration streamName subjects =
     \<lparr>bc_streamName = streamName, bc_subjects = subjects, bc_description = ''Stream for '' @ streamName,
      bc_retention = InterestPolicy, bc_storage = FileStorage, bc_maxAge = DefaultStreamMaxAge,
      bc_discard = DiscardOld, bc_ackWait = DefaultAckWait, bc_maxDeliveryAttempts = DefaultMaxDeliveryAttempts,
      bc_consumerNamePrefix = DefaultConsumerPrefix, bc_deliverPolicy = DeliverAllPolicy,
      bc_backoffDurations = [DefaultBackoffDuration, DefaultBackoffDuration, DefaultBackoffDuration],
      bc_maxAckPending = 0, bc_maxBytes = DefaultStreamMaxBytes\<rparr>"

section \<open>What the library is asked to do\<close>

text \<open>Fields of a configuration that the sources leave out have the zero value of the library.\<close>

record StreamConfig =
  sc_Name :: string
  sc_Description :: string
  sc_Subjects :: "string list"
  sc_Retention :: RetentionPolicy
  sc_MaxAge :: int
  sc_MaxBytes :: int
  sc_Discard :: DiscardPolicy
  sc_Storage :: StorageType

record ConsumerConfig =
  cc_Name :: string
  cc_Durable :: string
  cc_DeliverPolicy :: DeliverPolicy
  cc_AckPolicy :: AckPolicy
  cc_AckWait :: int
  cc_MaxDeliver :: int
  cc_BackOff :: "int list"
  cc_FilterSubjects :: "string list"
  cc_MaxAckPending :: int

type_synonym header = "(string, string) gomap"

record out_msg =
  om_Subject :: string
  om_Reply :: string
  om_Header :: header
  om_Data :: bytes

datatype nats_call =
    CreateOrUpdateStream StreamConfig
  | CreateOrUpdateConsumer string ConsumerConfig
  | PublishMsg out_msg
  | Consume string
  | Fetch string int int

record jetstream =
  js_New :: "gerror option"
  js_IsClosed :: bool
  js_Stream :: "StreamConfig \<Rightarrow> gerror option"
  js_Consumer :: "string \<Rightarrow> ConsumerConfig \<Rightarrow> gerror option"
  js_Publish :: "out_msg \<Rightarrow> gerror option"
  js_Consume :: "string \<Rightarrow> gerror option"

section \<open>The broker\<close>

fun replace_char :: "char \<Rightarrow> string \<Rightarrow> string \<Rightarrow> string" where
  "replace_char c t [] = []"
| "replace_char c t (d # s) = (if d = c then t @ replace_char c t s else d # replace_char c t s)"

text \<open>
  \<^verbatim>\<open>unicode.IsLetter\<close> of one byte, read as a code point: the letters of ASCII and Latin-1.
\<close>

definition is_letter :: "char \<Rightarrow> bool" where
  "is_letter c = (let n = of_char c :: nat in
     (65 \<le> n \<and> n \<le> 90) \<or> (97 \<le> n \<and> n \<le> 122) \<or> n = 170 \<or> n = 181 \<or> n = 186 \<or>
     (192 \<le> n \<and> n \<noteq> 215 \<and> n \<noteq> 247))"

definition sanitizeConsumerName :: "string \<Rightarrow> string" where
  "sanitizeConsumerName name =
     (let name = replace_char CHR ''.'' ''_'' name;
          name = replace_char CHR '':'' ''_'' name;
          name = replace_char CHR '' '' ''_'' name;
          name = replace_char CHR ''-'' ''_'' name;
          name = replace_char CHR ''>'' ''all'' name;
          name = replace_char CHR ''*'' ''any'' name
      in if name \<noteq> [] \<and> \<not> is_letter (hd name) \<and> hd name \<noteq> CHR ''_'' then ''_'' @ name else name)"

definition ensureStreamExists :: "jetstream \<Rightarrow> brokerConfiguration \<Rightarrow> unit res \<times> nats_call list" where
  "ensureStreamExists js cfg =
     (let streamConfig = \<lparr>sc_Name = bc_streamName cfg, sc_Description = bc_description cfg,
            sc_Subjects = bc_subjects cfg, sc_Retention = LimitsPolicy, sc_MaxAge = bc_maxAge cfg,
            sc_MaxBytes = bc_maxBytes cfg, sc_Discard = DiscardOld, sc_Storage = FileStorage\<rparr>
      in (case js_Stream js streamConfig of
            Some e \<Rightarrow> Inl (EWrap [] (ESentinel ErrStreamCreation)
              ('' for stream '' @ [CHR 0x27] @ bc_streamName cfg @ [CHR 0x27] @ '': '' @ Error e))
          | None \<Rightarrow> Inr (),
          [CreateOrUpdateStream streamConfig]))"

definition NewJetStreamBroker ::
  "jetstream \<Rightarrow> string \<Rightarrow> string list \<Rightarrow> BrokerOption list \<Rightarrow> brokerConfiguration res \<times> nats_call list" where
  "NewJetStreamBroker js streamName subjects opts =
     (let config = fold (\<lambda>opt cfg. opt cfg) opts (default_configuration streamName subjects) in
      case js_New js of
        Some e \<Rightarrow> (Inl (EWrap ''failed to create JetStream context: '' e []), [])
      | None \<Rightarrow>
          (case ensureStreamExists js config of
             (Inl e, calls) \<Rightarrow> (Inl (EWrap ''failed to ensure stream exists: '' e []), calls)
           | (Inr _, calls) \<Rightarrow> (Inr config, calls)))"

text \<open>\<^verbatim>\<open>range\<close> over a map goes through its keys in some order; each key occurs once.\<close>

definition applyHeaders :: "header \<Rightarrow> header \<Rightarrow> header" where
  "applyHeaders dst headers = fold (\<lambda>(k, v) d. AList.update k v d) headers dst"

definition PublishMessage ::
  "jetstream \<Rightarrow> string \<Rightarrow> bytes \<Rightarrow> header \<Rightarrow> unit res \<times> nats_call list" where
  "PublishMessage js subject data headers =
     (if js_IsClosed js then (Inl (ESentinel ErrConnectionClosed), [])
      else (let msg = \<lparr>om_Subject = subject, om_Reply = [], om_Header = applyHeaders [] headers, om_Data = data\<rparr> in
            (case js_Publish js msg of
               Some e \<Rightarrow> Inl (EWrap (''failed to publish message to subject '' @ subject @ '': '') e [])
             | None \<Rightarrow> Inr (),
             [PublishMsg msg])))"

definition consumer_config :: "brokerConfiguration \<Rightarrow> string \<Rightarrow> string \<Rightarrow> ConsumerConfig" where
  "consumer_config cfg sanitizedName subject =
     \<lparr>cc_Name = sanitizedName, cc_Durable = sanitizedName, cc_DeliverPolicy = bc_deliverPolicy cfg,
      cc_AckPolicy = AckExplicitPolicy, cc_AckWait = bc_ackWait cfg,
      cc_MaxDeliver = bc_maxDeliveryAttempts cfg + 1, cc_BackOff = bc_backoffDurations cfg,
      cc_FilterSubjects = [subject], cc_MaxAckPending = bc_maxAckPending cfg\<rparr>"

definition creation_error :: "brokerConfiguration \<Rightarrow> string \<Rightarrow> gerror \<Rightarrow> gerror" where
  "creation_error cfg name e = EWrap [] (ESentinel ErrConsumerCreation)
     ('' for consumer '' @ [CHR 0x27] @ name @ [CHR 0x27] @ '' on stream '' @ [CHR 0x27] @ bc_streamName cfg @
      [CHR 0x27] @ '': '' @ Error e)"

definition CreateSubscription ::
  "jetstream \<Rightarrow> brokerConfiguration \<Rightarrow> string \<Rightarrow> string \<Rightarrow> string res \<times> nats_call list" where
  "CreateSubscription js cfg consumerName subject =
     (if js_IsClosed js then (Inl (ESentinel ErrConnectionClosed), [])
      else (let sanitizedName = sanitizeConsumerName consumerName;
                consumerConfig = consumer_config cfg sanitizedName subject;
                create = CreateOrUpdateConsumer (bc_streamName cfg) consumerConfig
            in case js_Consumer js (bc_streamName cfg) consumerConfig of
                 Some e \<Rightarrow> (Inl (creation_error cfg sanitizedName e), [create])
               | None \<Rightarrow>
                   (case js_Consume js sanitizedName of
                      Some e \<Rightarrow> Inl (EWrap (''failed to start consuming messages for consumer '' @ [CHR 0x27] @
                        sanitizedName @ [CHR 0x27] @ '' on stream '' @ [CHR 0x27] @ bc_streamName cfg @ [CHR 0x27] @ '': '') e [])
                    | None \<Rightarrow> Inr sanitizedName,
                    [create, Consume sanitizedName])))"

text \<open>\<open>batch\<close> is what the library delivers for the fetch; the handler is called on each message.\<close>

definition FetchMessages ::
  "jetstream \<Rightarrow> (string \<Rightarrow> 'm list res) \<Rightarrow> brokerConfiguration \<Rightarrow> string \<Rightarrow> string \<Rightarrow> int \<Rightarrow> ('m \<Rightarrow> 'h) \<Rightarrow>
   'h list res \<times> nats_call list" where
  "FetchMessages js batch cfg consumerName subject batchSize handler =
     (if js_IsClosed js then (Inl (ESentinel ErrConnectionClosed), [])
      else (let sanitizedName = sanitizeConsumerName consumerName;
                consumerConfig = consumer_config cfg sanitizedName subject;
                create = CreateOrUpdateConsumer (bc_streamName cfg) consumerConfig
            in case js_Consumer js (bc_streamName cfg) consumerConfig of
                 Some e \<Rightarrow> (Inl (creation_error cfg sanitizedName e), [create])
               | None \<Rightarrow>
                   (case batch sanitizedName of
                      Inl e \<Rightarrow> Inl (EWrap (''failed to fetch messages for consumer '' @ [CHR 0x27] @ sanitizedName @
                        [CHR 0x27] @ '': '') e [])
                    | Inr msgs \<Rightarrow> Inr (map handler msgs),
                    [create, Fetch sanitizedName batchSize (bc_ackWait cfg)])))"

section \<open>Result queues\<close>

definition ErrPermament :: string where "ErrPermament = ''Permanent messaging error''"

record msgQueue =
  mq_consumerName :: string

definition NewNATsMessageQueueManager ::
  "jetstream \<Rightarrow> string \<Rightarrow> string list \<Rightarrow> string outcome \<times> nats_call list" where
  "NewNATsMessageQueueManager js queueName subjectWildCards =
     (case js_New js of
        Some e \<Rightarrow> (Aborts ''Error creating JetStream context: '', [])
      | None \<Rightarrow>
          (let cfg = \<lparr>sc_Name = queueName, sc_Description = ''Stream for '' @ queueName,
                 sc_Subjects = subjectWildCards, sc_Retention = WorkQueuePolicy, sc_MaxAge = 0,
                 sc_MaxBytes = 100000000, sc_Discard = DiscardOld, sc_Storage = FileStorage\<rparr>
           in (case js_Stream js cfg of
                 Some e \<Rightarrow> Aborts ''Error creating JetStream stream: ''
               | None \<Rightarrow> Returns queueName,
               [CreateOrUpdateStream cfg])))"

definition NewMessageQueue ::
  "jetstream \<Rightarrow> string \<Rightarrow> string \<Rightarrow> string \<Rightarrow> msgQueue outcome \<times> nats_call list" where
  "NewMessageQueue js queueName consumerName filterSubject =
     (let sanitizedConsumerName = sanitizeConsumerName consumerName;
          cfg = \<lparr>cc_Name = sanitizedConsumerName, cc_Durable = sanitizedConsumerName,
            cc_DeliverPolicy = DeliverAllPolicy, cc_AckPolicy = AckExplicitPolicy, cc_AckWait = 30 * Second,
            cc_MaxDeliver = 3, cc_BackOff = [], cc_FilterSubjects = [filterSubject], cc_MaxAckPending = 1000\<rparr>
      in (case js_Consumer js queueName cfg of
            Some e \<Rightarrow> Aborts ''Error creating JetStream consumer: ''
          | None \<Rightarrow> Returns \<lparr>mq_consumerName = sanitizedConsumerName\<rparr>,
          [CreateOrUpdateConsumer queueName cfg]))"

text \<open>The options of \<^verbatim>\<open>Enqueue\<close> are nil or hold the idempotency key.\<close>

definition Enqueue_msg :: "string \<Rightarrow> bytes \<Rightarrow> string option \<Rightarrow> out_msg" where
  "Enqueue_msg topic message options =
     \<lparr>om_Subject = topic, om_Reply = [],
      om_Header = (case options of None \<Rightarrow> [] | Some key \<Rightarrow> [(''Nats-Msg-Id'', key)]), om_Data = message\<rparr>"

definition mq_Enqueue ::
  "jetstream \<Rightarrow> string \<Rightarrow> bytes \<Rightarrow> string option \<Rightarrow> unit res \<times> nats_call list" where
  "mq_Enqueue js topic message options =
     (let msg = Enqueue_msg topic message options in
      (case js_Publish js msg of
         Some e \<Rightarrow> Inl (EWrap ''error enqueueing message: '' e [])
       | None \<Rightarrow> Inr (),
       [PublishMsg msg]))"

text \<open>What the callback of \<^verbatim>\<open>Dequeue\<close> answers the server for a message.\<close>

datatype settlement = Ack | Nak | Term

definition Dequeue_callback :: "(bytes \<Rightarrow> unit res) \<Rightarrow> bytes \<Rightarrow> settlement" where
  "Dequeue_callback handler data =
     (case handler data of
        Inl e \<Rightarrow> if errors_Is e ErrPermament then Term else Nak
      | Inr _ \<Rightarrow> Ack)"

text \<open>
  The context of a consumer is kept only when \<^verbatim>\<open>Consume\<close> succeeds; \<^verbatim>\<open>Close\<close> and \<^verbatim>\<open>Unsubscribe\<close> stop the
  contexts they return here.
\<close>

definition mq_Dequeue :: "'ctx res \<Rightarrow> 'ctx option \<times> gerror option" where
  "mq_Dequeue consume = (case consume of Inl e \<Rightarrow> (None, Some e) | Inr c \<Rightarrow> (Some c, None))"

definition mq_Close :: "'ctx option \<Rightarrow> 'ctx list" where
  "mq_Close consumerContext = (case consumerContext of None \<Rightarrow> [] | Some c \<Rightarrow> [c])"

definition subscription_Unsubscribe :: "'ctx option \<Rightarrow> 'ctx list \<times> gerror option" where
  "subscription_Unsubscribe consumeContext = (case consumeContext of None \<Rightarrow> ([], None) | Some c \<Rightarrow> ([c], None))"

text \<open>The stream of a broker, and its connection: nil, or with a flag that tells whether it is closed.\<close>

definition GetStreamInfo :: "(string \<Rightarrow> 's res) \<Rightarrow> ('s \<Rightarrow> 'i res) \<Rightarrow> string \<Rightarrow> 'i res" where
  "GetStreamInfo stream info streamName =
     (case stream streamName of
        Inl e \<Rightarrow> Inl (EWrap (''failed to get stream '' @ [CHR 0x27] @ streamName @ [CHR 0x27] @ '': '') e [])
      | Inr s \<Rightarrow> info s)"

definition broker_Close :: "bool option \<Rightarrow> bool option \<times> gerror option" where
  "broker_Close conn = (case conn of Some False \<Rightarrow> (Some True, None) | c \<Rightarrow> (c, None))"

section \<open>Publish and subscribe\<close>

definition pubsub_Publish ::
  "(out_msg \<Rightarrow> gerror option) \<Rightarrow> string \<Rightarrow> bytes \<Rightarrow> header \<Rightarrow> unit res \<times> nats_call list" where
  "pubsub_Publish conn topic message headers =
     (let msg = \<lparr>om_Subject = topic, om_Reply = [], om_Header = applyHeaders [] headers, om_Data = message\<rparr> in
      (case conn msg of Some e \<Rightarrow> Inl e | None \<Rightarrow> Inr (), [PublishMsg msg]))"

definition PublishWithReply ::
  "(out_msg \<Rightarrow> gerror option) \<Rightarrow> string \<Rightarrow> string \<Rightarrow> bytes \<Rightarrow> header \<Rightarrow> unit res \<times> nats_call list" where
  "PublishWithReply conn topic reply data headers =
     (let msg = \<lparr>om_Subject = topic, om_Reply = reply, om_Header = applyHeaders [] headers, om_Data = data\<rparr> in
      (case conn msg of Some e \<Rightarrow> Inl e | None \<Rightarrow> Inr (), [PublishMsg msg]))"

text \<open>The message a subscriber gets; \<^verbatim>\<open>Header.Get\<close> of an absent header is empty.\<close>

definition received :: "out_msg \<Rightarrow> natsMsg" where
  "received m = \<lparr>nm_Data = om_Data m, nm_Reply = om_Reply m,
     nm_Header = (\<lambda>h. case map_of (om_Header m) h of None \<Rightarrow> [] | Some v \<Rightarrow> v)\<rparr>"

section \<open>Direct messages\<close>

text \<open>The handlers are functions; they appear as names of type \<open>'h\<close>.\<close>

record 'h directMessaging =
  dm_handlers :: "(string, 'h list) gomap"

definition NewNatsDirectMessaging :: "'h directMessaging" where
  "NewNatsDirectMessaging = \<lparr>dm_handlers = []\<rparr>"

text \<open>Every handler of the topic is called with the message, in order.\<close>

definition SendToSelf :: "'h directMessaging \<Rightarrow> string \<Rightarrow> bytes \<Rightarrow> ('h \<times> bytes) list res" where
  "SendToSelf d topic message =
     (case map_of (dm_handlers d) topic of
        None \<Rightarrow> Inl (ENew (''no handlers found for topic '' @ topic))
      | Some handlers \<Rightarrow>
          if handlers = [] then Inl (ENew (''no handlers found for topic '' @ topic))
          else Inr (map (\<lambda>h. (h, message)) handlers))"

text \<open>
  \<open>request i\<close> is the outcome of the \<open>i\<close>-th request of the library, \<open>retry n f\<close> stands for
  \<^verbatim>\<open>retry.Do\<close> with \<open>n\<close> attempts.
\<close>

type_synonym retrier = "nat \<Rightarrow> (nat \<Rightarrow> gerror option) \<Rightarrow> gerror option"

definition retry_law :: "retrier \<Rightarrow> bool" where
  "retry_law retry \<longleftrightarrow> (\<forall>n f. retry n f = None \<longleftrightarrow> (\<exists>i < n. f i = None))"

definition SendToOther ::
  "retrier \<Rightarrow> (string \<Rightarrow> bytes \<Rightarrow> nat \<Rightarrow> gerror option) \<Rightarrow> string \<Rightarrow> bytes \<Rightarrow> gerror option" where
  "SendToOther retry request topic message = retry 10 (request topic message)"

record RetryConfig =
  rc_RetryAttempt :: nat
  rc_ExponentialBackoff :: bool
  rc_Delay :: int

datatype retry_option =
    MaxJitter int
  | Attempts nat
  | BackOffDelay
  | Delay int

definition retry_options :: "RetryConfig \<Rightarrow> retry_option list" where
  "retry_options config =
     (let opts = [MaxJitter (80 * Millisecond)];
          opts = (if rc_RetryAttempt config > 0 then opts @ [Attempts (rc_RetryAttempt config)] else opts);
          opts = (if rc_ExponentialBackoff config then opts @ [BackOffDelay] else opts)
      in if rc_Delay config > 0 then opts @ [Delay (rc_Delay config)] else opts)"

definition SendToOtherWithRetry ::
  "(retry_option list \<Rightarrow> (nat \<Rightarrow> gerror option) \<Rightarrow> gerror option) \<Rightarrow> (string \<Rightarrow> bytes \<Rightarrow> nat \<Rightarrow> gerror option) \<Rightarrow>
   string \<Rightarrow> bytes \<Rightarrow> RetryConfig \<Rightarrow> gerror option" where
  "SendToOtherWithRetry retry_with request topic message config =
     retry_with (retry_options config) (request topic message)"

text \<open>
  The answers of subscribing, of the flush and of taking the subscription back. The error of the
  flush is shadowed by the one of \<^verbatim>\<open>Unsubscribe\<close>, which is usually nil.
\<close>

definition Listen ::
  "gerror option \<Rightarrow> gerror option \<Rightarrow> gerror option \<Rightarrow> string \<Rightarrow> 'h \<Rightarrow> 'h directMessaging \<Rightarrow>
   'h directMessaging \<times> unit res" where
  "Listen subscribe flush unsubscribe topic handler d =
     (case subscribe of
        Some e \<Rightarrow> (d, Inl e)
      | None \<Rightarrow>
          (case flush of
             Some _ \<Rightarrow> (d, Inl (case unsubscribe of
                 Some e \<Rightarrow> EWrap ''flush after subscribe failed: '' e []
               | None \<Rightarrow> ENew ''flush after subscribe failed: %!w(<nil>)''))
           | None \<Rightarrow>
               (d\<lparr>dm_handlers := AList.update topic
                   ((case map_of (dm_handlers d) topic of None \<Rightarrow> [] | Some hs \<Rightarrow> hs) @ [handler]) (dm_handlers d)\<rparr>,
                Inr ())))"

text \<open>\<^verbatim>\<open>Unsubscribe\<close> of the subscription that \<^verbatim>\<open>Listen\<close> returned only calls the library.\<close>

definition natsSubscription_Unsubscribe :: "gerror option \<Rightarrow> 'h directMessaging \<Rightarrow> 'h directMessaging \<times> unit res" where
  "natsSubscription_Unsubscribe unsubscribe d =
     (d, case unsubscribe of Some e \<Rightarrow> Inl e | None \<Rightarrow> Inr ())"

section \<open>Facts\<close>

lemma replace_char_set: "set (replace_char c t s) \<subseteq> (set s - {c}) \<union> set t"
  by (induction s) auto

lemma replace_char_absent: "c \<notin> set s \<Longrightarrow> replace_char c t s = s"
  by (induction s) auto

lemma applyHeaders_Get: "distinct (map fst hs) \<Longrightarrow> map_of (applyHeaders dst hs) = map_of dst ++ map_of hs"
proof (induction hs arbitrary: dst)
  case Nil
  then show ?case by (simp add: applyHeaders_def)
next
  case (Cons h hs)
  obtain k v where h: "h = (k, v)" by (cases h)
  from Cons.prems h have "map_of hs k = None" by (auto simp: map_of_eq_None_iff)
  then have "(map_of dst)(k \<mapsto> v) ++ map_of hs = map_of dst ++ map_of (h # hs)"
    using h by (auto simp: fun_eq_iff map_add_def split: option.splits)
  moreover have "applyHeaders dst (h # hs) = applyHeaders (AList.update k v dst) hs" by (simp add: h applyHeaders_def)
  moreover have "distinct (map fst hs)" using Cons.prems by simp
  ultimately show ?case using Cons.IH [of "AList.update k v dst"] by (metis map_of_update)
qed

definition replaced_name_chars :: "char set" where
  "replaced_name_chars = {CHR ''.'', CHR '':'', CHR '' '', CHR ''-'', CHR ''>'', CHR ''*''}"

text \<open>
  The six characters that the function replaces do not occur in its result, and sanitizing again
  changes nothing. NATS reserves more characters, which the function lets pass.
\<close>

lemma sanitize_safe: "set (sanitizeConsumerName name) \<inter> replaced_name_chars = {}"
proof -
  have fin: "set (if b then ''_'' @ n else n) \<inter> replaced_name_chars = {}" if "set n \<inter> replaced_name_chars = {}" for b n
    using that by (auto simp: replaced_name_chars_def)
  have step: "set (replace_char c t n) \<inter> (insert c bad) = {}"
    if "set n \<inter> bad = {}" "set t \<inter> (insert c bad) = {}" for c t n and bad :: "char set"
    using that replace_char_set [of c t n] by blast
  have 1: "set (replace_char CHR ''.'' ''_'' name) \<inter> {CHR ''.''} = {}"
    by (rule step [where bad = "{}"]) auto
  note 2 = step [OF 1, of "''_''" "CHR '':''"]
  have 2: "set (replace_char CHR '':'' ''_'' (replace_char CHR ''.'' ''_'' name)) \<inter> {CHR '':'', CHR ''.''} = {}"
    by (rule 2) auto
  note 3 = step [OF 2, of "''_''" "CHR '' ''"]
  have 3: "set (replace_char CHR '' '' ''_'' (replace_char CHR '':'' ''_'' (replace_char CHR ''.'' ''_'' name))) \<inter>
      {CHR '' '', CHR '':'', CHR ''.''} = {}"
    by (rule 3) auto
  note 4 = step [OF 3, of "''_''" "CHR ''-''"]
  let ?n4 = "replace_char CHR ''-'' ''_'' (replace_char CHR '' '' ''_'' (replace_char CHR '':'' ''_'' (replace_char CHR ''.'' ''_'' name)))"
  have 4: "set ?n4 \<inter> {CHR ''-'', CHR '' '', CHR '':'', CHR ''.''} = {}"
    by (rule 4) auto
  note 5 = step [OF 4, of "''all''" "CHR ''>''"]
  have 5: "set (replace_char CHR ''>'' ''all'' ?n4) \<inter> {CHR ''>'', CHR ''-'', CHR '' '', CHR '':'', CHR ''.''} = {}"
    by (rule 5) auto
  note 6 = step [OF 5, of "''any''" "CHR ''*''"]
  have "set (replace_char CHR ''*'' ''any'' (replace_char CHR ''>'' ''all'' ?n4)) \<inter> replaced_name_chars = {}"
    using 6 by (auto simp: replaced_name_chars_def)
  from fin [OF this] show ?thesis unfolding sanitizeConsumerName_def Let_def .
qed

lemma sanitize_idem: "sanitizeConsumerName (sanitizeConsumerName name) = sanitizeConsumerName name"
proof -
  let ?n = "sanitizeConsumerName name"
  have abs: "c \<notin> set ?n" if "c \<in> replaced_name_chars" for c using sanitize_safe [of name] that by blast
  have same: "replace_char c t ?n = ?n" if "c \<in> replaced_name_chars" for c t
    using abs [OF that] by (rule replace_char_absent)
  have start: "?n = [] \<or> is_letter (hd ?n) \<or> hd ?n = CHR ''_''"
    unfolding sanitizeConsumerName_def Let_def by auto
  have "sanitizeConsumerName ?n = (if ?n \<noteq> [] \<and> \<not> is_letter (hd ?n) \<and> hd ?n \<noteq> CHR ''_'' then ''_'' @ ?n else ?n)"
    by (subst sanitizeConsumerName_def) (simp add: same replaced_name_chars_def Let_def)
  with start show ?thesis by auto
qed

lemma SendToOther_law: "retry_law retry \<Longrightarrow> SendToOther retry request topic m = None \<longleftrightarrow> (\<exists>i < 10. request topic m i = None)"
  by (simp add: SendToOther_def retry_law_def)

end
