(* ===== verification/Client.thy ===== *)
theory Client
  imports Requests
begin

text \<open>
  \<^verbatim>\<open>pkg/client/client.go\<close>: the client that signs and publishes requests and receives results.
  \<open>sign\<close> is the \<^verbatim>\<open>Signer\<close>, \<open>publish\<close> the answer of the broker; what is published is the triple of
  subject, bytes and headers (the value of every header name, empty when it is absent).
\<close>

section \<open>Encoding requests\<close>

text \<open>Fields tagged \<^verbatim>\<open>omitempty\<close> are left out when empty; an empty derivation path is nil.\<close>

definition enc_sigs :: "AuthorizerSignature list \<Rightarrow> (string \<times> json) list" where
  "enc_sigs sigs = (if sigs = [] then [] else [(''authorizer_signatures'', JArr (map enc_AuthorizerSignature sigs))])"

definition enc_GenerateKeyMessage :: "GenerateKeyMessage \<Rightarrow> json" where
  "enc_GenerateKeyMessage m = JObj
     ([(''wallet_id'', JStr (gk_WalletID m)), (''signature'', enc_bytes (gk_Signature m))] @
      enc_sigs (gk_AuthorizerSignatures m))"

definition enc_path :: "32 word list \<Rightarrow> json" where
  "enc_path p = (if p = [] then JNull else JArr (map (\<lambda>w. enc_int (uint w)) p))"

definition enc_SignTxMessage :: "SignTxMessage \<Rightarrow> json" where
  "enc_SignTxMessage m = JObj
     ([(''key_type'', JStr (st_KeyType m)), (''wallet_id'', JStr (st_WalletID m)),
       (''network_internal_code'', JStr (st_NetworkInternalCode m)), (''tx_id'', JStr (st_TxID m)),
       (''tx'', enc_bytes (st_Tx m)), (''signature'', enc_bytes (st_Signature m)),
       (''derivation_path'', enc_path (st_DerivationPath m))] @
      enc_sigs (st_AuthorizerSignatures m))"

section \<open>The client\<close>

record mpcClient =
  mc_signer :: "bytes \<Rightarrow> bytes res"
  mc_clientID :: string

definition KeygenRequestTopic :: string where "KeygenRequestTopic = ''mpc.keygen_request.*''"
definition SigningRequestTopic :: string where "SigningRequestTopic = ''mpc.signing_request.*''"
definition MPCReshareEvent :: string where "MPCReshareEvent = ''mpc:reshare''"

definition validateClientID :: "string \<Rightarrow> unit res" where
  "validateClientID clientID =
     (if clientID = [] then Inr ()
      else if trim_space clientID = [] then Inl (ENew ''client ID cannot be blank'')
      else if \<exists>c \<in> set clientID. c \<in> set ('' .*>'' @ [CHR 0x09, CHR 0x0D, CHR 0x0A])
      then Inl (ENew ''client ID must be a single NATS subject token'')
      else Inr ())"

text \<open>
  A missing signer, a bad client identifier or a broker that cannot be created ends the process.
  \<open>broker\<close> answers \<^verbatim>\<open>NewJetStreamBroker\<close> for a stream name.
\<close>

definition NewMPCClient :: "(string \<Rightarrow> unit res) \<Rightarrow> (bytes \<Rightarrow> bytes res) option \<Rightarrow> string \<Rightarrow> mpcClient outcome" where
  "NewMPCClient broker signer clientID =
     (case signer of
        None \<Rightarrow> Aborts ''Signer is required''
      | Some s \<Rightarrow>
          (case validateClientID clientID of
             Inl e \<Rightarrow> Aborts ''Invalid client ID''
           | Inr _ \<Rightarrow>
               (case broker ''mpc-signing'' of
                  Inl e \<Rightarrow> Aborts ''Failed to create signing jetstream broker''
                | Inr _ \<Rightarrow>
                    (case broker ''mpc-keygen'' of
                       Inl e \<Rightarrow> Aborts ''Failed to create keygen jetstream broker''
                     | Inr _ \<Rightarrow> Returns \<lparr>mc_signer = s, mc_clientID = clientID\<rparr>))))"

definition requestHeaders :: "mpcClient \<Rightarrow> string \<Rightarrow> string" where
  "requestHeaders c h = (if mc_clientID c \<noteq> [] \<and> h = ClientIDHeader then mc_clientID c else [])"

record clientResultRouting =
  cr_keygenConsumerName :: string
  cr_keygenSubject :: string
  cr_signingConsumerName :: string
  cr_signingSubject :: string
  cr_reshareConsumerName :: string
  cr_reshareSubject :: string

definition buildClientResultRouting :: "string \<Rightarrow> clientResultRouting" where
  "buildClientResultRouting clientID =
     \<lparr>cr_keygenConsumerName = ResultConsumerName ''mpc_keygen_result'' clientID,
      cr_keygenSubject = KeygenResultSubscriptionSubject clientID,
      cr_signingConsumerName = ResultConsumerName ''mpc_signing_result'' clientID,
      cr_signingSubject = SigningResultSubscriptionSubject clientID,
      cr_reshareConsumerName = ResultConsumerName ''mpc_reshare_result'' clientID,
      cr_reshareSubject = ReshareResultSubscriptionSubject clientID\<rparr>"

type_synonym headers = "string \<Rightarrow> string"

definition publish_request ::
  "string \<Rightarrow> (string \<Rightarrow> bytes \<Rightarrow> headers \<Rightarrow> unit res) \<Rightarrow> mpcClient \<Rightarrow> string \<Rightarrow> bytes res \<Rightarrow> (bytes \<Rightarrow> json) \<Rightarrow>
     (string \<times> bytes \<times> headers) res" where
  "publish_request name publish c subject sigres encode =
     (case sigres of
        Inl e \<Rightarrow> Inl (EWrap (name @ '': failed to sign message: '') e [])
      | Inr signature \<Rightarrow>
          (let wire = json_Marshal (encode signature) in
           case publish subject wire (requestHeaders c) of
             Inl e \<Rightarrow> Inl (EWrap (name @ '': publish error: '') e [])
           | Inr _ \<Rightarrow> Inr (subject, wire, requestHeaders c)))"

definition CreateWalletWithAuthorizers ::
  "(string \<Rightarrow> bytes \<Rightarrow> headers \<Rightarrow> unit res) \<Rightarrow> mpcClient \<Rightarrow> string \<Rightarrow> AuthorizerSignature list \<Rightarrow> (string \<times> bytes \<times> headers) res" where
  "CreateWalletWithAuthorizers publish c walletID sigs =
     (let msg = \<lparr>gk_WalletID = walletID, gk_Signature = None, gk_AuthorizerSignatures = sigs\<rparr> in
      publish_request ''CreateWallet'' publish c KeygenRequestTopic (mc_signer c (Raw (GenerateKey msg)))
        (\<lambda>s. enc_GenerateKeyMessage (msg\<lparr>gk_Signature := Some s\<rparr>)))"

definition CreateWallet :: "(string \<Rightarrow> bytes \<Rightarrow> headers \<Rightarrow> unit res) \<Rightarrow> mpcClient \<Rightarrow> string \<Rightarrow> (string \<times> bytes \<times> headers) res" where
  "CreateWallet publish c walletID = CreateWalletWithAuthorizers publish c walletID []"

definition SignTransaction ::
  "(string \<Rightarrow> bytes \<Rightarrow> headers \<Rightarrow> unit res) \<Rightarrow> mpcClient \<Rightarrow> SignTxMessage \<Rightarrow> (string \<times> bytes \<times> headers) res" where
  "SignTransaction publish c msg =
     publish_request ''SignTransaction'' publish c SigningRequestTopic (mc_signer c (Raw (SignTx msg)))
       (\<lambda>s. enc_SignTxMessage (msg\<lparr>st_Signature := Some s\<rparr>))"

definition client_Resharing ::
  "(string \<Rightarrow> bytes \<Rightarrow> headers \<Rightarrow> unit res) \<Rightarrow> mpcClient \<Rightarrow> ResharingMessage \<Rightarrow> (string \<times> bytes \<times> headers) res" where
  "client_Resharing publish c msg =
     publish_request ''Resharing'' publish c MPCReshareEvent (mc_signer c (Raw (Resharing msg)))
       (\<lambda>s. enc_ResharingMessage (msg\<lparr>rs_Signature := Some s\<rparr>))"

section \<open>Decoding results\<close>

definition KeygenResultEvent_fields :: "KeygenResultEvent field list" where
  "KeygenResultEvent_fields =
     [(''wallet_id'', set_string (\<lambda>s e. e\<lparr>kr_WalletID := s\<rparr>)),
      (''ecdsa_pub_key'', set_bytes (\<lambda>b e. e\<lparr>kr_ECDSAPubKey := (case b of None \<Rightarrow> [] | Some x \<Rightarrow> x)\<rparr>)),
      (''eddsa_pub_key'', set_bytes (\<lambda>b e. e\<lparr>kr_EDDSAPubKey := (case b of None \<Rightarrow> [] | Some x \<Rightarrow> x)\<rparr>)),
      (''result_type'', set_string (\<lambda>s e. e\<lparr>kr_ResultType := parse_result_type s\<rparr>)),
      (''error_reason'', set_string (\<lambda>s e. e\<lparr>kr_ErrorReason := s\<rparr>)),
      (''error_code'', set_string (\<lambda>s e. e\<lparr>kr_ErrorCode := parse_error_code s\<rparr>))]"

definition zero_KeygenResultEvent :: KeygenResultEvent where
  "zero_KeygenResultEvent = \<lparr>kr_WalletID = [], kr_ECDSAPubKey = [], kr_EDDSAPubKey = [],
     kr_ResultType = OtherResultType [], kr_ErrorReason = [], kr_ErrorCode = NoErrorCode\<rparr>"

definition SigningResultEvent_fields :: "SigningResultEvent field list" where
  "SigningResultEvent_fields =
     [(''result_type'', set_string (\<lambda>s e. e\<lparr>sr_ResultType := parse_result_type s\<rparr>)),
      (''error_code'', set_string (\<lambda>s e. e\<lparr>sr_ErrorCode := parse_error_code s\<rparr>)),
      (''error_reason'', set_string (\<lambda>s e. e\<lparr>sr_ErrorReason := s\<rparr>)),
      (''is_timeout'', set_bool (\<lambda>b e. e\<lparr>sr_IsTimeout := b\<rparr>)),
      (''network_internal_code'', set_string (\<lambda>s e. e\<lparr>sr_NetworkInternalCode := s\<rparr>)),
      (''wallet_id'', set_string (\<lambda>s e. e\<lparr>sr_WalletID := s\<rparr>)),
      (''tx_id'', set_string (\<lambda>s e. e\<lparr>sr_TxID := s\<rparr>)),
      (''r'', set_bytes (\<lambda>b e. e\<lparr>sr_R := (case b of None \<Rightarrow> [] | Some x \<Rightarrow> x)\<rparr>)),
      (''s'', set_bytes (\<lambda>b e. e\<lparr>sr_S := (case b of None \<Rightarrow> [] | Some x \<Rightarrow> x)\<rparr>)),
      (''signature_recovery'', set_bytes (\<lambda>b e. e\<lparr>sr_SignatureRecovery := (case b of None \<Rightarrow> [] | Some x \<Rightarrow> x)\<rparr>)),
      (''signature'', set_bytes (\<lambda>b e. e\<lparr>sr_Signature := (case b of None \<Rightarrow> [] | Some x \<Rightarrow> x)\<rparr>))]"

definition zero_SigningResultEvent :: SigningResultEvent where
  "zero_SigningResultEvent = \<lparr>sr_ResultType = OtherResultType [], sr_ErrorCode = NoErrorCode, sr_ErrorReason = [],
     sr_IsTimeout = False, sr_NetworkInternalCode = [], sr_WalletID = [], sr_TxID = [], sr_R = [], sr_S = [],
     sr_SignatureRecovery = [], sr_Signature = []\<rparr>"

definition ResharingResultEvent_fields :: "ResharingResultEvent field list" where
  "ResharingResultEvent_fields =
     [(''wallet_id'', set_string (\<lambda>s e. e\<lparr>rr_WalletID := s\<rparr>)),
      (''new_threshold'', set_int (\<lambda>n e. e\<lparr>rr_NewThreshold := n\<rparr>)),
      (''key_type'', set_string (\<lambda>s e. e\<lparr>rr_KeyType := s\<rparr>)),
      (''pub_key'', set_bytes (\<lambda>b e. e\<lparr>rr_PubKey := (case b of None \<Rightarrow> [] | Some x \<Rightarrow> x)\<rparr>)),
      (''result_type'', set_string (\<lambda>s e. e\<lparr>rr_ResultType := parse_result_type s\<rparr>)),
      (''error_reason'', set_string (\<lambda>s e. e\<lparr>rr_ErrorReason := s\<rparr>)),
      (''error_code'', set_string (\<lambda>s e. e\<lparr>rr_ErrorCode := parse_error_code s\<rparr>))]"

definition zero_ResharingResultEvent :: ResharingResultEvent where
  "zero_ResharingResultEvent = \<lparr>rr_WalletID = [], rr_NewThreshold = 0, rr_KeyType = [], rr_PubKey = [],
     rr_ResultType = OtherResultType [], rr_ErrorReason = [], rr_ErrorCode = NoErrorCode\<rparr>"

text \<open>
  The handlers given to \<^verbatim>\<open>Dequeue\<close>: the event passed to the callback, or the error returned to the
  queue. An empty code in the model is the string of \<^const>\<open>NoErrorCode\<close>.
\<close>

definition OnWalletCreationResult :: "bytes \<Rightarrow> KeygenResultEvent res" where
  "OnWalletCreationResult msg = json_Unmarshal KeygenResultEvent_fields zero_KeygenResultEvent msg"

definition OnSignResult :: "bytes \<Rightarrow> SigningResultEvent res" where
  "OnSignResult msg = json_Unmarshal SigningResultEvent_fields zero_SigningResultEvent msg"

definition OnResharingResult :: "bytes \<Rightarrow> ResharingResultEvent res" where
  "OnResharingResult msg = json_Unmarshal ResharingResultEvent_fields zero_ResharingResultEvent msg"

section \<open>Requests and results survive the wire\<close>

lemma find_AuthorizerSignature_fields [simp]:
  "find_field AuthorizerSignature_fields ''authorizer_id'' = Some (set_string (\<lambda>s a. a\<lparr>as_AuthorizerID := s\<rparr>))"
  "find_field AuthorizerSignature_fields ''signature'' =
     Some (set_bytes (\<lambda>b a. a\<lparr>as_Signature := (case b of None \<Rightarrow> [] | Some x \<Rightarrow> x)\<rparr>))"
  by (simp_all add: AuthorizerSignature_fields_def to_lower_def lower_char_def)

lemma dec_AuthorizerSignature:
  "decode_struct AuthorizerSignature_fields z (enc_AuthorizerSignature a) = Some a"
  by (simp add: decode_struct_def enc_AuthorizerSignature_def)

lemma set_sigs_enc [simp]:
  "set_sigs upd (JArr (map enc_AuthorizerSignature sigs)) r = Some (upd sigs r)"
proof -
  have "those (map (decode_struct AuthorizerSignature_fields z) (map enc_AuthorizerSignature sigs)) = Some sigs" for z
    by (induction sigs) (simp_all add: dec_AuthorizerSignature)
  then show ?thesis by (simp add: set_sigs_def)
qed

lemma wf_enc_AuthorizerSignature [simp]: "wf_json (enc_AuthorizerSignature a)"
  by (simp add: enc_AuthorizerSignature_def)

lemma set_path_enc [simp]: "set_path upd (enc_path p) r = Some (upd p r)"
proof -
  have "dec_uint32 (enc_int (uint w)) = Some w" for w :: "32 word"
  proof -
    have w: "uint w < 2 ^ 32" using uint_lt2p [of w] by simp
    have "- (2 ^ 63) \<le> uint w" by (rule order_trans [OF _ uint_ge_0]) simp
    moreover have "uint w < 2 ^ 63" using w by simp
    ultimately have "parse_int64 (itoa (uint w)) = Some (uint w)" by (rule parse_int64_itoa)
    with w show ?thesis by (simp add: dec_uint32_def enc_int_def)
  qed
  then have "those (map dec_uint32 (map (\<lambda>w. enc_int (uint w)) p)) = Some p"
    by (induction p) simp_all
  then show ?thesis by (simp add: set_path_def enc_path_def)
qed

lemma wf_enc_path [simp]: "wf_json (enc_path p)"
  by (simp add: enc_path_def)

lemma find_GenerateKeyMessage_fields [simp]:
  "find_field GenerateKeyMessage_fields ''wallet_id'' = Some (set_string (\<lambda>s m. m\<lparr>gk_WalletID := s\<rparr>))"
  "find_field GenerateKeyMessage_fields ''signature'' = Some (set_bytes (\<lambda>b m. m\<lparr>gk_Signature := b\<rparr>))"
  "find_field GenerateKeyMessage_fields ''authorizer_signatures'' = Some (set_sigs (\<lambda>l m. m\<lparr>gk_AuthorizerSignatures := l\<rparr>))"
  by (simp_all add: GenerateKeyMessage_fields_def to_lower_def lower_char_def)

lemma Unmarshal_GenerateKeyMessage:
  "json_Unmarshal GenerateKeyMessage_fields zero_GenerateKeyMessage (json_Marshal (enc_GenerateKeyMessage m)) = Inr m"
proof -
  have "wf_json (enc_GenerateKeyMessage m)" by (auto simp: enc_GenerateKeyMessage_def enc_sigs_def)
  then show ?thesis unfolding enc_GenerateKeyMessage_def
    by (auto simp: json_Unmarshal_Marshal zero_GenerateKeyMessage_def enc_sigs_def)
qed

lemma find_SignTxMessage_fields [simp]:
  "find_field SignTxMessage_fields ''key_type'' = Some (set_string (\<lambda>s m. m\<lparr>st_KeyType := s\<rparr>))"
  "find_field SignTxMessage_fields ''wallet_id'' = Some (set_string (\<lambda>s m. m\<lparr>st_WalletID := s\<rparr>))"
  "find_field SignTxMessage_fields ''network_internal_code'' = Some (set_string (\<lambda>s m. m\<lparr>st_NetworkInternalCode := s\<rparr>))"
  "find_field SignTxMessage_fields ''tx_id'' = Some (set_string (\<lambda>s m. m\<lparr>st_TxID := s\<rparr>))"
  "find_field SignTxMessage_fields ''tx'' = Some (set_bytes (\<lambda>b m. m\<lparr>st_Tx := b\<rparr>))"
  "find_field SignTxMessage_fields ''signature'' = Some (set_bytes (\<lambda>b m. m\<lparr>st_Signature := b\<rparr>))"
  "find_field SignTxMessage_fields ''derivation_path'' = Some (set_path (\<lambda>l m. m\<lparr>st_DerivationPath := l\<rparr>))"
  "find_field SignTxMessage_fields ''authorizer_signatures'' = Some (set_sigs (\<lambda>l m. m\<lparr>st_AuthorizerSignatures := l\<rparr>))"
  by (simp_all add: SignTxMessage_fields_def to_lower_def lower_char_def)

lemma Unmarshal_SignTxMessage:
  "json_Unmarshal SignTxMessage_fields zero_SignTxMessage (json_Marshal (enc_SignTxMessage m)) = Inr m"
proof -
  have "wf_json (enc_SignTxMessage m)" by (auto simp: enc_SignTxMessage_def enc_sigs_def)
  then show ?thesis unfolding enc_SignTxMessage_def
    by (auto simp: json_Unmarshal_Marshal zero_SignTxMessage_def enc_sigs_def)
qed

lemma find_ResharingMessage_fields [simp]:
  "find_field ResharingMessage_fields ''session_id'' = Some (set_string (\<lambda>s m. m\<lparr>rs_SessionID := s\<rparr>))"
  "find_field ResharingMessage_fields ''node_ids'' = Some (set_strings (\<lambda>l m. m\<lparr>rs_NodeIDs := l\<rparr>))"
  "find_field ResharingMessage_fields ''new_threshold'' = Some (set_int (\<lambda>n m. m\<lparr>rs_NewThreshold := n\<rparr>))"
  "find_field ResharingMessage_fields ''key_type'' = Some (set_string (\<lambda>s m. m\<lparr>rs_KeyType := s\<rparr>))"
  "find_field ResharingMessage_fields ''wallet_id'' = Some (set_string (\<lambda>s m. m\<lparr>rs_WalletID := s\<rparr>))"
  "find_field ResharingMessage_fields ''signature'' = Some (set_bytes (\<lambda>b m. m\<lparr>rs_Signature := b\<rparr>))"
  "find_field ResharingMessage_fields ''authorizer_signatures'' = Some (set_sigs (\<lambda>l m. m\<lparr>rs_AuthorizerSignatures := l\<rparr>))"
  by (simp_all add: ResharingMessage_fields_def to_lower_def lower_char_def)

lemma Unmarshal_ResharingMessage:
  assumes "rs_Signature m \<noteq> Some []" and "- (2 ^ 63) \<le> rs_NewThreshold m" "rs_NewThreshold m < 2 ^ 63"
  shows "json_Unmarshal ResharingMessage_fields zero_ResharingMessage (json_Marshal (enc_ResharingMessage m)) = Inr m"
proof -
  have "wf_json (enc_ResharingMessage m)" by simp
  then show ?thesis unfolding enc_ResharingMessage_def using assms
    by (cases "rs_Signature m"; cases "rs_AuthorizerSignatures m = []")
      (auto simp: json_Unmarshal_Marshal zero_ResharingMessage_def)
qed

lemma set_opt_bytes [simp]:
  "set_bytes upd (enc_opt_bytes b) r = Some (upd (if b = [] then None else Some b) r)"
  "(case (if b = [] then None else Some b) of None \<Rightarrow> [] | Some x \<Rightarrow> x) = b"
  by (simp_all add: enc_opt_bytes_def)

lemma find_KeygenResultEvent_fields [simp]:
  "find_field KeygenResultEvent_fields ''wallet_id'' = Some (set_string (\<lambda>s e. e\<lparr>kr_WalletID := s\<rparr>))"
  "find_field KeygenResultEvent_fields ''ecdsa_pub_key'' =
     Some (set_bytes (\<lambda>b e. e\<lparr>kr_ECDSAPubKey := (case b of None \<Rightarrow> [] | Some x \<Rightarrow> x)\<rparr>))"
  "find_field KeygenResultEvent_fields ''eddsa_pub_key'' =
     Some (set_bytes (\<lambda>b e. e\<lparr>kr_EDDSAPubKey := (case b of None \<Rightarrow> [] | Some x \<Rightarrow> x)\<rparr>))"
  "find_field KeygenResultEvent_fields ''result_type'' = Some (set_string (\<lambda>s e. e\<lparr>kr_ResultType := parse_result_type s\<rparr>))"
  "find_field KeygenResultEvent_fields ''error_reason'' = Some (set_string (\<lambda>s e. e\<lparr>kr_ErrorReason := s\<rparr>))"
  "find_field KeygenResultEvent_fields ''error_code'' = Some (set_string (\<lambda>s e. e\<lparr>kr_ErrorCode := parse_error_code s\<rparr>))"
  by (simp_all add: KeygenResultEvent_fields_def to_lower_def lower_char_def)

lemma wf_enc_opt_bytes [simp]: "wf_json (enc_opt_bytes b)"
  by (simp add: enc_opt_bytes_def)

lemma parse_result_type_known [simp]:
  "rt = ResultTypeSuccess \<or> rt = ResultTypeError \<Longrightarrow> parse_result_type (result_type_string rt) = rt"
  by (auto simp: parse_result_type_def)

lemma OnWalletCreationResult_enc:
  assumes "kr_ResultType e = ResultTypeSuccess \<or> kr_ResultType e = ResultTypeError" and "named_code (kr_ErrorCode e)"
  shows "OnWalletCreationResult (json_Marshal (enc_KeygenResultEvent e)) = Inr e"
proof -
  have "wf_json (enc_KeygenResultEvent e)" by (simp add: enc_KeygenResultEvent_def)
  then show ?thesis unfolding enc_KeygenResultEvent_def OnWalletCreationResult_def
    using assms by (simp add: json_Unmarshal_Marshal zero_KeygenResultEvent_def)
qed

lemma find_SigningResultEvent_fields [simp]:
  "find_field SigningResultEvent_fields ''result_type'' = Some (set_string (\<lambda>s e. e\<lparr>sr_ResultType := parse_result_type s\<rparr>))"
  "find_field SigningResultEvent_fields ''error_code'' = Some (set_string (\<lambda>s e. e\<lparr>sr_ErrorCode := parse_error_code s\<rparr>))"
  "find_field SigningResultEvent_fields ''error_reason'' = Some (set_string (\<lambda>s e. e\<lparr>sr_ErrorReason := s\<rparr>))"
  "find_field SigningResultEvent_fields ''is_timeout'' = Some (set_bool (\<lambda>b e. e\<lparr>sr_IsTimeout := b\<rparr>))"
  "find_field SigningResultEvent_fields ''network_internal_code'' = Some (set_string (\<lambda>s e. e\<lparr>sr_NetworkInternalCode := s\<rparr>))"
  "find_field SigningResultEvent_fields ''wallet_id'' = Some (set_string (\<lambda>s e. e\<lparr>sr_WalletID := s\<rparr>))"
  "find_field SigningResultEvent_fields ''tx_id'' = Some (set_string (\<lambda>s e. e\<lparr>sr_TxID := s\<rparr>))"
  "find_field SigningResultEvent_fields ''r'' = Some (set_bytes (\<lambda>b e. e\<lparr>sr_R := (case b of None \<Rightarrow> [] | Some x \<Rightarrow> x)\<rparr>))"
  "find_field SigningResultEvent_fields ''s'' = Some (set_bytes (\<lambda>b e. e\<lparr>sr_S := (case b of None \<Rightarrow> [] | Some x \<Rightarrow> x)\<rparr>))"
  "find_field SigningResultEvent_fields ''signature_recovery'' =
     Some (set_bytes (\<lambda>b e. e\<lparr>sr_SignatureRecovery := (case b of None \<Rightarrow> [] | Some x \<Rightarrow> x)\<rparr>))"
  "find_field SigningResultEvent_fields ''signature'' =
     Some (set_bytes (\<lambda>b e. e\<lparr>sr_Signature := (case b of None \<Rightarrow> [] | Some x \<Rightarrow> x)\<rparr>))"
  by (simp_all add: SigningResultEvent_fields_def to_lower_def lower_char_def)

lemma OnSignResult_enc:
  assumes "sr_ResultType e = ResultTypeSuccess \<or> sr_ResultType e = ResultTypeError" and "named_code (sr_ErrorCode e)"
  shows "OnSignResult (json_Marshal (enc_SigningResultEvent e)) = Inr e"
proof -
  have "wf_json (enc_SigningResultEvent e)" by (simp add: enc_SigningResultEvent_def)
  then show ?thesis unfolding enc_SigningResultEvent_def OnSignResult_def
    using assms by (simp add: json_Unmarshal_Marshal zero_SigningResultEvent_def)
qed

lemma find_ResharingResultEvent_fields [simp]:
  "find_field ResharingResultEvent_fields ''wallet_id'' = Some (set_string (\<lambda>s e. e\<lparr>rr_WalletID := s\<rparr>))"
  "find_field ResharingResultEvent_fields ''new_threshold'' = Some (set_int (\<lambda>n e. e\<lparr>rr_NewThreshold := n\<rparr>))"
  "find_field ResharingResultEvent_fields ''key_type'' = Some (set_string (\<lambda>s e. e\<lparr>rr_KeyType := s\<rparr>))"
  "find_field ResharingResultEvent_fields ''pub_key'' =
     Some (set_bytes (\<lambda>b e. e\<lparr>rr_PubKey := (case b of None \<Rightarrow> [] | Some x \<Rightarrow> x)\<rparr>))"
  "find_field ResharingResultEvent_fields ''result_type'' = Some (set_string (\<lambda>s e. e\<lparr>rr_ResultType := parse_result_type s\<rparr>))"
  "find_field ResharingResultEvent_fields ''error_reason'' = Some (set_string (\<lambda>s e. e\<lparr>rr_ErrorReason := s\<rparr>))"
  "find_field ResharingResultEvent_fields ''error_code'' = Some (set_string (\<lambda>s e. e\<lparr>rr_ErrorCode := parse_error_code s\<rparr>))"
  by (simp_all add: ResharingResultEvent_fields_def to_lower_def lower_char_def)

lemma OnResharingResult_enc:
  assumes "rr_ResultType e = ResultTypeSuccess \<or> rr_ResultType e = ResultTypeError" and "named_code (rr_ErrorCode e)"
    and "- (2 ^ 63) \<le> rr_NewThreshold e" "rr_NewThreshold e < 2 ^ 63"
  shows "OnResharingResult (json_Marshal (enc_ResharingResultEvent e)) = Inr e"
proof -
  have "wf_json (enc_ResharingResultEvent e)" by (simp add: enc_ResharingResultEvent_def)
  then show ?thesis unfolding enc_ResharingResultEvent_def OnResharingResult_def
    using assms by (simp add: json_Unmarshal_Marshal zero_ResharingResultEvent_def)
qed

lemma named_code_GetErrorCode: "named_code (GetErrorCodeFromError e)"
proof -
  have pick: "named_code x \<Longrightarrow> named_code y \<Longrightarrow> named_code (if c then x else y)" for c x y by simp
  have "named_code (error_code_of_text s)" for s
    unfolding error_code_of_text_def by (intro pick) (simp_all add: named_code_def)
  moreover have "named_code NoErrorCode" by (simp add: named_code_def)
  ultimately show ?thesis by (cases e) (simp_all add: GetErrorCodeFromError_def)
qed

section \<open>What a client publishes\<close>

lemma publish_request_ok:
  "publish_request n publish c subj sg enc = Inr p \<longleftrightarrow>
     (\<exists>sig. sg = Inr sig \<and> p = (subj, json_Marshal (enc sig), requestHeaders c) \<and>
            publish subj (json_Marshal (enc sig)) (requestHeaders c) = Inr ())"
  by (auto simp: publish_request_def Let_def split: sum.splits)

lemma validateClientID_token:
  assumes "validateClientID c = Inr ()" and "c \<noteq> []"
  shows "token c \<and> CHR ''*'' \<notin> set c \<and> CHR ''>'' \<notin> set c"
proof -
  define bad where "bad = set ('' .*>'' @ [CHR 0x09, CHR 0x0D, CHR 0x0A])"
  have accept: "\<not> d" if "(if a then Inr () else if b then Inl x else if d then Inl y else Inr ()) = Inr ()" "\<not> a"
    for a b d and x y :: gerror
    using that by (simp split: if_splits)
  have "\<not> (\<exists>x \<in> set c. x \<in> bad)"
    using assms unfolding validateClientID_def bad_def by (rule accept)
  moreover have "CHR ''.'' \<in> bad" "CHR ''*'' \<in> bad" "CHR ''>'' \<in> bad" by (simp_all add: bad_def)
  ultimately show ?thesis using assms(2) unfolding token_def by blast
qed

end
