(* ===== verification/Crypto.thy ===== *)
theory Crypto
  imports Go_Prelude
begin

text \<open>
  \<^verbatim>\<open>pkg/encryption\<close>: AES-GCM with an embedded nonce, Ed25519 and P-256 keys and signatures.

  The cryptographic primitives themselves are a parameter, the record \<open>crypto\<close>; what the
  wrappers add (length checks, panics of \<^verbatim>\<open>crypto/ed25519\<close>, nonce layout, error texts) is
  modelled. A P-256 (or other ECDSA) public key is an abstract \<open>'k\<close>.
\<close>

record 'k crypto =
  prim_Ed25519_Sign :: "bytes \<Rightarrow> bytes \<Rightarrow> bytes"
  prim_Ed25519_Verify :: "bytes \<Rightarrow> bytes \<Rightarrow> bytes \<Rightarrow> bool"
  prim_SHA256 :: "bytes \<Rightarrow> bytes"
  prim_VerifyASN1 :: "'k \<Rightarrow> bytes \<Rightarrow> bytes \<Rightarrow> bool"
  prim_onP256 :: "'k \<Rightarrow> bool"
  prim_ParsePKIX :: "bytes \<Rightarrow> 'k option"
  prim_Seal :: "bytes \<Rightarrow> bytes \<Rightarrow> bytes \<Rightarrow> bytes"
  prim_Open :: "bytes \<Rightarrow> bytes \<Rightarrow> bytes \<Rightarrow> bytes option"

section \<open>AES-GCM\<close>

definition NonceSize :: nat where
  "NonceSize = 12"

text \<open>\<^verbatim>\<open>aes.NewCipher\<close> accepts keys of 16, 24 and 32 bytes only.\<close>

definition aes_NewCipher :: "bytes \<Rightarrow> unit res" where
  "aes_NewCipher key =
     (if length key = 16 \<or> length key = 24 \<or> length key = 32 then Inr ()
      else Inl (ENew (''crypto/aes: invalid key size '' @ itoa (int (length key)))))"

text \<open>\<open>rand\<close> is the result of \<^verbatim>\<open>rand.Read\<close> into a buffer of \<^const>\<open>NonceSize\<close> bytes.\<close>

definition EncryptAESGCM :: "'k crypto \<Rightarrow> bytes res \<Rightarrow> bytes \<Rightarrow> bytes \<Rightarrow> (bytes \<times> bytes) res" where
  "EncryptAESGCM cr rand plain key =
     bind_res (aes_NewCipher key) (\<lambda>_.
     bind_res rand (\<lambda>nonce. Inr (prim_Seal cr key nonce plain, nonce)))"

definition DecryptAESGCM :: "'k crypto \<Rightarrow> bytes \<Rightarrow> bytes \<Rightarrow> bytes \<Rightarrow> bytes res" where
  "DecryptAESGCM cr ciphertext key nonce =
     bind_res (aes_NewCipher key) (\<lambda>_.
       case prim_Open cr key nonce ciphertext of
         None \<Rightarrow> Inl (ENew ''cipher: message authentication failed'')
       | Some p \<Rightarrow> Inr p)"

definition EncryptAESGCMWithNonceEmbed :: "'k crypto \<Rightarrow> bytes res \<Rightarrow> bytes \<Rightarrow> bytes \<Rightarrow> bytes res" where
  "EncryptAESGCMWithNonceEmbed cr rand plaintext key =
     (case aes_NewCipher key of
        Inl e \<Rightarrow> Inl (EWrap ''failed to create AES cipher: '' e [])
      | Inr _ \<Rightarrow>
          (case rand of
             Inl e \<Rightarrow> Inl (EWrap ''failed to generate nonce: '' e [])
           | Inr nonce \<Rightarrow> Inr (nonce @ prim_Seal cr key nonce plaintext)))"

definition DecryptAESGCMWithNonceEmbed :: "'k crypto \<Rightarrow> bytes \<Rightarrow> bytes \<Rightarrow> bytes res" where
  "DecryptAESGCMWithNonceEmbed cr data key =
     (case aes_NewCipher key of
        Inl e \<Rightarrow> Inl (EWrap ''failed to create AES cipher: '' e [])
      | Inr _ \<Rightarrow>
          if length data < NonceSize then Inl (ENew ''ciphertext too short'')
          else (case prim_Open cr key (take NonceSize data) (drop NonceSize data) of
                  None \<Rightarrow> Inl (EWrap ''decryption failed: ''
                                 (ENew ''cipher: message authentication failed'') [])
                | Some p \<Rightarrow> Inr p))"

section \<open>Ed25519\<close>

text \<open>\<^verbatim>\<open>ed25519.Sign\<close> and \<^verbatim>\<open>ed25519.Verify\<close> panic on keys of the wrong length.\<close>

definition ed25519_Sign :: "'k crypto \<Rightarrow> bytes \<Rightarrow> bytes \<Rightarrow> bytes outcome" where
  "ed25519_Sign cr priv msg =
     (if length priv \<noteq> 64 then Aborts ''ed25519: bad private key length''
      else Returns (prim_Ed25519_Sign cr priv msg))"

definition ed25519_Verify :: "'k crypto \<Rightarrow> bytes \<Rightarrow> bytes \<Rightarrow> bytes \<Rightarrow> bool outcome" where
  "ed25519_Verify cr pub msg sig =
     (if length pub \<noteq> 32 then Aborts ''ed25519: bad public key length''
      else Returns (length sig = 64 \<and> prim_Ed25519_Verify cr pub msg sig))"

text \<open>The trial verification of \<^verbatim>\<open>ValidateEd25519PublicKey\<close> has no effect on its result.\<close>

definition ValidateEd25519PublicKey :: "bytes \<Rightarrow> unit res" where
  "ValidateEd25519PublicKey keyBytes =
     (if length keyBytes \<noteq> 32
      then Inl (ENew (''invalid Ed25519 public key length: expected 32 bytes, got '' @
             itoa (int (length keyBytes))))
      else Inr ())"

definition ParseEd25519PublicKeyFromHex :: "string \<Rightarrow> bytes res" where
  "ParseEd25519PublicKeyFromHex hexKey =
     (if hexKey = [] then Inl (ENew ''public key hex string is empty'')
      else (case hex_Decode hexKey of
              Inl e \<Rightarrow> Inl (EWrap ''invalid hex format: '' e [])
            | Inr keyBytes \<Rightarrow>
                (case ValidateEd25519PublicKey keyBytes of Inl e \<Rightarrow> Inl e | Inr _ \<Rightarrow> Inr keyBytes)))"

section \<open>P-256\<close>

definition VerifyP256Signature :: "'k crypto \<Rightarrow> 'k option \<Rightarrow> bytes \<Rightarrow> bytes \<Rightarrow> unit res" where
  "VerifyP256Signature cr publicKey data signature =
     (case publicKey of
        None \<Rightarrow> Inl (ENew ''public key is nil'')
      | Some k \<Rightarrow>
          if \<not> prim_onP256 cr k then Inl (ENew ''public key is not on P-256 curve'')
          else if signature = [] then Inl (ENew ''signature is empty'')
          else if \<not> prim_VerifyASN1 cr k (prim_SHA256 cr data) signature
            then Inl (ENew ''invalid signature'')
          else Inr ())"

text \<open>The second attempt of the source repeats the first one.\<close>

definition ParseP256PublicKeyFromBytes :: "'k crypto \<Rightarrow> bytes \<Rightarrow> 'k res" where
  "ParseP256PublicKeyFromBytes cr keyBytes =
     (case prim_ParsePKIX cr keyBytes of
        Some k \<Rightarrow> if prim_onP256 cr k then Inr k
                  else Inl (ENew ''failed to parse P-256 public key from bytes'')
      | None \<Rightarrow> Inl (ENew ''failed to parse P-256 public key from bytes''))"

definition trim_prefix :: "string \<Rightarrow> string \<Rightarrow> string" where
  "trim_prefix s p = (if prefix p s then drop (length p) s else s)"

definition ParseP256PublicKeyFromHex :: "'k crypto \<Rightarrow> string \<Rightarrow> 'k res" where
  "ParseP256PublicKeyFromHex cr hexString =
     (case hex_Decode (trim_prefix hexString ''0x'') of
        Inl e \<Rightarrow> Inl (EWrap ''failed to decode hex string: '' e [])
      | Inr keyBytes \<Rightarrow> ParseP256PublicKeyFromBytes cr keyBytes)"

section \<open>Properties of the wrappers\<close>

text \<open>The documented law of an AEAD: opening a sealed text with its key and nonce gives it back.\<close>

definition aead_correct :: "'k crypto \<Rightarrow> bool" where
  "aead_correct cr \<longleftrightarrow> (\<forall>k n p. prim_Open cr k n (prim_Seal cr k n p) = Some p)"

lemma Decrypt_Encrypt_embed:
  assumes "aead_correct cr" and "length nonce = NonceSize"
    and "EncryptAESGCMWithNonceEmbed cr (Inr nonce) p key = Inr c"
  shows "DecryptAESGCMWithNonceEmbed cr c key = Inr p"
proof -
  from assms(3) have ok: "aes_NewCipher key = Inr ()" and c: "c = nonce @ prim_Seal cr key nonce p"
    by (auto simp: EncryptAESGCMWithNonceEmbed_def split: sum.splits)
  have "prim_Open cr key nonce (prim_Seal cr key nonce p) = Some p"
    using assms(1) by (simp add: aead_correct_def)
  with ok c assms(2) show ?thesis by (simp add: DecryptAESGCMWithNonceEmbed_def)
qed

lemma Decrypt_Encrypt_split:
  assumes "aead_correct cr" and "EncryptAESGCM cr rand p key = Inr (c, nonce)"
  shows "DecryptAESGCM cr c key nonce = Inr p"
  using assms by (auto simp: EncryptAESGCM_def DecryptAESGCM_def bind_res_Inr aead_correct_def)

lemma embed_eq_split:
  "EncryptAESGCMWithNonceEmbed cr rand p key = Inr c \<longleftrightarrow>
     (\<exists>ct nonce. EncryptAESGCM cr rand p key = Inr (ct, nonce) \<and> c = nonce @ ct)"
  by (auto simp: EncryptAESGCMWithNonceEmbed_def EncryptAESGCM_def split: sum.splits)

lemma EncryptAESGCMWithNonceEmbed_ok:
  "(\<exists>c. EncryptAESGCMWithNonceEmbed cr (Inr nonce) p key = Inr c) \<longleftrightarrow> length key \<in> {16, 24, 32}"
  by (auto simp: EncryptAESGCMWithNonceEmbed_def aes_NewCipher_def)

lemma ParseEd25519_length: "ParseEd25519PublicKeyFromHex s = Inr k \<Longrightarrow> length k = 32"
  by (auto simp: ParseEd25519PublicKeyFromHex_def ValidateEd25519PublicKey_def
      split: if_splits sum.splits)

lemma ParseEd25519_hex:
  "length k = 32 \<Longrightarrow> ParseEd25519PublicKeyFromHex (hex_Encode k) = Inr k"
proof -
  assume k: "length k = 32"
  then have "hex_Encode k \<noteq> []" by (cases k) (auto simp: hex_Encode_def)
  with k show ?thesis by (simp add: ParseEd25519PublicKeyFromHex_def ValidateEd25519PublicKey_def)
qed

lemma ParseP256_on_curve:
  "ParseP256PublicKeyFromHex cr s = Inr k \<Longrightarrow> prim_onP256 cr k"
  by (auto simp: ParseP256PublicKeyFromHex_def ParseP256PublicKeyFromBytes_def
      split: sum.splits option.splits if_splits)

lemma VerifyP256Signature_ok:
  "VerifyP256Signature cr pk d s = Inr () \<longleftrightarrow>
     (\<exists>k. pk = Some k \<and> prim_onP256 cr k \<and> s \<noteq> [] \<and> prim_VerifyASN1 cr k (prim_SHA256 cr d) s)"
  by (auto simp: VerifyP256Signature_def split: option.splits)

end
