(* ===== verification/Identity.thy ===== *)
theory Identity
  imports Messages Crypto
begin

text \<open>
  \<^verbatim>\<open>pkg/identity/identity.go\<close>: the identity store of a node. It holds the public keys of the
  peers, the key of the event initiator, the authorization policy, and the symmetric keys
  agreed with the peers; it signs and verifies protocol messages, verifies and authorizes
  initiator messages, and encrypts direct messages.

  The two Go maps whose size is asked for are association lists with distinct keys
  (\<^const>\<open>distinct\<close> in \<open>fileStore_ok\<close>). The mutex of the store makes each method one atomic step.
\<close>

section \<open>State\<close>

record 'k InitiatorKey =
  ik_Algorithm :: string
  ik_Ed25519 :: bytes
  ik_P256 :: "'k option"

definition AlgorithmEd25519 :: string where
  "AlgorithmEd25519 = ''ed25519''"

definition AlgorithmP256 :: string where
  "AlgorithmP256 = ''p256''"

record AuthorizerPublicKey =
  ak_PublicKey :: string
  ak_Algorithm :: string

record AuthorizationConfig =
  ac_Enabled :: bool
  ac_RequiredAuthorizers :: "string list"
  ac_AuthorizerPublicKeys :: "(string, AuthorizerPublicKey) gomap"

text \<open>A cached key is of dynamic type \<^verbatim>\<open>ed25519.PublicKey\<close> or \<^verbatim>\<open>*ecdsa.PublicKey\<close>.\<close>

datatype 'k cached_key = CachedEd25519 bytes | CachedP256 'k

record 'k fileStore =
  fs_publicKeys :: "(string, bytes) gomap"
  fs_privateKey :: bytes
  fs_initiatorKey :: "'k InitiatorKey"
  fs_symmetricKeys :: "(string, bytes option) gomap"
  fs_authConfig :: AuthorizationConfig
  fs_cachedAuthorizerKeys :: "(string, 'k cached_key) gomap"

section \<open>Loading the keys of the configuration\<close>

text \<open>\<open>cfg\<close> stands for \<^verbatim>\<open>viper.GetString\<close>; a missing key reads as the empty string.\<close>

definition loadEd25519InitiatorKey :: "(string \<Rightarrow> string) \<Rightarrow> bytes res" where
  "loadEd25519InitiatorKey cfg =
     (let pubKeyHex = cfg ''event_initiator_pubkey'' in
      if pubKeyHex = [] then Inl (ENew ''event_initiator_pubkey not found in config'')
      else (case ParseEd25519PublicKeyFromHex pubKeyHex of
              Inl e \<Rightarrow> Inl (EWrap ''failed to decode event_initiator_pubkey as hex: '' e [])
            | Inr key \<Rightarrow> Inr key))"

definition ParseP256PublicKeyFromBase64 :: "'k crypto \<Rightarrow> string \<Rightarrow> 'k res" where
  "ParseP256PublicKeyFromBase64 cr base64String =
     (case base64_decode base64String of
        None \<Rightarrow> Inl (EWrap ''failed to decode base64 string: '' (ENew ''illegal base64 data'') [])
      | Some keyBytes \<Rightarrow> ParseP256PublicKeyFromBytes cr keyBytes)"

definition loadP256InitiatorKey :: "'k crypto \<Rightarrow> (string \<Rightarrow> string) \<Rightarrow> 'k res" where
  "loadP256InitiatorKey cr cfg =
     (let pubKeyHex = cfg ''event_initiator_pubkey'' in
      if pubKeyHex = [] then Inl (ENew ''event_initiator_pubkey not found in config'')
      else (case ParseP256PublicKeyFromHex cr pubKeyHex of
              Inr k \<Rightarrow> Inr k
            | Inl _ \<Rightarrow>
                (case ParseP256PublicKeyFromBase64 cr pubKeyHex of
                   Inr k \<Rightarrow> Inr k
                 | Inl e \<Rightarrow> Inl (EWrap ''failed to decode event_initiator_pubkey as hex or base64: '' e []))))"

definition loadInitiatorKeys :: "'k crypto \<Rightarrow> (string \<Rightarrow> string) \<Rightarrow> 'k InitiatorKey res" where
  "loadInitiatorKeys cr cfg =
     (let a = cfg ''event_initiator_algorithm'';
          algorithm = if a = [] then KeyTypeEd25519 else a
      in if \<not> slices_contains [EventInitiatorKeyTypeEd25519, EventInitiatorKeyTypeP256] algorithm
         then Inl (ENew (''invalid algorithm: '' @ algorithm @ ''. Must be '' @
                EventInitiatorKeyTypeEd25519 @ '' or '' @ EventInitiatorKeyTypeP256))
         else if algorithm = EventInitiatorKeyTypeEd25519 then
           (case loadEd25519InitiatorKey cfg of
              Inl e \<Rightarrow> Inl (EWrap ''failed to load Ed25519 initiator key: '' e [])
            | Inr key \<Rightarrow> Inr \<lparr>ik_Algorithm = EventInitiatorKeyTypeEd25519, ik_Ed25519 = key, ik_P256 = None\<rparr>)
         else
           (case loadP256InitiatorKey cr cfg of
              Inl e \<Rightarrow> Inl (EWrap ''failed to load P-256 initiator key: '' e [])
            | Inr key \<Rightarrow> Inr \<lparr>ik_Algorithm = EventInitiatorKeyTypeP256, ik_Ed25519 = [], ik_P256 = Some key\<rparr>))"

text \<open>The loop over the configured authorizers; \<^verbatim>\<open>logger.Fatal\<close> ends the process.\<close>

fun load_authorizers ::
  "'k crypto \<Rightarrow> (string, AuthorizerPublicKey) gomap \<Rightarrow> (string, 'k cached_key) gomap \<Rightarrow>
   (string, 'k cached_key) gomap outcome" where
  "load_authorizers cr [] cache = Returns cache"
| "load_authorizers cr ((i, key) # rest) cache =
     (if ak_Algorithm key = AlgorithmEd25519 then
        (case ParseEd25519PublicKeyFromHex (ak_PublicKey key) of
           Inl e \<Rightarrow> Aborts ''Invalid authorization config''
         | Inr k \<Rightarrow> load_authorizers cr rest (AList.update i (CachedEd25519 k) cache))
      else if ak_Algorithm key = AlgorithmP256 then
        (case ParseP256PublicKeyFromHex cr (ak_PublicKey key) of
           Inl e \<Rightarrow> Aborts ''Invalid authorization config''
         | Inr k \<Rightarrow> load_authorizers cr rest (AList.update i (CachedP256 k) cache))
      else Aborts ''Invalid authorization config'')"

definition loadAuthorizationConfig ::
  "'k crypto \<Rightarrow> AuthorizationConfig res \<Rightarrow> 'k fileStore \<Rightarrow> 'k fileStore res outcome" where
  "loadAuthorizationConfig cr cfg s =
     (case cfg of
        Inl e \<Rightarrow> Returns (Inl (EWrap ''failed to unmarshal authorization config: '' e []))
      | Inr authConfig \<Rightarrow>
          (let s = s\<lparr>fs_authConfig := authConfig\<rparr> in
           if \<not> ac_Enabled authConfig then Returns (Inr s)
           else bind_out (load_authorizers cr (ac_AuthorizerPublicKeys authConfig)
                            (fs_cachedAuthorizerKeys s))
                  (\<lambda>cache. Returns (Inr (s\<lparr>fs_cachedAuthorizerKeys := cache\<rparr>)))))"

section \<open>Symmetric keys\<close>

definition SetSymmetricKey :: "string \<Rightarrow> bytes option \<Rightarrow> 'k fileStore \<Rightarrow> 'k fileStore" where
  "SetSymmetricKey peerID key s =
     s\<lparr>fs_symmetricKeys := AList.update peerID key (fs_symmetricKeys s)\<rparr>"

definition GetSymmetricKey :: "'k fileStore \<Rightarrow> string \<Rightarrow> bytes option res" where
  "GetSymmetricKey s peerID =
     (case map_of (fs_symmetricKeys s) peerID of
        Some key \<Rightarrow> Inr key
      | None \<Rightarrow> Inl (ENew (''SymmetricKey key not found for node ID: '' @ peerID)))"

definition RemoveSymmetricKey :: "string \<Rightarrow> 'k fileStore \<Rightarrow> 'k fileStore" where
  "RemoveSymmetricKey peerID s =
     s\<lparr>fs_symmetricKeys := AList.delete peerID (fs_symmetricKeys s)\<rparr>"

definition GetSymetricKeyCount :: "'k fileStore \<Rightarrow> int" where
  "GetSymetricKeyCount s = int (length (fs_symmetricKeys s))"

definition CheckSymmetricKeyComplete :: "'k fileStore \<Rightarrow> int \<Rightarrow> bool" where
  "CheckSymmetricKeyComplete s desired = (int (length (fs_symmetricKeys s)) = desired)"

definition GetPublicKey :: "'k fileStore \<Rightarrow> string \<Rightarrow> bytes res" where
  "GetPublicKey s nodeID =
     (case map_of (fs_publicKeys s) nodeID of
        Some key \<Rightarrow> Inr key
      | None \<Rightarrow> Inl (ENew (''public key not found for node ID: '' @ nodeID)))"

section \<open>Protocol messages\<close>

text \<open>This package has its own \<^verbatim>\<open>partyIDToNodeID\<close>, without white-space trimming or nil check.\<close>

definition identity_partyIDToNodeID :: "PartyID \<Rightarrow> string" where
  "identity_partyIDToNodeID p = hd (str_split CHR '':'' (KeyBytes p))"

definition nil_deref :: string where
  "nil_deref = ''invalid memory address or nil pointer dereference''"

definition SignMessage ::
  "'k crypto \<Rightarrow> (PartyID \<Rightarrow> json) \<Rightarrow> 'k fileStore \<Rightarrow> TssMessage \<Rightarrow> bytes res outcome" where
  "SignMessage cr json_pid s msg =
     (case tm_From msg of
        None \<Rightarrow> Aborts nil_deref
      | Some from \<Rightarrow>
          bind_out (ed25519_Sign cr (fs_privateKey s) (MarshalForSigning json_pid from msg))
            (\<lambda>signature. Returns (Inr signature)))"

definition VerifyMessage ::
  "'k crypto \<Rightarrow> (PartyID \<Rightarrow> json) \<Rightarrow> 'k fileStore \<Rightarrow> TssMessage \<Rightarrow> unit res outcome" where
  "VerifyMessage cr json_pid s msg =
     (case tm_Signature msg of
        None \<Rightarrow> Returns (Inl (ENew ''message has no signature''))
      | Some signature \<Rightarrow>
          (case tm_From msg of
             None \<Rightarrow> Aborts nil_deref
           | Some from \<Rightarrow>
               (case GetPublicKey s (identity_partyIDToNodeID from) of
                  Inl e \<Rightarrow> Returns (Inl (EWrap (''failed to get sender'' @ [CHR 0x27] @ ''s public key: '') e []))
                | Inr publicKey \<Rightarrow>
                    bind_out (ed25519_Verify cr publicKey (MarshalForSigning json_pid from msg) signature)
                      (\<lambda>ok. Returns (if \<not> ok then Inl (ENew ''invalid signature'') else Inr ())))))"

definition EncryptMessage ::
  "'k crypto \<Rightarrow> bytes res \<Rightarrow> 'k fileStore \<Rightarrow> bytes \<Rightarrow> string \<Rightarrow> bytes res" where
  "EncryptMessage cr rand s plaintext peerID =
     (case GetSymmetricKey s peerID of
        Inl e \<Rightarrow> Inl e
      | Inr None \<Rightarrow> Inl (ENew (''no symmetric key for peer '' @ peerID))
      | Inr (Some key) \<Rightarrow> EncryptAESGCMWithNonceEmbed cr rand plaintext key)"

definition DecryptMessage :: "'k crypto \<Rightarrow> 'k fileStore \<Rightarrow> bytes \<Rightarrow> string \<Rightarrow> bytes res" where
  "DecryptMessage cr s cipher peerID =
     (case GetSymmetricKey s peerID of
        Inl e \<Rightarrow> Inl e
      | Inr None \<Rightarrow> Inl (ENew (''no symmetric key for peer '' @ peerID))
      | Inr (Some key) \<Rightarrow> DecryptAESGCMWithNonceEmbed cr cipher key)"

definition SignEcdhMessage :: "'k crypto \<Rightarrow> 'k fileStore \<Rightarrow> ECDHMessage \<Rightarrow> bytes res outcome" where
  "SignEcdhMessage cr s msg =
     bind_out (ed25519_Sign cr (fs_privateKey s) (ECDH_MarshalForSigning msg))
       (\<lambda>signature. Returns (Inr signature))"

definition VerifySignature :: "'k crypto \<Rightarrow> 'k fileStore \<Rightarrow> ECDHMessage \<Rightarrow> unit res outcome" where
  "VerifySignature cr s msg =
     (case em_Signature msg of
        None \<Rightarrow> Returns (Inl (ENew ''ECDH message has no signature''))
      | Some signature \<Rightarrow>
          (case GetPublicKey s (em_From msg) of
             Inl e \<Rightarrow> Returns (Inl (EWrap (''failed to get sender'' @ [CHR 0x27] @ ''s public key: '') e []))
           | Inr senderPk \<Rightarrow>
               bind_out (ed25519_Verify cr senderPk (ECDH_MarshalForSigning msg) signature)
                 (\<lambda>ok. Returns (if \<not> ok
                    then Inl (ENew (''invalid signature from '' @ em_From msg @ '' with public key '' @
                           hex_Encode senderPk))
                    else Inr ()))))"

section \<open>Initiator messages\<close>

text \<open>A nil signature and an empty one have the same length.\<close>

definition sig_bytes :: "bytes option \<Rightarrow> bytes" where
  "sig_bytes b = (case b of None \<Rightarrow> [] | Some x \<Rightarrow> x)"

definition verifyEd25519 :: "'k crypto \<Rightarrow> 'k fileStore \<Rightarrow> InitiatorMessage \<Rightarrow> unit res outcome" where
  "verifyEd25519 cr s msg =
     (let signature = sig_bytes (Sig msg) in
      if signature = [] then Returns (Inl (ENew ''signature is empty''))
      else bind_out (ed25519_Verify cr (ik_Ed25519 (fs_initiatorKey s)) (Raw msg) signature)
             (\<lambda>ok. Returns (if \<not> ok then Inl (ENew ''invalid signature from initiator'') else Inr ())))"

definition verifyP256 :: "'k crypto \<Rightarrow> 'k fileStore \<Rightarrow> InitiatorMessage \<Rightarrow> unit res" where
  "verifyP256 cr s msg =
     (case ik_P256 (fs_initiatorKey s) of
        None \<Rightarrow> Inl (ENew ''initiator public key for secp256r1 is not set'')
      | Some k \<Rightarrow> VerifyP256Signature cr (Some k) (Raw msg) (sig_bytes (Sig msg)))"

definition VerifyInitiatorMessage ::
  "'k crypto \<Rightarrow> 'k fileStore \<Rightarrow> InitiatorMessage \<Rightarrow> unit res outcome" where
  "VerifyInitiatorMessage cr s msg =
     (let algo = ik_Algorithm (fs_initiatorKey s) in
      if algo = EventInitiatorKeyTypeEd25519 then verifyEd25519 cr s msg
      else if algo = EventInitiatorKeyTypeP256 then Returns (verifyP256 cr s msg)
      else Returns (Inl (ENew (''unsupported algorithm: '' @ algo))))"

text \<open>
  The zero value of \<^verbatim>\<open>AuthorizerPublicKey\<close> is what indexing the Go map gives for an unknown
  identifier; a failed type assertion panics.
\<close>

definition verifyAuthorizerSignature ::
  "'k crypto \<Rightarrow> 'k fileStore \<Rightarrow> bytes \<Rightarrow> AuthorizerSignature \<Rightarrow> unit res outcome" where
  "verifyAuthorizerSignature cr s raw sig =
     (let i = as_AuthorizerID sig in
      case map_of (fs_cachedAuthorizerKeys s) i of
        None \<Rightarrow> Returns (Inl (ENew (''authorizer '' @ i @ '' not found in cache'')))
      | Some authPub \<Rightarrow>
          (let alg = (case map_of (ac_AuthorizerPublicKeys (fs_authConfig s)) i of
                        Some meta \<Rightarrow> ak_Algorithm meta | None \<Rightarrow> [])
           in if alg = AlgorithmEd25519 then
                (case authPub of
                   CachedEd25519 pub \<Rightarrow>
                     bind_out (ed25519_Verify cr pub raw (as_Signature sig))
                       (\<lambda>ok. Returns (if \<not> ok then Inl (ENew (''ed25519 verification failed for '' @ i))
                                      else Inr ()))
                 | CachedP256 _ \<Rightarrow> Aborts ''interface conversion'')
              else if alg = AlgorithmP256 then
                (case authPub of
                   CachedP256 pub \<Rightarrow>
                     Returns (case VerifyP256Signature cr (Some pub) raw (as_Signature sig) of
                        Inl e \<Rightarrow> Inl (EWrap (''p256 verification failed for '' @ i @ '': '') e [])
                      | Inr _ \<Rightarrow> Inr ())
                 | CachedEd25519 _ \<Rightarrow> Aborts ''interface conversion'')
              else Returns (Inl (ENew (''unsupported algorithm '' @ [CHR 0x22] @ alg @ [CHR 0x22] @
                     '' for authorizer '' @ i)))))"

fun providedSigs :: "AuthorizerSignature list \<Rightarrow> string \<rightharpoonup> AuthorizerSignature" where
  "providedSigs [] = Map.empty"
| "providedSigs (sig # sigs) = [as_AuthorizerID sig \<mapsto> sig] ++ providedSigs sigs"

fun check_required :: "(string \<rightharpoonup> AuthorizerSignature) \<Rightarrow> string list \<Rightarrow> unit res" where
  "check_required m [] = Inr ()"
| "check_required m (requiredID # rest) =
     (case m requiredID of
        None \<Rightarrow> Inl (ENew (''missing required authorizer signature: '' @ requiredID))
      | Some _ \<Rightarrow> check_required m rest)"

fun verify_all ::
  "'k crypto \<Rightarrow> 'k fileStore \<Rightarrow> bytes \<Rightarrow> AuthorizerSignature list \<Rightarrow> unit res outcome" where
  "verify_all cr s raw [] = Returns (Inr ())"
| "verify_all cr s raw (sig # sigs) =
     bind_out (verifyAuthorizerSignature cr s raw sig)
       (\<lambda>r. case r of
          Inl e \<Rightarrow> Returns (Inl (EWrap (''authorizer '' @ as_AuthorizerID sig @ '' verification failed: '') e []))
        | Inr _ \<Rightarrow> verify_all cr s raw sigs)"

definition AuthorizeInitiatorMessage ::
  "'k crypto \<Rightarrow> 'k fileStore \<Rightarrow> InitiatorMessage \<Rightarrow> unit res outcome" where
  "AuthorizeInitiatorMessage cr s msg =
     (if \<not> ac_Enabled (fs_authConfig s) then Returns (Inr ())
      else
        (let sigs = GetAuthorizerSignatures msg;
             required = ac_RequiredAuthorizers (fs_authConfig s)
         in case (if length required > 0 then check_required (providedSigs sigs) required else Inr ()) of
              Inl e \<Rightarrow> Returns (Inl e)
            | Inr _ \<Rightarrow>
                if length sigs = 0 then Returns (Inr ())
                else verify_all cr s (ComposeAuthorizerRaw msg) sigs))"

definition getAuthorizerPublicKey :: "'k fileStore \<Rightarrow> string \<Rightarrow> AuthorizerPublicKey res" where
  "getAuthorizerPublicKey s authorizerID =
     (case map_of (ac_AuthorizerPublicKeys (fs_authConfig s)) authorizerID of
        None \<Rightarrow> Inl (ENew (''unknown authorizer ID: '' @ authorizerID))
      | Some publicKey \<Rightarrow> Inr publicKey)"

section \<open>The interface of the symmetric-key table\<close>

text \<open>
  The contract that the key exchange and the registry rely on: a table of keys with insertion,
  lookup, removal and a count, over states that satisfy an invariant.
\<close>

locale symmetric_keys =
  fixes ok :: "'s \<Rightarrow> bool"
    and set_key :: "string \<Rightarrow> bytes option \<Rightarrow> 's \<Rightarrow> 's"
    and get_key :: "'s \<Rightarrow> string \<Rightarrow> bytes option res"
    and remove_key :: "string \<Rightarrow> 's \<Rightarrow> 's"
    and count :: "'s \<Rightarrow> int"
  assumes set_ok: "ok s \<Longrightarrow> ok (set_key p k s)"
    and remove_ok: "ok s \<Longrightarrow> ok (remove_key p s)"
    and get_set: "get_key (set_key p k s) q = (if q = p then Inr k else get_key s q)"
    and get_remove: "(\<exists>k. get_key (remove_key p s) q = Inr k) \<longleftrightarrow> q \<noteq> p \<and> (\<exists>k. get_key s q = Inr k)"
    and finite_keys: "finite {p. \<exists>k. get_key s p = Inr k}"
    and count_keys: "ok s \<Longrightarrow> count s = int (card {p. \<exists>k. get_key s p = Inr k})"
begin

definition holders :: "'s \<Rightarrow> string set" where
  "holders s = {p. \<exists>k. get_key s p = Inr k}"

lemma holders_set: "holders (set_key p k s) = insert p (holders s)"
  by (auto simp: holders_def get_set)

lemma holders_remove: "holders (remove_key p s) = holders s - {p}"
  using get_remove by (auto simp: holders_def)

lemma count_holders: "ok s \<Longrightarrow> count s = int (card (holders s))"
  by (simp add: count_keys holders_def)

lemma count_set:
  assumes "ok s"
  shows "count (set_key p k s) = (if p \<in> holders s then count s else count s + 1)"
proof -
  have "finite (holders s)" using finite_keys by (simp add: holders_def)
  then show ?thesis
    using count_holders [OF assms] count_holders [OF set_ok [OF assms]]
    by (simp add: holders_set insert_absorb)
qed

lemma count_remove:
  assumes "ok s"
  shows "count (remove_key p s) = (if p \<in> holders s then count s - 1 else count s)"
proof -
  have fin: "finite (holders s)" using finite_keys by (simp add: holders_def)
  then have "p \<in> holders s \<Longrightarrow> card (holders s) = Suc (card (holders s - {p}))"
    by (rule card.remove)
  then show ?thesis
    using count_holders [OF assms] count_holders [OF remove_ok [OF assms]]
    by (auto simp: holders_remove)
qed

lemma remove_set_count:
  "ok s \<Longrightarrow> p \<notin> holders s \<Longrightarrow> count (remove_key p (set_key p k s)) = count s"
  by (simp add: count_remove count_set set_ok holders_set)

text \<open>A full table over the peers of a node: the count test decides completeness.\<close>

lemma complete_iff:
  assumes "ok s" and "holders s \<subseteq> set ps" and "distinct ps"
  shows "count s = int (length ps) \<longleftrightarrow> holders s = set ps"
proof -
  have "card (holders s) = card (set ps) \<longleftrightarrow> holders s = set ps"
    using assms(2) by (metis List.finite_set card_subset_eq)
  then show ?thesis
    using assms by (simp add: count_holders distinct_card)
qed

end

definition fileStore_ok :: "'k fileStore \<Rightarrow> bool" where
  "fileStore_ok s \<longleftrightarrow> gomap_ok (fs_symmetricKeys s) \<and> gomap_ok (fs_publicKeys s)"

lemma GetSymmetricKey_Inr: "GetSymmetricKey s p = Inr k \<longleftrightarrow> map_of (fs_symmetricKeys s) p = Some k"
  by (auto simp: GetSymmetricKey_def split: option.splits)

lemma holders_dom: "{p. \<exists>k. GetSymmetricKey s p = Inr k} = dom (map_of (fs_symmetricKeys s))"
  by (auto simp: GetSymmetricKey_Inr)

interpretation sym: symmetric_keys fileStore_ok SetSymmetricKey GetSymmetricKey RemoveSymmetricKey
  GetSymetricKeyCount
proof unfold_locales
  fix s :: "'a fileStore" and p q k
  show "fileStore_ok s \<Longrightarrow> fileStore_ok (SetSymmetricKey p k s)"
    by (auto simp: fileStore_ok_def SetSymmetricKey_def)
  show "fileStore_ok s \<Longrightarrow> fileStore_ok (RemoveSymmetricKey p s)"
    by (auto simp: fileStore_ok_def RemoveSymmetricKey_def)
  show "GetSymmetricKey (SetSymmetricKey p k s) q = (if q = p then Inr k else GetSymmetricKey s q)"
    by (simp add: GetSymmetricKey_def SetSymmetricKey_def)
  show "(\<exists>k. GetSymmetricKey (RemoveSymmetricKey p s) q = Inr k) \<longleftrightarrow>
      q \<noteq> p \<and> (\<exists>k. GetSymmetricKey s q = Inr k)"
    by (simp add: GetSymmetricKey_Inr) (simp add: RemoveSymmetricKey_def)
  show "finite {p. \<exists>k. GetSymmetricKey s p = Inr k}"
    by (simp add: holders_dom finite_dom_map_of)
  show "GetSymetricKeyCount s = int (card {p. \<exists>k. GetSymmetricKey s p = Inr k})" if "fileStore_ok s"
    using that by (simp add: holders_dom GetSymetricKeyCount_def fileStore_ok_def gomap_length)
qed

lemma CheckSymmetricKeyComplete_iff: "CheckSymmetricKeyComplete s n \<longleftrightarrow> GetSymetricKeyCount s = n"
  by (simp add: CheckSymmetricKeyComplete_def GetSymetricKeyCount_def)

section \<open>Direct messages\<close>

lemma Decrypt_EncryptMessage:
  assumes "aead_correct cr" and "length nonce = NonceSize"
    and "GetSymmetricKey a bID = Inr key" and "GetSymmetricKey b aID = Inr key"
    and "EncryptMessage cr (Inr nonce) a p bID = Inr c"
  shows "DecryptMessage cr b c aID = Inr p"
proof -
  obtain k where k: "key = Some k" using assms(3,5) by (cases key) (auto simp: EncryptMessage_def)
  with assms(3,5) have "EncryptAESGCMWithNonceEmbed cr (Inr nonce) p k = Inr c"
    by (simp add: EncryptMessage_def)
  then have "DecryptAESGCMWithNonceEmbed cr c k = Inr p"
    by (rule Decrypt_Encrypt_embed [OF assms(1,2)])
  then show ?thesis using assms(4) k by (simp add: DecryptMessage_def)
qed

section \<open>Node identifiers in this package\<close>

lemma identity_partyIDToNodeID_create:
  assumes "wf_nodeID n"
  shows "identity_partyIDToNodeID (createPartyID u n l v) = n"
  using assms
  by (auto simp: identity_partyIDToNodeID_def hd_str_split KeyBytes_createPartyID party_key_text_def
      wf_nodeID_def cut_before_id cut_before_append)

lemma partyIDToNodeID_trims:
  "partyIDToNodeID (Some p) = trim_space (identity_partyIDToNodeID p)"
  by (simp add: identity_partyIDToNodeID_def hd_str_split)

section \<open>Signatures of protocol messages\<close>

lemma VerifyMessage_ok:
  "VerifyMessage cr jp s msg = Returns (Inr ()) \<longleftrightarrow>
     (\<exists>from sig pub. tm_From msg = Some from \<and> tm_Signature msg = Some sig \<and>
        map_of (fs_publicKeys s) (identity_partyIDToNodeID from) = Some pub \<and>
        ed25519_Verify cr pub (MarshalForSigning jp from msg) sig = Returns True)"
  by (auto simp: VerifyMessage_def GetPublicKey_def bind_out_Returns
      split: option.splits if_splits)

text \<open>The documented law of signatures: what the owner of a key pair signs verifies.\<close>

definition ed25519_pair :: "'k crypto \<Rightarrow> bytes \<Rightarrow> bytes \<Rightarrow> bool" where
  "ed25519_pair cr priv pub \<longleftrightarrow> length priv = 64 \<and> length pub = 32 \<and>
     (\<forall>m. length (prim_Ed25519_Sign cr priv m) = 64 \<and>
          prim_Ed25519_Verify cr pub m (prim_Ed25519_Sign cr priv m))"

lemma Verify_SignMessage:
  assumes "ed25519_pair cr (fs_privateKey a) pub" and "wf_nodeID n"
    and "map_of (fs_publicKeys b) n = Some pub"
    and "tm_From msg = Some (createPartyID u n l v)"
    and "SignMessage cr jp a msg = Returns (Inr sig)"
  shows "VerifyMessage cr jp b (msg\<lparr>tm_Signature := Some sig\<rparr>) = Returns (Inr ())"
proof -
  let ?p = "createPartyID u n l v"
  have sig: "sig = prim_Ed25519_Sign cr (fs_privateKey a) (MarshalForSigning jp ?p msg)"
    using assms(1,4,5) by (auto simp: SignMessage_def ed25519_Sign_def ed25519_pair_def)
  have "MarshalForSigning jp ?p (msg\<lparr>tm_Signature := Some sig\<rparr>) = MarshalForSigning jp ?p msg"
    by (simp add: MarshalForSigning_def TssMessage_signing_def)
  then show ?thesis
    using assms(1-4) sig
    by (auto simp: VerifyMessage_ok identity_partyIDToNodeID_create ed25519_pair_def ed25519_Verify_def)
qed

lemma Verify_SignEcdhMessage:
  assumes "ed25519_pair cr (fs_privateKey a) pub"
    and "map_of (fs_publicKeys b) (em_From msg) = Some pub"
    and "SignEcdhMessage cr a msg = Returns (Inr sig)"
  shows "VerifySignature cr b (msg\<lparr>em_Signature := Some sig\<rparr>) = Returns (Inr ())"
proof -
  have sig: "sig = prim_Ed25519_Sign cr (fs_privateKey a) (ECDH_MarshalForSigning msg)"
    using assms(1,3) by (auto simp: SignEcdhMessage_def ed25519_Sign_def ed25519_pair_def)
  have "ECDH_MarshalForSigning (msg\<lparr>em_Signature := Some sig\<rparr>) = ECDH_MarshalForSigning msg"
    by (simp add: ECDH_MarshalForSigning_def)
  then show ?thesis
    using assms(1,2) sig
    by (auto simp: VerifySignature_def GetPublicKey_def ed25519_pair_def ed25519_Verify_def)
qed

section \<open>Authorization\<close>

text \<open>
  The cache built by \<^const>\<open>loadAuthorizationConfig\<close> agrees with the configuration: every
  configured authorizer has a key of its algorithm, and no other key is cached.
\<close>

definition cache_entry_ok :: "'k crypto \<Rightarrow> AuthorizerPublicKey option \<Rightarrow> 'k cached_key option \<Rightarrow> bool" where
  "cache_entry_ok cr meta entry =
     (case (meta, entry) of
        (None, None) \<Rightarrow> True
      | (Some m, Some (CachedEd25519 k)) \<Rightarrow>
          ak_Algorithm m = AlgorithmEd25519 \<and> ParseEd25519PublicKeyFromHex (ak_PublicKey m) = Inr k
      | (Some m, Some (CachedP256 k)) \<Rightarrow>
          ak_Algorithm m = AlgorithmP256 \<and> ParseP256PublicKeyFromHex cr (ak_PublicKey m) = Inr k
      | _ \<Rightarrow> False)"

definition auth_ok :: "'k crypto \<Rightarrow> 'k fileStore \<Rightarrow> bool" where
  "auth_ok cr s \<longleftrightarrow> ac_Enabled (fs_authConfig s) \<longrightarrow>
     (\<forall>i. cache_entry_ok cr (map_of (ac_AuthorizerPublicKeys (fs_authConfig s)) i)
            (map_of (fs_cachedAuthorizerKeys s) i))"

lemma load_authorizers_ok:
  assumes "load_authorizers cr keys cache = Returns cache'" and "distinct (map fst keys)"
  shows "map_of cache' i =
    (case map_of keys i of
       None \<Rightarrow> map_of cache i
     | Some m \<Rightarrow> map_of cache' i) \<and>
    (map_of keys i \<noteq> None \<longrightarrow> cache_entry_ok cr (map_of keys i) (map_of cache' i))"
  using assms
proof (induction cr keys cache rule: load_authorizers.induct)
  case (2 cr j key rest cache)
  note alg = AlgorithmEd25519_def AlgorithmP256_def
  from "2.prems" have dist: "distinct (map fst rest)" and nin: "map_of rest j = None"
    by (auto simp: map_of_eq_None_iff)
  show ?case
  proof (cases "ak_Algorithm key = AlgorithmEd25519")
    case True
    with "2.prems"(1) obtain k where k: "ParseEd25519PublicKeyFromHex (ak_PublicKey key) = Inr k"
      and l: "load_authorizers cr rest (AList.update j (CachedEd25519 k) cache) = Returns cache'"
      by (auto split: sum.splits)
    from "2.IH"(1) [OF True k l dist] k True nin show ?thesis
      by (auto simp: cache_entry_ok_def split: option.splits)
  next
    case False
    with "2.prems"(1) obtain k where a: "ak_Algorithm key = AlgorithmP256"
      and k: "ParseP256PublicKeyFromHex cr (ak_PublicKey key) = Inr k"
      and l: "load_authorizers cr rest (AList.update j (CachedP256 k) cache) = Returns cache'"
      by (auto split: sum.splits if_splits)
    from "2.IH"(2) [OF False a k l dist] k a nin show ?thesis
      by (auto simp: cache_entry_ok_def split: option.splits)
  qed
qed simp

lemma loadAuthorizationConfig_auth_ok:
  assumes "loadAuthorizationConfig cr (Inr ac) s = Returns (Inr s')"
    and "distinct (map fst (ac_AuthorizerPublicKeys ac))" and "fs_cachedAuthorizerKeys s = []"
  shows "auth_ok cr s' \<and> fs_authConfig s' = ac"
proof (cases "ac_Enabled ac")
  case True
  with assms obtain c where c: "load_authorizers cr (ac_AuthorizerPublicKeys ac) [] = Returns c"
    and s': "s' = s\<lparr>fs_authConfig := ac, fs_cachedAuthorizerKeys := c\<rparr>"
    by (auto simp: loadAuthorizationConfig_def bind_out_Returns Let_def)
  have "cache_entry_ok cr (map_of (ac_AuthorizerPublicKeys ac) i) (map_of c i)" for i
    using load_authorizers_ok [OF c assms(2), of i]
    by (cases "map_of (ac_AuthorizerPublicKeys ac) i") (auto simp: cache_entry_ok_def)
  with s' show ?thesis by (simp add: auth_ok_def)
next
  case False
  with assms show ?thesis by (auto simp: loadAuthorizationConfig_def auth_ok_def Let_def)
qed

text \<open>A signature is valid for a payload under the key configured for its authorizer.\<close>

definition authorizer_valid :: "'k crypto \<Rightarrow> AuthorizationConfig \<Rightarrow> bytes \<Rightarrow> AuthorizerSignature \<Rightarrow> bool" where
  "authorizer_valid cr ac raw sig =
     (case map_of (ac_AuthorizerPublicKeys ac) (as_AuthorizerID sig) of
        None \<Rightarrow> False
      | Some m \<Rightarrow>
          if ak_Algorithm m = AlgorithmEd25519 then
            (case ParseEd25519PublicKeyFromHex (ak_PublicKey m) of
               Inl _ \<Rightarrow> False
             | Inr k \<Rightarrow> length (as_Signature sig) = 64 \<and> prim_Ed25519_Verify cr k raw (as_Signature sig))
          else if ak_Algorithm m = AlgorithmP256 then
            (case ParseP256PublicKeyFromHex cr (ak_PublicKey m) of
               Inl _ \<Rightarrow> False
             | Inr k \<Rightarrow> VerifyP256Signature cr (Some k) raw (as_Signature sig) = Inr ())
          else False)"

lemma verifyAuthorizerSignature_iff:
  assumes "auth_ok cr s" and "ac_Enabled (fs_authConfig s)"
  shows "\<exists>r. verifyAuthorizerSignature cr s raw sig = Returns r \<and>
    (r = Inr () \<longleftrightarrow> authorizer_valid cr (fs_authConfig s) raw sig)"
proof -
  have neq: "AlgorithmEd25519 \<noteq> AlgorithmP256" by (simp add: AlgorithmEd25519_def AlgorithmP256_def)
  have "cache_entry_ok cr (map_of (ac_AuthorizerPublicKeys (fs_authConfig s)) (as_AuthorizerID sig))
      (map_of (fs_cachedAuthorizerKeys s) (as_AuthorizerID sig))"
    using assms by (simp add: auth_ok_def)
  then show ?thesis
    using neq by (auto simp: cache_entry_ok_def verifyAuthorizerSignature_def authorizer_valid_def Let_def
        ed25519_Verify_def dest: ParseEd25519_length split: option.splits cached_key.splits sum.splits)
qed

lemma verify_all_iff:
  assumes "auth_ok cr s" and "ac_Enabled (fs_authConfig s)"
  shows "\<exists>r. verify_all cr s raw sigs = Returns r \<and>
    (r = Inr () \<longleftrightarrow> (\<forall>sig \<in> set sigs. authorizer_valid cr (fs_authConfig s) raw sig))"
proof (induction sigs)
  case (Cons sig sigs)
  from verifyAuthorizerSignature_iff [OF assms, of raw sig] obtain r where
    r: "verifyAuthorizerSignature cr s raw sig = Returns r"
       "r = Inr () \<longleftrightarrow> authorizer_valid cr (fs_authConfig s) raw sig" by blast
  show ?case using r Cons by (cases r) auto
qed simp

lemma providedSigs_None: "providedSigs sigs i = None \<longleftrightarrow> i \<notin> as_AuthorizerID ` set sigs"
  by (induction sigs) (auto simp: map_add_def split: option.splits)

lemma check_required_iff: "check_required m ids = Inr () \<longleftrightarrow> (\<forall>i \<in> set ids. m i \<noteq> None)"
  by (induction ids) (auto split: option.splits)

lemma check_required_err:
  "check_required m ids = Inl e \<Longrightarrow>
   \<exists>i \<in> set ids. m i = None \<and> e = ENew (''missing required authorizer signature: '' @ i)"
  by (induction ids) (auto split: option.splits)

lemma Authorize_iff:
  assumes "auth_ok cr s"
  shows "\<exists>r. AuthorizeInitiatorMessage cr s msg = Returns r \<and>
    (r = Inr () \<longleftrightarrow> \<not> ac_Enabled (fs_authConfig s) \<or>
       set (ac_RequiredAuthorizers (fs_authConfig s)) \<subseteq> as_AuthorizerID ` set (GetAuthorizerSignatures msg) \<and>
       (\<forall>sig \<in> set (GetAuthorizerSignatures msg).
          authorizer_valid cr (fs_authConfig s) (ComposeAuthorizerRaw msg) sig))"
proof (cases "ac_Enabled (fs_authConfig s)")
  case True
  let ?sigs = "GetAuthorizerSignatures msg" and ?req = "ac_RequiredAuthorizers (fs_authConfig s)"
  have req: "check_required (providedSigs ?sigs) ?req = Inr () \<longleftrightarrow> set ?req \<subseteq> as_AuthorizerID ` set ?sigs"
    by (auto simp: check_required_iff providedSigs_None)
  obtain r where "verify_all cr s (ComposeAuthorizerRaw msg) ?sigs = Returns r"
    "r = Inr () \<longleftrightarrow> (\<forall>sig \<in> set ?sigs. authorizer_valid cr (fs_authConfig s) (ComposeAuthorizerRaw msg) sig)"
    using verify_all_iff [OF assms True, of "ComposeAuthorizerRaw msg" ?sigs] by blast
  with True req show ?thesis
    by (cases "?req = []"; cases "check_required (providedSigs ?sigs) ?req"; cases "?sigs = []")
      (auto simp: AuthorizeInitiatorMessage_def Let_def)
qed (simp add: AuthorizeInitiatorMessage_def)

section \<open>The initiator key\<close>

definition initiator_ok :: "'k crypto \<Rightarrow> 'k InitiatorKey \<Rightarrow> bool" where
  "initiator_ok cr ik \<longleftrightarrow>
     ik_Algorithm ik = EventInitiatorKeyTypeEd25519 \<and> length (ik_Ed25519 ik) = 32 \<or>
     ik_Algorithm ik = EventInitiatorKeyTypeP256 \<and> (\<exists>k. ik_P256 ik = Some k \<and> prim_onP256 cr k)"

lemma ParseP256Bytes_on_curve: "ParseP256PublicKeyFromBytes cr b = Inr k \<Longrightarrow> prim_onP256 cr k"
  by (auto simp: ParseP256PublicKeyFromBytes_def split: option.splits if_splits)

lemma loadInitiatorKeys_ok: "loadInitiatorKeys cr cfg = Inr ik \<Longrightarrow> initiator_ok cr ik"
proof -
  assume load: "loadInitiatorKeys cr cfg = Inr ik"
  have ed: "loadEd25519InitiatorKey cfg = Inr k \<Longrightarrow> length k = 32" for k
    by (auto simp: loadEd25519InitiatorKey_def Let_def dest: ParseEd25519_length
        split: if_splits sum.splits)
  have p: "loadP256InitiatorKey cr cfg = Inr k \<Longrightarrow> prim_onP256 cr k" for k
    by (auto simp: loadP256InitiatorKey_def Let_def ParseP256PublicKeyFromBase64_def
        dest: ParseP256_on_curve ParseP256Bytes_on_curve split: if_splits sum.splits option.splits)
  from load show ?thesis
    by (auto simp: loadInitiatorKeys_def Let_def initiator_ok_def dest: ed p split: if_splits sum.splits)
qed

definition initiator_valid :: "'k crypto \<Rightarrow> 'k InitiatorKey \<Rightarrow> bytes \<Rightarrow> bytes \<Rightarrow> bool" where
  "initiator_valid cr ik raw sig \<longleftrightarrow> sig \<noteq> [] \<and>
     (if ik_Algorithm ik = EventInitiatorKeyTypeEd25519
      then length sig = 64 \<and> prim_Ed25519_Verify cr (ik_Ed25519 ik) raw sig
      else (\<exists>k. ik_P256 ik = Some k \<and> prim_VerifyASN1 cr k (prim_SHA256 cr raw) sig))"

lemma VerifyInitiatorMessage_iff:
  assumes "initiator_ok cr (fs_initiatorKey s)"
  shows "\<exists>r. VerifyInitiatorMessage cr s msg = Returns r \<and>
    (r = Inr () \<longleftrightarrow> initiator_valid cr (fs_initiatorKey s) (Raw msg) (sig_bytes (Sig msg)))"
proof -
  have "EventInitiatorKeyTypeEd25519 \<noteq> EventInitiatorKeyTypeP256"
    by (simp add: EventInitiatorKeyTypeEd25519_def EventInitiatorKeyTypeP256_def)
  then show ?thesis
    using assms by (auto simp: VerifyInitiatorMessage_def initiator_ok_def initiator_valid_def Let_def
        verifyEd25519_def verifyP256_def ed25519_Verify_def VerifyP256Signature_ok)
qed

end
