(* ===== verification/Topics.thy ===== *)
theory Topics
  imports Party_Ids
begin

text \<open>
  The topics on which the nodes of a session exchange protocol messages: the six
  \<^verbatim>\<open>TopicComposer\<close>s built by the session constructors, the storage-key composers, the barrier
  topics of \<^verbatim>\<open>WaitForPeersReady\<close>, and \<^verbatim>\<open>extractSenderIDFromDirectTopic\<close>, which reads the sender
  back from a direct topic.
\<close>

datatype SessionType = SessionTypeECDSA | SessionTypeEDDSA | OtherSessionType string

text \<open>A session kind with the wallet (and transaction) it works for.\<close>

datatype session_kind =
    ECDSAKeygen string
  | EDDSAKeygen string
  | ECDSASigning string string
  | EDDSASigning string string
  | ECDSAReshare string
  | EDDSAReshare string

record TopicComposer =
  ComposeBroadcastTopic :: string
  ComposeDirectTopic :: "string \<Rightarrow> string \<Rightarrow> string"

fun topicComposer :: "session_kind \<Rightarrow> TopicComposer" where
  "topicComposer (ECDSAKeygen walletID) =
     \<lparr>ComposeBroadcastTopic = ''keygen:broadcast:ecdsa:'' @ walletID,
      ComposeDirectTopic = (\<lambda>fromID toID. ''keygen:direct:ecdsa:'' @ fromID @ '':'' @ toID @ '':'' @ walletID)\<rparr>"
| "topicComposer (EDDSAKeygen walletID) =
     \<lparr>ComposeBroadcastTopic = ''keygen:broadcast:eddsa:'' @ walletID,
      ComposeDirectTopic = (\<lambda>fromID toID. ''keygen:direct:eddsa:'' @ fromID @ '':'' @ toID @ '':'' @ walletID)\<rparr>"
| "topicComposer (ECDSASigning walletID txID) =
     \<lparr>ComposeBroadcastTopic = ''sign:ecdsa:broadcast:'' @ walletID @ '':'' @ txID,
      ComposeDirectTopic = (\<lambda>fromID toID. ''sign:ecdsa:direct:'' @ fromID @ '':'' @ toID @ '':'' @ txID)\<rparr>"
| "topicComposer (EDDSASigning walletID txID) =
     \<lparr>ComposeBroadcastTopic = ''sign:eddsa:broadcast:'' @ walletID @ '':'' @ txID,
      ComposeDirectTopic = (\<lambda>fromID toID. ''sign:eddsa:direct:'' @ fromID @ '':'' @ toID @ '':'' @ txID)\<rparr>"
| "topicComposer (ECDSAReshare walletID) =
     \<lparr>ComposeBroadcastTopic = ''resharing:broadcast:ecdsa:'' @ walletID,
      ComposeDirectTopic = (\<lambda>fromID toID. ''resharing:direct:ecdsa:'' @ fromID @ '':'' @ toID @ '':'' @ walletID)\<rparr>"
| "topicComposer (EDDSAReshare walletID) =
     \<lparr>ComposeBroadcastTopic = ''reshare:broadcast:eddsa:'' @ walletID,
      ComposeDirectTopic = (\<lambda>fromID toID. ''reshare:direct:eddsa:'' @ fromID @ '':'' @ toID @ '':'' @ walletID)\<rparr>"

fun composeKey :: "session_kind \<Rightarrow> string \<Rightarrow> string" where
  "composeKey (ECDSAKeygen _) i = ''ecdsa:'' @ i"
| "composeKey (EDDSAKeygen _) i = ''eddsa:'' @ i"
| "composeKey (ECDSASigning _ _) i = ''ecdsa:'' @ i"
| "composeKey (EDDSASigning _ _) i = ''eddsa:'' @ i"
| "composeKey (ECDSAReshare _) i = ''ecdsa:'' @ i"
| "composeKey (EDDSAReshare _) i = ''eddsa:'' @ i"

definition extractSenderIDFromDirectTopic :: "string \<Rightarrow> string" where
  "extractSenderIDFromDirectTopic topic =
     (let parts = str_splitN 5 CHR '':'' topic in if 4 \<le> length parts then parts ! 3 else [])"

definition barrierTopic :: "TopicComposer \<Rightarrow> string \<Rightarrow> string" where
  "barrierTopic tc nodeID = ''barrier:'' @ ComposeBroadcastTopic tc @ '':'' @ nodeID"

section \<open>The contract of a topic composer\<close>

text \<open>
  A receiver learns the sender of a direct message from its topic only, and decrypts with that
  sender's key. What it needs: the sender is read back, and two pairs of peers never share a
  topic.
\<close>

locale topic_composer =
  fixes compose :: "string \<Rightarrow> string \<Rightarrow> string"
  assumes sender_of_topic:
      "CHR '':'' \<notin> set f \<Longrightarrow> extractSenderIDFromDirectTopic (compose f t) = f"
    and receiver_of_topic:
      "CHR '':'' \<notin> set f \<Longrightarrow> CHR '':'' \<notin> set t \<Longrightarrow> CHR '':'' \<notin> set t' \<Longrightarrow>
       compose f t = compose f t' \<Longrightarrow> t = t'"
begin

lemma compose_inj:
  assumes "CHR '':'' \<notin> set f" "CHR '':'' \<notin> set t" "CHR '':'' \<notin> set f'" "CHR '':'' \<notin> set t'"
    and "compose f t = compose f' t'"
  shows "f = f' \<and> t = t'"
proof -
  have "f = f'" using sender_of_topic [of f t] sender_of_topic [of f' t'] assms by simp
  then show ?thesis using receiver_of_topic [of f t t'] assms by simp
qed

lemma wf_compose_inj:
  "wf_nodeID f \<Longrightarrow> wf_nodeID t \<Longrightarrow> wf_nodeID f' \<Longrightarrow> wf_nodeID t' \<Longrightarrow>
   compose f t = compose f' t' \<longleftrightarrow> f = f' \<and> t = t'"
  using compose_inj by (auto simp: wf_nodeID_def)

lemma sender_wf: "wf_nodeID f \<Longrightarrow> extractSenderIDFromDirectTopic (compose f t) = f"
  by (simp add: sender_of_topic wf_nodeID_def)

end

lemma extractSender_three:
  assumes "CHR '':'' \<notin> set a" "CHR '':'' \<notin> set b" "CHR '':'' \<notin> set c" "CHR '':'' \<notin> set f"
  shows "extractSenderIDFromDirectTopic (a @ CHR '':'' # b @ CHR '':'' # c @ CHR '':'' # f @ CHR '':'' # r) = f"
proof -
  have "str_splitN 5 CHR '':'' (a @ CHR '':'' # b @ CHR '':'' # c @ CHR '':'' # f @ CHR '':'' # r) =
      [a, b, c, f, r]"
    using assms by (simp add: numeral_eq_Suc str_splitN_sep del: str_splitN.simps(3))
  then show ?thesis by (simp add: extractSenderIDFromDirectTopic_def)
qed

text \<open>The direct topic of every kind: three words without colons, sender, receiver, identifier.\<close>

fun topic_words :: "session_kind \<Rightarrow> string \<times> string \<times> string \<times> string" where
  "topic_words (ECDSAKeygen w) = (''keygen'', ''direct'', ''ecdsa'', w)"
| "topic_words (EDDSAKeygen w) = (''keygen'', ''direct'', ''eddsa'', w)"
| "topic_words (ECDSASigning w x) = (''sign'', ''ecdsa'', ''direct'', x)"
| "topic_words (EDDSASigning w x) = (''sign'', ''eddsa'', ''direct'', x)"
| "topic_words (ECDSAReshare w) = (''resharing'', ''direct'', ''ecdsa'', w)"
| "topic_words (EDDSAReshare w) = (''reshare'', ''direct'', ''eddsa'', w)"

lemma direct_topic_words:
  assumes "topic_words k = (a, b, c, i)"
  shows "ComposeDirectTopic (topicComposer k) f t =
    a @ CHR '':'' # b @ CHR '':'' # c @ CHR '':'' # f @ CHR '':'' # t @ CHR '':'' # i"
  using assms by (cases k) auto

lemma topic_words_no_colon:
  assumes "topic_words k = (a, b, c, i)"
  shows "CHR '':'' \<notin> set a \<and> CHR '':'' \<notin> set b \<and> CHR '':'' \<notin> set c"
  using assms by (cases k) auto

lemma topicComposer_sender:
  assumes "CHR '':'' \<notin> set f"
  shows "extractSenderIDFromDirectTopic (ComposeDirectTopic (topicComposer k) f t) = f"
proof -
  obtain a b c i where w: "topic_words k = (a, b, c, i)" by (cases "topic_words k") auto
  then show ?thesis
    using extractSender_three [of a b c f "t @ CHR '':'' # i"] topic_words_no_colon [OF w] assms
    by (simp add: direct_topic_words [OF w])
qed

lemma topicComposer_receiver:
  assumes "CHR '':'' \<notin> set t" "CHR '':'' \<notin> set t'"
    and "ComposeDirectTopic (topicComposer k) f t = ComposeDirectTopic (topicComposer k) f t'"
  shows "t = t'"
proof -
  obtain a b c i where w: "topic_words k = (a, b, c, i)" by (cases "topic_words k") auto
  have "t @ CHR '':'' # i = t' @ CHR '':'' # i"
    using assms(3) by (simp add: direct_topic_words [OF w])
  then show ?thesis using sep_append_inj [of t "CHR '':''" i t' i] assms by simp
qed

interpretation tc: topic_composer "ComposeDirectTopic (topicComposer k)" for k
  by unfold_locales (auto simp: topicComposer_sender dest: topicComposer_receiver)

section \<open>Topics of different sessions\<close>

text \<open>What a direct topic says of the session: the protocol and, for signing, only the transaction.\<close>

lemma direct_topic_session:
  assumes "wf_nodeID f" "wf_nodeID t" "wf_nodeID f'" "wf_nodeID t'"
  shows "ComposeDirectTopic (topicComposer k) f t = ComposeDirectTopic (topicComposer k') f' t' \<longleftrightarrow>
    topic_words k = topic_words k' \<and> f = f' \<and> t = t'"
proof
  assume eq: "ComposeDirectTopic (topicComposer k) f t = ComposeDirectTopic (topicComposer k') f' t'"
  obtain a b c i where w: "topic_words k = (a, b, c, i)" by (cases "topic_words k") auto
  obtain a' b' c' i' where w': "topic_words k' = (a', b', c', i')" by (cases "topic_words k'") auto
  let ?d = "CHR '':''"
  have nc: "?d \<notin> set a" "?d \<notin> set b" "?d \<notin> set c" "?d \<notin> set a'" "?d \<notin> set b'" "?d \<notin> set c'"
    "?d \<notin> set f" "?d \<notin> set t" "?d \<notin> set f'" "?d \<notin> set t'"
    using topic_words_no_colon [OF w] topic_words_no_colon [OF w'] assms by (auto simp: wf_nodeID_def)
  from eq have "a @ ?d # (b @ ?d # c @ ?d # f @ ?d # t @ ?d # i) =
      a' @ ?d # (b' @ ?d # c' @ ?d # f' @ ?d # t' @ ?d # i')"
    by (simp add: direct_topic_words [OF w] direct_topic_words [OF w'])
  from sep_append_inj [OF this nc(1,4)] have a: "a = a'"
    and "b @ ?d # (c @ ?d # f @ ?d # t @ ?d # i) = b' @ ?d # (c' @ ?d # f' @ ?d # t' @ ?d # i')" by auto
  from sep_append_inj [OF this(2) nc(2,5)] have b: "b = b'"
    and "c @ ?d # (f @ ?d # t @ ?d # i) = c' @ ?d # (f' @ ?d # t' @ ?d # i')" by auto
  from sep_append_inj [OF this(2) nc(3,6)] have c: "c = c'"
    and "f @ ?d # (t @ ?d # i) = f' @ ?d # (t' @ ?d # i')" by auto
  from sep_append_inj [OF this(2) nc(7,9)] have "f = f'" and "t @ ?d # i = t' @ ?d # i'" by auto
  with sep_append_inj [OF this(2) nc(8,10)] a b c w w'
  show "topic_words k = topic_words k' \<and> f = f' \<and> t = t'" by auto
next
  assume "topic_words k = topic_words k' \<and> f = f' \<and> t = t'"
  then show "ComposeDirectTopic (topicComposer k) f t = ComposeDirectTopic (topicComposer k') f' t'"
    by (metis direct_topic_words surj_pair)
qed

lemma barrierTopic_inj:
  assumes "CHR '':'' \<notin> set n" "CHR '':'' \<notin> set m" "barrierTopic c n = barrierTopic c' m"
  shows "ComposeBroadcastTopic c = ComposeBroadcastTopic c' \<and> n = m"
  using assms sep_append_inj2 [of "ComposeBroadcastTopic c" "CHR '':''" n "ComposeBroadcastTopic c'" m]
  by (simp add: barrierTopic_def)

text \<open>The storage key depends on the curve and the identifier only.\<close>

fun kind_curve :: "session_kind \<Rightarrow> SessionType" where
  "kind_curve (ECDSAKeygen _) = SessionTypeECDSA"
| "kind_curve (EDDSAKeygen _) = SessionTypeEDDSA"
| "kind_curve (ECDSASigning _ _) = SessionTypeECDSA"
| "kind_curve (EDDSASigning _ _) = SessionTypeEDDSA"
| "kind_curve (ECDSAReshare _) = SessionTypeECDSA"
| "kind_curve (EDDSAReshare _) = SessionTypeEDDSA"

lemma composeKey_eq_iff: "composeKey k i = composeKey k' j \<longleftrightarrow> kind_curve k = kind_curve k' \<and> i = j"
  by (cases k; cases k') auto

end
