(* ===== verification/Stores.thy ===== *)
theory Stores
  imports Json Party_Ids
begin

text \<open>
  The two stores of a node: the encrypted key-value store of shares (\<^verbatim>\<open>pkg/kvstore/badger.go\<close>)
  and the store of key information in Consul (\<^verbatim>\<open>pkg/keyinfo/keyinfo.go\<close>).

  Badger and Consul are parameters: records of their operations on an abstract state, carried
  by the store that calls them. Their documented laws are \<open>badger_ok\<close> and \<open>consul_ok\<close>; both
  stores then meet the contract of the locale \<open>keyed_store\<close>.
\<close>

section \<open>The contract\<close>

locale keyed_store =
  fixes ok :: "'s \<Rightarrow> bool"
    and valid :: "'v \<Rightarrow> bool"
    and get :: "'s \<Rightarrow> string \<Rightarrow> 'v res"
    and put :: "'s \<Rightarrow> string \<Rightarrow> 'v \<Rightarrow> 's res"
  assumes put_ok: "ok s \<Longrightarrow> put s k v = Inr s' \<Longrightarrow> ok s'"
    and get_put: "ok s \<Longrightarrow> valid v \<Longrightarrow> put s k v = Inr s' \<Longrightarrow> get s' k = Inr v"
    and get_put_other: "ok s \<Longrightarrow> put s k v = Inr s' \<Longrightarrow> k' \<noteq> k \<Longrightarrow> get s' k' = get s k'"
begin

text \<open>A sequence of writes: the last write of a key is read, other keys are untouched.\<close>

fun put_all :: "(string \<times> 'v) list \<Rightarrow> 's \<Rightarrow> 's res" where
  "put_all [] s = Inr s"
| "put_all ((k, v) # kvs) s = (case put s k v of Inl e \<Rightarrow> Inl e | Inr s' \<Rightarrow> put_all kvs s')"

lemma put_all_other:
  "ok s \<Longrightarrow> put_all kvs s = Inr s' \<Longrightarrow> k \<notin> fst ` set kvs \<Longrightarrow> get s' k = get s k"
proof (induction kvs arbitrary: s)
  case (Cons a kvs)
  then obtain s1 where s1: "put s (fst a) (snd a) = Inr s1" and rest: "put_all kvs s1 = Inr s'"
    by (cases a) (auto split: sum.splits)
  have "get s' k = get s1 k" using Cons rest put_ok [OF Cons.prems(1) s1] by simp
  then show ?case using get_put_other [OF Cons.prems(1) s1, of k] Cons.prems(3) by simp
qed simp

lemma put_then_others:
  assumes "ok s" and "valid v" and "put s k v = Inr s1" and "put_all kvs s1 = Inr s2"
    and "k \<notin> fst ` set kvs"
  shows "get s2 k = Inr v"
  using assms put_all_other [OF put_ok [OF assms(1,3)] assms(4,5)] get_put [OF assms(1-3)] by simp

lemma overwrite:
  "ok s \<Longrightarrow> valid w \<Longrightarrow> put s k v = Inr s1 \<Longrightarrow> put s1 k w = Inr s2 \<Longrightarrow> get s2 k = Inr w"
  using get_put put_ok by blast

end

section \<open>The share store\<close>

record 'd badger_ops =
  txn_Set :: "'d \<Rightarrow> bytes \<Rightarrow> bytes \<Rightarrow> 'd res"
  txn_Get :: "'d \<Rightarrow> bytes \<Rightarrow> bytes res"
  txn_Delete :: "'d \<Rightarrow> bytes \<Rightarrow> 'd res"
  txn_Keys :: "'d \<Rightarrow> bytes list"

record 'd BadgerKVStore =
  kv_DB :: "'d badger_ops"
  kv_state :: 'd

definition kv_Put :: "'d BadgerKVStore \<Rightarrow> string \<Rightarrow> bytes \<Rightarrow> 'd BadgerKVStore res" where
  "kv_Put b key value =
     (case txn_Set (kv_DB b) (kv_state b) (go_bytes key) value of
        Inl e \<Rightarrow> Inl e
      | Inr d \<Rightarrow> Inr (b\<lparr>kv_state := d\<rparr>))"

definition kv_Get :: "'d BadgerKVStore \<Rightarrow> string \<Rightarrow> bytes res" where
  "kv_Get b key = txn_Get (kv_DB b) (kv_state b) (go_bytes key)"

definition kv_Delete :: "'d BadgerKVStore \<Rightarrow> string \<Rightarrow> 'd BadgerKVStore res" where
  "kv_Delete b key =
     (case txn_Delete (kv_DB b) (kv_state b) (go_bytes key) of
        Inl e \<Rightarrow> Inl e
      | Inr d \<Rightarrow> Inr (b\<lparr>kv_state := d\<rparr>))"

definition kv_Keys :: "'d BadgerKVStore \<Rightarrow> string list" where
  "kv_Keys b = map go_string (txn_Keys (kv_DB b) (kv_state b))"

definition ErrEncryptionKeyNotProvided :: gerror where
  "ErrEncryptionKeyNotProvided = ESentinel ''encryption key not provided''"

definition ErrBackupEncryptionKeyNotProvided :: gerror where
  "ErrBackupEncryptionKeyNotProvided = ESentinel ''backup encryption key not provided''"

record BadgerConfig =
  bc_NodeID :: string
  bc_EncryptionKey :: bytes
  bc_BackupEncryptionKey :: bytes
  bc_BackupDir :: string
  bc_DBPath :: string

text \<open>\<open>open_db\<close> is \<^verbatim>\<open>badger.Open\<close> with the options of the source for a path and a key.\<close>

definition NewBadgerKVStore ::
  "'d badger_ops \<Rightarrow> (string \<Rightarrow> bytes \<Rightarrow> 'd res) \<Rightarrow> BadgerConfig \<Rightarrow> 'd BadgerKVStore res" where
  "NewBadgerKVStore ops open_db config =
     (if length (bc_EncryptionKey config) = 0 then Inl ErrEncryptionKeyNotProvided
      else if length (bc_BackupEncryptionKey config) = 0 then Inl ErrBackupEncryptionKeyNotProvided
      else (case open_db (bc_DBPath config) (bc_EncryptionKey config) of
              Inl e \<Rightarrow> Inl e
            | Inr d \<Rightarrow> Inr \<lparr>kv_DB = ops, kv_state = d\<rparr>))"

definition badger_ok :: "'d badger_ops \<Rightarrow> bool" where
  "badger_ok ops \<longleftrightarrow>
     (\<forall>d k v d'. txn_Set ops d k v = Inr d' \<longrightarrow>
        txn_Get ops d' k = Inr v \<and> (\<forall>k'. k' \<noteq> k \<longrightarrow> txn_Get ops d' k' = txn_Get ops d k'))"

interpretation kv: keyed_store "\<lambda>b. badger_ok (kv_DB b)" "\<lambda>_. True" kv_Get kv_Put
  by unfold_locales (auto simp: kv_Put_def kv_Get_def badger_ok_def split: sum.splits)

section \<open>Key information\<close>

record KeyInfo =
  ki_ParticipantPeerIDs :: "string list option"
  ki_Threshold :: int
  ki_Version :: int

text \<open>The participants as a list; a nil slice has no elements.\<close>

definition participants :: "KeyInfo \<Rightarrow> string list" where
  "participants i = (case ki_ParticipantPeerIDs i of None \<Rightarrow> [] | Some ps \<Rightarrow> ps)"

definition enc_KeyInfo :: "KeyInfo \<Rightarrow> json" where
  "enc_KeyInfo i = JObj
     [(''participant_peer_ids'', enc_strings (ki_ParticipantPeerIDs i)),
      (''threshold'', enc_int (ki_Threshold i)),
      (''version'', enc_int (ki_Version i))]"

definition KeyInfo_fields :: "KeyInfo field list" where
  "KeyInfo_fields =
     [(''participant_peer_ids'', set_strings (\<lambda>ps i. i\<lparr>ki_ParticipantPeerIDs := ps\<rparr>)),
      (''threshold'', set_int (\<lambda>n i. i\<lparr>ki_Threshold := n\<rparr>)),
      (''version'', set_int (\<lambda>n i. i\<lparr>ki_Version := n\<rparr>))]"

record 'c consul_ops =
  consul_Get :: "'c \<Rightarrow> string \<Rightarrow> bytes option res"
  consul_Put :: "'c \<Rightarrow> string \<Rightarrow> bytes \<Rightarrow> 'c res"

record 'c keyinfoStore =
  ks_consulKV :: "'c consul_ops"
  ks_state :: 'c

definition composeKeyinfoKey :: "string \<Rightarrow> string" where
  "composeKeyinfoKey walletID = ''threshold_keyinfo/'' @ walletID"

definition keyinfo_Get :: "'c keyinfoStore \<Rightarrow> string \<Rightarrow> KeyInfo res" where
  "keyinfo_Get s walletID =
     (case consul_Get (ks_consulKV s) (ks_state s) (composeKeyinfoKey walletID) of
        Inl e \<Rightarrow> Inl (EWrap ''Failed to get key info: '' e [])
      | Inr None \<Rightarrow> Inl (ENew ''Key info not found'')
      | Inr (Some value) \<Rightarrow>
          (case json_Unmarshal KeyInfo_fields
                  \<lparr>ki_ParticipantPeerIDs = None, ki_Threshold = 0, ki_Version = 0\<rparr> value of
             Inl e \<Rightarrow> Inl (EWrap ''Failed to unmarshal key info: '' e [])
           | Inr info \<Rightarrow> Inr info))"

definition keyinfo_Save :: "'c keyinfoStore \<Rightarrow> string \<Rightarrow> KeyInfo \<Rightarrow> 'c keyinfoStore res" where
  "keyinfo_Save s walletID info =
     (case consul_Put (ks_consulKV s) (ks_state s) (composeKeyinfoKey walletID)
             (json_Marshal (enc_KeyInfo info)) of
        Inl e \<Rightarrow> Inl (EWrap ''Failed to save key info: '' e [])
      | Inr c \<Rightarrow> Inr (s\<lparr>ks_state := c\<rparr>))"

definition consul_ok :: "'c consul_ops \<Rightarrow> bool" where
  "consul_ok ops \<longleftrightarrow>
     (\<forall>c k v c'. consul_Put ops c k v = Inr c' \<longrightarrow>
        consul_Get ops c' k = Inr (Some v) \<and> (\<forall>k'. k' \<noteq> k \<longrightarrow> consul_Get ops c' k' = consul_Get ops c k'))"

text \<open>A Go \<^verbatim>\<open>int\<close> has 64 bits.\<close>

definition is_int64 :: "int \<Rightarrow> bool" where
  "is_int64 i \<longleftrightarrow> - (2 ^ 63) \<le> i \<and> i < 2 ^ 63"

definition KeyInfo_ok :: "KeyInfo \<Rightarrow> bool" where
  "KeyInfo_ok i \<longleftrightarrow> is_int64 (ki_Threshold i) \<and> is_int64 (ki_Version i)"

lemma find_KeyInfo_fields [simp]:
  "find_field KeyInfo_fields ''participant_peer_ids'' =
     Some (set_strings (\<lambda>ps i. i\<lparr>ki_ParticipantPeerIDs := ps\<rparr>))"
  "find_field KeyInfo_fields ''threshold'' = Some (set_int (\<lambda>n i. i\<lparr>ki_Threshold := n\<rparr>))"
  "find_field KeyInfo_fields ''version'' = Some (set_int (\<lambda>n i. i\<lparr>ki_Version := n\<rparr>))"
  by (simp_all add: KeyInfo_fields_def to_lower_def lower_char_def)

lemma Unmarshal_KeyInfo:
  assumes "KeyInfo_ok i"
  shows "json_Unmarshal KeyInfo_fields z (json_Marshal (enc_KeyInfo i)) = Inr i"
proof -
  have "wf_json (enc_KeyInfo i)" by (simp add: enc_KeyInfo_def)
  then show ?thesis
    unfolding enc_KeyInfo_def
    using assms by (simp add: json_Unmarshal_Marshal KeyInfo_ok_def is_int64_def)
qed

interpretation ki: keyed_store "\<lambda>s. consul_ok (ks_consulKV s)" KeyInfo_ok keyinfo_Get keyinfo_Save
proof unfold_locales
  fix s s' :: "'a keyinfoStore" and k k' v
  assume ok: "consul_ok (ks_consulKV s)" and save: "keyinfo_Save s k v = Inr s'"
  from save obtain c where
    c: "consul_Put (ks_consulKV s) (ks_state s) (composeKeyinfoKey k) (json_Marshal (enc_KeyInfo v)) = Inr c"
      "s' = s\<lparr>ks_state := c\<rparr>"
    by (auto simp: keyinfo_Save_def split: sum.splits)
  then show "consul_ok (ks_consulKV s')" using ok by simp
  show "keyinfo_Get s' k = Inr v" if "KeyInfo_ok v"
    using ok c that by (simp add: keyinfo_Get_def consul_ok_def Unmarshal_KeyInfo)
  show "keyinfo_Get s' k' = keyinfo_Get s k'" if "k' \<noteq> k"
    using ok c that by (simp add: keyinfo_Get_def consul_ok_def composeKeyinfoKey_def)
qed

end
