(* ===== verification/Rounds.thy ===== *)
theory Rounds
  imports Messages
begin

text \<open>
  \<^verbatim>\<open>pkg/mpc/ecdsa_rounds.go\<close> and \<^verbatim>\<open>pkg/mpc/eddsa_rounds.go\<close>: the round of a protocol message,
  from the type of its content. Parsing the wire bytes (\<^verbatim>\<open>tss.ParseWireMessage\<close>) is a parameter;
  the datatypes list the content types of tss-lib that the sources name.
\<close>

record RoundInfo =
  ri_Index :: int
  ri_RoundMsg :: string

datatype ecdsa_content =
    KGRound1Message
  | KGRound2Message1
  | KGRound2Message2
  | KGRound3Message
  | SignRound1Message1
  | SignRound1Message2
  | SignRound2Message
  | SignRound3Message
  | SignRound4Message
  | SignRound5Message
  | SignRound6Message
  | SignRound7Message
  | SignRound8Message
  | SignRound9Message
  | DGRound1Message
  | DGRound2Message1
  | DGRound2Message2
  | DGRound3Message1
  | DGRound3Message2
  | DGRound4Message1
  | DGRound4Message2
  | OtherContent string

datatype eddsa_content =
    Ed_KGRound1Message
  | Ed_KGRound2Message1
  | Ed_KGRound2Message2
  | Ed_SignRound1Message
  | Ed_SignRound2Message
  | Ed_SignRound3Message
  | Ed_DGRound1Message
  | Ed_DGRound2Message
  | Ed_DGRound3Message1
  | Ed_DGRound3Message2
  | Ed_DGRound4Message
  | Ed_OtherContent string

definition round_info :: "int \<Rightarrow> string \<Rightarrow> RoundInfo res" where
  "round_info i m = Inr \<lparr>ri_Index = i, ri_RoundMsg = m\<rparr>"

fun ecdsa_round :: "ecdsa_content \<Rightarrow> RoundInfo res" where
  "ecdsa_round KGRound1Message = round_info 0 ''KGRound1Message''"
| "ecdsa_round KGRound2Message1 = round_info 1 ''KGRound2Message1''"
| "ecdsa_round KGRound2Message2 = round_info 2 ''KGRound2Message2''"
| "ecdsa_round KGRound3Message = round_info 3 ''KGRound3Message''"
| "ecdsa_round SignRound1Message1 = round_info 0 ''SignRound1Message1''"
| "ecdsa_round SignRound1Message2 = round_info 1 ''SignRound1Message2''"
| "ecdsa_round SignRound2Message = round_info 2 ''SignRound2Message''"
| "ecdsa_round SignRound3Message = round_info 3 ''SignRound3Message''"
| "ecdsa_round SignRound4Message = round_info 4 ''SignRound4Message''"
| "ecdsa_round SignRound5Message = round_info 5 ''SignRound5Message''"
| "ecdsa_round SignRound6Message = round_info 6 ''SignRound6Message''"
| "ecdsa_round SignRound7Message = round_info 7 ''SignRound7Message''"
| "ecdsa_round SignRound8Message = round_info 8 ''SignRound8Message''"
| "ecdsa_round SignRound9Message = round_info 9 ''SignRound9Message''"
| "ecdsa_round DGRound1Message = round_info 0 ''DGRound1Message''"
| "ecdsa_round DGRound2Message1 = round_info 1 ''DGRound2Message1''"
| "ecdsa_round DGRound2Message2 = round_info 2 ''DGRound2Message2''"
| "ecdsa_round DGRound3Message1 = round_info 3 ''DGRound3Message1''"
| "ecdsa_round DGRound3Message2 = round_info 4 ''DGRound3Message2''"
| "ecdsa_round DGRound4Message1 = round_info 5 ''DGRound4Message1''"
| "ecdsa_round DGRound4Message2 = round_info 6 ''DGRound4Message2''"
| "ecdsa_round (OtherContent t) = Inl (ENew ''unknown round'')"

definition GetEcdsaMsgRound ::
  "(bytes \<Rightarrow> PartyID option \<Rightarrow> bool \<Rightarrow> ecdsa_content res) \<Rightarrow> bytes \<Rightarrow> PartyID option \<Rightarrow> bool \<Rightarrow> RoundInfo res" where
  "GetEcdsaMsgRound ParseWireMessage msg partyID isBroadcast =
     (case ParseWireMessage msg partyID isBroadcast of
        Inl e \<Rightarrow> Inl e
      | Inr content \<Rightarrow> ecdsa_round content)"

fun eddsa_round :: "eddsa_content \<Rightarrow> RoundInfo res" where
  "eddsa_round Ed_KGRound1Message = round_info 0 ''KGRound1Message''"
| "eddsa_round Ed_KGRound2Message1 = round_info 1 ''KGRound2Message1''"
| "eddsa_round Ed_KGRound2Message2 = round_info 2 ''KGRound2Message2''"
| "eddsa_round Ed_SignRound1Message = round_info 0 ''SignRound1Message''"
| "eddsa_round Ed_SignRound2Message = round_info 0 ''SignRound2Message''"
| "eddsa_round Ed_SignRound3Message = round_info 0 ''SignRound3Message''"
| "eddsa_round Ed_DGRound1Message = round_info 0 ''DGRound1Message''"
| "eddsa_round Ed_DGRound2Message = round_info 1 ''DGRound2Message''"
| "eddsa_round Ed_DGRound3Message1 = round_info 2 ''DGRound3Message1''"
| "eddsa_round Ed_DGRound3Message2 = round_info 3 ''DGRound3Message2''"
| "eddsa_round Ed_DGRound4Message = round_info 4 ''DGRound4Message''"
| "eddsa_round (Ed_OtherContent t) = Inl (ENew ''unknown round'')"

definition GetEddsaMsgRound ::
  "(bytes \<Rightarrow> PartyID option \<Rightarrow> bool \<Rightarrow> eddsa_content res) \<Rightarrow> bytes \<Rightarrow> PartyID option \<Rightarrow> bool \<Rightarrow> RoundInfo res" where
  "GetEddsaMsgRound ParseWireMessage msg partyID isBroadcast =
     (case ParseWireMessage msg partyID isBroadcast of
        Inl e \<Rightarrow> Inl e
      | Inr content \<Rightarrow> eddsa_round content)"

definition IsReshareRound :: "string \<Rightarrow> bool" where
  "IsReshareRound roundMsg = (roundMsg \<in> {''DGRound1Message'', ''DGRound2Message1'', ''DGRound2Message2'', ''DGRound3Message1'', ''DGRound3Message2'', ''DGRound4Message1'', ''DGRound4Message2''})"

section \<open>Rounds and phases\<close>

datatype phase = KeygenPhase | SigningPhase | ResharePhase

fun ecdsa_phase :: "ecdsa_content \<Rightarrow> phase option" where
  "ecdsa_phase KGRound1Message = Some KeygenPhase"
| "ecdsa_phase KGRound2Message1 = Some KeygenPhase"
| "ecdsa_phase KGRound2Message2 = Some KeygenPhase"
| "ecdsa_phase KGRound3Message = Some KeygenPhase"
| "ecdsa_phase SignRound1Message1 = Some SigningPhase"
| "ecdsa_phase SignRound1Message2 = Some SigningPhase"
| "ecdsa_phase SignRound2Message = Some SigningPhase"
| "ecdsa_phase SignRound3Message = Some SigningPhase"
| "ecdsa_phase SignRound4Message = Some SigningPhase"
| "ecdsa_phase SignRound5Message = Some SigningPhase"
| "ecdsa_phase SignRound6Message = Some SigningPhase"
| "ecdsa_phase SignRound7Message = Some SigningPhase"
| "ecdsa_phase SignRound8Message = Some SigningPhase"
| "ecdsa_phase SignRound9Message = Some SigningPhase"
| "ecdsa_phase DGRound1Message = Some ResharePhase"
| "ecdsa_phase DGRound2Message1 = Some ResharePhase"
| "ecdsa_phase DGRound2Message2 = Some ResharePhase"
| "ecdsa_phase DGRound3Message1 = Some ResharePhase"
| "ecdsa_phase DGRound3Message2 = Some ResharePhase"
| "ecdsa_phase DGRound4Message1 = Some ResharePhase"
| "ecdsa_phase DGRound4Message2 = Some ResharePhase"
| "ecdsa_phase (OtherContent t) = None"

text \<open>Within a phase of the ECDSA protocols the index tells the message types apart.\<close>

lemma ecdsa_round_inj:
  assumes "ecdsa_phase a = Some ph" "ecdsa_phase b = Some ph"
    and "ecdsa_round a = Inr i" "ecdsa_round b = Inr j" "ri_Index i = ri_Index j"
  shows "a = b"
  using assms by (cases a; cases b) (auto simp: round_info_def)

lemma IsReshareRound_iff:
  assumes "ecdsa_round c = Inr i"
  shows "IsReshareRound (ri_RoundMsg i) \<longleftrightarrow> ecdsa_phase c = Some ResharePhase"
  using assms by (cases c) (auto simp: round_info_def IsReshareRound_def)

lemma ecdsa_round_bounds:
  assumes "ecdsa_round c = Inr i"
  shows "0 \<le> ri_Index i \<and> ri_Index i \<le>
    (case ecdsa_phase c of Some KeygenPhase \<Rightarrow> 3 | Some SigningPhase \<Rightarrow> 9 | Some ResharePhase \<Rightarrow> 6 | None \<Rightarrow> 0)"
  using assms by (cases c) (auto simp: round_info_def)

lemma eddsa_signing_rounds_same_index:
  "ecdsa_round SignRound1Message1 \<noteq> ecdsa_round SignRound2Message \<and>
   map_sum id ri_Index (eddsa_round Ed_SignRound1Message) = map_sum id ri_Index (eddsa_round Ed_SignRound3Message)"
  by (simp add: round_info_def)

end
