(* ===== verification/Encoding.thy ===== *)
theory Encoding
  imports Go_Prelude
begin

text \<open>
  \<^verbatim>\<open>pkg/encoding/ecdsa.go\<close>: the 64-byte form of a secp256k1 public key. The curve parameters of
  btcec are written out; whether a point is on the curve is a parameter.
\<close>

definition S256_P :: nat where
  "S256_P = 2 ^ 256 - 2 ^ 32 - 977"

definition S256_N :: nat where
  "S256_N = 0xFFFFFFFFFFFFFFFFFFFFFFFFFFFFFFFEBAAEDCE6AF48A03BBFD25E8CD0364141"

record PublicKey =
  pk_P :: nat
  pk_N :: nat
  pk_X :: nat
  pk_Y :: nat

definition coordSize :: nat where
  "coordSize = 32"

text \<open>\<open>pad_left\<close> is a zeroed buffer with the bytes copied to its end.\<close>

definition pad_left :: "nat \<Rightarrow> bytes \<Rightarrow> bytes" where
  "pad_left n b = replicate (n - length b) 0 @ b"

definition EncodeS256PubKey :: "PublicKey option \<Rightarrow> bytes res" where
  "EncodeS256PubKey pubKey =
     (case pubKey of
        None \<Rightarrow> Inl (ENew ''public key is nil'')
      | Some k \<Rightarrow>
          if pk_P k \<noteq> S256_P \<or> pk_N k \<noteq> S256_N
          then Inl (ENew ''unsupported curve, expected secp256k1'')
          else
            (let xBytes = nat_be (pk_X k); yBytes = nat_be (pk_Y k) in
             if length xBytes > coordSize \<or> length yBytes > coordSize
             then Inl (ENew ''coordinate length exceeds 32 bytes'')
             else Inr (pad_left coordSize xBytes @ pad_left coordSize yBytes)))"

definition DecodeECDSAPubKey :: "(nat \<Rightarrow> nat \<Rightarrow> bool) \<Rightarrow> bytes \<Rightarrow> PublicKey res" where
  "DecodeECDSAPubKey on_curve encodedKey =
     (let key = (if length encodedKey = 65 \<and> encodedKey ! 0 = 4 then tl encodedKey else encodedKey) in
      if length key \<noteq> 64 then Inl (ENew ''invalid encoded key length, expected 64 bytes'')
      else
        (let x = be_nat (take 32 key); y = be_nat (drop 32 key) in
         if \<not> on_curve x y then Inl (ENew ''invalid public key: point not on secp256k1 curve'')
         else Inr \<lparr>pk_P = S256_P, pk_N = S256_N, pk_X = x, pk_Y = y\<rparr>))"

lemma length_pad_left: "length b \<le> n \<Longrightarrow> length (pad_left n b) = n"
  by (simp add: pad_left_def)

lemma be_nat_pad_left [simp]: "be_nat (pad_left n b) = be_nat b"
  by (simp add: pad_left_def)

lemma pad_left_be_nat:
  assumes "length b = n"
  shows "pad_left n (nat_be (be_nat b)) = b"
proof -
  let ?t = "takeWhile (\<lambda>x. x = 0) b" and ?d = "dropWhile (\<lambda>x. x = 0) b"
  have b: "?t @ ?d = b" by simp
  have "length ?t + length ?d = n"
    using assms arg_cong [OF b, of length] by (simp only: length_append)
  then have "n - length ?d = length ?t" by linarith
  then have "pad_left n (nat_be (be_nat b)) = replicate (length ?t) 0 @ ?d"
    by (simp only: pad_left_def nat_be_be_nat)
  also have "replicate (length ?t) 0 = ?t"
    by (rule replicate_length_same) (auto dest: set_takeWhileD)
  finally show ?thesis using b by (rule trans)
qed

lemma EncodeS256PubKey_length: "EncodeS256PubKey k = Inr b \<Longrightarrow> length b = 64"
  by (auto simp: EncodeS256PubKey_def Let_def length_pad_left coordSize_def
      split: option.splits if_splits)

lemma EncodeS256PubKey_ok:
  assumes "pk_P k = S256_P" "pk_N k = S256_N" "pk_X k < 2 ^ 256" "pk_Y k < 2 ^ 256"
  shows "EncodeS256PubKey (Some k) =
    Inr (pad_left 32 (nat_be (pk_X k)) @ pad_left 32 (nat_be (pk_Y k)))"
proof -
  have "(2 :: nat) ^ 256 = 256 ^ 32" by simp
  with assms have "length (nat_be (pk_X k)) \<le> 32" "length (nat_be (pk_Y k)) \<le> 32"
    by (metis nat_be_length)+
  with assms(1,2) show ?thesis by (simp add: EncodeS256PubKey_def coordSize_def)
qed

lemma Decode_EncodeS256PubKey:
  assumes "EncodeS256PubKey (Some k) = Inr b" and "on_curve (pk_X k) (pk_Y k)"
  shows "DecodeECDSAPubKey on_curve b = Inr k"
proof -
  from assms(1) have k: "pk_P k = S256_P" "pk_N k = S256_N"
    and len: "length (nat_be (pk_X k)) \<le> 32" "length (nat_be (pk_Y k)) \<le> 32"
    and b: "b = pad_left 32 (nat_be (pk_X k)) @ pad_left 32 (nat_be (pk_Y k))"
    by (auto simp: EncodeS256PubKey_def Let_def coordSize_def split: if_splits)
  have "length (pad_left 32 (nat_be (pk_X k))) = 32" "length (pad_left 32 (nat_be (pk_Y k))) = 32"
    using len by (simp_all add: length_pad_left)
  with b k assms(2) show ?thesis by (simp add: DecodeECDSAPubKey_def)
qed

lemma Encode_DecodeECDSAPubKey:
  assumes "DecodeECDSAPubKey on_curve b = Inr k" and "length b = 64"
  shows "EncodeS256PubKey (Some k) = Inr b"
proof -
  from assms have k: "k = \<lparr>pk_P = S256_P, pk_N = S256_N, pk_X = be_nat (take 32 b), pk_Y = be_nat (drop 32 b)\<rparr>"
    by (auto simp: DecodeECDSAPubKey_def Let_def split: if_splits)
  have "be_nat (take 32 b) < 256 ^ 32" "be_nat (drop 32 b) < 256 ^ 32"
    using be_nat_less [of "take 32 b"] be_nat_less [of "drop 32 b"] assms(2) by simp_all
  then have lt: "be_nat (take 32 b) < 2 ^ 256" "be_nat (drop 32 b) < 2 ^ 256" by simp_all
  then show ?thesis
    using EncodeS256PubKey_ok [of k] assms(2) by (simp add: k pad_left_be_nat)
qed

end
