(* ===== verification/Sessions.thy ===== *)
theory Sessions
  imports Identity Events Topics Stores Rounds Encoding
begin

text \<open>
  \<^verbatim>\<open>pkg/mpc/session.go\<close>: what the six kinds of protocol session share. A session sends the
  messages its party produces (signed on a broadcast topic, or encrypted on a direct topic),
  receives, authenticates and dispatches the messages of its peers, waits for its peers at a
  barrier, and is stopped once.

  \<^item> The state is the record \<open>session\<close>. \<open>ss_errors\<close> is what was sent to \<^verbatim>\<open>ErrCh\<close>, in order;
    \<open>ss_done\<close> tells whether \<^verbatim>\<open>doneCh\<close> is closed. After it is closed \<^verbatim>\<open>sendErr\<close> need not deliver;
    the model drops the error then.
  \<^item> What a handler does outside of the session is its list of \<open>effect\<close>s; the answers of the
    network come from the record \<open>net\<close>.
  \<^item> The protocol party of tss-lib is not modelled: handing it a message is the effect
    \<open>UpdateParty\<close>, what it produces is an argument.
\<close>

section \<open>State and environment\<close>

record session =
  ss_kind :: session_kind
  ss_walletID :: string
  ss_threshold :: int
  ss_participantPeerIDs :: "string list"
  ss_selfPartyID :: "PartyID option"
  ss_partyIDs :: "PartyID list"
  ss_version :: int
  ss_resultTopic :: string
  ss_idempotentKey :: string
  ss_pubkeyBytes :: "bytes option"
  ss_barrierSub :: "string option"
  ss_broadcastSub :: "string option"
  ss_directSubs :: "string list"
  ss_errors :: "gerror list"
  ss_done :: bool

datatype effect =
    Publish string bytes
  | SendToSelf string bytes
  | SendToOther string "bytes option"
  | UpdateParty bytes PartyID bool
  | Enqueue string SigningResultEvent string

record 'k net =
  nt_crypto :: "'k crypto"
  nt_store :: "'k fileStore"
  nt_json_pid :: "PartyID \<Rightarrow> json"
  nt_dec_pid :: "json \<Rightarrow> PartyID option"
  nt_publish :: "string \<Rightarrow> gerror option"
  nt_sendSelf :: "string \<Rightarrow> gerror option"
  nt_sendOther :: "string \<Rightarrow> gerror option"
  nt_nonce :: "nat \<Rightarrow> bytes res"
  nt_parseEcdsa :: "bytes \<Rightarrow> PartyID option \<Rightarrow> bool \<Rightarrow> ecdsa_content res"
  nt_parseEddsa :: "bytes \<Rightarrow> PartyID option \<Rightarrow> bool \<Rightarrow> eddsa_content res"

definition ErrNotEnoughParticipants :: gerror where
  "ErrNotEnoughParticipants = ESentinel ''Not enough participants to sign''"

definition ErrNotInParticipantList :: gerror where
  "ErrNotInParticipantList = ESentinel ''Node is not in the participant list''"

definition sendErr :: "gerror \<Rightarrow> session \<Rightarrow> session" where
  "sendErr err s = (if ss_done s then s else s\<lparr>ss_errors := ss_errors s @ [err]\<rparr>)"

text \<open>A plain send on \<^verbatim>\<open>ErrCh\<close>.\<close>

definition pushErr :: "gerror \<Rightarrow> session \<Rightarrow> session" where
  "pushErr err s = s\<lparr>ss_errors := ss_errors s @ [err]\<rparr>"

definition Stop :: "session \<Rightarrow> session" where
  "Stop s = s\<lparr>ss_done := True\<rparr>"

definition PartyCount :: "session \<Rightarrow> int" where
  "PartyCount s = int (length (ss_partyIDs s))"

definition selfNodeID :: "session \<Rightarrow> string" where
  "selfNodeID s = partyIDToNodeID (ss_selfPartyID s)"

definition directTopic :: "session \<Rightarrow> string \<Rightarrow> string \<Rightarrow> string" where
  "directTopic s fromID toID = ComposeDirectTopic (topicComposer (ss_kind s)) fromID toID"

definition broadcastTopic :: "session \<Rightarrow> string" where
  "broadcastTopic s = ComposeBroadcastTopic (topicComposer (ss_kind s))"

section \<open>Sending\<close>

record routing =
  ro_From :: "PartyID option"
  ro_To :: "PartyID list option"
  ro_IsBroadcast :: bool

definition to_list :: "'a list option \<Rightarrow> 'a list" where
  "to_list l = (case l of None \<Rightarrow> [] | Some xs \<Rightarrow> xs)"

text \<open>
  The loop over the recipients of a direct message. A failed encryption is reported, and the
  nil cipher text is sent all the same.
\<close>

definition send_one ::
  "'k net \<Rightarrow> bytes \<Rightarrow> nat \<Rightarrow> PartyID \<Rightarrow> session \<Rightarrow> session \<times> effect" where
  "send_one nt msg i to s =
     (let selfID = selfNodeID s; toNodeID = partyIDToNodeID (Some to);
          topic = directTopic s selfID toNodeID
      in if selfID = toNodeID then
           (case nt_sendSelf nt topic of
              Some e \<Rightarrow> sendErr (ENew (''failed to send direct message to '' @ topic)) s
            | None \<Rightarrow> s,
            SendToSelf topic msg)
         else
           (let (cipher, s1) =
                  (case EncryptMessage (nt_crypto nt) (nt_nonce nt i) (nt_store nt) msg toNodeID of
                     Inl e \<Rightarrow> (None, sendErr (EWrap ''encrypt tss message error '' e []) s)
                   | Inr c \<Rightarrow> (Some c, s))
            in (case nt_sendOther nt topic of
                  Some e \<Rightarrow> sendErr (EWrap ''failed to send direct message to '' e []) s1
                | None \<Rightarrow> s1,
                SendToOther topic cipher)))"

fun send_direct ::
  "'k net \<Rightarrow> bytes \<Rightarrow> nat \<Rightarrow> PartyID list \<Rightarrow> session \<Rightarrow> session \<times> effect list" where
  "send_direct nt msg i [] s = (s, [])"
| "send_direct nt msg i (to # tos) s =
     (case send_one nt msg i to s of
        (s1, e) \<Rightarrow> (case send_direct nt msg (Suc i) tos s1 of (s2, es) \<Rightarrow> (s2, e # es)))"

text \<open>\<open>wire\<close> is the result of \<^verbatim>\<open>keyshare.WireBytes()\<close>.\<close>

definition handleTssMessage ::
  "'k net \<Rightarrow> (bytes \<times> routing) res \<Rightarrow> session \<Rightarrow> (session \<times> effect list) outcome" where
  "handleTssMessage nt wire s =
     (case wire of
        Inl e \<Rightarrow> Returns (sendErr e s, [])
      | Inr (data, routing) \<Rightarrow>
          (let tssMsg = NewTssMessage (ss_walletID s) (Some data) (ro_IsBroadcast routing)
                          (ro_From routing) (ro_To routing)
           in if ro_IsBroadcast routing \<and> length (to_list (ro_To routing)) = 0 then
                (case SignMessage (nt_crypto nt) (nt_json_pid nt) (nt_store nt) tssMsg of
                   Aborts x \<Rightarrow> Aborts x
                 | Returns (Inl e) \<Rightarrow> Returns (sendErr (EWrap ''failed to sign message: '' e []) s, [])
                 | Returns (Inr signature) \<Rightarrow>
                     (let msg = MarshalTssMessage (nt_json_pid nt) (tssMsg\<lparr>tm_Signature := Some signature\<rparr>)
                      in Returns (case nt_publish nt (broadcastTopic s) of
                                    Some e \<Rightarrow> sendErr e s
                                  | None \<Rightarrow> s,
                                  [Publish (broadcastTopic s) msg])))
              else
                Returns (send_direct nt (MarshalTssMessage (nt_json_pid nt) tssMsg) 0
                           (to_list (ro_To routing)) s)))"

section \<open>Receiving\<close>

definition getRoundFunc :: "'k net \<Rightarrow> session \<Rightarrow> bytes \<Rightarrow> PartyID option \<Rightarrow> bool \<Rightarrow> RoundInfo res" where
  "getRoundFunc nt s =
     (case kind_curve (ss_kind s) of
        SessionTypeECDSA \<Rightarrow> GetEcdsaMsgRound (nt_parseEcdsa nt)
      | _ \<Rightarrow> GetEddsaMsgRound (nt_parseEddsa nt))"

text \<open>
  A nil \<^verbatim>\<open>From\<close> panics when it is logged, after the round is known; the deferred function
  recovers and sends the panic as an error.
\<close>

definition receiveTssMessage :: "'k net \<Rightarrow> TssMessage \<Rightarrow> session \<Rightarrow> session \<times> effect list" where
  "receiveTssMessage nt msg s =
     (case getRoundFunc nt s (to_list (tm_MsgBytes msg)) (ss_selfPartyID s) (tm_IsBroadcast msg) of
        Inl e \<Rightarrow> (sendErr (Wrap e ''Broken TSS Share'') s, [])
      | Inr _ \<Rightarrow>
          (case (tm_From msg, ss_selfPartyID s) of
             (Some from, Some self) \<Rightarrow>
               (let isBroadcast = tm_IsBroadcast msg \<and> length (to_list (tm_To msg)) = 0;
                    isToSelf = (\<exists>to \<in> set (to_list (tm_To msg)). comparePartyIDs to self)
                in if isBroadcast \<or> isToSelf
                   then (s, [UpdateParty (to_list (tm_MsgBytes msg)) from (tm_IsBroadcast msg)])
                   else (s, []))
           | _ \<Rightarrow> (pushErr (ENew (''panic in receiveTssMessage: '' @ nil_deref)) s, [])))"

definition receiveP2PTssMessage ::
  "'k net \<Rightarrow> string \<Rightarrow> bytes \<Rightarrow> session \<Rightarrow> session \<times> effect list" where
  "receiveP2PTssMessage nt topic cipher s =
     (let senderID = extractSenderIDFromDirectTopic topic in
      if senderID = []
      then (sendErr (ENew ''failed to extract senderID from direct topic: the direct topic format is wrong'') s, [])
      else
        (case (if senderID = selfNodeID s then Inr cipher
               else DecryptMessage (nt_crypto nt) (nt_store nt) cipher senderID) of
           Inl e \<Rightarrow> (sendErr (EWrap ''failed to decrypt message: '' e '', tampered message'') s, [])
         | Inr plaintext \<Rightarrow>
             (case UnmarshalTssMessage (nt_dec_pid nt) plaintext of
                Inl e \<Rightarrow> (sendErr (EWrap ''failed to unmarshal message: '' e []) s, [])
              | Inr msg \<Rightarrow> receiveTssMessage nt msg s)))"

definition receiveBroadcastTssMessage ::
  "'k net \<Rightarrow> bytes \<Rightarrow> session \<Rightarrow> (session \<times> effect list) outcome" where
  "receiveBroadcastTssMessage nt rawMsg s =
     (case UnmarshalTssMessage (nt_dec_pid nt) rawMsg of
        Inl e \<Rightarrow> Returns (sendErr (EWrap ''failed to unmarshal message: '' e []) s, [])
      | Inr msg \<Rightarrow>
          (case VerifyMessage (nt_crypto nt) (nt_json_pid nt) (nt_store nt) msg of
             Aborts x \<Rightarrow> Aborts x
           | Returns (Inl e) \<Rightarrow> Returns (sendErr (EWrap ''Failed to verify message: '' e '', tampered message'') s, [])
           | Returns (Inr _) \<Rightarrow> Returns (receiveTssMessage nt msg s)))"

section \<open>Subscriptions\<close>

text \<open>\<open>listen\<close> and \<open>subscribe\<close> are the answers of the transport.\<close>

fun subscribeFromPeersAsync :: "(string \<Rightarrow> gerror option) \<Rightarrow> string list \<Rightarrow> session \<Rightarrow> session" where
  "subscribeFromPeersAsync listen [] s = s"
| "subscribeFromPeersAsync listen (fromID # fromIDs) s =
     (let topic = directTopic s fromID (selfNodeID s);
          s1 = (case listen topic of
                  Some e \<Rightarrow> sendErr (EWrap (''Failed to subscribe to direct topic '' @ topic @ '': '') e []) s
                | None \<Rightarrow> s\<lparr>ss_directSubs := ss_directSubs s @ [topic]\<rparr>)
      in subscribeFromPeersAsync listen fromIDs s1)"

definition subscribeBroadcastAsync :: "(string \<Rightarrow> gerror option) \<Rightarrow> session \<Rightarrow> session" where
  "subscribeBroadcastAsync subscribe s =
     (let topic = broadcastTopic s in
      case subscribe topic of
        Some e \<Rightarrow> sendErr (EWrap (''Failed to subscribe to broadcast topic '' @ topic @ '': '') e []) s
      | None \<Rightarrow> s\<lparr>ss_broadcastSub := Some topic\<rparr>)"

definition ListenToIncomingMessageAsync ::
  "(string \<Rightarrow> gerror option) \<Rightarrow> (string \<Rightarrow> gerror option) \<Rightarrow> session \<Rightarrow> session" where
  "ListenToIncomingMessageAsync subscribe listen s =
     subscribeFromPeersAsync listen (partyIDsToNodeIDs (ss_partyIDs s)) (subscribeBroadcastAsync subscribe s)"

definition ListenToPeersAsync :: "(string \<Rightarrow> gerror option) \<Rightarrow> string list \<Rightarrow> session \<Rightarrow> session" where
  "ListenToPeersAsync listen peerIDs s = subscribeFromPeersAsync listen peerIDs s"

text \<open>
  The barrier. Each attempt to reach a peer is answered, or fails and then meets the deadline,
  a stopped session, or a pause before the next one. \<open>None\<close> is a loop still waiting after the
  given attempts.
\<close>

datatype attempt = Responded | AtDeadline | AtStopped | Paused

fun wait_peer :: "string \<Rightarrow> attempt list \<Rightarrow> unit res option" where
  "wait_peer peerID [] = None"
| "wait_peer peerID (Responded # as) = Some (Inr ())"
| "wait_peer peerID (AtDeadline # as) =
     Some (Inl (ENew (''timeout waiting for peer '' @ peerID @ '' to be ready'')))"
| "wait_peer peerID (AtStopped # as) = Some (Inl (ENew ''session stopped while waiting for peers''))"
| "wait_peer peerID (Paused # as) = wait_peer peerID as"

fun wait_peers :: "string \<Rightarrow> (string \<Rightarrow> attempt list) \<Rightarrow> string list \<Rightarrow> unit res option" where
  "wait_peers selfID attempts [] = Some (Inr ())"
| "wait_peers selfID attempts (peerID # peers) =
     (if peerID = selfID then wait_peers selfID attempts peers
      else (case wait_peer peerID (attempts peerID) of
              None \<Rightarrow> None
            | Some (Inl e) \<Rightarrow> Some (Inl e)
            | Some (Inr _) \<Rightarrow> wait_peers selfID attempts peers))"

definition WaitForPeersReady ::
  "gerror option \<Rightarrow> (string \<Rightarrow> attempt list) \<Rightarrow> session \<Rightarrow> session \<times> unit res option" where
  "WaitForPeersReady listen attempts s =
     (let selfID = selfNodeID s; topic = barrierTopic (topicComposer (ss_kind s)) selfID in
      case listen of
        Some e \<Rightarrow> (s, Some (Inl (EWrap ''failed to subscribe to barrier topic: '' e [])))
      | None \<Rightarrow> (s\<lparr>ss_barrierSub := Some topic\<rparr>,
                 wait_peers selfID attempts (partyIDsToNodeIDs (ss_partyIDs s))))"

text \<open>The topics unsubscribed when the session closes; the fields keep their values.\<close>

definition session_Close :: "session \<Rightarrow> session \<times> string list" where
  "session_Close s =
     (Stop s,
      (case ss_barrierSub s of None \<Rightarrow> [] | Some t \<Rightarrow> [t]) @
      (case ss_broadcastSub s of None \<Rightarrow> [] | Some t \<Rightarrow> [t]) @ ss_directSubs s)"

section \<open>Loading a share\<close>

text \<open>
  \<open>unmarshal\<close> decodes the share type of tss-lib. A negative version reads no key at all and
  decodes the nil slice.
\<close>

definition loadOldShareDataGeneric ::
  "'d BadgerKVStore \<Rightarrow> (bytes \<Rightarrow> 'sv res) \<Rightarrow> session \<Rightarrow> string \<Rightarrow> int \<Rightarrow> 'sv res" where
  "loadOldShareDataGeneric kvs unmarshal s walletID version =
     (case (if version > 0 then kv_Get kvs (composeKey (ss_kind s) (walletIDWithVersion walletID version))
            else if version = 0 then kv_Get kvs (composeKey (ss_kind s) walletID)
            else Inr []) of
        Inl e \<Rightarrow> Inl e
      | Inr keyData \<Rightarrow>
          (case unmarshal keyData of
             Inl e \<Rightarrow> Inl (EWrap ''failed to unmarshal wallet data: '' e [])
           | Inr share \<Rightarrow> Inr share))"

section \<open>Only authenticated, addressed messages reach the party\<close>

lemma receiveTssMessage_update:
  assumes "receiveTssMessage nt msg s = (s', es)" and "UpdateParty b from bc \<in> set es"
  shows "b = to_list (tm_MsgBytes msg) \<and> tm_From msg = Some from \<and> bc = tm_IsBroadcast msg \<and> s' = s \<and>
    (\<exists>self. ss_selfPartyID s = Some self \<and>
       (tm_IsBroadcast msg \<and> to_list (tm_To msg) = [] \<or>
        (\<exists>to \<in> set (to_list (tm_To msg)). pid_Key to = pid_Key self)))"
  using assms
  by (auto simp: receiveTssMessage_def Let_def comparePartyIDs_iff split: sum.splits option.splits if_splits)

lemma receiveTssMessage_once:
  "receiveTssMessage nt msg s = (s', es) \<Longrightarrow> length es \<le> 1 \<and> (es \<noteq> [] \<longrightarrow> s' = s)"
  by (auto simp: receiveTssMessage_def Let_def split: sum.splits option.splits if_splits)

lemma receiveBroadcast_update:
  assumes "receiveBroadcastTssMessage nt raw s = Returns (s', es)" and "UpdateParty b from bc \<in> set es"
  shows "\<exists>msg sig pub. UnmarshalTssMessage (nt_dec_pid nt) raw = Inr msg \<and> tm_From msg = Some from \<and>
    b = to_list (tm_MsgBytes msg) \<and> tm_Signature msg = Some sig \<and>
    map_of (fs_publicKeys (nt_store nt)) (identity_partyIDToNodeID from) = Some pub \<and>
    ed25519_Verify (nt_crypto nt) pub (MarshalForSigning (nt_json_pid nt) from msg) sig = Returns True"
proof -
  from assms obtain msg where msg: "UnmarshalTssMessage (nt_dec_pid nt) raw = Inr msg"
    and v: "VerifyMessage (nt_crypto nt) (nt_json_pid nt) (nt_store nt) msg = Returns (Inr ())"
    and r: "receiveTssMessage nt msg s = (s', es)"
    by (auto simp: receiveBroadcastTssMessage_def split: sum.splits outcome.splits)
  from receiveTssMessage_update [OF r assms(2)] v msg show ?thesis
    by (auto simp: VerifyMessage_ok)
qed

lemma receiveP2P_update:
  assumes "receiveP2PTssMessage nt topic c s = (s', es)" and "UpdateParty b from bc \<in> set es"
  shows "\<exists>plain msg. (if extractSenderIDFromDirectTopic topic = selfNodeID s then plain = c
      else DecryptMessage (nt_crypto nt) (nt_store nt) c (extractSenderIDFromDirectTopic topic) = Inr plain) \<and>
    UnmarshalTssMessage (nt_dec_pid nt) plain = Inr msg \<and> tm_From msg = Some from \<and>
    b = to_list (tm_MsgBytes msg) \<and>
    (tm_IsBroadcast msg \<and> to_list (tm_To msg) = [] \<or>
     (\<exists>self. ss_selfPartyID s = Some self \<and> (\<exists>to \<in> set (to_list (tm_To msg)). pid_Key to = pid_Key self)))"
proof -
  from assms obtain plain msg where
    p: "if extractSenderIDFromDirectTopic topic = selfNodeID s then plain = c
      else DecryptMessage (nt_crypto nt) (nt_store nt) c (extractSenderIDFromDirectTopic topic) = Inr plain"
    and m: "UnmarshalTssMessage (nt_dec_pid nt) plain = Inr msg"
    and r: "receiveTssMessage nt msg s = (s', es)"
    by (auto simp: receiveP2PTssMessage_def Let_def split: sum.splits if_splits)
  from receiveTssMessage_update [OF r assms(2)] p m show ?thesis by blast
qed

section \<open>Delivery\<close>

text \<open>The laws of the JSON form of party identities that tss-lib provides.\<close>

definition pid_json_ok :: "'k net \<Rightarrow> bool" where
  "pid_json_ok nt \<longleftrightarrow> (\<forall>p. wf_json (nt_json_pid nt p) \<and> nt_json_pid nt p \<noteq> JNull \<and>
     nt_dec_pid nt (nt_json_pid nt p) = Some p)"

lemma Unmarshal_Marshal_net:
  "pid_json_ok nt \<Longrightarrow> UnmarshalTssMessage (nt_dec_pid nt) (MarshalTssMessage (nt_json_pid nt) m) = Inr m"
  by (rule Unmarshal_MarshalTssMessage) (auto simp: pid_json_ok_def)

lemma send_one_other:
  assumes "selfNodeID s \<noteq> partyIDToNodeID (Some to)"
    and "EncryptMessage (nt_crypto nt) (nt_nonce nt i) (nt_store nt) msg (partyIDToNodeID (Some to)) = Inr c"
    and "nt_sendOther nt (directTopic s (selfNodeID s) (partyIDToNodeID (Some to))) = None"
  shows "send_one nt msg i to s =
    (s, SendToOther (directTopic s (selfNodeID s) (partyIDToNodeID (Some to))) (Some c))"
  using assms by (simp add: send_one_def Let_def del: partyIDToNodeID.simps)

text \<open>A direct message written by one session is handed, unchanged, to the party of the other.\<close>

lemma direct_delivery:
  assumes kind: "ss_kind b = ss_kind a" and wf: "wf_nodeID (selfNodeID a)"
    and neq: "selfNodeID a \<noteq> selfNodeID b" and to: "partyIDToNodeID (Some to) = selfNodeID b"
    and self: "ss_selfPartyID b = Some self" "pid_Key to = pid_Key self"
    and keys: "GetSymmetricKey (nt_store na) (selfNodeID b) = Inr (Some k)"
      "GetSymmetricKey (nt_store nb) (selfNodeID a) = Inr (Some k)" "length k \<in> {16, 24, 32}"
    and cr: "nt_crypto nb = nt_crypto na" "aead_correct (nt_crypto na)"
    and nonce: "nt_nonce na 0 = Inr nonce" "length nonce = NonceSize"
    and pid: "pid_json_ok nb" "nt_json_pid na = nt_json_pid nb"
    and send: "nt_sendOther na (directTopic a (selfNodeID a) (selfNodeID b)) = None"
    and round: "getRoundFunc nb b data (ss_selfPartyID b) bc = Inr ri"
  shows "\<exists>c. handleTssMessage na (Inr (data, \<lparr>ro_From = Some from, ro_To = Some [to], ro_IsBroadcast = bc\<rparr>)) a =
      Returns (a, [SendToOther (directTopic a (selfNodeID a) (selfNodeID b)) (Some c)]) \<and>
    receiveP2PTssMessage nb (directTopic a (selfNodeID a) (selfNodeID b)) c b =
      (b, [UpdateParty data from bc])"
proof -
  let ?m = "NewTssMessage (ss_walletID a) (Some data) bc (Some from) (Some [to])"
  let ?w = "MarshalTssMessage (nt_json_pid nb) ?m"
  let ?topic = "directTopic a (selfNodeID a) (selfNodeID b)"
  obtain c where c: "EncryptMessage (nt_crypto na) (Inr nonce) (nt_store na) ?w (selfNodeID b) = Inr c"
    using keys(1,3) EncryptAESGCMWithNonceEmbed_ok [of "nt_crypto na" nonce ?w k]
    by (auto simp: EncryptMessage_def)
  have one: "send_one na ?w 0 to a = (a, SendToOther ?topic (Some c))"
    using send_one_other [of a to na 0 ?w c] neq c nonce(1) send to by metis
  then have h: "handleTssMessage na (Inr (data, \<lparr>ro_From = Some from, ro_To = Some [to], ro_IsBroadcast = bc\<rparr>)) a =
      Returns (a, [SendToOther ?topic (Some c)])"
    using pid(2) by (simp add: handleTssMessage_def to_list_def Let_def)
  have dec: "DecryptMessage (nt_crypto nb) (nt_store nb) c (selfNodeID a) = Inr ?w"
    using Decrypt_EncryptMessage [OF cr(2) nonce(2) keys(1,2) c] cr(1) by simp
  have snd: "extractSenderIDFromDirectTopic ?topic = selfNodeID a"
    unfolding directTopic_def by (rule tc.sender_wf [OF wf])
  have "receiveTssMessage nb ?m b = (b, [UpdateParty data from bc])"
    using round self by (simp add: receiveTssMessage_def NewTssMessage_def to_list_def comparePartyIDs_iff)
  then have "receiveP2PTssMessage nb ?topic c b = (b, [UpdateParty data from bc])"
    using snd dec neq wf Unmarshal_Marshal_net [OF pid(1), of ?m]
    by (simp add: receiveP2PTssMessage_def Let_def wf_nodeID_def)
  with h show ?thesis by blast
qed

text \<open>A broadcast is signed and accepted by every session that knows the sender's public key.\<close>

lemma broadcast_delivery:
  assumes pair: "ed25519_pair (nt_crypto na) (fs_privateKey (nt_store na)) pub"
    and wf: "wf_nodeID n" and pub: "map_of (fs_publicKeys (nt_store nb)) n = Some pub"
    and frm: "from = createPartyID u n l v" and self: "ss_selfPartyID b = Some self"
    and cr: "nt_crypto nb = nt_crypto na"
    and pid: "pid_json_ok nb" "nt_json_pid na = nt_json_pid nb"
    and publish: "nt_publish na (broadcastTopic a) = None"
    and round: "getRoundFunc nb b data (ss_selfPartyID b) True = Inr ri"
    and tos: "to_list tos = []"
  shows "\<exists>w. handleTssMessage na (Inr (data, \<lparr>ro_From = Some from, ro_To = tos, ro_IsBroadcast = True\<rparr>)) a =
      Returns (a, [Publish (broadcastTopic a) w]) \<and>
    receiveBroadcastTssMessage nb w b = Returns (b, [UpdateParty data from True])"
proof -
  let ?m = "NewTssMessage (ss_walletID a) (Some data) True (Some from) tos"
  obtain sig where sig: "SignMessage (nt_crypto na) (nt_json_pid nb) (nt_store na) ?m = Returns (Inr sig)"
    using pair by (auto simp: SignMessage_def NewTssMessage_def ed25519_Sign_def ed25519_pair_def)
  let ?w = "MarshalTssMessage (nt_json_pid nb) (?m\<lparr>tm_Signature := Some sig\<rparr>)"
  have h: "handleTssMessage na (Inr (data, \<lparr>ro_From = Some from, ro_To = tos, ro_IsBroadcast = True\<rparr>)) a =
      Returns (a, [Publish (broadcastTopic a) ?w])"
    using tos publish sig pid(2) by (simp add: handleTssMessage_def Let_def)
  have v: "VerifyMessage (nt_crypto nb) (nt_json_pid nb) (nt_store nb) (?m\<lparr>tm_Signature := Some sig\<rparr>) = Returns (Inr ())"
    using Verify_SignMessage [OF pair wf pub, of ?m u l v "nt_json_pid nb" sig] sig cr frm
    by (simp add: NewTssMessage_def)
  have "receiveTssMessage nb (?m\<lparr>tm_Signature := Some sig\<rparr>) b = (b, [UpdateParty data from True])"
    using round self tos by (simp add: receiveTssMessage_def NewTssMessage_def to_list_def [of "Some data"])
  then have "receiveBroadcastTssMessage nb ?w b = Returns (b, [UpdateParty data from True])"
    using v Unmarshal_Marshal_net [OF pid(1), of "?m\<lparr>tm_Signature := Some sig\<rparr>"]
    by (simp add: receiveBroadcastTssMessage_def)
  with h show ?thesis by blast
qed

text \<open>
  A direct message is decrypted with the key of the sender that the topic names, but its \<^verbatim>\<open>From\<close>
  field is not compared with that sender: a peer can write any party into it.
\<close>

lemma direct_from_unchecked:
  assumes "wf_nodeID x" and "selfNodeID b \<noteq> x"
    and "ss_selfPartyID b = Some self" and "pid_json_ok nb"
    and "DecryptMessage (nt_crypto nb) (nt_store nb) c x =
      Inr (MarshalTssMessage (nt_json_pid nb) (NewTssMessage w (Some data) bc (Some claimed) (Some [self])))"
    and "getRoundFunc nb b data (ss_selfPartyID b) bc = Inr ri"
  shows "receiveP2PTssMessage nb (directTopic b x (selfNodeID b)) c b = (b, [UpdateParty data claimed bc])"
proof -
  have "extractSenderIDFromDirectTopic (directTopic b x (selfNodeID b)) = x"
    unfolding directTopic_def by (rule tc.sender_wf [OF assms(1)])
  moreover have "receiveTssMessage nb (NewTssMessage w (Some data) bc (Some claimed) (Some [self])) b =
      (b, [UpdateParty data claimed bc])"
    using assms(3,6) by (simp add: receiveTssMessage_def NewTssMessage_def to_list_def comparePartyIDs_def)
  ultimately show ?thesis
    using assms(1,2,5) Unmarshal_Marshal_net [OF assms(4)]
    by (auto simp: receiveP2PTssMessage_def Let_def wf_nodeID_def)
qed

section \<open>Subscriptions and topics agree\<close>

lemma sendErr_frame:
  "ss_kind (sendErr e s) = ss_kind s" "ss_selfPartyID (sendErr e s) = ss_selfPartyID s"
  "ss_directSubs (sendErr e s) = ss_directSubs s" "ss_partyIDs (sendErr e s) = ss_partyIDs s"
  "ss_walletID (sendErr e s) = ss_walletID s" "ss_done (sendErr e s) = ss_done s"
  "ss_version (sendErr e s) = ss_version s"
  by (simp_all add: sendErr_def)

lemma subscribeFromPeers_topics:
  assumes "\<And>t. listen t = None"
  shows "ss_directSubs (subscribeFromPeersAsync listen ps s) =
    ss_directSubs s @ map (\<lambda>p. directTopic s p (selfNodeID s)) ps"
  using assms
proof (induction ps arbitrary: s)
  case (Cons p ps)
  let ?s = "s\<lparr>ss_directSubs := ss_directSubs s @ [directTopic s p (selfNodeID s)]\<rparr>"
  have "directTopic ?s q (selfNodeID ?s) = directTopic s q (selfNodeID s)" for q
    by (simp add: directTopic_def selfNodeID_def)
  with Cons.IH [of ?s] Cons.prems show ?case by (simp add: Let_def)
qed simp

lemma Listen_covers_senders:
  assumes "\<And>t. listen t = None" and "\<And>t. subscribe t = None"
    and "ss_kind a = ss_kind b" and "selfNodeID a \<in> set (partyIDsToNodeIDs (ss_partyIDs b))"
  shows "directTopic a (selfNodeID a) (selfNodeID b) \<in> set (ss_directSubs (ListenToIncomingMessageAsync subscribe listen b))"
    and "ss_broadcastSub (ListenToIncomingMessageAsync subscribe listen b) = Some (broadcastTopic a)"
proof -
  let ?b = "subscribeBroadcastAsync subscribe b"
  have b: "?b = b\<lparr>ss_broadcastSub := Some (broadcastTopic b)\<rparr>"
    using assms(2) by (simp add: subscribeBroadcastAsync_def Let_def)
  have "directTopic ?b p (selfNodeID ?b) = directTopic a p (selfNodeID b)" for p
    using assms(3) by (simp add: b directTopic_def selfNodeID_def)
  then show "directTopic a (selfNodeID a) (selfNodeID b) \<in> set (ss_directSubs (ListenToIncomingMessageAsync subscribe listen b))"
    using subscribeFromPeers_topics [of listen "partyIDsToNodeIDs (ss_partyIDs b)" ?b, OF assms(1)] assms(4)
    by (simp add: ListenToIncomingMessageAsync_def)
  have "ss_broadcastSub (subscribeFromPeersAsync listen ps s) = ss_broadcastSub s" for ps s
    using assms(1) by (induction ps arbitrary: s) (simp_all add: Let_def)
  then show "ss_broadcastSub (ListenToIncomingMessageAsync subscribe listen b) = Some (broadcastTopic a)"
    using assms(3) by (simp add: ListenToIncomingMessageAsync_def b broadcastTopic_def)
qed

section \<open>The barrier\<close>

definition responds :: "attempt list \<Rightarrow> bool" where
  "responds as = (\<exists>ps rest. as = ps @ Responded # rest \<and> set ps \<subseteq> {Paused})"

lemma wait_peer_ok: "wait_peer p as = Some (Inr ()) \<longleftrightarrow> responds as"
proof (induction p as rule: wait_peer.induct)
  case (5 p as)
  have "responds (Paused # as) \<longleftrightarrow> responds as"
    unfolding responds_def
  proof
    assume "\<exists>ps rest. Paused # as = ps @ Responded # rest \<and> set ps \<subseteq> {Paused}"
    then obtain ps rest where "Paused # as = ps @ Responded # rest" "set ps \<subseteq> {Paused}" by blast
    then have "as = tl ps @ Responded # rest" "set (tl ps) \<subseteq> {Paused}"
      by (cases ps; auto)+
    then show "\<exists>ps rest. as = ps @ Responded # rest \<and> set ps \<subseteq> {Paused}" by blast
  next
    assume "\<exists>ps rest. as = ps @ Responded # rest \<and> set ps \<subseteq> {Paused}"
    then obtain ps rest where "Paused # as = (Paused # ps) @ Responded # rest" "set (Paused # ps) \<subseteq> {Paused}"
      by auto
    then show "\<exists>ps rest. Paused # as = ps @ Responded # rest \<and> set ps \<subseteq> {Paused}" by blast
  qed
  with 5 show ?case by simp
qed (auto simp: responds_def Cons_eq_append_conv)

lemma wait_peers_ok:
  "wait_peers self att ps = Some (Inr ()) \<longleftrightarrow> (\<forall>p \<in> set ps. p \<noteq> self \<longrightarrow> responds (att p))"
proof (induction ps)
  case (Cons p ps)
  show ?case
    using Cons wait_peer_ok [of p "att p"] by (auto split: option.splits sum.splits)
qed simp

text \<open>The loop ends: an attempt list that meets the deadline is enough for every peer.\<close>

lemma wait_peer_ends: "AtDeadline \<in> set as \<Longrightarrow> wait_peer p as \<noteq> None"
  by (induction p as rule: wait_peer.induct) auto

lemma wait_peers_ends:
  "\<forall>p \<in> set ps. p \<noteq> self \<longrightarrow> AtDeadline \<in> set (att p) \<Longrightarrow> wait_peers self att ps \<noteq> None"
  by (induction ps) (auto simp: wait_peer_ends split: option.splits sum.splits dest: wait_peer_ends)

section \<open>Stopping\<close>

lemma Stop_idem: "Stop (Stop s) = Stop s"
  by (simp add: Stop_def)

lemma sendErr_stopped: "sendErr e (Stop s) = Stop s"
  by (simp add: sendErr_def Stop_def)

lemma Close_unsubscribes:
  "set (snd (session_Close s)) = set (ss_directSubs s) \<union> set_option (ss_broadcastSub s) \<union> set_option (ss_barrierSub s)"
  by (auto simp: session_Close_def split: option.splits)

section \<open>Shares\<close>

lemma loadOldShare_after_Put:
  assumes "badger_ok (kv_DB kvs)" and "0 \<le> v"
    and "kv_Put kvs (composeKey (ss_kind s) (walletIDWithVersion w v)) data = Inr kvs'"
    and "unmarshal data = Inr share"
  shows "loadOldShareDataGeneric kvs' unmarshal s w v = Inr share"
proof -
  have "kv_Get kvs' (composeKey (ss_kind s) (walletIDWithVersion w v)) = Inr data"
    using kv.get_put [OF assms(1) _ assms(3)] by simp
  with assms(2,4) show ?thesis
    by (cases "v = 0") (simp_all add: loadOldShareDataGeneric_def walletIDWithVersion_def)
qed

text \<open>A missing versioned share is an error: the unversioned key is not tried.\<close>

lemma loadOldShare_no_fallback:
  "0 < v \<Longrightarrow> kv_Get kvs (composeKey (ss_kind s) (walletIDWithVersion w v)) = Inl e \<Longrightarrow>
   loadOldShareDataGeneric kvs unmarshal s w v = Inl e"
  by (simp add: loadOldShareDataGeneric_def)

end
