(* ===== verification/Shares.thy ===== *)
theory Shares
  imports Events Encoding
begin

text \<open>
  Key shares as the sources handle them: the fields of tss-lib's \<^verbatim>\<open>LocalPartySaveData\<close> that are
  read or written (\<^verbatim>\<open>ECDSAPub\<close> or \<^verbatim>\<open>EDDSAPub\<close>, \<^verbatim>\<open>BigXj\<close>, \<^verbatim>\<open>Xi\<close>, \<^verbatim>\<open>ShareID\<close>; \<open>sd_rest\<close> is the others), the
  wiping of secrets (\<^verbatim>\<open>pkg/security\<close>) and child key derivation (\<^verbatim>\<open>pkg/mpc/ckd.go\<close>).
  Curve points and the derivation of tss-lib are parameters.
\<close>

record ('pt, 'r) SaveData =
  sd_Pub :: "'pt option"
  sd_BigXj :: "'pt list"
  sd_Xi :: "nat option"
  sd_ShareID :: "nat option"
  sd_rest :: 'r

record 'pt curve_ops =
  cv_ScalarBaseMult :: "nat \<Rightarrow> 'pt"
  cv_Add :: "'pt \<Rightarrow> 'pt \<Rightarrow> 'pt res"
  cv_PublicKey :: "'pt \<Rightarrow> PublicKey"
  cv_Compress :: "'pt \<Rightarrow> bytes"
  cv_DeriveChild :: "'pt \<Rightarrow> bytes \<Rightarrow> 32 word list \<Rightarrow> (nat \<times> 'pt option) res"

section \<open>Wiping\<close>

definition ZeroBytes :: "bytes \<Rightarrow> bytes" where
  "ZeroBytes data = map (\<lambda>_. 0) data"

definition zeroBigInt :: "nat option \<Rightarrow> nat option" where
  "zeroBigInt x = (case x of None \<Rightarrow> None | Some _ \<Rightarrow> Some 0)"

text \<open>The ECDSA and the EdDSA version wipe the same two fields.\<close>

definition ZeroKeygenLocalPartySaveData :: "('pt, 'r) SaveData option \<Rightarrow> ('pt, 'r) SaveData option" where
  "ZeroKeygenLocalPartySaveData data =
     (case data of
        None \<Rightarrow> None
      | Some d \<Rightarrow> Some (d\<lparr>sd_Xi := zeroBigInt (sd_Xi d), sd_ShareID := zeroBigInt (sd_ShareID d)\<rparr>))"

text \<open>
  \<^verbatim>\<open>ZeroString\<close> through a pointer that may be nil. \<open>SecureBytes\<close> owns a copy of its data; \<open>sb_zero\<close> also gives
  the content of the array afterwards, which a slice returned earlier by \<^verbatim>\<open>Bytes\<close> shares.
\<close>

definition ZeroString :: "string option \<Rightarrow> string option" where
  "ZeroString s = (case s of None \<Rightarrow> None | Some _ \<Rightarrow> Some [])"

record SecureBytes =
  sb_data :: "bytes option"

definition NewSecureBytes :: "bytes \<Rightarrow> SecureBytes" where
  "NewSecureBytes data = \<lparr>sb_data = Some data\<rparr>"

definition sb_Bytes :: "SecureBytes \<Rightarrow> bytes option" where
  "sb_Bytes sb = sb_data sb"

definition sb_Copy :: "SecureBytes \<Rightarrow> bytes" where
  "sb_Copy sb = (case sb_data sb of None \<Rightarrow> [] | Some b \<Rightarrow> b)"

definition sb_zero :: "SecureBytes \<Rightarrow> SecureBytes \<times> bytes option" where
  "sb_zero sb = (case sb_data sb of None \<Rightarrow> (sb, None) | Some b \<Rightarrow> (sb\<lparr>sb_data := None\<rparr>, Some (ZeroBytes b)))"

definition sb_Clear :: "SecureBytes \<Rightarrow> SecureBytes \<times> bytes option" where
  "sb_Clear sb = sb_zero sb"

section \<open>Child keys\<close>

definition chainCodeLength :: nat where
  "chainCodeLength = 32"

definition ErrInvalidChainCode :: gerror where
  "ErrInvalidChainCode = ESentinel ''invalid chain code length''"

definition ErrNilKey :: gerror where
  "ErrNilKey = ESentinel ''key cannot be nil''"

definition ErrNilPoint :: gerror where
  "ErrNilPoint = ESentinel ''point cannot be nil''"

record CKD =
  ckd_masterChainCode :: bytes

definition NewCKDFromHex :: "string \<Rightarrow> CKD res" where
  "NewCKDFromHex hexStr =
     (if hexStr = [] then Inl (ENew ''chain code is empty'')
      else (case hex_Decode hexStr of
              Inl e \<Rightarrow> Inl (EWrap ''invalid chain code hex: '' e [])
            | Inr code \<Rightarrow>
                if length code \<noteq> chainCodeLength
                then Inl (EWrap [] ErrInvalidChainCode
                       ('': got '' @ itoa (int (length code)) @ '', want '' @ itoa (int chainCodeLength)))
                else Inr \<lparr>ckd_masterChainCode = code\<rparr>))"

definition GetMasterChainCode :: "CKD \<Rightarrow> bytes" where
  "GetMasterChainCode c = ckd_masterChainCode c"

definition derivingPubkeyFromPath ::
  "'pt curve_ops \<Rightarrow> 'pt \<Rightarrow> bytes \<Rightarrow> 32 word list \<Rightarrow> (nat \<times> 'pt option) res" where
  "derivingPubkeyFromPath cv masterPub chainCode path =
     (case cv_DeriveChild cv masterPub chainCode path of
        Inl e \<Rightarrow> Inl (EWrap ''failed to derive child key: '' e [])
      | Inr r \<Rightarrow> Inr r)"

text \<open>The curve of the callers is a constant, never nil.\<close>

definition Derive ::
  "'pt curve_ops \<Rightarrow> CKD \<Rightarrow> 'pt option \<Rightarrow> 32 word list \<Rightarrow> (nat \<times> 'pt option) res" where
  "Derive cv c masterPub path =
     (case masterPub of
        None \<Rightarrow> Inl ErrNilPoint
      | Some p \<Rightarrow> derivingPubkeyFromPath cv p (ckd_masterChainCode c) path)"

fun adjust_BigXj :: "'pt curve_ops \<Rightarrow> 'pt \<Rightarrow> nat \<Rightarrow> 'pt list \<Rightarrow> 'pt list res" where
  "adjust_BigXj cv gDelta i [] = Inr []"
| "adjust_BigXj cv gDelta i (x # xs) =
     (case cv_Add cv x gDelta of
        Inl e \<Rightarrow> Inl (EWrap (''failed to update BigXj['' @ itoa (int i) @ '']: '') e [])
      | Inr y \<Rightarrow> (case adjust_BigXj cv gDelta (Suc i) xs of Inl e \<Rightarrow> Inl e | Inr ys \<Rightarrow> Inr (y # ys)))"

definition UpdateSinglePublicKeyAndAdjustBigXj ::
  "'pt curve_ops \<Rightarrow> nat \<Rightarrow> ('pt, 'r) SaveData option \<Rightarrow> 'pt option \<Rightarrow> ('pt, 'r) SaveData res" where
  "UpdateSinglePublicKeyAndAdjustBigXj cv delta key childPk =
     (case key of
        None \<Rightarrow> Inl ErrNilKey
      | Some k \<Rightarrow>
          (case childPk of
             None \<Rightarrow> Inl ErrNilPoint
           | Some child \<Rightarrow>
               (case adjust_BigXj cv (cv_ScalarBaseMult cv delta) 0 (sd_BigXj k) of
                  Inl e \<Rightarrow> Inl e
                | Inr xs \<Rightarrow> Inr (k\<lparr>sd_Pub := Some child, sd_BigXj := xs\<rparr>))))"

lemma ZeroBytes_zero: "set (ZeroBytes b) \<subseteq> {0}" and ZeroBytes_length: "length (ZeroBytes b) = length b"
  by (auto simp: ZeroBytes_def)

text \<open>Clearing leaves neither the owner nor an earlier alias anything of the secret, and may be repeated.\<close>

lemma sb_Clear_wipes:
  "sb_Clear (NewSecureBytes secret) = (sb, alias) \<Longrightarrow>
     sb_Copy sb = [] \<and> alias = Some (replicate (length secret) 0) \<and> fst (sb_Clear sb) = sb"
  by (auto simp: sb_Clear_def sb_zero_def NewSecureBytes_def sb_Copy_def ZeroBytes_def map_replicate_const)

lemma NewCKDFromHex_iff:
  "(\<exists>c. NewCKDFromHex s = Inr c \<and> GetMasterChainCode c = code) \<longleftrightarrow> hex_Decode s = Inr code \<and> length code = 32"
  by (auto simp: NewCKDFromHex_def GetMasterChainCode_def chainCodeLength_def split: sum.splits)

lemma NewCKDFromHex_sentinel:
  "hex_Decode s = Inr code \<Longrightarrow> s \<noteq> [] \<Longrightarrow> length code \<noteq> 32 \<Longrightarrow>
   \<exists>e. NewCKDFromHex s = Inl e \<and> errors_Is e ''invalid chain code length''"
  by (simp add: NewCKDFromHex_def chainCodeLength_def ErrInvalidChainCode_def)

lemma adjust_BigXj_ok:
  "adjust_BigXj cv g i xs = Inr ys \<longleftrightarrow> list_all2 (\<lambda>x y. cv_Add cv x g = Inr y) xs ys"
  by (induction xs arbitrary: i ys)
    (auto simp: list_all2_Cons1 split: sum.splits, (metis sum.distinct(1) sum.inject(2))+)

text \<open>Every public share moves by the same offset: the sharing of the child key stays consistent.\<close>

lemma UpdateSingle_ok:
  assumes "UpdateSinglePublicKeyAndAdjustBigXj cv delta (Some k) child = Inr k'"
  shows "sd_Pub k' = child \<and> child \<noteq> None \<and> sd_Xi k' = sd_Xi k \<and> sd_ShareID k' = sd_ShareID k \<and>
    sd_rest k' = sd_rest k \<and> length (sd_BigXj k') = length (sd_BigXj k) \<and>
    (\<forall>i < length (sd_BigXj k). cv_Add cv (sd_BigXj k ! i) (cv_ScalarBaseMult cv delta) = Inr (sd_BigXj k' ! i))"
  using assms
  by (auto simp: UpdateSinglePublicKeyAndAdjustBigXj_def adjust_BigXj_ok list_all2_conv_all_nth
      split: option.splits sum.splits)

end
