(* ===== verification/Protocols.thy ===== *)
theory Protocols
  imports Sessions Shares
begin

text \<open>
  The six protocol sessions of \<^verbatim>\<open>pkg/mpc\<close>: key generation, signing and resharing, for ECDSA and
  EdDSA (\<^verbatim>\<open>ecdsa_keygen_session.go\<close>, \<^verbatim>\<open>eddsa_keygen_session.go\<close>, \<^verbatim>\<open>ecdsa_signing_session.go\<close>,
  \<^verbatim>\<open>eddsa_signing_session.go\<close>, \<^verbatim>\<open>ecdsa_resharing_session.go\<close>, \<^verbatim>\<open>eddsa_resharing_session.go\<close>).

  The party of tss-lib is the sequence of \<open>party_event\<close>s it produces: messages to send, the
  final value, or a start error. The select loop of a session consumes them in order; running
  out of events is a session still waiting. \<open>world\<close> holds the session with the two stores.
\<close>

section \<open>Constructors\<close>

definition base_session ::
  "session_kind \<Rightarrow> string \<Rightarrow> int \<Rightarrow> string list \<Rightarrow> PartyID option \<Rightarrow> PartyID list \<Rightarrow> int \<Rightarrow> session" where
  "base_session kind walletID threshold participantPeerIDs selfID partyIDs version =
     \<lparr>ss_kind = kind, ss_walletID = walletID, ss_threshold = threshold,
      ss_participantPeerIDs = participantPeerIDs, ss_selfPartyID = selfID, ss_partyIDs = partyIDs,
      ss_version = version, ss_resultTopic = [], ss_idempotentKey = [], ss_pubkeyBytes = None,
      ss_barrierSub = None, ss_broadcastSub = None, ss_directSubs = [], ss_errors = [], ss_done = False\<rparr>"

definition newECDSAKeygenSession ::
  "string \<Rightarrow> string list \<Rightarrow> PartyID option \<Rightarrow> PartyID list \<Rightarrow> int \<Rightarrow> session" where
  "newECDSAKeygenSession walletID participantPeerIDs selfID partyIDs threshold =
     base_session (ECDSAKeygen walletID) walletID threshold participantPeerIDs selfID partyIDs DefaultVersion"

definition newEDDSAKeygenSession ::
  "string \<Rightarrow> string list \<Rightarrow> PartyID option \<Rightarrow> PartyID list \<Rightarrow> int \<Rightarrow> session" where
  "newEDDSAKeygenSession walletID participantPeerIDs selfID partyIDs threshold =
     base_session (EDDSAKeygen walletID) walletID threshold participantPeerIDs selfID partyIDs DefaultVersion"

text \<open>A signing session: the shared part, the request, and what \<^verbatim>\<open>Init\<close> loads.\<close>

record ('pt, 'r) signing =
  sg_session :: session
  sg_data :: "('pt, 'r) SaveData option"
  sg_tx :: "nat option"
  sg_txID :: string
  sg_networkInternalCode :: string
  sg_derivationPath :: "32 word list"
  sg_ckd :: "CKD option"
  sg_delta :: "nat option"

definition newSigningSession ::
  "session_kind \<Rightarrow> string \<Rightarrow> string \<Rightarrow> string \<Rightarrow> string \<Rightarrow> string list \<Rightarrow> PartyID option \<Rightarrow>
   PartyID list \<Rightarrow> int \<Rightarrow> 32 word list \<Rightarrow> string \<Rightarrow> CKD option \<Rightarrow> ('pt, 'r) signing" where
  "newSigningSession kind walletID txID networkInternalCode resultTopic participantPeerIDs selfID
       partyIDs threshold derivationPath idempotentKey ckd =
     \<lparr>sg_session = (base_session kind walletID threshold participantPeerIDs selfID partyIDs 0)
        \<lparr>ss_resultTopic := resultTopic, ss_idempotentKey := idempotentKey\<rparr>,
      sg_data = None, sg_tx = None, sg_txID = txID, sg_networkInternalCode = networkInternalCode,
      sg_derivationPath = derivationPath, sg_ckd = ckd, sg_delta = None\<rparr>"

definition newECDSASigningSession ::
  "string \<Rightarrow> string \<Rightarrow> string \<Rightarrow> string \<Rightarrow> string list \<Rightarrow> PartyID option \<Rightarrow>
   PartyID list \<Rightarrow> int \<Rightarrow> 32 word list \<Rightarrow> string \<Rightarrow> CKD option \<Rightarrow> ('pt, 'r) signing" where
  "newECDSASigningSession walletID txID = newSigningSession (ECDSASigning walletID txID) walletID txID"

definition newEDDSASigningSession ::
  "string \<Rightarrow> string \<Rightarrow> string \<Rightarrow> string \<Rightarrow> string list \<Rightarrow> PartyID option \<Rightarrow>
   PartyID list \<Rightarrow> int \<Rightarrow> 32 word list \<Rightarrow> string \<Rightarrow> CKD option \<Rightarrow> ('pt, 'r) signing" where
  "newEDDSASigningSession walletID txID = newSigningSession (EDDSASigning walletID txID) walletID txID"

record reshare =
  rh_session :: session
  rh_isNewParty :: bool
  rh_oldPeerIDs :: "string list"
  rh_newPeerIDs :: "string list"
  rh_newThreshold :: int

definition NewReshareSession ::
  "session_kind \<Rightarrow> string \<Rightarrow> string list \<Rightarrow> PartyID option \<Rightarrow> PartyID list \<Rightarrow> PartyID list \<Rightarrow> int \<Rightarrow> int \<Rightarrow>
   string list \<Rightarrow> bool \<Rightarrow> int \<Rightarrow> reshare" where
  "NewReshareSession kind walletID participantPeerIDs selfID oldPartyIDs newPartyIDs threshold
       newThreshold newPeerIDs isNewParty version =
     (let realPartyIDs = (if isNewParty then newPartyIDs else oldPartyIDs) in
      \<lparr>rh_session = base_session kind walletID threshold participantPeerIDs selfID realPartyIDs version,
       rh_isNewParty = isNewParty, rh_oldPeerIDs = partyIDsToNodeIDs oldPartyIDs,
       rh_newPeerIDs = newPeerIDs, rh_newThreshold = newThreshold\<rparr>)"

definition NewECDSAReshareSession ::
  "string \<Rightarrow> string list \<Rightarrow> PartyID option \<Rightarrow> PartyID list \<Rightarrow> PartyID list \<Rightarrow> int \<Rightarrow> int \<Rightarrow>
   string list \<Rightarrow> bool \<Rightarrow> int \<Rightarrow> reshare" where
  "NewECDSAReshareSession walletID = NewReshareSession (ECDSAReshare walletID) walletID"

definition NewEDDSAReshareSession ::
  "string \<Rightarrow> string list \<Rightarrow> PartyID option \<Rightarrow> PartyID list \<Rightarrow> PartyID list \<Rightarrow> int \<Rightarrow> int \<Rightarrow>
   string list \<Rightarrow> bool \<Rightarrow> int \<Rightarrow> reshare" where
  "NewEDDSAReshareSession walletID = NewReshareSession (EDDSAReshare walletID) walletID"

text \<open>The old committee without the new one; the set \<^verbatim>\<open>seen\<close> of the source holds the new peers.\<close>

definition GetLegacyCommitteePeers :: "reshare \<Rightarrow> string list" where
  "GetLegacyCommitteePeers s = filter (\<lambda>a. a \<notin> set (rh_newPeerIDs s)) (rh_oldPeerIDs s)"

section \<open>The select loop\<close>

datatype 'x party_event =
    PartyOut "(bytes \<times> routing) res"
  | PartyEnd 'x
  | PartyStartErr gerror
  | DoneClosed

record ('d, 'c) world =
  wd_session :: session
  wd_kv :: "'d BadgerKVStore"
  wd_ki :: "'c keyinfoStore"

text \<open>The state after the loop, the effects, and whether the completion callback ran.\<close>

type_synonym ('d, 'c) loop_result = "(('d, 'c) world \<times> effect list \<times> bool) outcome"

fun session_loop ::
  "'k net \<Rightarrow> (gerror \<Rightarrow> session \<Rightarrow> session) \<Rightarrow> bool \<Rightarrow> ('x \<Rightarrow> ('d, 'c) world \<Rightarrow> ('d, 'c) loop_result) \<Rightarrow>
   'x party_event list \<Rightarrow> ('d, 'c) world \<Rightarrow> ('d, 'c) loop_result" where
  "session_loop nt onErr stops finish [] w = Returns (w, [], False)"
| "session_loop nt onErr stops finish (PartyOut wire # evs) w =
     (case handleTssMessage nt wire (wd_session w) of
        Aborts x \<Rightarrow> Aborts x
      | Returns (s', es) \<Rightarrow>
          (case session_loop nt onErr stops finish evs (w\<lparr>wd_session := s'\<rparr>) of
             Aborts x \<Rightarrow> Aborts x
           | Returns (w', es', b) \<Rightarrow> Returns (w', es @ es', b)))"
| "session_loop nt onErr stops finish (PartyEnd x # evs) w = finish x w"
| "session_loop nt onErr stops finish (PartyStartErr e # evs) w =
     session_loop nt onErr stops finish evs (w\<lparr>wd_session := onErr e (wd_session w)\<rparr>)"
| "session_loop nt onErr stops finish (DoneClosed # evs) w =
     (if stops then Returns (w, [], False) else session_loop nt onErr stops finish evs w)"

definition failed :: "gerror \<Rightarrow> ('d, 'c) world \<Rightarrow> ('d, 'c) loop_result" where
  "failed e w = Returns (w\<lparr>wd_session := pushErr e (wd_session w)\<rparr>, [], False)"

definition share_key :: "session \<Rightarrow> int \<Rightarrow> string" where
  "share_key s version = composeKey (ss_kind s) (walletIDWithVersion (ss_walletID s) version)"

section \<open>Key generation\<close>

text \<open>
  The end of \<^verbatim>\<open>GenerateKey\<close>: the share is stored first, then the key information, then the
  public key is encoded; each failure ends the session with an error and keeps what was
  written. \<open>marshal\<close> is the JSON form of the share.
\<close>

definition ecdsa_keygen_end ::
  "'pt curve_ops \<Rightarrow> (('pt, 'r) SaveData \<Rightarrow> bytes res) \<Rightarrow> ('pt, 'r) SaveData \<Rightarrow> ('d, 'c) world \<Rightarrow>
   ('d, 'c) loop_result" where
  "ecdsa_keygen_end cv marshal saveData w =
     (let s = wd_session w in
      case marshal saveData of
        Inl e \<Rightarrow> failed e w
      | Inr keyBytes \<Rightarrow>
          (case kv_Put (wd_kv w) (share_key s (ss_version s)) keyBytes of
             Inl e \<Rightarrow> failed e w
           | Inr kvs \<Rightarrow>
               (let w = w\<lparr>wd_kv := kvs\<rparr>;
                    info = \<lparr>ki_ParticipantPeerIDs = Some (ss_participantPeerIDs s),
                            ki_Threshold = ss_threshold s, ki_Version = ss_version s\<rparr>
                in case keyinfo_Save (wd_ki w) (composeKey (ss_kind s) (ss_walletID s)) info of
                     Inl e \<Rightarrow> failed e w
                   | Inr kis \<Rightarrow>
                       (let w = w\<lparr>wd_ki := kis\<rparr> in
                        case sd_Pub saveData of
                          None \<Rightarrow> Aborts nil_deref
                        | Some p \<Rightarrow>
                            (case EncodeS256PubKey (Some (cv_PublicKey cv p)) of
                               Inl e \<Rightarrow> failed (EWrap ''failed to encode public key: '' e []) w
                             | Inr b \<Rightarrow>
                                 Returns (w\<lparr>wd_session := fst (session_Close (s\<lparr>ss_pubkeyBytes := Some b\<rparr>))\<rparr>,
                                          [], True))))))"

definition eddsa_keygen_end ::
  "'pt curve_ops \<Rightarrow> (('pt, 'r) SaveData \<Rightarrow> bytes res) \<Rightarrow> ('pt, 'r) SaveData \<Rightarrow> ('d, 'c) world \<Rightarrow>
   ('d, 'c) loop_result" where
  "eddsa_keygen_end cv marshal saveData w =
     (let s = wd_session w in
      case marshal saveData of
        Inl e \<Rightarrow> failed e w
      | Inr keyBytes \<Rightarrow>
          (case kv_Put (wd_kv w) (share_key s (ss_version s)) keyBytes of
             Inl e \<Rightarrow> failed e w
           | Inr kvs \<Rightarrow>
               (let w = w\<lparr>wd_kv := kvs\<rparr>;
                    info = \<lparr>ki_ParticipantPeerIDs = Some (ss_participantPeerIDs s),
                            ki_Threshold = ss_threshold s, ki_Version = ss_version s\<rparr>
                in case keyinfo_Save (wd_ki w) (composeKey (ss_kind s) (ss_walletID s)) info of
                     Inl e \<Rightarrow> failed e w
                   | Inr kis \<Rightarrow>
                       (let w = w\<lparr>wd_ki := kis\<rparr> in
                        case sd_Pub saveData of
                          None \<Rightarrow> Aborts nil_deref
                        | Some p \<Rightarrow>
                            Returns (w\<lparr>wd_session :=
                                fst (session_Close (s\<lparr>ss_pubkeyBytes := Some (cv_Compress cv p)\<rparr>))\<rparr>, [], True)))))"

definition ecdsa_GenerateKey ::
  "'k net \<Rightarrow> 'pt curve_ops \<Rightarrow> (('pt, 'r) SaveData \<Rightarrow> bytes res) \<Rightarrow> ('pt, 'r) SaveData party_event list \<Rightarrow>
   ('d, 'c) world \<Rightarrow> ('d, 'c) loop_result" where
  "ecdsa_GenerateKey nt cv marshal = session_loop nt pushErr False (ecdsa_keygen_end cv marshal)"

definition eddsa_GenerateKey ::
  "'k net \<Rightarrow> 'pt curve_ops \<Rightarrow> (('pt, 'r) SaveData \<Rightarrow> bytes res) \<Rightarrow> ('pt, 'r) SaveData party_event list \<Rightarrow>
   ('d, 'c) world \<Rightarrow> ('d, 'c) loop_result" where
  "eddsa_GenerateKey nt cv marshal = session_loop nt pushErr False (eddsa_keygen_end cv marshal)"

section \<open>Resharing\<close>

text \<open>The share a member starts from: empty for a new one, the stored one for an old one.\<close>

definition reshare_Init ::
  "'d BadgerKVStore \<Rightarrow> (bytes \<Rightarrow> 'sv res) \<Rightarrow> (nat \<Rightarrow> 'sv) \<Rightarrow> string \<Rightarrow> reshare \<Rightarrow> 'sv res" where
  "reshare_Init kvs unmarshal empty_share curve s =
     (if rh_isNewParty s then Inr (empty_share (length (ss_partyIDs (rh_session s))))
      else (case loadOldShareDataGeneric kvs unmarshal (rh_session s) (ss_walletID (rh_session s))
                   (ss_version (rh_session s)) of
              Inl e \<Rightarrow> Inl (EWrap (''failed to load old share data '' @ curve @ '': '') e [])
            | Inr share \<Rightarrow> Inr share))"

definition ecdsa_reshare_Init ::
  "'d BadgerKVStore \<Rightarrow> (bytes \<Rightarrow> 'sv res) \<Rightarrow> (nat \<Rightarrow> 'sv) \<Rightarrow> reshare \<Rightarrow> 'sv res" where
  "ecdsa_reshare_Init kvs unmarshal empty_share = reshare_Init kvs unmarshal empty_share ''ecdsa''"

definition eddsa_reshare_Init ::
  "'d BadgerKVStore \<Rightarrow> (bytes \<Rightarrow> 'sv res) \<Rightarrow> (nat \<Rightarrow> 'sv) \<Rightarrow> reshare \<Rightarrow> 'sv res" where
  "eddsa_reshare_Init kvs unmarshal empty_share = reshare_Init kvs unmarshal empty_share ''eddsa''"

text \<open>
  A member of the old committee only ends with a share without public key and stores nothing.
  \<open>encode\<close> is how the curve encodes the public key.
\<close>

definition reshare_end ::
  "('pt \<Rightarrow> bytes res) \<Rightarrow> (('pt, 'r) SaveData \<Rightarrow> bytes res) \<Rightarrow> reshare \<Rightarrow> ('pt, 'r) SaveData \<Rightarrow>
   ('d, 'c) world \<Rightarrow> ('d, 'c) loop_result" where
  "reshare_end encode marshal r saveData w =
     (let s = wd_session w;
          complete = (\<lambda>w. Returns (w\<lparr>wd_session := fst (session_Close (wd_session w))\<rparr>, [], True))
      in case sd_Pub saveData of
           None \<Rightarrow> complete w
         | Some p \<Rightarrow>
             (case marshal saveData of
                Inl e \<Rightarrow> failed e w
              | Inr keyBytes \<Rightarrow>
                  (let newVersion = ss_version s + 1 in
                   case kv_Put (wd_kv w) (share_key s newVersion) keyBytes of
                     Inl e \<Rightarrow> failed e w
                   | Inr kvs \<Rightarrow>
                       (let w = w\<lparr>wd_kv := kvs\<rparr>;
                            info = \<lparr>ki_ParticipantPeerIDs = Some (rh_newPeerIDs r),
                                    ki_Threshold = rh_newThreshold r, ki_Version = newVersion\<rparr>
                        in case keyinfo_Save (wd_ki w) (composeKey (ss_kind s) (ss_walletID s)) info of
                             Inl e \<Rightarrow> failed e w
                           | Inr kis \<Rightarrow>
                               (let w = w\<lparr>wd_ki := kis\<rparr> in
                                case encode p of
                                  Inl e \<Rightarrow> failed (EWrap ''failed to encode public key: '' e []) w
                                | Inr b \<Rightarrow> complete (w\<lparr>wd_session := s\<lparr>ss_pubkeyBytes := Some b\<rparr>\<rparr>))))))"

definition ecdsa_Reshare ::
  "'k net \<Rightarrow> 'pt curve_ops \<Rightarrow> (('pt, 'r) SaveData \<Rightarrow> bytes res) \<Rightarrow> reshare \<Rightarrow>
   ('pt, 'r) SaveData party_event list \<Rightarrow> ('d, 'c) world \<Rightarrow> ('d, 'c) loop_result" where
  "ecdsa_Reshare nt cv marshal r =
     session_loop nt pushErr False
       (reshare_end (\<lambda>p. EncodeS256PubKey (Some (cv_PublicKey cv p))) marshal r)"

definition eddsa_Reshare ::
  "'k net \<Rightarrow> 'pt curve_ops \<Rightarrow> (('pt, 'r) SaveData \<Rightarrow> bytes res) \<Rightarrow> reshare \<Rightarrow>
   ('pt, 'r) SaveData party_event list \<Rightarrow> ('d, 'c) world \<Rightarrow> ('d, 'c) loop_result" where
  "eddsa_Reshare nt cv marshal r =
     session_loop nt pushErr False (reshare_end (\<lambda>p. Inr (cv_Compress cv p)) marshal r)"

section \<open>Signing\<close>

text \<open>The verb \<^verbatim>\<open>%v\<close> on slices.\<close>

definition show_strings :: "string list \<Rightarrow> string" where
  "show_strings xs = ''['' @ str_join xs '' '' @ '']''"

definition show_path :: "32 word list \<Rightarrow> string" where
  "show_path p = show_strings (map (\<lambda>w. itoa (uint w)) p)"

text \<open>
  \<^verbatim>\<open>Init\<close>, up to the construction of the party: enough participants, their overlap with the
  participants of the key (\<^verbatim>\<open>lo.Intersect\<close> is the parameter \<open>Intersect\<close>), the share of the current
  version, and the offset of a derived key. \<open>sg_delta\<close> tells with which offset the party is built.
\<close>

definition signing_Init ::
  "'pt curve_ops \<Rightarrow> (string list \<Rightarrow> string list \<Rightarrow> string list) \<Rightarrow> (bytes \<Rightarrow> ('pt, 'r) SaveData res) \<Rightarrow>
   'c keyinfoStore \<Rightarrow> 'd BadgerKVStore \<Rightarrow> nat \<Rightarrow> ('pt, 'r) signing \<Rightarrow> ('pt, 'r) signing res outcome" where
  "signing_Init cv Intersect unmarshal kis kvs tx sg =
     (let s = sg_session sg in
      case keyinfo_Get kis (composeKey (ss_kind s) (ss_walletID s)) of
        Inl e \<Rightarrow> Returns (Inl (Wrap e ''Failed to get key info data''))
      | Inr keyInfo \<Rightarrow>
          if int (length (ss_participantPeerIDs s)) < ki_Threshold keyInfo + 1
          then Returns (Inl ErrNotEnoughParticipants)
          else if int (length (Intersect (ss_participantPeerIDs s) (participants keyInfo))) < ki_Threshold keyInfo + 1
          then Returns (Inl (ENew (''Incompatible peerIDs to participate in signing. Current participants: '' @
                 show_strings (ss_participantPeerIDs s) @ '', expected participants: '' @
                 show_strings (participants keyInfo))))
          else
            (case kv_Get kvs (share_key s (ki_Version keyInfo)) of
               Inl e \<Rightarrow> Returns (Inl (Wrap e ''Failed to get wallet data from KVStore''))
             | Inr keyData \<Rightarrow>
                 (case unmarshal keyData of
                    Inl e \<Rightarrow> Returns (Inl (Wrap e ''Failed to unmarshal wallet data''))
                  | Inr data \<Rightarrow>
                      (let ready = (\<lambda>data delta. Returns (Inr (sg\<lparr>sg_session := s\<lparr>ss_version := ki_Version keyInfo\<rparr>,
                             sg_data := Some data, sg_tx := Some tx, sg_delta := delta\<rparr>)))
                       in if length (sg_derivationPath sg) > 0 then
                            (case (sg_ckd sg, sd_Pub data) of
                               (None, Some _) \<Rightarrow> Aborts nil_deref
                             | (ckd, pub) \<Rightarrow>
                                 (case (case ckd of None \<Rightarrow> Inl ErrNilPoint
                                        | Some c \<Rightarrow> Derive cv c pub (sg_derivationPath sg)) of
                                    Inl e \<Rightarrow> Returns (Inl (Wrap e
                                      (''Failed to derive key, derivationPath: '' @ show_path (sg_derivationPath sg))))
                                  | Inr (il, child) \<Rightarrow>
                                      (case UpdateSinglePublicKeyAndAdjustBigXj cv il (Some data) child of
                                         Inl e \<Rightarrow> Returns (Inl (Wrap e
                                           (''Failed to update public key, derivationPath: '' @
                                            show_path (sg_derivationPath sg))))
                                       | Inr data' \<Rightarrow> ready data' (Some il))))
                          else ready data None))))"

definition ecdsa_signing_Init ::
  "'pt curve_ops \<Rightarrow> (string list \<Rightarrow> string list \<Rightarrow> string list) \<Rightarrow> (bytes \<Rightarrow> ('pt, 'r) SaveData res) \<Rightarrow>
   'c keyinfoStore \<Rightarrow> 'd BadgerKVStore \<Rightarrow> nat \<Rightarrow> ('pt, 'r) signing \<Rightarrow> ('pt, 'r) signing res outcome" where
  "ecdsa_signing_Init s256 = signing_Init s256"

definition eddsa_signing_Init ::
  "'pt curve_ops \<Rightarrow> (string list \<Rightarrow> string list \<Rightarrow> string list) \<Rightarrow> (bytes \<Rightarrow> ('pt, 'r) SaveData res) \<Rightarrow>
   'c keyinfoStore \<Rightarrow> 'd BadgerKVStore \<Rightarrow> nat \<Rightarrow> ('pt, 'r) signing \<Rightarrow> ('pt, 'r) signing res outcome" where
  "eddsa_signing_Init edwards = signing_Init edwards"

record SignatureData =
  sd_R :: bytes
  sd_S :: bytes
  sd_SignatureRecovery :: bytes
  sd_Signature :: bytes

definition success_event :: "('pt, 'r) signing \<Rightarrow> SigningResultEvent" where
  "success_event sg =
     \<lparr>sr_ResultType = ResultTypeSuccess, sr_ErrorCode = NoErrorCode, sr_ErrorReason = [],
      sr_IsTimeout = False, sr_NetworkInternalCode = sg_networkInternalCode sg,
      sr_WalletID = ss_walletID (sg_session sg), sr_TxID = sg_txID sg, sr_R = [], sr_S = [],
      sr_SignatureRecovery = [], sr_Signature = []\<rparr>"

text \<open>
  The end of \<^verbatim>\<open>Sign\<close>: a signature that does not verify under the (derived) public key is never
  published. \<open>verify\<close> is the verification of the curve on key, message, R and S; \<open>enqueue\<close> the
  answer of the result queue.
\<close>

definition signing_end ::
  "('pt \<Rightarrow> bytes \<Rightarrow> nat \<Rightarrow> nat \<Rightarrow> bool) \<Rightarrow> (string \<Rightarrow> gerror option) \<Rightarrow>
   (SignatureData \<Rightarrow> SigningResultEvent \<Rightarrow> SigningResultEvent) \<Rightarrow> ('pt, 'r) signing \<Rightarrow>
   SignatureData \<Rightarrow> ('d, 'c) world \<Rightarrow> ('d, 'c) loop_result" where
  "signing_end verify enqueue fill sg sig w =
     (let s = wd_session w; fail = (\<lambda>e es. Returns (w\<lparr>wd_session := sendErr e s\<rparr>, es, False)) in
      case (sg_data sg, sg_tx sg) of
        (Some d, Some tx) \<Rightarrow>
          (case sd_Pub d of
             None \<Rightarrow> Aborts nil_deref
           | Some p \<Rightarrow>
               if \<not> verify p (nat_be tx) (be_nat (sd_R sig)) (be_nat (sd_S sig))
               then fail (ENew ''Failed to verify signature'') []
               else
                 (let r = fill sig (success_event sg);
                      es = [Enqueue (ss_resultTopic s) r (ss_idempotentKey s)]
                  in case enqueue (ss_resultTopic s) of
                       Some e \<Rightarrow> fail (Wrap e ''Failed to publish sign success message'') es
                     | None \<Rightarrow> Returns (w\<lparr>wd_session := fst (session_Close s)\<rparr>, es, True)))
      | _ \<Rightarrow> Aborts nil_deref)"

definition ecdsa_Sign ::
  "'k net \<Rightarrow> ('pt \<Rightarrow> bytes \<Rightarrow> nat \<Rightarrow> nat \<Rightarrow> bool) \<Rightarrow> (string \<Rightarrow> gerror option) \<Rightarrow> ('pt, 'r) signing \<Rightarrow>
   SignatureData party_event list \<Rightarrow> ('d, 'c) world \<Rightarrow> ('d, 'c) loop_result" where
  "ecdsa_Sign nt verify enqueue sg =
     session_loop nt sendErr True
       (signing_end verify enqueue
          (\<lambda>sig r. r\<lparr>sr_R := sd_R sig, sr_S := sd_S sig, sr_SignatureRecovery := sd_SignatureRecovery sig\<rparr>) sg)"

definition eddsa_Sign ::
  "'k net \<Rightarrow> ('pt \<Rightarrow> bytes \<Rightarrow> nat \<Rightarrow> nat \<Rightarrow> bool) \<Rightarrow> (string \<Rightarrow> gerror option) \<Rightarrow> ('pt, 'r) signing \<Rightarrow>
   SignatureData party_event list \<Rightarrow> ('d, 'c) world \<Rightarrow> ('d, 'c) loop_result" where
  "eddsa_Sign nt verify enqueue sg =
     session_loop nt sendErr True
       (signing_end verify enqueue (\<lambda>sig r. r\<lparr>sr_Signature := sd_Signature sig\<rparr>) sg)"

text \<open>Closing wipes the share, the message and the path before it stops the session.\<close>

definition signing_Close :: "('pt, 'r) signing \<Rightarrow> ('pt, 'r) signing" where
  "signing_Close sg =
     sg\<lparr>sg_data := None, sg_tx := None, sg_derivationPath := [], sg_ckd := None,
        sg_session := fst (session_Close (sg_session sg))\<rparr>"

section \<open>What a session keeps while it runs\<close>

definition session_frame :: "session \<Rightarrow> session \<Rightarrow> bool" where
  "session_frame s s' \<longleftrightarrow> ss_kind s' = ss_kind s \<and> ss_walletID s' = ss_walletID s \<and>
     ss_threshold s' = ss_threshold s \<and> ss_participantPeerIDs s' = ss_participantPeerIDs s \<and>
     ss_selfPartyID s' = ss_selfPartyID s \<and> ss_partyIDs s' = ss_partyIDs s \<and>
     ss_version s' = ss_version s \<and> ss_resultTopic s' = ss_resultTopic s \<and>
     ss_idempotentKey s' = ss_idempotentKey s \<and> ss_pubkeyBytes s' = ss_pubkeyBytes s"

lemma session_frame_refl [simp]: "session_frame s s"
  by (simp add: session_frame_def)

lemma session_frame_trans: "session_frame s t \<Longrightarrow> session_frame t u \<Longrightarrow> session_frame s u"
  by (simp add: session_frame_def)

lemma session_frame_err [simp]:
  "session_frame s (sendErr e t) \<longleftrightarrow> session_frame s t"
  "session_frame s (pushErr e t) \<longleftrightarrow> session_frame s t"
  by (simp_all add: session_frame_def sendErr_def pushErr_def)

lemma send_one_frame: "session_frame s (fst (send_one nt msg i to s))"
  by (auto simp: send_one_def Let_def split: option.splits sum.splits
      simp del: partyIDToNodeID.simps)

lemma send_direct_frame: "session_frame s (fst (send_direct nt msg i tos s))"
proof (induction tos arbitrary: i s)
  case (Cons to tos)
  obtain s1 e where s1: "send_one nt msg i to s = (s1, e)" by (cases "send_one nt msg i to s")
  obtain s2 es where s2: "send_direct nt msg (Suc i) tos s1 = (s2, es)"
    by (cases "send_direct nt msg (Suc i) tos s1")
  have "session_frame s s1" using send_one_frame [of s nt msg i to] s1 by simp
  moreover have "session_frame s1 s2" using Cons.IH [of s1 "Suc i"] s2 by simp
  ultimately show ?case using s1 s2 session_frame_trans by auto
qed simp

lemma handleTssMessage_frame:
  assumes "handleTssMessage nt wire s = Returns (s', es)"
  shows "session_frame s s'"
proof -
  have "send_direct nt m i tos s = (s', es) \<Longrightarrow> session_frame s s'" for m i tos
    using send_direct_frame [of s nt m i tos] by simp
  with assms show ?thesis
    by (auto simp: handleTssMessage_def Let_def split: sum.splits outcome.splits if_splits option.splits)
qed

lemma session_loop_finish:
  assumes "session_loop nt onErr stops finish evs w = Returns (w', es, True)"
    and "\<And>e s. session_frame s (onErr e s)"
  shows "\<exists>x w0 es0. PartyEnd x \<in> set evs \<and> finish x w0 = Returns (w', es0, True) \<and>
    wd_kv w0 = wd_kv w \<and> wd_ki w0 = wd_ki w \<and> session_frame (wd_session w) (wd_session w0)"
  using assms
proof (induction nt onErr stops finish evs w arbitrary: es rule: session_loop.induct)
  case (2 nt onErr stops finish wire evs w)
  then obtain s' es1 es2 where h: "handleTssMessage nt wire (wd_session w) = Returns (s', es1)"
    and l: "session_loop nt onErr stops finish evs (w\<lparr>wd_session := s'\<rparr>) = Returns (w', es2, True)"
    by (auto split: outcome.splits)
  from "2.IH" [OF h refl l "2.prems"(2)] obtain x w0 es0 where
    "PartyEnd x \<in> set evs" "finish x w0 = Returns (w', es0, True)" "wd_kv w0 = wd_kv w" "wd_ki w0 = wd_ki w"
    "session_frame s' (wd_session w0)" by auto
  with handleTssMessage_frame [OF h] show ?case by (meson list.set_intros(2) session_frame_trans)
next
  case (3 nt onErr stops finish x evs w)
  then show ?case by force
next
  case (4 nt onErr stops finish e evs w)
  from "4.IH" [of es] "4.prems" obtain x w0 es0 where
    "PartyEnd x \<in> set evs" "finish x w0 = Returns (w', es0, True)" "wd_kv w0 = wd_kv w" "wd_ki w0 = wd_ki w"
    "session_frame (onErr e (wd_session w)) (wd_session w0)" by auto
  with "4.prems"(2) show ?case by (meson list.set_intros(2) session_frame_trans)
qed (force split: if_splits)+

section \<open>Persistence\<close>

definition stores_ok :: "('d, 'c) world \<Rightarrow> bool" where
  "stores_ok w \<longleftrightarrow> badger_ok (kv_DB (wd_kv w)) \<and> consul_ok (ks_consulKV (wd_ki w))"

text \<open>What is on disk for a wallet: a share of a version, and key information that names it.\<close>

definition persisted :: "('d, 'c) world \<Rightarrow> session_kind \<Rightarrow> string \<Rightarrow> bytes \<Rightarrow> KeyInfo \<Rightarrow> bool" where
  "persisted w kind walletID share info \<longleftrightarrow>
     kv_Get (wd_kv w) (composeKey kind (walletIDWithVersion walletID (ki_Version info))) = Inr share \<and>
     keyinfo_Get (wd_ki w) (composeKey kind walletID) = Inr info"

lemma persisted_write:
  assumes "stores_ok w" and "KeyInfo_ok info"
    and "kv_Put (wd_kv w) (composeKey kind (walletIDWithVersion i (ki_Version info))) b = Inr kvs"
    and "keyinfo_Save (wd_ki w) (composeKey kind i) info = Inr kis"
  shows "persisted (w\<lparr>wd_kv := kvs, wd_ki := kis, wd_session := s\<rparr>) kind i b info"
    and "k \<noteq> composeKey kind (walletIDWithVersion i (ki_Version info)) \<Longrightarrow> kv_Get kvs k = kv_Get (wd_kv w) k"
    and "k \<noteq> composeKey kind i \<Longrightarrow> keyinfo_Get kis k = keyinfo_Get (wd_ki w) k"
  using assms kv.get_put [OF _ _ assms(3)] ki.get_put [OF _ assms(2,4)]
    kv.get_put_other [OF _ assms(3)] ki.get_put_other [OF _ assms(4)]
  by (simp_all add: persisted_def stores_ok_def)

definition keygen_info :: "session \<Rightarrow> KeyInfo" where
  "keygen_info s = \<lparr>ki_ParticipantPeerIDs = Some (ss_participantPeerIDs s),
     ki_Threshold = ss_threshold s, ki_Version = ss_version s\<rparr>"

lemma ecdsa_keygen_end_ok:
  assumes "ecdsa_keygen_end cv marshal sv w = Returns (w', es, True)" and "stores_ok w"
    and "KeyInfo_ok (keygen_info (wd_session w))"
  shows "\<exists>b p pk. marshal sv = Inr b \<and> sd_Pub sv = Some p \<and>
    persisted w' (ss_kind (wd_session w)) (ss_walletID (wd_session w)) b (keygen_info (wd_session w)) \<and>
    EncodeS256PubKey (Some (cv_PublicKey cv p)) = Inr pk \<and> ss_pubkeyBytes (wd_session w') = Some pk \<and>
    ss_done (wd_session w')"
proof -
  let ?s = "wd_session w"
  from assms(1) obtain b kvs kis p pk where
    b: "marshal sv = Inr b" and kvs: "kv_Put (wd_kv w) (share_key ?s (ss_version ?s)) b = Inr kvs"
    and kis: "keyinfo_Save (wd_ki w) (composeKey (ss_kind ?s) (ss_walletID ?s)) (keygen_info ?s) = Inr kis"
    and p: "sd_Pub sv = Some p" and pk: "EncodeS256PubKey (Some (cv_PublicKey cv p)) = Inr pk"
    and w': "w' = w\<lparr>wd_kv := kvs, wd_ki := kis, wd_session := fst (session_Close (?s\<lparr>ss_pubkeyBytes := Some pk\<rparr>))\<rparr>"
    by (auto simp: ecdsa_keygen_end_def Let_def failed_def keygen_info_def split: sum.splits option.splits)
  have "persisted w' (ss_kind ?s) (ss_walletID ?s) b (keygen_info ?s)"
    unfolding w' using kvs kis
    by (intro persisted_write(1) assms(2,3)) (simp_all add: share_key_def keygen_info_def)
  with b p pk w' show ?thesis by (auto simp: session_Close_def Stop_def)
qed

lemma eddsa_keygen_end_ok:
  assumes "eddsa_keygen_end cv marshal sv w = Returns (w', es, True)" and "stores_ok w"
    and "KeyInfo_ok (keygen_info (wd_session w))"
  shows "\<exists>b p. marshal sv = Inr b \<and> sd_Pub sv = Some p \<and>
    persisted w' (ss_kind (wd_session w)) (ss_walletID (wd_session w)) b (keygen_info (wd_session w)) \<and>
    ss_pubkeyBytes (wd_session w') = Some (cv_Compress cv p) \<and> ss_done (wd_session w')"
proof -
  let ?s = "wd_session w"
  from assms(1) obtain b kvs kis p where
    b: "marshal sv = Inr b" and kvs: "kv_Put (wd_kv w) (share_key ?s (ss_version ?s)) b = Inr kvs"
    and kis: "keyinfo_Save (wd_ki w) (composeKey (ss_kind ?s) (ss_walletID ?s)) (keygen_info ?s) = Inr kis"
    and p: "sd_Pub sv = Some p"
    and w': "w' = w\<lparr>wd_kv := kvs, wd_ki := kis,
        wd_session := fst (session_Close (?s\<lparr>ss_pubkeyBytes := Some (cv_Compress cv p)\<rparr>))\<rparr>"
    by (auto simp: eddsa_keygen_end_def Let_def failed_def keygen_info_def split: sum.splits option.splits)
  have "persisted w' (ss_kind ?s) (ss_walletID ?s) b (keygen_info ?s)"
    unfolding w' using kvs kis
    by (intro persisted_write(1) assms(2,3)) (simp_all add: share_key_def keygen_info_def)
  with b p w' show ?thesis by (auto simp: session_Close_def Stop_def)
qed

definition reshare_info :: "reshare \<Rightarrow> session \<Rightarrow> KeyInfo" where
  "reshare_info r s = \<lparr>ki_ParticipantPeerIDs = Some (rh_newPeerIDs r),
     ki_Threshold = rh_newThreshold r, ki_Version = ss_version s + 1\<rparr>"

lemma reshare_end_ok:
  assumes "reshare_end encode marshal r sv w = Returns (w', es, True)" and "stores_ok w"
    and "KeyInfo_ok (reshare_info r (wd_session w))" and "sd_Pub sv = Some p" and "0 \<le> ss_version (wd_session w)"
  shows "\<exists>b pk. marshal sv = Inr b \<and> encode p = Inr pk \<and> ss_pubkeyBytes (wd_session w') = Some pk \<and>
    persisted w' (ss_kind (wd_session w)) (ss_walletID (wd_session w)) b (reshare_info r (wd_session w)) \<and>
    kv_Get (wd_kv w') (share_key (wd_session w) (ss_version (wd_session w))) =
      kv_Get (wd_kv w) (share_key (wd_session w) (ss_version (wd_session w)))"
proof -
  let ?s = "wd_session w" and ?i = "reshare_info r (wd_session w)"
  from assms(1,4) obtain b kvs kis pk where
    b: "marshal sv = Inr b" and kvs: "kv_Put (wd_kv w) (share_key ?s (ss_version ?s + 1)) b = Inr kvs"
    and kis: "keyinfo_Save (wd_ki w) (composeKey (ss_kind ?s) (ss_walletID ?s)) ?i = Inr kis"
    and pk: "encode p = Inr pk"
    and w': "w' = w\<lparr>wd_kv := kvs, wd_ki := kis, wd_session := fst (session_Close (?s\<lparr>ss_pubkeyBytes := Some pk\<rparr>))\<rparr>"
    by (auto simp: reshare_end_def Let_def failed_def reshare_info_def split: sum.splits option.splits)
  have v: "ki_Version ?i = ss_version ?s + 1" by (simp add: reshare_info_def)
  have per: "persisted w' (ss_kind ?s) (ss_walletID ?s) b ?i"
    unfolding w' using kvs kis v by (intro persisted_write(1) assms(2,3)) (simp_all add: share_key_def)
  have "share_key ?s (ss_version ?s) \<noteq> share_key ?s (ss_version ?s + 1)"
    using walletIDWithVersion_Suc_neq [OF assms(5), of "ss_walletID ?s"]
    by (simp add: share_key_def composeKey_eq_iff)
  then have "kv_Get kvs (share_key ?s (ss_version ?s)) = kv_Get (wd_kv w) (share_key ?s (ss_version ?s))"
    using kv.get_put_other [OF _ kvs] assms(2) by (simp add: stores_ok_def)
  with per b pk w' show ?thesis by (auto simp: session_Close_def Stop_def)
qed

text \<open>An old-committee member, whose final share has no public key, writes nothing.\<close>

lemma reshare_end_old:
  "sd_Pub sv = None \<Longrightarrow> reshare_end encode marshal r sv w =
     Returns (w\<lparr>wd_session := Stop (wd_session w)\<rparr>, [], True)"
  by (simp add: reshare_end_def session_Close_def)

section \<open>Signing with a stored share\<close>

lemma signing_Init_ok:
  assumes "signing_Init cv I unmarshal kis kvs tx sg = Returns (Inr sg')"
  shows "\<exists>info share data. keyinfo_Get kis (composeKey (ss_kind (sg_session sg)) (ss_walletID (sg_session sg))) = Inr info \<and>
    kv_Get kvs (share_key (sg_session sg) (ki_Version info)) = Inr share \<and> unmarshal share = Inr data \<and>
    ki_Threshold info + 1 \<le> int (length (ss_participantPeerIDs (sg_session sg))) \<and>
    ki_Threshold info + 1 \<le> int (length (I (ss_participantPeerIDs (sg_session sg)) (participants info))) \<and>
    sg_tx sg' = Some tx \<and> ss_version (sg_session sg') = ki_Version info \<and>
    (if sg_derivationPath sg = [] then sg_data sg' = Some data \<and> sg_delta sg' = None
     else \<exists>c il child data'. sg_ckd sg = Some c \<and>
       Derive cv c (sd_Pub data) (sg_derivationPath sg) = Inr (il, child) \<and>
       UpdateSinglePublicKeyAndAdjustBigXj cv il (Some data) child = Inr data' \<and>
       sg_data sg' = Some data' \<and> sg_delta sg' = Some il)"
  using assms
  by (auto simp: signing_Init_def Let_def split: sum.splits if_splits option.splits prod.splits)

lemma signing_Init_persisted:
  assumes "persisted w (ss_kind (sg_session sg)) (ss_walletID (sg_session sg)) share info"
    and "unmarshal share = Inr data" and "sg_derivationPath sg = []"
    and "ki_Threshold info + 1 \<le> int (length (ss_participantPeerIDs (sg_session sg)))"
    and "ki_Threshold info + 1 \<le> int (length (I (ss_participantPeerIDs (sg_session sg)) (participants info)))"
  shows "signing_Init cv I unmarshal (wd_ki w) (wd_kv w) tx sg =
    Returns (Inr (sg\<lparr>sg_session := (sg_session sg)\<lparr>ss_version := ki_Version info\<rparr>,
      sg_data := Some data, sg_tx := Some tx, sg_delta := None\<rparr>))"
  using assms by (simp add: signing_Init_def persisted_def share_key_def Let_def)

text \<open>Nothing is published but a signature that verifies under the key of the session.\<close>

lemma handleTssMessage_no_enqueue:
  assumes "handleTssMessage nt wire s = Returns (s', es)"
  shows "Enqueue t r k \<notin> set es"
proof -
  have one: "snd (send_one nt m i to s) \<noteq> Enqueue t r k" for m i to s
    by (auto simp: send_one_def Let_def split: sum.splits option.splits simp del: partyIDToNodeID.simps)
  have "Enqueue t r k \<notin> set (snd (send_direct nt m i tos s))" for m i tos s
  proof (induction tos arbitrary: i s)
    case (Cons to tos)
    then show ?case using one [of m i to s] by (auto split: prod.splits) (metis snd_conv)+
  qed simp
  then have "send_direct nt m i tos s = (s', es) \<Longrightarrow> Enqueue t r k \<notin> set es" for m i tos
    by (metis snd_conv)
  with assms show ?thesis
    by (auto simp: handleTssMessage_def Let_def split: sum.splits outcome.splits if_splits)
qed

lemma session_loop_effects:
  assumes "session_loop nt onErr stops finish evs w = Returns (w', es, b)" and "Enqueue t r k \<in> set es"
    and "\<And>e s. session_frame s (onErr e s)"
  shows "\<exists>x w0 es0. PartyEnd x \<in> set evs \<and> finish x w0 = Returns (w', es0, b) \<and> Enqueue t r k \<in> set es0 \<and>
    session_frame (wd_session w) (wd_session w0)"
  using assms
proof (induction nt onErr stops finish evs w arbitrary: es rule: session_loop.induct)
  case (2 nt onErr stops finish wire evs w)
  then obtain s' es1 es2 where h: "handleTssMessage nt wire (wd_session w) = Returns (s', es1)"
    and l: "session_loop nt onErr stops finish evs (w\<lparr>wd_session := s'\<rparr>) = Returns (w', es2, b)"
    and es: "es = es1 @ es2" by (auto split: outcome.splits)
  have "Enqueue t r k \<in> set es2" using "2.prems"(2) es handleTssMessage_no_enqueue [OF h] by auto
  from "2.IH" [OF h refl l this "2.prems"(3)] obtain x w0 es0 where
    "PartyEnd x \<in> set evs" "finish x w0 = Returns (w', es0, b)" "Enqueue t r k \<in> set es0"
    "session_frame s' (wd_session w0)" by auto
  with handleTssMessage_frame [OF h] show ?case by (meson list.set_intros(2) session_frame_trans)
next
  case (3 nt onErr stops finish x evs w)
  then show ?case by force
next
  case (4 nt onErr stops finish e evs w)
  from "4.IH" [of es] "4.prems" obtain x w0 es0 where
    "PartyEnd x \<in> set evs" "finish x w0 = Returns (w', es0, b)" "Enqueue t r k \<in> set es0"
    "session_frame (onErr e (wd_session w)) (wd_session w0)" by auto
  with "4.prems"(3) show ?case by (meson list.set_intros(2) session_frame_trans)
qed (force split: if_splits)+

lemma signing_end_enqueue:
  assumes "signing_end verify enqueue fill sg sig w = Returns (w', es, b)" and "Enqueue t r k \<in> set es"
  shows "\<exists>d p tx. sg_data sg = Some d \<and> sd_Pub d = Some p \<and> sg_tx sg = Some tx \<and>
    verify p (nat_be tx) (be_nat (sd_R sig)) (be_nat (sd_S sig)) \<and> r = fill sig (success_event sg) \<and>
    t = ss_resultTopic (wd_session w) \<and> k = ss_idempotentKey (wd_session w)"
  using assms by (auto simp: signing_end_def Let_def split: option.splits if_splits)

lemma GetLegacyCommitteePeers_set:
  "set (GetLegacyCommitteePeers r) = set (rh_oldPeerIDs r) - set (rh_newPeerIDs r)"
  by (auto simp: GetLegacyCommitteePeers_def)

end
