(* ===== verification/Key_Exchange.thy ===== *)
theory Key_Exchange
  imports Identity
begin

text \<open>
  \<^verbatim>\<open>pkg/mpc/key_exchange_session.go\<close>: the ECDH exchange by which a node agrees a symmetric key
  with every peer. X25519 and HKDF are the parameter record \<open>ecdh\<close>; \<open>rfc3339\<close> tells which texts
  \<^verbatim>\<open>time.Time\<close> accepts; \<open>now\<close> is the text of \<^verbatim>\<open>time.Now()\<close>. The subscription handler is one
  step on the identity store that also tells whether \<^verbatim>\<open>onKeyExchangeComplete\<close> is called.
\<close>

record 'p ecdh =
  x_GenerateKey :: "'p res"
  x_PublicKey :: "'p \<Rightarrow> bytes"
  x_NewPublicKey :: "bytes \<Rightarrow> unit res"
  x_ECDH :: "'p \<Rightarrow> bytes \<Rightarrow> bytes res"
  x_HKDF :: "bytes \<Rightarrow> bytes \<Rightarrow> bytes res"

definition ECDHExchangeTopic :: string where
  "ECDHExchangeTopic = ''ecdh:exchange''"

record 'p ecdhSession =
  es_nodeID :: string
  es_peerIDs :: "string list"
  es_privateKey :: "'p option"

definition NewECDHSession :: "string \<Rightarrow> string list \<Rightarrow> 'p ecdhSession" where
  "NewECDHSession nodeID peerIDs = \<lparr>es_nodeID = nodeID, es_peerIDs = peerIDs, es_privateKey = None\<rparr>"

text \<open>Go compares strings byte by byte.\<close>

fun str_less :: "string \<Rightarrow> string \<Rightarrow> bool" where
  "str_less a [] = False"
| "str_less [] (d # b) = True"
| "str_less (c # a) (d # b) =
     ((of_char c :: nat) < of_char d \<or> (c = d \<and> str_less a b))"

definition deriveConsistentInfo :: "string \<Rightarrow> string \<Rightarrow> bytes" where
  "deriveConsistentInfo a b = (if str_less a b then go_bytes (a @ b) else go_bytes (b @ a))"

text \<open>The key, nil on an HKDF error, and the error sent to \<^verbatim>\<open>errCh\<close>.\<close>

definition deriveSymmetricKey ::
  "'p ecdh \<Rightarrow> 'p ecdhSession \<Rightarrow> bytes \<Rightarrow> string \<Rightarrow> bytes option \<times> gerror list" where
  "deriveSymmetricKey ec e sharedSecret peerID =
     (case x_HKDF ec sharedSecret (deriveConsistentInfo (es_nodeID e) peerID) of
        Inl err \<Rightarrow> (None, [err])
      | Inr symmetricKey \<Rightarrow> (Some symmetricKey, []))"

definition set_time :: "(string \<Rightarrow> bool) \<Rightarrow> json \<Rightarrow> ECDHMessage \<Rightarrow> ECDHMessage option" where
  "set_time rfc3339 v m = (case v of JNull \<Rightarrow> Some m
     | JStr t \<Rightarrow> if rfc3339 t then Some (m\<lparr>em_Timestamp := t\<rparr>) else None | _ \<Rightarrow> None)"

definition ECDHMessage_fields :: "(string \<Rightarrow> bool) \<Rightarrow> ECDHMessage field list" where
  "ECDHMessage_fields rfc3339 =
     [(''from'', set_string (\<lambda>s m. m\<lparr>em_From := s\<rparr>)),
      (''public_key'', set_bytes (\<lambda>b m. m\<lparr>em_PublicKey := b\<rparr>)),
      (''timestamp'', set_time rfc3339),
      (''signature'', set_bytes (\<lambda>b m. m\<lparr>em_Signature := b\<rparr>))]"

definition zero_ECDHMessage :: ECDHMessage where
  "zero_ECDHMessage = \<lparr>em_From = [], em_PublicKey = None, em_Timestamp = ''0001-01-01T00:00:00Z'',
     em_Signature = None\<rparr>"

definition enc_ECDHMessage :: "ECDHMessage \<Rightarrow> json" where
  "enc_ECDHMessage m = JObj
     [(''from'', JStr (em_From m)), (''public_key'', enc_bytes (em_PublicKey m)),
      (''timestamp'', JStr (em_Timestamp m)), (''signature'', enc_bytes (em_Signature m))]"

text \<open>What the subscription handler leaves behind.\<close>

record 'k ecdh_result =
  er_store :: "'k fileStore"
  er_errors :: "gerror list"
  er_complete :: bool

definition ecdh_handler ::
  "'k crypto \<Rightarrow> 'p ecdh \<Rightarrow> (string \<Rightarrow> bool) \<Rightarrow> 'p ecdhSession \<Rightarrow> 'p \<Rightarrow> 'k fileStore \<Rightarrow> bytes \<Rightarrow>
   'k ecdh_result outcome" where
  "ecdh_handler cr ec rfc3339 e privateKey s data =
     (let unchanged = (\<lambda>errs. Returns \<lparr>er_store = s, er_errors = errs, er_complete = False\<rparr>) in
      case json_Unmarshal (ECDHMessage_fields rfc3339) zero_ECDHMessage data of
        Inl _ \<Rightarrow> unchanged []
      | Inr ecdhMsg \<Rightarrow>
          if em_From ecdhMsg = es_nodeID e then unchanged []
          else (case VerifySignature cr s ecdhMsg of
            Aborts x \<Rightarrow> Aborts x
          | Returns (Inl err) \<Rightarrow> unchanged [err]
          | Returns (Inr _) \<Rightarrow>
            (case x_NewPublicKey ec (sig_bytes (em_PublicKey ecdhMsg)) of
               Inl err \<Rightarrow> unchanged [err]
             | Inr _ \<Rightarrow>
               (case x_ECDH ec privateKey (sig_bytes (em_PublicKey ecdhMsg)) of
                  Inl err \<Rightarrow> unchanged [err]
                | Inr sharedSecret \<Rightarrow>
                    (let (symmetricKey, errs) = deriveSymmetricKey ec e sharedSecret (em_From ecdhMsg);
                         s' = SetSymmetricKey (em_From ecdhMsg) symmetricKey s
                     in Returns \<lparr>er_store = s', er_errors = errs,
                          er_complete = (GetSymetricKeyCount s' = int (length (es_peerIDs e)))\<rparr>)))))"

definition ListenKeyExchange ::
  "'p ecdh \<Rightarrow> unit res \<Rightarrow> 'p ecdhSession \<Rightarrow> 'p ecdhSession \<times> gerror option" where
  "ListenKeyExchange ec subscribe e =
     (case x_GenerateKey ec of
        Inl err \<Rightarrow> (e, Some (EWrap ''failed to generate ECDH key pair: '' err []))
      | Inr privateKey \<Rightarrow>
          (e\<lparr>es_privateKey := Some privateKey\<rparr>,
           case subscribe of
             Inl err \<Rightarrow> Some (EWrap ''failed to subscribe to ECDH topic: '' err [])
           | Inr _ \<Rightarrow> None))"

text \<open>The bytes published on \<^const>\<open>ECDHExchangeTopic\<close>, or the error; \<open>publish\<close> is the broker's answer.\<close>

definition BroadcastPublicKey ::
  "'k crypto \<Rightarrow> 'p ecdh \<Rightarrow> (bytes \<Rightarrow> unit res) \<Rightarrow> string \<Rightarrow> 'p ecdhSession \<Rightarrow> 'k fileStore \<Rightarrow>
   bytes res outcome" where
  "BroadcastPublicKey cr ec publish now e s =
     (case es_privateKey e of
        None \<Rightarrow> Returns (Inl (ENew (''ecdh session '' @ es_nodeID e @ '' has no public key to broadcast yet'')))
      | Some priv \<Rightarrow>
          (let msg = \<lparr>em_From = es_nodeID e, em_PublicKey = Some (x_PublicKey ec priv),
                      em_Timestamp = now, em_Signature = None\<rparr>
           in bind_out (SignEcdhMessage cr s msg) (\<lambda>r. case r of
                Inl err \<Rightarrow> Returns (Inl (EWrap ''failed to sign ECDH message: '' err []))
              | Inr signature \<Rightarrow>
                  (let wire = json_Marshal (enc_ECDHMessage (msg\<lparr>em_Signature := Some signature\<rparr>))
                   in case publish wire of
                        Inl err \<Rightarrow> Returns (Inl (EWrap (es_nodeID e @ '' failed to publish DH message because '') err []))
                      | Inr _ \<Rightarrow> Returns (Inr wire)))))"

definition RemovePeer :: "string \<Rightarrow> 'k fileStore \<Rightarrow> 'k fileStore" where
  "RemovePeer peerID s = RemoveSymmetricKey peerID s"

definition ecdh_GetReadyPeersCount :: "'k fileStore \<Rightarrow> int" where
  "ecdh_GetReadyPeersCount s = GetSymetricKeyCount s"

section \<open>Both ends derive the same key\<close>

lemma str_less_asym: "str_less a b \<Longrightarrow> \<not> str_less b a"
  by (induction a b rule: str_less.induct) auto

lemma str_less_total: "\<not> str_less a b \<Longrightarrow> \<not> str_less b a \<Longrightarrow> a = b"
proof (induction a b rule: str_less.induct)
  case (1 a)
  then show ?case by (cases a) auto
next
  case (3 c a d b)
  then have "(of_char c :: nat) = of_char d" by (auto simp: not_less)
  then have "c = d" by simp
  with 3 show ?case by auto
qed auto

lemma deriveConsistentInfo_sym: "deriveConsistentInfo a b = deriveConsistentInfo b a"
  using str_less_asym [of a b] str_less_total [of a b] by (auto simp: deriveConsistentInfo_def)

text \<open>The law of Diffie-Hellman: both parties compute the same secret.\<close>

definition dh_commutes :: "'p ecdh \<Rightarrow> bool" where
  "dh_commutes ec \<longleftrightarrow> (\<forall>a b. x_ECDH ec a (x_PublicKey ec b) = x_ECDH ec b (x_PublicKey ec a))"

text \<open>
  The documented behaviour of \<^verbatim>\<open>crypto/ecdh\<close> for X25519: \<^verbatim>\<open>NewPublicKey\<close> accepts exactly 32 bytes, and
  that is the length of the public key of a private key.
\<close>

definition x25519_ok :: "'p ecdh \<Rightarrow> bool" where
  "x25519_ok ec \<longleftrightarrow> dh_commutes ec \<and> (\<forall>b. x_NewPublicKey ec b = Inr () \<longleftrightarrow> length b = 32) \<and>
     (\<forall>k. length (x_PublicKey ec k) = 32)"

lemma x25519_ok_NewPublicKey: "x25519_ok ec \<Longrightarrow> x_NewPublicKey ec (x_PublicKey ec k) = Inr ()"
  by (simp add: x25519_ok_def)

lemma set_time_enc: "rfc3339 t \<Longrightarrow> set_time rfc3339 (JStr t) m = Some (m\<lparr>em_Timestamp := t\<rparr>)"
  by (simp add: set_time_def)

lemma find_ECDHMessage_fields [simp]:
  "find_field (ECDHMessage_fields p) ''from'' = Some (set_string (\<lambda>s m. m\<lparr>em_From := s\<rparr>))"
  "find_field (ECDHMessage_fields p) ''public_key'' = Some (set_bytes (\<lambda>b m. m\<lparr>em_PublicKey := b\<rparr>))"
  "find_field (ECDHMessage_fields p) ''timestamp'' = Some (set_time p)"
  "find_field (ECDHMessage_fields p) ''signature'' = Some (set_bytes (\<lambda>b m. m\<lparr>em_Signature := b\<rparr>))"
  by (simp_all add: ECDHMessage_fields_def to_lower_def lower_char_def)

lemma Unmarshal_ECDHMessage:
  assumes "rfc3339 (em_Timestamp m)"
  shows "json_Unmarshal (ECDHMessage_fields rfc3339) zero_ECDHMessage (json_Marshal (enc_ECDHMessage m)) = Inr m"
proof -
  have "wf_json (enc_ECDHMessage m)" by (simp add: enc_ECDHMessage_def)
  then show ?thesis
    unfolding enc_ECDHMessage_def zero_ECDHMessage_def
    by (simp add: json_Unmarshal_Marshal set_time_enc [of rfc3339, OF assms])
qed

text \<open>What an accepted message stores: the key that the sender's public key yields.\<close>

lemma ecdh_handler_store:
  assumes "ecdh_handler cr ec p e priv s data = Returns r" and "er_store r \<noteq> s"
  shows "\<exists>m secret. json_Unmarshal (ECDHMessage_fields p) zero_ECDHMessage data = Inr m \<and>
     em_From m \<noteq> es_nodeID e \<and> VerifySignature cr s m = Returns (Inr ()) \<and>
     x_ECDH ec priv (sig_bytes (em_PublicKey m)) = Inr secret \<and>
     er_store r = SetSymmetricKey (em_From m) (fst (deriveSymmetricKey ec e secret (em_From m))) s"
  using assms
  by (auto simp: ecdh_handler_def Let_def split: outcome.splits sum.splits if_splits prod.splits)

lemma ecdh_handler_cases:
  assumes "ecdh_handler cr ec p e priv s data = Returns r"
  shows "er_store r = s \<and> \<not> er_complete r \<or>
    (\<exists>q k. q \<noteq> es_nodeID e \<and> map_of (fs_publicKeys s) q \<noteq> None \<and>
       er_store r = SetSymmetricKey q k s \<and>
       er_complete r = (GetSymetricKeyCount (er_store r) = int (length (es_peerIDs e))))"
proof -
  have pub: "VerifySignature cr s m = Returns (Inr u) \<Longrightarrow> map_of (fs_publicKeys s) (em_From m) \<noteq> None" for m u
    by (auto simp: VerifySignature_def GetPublicKey_def split: option.splits)
  from assms show ?thesis
    by (auto simp: ecdh_handler_def Let_def 
        split: outcome.splits sum.splits if_splits prod.splits) (use pub in metis)+
qed

lemma deriveSymmetricKey_agree:
  assumes "x_HKDF ec secret (deriveConsistentInfo (es_nodeID a) (es_nodeID b)) = Inr key"
  shows "deriveSymmetricKey ec a secret (es_nodeID b) = (Some key, [])"
    and "deriveSymmetricKey ec b secret (es_nodeID a) = (Some key, [])"
  using assms deriveConsistentInfo_sym [of "es_nodeID a" "es_nodeID b"]
  by (simp_all add: deriveSymmetricKey_def)

end
