(* ===== verification/Registry.thy ===== *)
theory Registry
  imports Key_Exchange
begin

text \<open>
  \<^verbatim>\<open>pkg/mpc/registry.go\<close>: which peers are ready. The registry polls the \<^verbatim>\<open>ready/\<close> keys of Consul
  (\<^verbatim>\<open>WatchPeersReady\<close>), keeps a map and an atomic counter of ready peers, removes the symmetric
  key of a peer that disappears, and sets a flag once every peer is registered and the key
  exchange is complete; a second loop evicts peers that do not answer health checks.

  One iteration of each loop is a function of the answer of Consul (the listed keys, or an
  error) and of the health checks. The identity store shared with the key exchange is part of
  the state. Callbacks and the goroutines that broadcast the public key are the list of
  \<open>reg_event\<close>s of a step. Iterating over a Go map visits it in an unspecified order; the order of
  the association list is one of them, and the results below are about sets and counts.
  \<^verbatim>\<open>lo.Difference\<close> is the parameter \<open>Difference\<close>, with its documented law \<open>difference_ok\<close>.
\<close>

record 'k registry =
  rg_nodeID :: string
  rg_peerNodeIDs :: "string list"
  rg_readyMap :: "(string, bool) gomap"
  rg_readyCount :: int
  rg_ready :: bool
  rg_mpcThreshold :: int
  rg_store :: "'k fileStore"

datatype reg_event =
    PeerConnected string
  | PeerReConnected string
  | PeerDisconnected string
  | TriggerECDHExchange

definition getPeerIDsExceptSelf :: "string \<Rightarrow> string list \<Rightarrow> string list" where
  "getPeerIDsExceptSelf nodeID peerNodeIDs = filter (\<lambda>peerID. peerID \<noteq> nodeID) peerNodeIDs"

definition NewRegistry :: "string \<Rightarrow> string list \<Rightarrow> int \<Rightarrow> 'k fileStore \<Rightarrow> 'k registry outcome" where
  "NewRegistry nodeID peerNodeIDs mpcThreshold store =
     (if mpcThreshold < 1 then Aborts ''mpc_threshold must be greater than 0''
      else Returns \<lparr>rg_nodeID = nodeID, rg_peerNodeIDs = getPeerIDsExceptSelf nodeID peerNodeIDs,
             rg_readyMap = [], rg_readyCount = 1, rg_ready = False,
             rg_mpcThreshold = mpcThreshold, rg_store = store\<rparr>)"

definition readyKey :: "string \<Rightarrow> string" where
  "readyKey nodeID = ''ready/'' @ nodeID"

definition GetReadyPeersCount :: "'k registry \<Rightarrow> int" where
  "GetReadyPeersCount r = rg_readyCount r"

definition GetReadyPeersCountExcludeSelf :: "'k registry \<Rightarrow> int" where
  "GetReadyPeersCountExcludeSelf r = GetReadyPeersCount r - 1"

definition isECDHReady :: "'k registry \<Rightarrow> bool" where
  "isECDHReady r = CheckSymmetricKeyComplete (rg_store r) (GetReadyPeersCountExcludeSelf r)"

text \<open>The exchange at the start of the watch, and again for each peer that connects; a failure of the latter is logged.\<close>

definition startECDHExchange ::
  "'k crypto \<Rightarrow> 'p ecdh \<Rightarrow> unit res \<Rightarrow> (bytes \<Rightarrow> unit res) \<Rightarrow> string \<Rightarrow> 'p ecdhSession \<Rightarrow> 'k fileStore \<Rightarrow>
   'p ecdhSession \<times> unit res outcome" where
  "startECDHExchange cr ec subscribe publish now e s =
     (case ListenKeyExchange ec subscribe e of
        (e', Some err) \<Rightarrow> (e', Returns (Inl (EWrap ''failed to start ECDH listener: '' err [])))
      | (e', None) \<Rightarrow> (e', bind_out (BroadcastPublicKey cr ec publish now e' s) (\<lambda>r. Returns (case r of
            Inl err \<Rightarrow> Inl (EWrap ''failed to broadcast ECDH public key: '' err [])
          | Inr _ \<Rightarrow> Inr ()))))"

definition triggerECDHExchange ::
  "'k crypto \<Rightarrow> 'p ecdh \<Rightarrow> (bytes \<Rightarrow> unit res) \<Rightarrow> string \<Rightarrow> 'p ecdhSession \<Rightarrow> 'k fileStore \<Rightarrow> unit outcome" where
  "triggerECDHExchange cr ec publish now e s = bind_out (BroadcastPublicKey cr ec publish now e s) (\<lambda>_. Returns ())"

definition readyPeers :: "(string, bool) gomap \<Rightarrow> string list" where
  "readyPeers m = map fst (filter snd m)"

definition checkAndUpdateReadyState :: "'k registry \<Rightarrow> 'k registry" where
  "checkAndUpdateReadyState r =
     (let readyPeersCount = length (readyPeers (rg_readyMap r)) in
      if readyPeersCount = length (rg_peerNodeIDs r) \<and> isECDHReady r \<and> \<not> rg_ready r
      then r\<lparr>rg_ready := True\<rparr> else r)"

definition register_peer :: "string \<Rightarrow> 'k registry \<Rightarrow> 'k registry \<times> reg_event list" where
  "register_peer peerID r =
     (let r' = r\<lparr>rg_readyMap := AList.update peerID True (rg_readyMap r)\<rparr> in
      case map_of (rg_readyMap r) peerID of
        None \<Rightarrow> (r'\<lparr>rg_readyCount := rg_readyCount r + 1\<rparr>, [PeerConnected peerID, TriggerECDHExchange])
      | Some ready \<Rightarrow>
          if \<not> ready
          then (r'\<lparr>rg_readyCount := rg_readyCount r + 1\<rparr>, [PeerReConnected peerID, TriggerECDHExchange])
          else (r', []))"

fun register_loop :: "string list \<Rightarrow> 'k registry \<Rightarrow> 'k registry \<times> reg_event list" where
  "register_loop [] r = (r, [])"
| "register_loop (peerID # peers) r =
     (let (r1, e1) = register_peer peerID r; (r2, e2) = register_loop peers r1 in (r2, e1 @ e2))"

definition registerReadyPairs :: "string list \<Rightarrow> 'k registry \<Rightarrow> 'k registry \<times> reg_event list" where
  "registerReadyPairs peerIDs r =
     (let (r', evs) = register_loop peerIDs r in (checkAndUpdateReadyState r', evs))"

text \<open>
  \<^verbatim>\<open>fmt.Sscanf(key, "ready/%s", &id)\<close>: the first word after the literal prefix; on a mismatch
  the variable keeps its zero value and the source goes on with it.
\<close>

definition scan_ready :: "string \<Rightarrow> string" where
  "scan_ready key =
     (if prefix ''ready/'' key
      then takeWhile (\<lambda>c. \<not> is_space c) (dropWhile (\<lambda>c. is_space c \<and> c \<noteq> CHR 0x0A) (drop 6 key))
      else [])"

definition getReadyPeersFromKVStore :: "'k registry \<Rightarrow> string list \<Rightarrow> string list" where
  "getReadyPeersFromKVStore r keys = filter (\<lambda>p. p \<noteq> rg_nodeID r) (map scan_ready keys)"

definition disconnect_peer :: "string \<Rightarrow> 'k registry \<Rightarrow> 'k registry" where
  "disconnect_peer peerID r =
     r\<lparr>rg_readyMap := AList.update peerID False (rg_readyMap r),
       rg_readyCount := rg_readyCount r - 1,
       rg_store := RemovePeer peerID (rg_store r)\<rparr>"

definition difference_ok :: "(string list \<Rightarrow> string list \<Rightarrow> string list \<times> string list) \<Rightarrow> bool" where
  "difference_ok Difference \<longleftrightarrow> (\<forall>a b. fst (Difference a b) = filter (\<lambda>x. x \<notin> set b) a)"

text \<open>
  One iteration of \<^verbatim>\<open>WatchPeersReady\<close>. An error of \<^verbatim>\<open>List\<close> is logged and the iteration goes on
  with no pairs. This is the iteration as one step; \<open>Registry_Steps\<close> takes it apart into the accesses
  between which the callback of the key exchange can run.
\<close>

definition watch_tick ::
  "(string list \<Rightarrow> string list \<Rightarrow> string list \<times> string list) \<Rightarrow> string list res \<Rightarrow> 'k registry \<Rightarrow> 'k registry \<times> reg_event list" where
  "watch_tick Difference listed r =
     (let keys = (case listed of Inl _ \<Rightarrow> [] | Inr ks \<Rightarrow> ks);
          newReadyPeerIDs = getReadyPeersFromKVStore r keys;
          (r1, e1) =
            (if length newReadyPeerIDs \<noteq> length (rg_peerNodeIDs r) then
               (let r0 = r\<lparr>rg_ready := False\<rparr>;
                    disconnecteds = fst (Difference (readyPeers (rg_readyMap r0)) newReadyPeerIDs)
                in (fold disconnect_peer disconnecteds r0, map PeerDisconnected disconnecteds))
             else (r, []));
          (r2, e2) = registerReadyPairs newReadyPeerIDs r1
      in (r2, e1 @ e2))"

definition GetReadyPeersIncludeSelf :: "'k registry \<Rightarrow> string list" where
  "GetReadyPeersIncludeSelf r = readyPeers (rg_readyMap r) @ [rg_nodeID r]"

definition ArePeersReady :: "'k registry \<Rightarrow> bool" where
  "ArePeersReady r = (rg_ready r \<and> isECDHReady r)"

definition AreMajorityReady :: "'k registry \<Rightarrow> bool" where
  "AreMajorityReady r = (GetReadyPeersCount r \<ge> rg_mpcThreshold r + 1 \<and> isECDHReady r)"

definition GetTotalPeersCount :: "'k registry \<Rightarrow> int" where
  "GetTotalPeersCount r = int (length (rg_peerNodeIDs r)) + 1"

section \<open>Health checks\<close>

definition composeHealthCheckTopic :: "string \<Rightarrow> string" where
  "composeHealthCheckTopic nodeID = ''healthcheck:'' @ nodeID"

definition composeHealthData :: "'k registry \<Rightarrow> string" where
  "composeHealthData r = rg_nodeID r @ '','' @ show_bool (isECDHReady r)"

definition strconv_ParseBool :: "string \<Rightarrow> bool res" where
  "strconv_ParseBool s =
     (if s \<in> {''1'', ''t'', ''T'', ''TRUE'', ''true'', ''True''} then Inr True
      else if s \<in> {''0'', ''f'', ''F'', ''FALSE'', ''false'', ''False''} then Inr False
      else Inl (ENew ''strconv.ParseBool: invalid syntax''))"

definition parseHealthDataSplit :: "string \<Rightarrow> (string \<times> bool) res" where
  "parseHealthDataSplit s =
     (let parts = str_splitN 2 CHR '','' s in
      if length parts \<noteq> 2 then Inl (ENew (''invalid format: '' @ s))
      else (case strconv_ParseBool (parts ! 1) of Inl e \<Rightarrow> Inl e | Inr b \<Rightarrow> Inr (parts ! 0, b)))"

text \<open>The listener of \<^verbatim>\<open>Ready\<close>: a peer that reports an incomplete exchange re-triggers ours.\<close>

definition health_listener :: "bytes \<Rightarrow> reg_event list" where
  "health_listener data =
     (case parseHealthDataSplit (go_string data) of
        Inl _ \<Rightarrow> []
      | Inr (peerID, isEcdhReady) \<Rightarrow> if \<not> isEcdhReady then [TriggerECDHExchange] else [])"

text \<open>\<^verbatim>\<open>Ready\<close>: the exchange, the Consul key, the health-check listener, each of which may fail.\<close>

definition Ready ::
  "unit res \<Rightarrow> unit res \<Rightarrow> (string \<Rightarrow> unit res) \<Rightarrow> (string \<Rightarrow> unit res) \<Rightarrow> string \<Rightarrow> unit res" where
  "Ready listenECDH broadcastECDH putKey listenHealth nodeID =
     (case (case listenECDH of
              Inl e \<Rightarrow> Inl (EWrap ''failed to start ECDH listener: '' e [])
            | Inr _ \<Rightarrow> (case broadcastECDH of
                          Inl e \<Rightarrow> Inl (EWrap ''failed to broadcast ECDH public key: '' e [])
                        | Inr _ \<Rightarrow> Inr ())) of
        Inl e \<Rightarrow> Inl (EWrap ''failed to start ECDH exchange: '' e [])
      | Inr _ \<Rightarrow>
          (case putKey (readyKey nodeID) of
             Inl e \<Rightarrow> Inl (EWrap ''Put ready key failed: '' e [])
           | Inr _ \<Rightarrow>
               (case listenHealth (composeHealthCheckTopic nodeID) of
                  Inl e \<Rightarrow> Inl (EWrap ''Listen health check failed: '' e [])
                | Inr _ \<Rightarrow> Inr ())))"

definition Resign :: "(string \<Rightarrow> unit res) \<Rightarrow> string \<Rightarrow> unit res" where
  "Resign deleteKey nodeID =
     (case deleteKey (readyKey nodeID) of
        Inl e \<Rightarrow> Inl (EWrap ''Delete ready key failed: '' e [])
      | Inr _ \<Rightarrow> Inr ())"

definition maxFailures :: int where
  "maxFailures = 5"

definition no_responders :: "gerror option \<Rightarrow> bool" where
  "no_responders err = (case err of None \<Rightarrow> False | Some e \<Rightarrow> str_contains (Error e) ''no responders'')"

text \<open>A missing count reads as zero.\<close>

definition failures :: "(string, int) gomap \<Rightarrow> string \<Rightarrow> int" where
  "failures m p = (case map_of m p of None \<Rightarrow> 0 | Some n \<Rightarrow> n)"

text \<open>The peers of one round of \<^verbatim>\<open>checkPeersHealth\<close>: the counts, and the Consul keys deleted.\<close>

fun health_round ::
  "(string \<Rightarrow> gerror option) \<Rightarrow> string list \<Rightarrow> (string, int) gomap \<Rightarrow> (string, int) gomap \<times> string list" where
  "health_round send [] fc = (fc, [])"
| "health_round send (peerID # peers) fc =
     (if no_responders (send peerID) then
        (let n = failures fc peerID + 1; fc1 = AList.update peerID n fc in
         if n \<ge> maxFailures
         then (let (fc2, ks) = health_round send peers (AList.delete peerID fc1) in (fc2, readyKey peerID # ks))
         else health_round send peers fc1)
      else health_round send peers (AList.delete peerID fc))"

definition health_tick ::
  "string list res \<Rightarrow> (string \<Rightarrow> gerror option) \<Rightarrow> 'k registry \<Rightarrow> (string, int) gomap \<Rightarrow>
   (string, int) gomap \<times> string list" where
  "health_tick listed send r fc =
     (case listed of
        Inl _ \<Rightarrow> (fc, [])
      | Inr keys \<Rightarrow> health_round send (getReadyPeersFromKVStore r keys) fc)"

section \<open>Reachable states\<close>

text \<open>
  A registry starts empty and moves by iterations of the watch loop, whose listed peers satisfy
  \<open>K\<close>, and by messages of the key exchange.
\<close>

definition ecdh_of :: "'k registry \<Rightarrow> 'p ecdhSession" where
  "ecdh_of r = NewECDHSession (rg_nodeID r) (rg_peerNodeIDs r)"

inductive registry_step ::
  "(string list \<Rightarrow> string list \<Rightarrow> string list \<times> string list) \<Rightarrow> 'k crypto \<Rightarrow> 'p ecdh \<Rightarrow> (string \<Rightarrow> bool) \<Rightarrow> 'p \<Rightarrow> (string \<Rightarrow> bool) \<Rightarrow> 'k registry \<Rightarrow> 'k registry \<Rightarrow> bool"
  for D cr ec rfc3339 priv K where
  tick: "(case listed of Inl _ \<Rightarrow> True | Inr keys \<Rightarrow> list_all K (getReadyPeersFromKVStore r keys)) \<Longrightarrow>
     registry_step D cr ec rfc3339 priv K r (fst (watch_tick D listed r))"
| exchange: "ecdh_handler cr ec rfc3339 ((ecdh_of r)\<lparr>es_privateKey := Some priv\<rparr>) priv (rg_store r) data = Returns x \<Longrightarrow>
     r' = r\<lparr>rg_store := er_store x\<rparr> \<Longrightarrow>
     registry_step D cr ec rfc3339 priv K r (if er_complete x then checkAndUpdateReadyState r' else r')"

inductive registry_reach ::
  "(string list \<Rightarrow> string list \<Rightarrow> string list \<times> string list) \<Rightarrow> 'k crypto \<Rightarrow> 'p ecdh \<Rightarrow> (string \<Rightarrow> bool) \<Rightarrow> 'p \<Rightarrow> (string \<Rightarrow> bool) \<Rightarrow> 'k registry \<Rightarrow> 'k registry \<Rightarrow> bool"
  for D cr ec rfc3339 priv K r0 where
  start: "registry_reach D cr ec rfc3339 priv K r0 r0"
| step: "registry_reach D cr ec rfc3339 priv K r0 r \<Longrightarrow> registry_step D cr ec rfc3339 priv K r r' \<Longrightarrow>
     registry_reach D cr ec rfc3339 priv K r0 r'"

inductive_cases registry_stepE: "registry_step D cr ec rfc3339 priv K r r'"

section \<open>The counter counts the ready peers\<close>

definition ready_set :: "'k registry \<Rightarrow> string set" where
  "ready_set r = {p. map_of (rg_readyMap r) p = Some True}"

lemma ready_set_readyPeers: "gomap_ok (rg_readyMap r) \<Longrightarrow> set (readyPeers (rg_readyMap r)) = ready_set r"
  by (force simp: readyPeers_def ready_set_def intro: map_of_SomeD)

lemma distinct_readyPeers: "gomap_ok m \<Longrightarrow> distinct (readyPeers m)"
  by (simp add: readyPeers_def distinct_map_filter)

lemma length_readyPeers:
  "gomap_ok (rg_readyMap r) \<Longrightarrow> length (readyPeers (rg_readyMap r)) = card (ready_set r)"
  by (metis distinct_card distinct_readyPeers ready_set_readyPeers)

lemma finite_ready_set [simp]: "finite (ready_set r)"
proof -
  have "ready_set r \<subseteq> dom (map_of (rg_readyMap r))" by (auto simp: ready_set_def)
  then show ?thesis by (rule finite_subset) (rule finite_dom_map_of)
qed

definition count_inv :: "'k registry \<Rightarrow> bool" where
  "count_inv r \<longleftrightarrow> gomap_ok (rg_readyMap r) \<and> rg_readyCount r = 1 + int (card (ready_set r))"

text \<open>The parts of the state that registration leaves alone.\<close>

definition same_frame :: "'k registry \<Rightarrow> 'k registry \<Rightarrow> bool" where
  "same_frame r r' \<longleftrightarrow> rg_nodeID r' = rg_nodeID r \<and> rg_peerNodeIDs r' = rg_peerNodeIDs r \<and>
     rg_mpcThreshold r' = rg_mpcThreshold r"

lemma register_peer_inv:
  assumes "count_inv r" and "register_peer p r = (r', e)"
  shows "count_inv r'" and "ready_set r' = insert p (ready_set r)"
    and "dom (map_of (rg_readyMap r')) = insert p (dom (map_of (rg_readyMap r)))"
    and "rg_store r' = rg_store r" and "rg_ready r' = rg_ready r" and "same_frame r r'"
proof -
  have m: "rg_readyMap r' = AList.update p True (rg_readyMap r)"
    using assms(2) by (auto simp: register_peer_def Let_def split: option.splits if_splits)
  show rs: "ready_set r' = insert p (ready_set r)" by (auto simp: ready_set_def m)
  show "dom (map_of (rg_readyMap r')) = insert p (dom (map_of (rg_readyMap r)))" by (simp add: m)
  show "rg_store r' = rg_store r" "rg_ready r' = rg_ready r" "same_frame r r'"
    using assms(2) by (auto simp: register_peer_def Let_def same_frame_def split: option.splits if_splits)
  have "rg_readyCount r' = rg_readyCount r + (if p \<in> ready_set r then 0 else 1)"
    using assms(2)
    by (auto simp: register_peer_def Let_def ready_set_def split: option.splits if_splits)
  moreover have "gomap_ok (rg_readyMap r')" using assms(1) m by (auto simp: count_inv_def)
  ultimately show "count_inv r'"
    using assms(1) rs by (auto simp: count_inv_def insert_absorb)
qed

lemma register_loop_inv:
  assumes "count_inv r" and "register_loop ps r = (r', e)"
  shows "count_inv r' \<and> ready_set r' = ready_set r \<union> set ps \<and>
    dom (map_of (rg_readyMap r')) = dom (map_of (rg_readyMap r)) \<union> set ps \<and>
    rg_store r' = rg_store r \<and> rg_ready r' = rg_ready r \<and> same_frame r r'"
  using assms
proof (induction ps arbitrary: r e)
  case Nil
  then show ?case by (simp add: same_frame_def)
next
  case (Cons p ps)
  obtain r1 e1 where r1: "register_peer p r = (r1, e1)" by (cases "register_peer p r")
  obtain e2 where r2: "register_loop ps r1 = (r', e2)"
    using Cons.prems(2) r1 by (auto simp: Let_def split: prod.splits)
  note p = register_peer_inv [OF Cons.prems(1) r1]
  from Cons.IH [OF p(1) r2] p show ?case by (auto simp: same_frame_def)
qed

lemma disconnect_peer_inv:
  assumes "count_inv r" and "p \<in> ready_set r"
  shows "count_inv (disconnect_peer p r)" and "ready_set (disconnect_peer p r) = ready_set r - {p}"
    and "dom (map_of (rg_readyMap (disconnect_peer p r))) = dom (map_of (rg_readyMap r))"
    and "rg_ready (disconnect_peer p r) = rg_ready r" and "same_frame r (disconnect_peer p r)"
proof -
  show rs: "ready_set (disconnect_peer p r) = ready_set r - {p}"
    by (auto simp: ready_set_def disconnect_peer_def)
  have "card (ready_set r) = Suc (card (ready_set r - {p}))"
    using assms(2) by (intro card.remove) auto
  then show "count_inv (disconnect_peer p r)"
    using assms rs by (auto simp: count_inv_def disconnect_peer_def)
  show "dom (map_of (rg_readyMap (disconnect_peer p r))) = dom (map_of (rg_readyMap r))"
    using assms(2) by (auto simp: disconnect_peer_def ready_set_def)
  show "rg_ready (disconnect_peer p r) = rg_ready r" "same_frame r (disconnect_peer p r)"
    by (simp_all add: disconnect_peer_def same_frame_def)
qed

lemma disconnect_store: "rg_store (fold disconnect_peer ps r) = fold RemovePeer ps (rg_store r)"
  by (induction ps arbitrary: r) (simp_all add: disconnect_peer_def)

lemma fold_disconnect_inv:
  assumes "count_inv r" and "set ps \<subseteq> ready_set r" and "distinct ps"
  shows "count_inv (fold disconnect_peer ps r) \<and>
    ready_set (fold disconnect_peer ps r) = ready_set r - set ps \<and>
    dom (map_of (rg_readyMap (fold disconnect_peer ps r))) = dom (map_of (rg_readyMap r)) \<and>
    rg_ready (fold disconnect_peer ps r) = rg_ready r \<and> same_frame r (fold disconnect_peer ps r)"
  using assms
proof (induction ps arbitrary: r)
  case Nil
  then show ?case by (simp add: same_frame_def)
next
  case (Cons p ps)
  then have "p \<in> ready_set r" by simp
  note d = disconnect_peer_inv [OF Cons.prems(1) this]
  have "set ps \<subseteq> ready_set (disconnect_peer p r)" using Cons.prems d(2) by auto
  from Cons.IH [OF d(1) this] Cons.prems(3) d show ?case by (auto simp: same_frame_def)
qed

text \<open>A step of the watch loop, by its effect on the ready peers.\<close>

definition new_ready :: "string list res \<Rightarrow> 'k registry \<Rightarrow> string list" where
  "new_ready listed r = getReadyPeersFromKVStore r (case listed of Inl _ \<Rightarrow> [] | Inr ks \<Rightarrow> ks)"

lemma checkAndUpdate_frame:
  "rg_readyMap (checkAndUpdateReadyState r) = rg_readyMap r"
  "rg_readyCount (checkAndUpdateReadyState r) = rg_readyCount r"
  "rg_store (checkAndUpdateReadyState r) = rg_store r"
  "same_frame r (checkAndUpdateReadyState r)"
  "rg_ready (checkAndUpdateReadyState r) \<longleftrightarrow> rg_ready r \<or>
     length (readyPeers (rg_readyMap r)) = length (rg_peerNodeIDs r) \<and> isECDHReady r"
  by (auto simp: checkAndUpdateReadyState_def Let_def same_frame_def)

lemma count_inv_checkAndUpdate [simp]: "count_inv (checkAndUpdateReadyState r) = count_inv r"
  by (simp add: count_inv_def ready_set_def checkAndUpdate_frame)

lemma ready_set_checkAndUpdate [simp]: "ready_set (checkAndUpdateReadyState r) = ready_set r"
  by (simp add: ready_set_def checkAndUpdate_frame)

lemma watch_tick_cases:
  assumes "count_inv r" and "r' = fst (watch_tick D listed r)" and D: "difference_ok D"
  obtains r1 where "count_inv r1" and "same_frame r r1" and "r' = checkAndUpdateReadyState r1"
    and "length (new_ready listed r) \<noteq> length (rg_peerNodeIDs r) \<Longrightarrow>
         ready_set r1 = set (new_ready listed r) \<and> \<not> rg_ready r1 \<and>
         rg_store r1 = fold RemovePeer (filter (\<lambda>p. p \<notin> set (new_ready listed r))
           (readyPeers (rg_readyMap r))) (rg_store r)"
    and "length (new_ready listed r) = length (rg_peerNodeIDs r) \<Longrightarrow>
         ready_set r1 = ready_set r \<union> set (new_ready listed r) \<and> rg_ready r1 = rg_ready r \<and>
         rg_store r1 = rg_store r"
    and "dom (map_of (rg_readyMap r1)) = dom (map_of (rg_readyMap r)) \<union> set (new_ready listed r)"
proof -
  let ?new = "new_ready listed r"
  let ?r0 = "r\<lparr>rg_ready := False\<rparr>"
  let ?dis = "filter (\<lambda>p. p \<notin> set ?new) (readyPeers (rg_readyMap r))"
  let ?ra = "if length ?new \<noteq> length (rg_peerNodeIDs r) then fold disconnect_peer ?dis ?r0 else r"
  have ok: "gomap_ok (rg_readyMap r)" using assms(1) by (simp add: count_inv_def)
  have r0: "count_inv ?r0" "ready_set ?r0 = ready_set r" using assms(1)
    by (simp_all add: count_inv_def ready_set_def)
  have dis: "set ?dis = ready_set r - set ?new" "distinct ?dis"
    using ready_set_readyPeers [OF ok] distinct_readyPeers [OF ok] by auto
  have fd: "count_inv (fold disconnect_peer ?dis ?r0) \<and>
      ready_set (fold disconnect_peer ?dis ?r0) = ready_set r \<inter> set ?new \<and>
      dom (map_of (rg_readyMap (fold disconnect_peer ?dis ?r0))) = dom (map_of (rg_readyMap r)) \<and>
      \<not> rg_ready (fold disconnect_peer ?dis ?r0) \<and> same_frame r (fold disconnect_peer ?dis ?r0)"
    using fold_disconnect_inv [OF r0(1), of ?dis] dis r0(2) by (auto simp: same_frame_def)
  then have ra: "count_inv ?ra" "same_frame r ?ra" using assms(1) by (auto simp: same_frame_def)
  obtain r1 e where r1: "register_loop ?new ?ra = (r1, e)" by (cases "register_loop ?new ?ra")
  have r': "r' = checkAndUpdateReadyState r1"
    using assms(2) r1 D unfolding difference_ok_def watch_tick_def registerReadyPairs_def new_ready_def
    by (auto simp: Let_def split: prod.splits if_splits)
  note l = register_loop_inv [OF ra(1) r1]
  show thesis
  proof (rule that [of r1])
    show "count_inv r1" "same_frame r r1" using l ra(2) by (auto simp: same_frame_def)
    show "r' = checkAndUpdateReadyState r1" by (rule r')
  qed (use l fd in \<open>auto simp: disconnect_store\<close>)
qed

section \<open>Invariants of reachable registries\<close>

definition registry_inv :: "(string \<Rightarrow> bool) \<Rightarrow> 'k registry \<Rightarrow> bool" where
  "registry_inv K r \<longleftrightarrow> count_inv r \<and> fileStore_ok (rg_store r) \<and>
     (\<forall>p \<in> dom (map_of (rg_readyMap r)). p \<noteq> rg_nodeID r \<and> K p) \<and>
     (\<forall>p \<in> sym.holders (rg_store r). p \<noteq> rg_nodeID r \<and> map_of (fs_publicKeys (rg_store r)) p \<noteq> None) \<and>
     (rg_ready r \<longrightarrow> length (rg_peerNodeIDs r) \<le> card (ready_set r))"

lemma new_ready_K:
  "(case listed of Inl _ \<Rightarrow> True | Inr keys \<Rightarrow> list_all K (getReadyPeersFromKVStore r keys)) \<Longrightarrow>
   p \<in> set (new_ready listed r) \<Longrightarrow> p \<noteq> rg_nodeID r \<and> K p"
  by (auto simp: new_ready_def getReadyPeersFromKVStore_def list_all_iff split: sum.splits)

lemma fold_RemovePeer:
  "fileStore_ok s \<Longrightarrow> fileStore_ok (fold RemovePeer ps s) \<and>
   sym.holders (fold RemovePeer ps s) = sym.holders s - set ps \<and>
   fs_publicKeys (fold RemovePeer ps s) = fs_publicKeys s"
proof (induction ps arbitrary: s)
  case (Cons p ps)
  have "fs_publicKeys (RemovePeer p s) = fs_publicKeys s"
    by (simp add: RemovePeer_def RemoveSymmetricKey_def)
  with Cons.IH [of "RemovePeer p s"] Cons.prems show ?case
    by (auto simp: RemovePeer_def sym.remove_ok sym.holders_remove)
qed simp

lemma registry_inv_tick:
  assumes "registry_inv K r" and D: "difference_ok D"
    and K: "case listed of Inl _ \<Rightarrow> True | Inr keys \<Rightarrow> list_all K (getReadyPeersFromKVStore r keys)"
  shows "registry_inv K (fst (watch_tick D listed r)) \<and> same_frame r (fst (watch_tick D listed r)) \<and>
    fs_publicKeys (rg_store (fst (watch_tick D listed r))) = fs_publicKeys (rg_store r)"
proof -
  let ?r' = "fst (watch_tick D listed r)"
  have c: "count_inv r" "fileStore_ok (rg_store r)" using assms(1) by (simp_all add: registry_inv_def)
  from watch_tick_cases [OF c(1) refl D, of listed] obtain r1 where
    r1: "count_inv r1" "same_frame r r1" "?r' = checkAndUpdateReadyState r1"
    "length (new_ready listed r) \<noteq> length (rg_peerNodeIDs r) \<Longrightarrow>
       ready_set r1 = set (new_ready listed r) \<and> \<not> rg_ready r1 \<and>
       rg_store r1 = fold RemovePeer (filter (\<lambda>p. p \<notin> set (new_ready listed r))
           (readyPeers (rg_readyMap r))) (rg_store r)"
    "length (new_ready listed r) = length (rg_peerNodeIDs r) \<Longrightarrow>
       ready_set r1 = ready_set r \<union> set (new_ready listed r) \<and> rg_ready r1 = rg_ready r \<and>
       rg_store r1 = rg_store r"
    "dom (map_of (rg_readyMap r1)) = dom (map_of (rg_readyMap r)) \<union> set (new_ready listed r)"
    by blast
  have st: "fileStore_ok (rg_store r1) \<and> sym.holders (rg_store r1) \<subseteq> sym.holders (rg_store r) \<and>
      fs_publicKeys (rg_store r1) = fs_publicKeys (rg_store r)"
    using r1(4,5) fold_RemovePeer [OF c(2)] c(2)
    by (cases "length (new_ready listed r) = length (rg_peerNodeIDs r)") auto
  have dom: "\<forall>p \<in> dom (map_of (rg_readyMap r1)). p \<noteq> rg_nodeID r \<and> K p"
    using r1(6) new_ready_K [OF K] assms(1) by (auto simp: registry_inv_def)
  have rd: "rg_ready r1 \<longrightarrow> length (rg_peerNodeIDs r) \<le> card (ready_set r1)"
  proof (cases "length (new_ready listed r) = length (rg_peerNodeIDs r)")
    case True
    then have "card (ready_set r) \<le> card (ready_set r1)" using r1(5) by (simp add: card_mono)
    with r1(5) [OF True] assms(1) show ?thesis by (auto simp: registry_inv_def)
  qed (use r1(4) in simp)
  have "length (readyPeers (rg_readyMap r1)) = card (ready_set r1)"
    using r1(1) by (simp add: length_readyPeers count_inv_def)
  with r1 st dom rd assms(1) show ?thesis
    by (auto simp: registry_inv_def same_frame_def checkAndUpdate_frame
        checkAndUpdate_frame(4) [unfolded same_frame_def])
qed

lemma registry_inv_step:
  assumes "registry_inv K r" and "registry_step D cr ec rfc priv K r r'" and "difference_ok D"
  shows "registry_inv K r' \<and> same_frame r r' \<and>
    fs_publicKeys (rg_store r') = fs_publicKeys (rg_store r)"
  using assms(2)
proof (cases rule: registry_step.cases)
  case (tick listed)
  then show ?thesis using registry_inv_tick [OF assms(1,3)] by blast
next
  case (exchange data x r1)
  have ok: "fileStore_ok (rg_store r)" using assms(1) by (simp add: registry_inv_def)
  from ecdh_handler_cases [OF exchange(2)]
  have st: "er_store x = rg_store r \<or> (\<exists>q k. q \<noteq> rg_nodeID r \<and>
      map_of (fs_publicKeys (rg_store r)) q \<noteq> None \<and> er_store x = SetSymmetricKey q k (rg_store r))"
    by (auto simp: ecdh_of_def NewECDHSession_def)
  have pk: "fs_publicKeys (SetSymmetricKey q k (rg_store r)) = fs_publicKeys (rg_store r)" for q k
    by (simp add: SetSymmetricKey_def)
  have r1: "registry_inv K r1 \<and> same_frame r r1 \<and> fs_publicKeys (rg_store r1) = fs_publicKeys (rg_store r)"
    using assms(1) exchange(3) st pk ok
    by (auto simp: registry_inv_def count_inv_def ready_set_def same_frame_def sym.set_ok sym.holders_set)
  have "length (readyPeers (rg_readyMap r1)) = card (ready_set r1)"
    using r1 by (simp add: length_readyPeers count_inv_def registry_inv_def)
  with r1 exchange(1) show ?thesis
    by (auto simp: registry_inv_def checkAndUpdate_frame same_frame_def
        checkAndUpdate_frame(4) [unfolded same_frame_def])
qed

definition fresh_store :: "'k fileStore \<Rightarrow> bool" where
  "fresh_store s \<longleftrightarrow> fileStore_ok s \<and> fs_symmetricKeys s = []"

lemma NewRegistry_inv:
  assumes "NewRegistry n ps t s = Returns r" and "fresh_store s"
  shows "registry_inv K r"
  using assms
  by (auto simp: NewRegistry_def registry_inv_def count_inv_def ready_set_def fresh_store_def
      sym.holders_def GetSymmetricKey_def split: if_splits)

lemma registry_reach_inv:
  assumes "registry_reach D cr ec rfc priv K r0 r" and "registry_inv K r0" and "difference_ok D"
  shows "registry_inv K r \<and> same_frame r0 r \<and> fs_publicKeys (rg_store r) = fs_publicKeys (rg_store r0)"
  using assms
proof (induction rule: registry_reach.induct)
  case start
  then show ?case by (simp add: same_frame_def)
next
  case (step r r')
  then show ?case using registry_inv_step [of K r D cr ec rfc priv r'] by (auto simp: same_frame_def)
qed

text \<open>
  What readiness means when only configured peers appear in Consul and in the identity store:
  every peer is registered and a symmetric key is held for exactly the configured peers.
\<close>

lemma ready_set_dom: "ready_set r \<subseteq> dom (map_of (rg_readyMap r))"
  by (auto simp: ready_set_def)

lemma ArePeersReady_all:
  assumes inv: "registry_inv (\<lambda>p. p \<in> set (rg_peerNodeIDs r)) r"
    and "distinct (rg_peerNodeIDs r)"
    and pk: "dom (map_of (fs_publicKeys (rg_store r))) \<subseteq> insert (rg_nodeID r) (set (rg_peerNodeIDs r))"
    and "ArePeersReady r"
  shows "ready_set r = set (rg_peerNodeIDs r)" and "sym.holders (rg_store r) = set (rg_peerNodeIDs r)"
    and "GetReadyPeersCount r = GetTotalPeersCount r"
proof -
  have dom: "\<And>p. p \<in> dom (map_of (rg_readyMap r)) \<Longrightarrow> p \<in> set (rg_peerNodeIDs r)"
    and hold: "\<And>p. p \<in> sym.holders (rg_store r) \<Longrightarrow>
        p \<noteq> rg_nodeID r \<and> p \<in> dom (map_of (fs_publicKeys (rg_store r)))"
    using inv unfolding registry_inv_def by (metis, metis domIff)
  have sub: "ready_set r \<subseteq> set (rg_peerNodeIDs r)"
    using dom ready_set_dom [of r] by (meson subset_iff)
  have "card (set (rg_peerNodeIDs r)) \<le> card (ready_set r)"
    using inv assms(2,4) by (simp add: registry_inv_def ArePeersReady_def distinct_card)
  with sub show eq: "ready_set r = set (rg_peerNodeIDs r)" by (metis List.finite_set card_seteq)
  then have "rg_readyCount r = 1 + int (length (rg_peerNodeIDs r))"
    using inv assms(2) by (simp add: registry_inv_def count_inv_def distinct_card)
  then show "GetReadyPeersCount r = GetTotalPeersCount r"
    by (simp add: GetReadyPeersCount_def GetTotalPeersCount_def)
  then have "GetSymetricKeyCount (rg_store r) = int (length (rg_peerNodeIDs r))"
    using assms(4) by (simp add: ArePeersReady_def isECDHReady_def CheckSymmetricKeyComplete_iff
        GetReadyPeersCountExcludeSelf_def GetTotalPeersCount_def)
  moreover have "sym.holders (rg_store r) \<subseteq> set (rg_peerNodeIDs r)"
    using hold pk by (meson insertE subset_iff)
  ultimately show "sym.holders (rg_store r) = set (rg_peerNodeIDs r)"
    using sym.complete_iff [of "rg_store r" "rg_peerNodeIDs r"] inv assms(2)
    by (simp add: registry_inv_def)
qed

lemma GetReadyPeersIncludeSelf_distinct:
  assumes "registry_inv K r"
  shows "distinct (GetReadyPeersIncludeSelf r)"
    and "int (length (GetReadyPeersIncludeSelf r)) = GetReadyPeersCount r"
proof -
  have ok: "gomap_ok (rg_readyMap r)" using assms by (simp add: registry_inv_def count_inv_def)
  have "rg_nodeID r \<notin> ready_set r" using assms by (auto simp: registry_inv_def ready_set_def)
  then show "distinct (GetReadyPeersIncludeSelf r)"
    using distinct_readyPeers [OF ok] ready_set_readyPeers [OF ok]
    by (auto simp: GetReadyPeersIncludeSelf_def)
  show "int (length (GetReadyPeersIncludeSelf r)) = GetReadyPeersCount r"
    using assms by (simp add: GetReadyPeersIncludeSelf_def length_readyPeers [OF ok] GetReadyPeersCount_def
        registry_inv_def count_inv_def)
qed

section \<open>Health data\<close>

lemma parse_composeHealthData:
  assumes "CHR '','' \<notin> set (rg_nodeID r)"
  shows "parseHealthDataSplit (composeHealthData r) = Inr (rg_nodeID r, isECDHReady r)"
proof -
  have "str_splitN 2 CHR '','' (rg_nodeID r @ CHR '','' # show_bool b) = [rg_nodeID r, show_bool b]" for b
    using str_splitN_sep [of "CHR '',''" "rg_nodeID r" 0 "show_bool b"] assms by (simp add: numeral_2_eq_2)
  then show ?thesis
    by (simp add: parseHealthDataSplit_def composeHealthData_def strconv_ParseBool_def show_bool_def)
qed

section \<open>Eviction\<close>

text \<open>Counts stay below the limit, so that a peer is evicted exactly at the fifth failure in a row.\<close>

definition counts_ok :: "(string, int) gomap \<Rightarrow> bool" where
  "counts_ok fc \<longleftrightarrow> (\<forall>p. 0 \<le> failures fc p \<and> failures fc p < maxFailures)"

lemma failures_update [simp]:
  "failures (AList.update p n fc) q = (if q = p then n else failures fc q)"
  "failures (AList.delete p fc) q = (if q = p then 0 else failures fc q)"
  by (simp_all add: failures_def)

lemma health_round_frame:
  assumes "health_round send ps fc = (fc', ks)" and "p \<notin> set ps"
  shows "failures fc' p = failures fc p"
  using assms
  by (induction ps arbitrary: fc fc' ks) (fastforce simp: Let_def split: if_splits prod.splits)+

lemma readyKey_inj [simp]: "readyKey p = readyKey q \<longleftrightarrow> p = q"
  by (simp add: readyKey_def)

lemma health_round_keys:
  "health_round send ps fc = (fc', ks) \<Longrightarrow> set ks \<subseteq> readyKey ` set ps"
  by (induction ps arbitrary: fc fc' ks) (fastforce simp: Let_def split: if_splits prod.splits)+

lemma health_round_peer:
  assumes "health_round send ps fc = (fc', ks)" and "distinct ps" and "p \<in> set ps"
  shows "readyKey p \<in> set ks \<longleftrightarrow> no_responders (send p) \<and> failures fc p + 1 \<ge> maxFailures"
    and "failures fc' p =
      (if no_responders (send p) \<and> failures fc p + 1 < maxFailures then failures fc p + 1 else 0)"
proof -
  have "(readyKey p \<in> set ks \<longleftrightarrow> no_responders (send p) \<and> failures fc p + 1 \<ge> maxFailures) \<and>
    failures fc' p =
      (if no_responders (send p) \<and> failures fc p + 1 < maxFailures then failures fc p + 1 else 0)"
    using assms
  proof (induction ps arbitrary: fc fc' ks)
    case (Cons q ps)
    obtain fc1 ks1 where rest: "health_round send ps fc1 = (fc', ks1)"
      and fc1: "failures fc1 q =
          (if no_responders (send q) \<and> failures fc q + 1 < maxFailures then failures fc q + 1 else 0)"
        "\<And>x. x \<noteq> q \<Longrightarrow> failures fc1 x = failures fc x"
      and ks: "ks = (if no_responders (send q) \<and> failures fc q + 1 \<ge> maxFailures then readyKey q # ks1 else ks1)"
      using Cons.prems(1) by (auto simp: Let_def split: if_splits prod.splits)
    show ?case
    proof (cases "p = q")
      case True
      then have "p \<notin> set ps" using Cons.prems(2) by simp
      with health_round_keys [OF rest] have "readyKey p \<notin> set ks1" by auto
      with health_round_frame [OF rest \<open>p \<notin> set ps\<close>] True fc1(1) ks show ?thesis by auto
    next
      case False
      then show ?thesis using Cons.IH [OF rest] Cons.prems fc1(2) [OF False] ks by auto
    qed
  qed simp
  then show "readyKey p \<in> set ks \<longleftrightarrow> no_responders (send p) \<and> failures fc p + 1 \<ge> maxFailures"
    and "failures fc' p =
      (if no_responders (send p) \<and> failures fc p + 1 < maxFailures then failures fc p + 1 else 0)"
    by blast+
qed

end
