(* ===== verification/Node.thy ===== *)
theory Node
  imports Protocols Registry
begin

text \<open>
  \<^verbatim>\<open>pkg/mpc/node.go\<close>: a node creates the sessions of the protocols for the peers that are ready,
  from the key information of the wallet. \<open>SortPartyIDs\<close> and \<open>uuid\<close> are the parameters of
  \<^const>\<open>generatePartyIDs\<close>. The messaging and store handles that a session receives are those of
  the node; the ECDSA pre-parameters that are passed to tss-lib are returned with the session.
  Thresholds are unbounded integers: \<^verbatim>\<open>threshold + 1\<close> of the source wraps for a threshold of
  \<^verbatim>\<open>math.MaxInt64\<close>, for which no committee can exist.
\<close>

record ('k, 'd, 'c, 'pp) node =
  nd_nodeID :: string
  nd_peerIDs :: "string list"
  nd_kv :: "'d BadgerKVStore"
  nd_ki :: "'c keyinfoStore"
  nd_ecdsaPreParams :: "'pp list"
  nd_registry :: "'k registry"
  nd_ckd :: "CKD option"

definition PurposeKeygen :: string where "PurposeKeygen = ''keygen''"
definition PurposeSign :: string where "PurposeSign = ''sign''"
definition PurposeReshare :: string where "PurposeReshare = ''reshare''"

text \<open>Indexing the slice of pre-parameters panics out of range; Go's \<^verbatim>\<open>%\<close> truncates towards zero.\<close>

definition preParams_at :: "'pp list \<Rightarrow> int \<Rightarrow> 'pp outcome" where
  "preParams_at l i = (if 0 \<le> i \<and> i < int (length l) then Returns (l ! nat i)
     else Aborts ''index out of range'')"

definition go_rem :: "int \<Rightarrow> int \<Rightarrow> int" where
  "go_rem a b = (if a < 0 then - ((- a) mod b) else a mod b)"

definition getKeyInfo :: "('k, 'd, 'c, 'pp) node \<Rightarrow> SessionType \<Rightarrow> string \<Rightarrow> KeyInfo res" where
  "getKeyInfo p sessionType walletID =
     (case sessionType of
        SessionTypeECDSA \<Rightarrow> keyinfo_Get (nd_ki p) (''ecdsa:'' @ walletID)
      | SessionTypeEDDSA \<Rightarrow> keyinfo_Get (nd_ki p) (''eddsa:'' @ walletID)
      | OtherSessionType _ \<Rightarrow> Inl (ENew ''unsupported session type''))"

definition getVersion :: "('k, 'd, 'c, 'pp) node \<Rightarrow> SessionType \<Rightarrow> string \<Rightarrow> int outcome" where
  "getVersion p sessionType walletID =
     (let read = (\<lambda>key. case keyinfo_Get (nd_ki p) key of
                    Inl _ \<Rightarrow> Returns DefaultVersion
                  | Inr info \<Rightarrow> Returns (ki_Version info))
      in case sessionType of
           SessionTypeECDSA \<Rightarrow> read (''ecdsa:'' @ walletID)
         | SessionTypeEDDSA \<Rightarrow> read (''eddsa:'' @ walletID)
         | OtherSessionType _ \<Rightarrow> Aborts ''Unknown session type'')"

fun sessionKeyPrefix :: "SessionType \<Rightarrow> string res" where
  "sessionKeyPrefix SessionTypeECDSA = Inr ''ecdsa''"
| "sessionKeyPrefix SessionTypeEDDSA = Inr ''eddsa''"
| "sessionKeyPrefix (OtherSessionType t) = Inl (ENew (''unsupported session type: '' @ t))"

definition getReadyPeersForSession :: "KeyInfo \<Rightarrow> string list \<Rightarrow> string list" where
  "getReadyPeersForSession keyInfo ready = filter (\<lambda>peerID. slices_contains ready peerID) (participants keyInfo)"

definition ensureNodeIsParticipant :: "('k, 'd, 'c, 'pp) node \<Rightarrow> KeyInfo \<Rightarrow> unit res" where
  "ensureNodeIsParticipant p keyInfo =
     (if \<not> slices_contains (participants keyInfo) (nd_nodeID p) then Inl ErrNotInParticipantList else Inr ())"

section \<open>Key generation\<close>

definition createECDSAKeyGenSession ::
  "(PartyID list \<Rightarrow> PartyID list) \<Rightarrow> (nat \<Rightarrow> string) \<Rightarrow> ('k, 'd, 'c, 'pp) node \<Rightarrow> string \<Rightarrow> int \<Rightarrow> int \<Rightarrow>
   (session \<times> 'pp) outcome" where
  "createECDSAKeyGenSession SortPartyIDs uuid p walletID threshold version =
     (let readyPeerIDs = GetReadyPeersIncludeSelf (nd_registry p);
          (selfPartyID, allPartyIDs) =
            generatePartyIDs SortPartyIDs uuid (nd_nodeID p) PurposeKeygen readyPeerIDs version
      in bind_out (preParams_at (nd_ecdsaPreParams p) 0) (\<lambda>pp.
           Returns (newECDSAKeygenSession walletID readyPeerIDs selfPartyID allPartyIDs threshold, pp)))"

definition createEDDSAKeyGenSession ::
  "(PartyID list \<Rightarrow> PartyID list) \<Rightarrow> (nat \<Rightarrow> string) \<Rightarrow> ('k, 'd, 'c, 'pp) node \<Rightarrow> string \<Rightarrow> int \<Rightarrow> int \<Rightarrow>
   session" where
  "createEDDSAKeyGenSession SortPartyIDs uuid p walletID threshold version =
     (let readyPeerIDs = GetReadyPeersIncludeSelf (nd_registry p);
          (selfPartyID, allPartyIDs) =
            generatePartyIDs SortPartyIDs uuid (nd_nodeID p) PurposeKeygen readyPeerIDs version
      in newEDDSAKeygenSession walletID readyPeerIDs selfPartyID allPartyIDs threshold)"

text \<open>An error of \<^const>\<open>getKeyInfo\<close> is taken as the absence of the key.\<close>

definition CreateKeyGenSession ::
  "(PartyID list \<Rightarrow> PartyID list) \<Rightarrow> (nat \<Rightarrow> string) \<Rightarrow> ('k, 'd, 'c, 'pp) node \<Rightarrow> SessionType \<Rightarrow> string \<Rightarrow>
   int \<Rightarrow> (session \<times> 'pp option) res outcome" where
  "CreateKeyGenSession SortPartyIDs uuid p sessionType walletID threshold =
     (if \<not> ArePeersReady (nd_registry p) then Returns (Inl (ENew ''All nodes are not ready!''))
      else (case getKeyInfo p sessionType walletID of
              Inr _ \<Rightarrow> Returns (Inl (ENew (''Key already exists: '' @ walletID)))
            | Inl _ \<Rightarrow>
                (case sessionType of
                   SessionTypeECDSA \<Rightarrow>
                     bind_out (createECDSAKeyGenSession SortPartyIDs uuid p walletID threshold DefaultVersion)
                       (\<lambda>(s, pp). Returns (Inr (s, Some pp)))
                 | SessionTypeEDDSA \<Rightarrow>
                     Returns (Inr (createEDDSAKeyGenSession SortPartyIDs uuid p walletID threshold DefaultVersion, None))
                 | OtherSessionType t \<Rightarrow> Returns (Inl (ENew (''Unknown session type: '' @ t))))))"

section \<open>Signing\<close>

definition CreateSigningSession ::
  "(PartyID list \<Rightarrow> PartyID list) \<Rightarrow> (nat \<Rightarrow> string) \<Rightarrow> ('k, 'd, 'c, 'pp) node \<Rightarrow> SessionType \<Rightarrow> string \<Rightarrow>
   string \<Rightarrow> string \<Rightarrow> string \<Rightarrow> 32 word list \<Rightarrow> string \<Rightarrow> ('pt, 'r) signing res outcome" where
  "CreateSigningSession SortPartyIDs uuid p sessionType walletID txID networkInternalCode resultTopic
       derivationPath idempotentKey =
     (case getVersion p sessionType walletID of
        Aborts x \<Rightarrow> Aborts x
      | Returns version \<Rightarrow>
          (case getKeyInfo p sessionType walletID of
             Inl e \<Rightarrow> Returns (Inl e)
           | Inr keyInfo \<Rightarrow>
               (let readyParticipantIDs =
                      getReadyPeersForSession keyInfo (GetReadyPeersIncludeSelf (nd_registry p))
                in if int (length readyParticipantIDs) < ki_Threshold keyInfo + 1
                   then Returns (Inl (ENew (''not enough peers to create signing session! expected '' @
                          itoa (ki_Threshold keyInfo + 1) @ '', got '' @ itoa (int (length readyParticipantIDs)))))
                   else
                     (case ensureNodeIsParticipant p keyInfo of
                        Inl e \<Rightarrow> Returns (Inl e)
                      | Inr _ \<Rightarrow>
                          (case generatePartyIDs SortPartyIDs uuid (nd_nodeID p) PurposeKeygen
                                  readyParticipantIDs version of
                             (selfPartyID, allPartyIDs) \<Rightarrow>
                               (case sessionType of
                                  SessionTypeECDSA \<Rightarrow>
                                    bind_out (preParams_at (nd_ecdsaPreParams p) 0) (\<lambda>_.
                                      Returns (Inr (newECDSASigningSession walletID txID networkInternalCode
                                        resultTopic readyParticipantIDs selfPartyID allPartyIDs
                                        (ki_Threshold keyInfo) derivationPath idempotentKey (nd_ckd p))))
                                | SessionTypeEDDSA \<Rightarrow>
                                    Returns (Inr (newEDDSASigningSession walletID txID networkInternalCode
                                      resultTopic readyParticipantIDs selfPartyID allPartyIDs
                                      (ki_Threshold keyInfo) derivationPath idempotentKey (nd_ckd p)))
                                | OtherSessionType _ \<Rightarrow> Returns (Inl (ENew ''unknown session type''))))))))"

section \<open>Resharing\<close>

fun all_ready :: "string list \<Rightarrow> string list \<Rightarrow> unit res" where
  "all_ready ready [] = Inr ()"
| "all_ready ready (peerID # peers) =
     (if \<not> slices_contains ready peerID then Inl (ENew (''new peer '' @ peerID @ '' is not ready''))
      else all_ready ready peers)"

text \<open>Steps 5 and 6 of the source: party identities of both committees and the constructor.\<close>

definition reshare_build ::
  "(PartyID list \<Rightarrow> PartyID list) \<Rightarrow> (nat \<Rightarrow> string) \<Rightarrow> (nat \<Rightarrow> string) \<Rightarrow> ('k, 'd, 'c, 'pp) node \<Rightarrow>
   SessionType \<Rightarrow> string \<Rightarrow> int \<Rightarrow> string list \<Rightarrow> bool \<Rightarrow> KeyInfo \<Rightarrow> string list \<Rightarrow> int \<Rightarrow>
   (reshare \<times> 'pp option) option res outcome" where
  "reshare_build SortPartyIDs uuid uuid' p sessionType walletID newThreshold newPeerIDs isNewPeer
       oldKeyInfo readyOld version =
     (let (oldSelf, oldAll) =
            generatePartyIDs SortPartyIDs uuid (nd_nodeID p) PurposeKeygen readyOld version;
          (newSelf, newAll) =
            generatePartyIDs SortPartyIDs uuid' (nd_nodeID p) PurposeReshare newPeerIDs (version + 1);
          selfPartyID = (if isNewPeer then newSelf else oldSelf)
      in case sessionType of
           SessionTypeECDSA \<Rightarrow>
             bind_out (preParams_at (nd_ecdsaPreParams p) (if isNewPeer then go_rem version 2 else 0)) (\<lambda>pp.
               Returns (Inr (Some (NewECDSAReshareSession walletID
                 (if isNewPeer then newPeerIDs else participants oldKeyInfo)
                 selfPartyID oldAll newAll (ki_Threshold oldKeyInfo) newThreshold
                 newPeerIDs isNewPeer (ki_Version oldKeyInfo), Some pp))))
         | SessionTypeEDDSA \<Rightarrow>
             Returns (Inr (Some (NewEDDSAReshareSession walletID
               (if isNewPeer then newPeerIDs else readyOld)
               selfPartyID oldAll newAll (ki_Threshold oldKeyInfo) newThreshold
               newPeerIDs isNewPeer (ki_Version oldKeyInfo), None)))
         | OtherSessionType t \<Rightarrow> Returns (Inl (ENew (''unsupported session type: '' @ t))))"

text \<open>\<open>Inr None\<close> is the pair of nils with which an irrelevant node skips the session.\<close>

definition CreateReshareSession ::
  "(PartyID list \<Rightarrow> PartyID list) \<Rightarrow> (nat \<Rightarrow> string) \<Rightarrow> (nat \<Rightarrow> string) \<Rightarrow> ('k, 'd, 'c, 'pp) node \<Rightarrow>
   SessionType \<Rightarrow> string \<Rightarrow> int \<Rightarrow> string list \<Rightarrow> bool \<Rightarrow> (reshare \<times> 'pp option) option res outcome" where
  "CreateReshareSession SortPartyIDs uuid uuid' p sessionType walletID newThreshold newPeerIDs isNewPeer =
     (let count = GetReadyPeersCount (nd_registry p);
          ready = GetReadyPeersIncludeSelf (nd_registry p)
      in if count < newThreshold + 1
         then Returns (Inl (ENew (''not enough peers to create reshare session! Expected at least '' @
                itoa (newThreshold + 1) @ '', got '' @ itoa count)))
         else if int (length newPeerIDs) < newThreshold + 1
         then Returns (Inl (ENew ''new peer list is smaller than required t+1''))
         else
           (case all_ready ready newPeerIDs of
              Inl e \<Rightarrow> Returns (Inl e)
            | Inr _ \<Rightarrow>
           (case sessionKeyPrefix sessionType of
              Inl e \<Rightarrow> Returns (Inl (EWrap ''failed to get session key prefix: '' e []))
            | Inr keyPrefix \<Rightarrow>
           (case keyinfo_Get (nd_ki p) (keyPrefix @ '':'' @ walletID) of
              Inl e \<Rightarrow> Returns (Inl (EWrap ''failed to get old key info: '' e []))
            | Inr oldKeyInfo \<Rightarrow>
                (let readyOld = getReadyPeersForSession oldKeyInfo ready;
                     inOld = slices_contains (participants oldKeyInfo) (nd_nodeID p);
                     inNew = slices_contains newPeerIDs (nd_nodeID p)
                 in if isNewPeer \<and> \<not> inNew then Returns (Inr None)
                    else if \<not> isNewPeer \<and> \<not> inOld then Returns (Inr None)
                    else if int (length readyOld) < ki_Threshold oldKeyInfo + 1
                    then Returns (Inl (ENew (''not enough peers to create resharing session! expected '' @
                           itoa (ki_Threshold oldKeyInfo + 1) @ '', got '' @ itoa (int (length readyOld)))))
                    else
                      (case (if \<not> isNewPeer then ensureNodeIsParticipant p oldKeyInfo else Inr ()) of
                         Inl e \<Rightarrow> Returns (Inl e)
                       | Inr _ \<Rightarrow>
                           bind_out (getVersion p sessionType walletID)
                             (reshare_build SortPartyIDs uuid uuid' p sessionType walletID newThreshold
                                newPeerIDs isNewPeer oldKeyInfo readyOld)))))))"

section \<open>Stored results and pre-parameters\<close>

definition walletCreationResultPrefix :: string where
  "walletCreationResultPrefix = ''wallet_creation_result_prefix''"

definition StoreWalletCreationResult ::
  "('k, 'd, 'c, 'pp) node \<Rightarrow> string \<Rightarrow> bytes \<Rightarrow> ('k, 'd, 'c, 'pp) node res" where
  "StoreWalletCreationResult p walletID result =
     (case kv_Put (nd_kv p) (walletCreationResultPrefix @ '':'' @ walletID) result of
        Inl e \<Rightarrow> Inl e | Inr kvs \<Rightarrow> Inr (p\<lparr>nd_kv := kvs\<rparr>))"

definition GetWalletCreationResult :: "('k, 'd, 'c, 'pp) node \<Rightarrow> string \<Rightarrow> bytes res" where
  "GetWalletCreationResult p walletID = kv_Get (nd_kv p) (walletCreationResultPrefix @ '':'' @ walletID)"

text \<open>
  The pre-parameters of index \<open>i\<close>: those stored under their key, otherwise new ones that are
  stored. \<open>enc\<close>, \<open>dec\<close> and \<open>gen\<close> are the JSON form and the generation of tss-lib; every failure is
  fatal.
\<close>

definition preParams_one ::
  "('pp \<Rightarrow> bytes res) \<Rightarrow> (bytes \<Rightarrow> 'pp res) \<Rightarrow> 'pp res \<Rightarrow> nat \<Rightarrow> 'd BadgerKVStore \<Rightarrow>
   ('pp \<times> 'd BadgerKVStore) outcome" where
  "preParams_one enc dec gen i kvs =
     (let key = ''pre_params_'' @ itoa (int i) in
      case kv_Get kvs key of
        Inr val \<Rightarrow>
          (case dec val of
             Inl _ \<Rightarrow> Aborts ''Unmarshal pre params failed''
           | Inr pp \<Rightarrow> Returns (pp, kvs))
      | Inl _ \<Rightarrow>
          (case gen of
             Inl _ \<Rightarrow> Aborts ''Generate pre params failed''
           | Inr pp \<Rightarrow>
               (case enc pp of
                  Inl _ \<Rightarrow> Aborts ''Marshal pre params failed''
                | Inr b \<Rightarrow>
                    (case kv_Put kvs key b of
                       Inl _ \<Rightarrow> Aborts ''Save pre params failed''
                     | Inr kvs' \<Rightarrow> Returns (pp, kvs')))))"

definition generatePreParams ::
  "('pp \<Rightarrow> bytes res) \<Rightarrow> (bytes \<Rightarrow> 'pp res) \<Rightarrow> (nat \<Rightarrow> 'pp res) \<Rightarrow> 'd BadgerKVStore \<Rightarrow>
   ('pp list \<times> 'd BadgerKVStore) outcome" where
  "generatePreParams enc dec gen kvs =
     bind_out (preParams_one enc dec (gen 0) 0 kvs) (\<lambda>(p0, kvs0).
     bind_out (preParams_one enc dec (gen 1) 1 kvs0) (\<lambda>(p1, kvs1).
       Returns ([p0, p1], kvs1)))"

section \<open>The interface to the registry\<close>

text \<open>
  What a node needs from its registry: a duplicate-free list of ready peers that contains the
  node itself and whose length is the counter.
\<close>

locale peer_registry =
  fixes inv :: "'r \<Rightarrow> bool"
    and self :: "'r \<Rightarrow> string"
    and ready :: "'r \<Rightarrow> string list"
    and count :: "'r \<Rightarrow> int"
  assumes ready_distinct: "inv r \<Longrightarrow> distinct (ready r)"
    and self_ready: "self r \<in> set (ready r)"
    and count_ready: "inv r \<Longrightarrow> count r = int (length (ready r))"
begin

definition session_peers :: "'r \<Rightarrow> KeyInfo \<Rightarrow> string list" where
  "session_peers r info = getReadyPeersForSession info (ready r)"

lemma session_peers_set: "set (session_peers r info) = set (participants info) \<inter> set (ready r)"
  by (auto simp: session_peers_def getReadyPeersForSession_def slices_contains_def)

lemma session_peers_distinct: "distinct (participants info) \<Longrightarrow> distinct (session_peers r info)"
  by (simp add: session_peers_def getReadyPeersForSession_def)

lemma session_peers_le_count:
  assumes "inv r" and "distinct (participants info)"
  shows "int (length (session_peers r info)) \<le> count r"
proof -
  have "card (set (session_peers r info)) \<le> card (set (ready r))"
    by (rule card_mono) (auto simp: session_peers_set)
  then show ?thesis
    using assms ready_distinct [OF assms(1)] session_peers_distinct [OF assms(2), of r]
    by (simp add: count_ready distinct_card)
qed

lemma self_in_session: "self r \<in> set (participants info) \<Longrightarrow> self r \<in> set (session_peers r info)"
  using self_ready by (simp add: session_peers_set)

end

interpretation reg: peer_registry "registry_inv K" rg_nodeID GetReadyPeersIncludeSelf GetReadyPeersCount
  for K
proof unfold_locales
  fix r :: "'a registry"
  show "registry_inv K r \<Longrightarrow> distinct (GetReadyPeersIncludeSelf r)"
    by (rule GetReadyPeersIncludeSelf_distinct(1))
  show "rg_nodeID r \<in> set (GetReadyPeersIncludeSelf r)"
    by (simp add: GetReadyPeersIncludeSelf_def)
  show "registry_inv K r \<Longrightarrow> GetReadyPeersCount r = int (length (GetReadyPeersIncludeSelf r))"
    using GetReadyPeersIncludeSelf_distinct(2) by metis
qed

section \<open>Signing sessions\<close>

definition node_ok :: "('k, 'd, 'c, 'pp) node \<Rightarrow> bool" where
  "node_ok p \<longleftrightarrow> nd_nodeID p = rg_nodeID (nd_registry p) \<and> length (nd_ecdsaPreParams p) = 2"

definition sorts :: "(PartyID list \<Rightarrow> PartyID list) \<Rightarrow> bool" where
  "sorts SortPartyIDs \<longleftrightarrow> (\<forall>xs. mset (SortPartyIDs xs) = mset xs)"

fun signing_kind :: "SessionType \<Rightarrow> string \<Rightarrow> string \<Rightarrow> session_kind" where
  "signing_kind SessionTypeECDSA w x = ECDSASigning w x"
| "signing_kind t w x = EDDSASigning w x"

lemma getVersion_keyInfo:
  assumes "getKeyInfo p t w = Inr info"
  shows "getVersion p t w = Returns (ki_Version info)"
  using assms by (cases t) (auto simp: getKeyInfo_def getVersion_def Let_def)

lemma CreateSigningSession_ok:
  assumes "CreateSigningSession S uuid p t w x n rt path ik = Returns (Inr sg)"
  obtains info self all where "getKeyInfo p t w = Inr info"
    and "ki_Threshold info + 1 \<le>
      int (length (getReadyPeersForSession info (GetReadyPeersIncludeSelf (nd_registry p))))"
    and "nd_nodeID p \<in> set (participants info)"
    and "generatePartyIDs S uuid (nd_nodeID p) PurposeKeygen
      (getReadyPeersForSession info (GetReadyPeersIncludeSelf (nd_registry p))) (ki_Version info) = (self, all)"
    and "sg = newSigningSession (signing_kind t w x) w x n rt
      (getReadyPeersForSession info (GetReadyPeersIncludeSelf (nd_registry p))) self all
      (ki_Threshold info) path ik (nd_ckd p)"
proof -
  from assms obtain v info where v: "getVersion p t w = Returns v" and info: "getKeyInfo p t w = Inr info"
    by (auto simp: CreateSigningSession_def split: outcome.splits sum.splits)
  have v': "v = ki_Version info" using getVersion_keyInfo [OF info] v by simp
  let ?ps = "getReadyPeersForSession info (GetReadyPeersIncludeSelf (nd_registry p))"
  obtain self all where gen: "generatePartyIDs S uuid (nd_nodeID p) PurposeKeygen ?ps (ki_Version info) = (self, all)"
    by (cases "generatePartyIDs S uuid (nd_nodeID p) PurposeKeygen ?ps (ki_Version info)")
  from assms v info v' gen
  have "ki_Threshold info + 1 \<le> int (length ?ps) \<and> nd_nodeID p \<in> set (participants info) \<and>
    sg = newSigningSession (signing_kind t w x) w x n rt ?ps self all (ki_Threshold info) path ik (nd_ckd p)"
    by (auto simp: CreateSigningSession_def Let_def ensureNodeIsParticipant_def slices_contains_def
        bind_out_Returns newECDSASigningSession_def newEDDSASigningSession_def
        split: if_splits SessionType.splits)
  with info gen that show ?thesis by blast
qed

text \<open>Enough ready participants of the key, the node among them, and one party per participant.\<close>

lemma CreateSigningSession_parties:
  assumes "CreateSigningSession S uuid p t w x n rt path ik = Returns (Inr sg)"
    and "sorts S" and "node_ok p" and "getKeyInfo p t w = Inr info"
    and "\<forall>q \<in> set (participants info). wf_nodeID q"
  shows "ki_Threshold info + 1 \<le> int (length (ss_participantPeerIDs (sg_session sg)))"
    and "set (ss_participantPeerIDs (sg_session sg)) =
      set (participants info) \<inter> set (GetReadyPeersIncludeSelf (nd_registry p))"
    and "mset (partyIDsToNodeIDs (ss_partyIDs (sg_session sg))) = mset (ss_participantPeerIDs (sg_session sg))"
    and "mset (map pid_Key (ss_partyIDs (sg_session sg))) =
      mset (map (\<lambda>q. be_nat (go_bytes (party_key_text q (ki_Version info)))) (ss_participantPeerIDs (sg_session sg)))"
    and "\<exists>self. ss_selfPartyID (sg_session sg) = Some self \<and> self \<in> set (ss_partyIDs (sg_session sg)) \<and>
      partyIDToNodeID (Some self) = nd_nodeID p"
proof -
  let ?ps = "getReadyPeersForSession info (GetReadyPeersIncludeSelf (nd_registry p))"
  from CreateSigningSession_ok [OF assms(1)] assms(4) obtain self all where
    th: "ki_Threshold info + 1 \<le> int (length ?ps)" and me: "nd_nodeID p \<in> set (participants info)"
    and gen: "generatePartyIDs S uuid (nd_nodeID p) PurposeKeygen ?ps (ki_Version info) = (self, all)"
    and sg: "sg = newSigningSession (signing_kind t w x) w x n rt ?ps self all (ki_Threshold info) path ik (nd_ckd p)"
    by (metis sum.inject(2))
  have S: "\<And>xs. mset (S xs) = mset xs" using assms(2) by (simp add: sorts_def)
  have f: "ss_participantPeerIDs (sg_session sg) = ?ps" "ss_partyIDs (sg_session sg) = all"
    "ss_selfPartyID (sg_session sg) = self"
    by (simp_all add: sg newSigningSession_def base_session_def)
  show "ki_Threshold info + 1 \<le> int (length (ss_participantPeerIDs (sg_session sg)))" using th f by simp
  show "set (ss_participantPeerIDs (sg_session sg)) =
      set (participants info) \<inter> set (GetReadyPeersIncludeSelf (nd_registry p))"
    using f by (auto simp: getReadyPeersForSession_def slices_contains_def)
  have wf: "\<forall>q \<in> set ?ps. wf_nodeID q" using assms(5) by (auto simp: getReadyPeersForSession_def)
  show "mset (partyIDsToNodeIDs (ss_partyIDs (sg_session sg))) = mset (ss_participantPeerIDs (sg_session sg))"
    using generatePartyIDs_nodes [OF S wf gen] f by simp
  show "mset (map pid_Key (ss_partyIDs (sg_session sg))) =
      mset (map (\<lambda>q. be_nat (go_bytes (party_key_text q (ki_Version info)))) (ss_participantPeerIDs (sg_session sg)))"
    using generatePartyIDs_keys [OF S gen] f by simp
  have "nd_nodeID p \<in> set ?ps"
    using reg.self_in_session [of "nd_registry p" info] me assms(3)
    by (simp add: reg.session_peers_def node_ok_def)
  then obtain q where q: "self = Some q" using generatePartyIDs_self(1) [OF S gen] by auto
  with generatePartyIDs_self(2) [OF S gen, of q] assms(5) me
  show "\<exists>self. ss_selfPartyID (sg_session sg) = Some self \<and> self \<in> set (ss_partyIDs (sg_session sg)) \<and>
      partyIDToNodeID (Some self) = nd_nodeID p"
    using f partyIDToNodeID_create by auto
qed

text \<open>The session can be created exactly when the threshold of ready participants is met.\<close>

lemma CreateSigningSession_complete:
  assumes "getKeyInfo p t w = Inr info" and "node_ok p"
    and "ki_Threshold info + 1 \<le>
      int (length (getReadyPeersForSession info (GetReadyPeersIncludeSelf (nd_registry p))))"
    and "nd_nodeID p \<in> set (participants info)"
  shows "\<exists>sg. CreateSigningSession S uuid p t w x n rt path ik = Returns (Inr sg)"
proof -
  have t: "t = SessionTypeECDSA \<or> t = SessionTypeEDDSA"
    using assms(1) by (cases t) (auto simp: getKeyInfo_def)
  have pp: "\<exists>pp. preParams_at (nd_ecdsaPreParams p) 0 = Returns pp"
    using assms(2) by (simp add: preParams_at_def node_ok_def)
  obtain self all where "generatePartyIDs S uuid (nd_nodeID p) PurposeKeygen
      (getReadyPeersForSession info (GetReadyPeersIncludeSelf (nd_registry p))) (ki_Version info) = (self, all)"
    by (cases "generatePartyIDs S uuid (nd_nodeID p) PurposeKeygen
      (getReadyPeersForSession info (GetReadyPeersIncludeSelf (nd_registry p))) (ki_Version info)")
  with assms t pp getVersion_keyInfo [OF assms(1)] show ?thesis
    by (auto simp: CreateSigningSession_def Let_def ensureNodeIsParticipant_def slices_contains_def)
qed

section \<open>Key generation sessions\<close>

fun keygen_kind :: "SessionType \<Rightarrow> string \<Rightarrow> session_kind" where
  "keygen_kind SessionTypeECDSA w = ECDSAKeygen w"
| "keygen_kind t w = EDDSAKeygen w"

lemma CreateKeyGenSession_ok:
  assumes "CreateKeyGenSession S uuid p t w th = Returns (Inr (s, pp))"
  obtains self all where "ArePeersReady (nd_registry p)" and "\<nexists>info. getKeyInfo p t w = Inr info"
    and "t = SessionTypeECDSA \<or> t = SessionTypeEDDSA"
    and "generatePartyIDs S uuid (nd_nodeID p) PurposeKeygen (GetReadyPeersIncludeSelf (nd_registry p))
      DefaultVersion = (self, all)"
    and "s = base_session (keygen_kind t w) w th (GetReadyPeersIncludeSelf (nd_registry p)) self all DefaultVersion"
proof -
  obtain self all where gen: "generatePartyIDs S uuid (nd_nodeID p) PurposeKeygen
      (GetReadyPeersIncludeSelf (nd_registry p)) DefaultVersion = (self, all)"
    by (cases "generatePartyIDs S uuid (nd_nodeID p) PurposeKeygen
      (GetReadyPeersIncludeSelf (nd_registry p)) DefaultVersion")
  from assms gen have "ArePeersReady (nd_registry p) \<and> (\<nexists>info. getKeyInfo p t w = Inr info) \<and>
    (t = SessionTypeECDSA \<or> t = SessionTypeEDDSA) \<and>
    s = base_session (keygen_kind t w) w th (GetReadyPeersIncludeSelf (nd_registry p)) self all DefaultVersion"
    by (auto simp: CreateKeyGenSession_def createECDSAKeyGenSession_def createEDDSAKeyGenSession_def
        newECDSAKeygenSession_def newEDDSAKeygenSession_def Let_def bind_out_Returns
        split: if_splits sum.splits SessionType.splits)
  with gen that show ?thesis by blast
qed

lemma CreateKeyGenSession_parties:
  assumes "CreateKeyGenSession S uuid p t w th = Returns (Inr (s, pp))"
    and "sorts S" and "node_ok p"
    and "registry_inv (\<lambda>q. q \<in> set (rg_peerNodeIDs (nd_registry p))) (nd_registry p)"
    and "distinct (rg_peerNodeIDs (nd_registry p))"
    and "dom (map_of (fs_publicKeys (rg_store (nd_registry p)))) \<subseteq>
      insert (nd_nodeID p) (set (rg_peerNodeIDs (nd_registry p)))"
    and "\<forall>q \<in> insert (nd_nodeID p) (set (rg_peerNodeIDs (nd_registry p))). wf_nodeID q"
  shows "set (ss_participantPeerIDs s) = insert (nd_nodeID p) (set (rg_peerNodeIDs (nd_registry p)))"
    and "distinct (ss_participantPeerIDs s)"
    and "mset (partyIDsToNodeIDs (ss_partyIDs s)) = mset (ss_participantPeerIDs s)"
    and "distinct (map pid_Key (ss_partyIDs s))"
    and "\<exists>self. ss_selfPartyID s = Some self \<and> self \<in> set (ss_partyIDs s)"
    and "sym.holders (rg_store (nd_registry p)) = set (rg_peerNodeIDs (nd_registry p))"
proof -
  let ?r = "nd_registry p" and ?ps = "GetReadyPeersIncludeSelf (nd_registry p)"
  from CreateKeyGenSession_ok [OF assms(1)] obtain self all where
    rdy: "ArePeersReady ?r"
    and gen: "generatePartyIDs S uuid (nd_nodeID p) PurposeKeygen ?ps DefaultVersion = (self, all)"
    and s: "s = base_session (keygen_kind t w) w th ?ps self all DefaultVersion" by metis
  have n: "nd_nodeID p = rg_nodeID ?r" using assms(3) by (simp add: node_ok_def)
  note all = ArePeersReady_all [OF assms(4,5) assms(6) [unfolded n] rdy]
  have S: "\<And>xs. mset (S xs) = mset xs" using assms(2) by (simp add: sorts_def)
  have f: "ss_participantPeerIDs s = ?ps" "ss_partyIDs s = all" "ss_selfPartyID s = self"
    by (simp_all add: s base_session_def)
  have ok: "gomap_ok (rg_readyMap ?r)" using assms(4) by (simp add: registry_inv_def count_inv_def)
  have set: "set ?ps = insert (nd_nodeID p) (set (rg_peerNodeIDs ?r))"
    using all(1) ready_set_readyPeers [OF ok] n by (auto simp: GetReadyPeersIncludeSelf_def)
  then show "set (ss_participantPeerIDs s) = insert (nd_nodeID p) (set (rg_peerNodeIDs ?r))" using f by simp
  have d: "distinct ?ps" by (rule reg.ready_distinct [OF assms(4)])
  then show "distinct (ss_participantPeerIDs s)" using f by simp
  have wf: "\<forall>q \<in> set ?ps. wf_nodeID q" using assms(7) set by simp
  show "mset (partyIDsToNodeIDs (ss_partyIDs s)) = mset (ss_participantPeerIDs s)"
    using generatePartyIDs_nodes [OF S wf gen] f by simp
  have "inj_on (\<lambda>q. be_nat (go_bytes (party_key_text q DefaultVersion))) (set ?ps)"
    using createPartyID_key_eq_iff wf by (auto simp: inj_on_def pid_Key_createPartyID)
  then have "distinct (map (\<lambda>q. be_nat (go_bytes (party_key_text q DefaultVersion))) ?ps)"
    using d by (simp add: distinct_map)
  then show "distinct (map pid_Key (ss_partyIDs s))"
    using generatePartyIDs_keys [OF S gen] f by (metis mset_eq_imp_distinct_iff)
  have "nd_nodeID p \<in> set ?ps" using set by simp
  then obtain q where "self = Some q" using generatePartyIDs_self(1) [OF S gen] by auto
  with generatePartyIDs_self(2) [OF S gen, of q]
  show "\<exists>self. ss_selfPartyID s = Some self \<and> self \<in> set (ss_partyIDs s)" using f by auto
  show "sym.holders (rg_store ?r) = set (rg_peerNodeIDs ?r)" by (rule all(2))
qed

section \<open>Reshare sessions\<close>

lemma all_ready_ok: "all_ready ready ps = Inr () \<longleftrightarrow> set ps \<subseteq> set ready"
  by (induction ps) (auto simp: slices_contains_def)

fun reshare_kind :: "SessionType \<Rightarrow> string \<Rightarrow> session_kind" where
  "reshare_kind SessionTypeECDSA w = ECDSAReshare w"
| "reshare_kind t w = EDDSAReshare w"

lemma reshare_build_ok:
  assumes "reshare_build S u u' p t w nt nps isNew info ready v = Returns (Inr x)"
    and "generatePartyIDs S u (nd_nodeID p) PurposeKeygen ready v = (oldSelf, oldAll)"
    and "generatePartyIDs S u' (nd_nodeID p) PurposeReshare nps (v + 1) = (newSelf, newAll)"
  shows "\<exists>pids pp. x = Some (NewReshareSession (reshare_kind t w) w pids (if isNew then newSelf else oldSelf)
      oldAll newAll (ki_Threshold info) nt nps isNew (ki_Version info), pp)"
  using assms
  by (auto simp: reshare_build_def Let_def bind_out_Returns NewECDSAReshareSession_def
      NewEDDSAReshareSession_def split: SessionType.splits)

lemma CreateReshareSession_ok:
  assumes "CreateReshareSession S u u' p t w nt nps isNew = Returns (Inr (Some (r, pp)))"
  obtains info where "getKeyInfo p t w = Inr info"
    and "set nps \<subseteq> set (GetReadyPeersIncludeSelf (nd_registry p))"
    and "nt + 1 \<le> int (length nps)"
    and "ki_Threshold info + 1 \<le>
      int (length (getReadyPeersForSession info (GetReadyPeersIncludeSelf (nd_registry p))))"
    and "nd_nodeID p \<in> (if isNew then set nps else set (participants info))"
    and "reshare_build S u u' p t w nt nps isNew info
      (getReadyPeersForSession info (GetReadyPeersIncludeSelf (nd_registry p))) (ki_Version info) =
      Returns (Inr (Some (r, pp)))"
proof -
  from assms obtain pre info v where pre: "sessionKeyPrefix t = Inr pre"
    and gi: "keyinfo_Get (nd_ki p) (pre @ '':'' @ w) = Inr info" and v: "getVersion p t w = Returns v"
    and rest: "set nps \<subseteq> set (GetReadyPeersIncludeSelf (nd_registry p))" "nt + 1 \<le> int (length nps)"
      "ki_Threshold info + 1 \<le>
        int (length (getReadyPeersForSession info (GetReadyPeersIncludeSelf (nd_registry p))))"
      "nd_nodeID p \<in> (if isNew then set nps else set (participants info))"
      "reshare_build S u u' p t w nt nps isNew info
        (getReadyPeersForSession info (GetReadyPeersIncludeSelf (nd_registry p))) v = Returns (Inr (Some (r, pp)))"
    using all_ready_ok [of "GetReadyPeersIncludeSelf (nd_registry p)" nps]
    by (auto simp: CreateReshareSession_def Let_def slices_contains_def bind_out_Returns
        split: if_splits sum.splits)
  have info: "getKeyInfo p t w = Inr info" using pre gi by (cases t) (auto simp: getKeyInfo_def)
  then have "v = ki_Version info" using getVersion_keyInfo v by (metis outcome.inject(2))
  with info rest that show ?thesis by blast
qed

text \<open>
  Old and new committee have different party keys, also for a node in both: the version is part
  of the key. The keys of the new committee are those of the version that resharing stores.
\<close>

lemma CreateReshareSession_parties:
  assumes "CreateReshareSession S u u' p t w nt nps isNew = Returns (Inr (Some (r, pp)))"
    and "sorts S" and "node_ok p" and "getKeyInfo p t w = Inr info"
    and "\<forall>q \<in> set (participants info) \<union> set nps. wf_nodeID q"
  obtains oldAll newAll where
    "ss_partyIDs (rh_session r) = (if isNew then newAll else oldAll)"
    and "rh_oldPeerIDs r = partyIDsToNodeIDs oldAll"
    and "pid_Key ` set oldAll \<inter> pid_Key ` set newAll = {}"
    and "mset (map pid_Key newAll) =
      mset (map (\<lambda>q. be_nat (go_bytes (party_key_text q (ki_Version (reshare_info r (rh_session r)))))) nps)"
    and "set (rh_oldPeerIDs r) = set (participants info) \<inter> set (GetReadyPeersIncludeSelf (nd_registry p))"
    and "rh_newPeerIDs r = nps" and "ss_version (rh_session r) = ki_Version info"
    and "ss_selfPartyID (rh_session r) \<noteq> None"
proof -
  let ?ready = "GetReadyPeersIncludeSelf (nd_registry p)"
  let ?old = "getReadyPeersForSession info ?ready" and ?v = "ki_Version info"
  from CreateReshareSession_ok [OF assms(1)] assms(4) have
    nps: "set nps \<subseteq> set ?ready" and me: "nd_nodeID p \<in> (if isNew then set nps else set (participants info))"
    and build: "reshare_build S u u' p t w nt nps isNew info ?old ?v = Returns (Inr (Some (r, pp)))"
    by (metis sum.inject(2))+
  obtain oldSelf oldAll where go: "generatePartyIDs S u (nd_nodeID p) PurposeKeygen ?old ?v = (oldSelf, oldAll)"
    by (cases "generatePartyIDs S u (nd_nodeID p) PurposeKeygen ?old ?v")
  obtain newSelf newAll where gn: "generatePartyIDs S u' (nd_nodeID p) PurposeReshare nps (?v + 1) = (newSelf, newAll)"
    by (cases "generatePartyIDs S u' (nd_nodeID p) PurposeReshare nps (?v + 1)")
  from reshare_build_ok [OF build go gn] obtain pids where
    r: "r = NewReshareSession (reshare_kind t w) w pids (if isNew then newSelf else oldSelf)
      oldAll newAll (ki_Threshold info) nt nps isNew ?v" by auto
  have S: "\<And>xs. mset (S xs) = mset xs" using assms(2) by (simp add: sorts_def)
  have wfo: "\<forall>q \<in> set ?old. wf_nodeID q" using assms(5) by (auto simp: getReadyPeersForSession_def)
  have ko: "pid_Key ` set oldAll = (\<lambda>q. be_nat (go_bytes (party_key_text q ?v))) ` set ?old"
    using generatePartyIDs_keys [OF S go] by (metis list.set_map mset_eq_setD)
  have kn: "mset (map pid_Key newAll) = mset (map (\<lambda>q. be_nat (go_bytes (party_key_text q (?v + 1)))) nps)"
    by (rule generatePartyIDs_keys [OF S gn])
  then have kn': "pid_Key ` set newAll = (\<lambda>q. be_nat (go_bytes (party_key_text q (?v + 1)))) ` set nps"
    by (metis list.set_map mset_eq_setD)
  have "be_nat (go_bytes (party_key_text q ?v)) \<noteq> be_nat (go_bytes (party_key_text q' (?v + 1)))"
    if "wf_nodeID q" "wf_nodeID q'" for q q'
    using createPartyID_key_eq_iff [OF that, of u1 l1 ?v u2 l2 "?v + 1"] by (simp add: pid_Key_createPartyID)
  then have disj: "pid_Key ` set oldAll \<inter> pid_Key ` set newAll = {}"
    using wfo assms(5) by (auto simp: ko kn')
  have "set (partyIDsToNodeIDs oldAll) = set ?old"
    using generatePartyIDs_nodes [OF S wfo go] by (rule mset_eq_setD)
  then have oldset: "set (partyIDsToNodeIDs oldAll) = set (participants info) \<inter> set ?ready"
    by (auto simp: getReadyPeersForSession_def slices_contains_def)
  have "nd_nodeID p \<in> set ?old" if "\<not> isNew"
    using reg.self_in_session [of "nd_registry p" info] me that assms(3)
    by (simp add: reg.session_peers_def node_ok_def)
  then have "(if isNew then newSelf else oldSelf) \<noteq> None"
    using me generatePartyIDs_self(1) [OF S go] generatePartyIDs_self(1) [OF S gn] by auto
  with r disj kn oldset show ?thesis
    by (intro that [of newAll oldAll])
      (simp_all add: NewReshareSession_def base_session_def reshare_info_def Let_def)
qed

section \<open>Pre-parameters\<close>

lemma preParams_one_stable:
  assumes "preParams_one enc dec gen i kvs = Returns (pp, kvs')" and "badger_ok (kv_DB kvs)"
    and "\<And>x b. enc x = Inr b \<Longrightarrow> dec b = Inr x"
  shows "preParams_one enc dec gen' i kvs' = Returns (pp, kvs') \<and> kv_DB kvs' = kv_DB kvs"
proof (cases "kv_Get kvs (''pre_params_'' @ itoa (int i))")
  case (Inr val)
  with assms(1) show ?thesis by (auto simp: preParams_one_def Let_def split: sum.splits)
next
  case (Inl e)
  with assms(1) obtain b where b: "enc pp = Inr b" "kv_Put kvs (''pre_params_'' @ itoa (int i)) b = Inr kvs'"
    by (auto simp: preParams_one_def Let_def split: sum.splits)
  have "kv_Get kvs' (''pre_params_'' @ itoa (int i)) = Inr b"
    using kv.get_put [OF assms(2) _ b(2)] by simp
  moreover have "kv_DB kvs' = kv_DB kvs" using b(2) by (auto simp: kv_Put_def split: sum.splits)
  ultimately show ?thesis using assms(3) [OF b(1)] by (simp add: preParams_one_def)
qed

end
