(* ===== verification/Session_Table.thy ===== *)
theory Session_Table
  imports Go_Prelude
begin

text \<open>
  The table of active sessions of \<^verbatim>\<open>pkg/eventconsumer/event_consumer.go\<close>: \<^verbatim>\<open>tryAddSession\<close>,
  \<^verbatim>\<open>removeSession\<close> and \<^verbatim>\<open>cleanupStaleSessions\<close>, each one critical section of \<^verbatim>\<open>sessionsLock\<close>.
  Times are nanoseconds.
\<close>

section \<open>The table\<close>

record session_table =
  tb_activeSessions :: "(string, int) gomap"
  tb_sessionTimeout :: int

definition session_id :: "string \<Rightarrow> string \<Rightarrow> string" where
  "session_id walletID txID = walletID @ ''-'' @ txID"

definition tryAddSession :: "int \<Rightarrow> string \<Rightarrow> string \<Rightarrow> session_table \<Rightarrow> session_table \<times> bool" where
  "tryAddSession now walletID txID t =
     (let sessionID = session_id walletID txID in
      case map_of (tb_activeSessions t) sessionID of
        Some _ \<Rightarrow> (t, False)
      | None \<Rightarrow> (t\<lparr>tb_activeSessions := AList.update sessionID now (tb_activeSessions t)\<rparr>, True))"

definition removeSession :: "string \<Rightarrow> string \<Rightarrow> session_table \<Rightarrow> session_table" where
  "removeSession walletID txID t =
     t\<lparr>tb_activeSessions := AList.delete (session_id walletID txID) (tb_activeSessions t)\<rparr>"

definition cleanupStaleSessions :: "int \<Rightarrow> session_table \<Rightarrow> session_table" where
  "cleanupStaleSessions now t =
     t\<lparr>tb_activeSessions :=
        filter (\<lambda>(sessionID, creationTime). \<not> now - creationTime > tb_sessionTimeout t) (tb_activeSessions t)\<rparr>"

definition minutes :: "int \<Rightarrow> int" where
  "minutes n = n * 60 * 1000000000"

definition new_session_table :: session_table where
  "new_session_table = \<lparr>tb_activeSessions = [], tb_sessionTimeout = minutes 30\<rparr>"

definition table_ok :: "session_table \<Rightarrow> bool" where
  "table_ok t = gomap_ok (tb_activeSessions t)"

definition active_since :: "session_table \<Rightarrow> string \<Rightarrow> int option" where
  "active_since t k = map_of (tb_activeSessions t) k"

section \<open>Operations\<close>

datatype table_op = OpTryAdd int string string | OpRemove string string | OpCleanup int

fun op_key :: "table_op \<Rightarrow> string option" where
  "op_key (OpTryAdd now w x) = Some (session_id w x)"
| "op_key (OpRemove w x) = Some (session_id w x)"
| "op_key (OpCleanup now) = None"

section \<open>The contract of the table\<close>

locale exclusive_sessions =
  fixes ok :: "'s \<Rightarrow> bool"
    and since :: "'s \<Rightarrow> string \<Rightarrow> int option"
    and timeout :: "'s \<Rightarrow> int"
    and key :: "string \<Rightarrow> string \<Rightarrow> string"
    and try_add :: "int \<Rightarrow> string \<Rightarrow> string \<Rightarrow> 's \<Rightarrow> 's \<times> bool"
    and remove :: "string \<Rightarrow> string \<Rightarrow> 's \<Rightarrow> 's"
    and cleanup :: "int \<Rightarrow> 's \<Rightarrow> 's"
  assumes granted_iff: "snd (try_add now w x s) \<longleftrightarrow> since s (key w x) = None"
    and since_add: "since (fst (try_add now w x s)) k =
      (if k = key w x \<and> since s k = None then Some now else since s k)"
    and since_remove: "since (remove w x s) k = (if k = key w x then None else since s k)"
    and since_cleanup: "ok s \<Longrightarrow> since (cleanup now s) k =
      (case since s k of None \<Rightarrow> None | Some t \<Rightarrow> if now - t > timeout s then None else Some t)"
    and kept_ok: "ok s \<Longrightarrow> ok (fst (try_add now w x s))" "ok s \<Longrightarrow> ok (remove w x s)" "ok s \<Longrightarrow> ok (cleanup now s)"
    and kept_timeout: "timeout (fst (try_add now w x s)) = timeout s" "timeout (remove w x s) = timeout s"
      "timeout (cleanup now s) = timeout s"
begin

lemma not_granted_twice:
  "snd (try_add now w x s) \<Longrightarrow> \<not> snd (try_add now' w x (fst (try_add now w x s)))"
  by (simp add: granted_iff since_add)

lemma granted_after_remove: "snd (try_add now w x (remove w x s))"
  by (simp add: granted_iff since_remove)

lemma granted_after_timeout:
  "ok s \<Longrightarrow> (\<And>t. since s (key w x) = Some t \<Longrightarrow> now - t > timeout s) \<Longrightarrow>
   snd (try_add now' w x (cleanup now s))"
  by (auto simp: granted_iff since_cleanup split: option.splits)

lemma fresh_survives_cleanup:
  "ok s \<Longrightarrow> since s k = Some t \<Longrightarrow> now - t \<le> timeout s \<Longrightarrow> since (cleanup now s) k = Some t"
  by (simp add: since_cleanup)

end

interpretation tab: exclusive_sessions table_ok active_since tb_sessionTimeout session_id
  tryAddSession removeSession cleanupStaleSessions
proof unfold_locales
  fix now :: int and w x k :: string and s :: session_table
  show "snd (tryAddSession now w x s) \<longleftrightarrow> active_since s (session_id w x) = None"
    by (simp add: tryAddSession_def active_since_def Let_def split: option.splits)
  show "active_since (fst (tryAddSession now w x s)) k =
      (if k = session_id w x \<and> active_since s k = None then Some now else active_since s k)"
    by (auto simp: tryAddSession_def active_since_def map_of_update Let_def split: option.splits)
  show "active_since (removeSession w x s) k = (if k = session_id w x then None else active_since s k)"
    by (simp add: removeSession_def active_since_def map_of_delete)
  show "table_ok (fst (tryAddSession now w x s))" if "table_ok s"
    using that by (auto simp: tryAddSession_def table_ok_def Let_def split: option.splits)
  show "table_ok (removeSession w x s)" if "table_ok s"
    using that by (auto simp: removeSession_def table_ok_def)
  show "table_ok (cleanupStaleSessions now s)" if "table_ok s"
    using that by (auto simp: cleanupStaleSessions_def table_ok_def
        intro: distinct_map_filter)
  show "active_since (cleanupStaleSessions now s) k =
      (case active_since s k of None \<Rightarrow> None | Some t \<Rightarrow> if now - t > tb_sessionTimeout s then None else Some t)"
    if "table_ok s"
  proof -
    have "map_of (filter (\<lambda>(i, c). \<not> now - c > T) xs) k =
        (case map_of xs k of None \<Rightarrow> None | Some t \<Rightarrow> if now - t > T then None else Some t)"
      if "distinct (map fst xs)" for T and xs :: "(string \<times> int) list"
      using that
    proof (induction xs)
      case (Cons p xs)
      then show ?case by (cases p) (auto split: option.splits simp: map_of_eq_None_iff)
    qed simp
    with that show ?thesis
      by (simp add: active_since_def cleanupStaleSessions_def table_ok_def)
  qed
qed (simp_all add: tryAddSession_def removeSession_def cleanupStaleSessions_def Let_def split: option.splits)

lemma table_ok_new [simp]: "table_ok new_session_table"
  by (simp add: table_ok_def new_session_table_def)

section \<open>Runs of a node\<close>

text \<open>
  The operations as the goroutines of a node interleave them. A signing request only adds. A key
  generation adds, and the deferred removal takes out what it added; the list holds the identifiers of
  the key generations that run. The cleanup removes what is older than the timeout, within which every
  key generation ends.
\<close>

inductive guard_step :: "session_table \<times> string list \<Rightarrow> table_op \<Rightarrow> session_table \<times> string list \<Rightarrow> bool" where
  signing: "guard_step (t, ks) (OpTryAdd now w x) (fst (tryAddSession now w x t), ks)"
| keygen: "tryAddSession now w ''keygen'' t = (t', True) \<Longrightarrow>
    guard_step (t, ks) (OpTryAdd now w ''keygen'') (t', session_id w ''keygen'' # ks)"
| keygen_done: "session_id w ''keygen'' \<in> set ks \<Longrightarrow>
    guard_step (t, ks) (OpRemove w ''keygen'') (removeSession w ''keygen'' t, remove1 (session_id w ''keygen'') ks)"
| cleanup: "\<forall>k \<in> set ks. \<forall>t0. active_since t k = Some t0 \<longrightarrow> now - t0 \<le> tb_sessionTimeout t \<Longrightarrow>
    guard_step (t, ks) (OpCleanup now) (cleanupStaleSessions now t, ks)"

inductive guard_run :: "session_table \<times> string list \<Rightarrow> table_op list \<Rightarrow> session_table \<times> string list \<Rightarrow> bool" where
  guard_none: "guard_run s [] s"
| guard_more: "guard_step s a s' \<Longrightarrow> guard_run s' ops s'' \<Longrightarrow> guard_run s (a # ops) s''"

definition guard_inv :: "session_table \<times> string list \<Rightarrow> bool" where
  "guard_inv s \<longleftrightarrow> table_ok (fst s) \<and> distinct (snd s) \<and> (\<forall>k \<in> set (snd s). active_since (fst s) k \<noteq> None) \<and>
     tb_sessionTimeout (fst s) = minutes 30"

lemma guard_inv_start: "guard_inv (new_session_table, [])"
  by (simp add: guard_inv_def) (simp add: new_session_table_def)

lemma guard_inv_step: "guard_step s a s' \<Longrightarrow> guard_inv s \<Longrightarrow> guard_inv s'"
proof (induction rule: guard_step.induct)
  case (signing t ks now w x)
  then show ?case by (auto simp: guard_inv_def tab.kept_ok tab.kept_timeout tab.since_add)
next
  case (keygen now w t t' ks)
  then have "active_since t (session_id w ''keygen'') = None" "t' = fst (tryAddSession now w ''keygen'' t)"
    using tab.granted_iff [of now w "''keygen''" t] by auto
  with keygen show ?case by (auto simp: guard_inv_def tab.kept_ok tab.kept_timeout tab.since_add)
next
  case (keygen_done w ks t)
  then show ?case by (auto simp: guard_inv_def tab.kept_ok tab.kept_timeout tab.since_remove)
next
  case (cleanup ks t now)
  have "active_since (cleanupStaleSessions now t) k \<noteq> None" if k: "k \<in> set ks" for k
  proof -
    obtain t1 where "active_since t k = Some t1" using cleanup k by (auto simp: guard_inv_def)
    with cleanup k tab.fresh_survives_cleanup [of t k t1 now] show ?thesis by (simp add: guard_inv_def)
  qed
  with cleanup show ?case by (simp add: guard_inv_def tab.kept_ok tab.kept_timeout)
qed

text \<open>An entry that a signing request made, so that no key generation removes it.\<close>

definition held_by_signing :: "string \<Rightarrow> int \<Rightarrow> session_table \<times> string list \<Rightarrow> bool" where
  "held_by_signing k t0 s \<longleftrightarrow> guard_inv s \<and> active_since (fst s) k = Some t0 \<and> k \<notin> set (snd s)"

lemma held_step:
  "guard_step s a s' \<Longrightarrow> held_by_signing k t0 s \<Longrightarrow> (\<And>now. a = OpCleanup now \<Longrightarrow> now - t0 \<le> minutes 30) \<Longrightarrow>
   held_by_signing k t0 s'"
proof -
  assume s: "guard_step s a s'" and h: "held_by_signing k t0 s" and c: "\<And>now. a = OpCleanup now \<Longrightarrow> now - t0 \<le> minutes 30"
  have i: "guard_inv s'" using guard_inv_step [OF s] h by (simp add: held_by_signing_def)
  from s h c show ?thesis
  proof cases
    case (signing t ks now w x)
    with h i show ?thesis by (simp add: held_by_signing_def tab.since_add)
  next
    case (keygen now w t t' ks)
    have n: "active_since t (session_id w ''keygen'') = None"
      using tab.granted_iff [of now w "''keygen''" t] keygen(4) by simp
    have "active_since t' k = active_since t k"
      using tab.since_add [of now w "''keygen''" t k] keygen(1,4) h n by (auto simp: held_by_signing_def)
    moreover have "k \<noteq> session_id w ''keygen''" using h n keygen(1) by (auto simp: held_by_signing_def)
    ultimately show ?thesis using h i keygen(1,3) by (simp add: held_by_signing_def)
  next
    case (keygen_done w ks t)
    with h i show ?thesis by (auto simp: held_by_signing_def tab.since_remove dest: notin_set_remove1)
  next
    case (cleanup ks t now)
    with h i c show ?thesis by (auto simp: held_by_signing_def guard_inv_def tab.since_cleanup)
  qed
qed

lemma held_run:
  "guard_run s ops s' \<Longrightarrow> held_by_signing k t0 s \<Longrightarrow> (\<And>now. OpCleanup now \<in> set ops \<Longrightarrow> now - t0 \<le> minutes 30) \<Longrightarrow>
   held_by_signing k t0 s'"
proof (induction rule: guard_run.induct)
  case (guard_more s a s' ops s'')
  then show ?case using held_step [of s a s' k t0] by auto
qed

lemma guard_run_inv: "guard_run s ops s' \<Longrightarrow> guard_inv s \<Longrightarrow> guard_inv s'"
  by (induction rule: guard_run.induct) (auto dest: guard_inv_step)

text \<open>The identifier of a session determines wallet and transaction when the latter has no dash.\<close>

lemma session_id_inj:
  "CHR ''-'' \<notin> set x \<Longrightarrow> CHR ''-'' \<notin> set y \<Longrightarrow> session_id v x = session_id w y \<longleftrightarrow> v = w \<and> x = y"
  using sep_append_inj2 [of v "CHR ''-''" x w y] by (auto simp: session_id_def)

end
