(* ===== verification/Event_Consumer.thy ===== *)
theory Event_Consumer
  imports Node Requests Session_Table
begin

text \<open>
  \<^verbatim>\<open>pkg/eventconsumer/event_consumer.go\<close>: the handlers of the three requests. A handler decodes
  and authorizes the request, creates the sessions of the node, waits at their barriers, runs
  the protocol, and publishes the result.

  \<^item> The identity store and the network of a handler are \<open>cx_net\<close>; the answers of the result
    queues are \<open>cx_enqueue\<close>. The calls of the queues and of the reply inbox are its effects.
  \<^item> The goroutines of a run appear as its \<open>run\<close>: the events of the tss-lib party, the errors that
    the receivers send to \<^verbatim>\<open>ErrCh\<close> meanwhile, and which case the watcher takes when an error and
    the completion are both there. Two sessions of a handler write different keys of the
    stores; the model runs them one after the other.
  \<^item> The barrier of a session ends at its deadline, which closes each list of attempts.
\<close>

section \<open>State and environment\<close>

record ('k, 'd, 'c, 'pp) eventConsumer =
  ec_node :: "('k, 'd, 'c, 'pp) node"
  ec_mpcThreshold :: int
  ec_table :: session_table
  ec_maxConcurrentKeygen :: int
  ec_maxConcurrentSigning :: int

record ('pt, 'r) curve_env =
  cu_ops :: "'pt curve_ops"
  cu_marshal :: "('pt, 'r) SaveData \<Rightarrow> bytes res"
  cu_unmarshal :: "bytes \<Rightarrow> ('pt, 'r) SaveData res"
  cu_empty :: "nat \<Rightarrow> ('pt, 'r) SaveData"
  cu_verify :: "'pt \<Rightarrow> bytes \<Rightarrow> nat \<Rightarrow> nat \<Rightarrow> bool"

record ('k, 'pt, 'r) consumer_env =
  cx_net :: "'k net"
  cx_now :: int
  cx_enqueue :: "string \<Rightarrow> gerror option"
  cx_sort :: "PartyID list \<Rightarrow> PartyID list"
  cx_uuid :: "nat \<Rightarrow> nat \<Rightarrow> string"
  cx_listen :: "string \<Rightarrow> gerror option"
  cx_subscribe :: "string \<Rightarrow> gerror option"
  cx_attempts :: "nat \<Rightarrow> string \<Rightarrow> attempt list"
  cx_secondLast :: bool
  cx_intersect :: "string list \<Rightarrow> string list \<Rightarrow> string list"
  cx_ecdsa :: "('pt, 'r) curve_env"
  cx_eddsa :: "('pt, 'r) curve_env"

datatype consumer_effect =
    ResultEnqueue string bytes string
  | ReplyPublish string bytes
  | SessionEffect effect

definition DefaultConcurrentKeygen :: int where "DefaultConcurrentKeygen = 2"
definition DefaultConcurrentSigning :: int where "DefaultConcurrentSigning = 20"

text \<open>\<open>viper\<close> gives the configured integers, zero when they are not set.\<close>

definition NewEventConsumer ::
  "(string \<Rightarrow> int) \<Rightarrow> ('k, 'd, 'c, 'pp) node \<Rightarrow> ('k, 'd, 'c, 'pp) eventConsumer" where
  "NewEventConsumer viper node =
     (let maxConcurrentKeygen = viper ''max_concurrent_keygen'';
          maxConcurrentKeygen = (if maxConcurrentKeygen = 0 then DefaultConcurrentKeygen else maxConcurrentKeygen);
          maxConcurrentSigning = viper ''max_concurrent_signing'';
          maxConcurrentSigning = (if maxConcurrentSigning = 0 then DefaultConcurrentSigning else maxConcurrentSigning)
      in \<lparr>ec_node = node, ec_mpcThreshold = viper ''mpc_threshold'', ec_table = new_session_table,
          ec_maxConcurrentKeygen = maxConcurrentKeygen, ec_maxConcurrentSigning = maxConcurrentSigning\<rparr>)"

section \<open>Results\<close>

definition sendReplyToRemoveMsg :: "natsMsg \<Rightarrow> consumer_effect list" where
  "sendReplyToRemoveMsg natMsg =
     (if nm_Reply natMsg = [] then [] else [ReplyPublish (nm_Reply natMsg) (nm_Data natMsg)])"

definition handleKeygenSessionError :: "string \<Rightarrow> gerror \<Rightarrow> string \<Rightarrow> natsMsg \<Rightarrow> consumer_effect list" where
  "handleKeygenSessionError walletID err contextMsg natMsg =
     (let fullErrMsg = contextMsg @ '': '' @ Error err;
          keygenResult = \<lparr>kr_WalletID = walletID, kr_ECDSAPubKey = [], kr_EDDSAPubKey = [],
            kr_ResultType = ResultTypeError, kr_ErrorReason = fullErrMsg,
            kr_ErrorCode = GetErrorCodeFromError (Some err)\<rparr>;
          key = KeygenResultSubject (clientID_of natMsg) walletID
      in ResultEnqueue key (json_Marshal (enc_KeygenResultEvent keygenResult))
           (composeKeygenIdempotentKey walletID natMsg) # sendReplyToRemoveMsg natMsg)"

definition handleSigningSessionError ::
  "string \<Rightarrow> string \<Rightarrow> string \<Rightarrow> gerror \<Rightarrow> string \<Rightarrow> natsMsg \<Rightarrow> consumer_effect list" where
  "handleSigningSessionError walletID txID networkInternalCode err contextMsg natMsg =
     (let fullErrMsg = contextMsg @ '': '' @ Error err;
          signingResult = \<lparr>sr_ResultType = ResultTypeError, sr_ErrorCode = GetErrorCodeFromError (Some err),
            sr_ErrorReason = fullErrMsg, sr_IsTimeout = False, sr_NetworkInternalCode = networkInternalCode,
            sr_WalletID = walletID, sr_TxID = txID, sr_R = [], sr_S = [], sr_SignatureRecovery = [],
            sr_Signature = []\<rparr>
      in ResultEnqueue (SigningResultSubject (clientID_of natMsg))
           (json_Marshal (enc_SigningResultEvent signingResult))
           (composeSigningIdempotentKey txID natMsg) # sendReplyToRemoveMsg natMsg)"

definition handleReshareSessionError ::
  "string \<Rightarrow> string \<Rightarrow> KeyType \<Rightarrow> int \<Rightarrow> gerror \<Rightarrow> string \<Rightarrow> natsMsg \<Rightarrow> consumer_effect list" where
  "handleReshareSessionError sessionID walletID keyType newThreshold err contextMsg natMsg =
     (let fullErrMsg = contextMsg @ '': '' @ Error err;
          reshareResult = \<lparr>rr_WalletID = walletID, rr_NewThreshold = newThreshold, rr_KeyType = keyType,
            rr_PubKey = [], rr_ResultType = ResultTypeError, rr_ErrorReason = fullErrMsg,
            rr_ErrorCode = GetErrorCodeFromError (Some err)\<rparr>
      in if sessionID = [] then []
         else [ResultEnqueue (ReshareResultSubject (clientID_of natMsg) sessionID)
                 (json_Marshal (enc_ResharingResultEvent reshareResult))
                 (composeReshareIdempotentKey sessionID natMsg)])"

fun sessionTypeFromKeyType :: "KeyType \<Rightarrow> SessionType res" where
  "sessionTypeFromKeyType keyType =
     (if keyType = KeyTypeSecp256k1 then Inr SessionTypeECDSA
      else if keyType = KeyTypeEd25519 then Inr SessionTypeEDDSA
      else Inl (ENew (''unsupported key type: '' @ keyType)))"

section \<open>Watching a run\<close>

record 'x run =
  rn_events :: "'x party_event list"
  rn_errors :: "gerror list"
  rn_errFirst :: bool

datatype watch = WatchDone "bytes option" | WatchErr gerror | WatchPending

text \<open>
  \<open>completed\<close> tells whether the callback that cancels the context ran; the watcher then reads
  \<^verbatim>\<open>GetPubKeyResult\<close>.
\<close>

definition watch_run :: "'x run \<Rightarrow> session \<Rightarrow> bool \<Rightarrow> watch" where
  "watch_run rn s completed =
     (case ss_errors s @ rn_errors rn of
        e # _ \<Rightarrow> if completed \<and> \<not> rn_errFirst rn then WatchDone (ss_pubkeyBytes s) else WatchErr e
      | [] \<Rightarrow> if completed then WatchDone (ss_pubkeyBytes s) else WatchPending)"

definition barrier :: "('k, 'pt, 'r) consumer_env \<Rightarrow> nat \<Rightarrow> session \<Rightarrow> session \<times> unit res" where
  "barrier env i s =
     (case WaitForPeersReady (cx_listen env (barrierTopic (topicComposer (ss_kind s)) (selfNodeID s)))
             (\<lambda>p. cx_attempts env i p @ [AtDeadline]) s of
        (s', Some r) \<Rightarrow> (s', r)
      | (s', None) \<Rightarrow> (s', Inl (ENew ''waiting'')))"

text \<open>
  Two barriers run in parallel and write one variable; \<open>cx_secondLast\<close> tells which of two errors
  stays.
\<close>

definition barrier_err :: "('k, 'pt, 'r) consumer_env \<Rightarrow> string \<Rightarrow> unit res \<Rightarrow> string \<Rightarrow> unit res \<Rightarrow> gerror option" where
  "barrier_err env na a nb b =
     (case (a, b) of
        (Inr _, Inr _) \<Rightarrow> None
      | (Inl e, Inr _) \<Rightarrow> Some (EWrap na e [])
      | (Inr _, Inl e) \<Rightarrow> Some (EWrap nb e [])
      | (Inl e, Inl e') \<Rightarrow> Some (if cx_secondLast env then EWrap nb e' [] else EWrap na e []))"

definition listen_all :: "('k, 'pt, 'r) consumer_env \<Rightarrow> session \<Rightarrow> session" where
  "listen_all env s = ListenToIncomingMessageAsync (cx_subscribe env) (cx_listen env) s"

section \<open>Key generation requests\<close>

definition keygen_success :: "string \<Rightarrow> bytes option \<Rightarrow> bytes option \<Rightarrow> KeygenResultEvent" where
  "keygen_success walletID ecdsaPub eddsaPub =
     \<lparr>kr_WalletID = walletID, kr_ECDSAPubKey = to_list ecdsaPub, kr_EDDSAPubKey = to_list eddsaPub,
      kr_ResultType = ResultTypeSuccess, kr_ErrorReason = [], kr_ErrorCode = NoErrorCode\<rparr>"

text \<open>What the watcher of one session publishes, and the public key it leaves behind.\<close>

definition watch_effects :: "string \<Rightarrow> string \<Rightarrow> natsMsg \<Rightarrow> watch \<Rightarrow> consumer_effect list" where
  "watch_effects walletID contextMsg natMsg w =
     (case w of WatchErr e \<Rightarrow> handleKeygenSessionError walletID e contextMsg natMsg | _ \<Rightarrow> [])"

definition watch_key :: "watch \<Rightarrow> bytes option" where
  "watch_key w = (case w of WatchDone k \<Rightarrow> k | _ \<Rightarrow> None)"

text \<open>
  The end of the handler. A session that is still running meets the 30 s deadline. Then the
  handler reports the timeout, unless its select was entered after the deadline and took the
  completion of the watchers, whose contexts ended too (\<open>late\<close>).
\<close>

definition keygen_finish ::
  "('k, 'pt, 'r) consumer_env \<Rightarrow> bool \<Rightarrow> string \<Rightarrow> natsMsg \<Rightarrow> watch \<Rightarrow> watch \<Rightarrow> ('k, 'd, 'c, 'pp) node \<Rightarrow>
   ('k, 'd, 'c, 'pp) node \<times> consumer_effect list" where
  "keygen_finish env late walletID natMsg we wd node =
     (let errs = watch_effects walletID ''ECDSA keygen session error'' natMsg we @
                 watch_effects walletID ''EdDSA keygen session error'' natMsg wd
      in if (we = WatchPending \<or> wd = WatchPending) \<and> \<not> late
         then (node, errs @ handleKeygenSessionError walletID
                 (ENew ''keygen session timed out after 30s'') ''Key generation timed out'' natMsg)
         else if (\<exists>e. we = WatchErr e) \<or> (\<exists>e. wd = WatchErr e) then (node, errs)
         else
           (let payload = json_Marshal (enc_KeygenResultEvent
                  (keygen_success walletID (watch_key we) (watch_key wd)))
            in case StoreWalletCreationResult node walletID payload of
                 Inl e \<Rightarrow> (node, handleKeygenSessionError walletID e ''Failed to store wallet creation result'' natMsg)
               | Inr node' \<Rightarrow>
                   (let key = KeygenResultSubject (clientID_of natMsg) walletID in
                    (node', ResultEnqueue key payload (composeKeygenIdempotentKey walletID natMsg) #
                       (case cx_enqueue env key of
                          Some e \<Rightarrow> handleKeygenSessionError walletID e
                                     ''Failed to publish key generation success message'' natMsg
                        | None \<Rightarrow> sendReplyToRemoveMsg natMsg)))))"

text \<open>
  From the listeners to the end. A failed barrier leaves the sessions as they are; the errors
  that the watchers have received by then are published.
\<close>

definition keygen_run ::
  "('k, 'pt, 'r) consumer_env \<Rightarrow> ('pt, 'r) SaveData run \<Rightarrow> ('pt, 'r) SaveData run \<Rightarrow> bool \<Rightarrow> string \<Rightarrow> natsMsg \<Rightarrow>
   session \<Rightarrow> session \<Rightarrow> ('k, 'd, 'c, 'pp) node \<Rightarrow> (('k, 'd, 'c, 'pp) node \<times> consumer_effect list) outcome" where
  "keygen_run env re rd late walletID natMsg ecdsaSession eddsaSession node =
     (let (es, eb) = barrier env 0 (listen_all env ecdsaSession);
          (ds, db) = barrier env 1 (listen_all env eddsaSession)
      in case barrier_err env ''ECDSA: '' eb ''EDDSA: '' db of
           Some e \<Rightarrow>
             Returns (node,
               watch_effects walletID ''ECDSA keygen session error'' natMsg (watch_run re es False) @
               watch_effects walletID ''EdDSA keygen session error'' natMsg (watch_run rd ds False) @
               handleKeygenSessionError walletID e ''Peers not ready before keygen'' natMsg)
         | None \<Rightarrow>
             (case ecdsa_GenerateKey (cx_net env) (cu_ops (cx_ecdsa env)) (cu_marshal (cx_ecdsa env))
                     (rn_events re) \<lparr>wd_session = es, wd_kv = nd_kv node, wd_ki = nd_ki node\<rparr> of
                Aborts x \<Rightarrow> Aborts x
              | Returns (w1, fx1, c1) \<Rightarrow>
                  (case eddsa_GenerateKey (cx_net env) (cu_ops (cx_eddsa env)) (cu_marshal (cx_eddsa env))
                          (rn_events rd) \<lparr>wd_session = ds, wd_kv = wd_kv w1, wd_ki = wd_ki w1\<rparr> of
                     Aborts x \<Rightarrow> Aborts x
                   | Returns (w2, fx2, c2) \<Rightarrow>
                       (case keygen_finish env late walletID natMsg
                               (watch_run re (wd_session w1) c1) (watch_run rd (wd_session w2) c2)
                               (node\<lparr>nd_kv := wd_kv w2, nd_ki := wd_ki w2\<rparr>) of
                          (node', fx) \<Rightarrow> Returns (node', map SessionEffect (fx1 @ fx2) @ fx)))))"

text \<open>After the guard against duplicates; the deferred \<^verbatim>\<open>removeSession\<close> is in the caller.\<close>

definition keygen_sessions ::
  "('k, 'pt, 'r) consumer_env \<Rightarrow> ('pt, 'r) SaveData run \<Rightarrow> ('pt, 'r) SaveData run \<Rightarrow> bool \<Rightarrow> int \<Rightarrow> string \<Rightarrow>
   natsMsg \<Rightarrow> ('k, 'd, 'c, 'pp) node \<Rightarrow> (('k, 'd, 'c, 'pp) node \<times> consumer_effect list) outcome" where
  "keygen_sessions env re rd late threshold walletID natMsg node =
     (case CreateKeyGenSession (cx_sort env) (cx_uuid env 0) node SessionTypeECDSA walletID threshold of
        Aborts x \<Rightarrow> Aborts x
      | Returns (Inl e) \<Rightarrow> Returns (node, handleKeygenSessionError walletID e
          ''Failed to create ECDSA key generation session'' natMsg)
      | Returns (Inr (ecdsaSession, _)) \<Rightarrow>
          (case CreateKeyGenSession (cx_sort env) (cx_uuid env 1) node SessionTypeEDDSA walletID threshold of
             Aborts x \<Rightarrow> Aborts x
           | Returns (Inl e) \<Rightarrow> Returns (node, handleKeygenSessionError walletID e
               ''Failed to create EdDSA key generation session'' natMsg)
           | Returns (Inr (eddsaSession, _)) \<Rightarrow>
               keygen_run env re rd late walletID natMsg ecdsaSession eddsaSession node))"

definition ErrKeyNotFound :: string where
  "ErrKeyNotFound = ''Key not found''"

definition handleKeyGenEvent ::
  "('k, 'pt, 'r) consumer_env \<Rightarrow> ('pt, 'r) SaveData run \<Rightarrow> ('pt, 'r) SaveData run \<Rightarrow> bool \<Rightarrow> natsMsg \<Rightarrow>
   ('k, 'd, 'c, 'pp) eventConsumer \<Rightarrow> (('k, 'd, 'c, 'pp) eventConsumer \<times> consumer_effect list) outcome" where
  "handleKeyGenEvent env re rd late natMsg ec =
     (let cr = nt_crypto (cx_net env); store = nt_store (cx_net env);
          fail = (\<lambda>walletID e ctx. Returns (ec, handleKeygenSessionError walletID e ctx natMsg))
      in case json_Unmarshal GenerateKeyMessage_fields zero_GenerateKeyMessage (nm_Data natMsg) of
           Inl e \<Rightarrow> fail (gk_WalletID (Unmarshal_partial GenerateKeyMessage_fields zero_GenerateKeyMessage (nm_Data natMsg)))
                      e ''Failed to unmarshal keygen message''
         | Inr msg \<Rightarrow>
           (case VerifyInitiatorMessage cr store (GenerateKey msg) of
              Aborts x \<Rightarrow> Aborts x
            | Returns (Inl e) \<Rightarrow> fail (gk_WalletID msg) e ''Failed to verify initiator message''
            | Returns (Inr _) \<Rightarrow>
           (case AuthorizeInitiatorMessage cr store (GenerateKey msg) of
              Aborts x \<Rightarrow> Aborts x
            | Returns (Inl e) \<Rightarrow> fail (gk_WalletID msg) e ''Failed to authorize initiator message''
            | Returns (Inr _) \<Rightarrow>
                (let walletID = gk_WalletID msg;
                     stored = GetWalletCreationResult (ec_node ec) walletID
                 in case stored of
                      Inl e \<Rightarrow>
                        if \<not> errors_Is e ErrKeyNotFound
                        then fail walletID e ''Failed to check stored wallet creation result''
                        else
                          (case tryAddSession (cx_now env) walletID ''keygen'' (ec_table ec) of
                             (_, False) \<Rightarrow> fail walletID
                               (ENew (''duplicate keygen request detected for walletID='' @ walletID))
                               ''Duplicate keygen session''
                           | (table, True) \<Rightarrow>
                               (case keygen_sessions env re rd late (ec_mpcThreshold ec) walletID natMsg (ec_node ec) of
                                  Aborts x \<Rightarrow> Aborts x
                                | Returns (node, fx) \<Rightarrow>
                                    Returns (ec\<lparr>ec_node := node,
                                                ec_table := removeSession walletID ''keygen'' table\<rparr>, fx)))
                    | Inr result \<Rightarrow>
                        (let key = KeygenResultSubject (clientID_of natMsg) walletID in
                         Returns (ec, ResultEnqueue key result (composeKeygenIdempotentKey walletID natMsg) #
                           (case cx_enqueue env key of
                              Some e \<Rightarrow> handleKeygenSessionError walletID e
                                         ''Failed to enqueue stored wallet creation result'' natMsg
                            | None \<Rightarrow> sendReplyToRemoveMsg natMsg)))))))"

section \<open>Signing requests\<close>

text \<open>
  From the listeners to the end. The watcher publishes the first error and stops the session;
  the callback of a completed \<^verbatim>\<open>Sign\<close> answers the reply inbox. A failed barrier leaves the
  session as it is.
\<close>

definition signing_run ::
  "('k, 'pt, 'r) consumer_env \<Rightarrow> SignatureData run \<Rightarrow> SessionType \<Rightarrow> SignTxMessage \<Rightarrow> natsMsg \<Rightarrow>
   ('pt, 'r) signing \<Rightarrow> ('k, 'd, 'c, 'pp) node \<Rightarrow> consumer_effect list outcome" where
  "signing_run env rn sessionType msg natMsg sg node =
     (let fail = (\<lambda>e ctx. handleSigningSessionError (st_WalletID msg) (st_TxID msg)
            (st_NetworkInternalCode msg) e ctx natMsg);
          watched = (\<lambda>w. case w of WatchErr e \<Rightarrow> fail e ''Failed to sign tx'' | _ \<Rightarrow> []);
          (s, b) = barrier env 0 (listen_all env (sg_session sg))
      in case b of
           Inl e \<Rightarrow> Returns (watched (watch_run rn s False) @ fail e ''Peers not ready before signing'')
         | Inr _ \<Rightarrow>
             (case (if sessionType = SessionTypeECDSA
                    then ecdsa_Sign (cx_net env) (cu_verify (cx_ecdsa env)) (cx_enqueue env) sg (rn_events rn)
                    else eddsa_Sign (cx_net env) (cu_verify (cx_eddsa env)) (cx_enqueue env) sg (rn_events rn))
                     \<lparr>wd_session = s, wd_kv = nd_kv node, wd_ki = nd_ki node\<rparr> of
                Aborts x \<Rightarrow> Aborts x
              | Returns (w, fx, completed) \<Rightarrow>
                  Returns (map SessionEffect fx @ watched (watch_run rn (wd_session w) completed) @
                    (if completed then sendReplyToRemoveMsg natMsg else []))))"

definition sign_session ::
  "('k, 'pt, 'r) consumer_env \<Rightarrow> SessionType res \<Rightarrow> SignTxMessage \<Rightarrow> natsMsg \<Rightarrow> ('k, 'd, 'c, 'pp) node \<Rightarrow>
   ('pt, 'r) signing res outcome" where
  "sign_session env keyType msg natMsg node =
     (case keyType of
        Inl e \<Rightarrow> Returns (Inl e)
      | Inr sessionType \<Rightarrow>
          CreateSigningSession (cx_sort env) (cx_uuid env 0) node sessionType (st_WalletID msg) (st_TxID msg)
            (st_NetworkInternalCode msg) (SigningResultSubject (clientID_of natMsg)) (st_DerivationPath msg)
            (composeSigningIdempotentKey (st_TxID msg) natMsg))"

definition sign_init ::
  "('k, 'pt, 'r) consumer_env \<Rightarrow> SessionType \<Rightarrow> SignTxMessage \<Rightarrow> ('pt, 'r) signing \<Rightarrow> ('k, 'd, 'c, 'pp) node \<Rightarrow>
   ('pt, 'r) signing res outcome" where
  "sign_init env sessionType msg sg node =
     (let tx = be_nat (to_list (st_Tx msg)) in
      if sessionType = SessionTypeECDSA
      then ecdsa_signing_Init (cu_ops (cx_ecdsa env)) (cx_intersect env) (cu_unmarshal (cx_ecdsa env))
             (nd_ki node) (nd_kv node) tx sg
      else eddsa_signing_Init (cu_ops (cx_eddsa env)) (cx_intersect env) (cu_unmarshal (cx_eddsa env))
             (nd_ki node) (nd_kv node) tx sg)"

text \<open>
  A request that does not decode or is not authorized is dropped without a result. Once the
  session is in the table no branch takes it out again.
\<close>

definition handleSigningEvent ::
  "('k, 'pt, 'r) consumer_env \<Rightarrow> SignatureData run \<Rightarrow> natsMsg \<Rightarrow> ('k, 'd, 'c, 'pp) eventConsumer \<Rightarrow>
   (('k, 'd, 'c, 'pp) eventConsumer \<times> consumer_effect list) outcome" where
  "handleSigningEvent env rn natMsg ec =
     (let cr = nt_crypto (cx_net env); store = nt_store (cx_net env) in
      case json_Unmarshal SignTxMessage_fields zero_SignTxMessage (nm_Data natMsg) of
        Inl e \<Rightarrow> Returns (ec, [])
      | Inr msg \<Rightarrow>
        (case VerifyInitiatorMessage cr store (SignTx msg) of
           Aborts x \<Rightarrow> Aborts x
         | Returns (Inl e) \<Rightarrow> Returns (ec, [])
         | Returns (Inr _) \<Rightarrow>
        (case AuthorizeInitiatorMessage cr store (SignTx msg) of
           Aborts x \<Rightarrow> Aborts x
         | Returns (Inl e) \<Rightarrow> Returns (ec, [])
         | Returns (Inr _) \<Rightarrow>
             (let fail = (\<lambda>e ctx. handleSigningSessionError (st_WalletID msg) (st_TxID msg)
                    (st_NetworkInternalCode msg) e ctx natMsg)
              in case tryAddSession (cx_now env) (st_WalletID msg) (st_TxID msg) (ec_table ec) of
                   (_, False) \<Rightarrow> Returns (ec, fail (ENew (''duplicate signing request detected for walletID='' @
                       st_WalletID msg @ '' txID='' @ st_TxID msg)) ''Duplicate session'')
                 | (table, True) \<Rightarrow>
                     (let ec = ec\<lparr>ec_table := table\<rparr>; keyType = sessionTypeFromKeyType (st_KeyType msg) in
                      case sign_session env keyType msg natMsg (ec_node ec) of
                        Aborts x \<Rightarrow> Aborts x
                      | Returns (Inl e) \<Rightarrow>
                          Returns (ec,
                            if errors_Is e ''Not enough participants to sign'' then []
                            else if errors_Is e ''Node is not in the participant list'' then []
                            else fail e ''Failed to create signing session'')
                      | Returns (Inr sg) \<Rightarrow>
                          (case keyType of
                             Inl e \<Rightarrow> Returns (ec, [])
                           | Inr sessionType \<Rightarrow>
                               (case sign_init env sessionType msg sg (ec_node ec) of
                                  Aborts x \<Rightarrow> Aborts x
                                | Returns (Inl e) \<Rightarrow> Returns (ec, fail e ''Failed to init signing session'')
                                | Returns (Inr sg') \<Rightarrow>
                                    (case signing_run env rn sessionType msg natMsg sg' (ec_node ec) of
                                       Aborts x \<Rightarrow> Aborts x
                                     | Returns fx \<Rightarrow> Returns (ec, fx)))))))))"

section \<open>Resharing requests\<close>

definition reshare_success :: "ResharingMessage \<Rightarrow> bytes \<Rightarrow> ResharingResultEvent" where
  "reshare_success msg pubKey =
     \<lparr>rr_WalletID = rs_WalletID msg, rr_NewThreshold = rs_NewThreshold msg, rr_KeyType = rs_KeyType msg,
      rr_PubKey = pubKey, rr_ResultType = ResultTypeSuccess, rr_ErrorReason = [], rr_ErrorCode = NoErrorCode\<rparr>"

definition reshare_fail :: "ResharingMessage \<Rightarrow> natsMsg \<Rightarrow> gerror \<Rightarrow> string \<Rightarrow> consumer_effect list" where
  "reshare_fail msg natMsg e ctx =
     handleReshareSessionError (rs_SessionID msg) (rs_WalletID msg) (rs_KeyType msg) (rs_NewThreshold msg) e ctx natMsg"

text \<open>One session of the two; \<open>None\<close> is a committee this node is not in.\<close>

definition reshare_run_one ::
  "('k, 'pt, 'r) consumer_env \<Rightarrow> SessionType \<Rightarrow> ('pt, 'r) SaveData run \<Rightarrow> (reshare \<times> session) option \<Rightarrow>
   ('k, 'd, 'c, 'pp) node \<Rightarrow> (('k, 'd, 'c, 'pp) node \<times> effect list \<times> watch) outcome" where
  "reshare_run_one env sessionType rn sess node =
     (case sess of
        None \<Rightarrow> Returns (node, [], WatchDone None)
      | Some (r, s) \<Rightarrow>
          (case (if sessionType = SessionTypeECDSA
                 then ecdsa_Reshare (cx_net env) (cu_ops (cx_ecdsa env)) (cu_marshal (cx_ecdsa env)) r (rn_events rn)
                 else eddsa_Reshare (cx_net env) (cu_ops (cx_eddsa env)) (cu_marshal (cx_eddsa env)) r (rn_events rn))
                  \<lparr>wd_session = s, wd_kv = nd_kv node, wd_ki = nd_ki node\<rparr> of
             Aborts x \<Rightarrow> Aborts x
           | Returns (w, fx, completed) \<Rightarrow>
               Returns (node\<lparr>nd_kv := wd_kv w, nd_ki := wd_ki w\<rparr>, fx, watch_run rn (wd_session w) completed)))"

text \<open>
  The end of the handler, which waits for both watchers without a deadline; the last component
  tells whether it returned.
\<close>

definition reshare_finish ::
  "('k, 'pt, 'r) consumer_env \<Rightarrow> ResharingMessage \<Rightarrow> natsMsg \<Rightarrow> watch \<Rightarrow> watch \<Rightarrow> consumer_effect list \<times> bool" where
  "reshare_finish env msg natMsg wo wn =
     (let errs = (case wo of WatchErr e \<Rightarrow> reshare_fail msg natMsg e ''Old reshare session error'' | _ \<Rightarrow> []) @
                 (case wn of WatchErr e \<Rightarrow> reshare_fail msg natMsg e ''New reshare session error'' | _ \<Rightarrow> []);
          pubKey = to_list (watch_key wn)
      in if wo = WatchPending \<or> wn = WatchPending then (errs, False)
         else if length pubKey > 0 then
           (let key = ReshareResultSubject (clientID_of natMsg) (rs_SessionID msg) in
            (errs @ ResultEnqueue key (json_Marshal (enc_ResharingResultEvent (reshare_success msg pubKey)))
                (composeReshareIdempotentKey (rs_SessionID msg) natMsg) #
              (case cx_enqueue env key of
                 Some e \<Rightarrow> reshare_fail msg natMsg e ''Failed to publish reshare success message''
               | None \<Rightarrow> []), True))
         else (errs, True))"

definition reshare_init ::
  "('k, 'pt, 'r) consumer_env \<Rightarrow> SessionType \<Rightarrow> ('k, 'd, 'c, 'pp) node \<Rightarrow> reshare \<Rightarrow> ('pt, 'r) SaveData res" where
  "reshare_init env sessionType node r =
     (if sessionType = SessionTypeECDSA
      then ecdsa_reshare_Init (nd_kv node) (cu_unmarshal (cx_ecdsa env)) (cu_empty (cx_ecdsa env)) r
      else eddsa_reshare_Init (nd_kv node) (cu_unmarshal (cx_eddsa env)) (cu_empty (cx_eddsa env)) r)"

definition init_opt :: "('k, 'pt, 'r) consumer_env \<Rightarrow> SessionType \<Rightarrow> ('k, 'd, 'c, 'pp) node \<Rightarrow>
   reshare option \<Rightarrow> gerror option" where
  "init_opt env sessionType node r =
     (case r of None \<Rightarrow> None | Some r \<Rightarrow> err_of (reshare_init env sessionType node r))"

definition reshare_sessions ::
  "('k, 'pt, 'r) consumer_env \<Rightarrow> SessionType \<Rightarrow> ('pt, 'r) SaveData run \<Rightarrow> ('pt, 'r) SaveData run \<Rightarrow>
   ResharingMessage \<Rightarrow> natsMsg \<Rightarrow> reshare option \<Rightarrow> reshare option \<Rightarrow> ('k, 'd, 'c, 'pp) node \<Rightarrow>
   (('k, 'd, 'c, 'pp) node \<times> consumer_effect list \<times> bool) outcome" where
  "reshare_sessions env sessionType ro rn msg natMsg oldSession newSession node =
     (case init_opt env sessionType node oldSession of
        Some e \<Rightarrow> Returns (node, reshare_fail msg natMsg e ''Failed to init old reshare session'', True)
      | None \<Rightarrow>
     (case init_opt env sessionType node newSession of
        Some e \<Rightarrow> Returns (node, reshare_fail msg natMsg e ''Failed to init new reshare session'', True)
      | None \<Rightarrow>
          (let old = map_option (\<lambda>r. (r, barrier env 0 (ListenToPeersAsync (cx_listen env)
                       (to_list (rs_NodeIDs msg)) (listen_all env (rh_session r))))) oldSession;
               new = map_option (\<lambda>r. (r, barrier env 1 (ListenToPeersAsync (cx_listen env)
                       (GetLegacyCommitteePeers r) (listen_all env (rh_session r))))) newSession;
               result = (\<lambda>x. case x of None \<Rightarrow> Inr () | Some (_, _, b) \<Rightarrow> b);
               sess = map_option (\<lambda>(r, s, _). (r, s))
           in case barrier_err env ''old committee: '' (result old) ''new committee: '' (result new) of
                Some e \<Rightarrow> Returns (node, reshare_fail msg natMsg e ''Peers not ready before resharing'', True)
              | None \<Rightarrow>
                  (case reshare_run_one env sessionType ro (sess old) node of
                     Aborts x \<Rightarrow> Aborts x
                   | Returns (node1, fx1, wo) \<Rightarrow>
                       (case reshare_run_one env sessionType rn (sess new) node1 of
                          Aborts x \<Rightarrow> Aborts x
                        | Returns (node2, fx2, wn) \<Rightarrow>
                            (case reshare_finish env msg natMsg wo wn of
                               (fx, returned) \<Rightarrow>
                                 Returns (node2, map SessionEffect (fx1 @ fx2) @ fx, returned)))))))"

definition consumeReshareEvent ::
  "('k, 'pt, 'r) consumer_env \<Rightarrow> ('pt, 'r) SaveData run \<Rightarrow> ('pt, 'r) SaveData run \<Rightarrow> natsMsg \<Rightarrow>
   ('k, 'd, 'c, 'pp) eventConsumer \<Rightarrow> (('k, 'd, 'c, 'pp) eventConsumer \<times> consumer_effect list \<times> bool) outcome" where
  "consumeReshareEvent env ro rn natMsg ec =
     (let cr = nt_crypto (cx_net env); store = nt_store (cx_net env) in
      case json_Unmarshal ResharingMessage_fields zero_ResharingMessage (nm_Data natMsg) of
        Inl e \<Rightarrow> Returns (ec, reshare_fail (Unmarshal_partial ResharingMessage_fields zero_ResharingMessage (nm_Data natMsg))
                   natMsg e ''Failed to unmarshal resharing message'', True)
      | Inr msg \<Rightarrow>
        (let fail = (\<lambda>e ctx. Returns (ec, reshare_fail msg natMsg e ctx, True));
             create = (\<lambda>i sessionType isNewPeer. CreateReshareSession (cx_sort env) (cx_uuid env i) (cx_uuid env (i + 1))
               (ec_node ec) sessionType (rs_WalletID msg) (rs_NewThreshold msg) (to_list (rs_NodeIDs msg)) isNewPeer)
         in if rs_SessionID msg = [] then fail (ENew ''validation: session ID is empty'') ''Session ID is empty''
            else
              (case VerifyInitiatorMessage cr store (Resharing msg) of
                 Aborts x \<Rightarrow> Aborts x
               | Returns (Inl e) \<Rightarrow> fail e ''Failed to verify initiator message''
               | Returns (Inr _) \<Rightarrow>
              (case AuthorizeInitiatorMessage cr store (Resharing msg) of
                 Aborts x \<Rightarrow> Aborts x
               | Returns (Inl e) \<Rightarrow> fail e ''Failed to authorize initiator message''
               | Returns (Inr _) \<Rightarrow>
              (case sessionTypeFromKeyType (rs_KeyType msg) of
                 Inl e \<Rightarrow> fail e ''Failed to get session type''
               | Inr sessionType \<Rightarrow>
              (case create 0 sessionType False of
                 Aborts x \<Rightarrow> Aborts x
               | Returns (Inl e) \<Rightarrow> fail e ''Failed to create old reshare session''
               | Returns (Inr oldSession) \<Rightarrow>
              (case create 2 sessionType True of
                 Aborts x \<Rightarrow> Aborts x
               | Returns (Inl e) \<Rightarrow> fail e ''Failed to create new reshare session''
               | Returns (Inr newSession) \<Rightarrow>
                   if oldSession = None \<and> newSession = None then Returns (ec, [], True)
                   else
                     (case reshare_sessions env sessionType ro rn msg natMsg (map_option fst oldSession)
                             (map_option fst newSession) (ec_node ec) of
                        Aborts x \<Rightarrow> Aborts x
                      | Returns (node, fx, returned) \<Rightarrow> Returns (ec\<lparr>ec_node := node\<rparr>, fx, returned)))))))))"

section \<open>Only authorized requests act\<close>

definition authorized :: "'k net \<Rightarrow> InitiatorMessage \<Rightarrow> bool" where
  "authorized nt msg \<longleftrightarrow>
     initiator_valid (nt_crypto nt) (fs_initiatorKey (nt_store nt)) (Raw msg) (sig_bytes (Sig msg)) \<and>
     (ac_Enabled (fs_authConfig (nt_store nt)) \<longrightarrow>
        set (ac_RequiredAuthorizers (fs_authConfig (nt_store nt))) \<subseteq> as_AuthorizerID ` set (GetAuthorizerSignatures msg) \<and>
        (\<forall>sig \<in> set (GetAuthorizerSignatures msg).
           authorizer_valid (nt_crypto nt) (fs_authConfig (nt_store nt)) (ComposeAuthorizerRaw msg) sig))"

definition keys_loaded :: "'k net \<Rightarrow> bool" where
  "keys_loaded nt \<longleftrightarrow> initiator_ok (nt_crypto nt) (fs_initiatorKey (nt_store nt)) \<and> auth_ok (nt_crypto nt) (nt_store nt)"

lemma authorized_iff:
  assumes "keys_loaded nt"
  shows "authorized nt msg \<longleftrightarrow>
    VerifyInitiatorMessage (nt_crypto nt) (nt_store nt) msg = Returns (Inr ()) \<and>
    AuthorizeInitiatorMessage (nt_crypto nt) (nt_store nt) msg = Returns (Inr ())"
proof -
  have "initiator_ok (nt_crypto nt) (fs_initiatorKey (nt_store nt))" and "auth_ok (nt_crypto nt) (nt_store nt)"
    using assms by (simp_all add: keys_loaded_def)
  from VerifyInitiatorMessage_iff [OF this(1), of msg] Authorize_iff [OF this(2), of msg]
  show ?thesis by (auto simp: authorized_def)
qed

lemma handleSigning_authorized:
  assumes "keys_loaded (cx_net env)" and "handleSigningEvent env rn m ec = Returns (ec', fx)"
    and "ec' \<noteq> ec \<or> fx \<noteq> []"
  shows "\<exists>msg. json_Unmarshal SignTxMessage_fields zero_SignTxMessage (nm_Data m) = Inr msg \<and>
    authorized (cx_net env) (SignTx msg)"
  using assms(2,3) authorized_iff [OF assms(1)]
  by (auto simp: handleSigningEvent_def Let_def split: sum.splits outcome.splits)

lemma error_results_only [simp]:
  "SessionEffect e \<notin> set (sendReplyToRemoveMsg m)"
  "SessionEffect e \<notin> set (handleKeygenSessionError w x c m)"
  "SessionEffect e \<notin> set (handleSigningSessionError w t n x c m)"
  "SessionEffect e \<notin> set (handleReshareSessionError i w kt th x c m)"
  by (auto simp: sendReplyToRemoveMsg_def handleKeygenSessionError_def handleSigningSessionError_def
      handleReshareSessionError_def Let_def)

lemma handleKeyGen_authorized:
  assumes "keys_loaded (cx_net env)" and "handleKeyGenEvent env re rd late m ec = Returns (ec', fx)"
    and "ec' \<noteq> ec \<or> (\<exists>e. SessionEffect e \<in> set fx)"
  shows "\<exists>msg. json_Unmarshal GenerateKeyMessage_fields zero_GenerateKeyMessage (nm_Data m) = Inr msg \<and>
    authorized (cx_net env) (GenerateKey msg)"
  using assms(2,3) authorized_iff [OF assms(1)]
  by (auto simp: handleKeyGenEvent_def Let_def
      split: sum.splits outcome.splits)

lemma consumeReshare_authorized:
  assumes "keys_loaded (cx_net env)" and "consumeReshareEvent env ro rn m ec = Returns (ec', fx, ret)"
    and "ec' \<noteq> ec \<or> (\<exists>e. SessionEffect e \<in> set fx)"
  shows "\<exists>msg. json_Unmarshal ResharingMessage_fields zero_ResharingMessage (nm_Data m) = Inr msg \<and>
    authorized (cx_net env) (Resharing msg) \<and> rs_SessionID msg \<noteq> []"
  using assms(2,3) authorized_iff [OF assms(1)]
  by (auto simp: consumeReshareEvent_def reshare_fail_def Let_def
      split: sum.splits outcome.splits if_splits)

section \<open>The guard against duplicates\<close>

lemma keygen_guard_released:
  assumes "handleKeyGenEvent env re rd late m ec = Returns (ec', fx)"
  shows "active_since (ec_table ec') = active_since (ec_table ec)"
proof -
  have "active_since (removeSession w x t') = active_since t" if "tryAddSession now w x t = (t', True)" for w x t t' now
  proof
    fix k
    have "active_since t (session_id w x) = None" using tab.granted_iff [of now w x t] that by simp
    then show "active_since (removeSession w x t') k = active_since t k"
      using tab.since_add [of now w x t k] that by (simp add: tab.since_remove)
  qed
  with assms show ?thesis
    by (auto simp: handleKeyGenEvent_def Let_def split: sum.splits outcome.splits prod.splits if_splits bool.splits)
qed

text \<open>
  A signing request keeps its entry in every branch: the same request is refused as a duplicate
  until a cleanup more than the timeout later.
\<close>

lemma handleSigning_holds:
  assumes "handleSigningEvent env rn m ec = Returns (ec', fx)"
    and "json_Unmarshal SignTxMessage_fields zero_SignTxMessage (nm_Data m) = Inr msg"
    and "keys_loaded (cx_net env)" and "authorized (cx_net env) (SignTx msg)"
  shows "active_since (ec_table ec') (session_id (st_WalletID msg) (st_TxID msg)) \<noteq> None \<and> ec_node ec' = ec_node ec"
proof -
  let ?t = "tryAddSession (cx_now env) (st_WalletID msg) (st_TxID msg) (ec_table ec)"
  have held: "active_since (fst ?t) (session_id (st_WalletID msg) (st_TxID msg)) \<noteq> None"
    by (simp add: tab.since_add)
  moreover have "fst ?t = ec_table ec" if "\<not> snd ?t"
    using that by (auto simp: tryAddSession_def Let_def split: option.splits)
  ultimately show ?thesis
    using assms authorized_iff [OF assms(3)]
    by (cases ?t) (auto simp: handleSigningEvent_def Let_def split: sum.splits outcome.splits bool.splits)
qed

lemma handleSigning_duplicate:
  assumes "json_Unmarshal SignTxMessage_fields zero_SignTxMessage (nm_Data m) = Inr msg"
    and "keys_loaded (cx_net env)" and "authorized (cx_net env) (SignTx msg)"
    and "active_since (ec_table ec) (session_id (st_WalletID msg) (st_TxID msg)) \<noteq> None"
  shows "handleSigningEvent env rn m ec = Returns (ec,
    handleSigningSessionError (st_WalletID msg) (st_TxID msg) (st_NetworkInternalCode msg)
      (ENew (''duplicate signing request detected for walletID='' @ st_WalletID msg @ '' txID='' @ st_TxID msg))
      ''Duplicate session'' m)"
proof -
  obtain t g where t: "tryAddSession (cx_now env) (st_WalletID msg) (st_TxID msg) (ec_table ec) = (t, g)"
    by fastforce
  then have "g = False" using tab.granted_iff assms(4) by (metis snd_conv)
  with t assms authorized_iff [OF assms(2)] show ?thesis
    by (simp add: handleSigningEvent_def Let_def)
qed

section \<open>Results go to the requester\<close>

definition requested_wallet :: "natsMsg \<Rightarrow> string" where
  "requested_wallet m =
     (case json_Unmarshal GenerateKeyMessage_fields zero_GenerateKeyMessage (nm_Data m) of
        Inr msg \<Rightarrow> gk_WalletID msg
      | Inl _ \<Rightarrow> gk_WalletID (Unmarshal_partial GenerateKeyMessage_fields zero_GenerateKeyMessage (nm_Data m)))"

text \<open>The resharing request of a message, with the fields that were read before an error.\<close>

definition requested_reshare :: "natsMsg \<Rightarrow> ResharingMessage" where
  "requested_reshare m =
     (case json_Unmarshal ResharingMessage_fields zero_ResharingMessage (nm_Data m) of
        Inr msg \<Rightarrow> msg
      | Inl _ \<Rightarrow> Unmarshal_partial ResharingMessage_fields zero_ResharingMessage (nm_Data m))"

definition keygen_addressed :: "natsMsg \<Rightarrow> string \<Rightarrow> consumer_effect \<Rightarrow> bool" where
  "keygen_addressed m w e =
     (case e of
        ResultEnqueue subject _ idem \<Rightarrow>
          subject = KeygenResultSubject (clientID_of m) w \<and> idem = composeKeygenIdempotentKey w m
      | ReplyPublish inbox payload \<Rightarrow> inbox = nm_Reply m \<and> payload = nm_Data m
      | SessionEffect _ \<Rightarrow> True)"

lemma keygen_addressed_simps [simp]:
  "e \<in> set (sendReplyToRemoveMsg m) \<Longrightarrow> keygen_addressed m w e"
  "e \<in> set (handleKeygenSessionError w x c m) \<Longrightarrow> keygen_addressed m w e"
  "e \<in> set (watch_effects w c m v) \<Longrightarrow> keygen_addressed m w e"
  "keygen_addressed m w (SessionEffect f)"
  "keygen_addressed m w (ResultEnqueue (KeygenResultSubject (clientID_of m) w) p (composeKeygenIdempotentKey w m))"
  by (auto simp: keygen_addressed_def sendReplyToRemoveMsg_def handleKeygenSessionError_def watch_effects_def
      Let_def split: if_splits watch.splits)

lemma keygen_finish_addressed:
  "keygen_finish env late w m we wd node = (node', fx) \<Longrightarrow> e \<in> set fx \<Longrightarrow> keygen_addressed m w e"
  by (auto simp: keygen_finish_def Let_def split: if_splits sum.splits option.splits)

lemma keygen_sessions_addressed:
  "keygen_sessions env re rd late th w m node = Returns (node', fx) \<Longrightarrow> e \<in> set fx \<Longrightarrow> keygen_addressed m w e"
  by (auto simp: keygen_sessions_def keygen_run_def Let_def dest: keygen_finish_addressed
      split: sum.splits option.splits outcome.splits prod.splits)

lemma handleKeyGen_addressed:
  "handleKeyGenEvent env re rd late m ec = Returns (ec', fx) \<Longrightarrow> e \<in> set fx \<Longrightarrow>
   keygen_addressed m (requested_wallet m) e"
  by (auto simp: handleKeyGenEvent_def requested_wallet_def Let_def dest: keygen_sessions_addressed
      split: sum.splits option.splits outcome.splits prod.splits if_splits bool.splits)

section \<open>Published signatures verify\<close>

definition signing_fill :: "SessionType \<Rightarrow> SignatureData \<Rightarrow> SigningResultEvent \<Rightarrow> SigningResultEvent" where
  "signing_fill t sig r =
     (if t = SessionTypeECDSA
      then r\<lparr>sr_R := sd_R sig, sr_S := sd_S sig, sr_SignatureRecovery := sd_SignatureRecovery sig\<rparr>
      else r\<lparr>sr_Signature := sd_Signature sig\<rparr>)"

definition curve_of :: "('k, 'pt, 'r) consumer_env \<Rightarrow> SessionType \<Rightarrow> ('pt, 'r) curve_env" where
  "curve_of env t = (if t = SessionTypeECDSA then cx_ecdsa env else cx_eddsa env)"

lemma barrier_frame: "barrier env i s = (s', r) \<Longrightarrow> session_frame s s'"
  by (auto simp: barrier_def WaitForPeersReady_def session_frame_def Let_def split: option.splits prod.splits)

lemma subscribe_frame: "session_frame s (subscribeFromPeersAsync l ps s)"
proof (induction ps arbitrary: s)
  case (Cons p ps)
  show ?case
    using session_frame_trans [OF _ Cons.IH]
    by (auto simp: Let_def session_frame_def sendErr_def split: option.splits)
qed simp

lemma listen_frame: "session_frame s (listen_all env s)"
proof -
  have "session_frame s (subscribeBroadcastAsync f s)" for f
    by (auto simp: subscribeBroadcastAsync_def session_frame_def sendErr_def Let_def split: option.splits)
  then show ?thesis
    unfolding listen_all_def ListenToIncomingMessageAsync_def using session_frame_trans subscribe_frame by blast
qed

lemma signing_run_enqueue:
  assumes "signing_run env rn t msg m sg node = Returns fx" and "SessionEffect (Enqueue topic r k) \<in> set fx"
  shows "\<exists>sig d p tx. PartyEnd sig \<in> set (rn_events rn) \<and> sg_data sg = Some d \<and> sd_Pub d = Some p \<and> sg_tx sg = Some tx \<and>
    cu_verify (curve_of env t) p (nat_be tx) (be_nat (sd_R sig)) (be_nat (sd_S sig)) \<and>
    r = signing_fill t sig (success_event sg) \<and>
    topic = ss_resultTopic (sg_session sg) \<and> k = ss_idempotentKey (sg_session sg)"
proof -
  obtain s b where b: "barrier env 0 (listen_all env (sg_session sg)) = (s, b)" by fastforce
  let ?w = "\<lparr>wd_session = s, wd_kv = nd_kv node, wd_ki = nd_ki node\<rparr>"
  from assms b obtain w es c where
    l: "session_loop (cx_net env) sendErr True
      (signing_end (cu_verify (curve_of env t)) (cx_enqueue env) (signing_fill t) sg) (rn_events rn) ?w = Returns (w, es, c)"
    and e: "Enqueue topic r k \<in> set es"
    by (auto simp: signing_run_def Let_def ecdsa_Sign_def eddsa_Sign_def curve_of_def signing_fill_def [abs_def]
        split: sum.splits outcome.splits if_splits watch.splits)
  from session_loop_effects [OF l e] obtain sig w0 es0 where
    x: "PartyEnd sig \<in> set (rn_events rn)" "Enqueue topic r k \<in> set es0" "session_frame s (wd_session w0)"
    and "signing_end (cu_verify (curve_of env t)) (cx_enqueue env) (signing_fill t) sg sig w0 = Returns (w, es0, c)"
    by auto
  from signing_end_enqueue [OF this(4) x(2)] x session_frame_trans [OF listen_frame barrier_frame [OF b]]
  show ?thesis by (auto simp: session_frame_def)
qed

text \<open>The stored share a signing request resolves to, through the key information of the wallet.\<close>

definition stored_share ::
  "('k, 'pt, 'r) consumer_env \<Rightarrow> SessionType \<Rightarrow> ('k, 'd, 'c, 'pp) node \<Rightarrow> string \<Rightarrow> ('pt, 'r) SaveData res" where
  "stored_share env t node w =
     bind_res (getKeyInfo node t w) (\<lambda>info.
       bind_res (kv_Get (nd_kv node) (composeKey (signing_kind t w []) (walletIDWithVersion w (ki_Version info))))
         (cu_unmarshal (curve_of env t)))"

lemma signing_kind_key: "composeKey (signing_kind t w x) k = composeKey (signing_kind t w y) k"
  by (cases t) simp_all

lemma signing_key_info:
  "getKeyInfo p t w = Inr info \<Longrightarrow> keyinfo_Get (nd_ki p) (composeKey (signing_kind t w x) w) = Inr info"
  by (cases t) (auto simp: getKeyInfo_def)

lemma sign_init_ok:
  assumes "CreateSigningSession S u p t w x n rt path ik = Returns (Inr sg)"
    and "sign_init env t msg sg p = Returns (Inr sg')"
  shows "\<exists>d d'. stored_share env t p w = Inr d \<and> sg_data sg' = Some d' \<and>
    sg_tx sg' = Some (be_nat (to_list (st_Tx msg))) \<and>
    (path = [] \<longrightarrow> d' = d) \<and>
    (path \<noteq> [] \<longrightarrow> (\<exists>c il child. nd_ckd p = Some c \<and> Derive (cu_ops (curve_of env t)) c (sd_Pub d) path = Inr (il, child) \<and>
       UpdateSinglePublicKeyAndAdjustBigXj (cu_ops (curve_of env t)) il (Some d) child = Inr d'))"
proof -
  from CreateSigningSession_ok [OF assms(1)] obtain info self all ps where info: "getKeyInfo p t w = Inr info"
    and sg: "sg = newSigningSession (signing_kind t w x) w x n rt ps self all (ki_Threshold info) path ik (nd_ckd p)"
    by metis
  have f: "ss_kind (sg_session sg) = signing_kind t w x" "ss_walletID (sg_session sg) = w"
    "sg_derivationPath sg = path" "sg_ckd sg = nd_ckd p"
    by (simp_all add: sg newSigningSession_def base_session_def)
  have ini: "signing_Init (cu_ops (curve_of env t)) (cx_intersect env) (cu_unmarshal (curve_of env t))
      (nd_ki p) (nd_kv p) (be_nat (to_list (st_Tx msg))) sg = Returns (Inr sg')"
    using assms(2) by (simp add: sign_init_def curve_of_def ecdsa_signing_Init_def eddsa_signing_Init_def
        Let_def split: if_splits)
  from signing_Init_ok [OF ini] signing_key_info [OF info, of x] obtain share d where
    d: "kv_Get (nd_kv p) (share_key (sg_session sg) (ki_Version info)) = Inr share"
    "cu_unmarshal (curve_of env t) share = Inr d" "sg_tx sg' = Some (be_nat (to_list (st_Tx msg)))"
    and data: "if path = [] then sg_data sg' = Some d \<and> sg_delta sg' = None
     else \<exists>c il child data'. nd_ckd p = Some c \<and>
       Derive (cu_ops (curve_of env t)) c (sd_Pub d) path = Inr (il, child) \<and>
       UpdateSinglePublicKeyAndAdjustBigXj (cu_ops (curve_of env t)) il (Some d) child = Inr data' \<and>
       sg_data sg' = Some data' \<and> sg_delta sg' = Some il"
    unfolding f by auto
  have "stored_share env t p w = Inr d"
    using d(1,2) info by (simp add: stored_share_def share_key_def f signing_kind_key [of t w "[]" _ x])
  with d(3) data show ?thesis by (cases "path = []") auto
qed

lemma Update_pub:
  "UpdateSinglePublicKeyAndAdjustBigXj cv delta (Some k) child = Inr k' \<Longrightarrow> \<exists>p. child = Some p \<and> sd_Pub k' = Some p"
  by (auto simp: UpdateSinglePublicKeyAndAdjustBigXj_def split: option.splits sum.splits)

text \<open>
  The public key that belongs to a stored share and a derivation path: that of the share, or the child
  that the chain code of the node and the path derive from it.
\<close>

definition signing_key ::
  "('k, 'pt, 'r) consumer_env \<Rightarrow> SessionType \<Rightarrow> ('k, 'd, 'c, 'pp) node \<Rightarrow> ('pt, 'r) SaveData \<Rightarrow> 32 word list \<Rightarrow> 'pt option" where
  "signing_key env t node d path =
     (if path = [] then sd_Pub d
      else (case nd_ckd node of
              None \<Rightarrow> None
            | Some c \<Rightarrow> (case Derive (cu_ops (curve_of env t)) c (sd_Pub d) path of Inl e \<Rightarrow> None | Inr (il, child) \<Rightarrow> child)))"

lemma sign_init_key:
  assumes "CreateSigningSession S u p t w x n rt path ik = Returns (Inr sg)"
    and "sign_init env t msg sg p = Returns (Inr sg')"
  shows "\<exists>d d'. stored_share env t p w = Inr d \<and> sg_data sg' = Some d' \<and>
    sg_tx sg' = Some (be_nat (to_list (st_Tx msg))) \<and> signing_key env t p d path = sd_Pub d'"
proof -
  from sign_init_ok [OF assms] obtain d d' where d: "stored_share env t p w = Inr d" "sg_data sg' = Some d'"
    "sg_tx sg' = Some (be_nat (to_list (st_Tx msg)))" "path = [] \<longrightarrow> d' = d"
    "path \<noteq> [] \<longrightarrow> (\<exists>c il child. nd_ckd p = Some c \<and> Derive (cu_ops (curve_of env t)) c (sd_Pub d) path = Inr (il, child) \<and>
       UpdateSinglePublicKeyAndAdjustBigXj (cu_ops (curve_of env t)) il (Some d) child = Inr d')" by blast
  have "signing_key env t p d path = sd_Pub d'"
    using d(4,5) Update_pub [of "cu_ops (curve_of env t)" _ d _ d'] by (cases "path = []") (fastforce simp: signing_key_def)+
  with d show ?thesis by blast
qed

lemma sign_init_frame:
  "sign_init env t msg sg p = Returns (Inr sg') \<Longrightarrow>
   ss_resultTopic (sg_session sg') = ss_resultTopic (sg_session sg) \<and>
   ss_idempotentKey (sg_session sg') = ss_idempotentKey (sg_session sg) \<and>
   success_event sg' = success_event sg"
  by (auto simp: sign_init_def ecdsa_signing_Init_def eddsa_signing_Init_def signing_Init_def success_event_def Let_def
      split: if_splits sum.splits option.splits prod.splits)

lemma handleSigning_published:
  assumes "keys_loaded (cx_net env)" and "handleSigningEvent env rn m ec = Returns (ec', fx)"
    and "SessionEffect (Enqueue topic r k) \<in> set fx"
  shows "\<exists>msg t d p sig. json_Unmarshal SignTxMessage_fields zero_SignTxMessage (nm_Data m) = Inr msg \<and>
    authorized (cx_net env) (SignTx msg) \<and> sessionTypeFromKeyType (st_KeyType msg) = Inr t \<and>
    stored_share env t (ec_node ec) (st_WalletID msg) = Inr d \<and>
    signing_key env t (ec_node ec) d (st_DerivationPath msg) = Some p \<and>
    cu_verify (curve_of env t) p (nat_be (be_nat (to_list (st_Tx msg)))) (be_nat (sd_R sig)) (be_nat (sd_S sig)) \<and>
    r = signing_fill t sig \<lparr>sr_ResultType = ResultTypeSuccess, sr_ErrorCode = NoErrorCode, sr_ErrorReason = [],
      sr_IsTimeout = False, sr_NetworkInternalCode = st_NetworkInternalCode msg, sr_WalletID = st_WalletID msg,
      sr_TxID = st_TxID msg, sr_R = [], sr_S = [], sr_SignatureRecovery = [], sr_Signature = []\<rparr> \<and>
    topic = SigningResultSubject (clientID_of m) \<and> k = composeSigningIdempotentKey (st_TxID msg) m"
proof -
  have "fx \<noteq> []" using assms(3) by auto
  with handleSigning_authorized [OF assms(1,2)] obtain msg where
    msg: "json_Unmarshal SignTxMessage_fields zero_SignTxMessage (nm_Data m) = Inr msg"
    and auth: "authorized (cx_net env) (SignTx msg)" by blast
  from assms(2,3) msg auth authorized_iff [OF assms(1)] obtain t sg sg' where
    t: "sessionTypeFromKeyType (st_KeyType msg) = Inr t"
    and sg: "sign_session env (Inr t) msg m (ec_node ec) = Returns (Inr sg)"
    and sg': "sign_init env t msg sg (ec_node ec) = Returns (Inr sg')"
    and run: "signing_run env rn t msg m sg' (ec_node ec) = Returns fx"
    by (auto simp: handleSigningEvent_def Let_def simp del: sessionTypeFromKeyType.simps
        split: sum.splits outcome.splits prod.splits bool.splits if_splits)
  let ?client = "SigningResultSubject (clientID_of m)" and ?ik = "composeSigningIdempotentKey (st_TxID msg) m"
  from sg have c: "CreateSigningSession (cx_sort env) (cx_uuid env 0) (ec_node ec) t (st_WalletID msg) (st_TxID msg)
      (st_NetworkInternalCode msg) ?client (st_DerivationPath msg) ?ik = Returns (Inr sg)"
    by (simp add: sign_session_def)
  have f: "ss_resultTopic (sg_session sg) = ?client" "ss_idempotentKey (sg_session sg) = ?ik"
    "success_event sg = \<lparr>sr_ResultType = ResultTypeSuccess, sr_ErrorCode = NoErrorCode, sr_ErrorReason = [],
      sr_IsTimeout = False, sr_NetworkInternalCode = st_NetworkInternalCode msg, sr_WalletID = st_WalletID msg,
      sr_TxID = st_TxID msg, sr_R = [], sr_S = [], sr_SignatureRecovery = [], sr_Signature = []\<rparr>"
    by (rule CreateSigningSession_ok [OF c]; simp add: newSigningSession_def base_session_def success_event_def)+
  note fr = sign_init_frame [OF sg']
  from signing_run_enqueue [OF run assms(3)] obtain sig d' p where
    e: "sg_data sg' = Some d'" "sd_Pub d' = Some p"
      "r = signing_fill t sig (success_event sg)" "topic = ?client" "k = ?ik"
    and v: "cu_verify (curve_of env t) p (nat_be (the (sg_tx sg'))) (be_nat (sd_R sig)) (be_nat (sd_S sig))"
    using fr f by auto
  from sign_init_key [OF c sg'] e(1,2) obtain d where
    d: "stored_share env t (ec_node ec) (st_WalletID msg) = Inr d"
      "signing_key env t (ec_node ec) d (st_DerivationPath msg) = Some p"
    and tx: "sg_tx sg' = Some (be_nat (to_list (st_Tx msg)))" by auto
  have v': "cu_verify (curve_of env t) p (nat_be (be_nat (to_list (st_Tx msg)))) (be_nat (sd_R sig)) (be_nat (sd_S sig))"
    using v tx by simp
  show ?thesis
    by (rule exI [of _ msg], rule exI [of _ t], rule exI [of _ d], rule exI [of _ p], rule exI [of _ sig])
      (use msg auth t d e v' f(3) in \<open>simp del: sessionTypeFromKeyType.simps\<close>)
qed

end
