(* ===== verification/Stream_Consumers.thy ===== *)
theory Stream_Consumers
  imports Messaging Client Event_Consumer
begin

text \<open>
  \<^verbatim>\<open>pkg/eventconsumer/sign_consumer.go\<close>, \<^verbatim>\<open>keygen_consumer.go\<close> and \<^verbatim>\<open>timeout_consumer.go\<close>: the
  consumers of the JetStream requests. One waits until the cluster is ready, then forwards each
  request to the event consumers with a reply inbox, polls the inbox, and settles the message of
  the stream; the timeout consumer turns a request that was delivered too often into an error
  result.

  The inbox is \<open>sn_next\<close>, the outcome of the \<open>i\<close>-th call of \<^verbatim>\<open>NextMsg\<close>, and \<open>sn_clock\<close>, the time read
  by the \<open>i\<close>-th test of the loop; the poll loop is a \<^theory_text>\<open>partial_function\<close>, because nothing in the
  code bounds it but the clock.
\<close>

section \<open>Constants\<close>

definition signingResponseTimeout :: int where "signingResponseTimeout = 45 * Second"
definition signingPollingInterval :: int where "signingPollingInterval = 500 * Millisecond"
definition readinessCheckInterval :: int where "readinessCheckInterval = 2 * Second"
definition keygenResponseTimeout :: int where "keygenResponseTimeout = 45 * Second"
definition keygenPollingInterval :: int where "keygenPollingInterval = 500 * Millisecond"

definition MPCGenerateEvent :: string where "MPCGenerateEvent = ''mpc:generate''"
definition MPCSignEvent :: string where "MPCSignEvent = ''mpc:sign''"

definition SigningPublisherStream :: string where "SigningPublisherStream = ''mpc-signing''"
definition SigningConsumerStream :: string where "SigningConsumerStream = ''mpc-signing-consumer''"
definition KeygenConsumerStream :: string where "KeygenConsumerStream = ''mpc-keygen-consumer''"

section \<open>Waiting for the reply\<close>

datatype poll = PollMsg | PollNil | PollTimeout | PollErr gerror

datatype stream_effect =
    Settle settlement
  | InProgress
  | NatsCalls "nats_call list"
  | StreamEnqueue string bytes string
  | UnsubscribeInbox

record 'k stream_env =
  sn_registry :: "'k registry"
  sn_newInbox :: string
  sn_uuid :: string
  sn_subscribeSync :: "gerror option"
  sn_publish :: "out_msg \<Rightarrow> gerror option"
  sn_next :: "nat \<Rightarrow> poll"
  sn_now :: int
  sn_clock :: "nat \<Rightarrow> int"

partial_function (option) poll_reply ::
  "(nat \<Rightarrow> poll) \<Rightarrow> (nat \<Rightarrow> int) \<Rightarrow> int \<Rightarrow> nat \<Rightarrow> stream_effect list option" where
  "poll_reply nxt clock deadline i =
     (if clock i < deadline then
        (case nxt i of
           PollMsg \<Rightarrow> Some [Settle Ack]
         | PollErr e \<Rightarrow> Some [Settle Nak]
         | PollTimeout \<Rightarrow>
             Option.bind (poll_reply nxt clock deadline (Suc i)) (\<lambda>fx. Some (InProgress # fx))
         | PollNil \<Rightarrow> poll_reply nxt clock deadline (Suc i))
      else Some [Settle Nak])"

definition forwarded_headers :: "string \<Rightarrow> string \<Rightarrow> header" where
  "forwarded_headers uuid clientID =
     (let headers = [(''SessionID'', uuid)] in
      if clientID \<noteq> [] then AList.update ClientIDHeader clientID headers else headers)"

text \<open>
  The part that both consumers share: the reply inbox, the request forwarded to \<open>topic\<close>, the
  poll loop. The deferred unsubscription runs on every way out once the inbox exists.
\<close>

definition forward_request ::
  "'k stream_env \<Rightarrow> string \<Rightarrow> int \<Rightarrow> natsMsg \<Rightarrow> stream_effect list option" where
  "forward_request env topic timeout msg =
     (case sn_subscribeSync env of
        Some e \<Rightarrow> Some [Settle Nak]
      | None \<Rightarrow>
          (let headers = forwarded_headers (sn_uuid env) (clientID_of msg) in
           case PublishWithReply (sn_publish env) topic (sn_newInbox env) (nm_Data msg) headers of
             (Inl e, calls) \<Rightarrow> Some [NatsCalls calls, Settle Nak, UnsubscribeInbox]
           | (Inr _, calls) \<Rightarrow>
               Option.bind (poll_reply (sn_next env) (sn_clock env) (sn_now env + timeout) 0)
                 (\<lambda>fx. Some (NatsCalls calls # fx @ [UnsubscribeInbox]))))"

definition buildIdempotentKey :: "string \<Rightarrow> string \<Rightarrow> string \<Rightarrow> string \<Rightarrow> string" where
  "buildIdempotentKey baseID clientID sessionID fmt_prefix =
     (let uniqueKey = (if sessionID \<noteq> [] then baseID @ '':'' @ sessionID else baseID)
      in fmt_prefix @ ScopedOperationID clientID uniqueKey)"

section \<open>The signing consumer\<close>

record signingConsumer =
  sc_mpcThreshold :: int

definition NewSigningConsumer :: "(string \<Rightarrow> int) \<Rightarrow> signingConsumer" where
  "NewSigningConsumer viper = \<lparr>sc_mpcThreshold = viper ''mpc_threshold''\<rparr>"

definition sc_handleSigningError ::
  "SignTxMessage \<Rightarrow> ErrorCode \<Rightarrow> gerror \<Rightarrow> string \<Rightarrow> string \<Rightarrow> stream_effect list" where
  "sc_handleSigningError signMsg errorCode err sessionID clientID =
     (let signingResult = \<lparr>sr_ResultType = ResultTypeError, sr_ErrorCode = errorCode,
            sr_ErrorReason = Error err, sr_IsTimeout = False,
            sr_NetworkInternalCode = st_NetworkInternalCode signMsg, sr_WalletID = st_WalletID signMsg,
            sr_TxID = st_TxID signMsg, sr_R = [], sr_S = [], sr_SignatureRecovery = [], sr_Signature = []\<rparr>
      in [StreamEnqueue (SigningResultSubject clientID) (json_Marshal (enc_SigningResultEvent signingResult))
            (buildIdempotentKey (st_TxID signMsg) clientID sessionID ''mpc.mpc_signing_result.'')])"

definition sc_handleSigningEvent ::
  "signingConsumer \<Rightarrow> 'k stream_env \<Rightarrow> natsMsg \<Rightarrow> stream_effect list option" where
  "sc_handleSigningEvent sc env msg =
     (let sessionID = nm_Header msg ''SessionID''; clientID = clientID_of msg in
      case json_Unmarshal SignTxMessage_fields zero_SignTxMessage (nm_Data msg) of
        Inl err \<Rightarrow>
          Some (sc_handleSigningError (Unmarshal_partial SignTxMessage_fields zero_SignTxMessage (nm_Data msg))
            ErrorCodeUnmarshalFailure err sessionID clientID @ [Settle Ack])
      | Inr signingMsg \<Rightarrow>
          if \<not> AreMajorityReady (sn_registry env) then
            Some (sc_handleSigningError signingMsg ErrorCodeNotMajority
              (ENew (''not enough peers to process signing request: ready='' @
                itoa (GetReadyPeersCount (sn_registry env)) @ '', required='' @ itoa (sc_mpcThreshold sc + 1)))
              sessionID clientID @ [Settle Ack])
          else forward_request env MPCSignEvent signingResponseTimeout msg)"

text \<open>
  The loop before consuming: one event is a tick of the timer, with the registry it finds, or
  the end of the context. \<open>None\<close> is a loop that still waits after the given events.
\<close>

definition context_Canceled :: string where "context_Canceled = ''context canceled''"

datatype 'k wait_event = CtxDone gerror | Tick "'k registry"

fun waitForSufficientPeers :: "int \<Rightarrow> 'k wait_event list \<Rightarrow> unit res option" where
  "waitForSufficientPeers mpcThreshold [] = None"
| "waitForSufficientPeers mpcThreshold (CtxDone e # evs) =
     Some (if e = ESentinel context_Canceled then Inr () else Inl e)"
| "waitForSufficientPeers mpcThreshold (Tick r # evs) =
     (if GetReadyPeersCount r \<ge> mpcThreshold + 1 then Some (Inr ())
      else waitForSufficientPeers mpcThreshold evs)"

text \<open>
  \<^verbatim>\<open>Close\<close> with the subscription, if any; \<open>unsubscribe\<close> is the answer of taking it back. In
  \<^verbatim>\<open>Run\<close>, \<open>ctxErr\<close> is the error of the context when the subscription fails or else when it ends,
  \<open>None\<close> when it never ends.
\<close>

definition sc_Close :: "gerror option \<Rightarrow> string option \<Rightarrow> unit res" where
  "sc_Close unsubscribe jsSub =
     (case jsSub of
        None \<Rightarrow> Inr ()
      | Some _ \<Rightarrow> (case unsubscribe of Some e \<Rightarrow> Inl e | None \<Rightarrow> Inr ()))"

definition sc_Run ::
  "jetstream \<Rightarrow> brokerConfiguration \<Rightarrow> gerror option \<Rightarrow> gerror option \<Rightarrow> signingConsumer \<Rightarrow> 'k wait_event list \<Rightarrow>
   unit res option \<times> nats_call list" where
  "sc_Run js cfg ctxErr unsubscribe sc evs =
     (case waitForSufficientPeers (sc_mpcThreshold sc) evs of
        None \<Rightarrow> (None, [])
      | Some (Inl err) \<Rightarrow>
          (Some (if err = ESentinel context_Canceled then Inr ()
                 else Inl (EWrap ''failed to wait for sufficient peers: '' err [])), [])
      | Some (Inr _) \<Rightarrow>
          (case CreateSubscription js cfg SigningConsumerStream SigningRequestTopic of
             (Inl err, calls) \<Rightarrow>
               (Some (if ctxErr = Some (ESentinel context_Canceled) then Inr ()
                      else Inl (EWrap ''failed to subscribe to signing events: '' err [])), calls)
           | (Inr sub, calls) \<Rightarrow>
               (case ctxErr of None \<Rightarrow> None | Some _ \<Rightarrow> Some (sc_Close unsubscribe (Some sub)), calls)))"

section \<open>The key generation consumer\<close>

definition kc_handleKeygenError ::
  "GenerateKeyMessage \<Rightarrow> ErrorCode \<Rightarrow> gerror \<Rightarrow> string \<Rightarrow> string \<Rightarrow> stream_effect list" where
  "kc_handleKeygenError keygenMsg errorCode err sessionID clientID =
     (let keygenResult = \<lparr>kr_WalletID = gk_WalletID keygenMsg, kr_ECDSAPubKey = [], kr_EDDSAPubKey = [],
            kr_ResultType = ResultTypeError, kr_ErrorReason = Error err, kr_ErrorCode = errorCode\<rparr>;
          topic = KeygenResultSubject clientID (kr_WalletID keygenResult)
      in [StreamEnqueue topic (json_Marshal (enc_KeygenResultEvent keygenResult))
            (buildIdempotentKey (gk_WalletID keygenMsg) clientID sessionID ''mpc.mpc_keygen_result.'')])"

definition kc_handleKeygenEvent :: "'k stream_env \<Rightarrow> natsMsg \<Rightarrow> stream_effect list option" where
  "kc_handleKeygenEvent env msg =
     (let sessionID = nm_Header msg ''SessionID''; clientID = clientID_of msg in
      case json_Unmarshal GenerateKeyMessage_fields zero_GenerateKeyMessage (nm_Data msg) of
        Inl err \<Rightarrow>
          Some (kc_handleKeygenError (Unmarshal_partial GenerateKeyMessage_fields zero_GenerateKeyMessage (nm_Data msg))
            ErrorCodeUnmarshalFailure err sessionID clientID @ [Settle Ack])
      | Inr keygenMsg \<Rightarrow>
          if \<not> ArePeersReady (sn_registry env) then
            Some (kc_handleKeygenError keygenMsg ErrorCodeClusterNotReady (ENew ''not all peers are ready'')
              sessionID clientID @ [Settle Ack])
          else forward_request env MPCGenerateEvent keygenResponseTimeout msg)"

fun waitForAllPeersReadyToGenKey :: "'k wait_event list \<Rightarrow> unit res option" where
  "waitForAllPeersReadyToGenKey [] = None"
| "waitForAllPeersReadyToGenKey (CtxDone e # evs) =
     Some (if e = ESentinel context_Canceled then Inr () else Inl e)"
| "waitForAllPeersReadyToGenKey (Tick r # evs) =
     (if ArePeersReady r then Some (Inr ()) else waitForAllPeersReadyToGenKey evs)"

definition kc_Close :: "gerror option \<Rightarrow> string option \<Rightarrow> unit res" where
  "kc_Close unsubscribe jsSub =
     (case jsSub of
        None \<Rightarrow> Inr ()
      | Some _ \<Rightarrow> (case unsubscribe of Some e \<Rightarrow> Inl e | None \<Rightarrow> Inr ()))"

definition kc_Run ::
  "jetstream \<Rightarrow> brokerConfiguration \<Rightarrow> gerror option \<Rightarrow> gerror option \<Rightarrow> 'k wait_event list \<Rightarrow>
   unit res option \<times> nats_call list" where
  "kc_Run js cfg ctxErr unsubscribe evs =
     (case waitForAllPeersReadyToGenKey evs of
        None \<Rightarrow> (None, [])
      | Some (Inl err) \<Rightarrow>
          (Some (if err = ESentinel context_Canceled then Inr ()
                 else Inl (EWrap ''failed to wait for sufficient peers: '' err [])), [])
      | Some (Inr _) \<Rightarrow>
          (case CreateSubscription js cfg KeygenConsumerStream KeygenRequestTopic of
             (Inl err, calls) \<Rightarrow>
               (Some (if ctxErr = Some (ESentinel context_Canceled) then Inr ()
                      else Inl (EWrap ''failed to subscribe to keygen events: '' err [])), calls)
           | (Inr sub, calls) \<Rightarrow>
               (case ctxErr of None \<Rightarrow> None | Some _ \<Rightarrow> Some (kc_Close unsubscribe (Some sub)), calls)))"

section \<open>The timeout consumer\<close>

definition maxDeliveriesExceededSubject :: string where
  "maxDeliveriesExceededSubject = ''$JS.EVENT.ADVISORY.CONSUMER.MAX_DELIVERIES.>''"

record advisory =
  av_Stream :: string
  av_StreamSeq :: nat

definition set_uint64 :: "(nat \<Rightarrow> 'r \<Rightarrow> 'r) \<Rightarrow> json \<Rightarrow> 'r \<Rightarrow> 'r option" where
  "set_uint64 upd v r = (case v of JNull \<Rightarrow> Some r
     | JNum l \<Rightarrow> if l \<noteq> [] \<and> list_all is_digit l \<and> digits_value l < 2 ^ 64 then Some (upd (digits_value l) r) else None
     | _ \<Rightarrow> None)"

definition advisory_fields :: "advisory field list" where
  "advisory_fields =
     [(''stream'', set_string (\<lambda>s a. a\<lparr>av_Stream := s\<rparr>)),
      (''stream_seq'', set_uint64 (\<lambda>n a. a\<lparr>av_StreamSeq := n\<rparr>))]"

text \<open>
  The callback of the subscription to the advisories; \<open>JetStream\<close> answers whether the library has
  a JetStream context, \<open>GetMsg\<close> is its lookup of a stored message.
\<close>

definition tc_advisory ::
  "gerror option \<Rightarrow> (string \<Rightarrow> nat \<Rightarrow> natsMsg res) \<Rightarrow> bytes \<Rightarrow> stream_effect list outcome" where
  "tc_advisory JetStream GetMsg data =
     (case json_Unmarshal advisory_fields \<lparr>av_Stream = [], av_StreamSeq = 0\<rparr> data of
        Inl e \<Rightarrow> Returns []
      | Inr advisory \<Rightarrow>
          if av_Stream advisory \<noteq> SigningPublisherStream then Returns []
          else if JetStream \<noteq> None then Aborts nil_deref
          else
            (case GetMsg (av_Stream advisory) (av_StreamSeq advisory) of
               Inl e \<Rightarrow> Returns []
             | Inr failedMsg \<Rightarrow>
                 (case json_Unmarshal SigningResultEvent_fields zero_SigningResultEvent (nm_Data failedMsg) of
                    Inl e \<Rightarrow> Returns []
                  | Inr r \<Rightarrow>
                      (let clientID = clientID_of failedMsg;
                           signErrorResult = r\<lparr>sr_ResultType := ResultTypeError,
                             sr_ErrorCode := ErrorCodeMaxDeliveryAttempts, sr_IsTimeout := True,
                             sr_ErrorReason := ''Signing failed: maximum delivery attempts exceeded''\<rparr>
                       in Returns [StreamEnqueue (SigningResultSubject clientID)
                            (json_Marshal (enc_SigningResultEvent signErrorResult))
                            (''mpc.mpc_signing_result.'' @ ScopedOperationID clientID (sr_TxID signErrorResult))]))))"

section \<open>The poll loop\<close>

text \<open>
  What the library documents of \<^verbatim>\<open>NextMsg\<close>: a timeout is reported after the whole interval, and a
  call without an error has a message. The clock does not run backwards.
\<close>

definition inbox_law :: "int \<Rightarrow> 'k stream_env \<Rightarrow> bool" where
  "inbox_law interval env \<longleftrightarrow> sn_now env \<le> sn_clock env 0 \<and>
     (\<forall>i. sn_next env i \<noteq> PollNil \<and>
       (sn_next env i = PollTimeout \<longrightarrow> sn_clock env i + interval \<le> sn_clock env (Suc i)))"

text \<open>The first poll that is not a timeout comes before the deadline and has a message.\<close>

definition answered :: "(nat \<Rightarrow> poll) \<Rightarrow> (nat \<Rightarrow> int) \<Rightarrow> int \<Rightarrow> nat \<Rightarrow> bool" where
  "answered nxt clock deadline i \<longleftrightarrow>
     (\<exists>j \<ge> i. nxt j = PollMsg \<and> (\<forall>k. i \<le> k \<and> k \<le> j \<longrightarrow> clock k < deadline) \<and>
        (\<forall>k. i \<le> k \<and> k < j \<longrightarrow> nxt k = PollTimeout \<or> nxt k = PollNil))"

fun settlements :: "stream_effect list \<Rightarrow> settlement list" where
  "settlements [] = []"
| "settlements (Settle s # fx) = s # settlements fx"
| "settlements (_ # fx) = settlements fx"

lemma settlements_append [simp]: "settlements (a @ b) = settlements a @ settlements b"
  by (induction a rule: settlements.induct) simp_all

lemma answered_step:
  "answered nxt clock deadline i \<longleftrightarrow> clock i < deadline \<and>
     (nxt i = PollMsg \<or> ((nxt i = PollTimeout \<or> nxt i = PollNil) \<and> answered nxt clock deadline (Suc i)))"
proof
  assume "answered nxt clock deadline i"
  then obtain j where j: "j \<ge> i" "nxt j = PollMsg" and c: "\<And>k. i \<le> k \<Longrightarrow> k \<le> j \<Longrightarrow> clock k < deadline"
    and w: "\<And>k. i \<le> k \<Longrightarrow> k < j \<Longrightarrow> nxt k = PollTimeout \<or> nxt k = PollNil"
    unfolding answered_def by blast
  show "clock i < deadline \<and>
     (nxt i = PollMsg \<or> ((nxt i = PollTimeout \<or> nxt i = PollNil) \<and> answered nxt clock deadline (Suc i)))"
  proof (cases "j = i")
    case True
    with j c show ?thesis by simp
  next
    case False
    with j have "Suc i \<le> j" by simp
    moreover have "answered nxt clock deadline (Suc i)"
      unfolding answered_def
      by (rule exI [of _ j]) (use \<open>Suc i \<le> j\<close> j c w in auto)
    ultimately show ?thesis using c [of i] w [of i] j by simp
  qed
next
  assume s: "clock i < deadline \<and>
     (nxt i = PollMsg \<or> ((nxt i = PollTimeout \<or> nxt i = PollNil) \<and> answered nxt clock deadline (Suc i)))"
  show "answered nxt clock deadline i"
  proof (cases "nxt i = PollMsg")
    case True
    with s show ?thesis unfolding answered_def by (intro exI [of _ i]) (auto dest: le_antisym)
  next
    case False
    with s obtain j where j: "j \<ge> Suc i" "nxt j = PollMsg"
      and c: "\<And>k. Suc i \<le> k \<Longrightarrow> k \<le> j \<Longrightarrow> clock k < deadline"
      and w: "\<And>k. Suc i \<le> k \<Longrightarrow> k < j \<Longrightarrow> nxt k = PollTimeout \<or> nxt k = PollNil"
      unfolding answered_def by blast
    have "clock k < deadline" if "i \<le> k" "k \<le> j" for k
      using that s c [of k] by (cases "k = i") auto
    moreover have "nxt k = PollTimeout \<or> nxt k = PollNil" if "i \<le> k" "k < j" for k
      using that s False w [of k] by (cases "k = i") auto
    ultimately show ?thesis using j unfolding answered_def by (intro exI [of _ j]) auto
  qed
qed

lemma poll_reply_settles:
  assumes "poll_reply nxt clock deadline i = Some fx"
  shows "settlements fx = [if answered nxt clock deadline i then Ack else Nak]"
proof (rule poll_reply.raw_induct [OF _ assms,
      where P = "\<lambda>nxt clock deadline i fx. settlements fx = [if answered nxt clock deadline i then Ack else Nak]"])
  fix rec and nxt :: "nat \<Rightarrow> poll" and clock :: "nat \<Rightarrow> int" and deadline i fx
  assume IH: "\<And>nxt clock deadline i fx. rec nxt clock deadline i = Some fx \<Longrightarrow>
      settlements fx = [if answered nxt clock deadline i then Ack else Nak]"
    and run: "(if clock i < deadline then
        (case nxt i of
           PollMsg \<Rightarrow> Some [Settle Ack]
         | PollNil \<Rightarrow> rec nxt clock deadline (Suc i)
         | PollTimeout \<Rightarrow> Option.bind (rec nxt clock deadline (Suc i)) (\<lambda>fx. Some (InProgress # fx))
         | PollErr e \<Rightarrow> Some [Settle Nak])
      else Some [Settle Nak]) = Some fx"
  show "settlements fx = [if answered nxt clock deadline i then Ack else Nak]"
    using run answered_step [of nxt clock deadline i]
    by (auto split: if_splits poll.splits bind_splits dest: IH)
qed

lemma poll_reply_returns:
  assumes "0 < interval" and "\<And>i. nxt i \<noteq> PollNil"
    and "\<And>i. nxt i = PollTimeout \<Longrightarrow> clock i + interval \<le> clock (Suc i)"
  shows "deadline \<le> clock i + int n * interval \<Longrightarrow>
    \<exists>fx. poll_reply nxt clock deadline i = Some fx \<and> count_list fx InProgress \<le> n"
proof (induction n arbitrary: i)
  case 0
  then show ?case by (subst poll_reply.simps) simp
next
  case (Suc n)
  show ?case
  proof (cases "clock i < deadline \<and> nxt i = PollTimeout")
    case True
    with assms(3) [of i] Suc.prems have "deadline \<le> clock (Suc i) + int n * interval"
      by (simp add: algebra_simps)
    from Suc.IH [OF this] obtain fx where "poll_reply nxt clock deadline (Suc i) = Some fx"
      and "count_list fx InProgress \<le> n" by blast
    with True show ?thesis by (subst poll_reply.simps) simp
  next
    case False
    with assms(2) [of i] show ?thesis by (subst poll_reply.simps) (cases "nxt i"; auto)
  qed
qed

section \<open>The handlers\<close>

lemma forward_request_settles:
  assumes "forward_request env topic timeout msg = Some fx"
  shows "settlements fx = [if sn_subscribeSync env = None \<and>
      fst (PublishWithReply (sn_publish env) topic (sn_newInbox env) (nm_Data msg)
        (forwarded_headers (sn_uuid env) (clientID_of msg))) = Inr () \<and>
      answered (sn_next env) (sn_clock env) (sn_now env + timeout) 0 then Ack else Nak]"
  using assms unfolding forward_request_def Let_def
  by (auto split: option.splits sum.splits prod.splits bind_splits dest: poll_reply_settles)

lemma forward_request_returns:
  assumes "inbox_law interval env" and "0 < interval" and "timeout \<le> int n * interval"
  shows "\<exists>fx. forward_request env topic timeout msg = Some fx \<and> count_list fx InProgress \<le> n"
proof -
  have "sn_now env + timeout \<le> sn_clock env 0 + int n * interval"
    using assms by (simp add: inbox_law_def)
  with poll_reply_returns [of interval "sn_next env" "sn_clock env" "sn_now env + timeout" 0 n] assms(1,2)
  obtain fx where "poll_reply (sn_next env) (sn_clock env) (sn_now env + timeout) 0 = Some fx"
    and "count_list fx InProgress \<le> n"
    by (auto simp: inbox_law_def)
  then show ?thesis by (auto simp: forward_request_def Let_def split: option.splits sum.splits prod.splits)
qed

lemma buildIdempotentKey_compose:
  "buildIdempotentKey baseID (clientID_of m) (nm_Header m ''SessionID'') pre = composeIdempotentKey baseID m pre"
  by (simp add: buildIdempotentKey_def composeIdempotentKey_def Let_def)

end
