(* ===== verification/Workers.thy ===== *)
theory Workers
  imports Stream_Consumers
begin

text \<open>
  The workers of \<^verbatim>\<open>pkg/eventconsumer/event_consumer.go\<close>: a subscription callback puts requests into
  a buffered channel, a worker takes them out, waits for a slot of its semaphore and starts a
  goroutine for the handler, which gives the slot back when it returns. \<^verbatim>\<open>Close\<close> closes the
  channels first and takes the subscriptions back afterwards.

  The worker and its goroutines are a step relation; a blocked channel operation is a step that is
  not enabled. A slot of the semaphore is counted apart from the handlers that run, as in the
  code. The abstract specification is a queue whose elements start in order, at most \<open>max\<close> of them at
  a time.
\<close>

section \<open>The worker\<close>

record 'm worker =
  wk_buffer :: "'m list"
  wk_cap :: nat
  wk_max :: nat
  wk_held :: "'m option"
  wk_slots :: nat
  wk_running :: "'m list"
  wk_started :: "'m list"
  wk_closed :: bool
  wk_subscribed :: bool
  wk_exited :: bool

definition make_worker :: "nat \<Rightarrow> int \<Rightarrow> 'm worker outcome" where
  "make_worker cap maxConcurrent =
     (if maxConcurrent < 0 then Aborts ''makechan: size out of range''
      else Returns \<lparr>wk_buffer = [], wk_cap = cap, wk_max = nat maxConcurrent, wk_held = None, wk_slots = 0,
        wk_running = [], wk_started = [], wk_closed = False, wk_subscribed = True, wk_exited = False\<rparr>)"

definition startKeyGenEventWorker :: "('k, 'd, 'c, 'pp) eventConsumer \<Rightarrow> 'm worker outcome" where
  "startKeyGenEventWorker ec = make_worker 100 (ec_maxConcurrentKeygen ec)"

definition startSigningEventWorker :: "('k, 'd, 'c, 'pp) eventConsumer \<Rightarrow> 'm worker outcome" where
  "startSigningEventWorker ec = make_worker 200 (ec_maxConcurrentSigning ec)"

text \<open>The steps, and the callback on a closed channel, which panics.\<close>

inductive worker_step :: "'m worker \<Rightarrow> 'm worker \<Rightarrow> bool" where
  deliver: "wk_subscribed w \<Longrightarrow> \<not> wk_closed w \<Longrightarrow> length (wk_buffer w) < wk_cap w \<Longrightarrow>
    worker_step w (w\<lparr>wk_buffer := wk_buffer w @ [m]\<rparr>)"
| receive: "wk_held w = None \<Longrightarrow> wk_buffer w = m # ms \<Longrightarrow> \<not> wk_exited w \<Longrightarrow>
    worker_step w (w\<lparr>wk_held := Some m, wk_buffer := ms\<rparr>)"
| start: "wk_held w = Some m \<Longrightarrow> wk_slots w < wk_max w \<Longrightarrow>
    worker_step w (w\<lparr>wk_held := None, wk_slots := Suc (wk_slots w), wk_running := m # wk_running w,
      wk_started := wk_started w @ [m]\<rparr>)"
| finish: "m \<in> set (wk_running w) \<Longrightarrow>
    worker_step w (w\<lparr>wk_running := remove1 m (wk_running w), wk_slots := wk_slots w - 1\<rparr>)"
| close_buffer: "\<not> wk_closed w \<Longrightarrow> worker_step w (w\<lparr>wk_closed := True\<rparr>)"
| unsubscribe: "wk_closed w \<Longrightarrow> worker_step w (w\<lparr>wk_subscribed := False\<rparr>)"
| exit: "wk_closed w \<Longrightarrow> wk_buffer w = [] \<Longrightarrow> wk_held w = None \<Longrightarrow> worker_step w (w\<lparr>wk_exited := True\<rparr>)"

definition deliver_panics :: "'m worker \<Rightarrow> bool" where
  "deliver_panics w \<longleftrightarrow> wk_subscribed w \<and> wk_closed w"

inductive worker_reach :: "'m worker \<Rightarrow> 'm worker \<Rightarrow> bool" for w0 where
  init: "worker_reach w0 w0"
| step: "worker_reach w0 w \<Longrightarrow> worker_step w w' \<Longrightarrow> worker_reach w0 w'"

section \<open>Bounds\<close>

definition worker_inv :: "'m worker \<Rightarrow> bool" where
  "worker_inv w \<longleftrightarrow> wk_slots w = length (wk_running w) \<and> wk_slots w \<le> wk_max w \<and> length (wk_buffer w) \<le> wk_cap w \<and>
     (wk_exited w \<longrightarrow> wk_closed w \<and> wk_buffer w = [] \<and> wk_held w = None)"

lemma worker_inv_init: "make_worker cap n = Returns w \<Longrightarrow> worker_inv w"
  by (auto simp: make_worker_def worker_inv_def split: if_splits)

lemma worker_inv_step: "worker_step w w' \<Longrightarrow> worker_inv w \<Longrightarrow> worker_inv w'"
  by (induction rule: worker_step.induct) (auto simp: worker_inv_def length_remove1)

lemma worker_frame_step: "worker_step w w' \<Longrightarrow> wk_max w' = wk_max w \<and> wk_cap w' = wk_cap w"
  by (induction rule: worker_step.induct) auto

lemma worker_reach_inv:
  "worker_reach w0 w \<Longrightarrow> worker_inv w0 \<Longrightarrow> worker_inv w \<and> wk_max w = wk_max w0 \<and> wk_cap w = wk_cap w0"
  by (induction rule: worker_reach.induct) (auto dest: worker_inv_step worker_frame_step)

section \<open>The specification: a bounded queue\<close>

record 'm queue =
  q_waiting :: "'m list"
  q_running :: "'m multiset"
  q_started :: "'m list"

inductive queue_step :: "nat \<Rightarrow> 'm queue \<Rightarrow> 'm queue \<Rightarrow> bool" for n where
  enqueue: "queue_step n q (q\<lparr>q_waiting := q_waiting q @ [m]\<rparr>)"
| begin_run: "q_waiting q = m # ms \<Longrightarrow> size (q_running q) < n \<Longrightarrow>
    queue_step n q (q\<lparr>q_waiting := ms, q_running := add_mset m (q_running q), q_started := q_started q @ [m]\<rparr>)"
| complete: "m \<in># q_running q \<Longrightarrow> queue_step n q (q\<lparr>q_running := q_running q - {#m#}\<rparr>)"

definition queue_of :: "'m worker \<Rightarrow> 'm queue" where
  "queue_of w = \<lparr>q_waiting = (case wk_held w of None \<Rightarrow> [] | Some m \<Rightarrow> [m]) @ wk_buffer w,
     q_running = mset (wk_running w), q_started = wk_started w\<rparr>"

text \<open>Every step of the worker is a step of the queue or leaves the queue as it is.\<close>

lemma worker_refines:
  assumes "worker_step w w'" and "worker_inv w"
  shows "queue_of w' = queue_of w \<or> queue_step (wk_max w) (queue_of w) (queue_of w')"
  using assms(1)
proof (cases rule: worker_step.cases)
  case (deliver m)
  then have "queue_of w' = (queue_of w)\<lparr>q_waiting := q_waiting (queue_of w) @ [m]\<rparr>"
    by (simp add: queue_of_def)
  then show ?thesis by (metis queue_step.enqueue)
next
  case (start m)
  then have "queue_of w' = (queue_of w)\<lparr>q_waiting := wk_buffer w, q_running := add_mset m (q_running (queue_of w)),
      q_started := q_started (queue_of w) @ [m]\<rparr>"
    by (simp add: queue_of_def)
  moreover have "q_waiting (queue_of w) = m # wk_buffer w" "size (q_running (queue_of w)) < wk_max w"
    using start assms(2) by (simp_all add: queue_of_def worker_inv_def)
  ultimately show ?thesis by (metis queue_step.begin_run)
next
  case (finish m)
  then have "queue_of w' = (queue_of w)\<lparr>q_running := q_running (queue_of w) - {#m#}\<rparr>"
    by (simp add: queue_of_def)
  moreover have "m \<in># q_running (queue_of w)" using finish by (simp add: queue_of_def)
  ultimately show ?thesis by (metis queue_step.complete)
qed (simp_all add: queue_of_def)

section \<open>No request is lost\<close>

text \<open>The requests accepted so far, in order: those started, the one held, those buffered.\<close>

definition accepted :: "'m worker \<Rightarrow> 'm list" where
  "accepted w = wk_started w @ (case wk_held w of None \<Rightarrow> [] | Some m \<Rightarrow> [m]) @ wk_buffer w"

lemma accepted_step: "worker_step w w' \<Longrightarrow> accepted w' = accepted w \<or> (\<exists>m. accepted w' = accepted w @ [m] \<and> \<not> wk_closed w)"
  by (induction rule: worker_step.induct) (auto simp: accepted_def)

lemma exited_started: "worker_inv w \<Longrightarrow> wk_exited w \<Longrightarrow> wk_started w = accepted w"
  by (simp add: worker_inv_def accepted_def)

text \<open>
  \<^verbatim>\<open>Close\<close> closes the buffer before the subscription is taken back: in between, the callback of a
  request that arrives panics.
\<close>

lemma close_race: "make_worker cap n = Returns w0 \<Longrightarrow> \<exists>w. worker_reach w0 w \<and> deliver_panics w"
  by (rule exI [of _ "w0\<lparr>wk_closed := True\<rparr>"])
    (auto simp: make_worker_def deliver_panics_def split: if_splits
      intro!: worker_reach.step [OF worker_reach.init] worker_step.close_buffer)

section \<open>Start and stop of the event consumer\<close>

text \<open>\<open>subscribe\<close> answers the three subscriptions; a failure ends the process.\<close>

definition consumer_Run :: "(string \<Rightarrow> gerror option) \<Rightarrow> string list outcome" where
  "consumer_Run subscribe =
     (if subscribe MPCGenerateEvent \<noteq> None then Aborts ''Failed to consume key reconstruction event''
      else if subscribe MPCSignEvent \<noteq> None then Aborts ''Failed to consume tx signing event''
      else if subscribe MPCReshareEvent \<noteq> None then Aborts ''Failed to consume reshare event''
      else Returns [MPCGenerateEvent, MPCSignEvent, MPCReshareEvent])"

datatype cleanup_event = CleanupTick int | CleanupStop

text \<open>The second component tells whether the routine has returned.\<close>

fun sessionCleanupRoutine :: "cleanup_event list \<Rightarrow> session_table \<Rightarrow> session_table \<times> bool" where
  "sessionCleanupRoutine [] t = (t, False)"
| "sessionCleanupRoutine (CleanupStop # evs) t = (t, True)"
| "sessionCleanupRoutine (CleanupTick now # evs) t = sessionCleanupRoutine evs (cleanupStaleSessions now t)"

text \<open>
  \<open>stopped\<close> is whether the channels were closed before; \<open>unsubscribe\<close> answers for a topic. An error
  leaves the later subscriptions in place.
\<close>

definition consumer_Close :: "bool \<Rightarrow> (string \<Rightarrow> gerror option) \<Rightarrow> (unit res \<times> string list) outcome" where
  "consumer_Close stopped unsubscribe =
     (if stopped then Aborts ''close of closed channel''
      else (case unsubscribe MPCGenerateEvent of
              Some e \<Rightarrow> Returns (Inl e, [MPCGenerateEvent])
            | None \<Rightarrow>
                (case unsubscribe MPCSignEvent of
                   Some e \<Rightarrow> Returns (Inl e, [MPCGenerateEvent, MPCSignEvent])
                 | None \<Rightarrow>
                     (case unsubscribe MPCReshareEvent of
                        Some e \<Rightarrow> Returns (Inl e, [MPCGenerateEvent, MPCSignEvent, MPCReshareEvent])
                      | None \<Rightarrow> Returns (Inr (), [MPCGenerateEvent, MPCSignEvent, MPCReshareEvent])))))"

lemma sessionCleanup_fold:
  "fst (sessionCleanupRoutine evs t) =
   fold (\<lambda>e t. case e of CleanupTick now \<Rightarrow> cleanupStaleSessions now t | CleanupStop \<Rightarrow> t)
     (takeWhile (\<lambda>e. e \<noteq> CleanupStop) evs) t"
  by (induction evs t rule: sessionCleanupRoutine.induct) simp_all

end
