(* ===== verification/Instances.thy ===== *)
theory Instances
  imports Event_Consumer
begin

text \<open>
  Concrete instances of the parameters (cryptographic primitives, Badger, Consul, curves) and of
  the state of a small cluster of three nodes with threshold one. They satisfy the laws that
  the development assumes of the parameters, and are the inputs at which the theorems with
  hypotheses are applied. The primitives are not secure, only lawful.
\<close>

section \<open>Primitives\<close>

definition demo_sign :: "bytes \<Rightarrow> bytes" where
  "demo_sign m = take 64 (m @ replicate 64 0)"

definition demo_crypto :: "unit crypto" where
  "demo_crypto = \<lparr>prim_Ed25519_Sign = (\<lambda>priv m. demo_sign m),
     prim_Ed25519_Verify = (\<lambda>pub m s. s = demo_sign m),
     prim_SHA256 = (\<lambda>m. m), prim_VerifyASN1 = (\<lambda>k d s. s = d), prim_onP256 = (\<lambda>k. True),
     prim_ParsePKIX = (\<lambda>b. Some ()), prim_Seal = (\<lambda>k n p. p), prim_Open = (\<lambda>k n c. Some c)\<rparr>"

lemma demo_crypto_simps [simp]:
  "prim_Ed25519_Sign demo_crypto priv m = demo_sign m"
  "prim_Ed25519_Verify demo_crypto pub m s \<longleftrightarrow> s = demo_sign m"
  "length (demo_sign m) = 64"
  by (simp_all add: demo_crypto_def demo_sign_def)

lemma demo_sign_nonempty [simp]: "demo_sign m \<noteq> []"
  using demo_crypto_simps(3) [of m] by (metis list.size(3) zero_neq_numeral)

lemma demo_aead [simp]: "aead_correct demo_crypto"
  by (simp add: aead_correct_def demo_crypto_def)

lemma demo_pair [simp]: "ed25519_pair demo_crypto (replicate 64 0) (replicate 32 0)"
  by (simp add: ed25519_pair_def)

definition demo_ecdh :: "nat ecdh" where
  "demo_ecdh = \<lparr>x_GenerateKey = Inr 7, x_PublicKey = (\<lambda>k. replicate 31 0 @ [word_of_nat k]),
     x_NewPublicKey = (\<lambda>b. if length b = 32 then Inr () else Inl (ENew ''crypto/ecdh: invalid public key'')),
     x_ECDH = (\<lambda>a b. Inr [word_of_nat a * last b]), x_HKDF = (\<lambda>s i. Inr (replicate 32 0))\<rparr>"

lemma demo_dh [simp]: "dh_commutes demo_ecdh"
  by (simp add: dh_commutes_def demo_ecdh_def mult.commute)

lemma demo_x25519 [simp]: "x25519_ok demo_ecdh"
  by (simp add: x25519_ok_def) (simp add: demo_ecdh_def)

section \<open>Stores\<close>

definition demo_badger :: "(bytes \<Rightarrow> bytes option) badger_ops" where
  "demo_badger = \<lparr>txn_Set = (\<lambda>d k v. Inr (d(k \<mapsto> v))),
     txn_Get = (\<lambda>d k. case d k of None \<Rightarrow> Inl (ESentinel ErrKeyNotFound) | Some v \<Rightarrow> Inr v),
     txn_Delete = (\<lambda>d k. Inr (d(k := None))), txn_Keys = (\<lambda>d. [])\<rparr>"

lemma demo_badger_ok [simp]: "badger_ok demo_badger"
  by (simp add: badger_ok_def demo_badger_def)

definition demo_consul :: "(string \<Rightarrow> bytes option) consul_ops" where
  "demo_consul = \<lparr>consul_Get = (\<lambda>c k. Inr (c k)), consul_Put = (\<lambda>c k v. Inr (c(k \<mapsto> v)))\<rparr>"

lemma demo_consul_ok [simp]: "consul_ok demo_consul"
  by (simp add: consul_ok_def demo_consul_def)

type_synonym demo_kv = "(bytes \<Rightarrow> bytes option) BadgerKVStore"
type_synonym demo_ki = "(string \<Rightarrow> bytes option) keyinfoStore"

definition empty_kv :: demo_kv where
  "empty_kv = \<lparr>kv_DB = demo_badger, kv_state = Map.empty\<rparr>"

definition empty_ki :: demo_ki where
  "empty_ki = \<lparr>ks_consulKV = demo_consul, ks_state = Map.empty\<rparr>"

lemma demo_kv_simps [simp]:
  "kv_DB empty_kv = demo_badger" "ks_consulKV empty_ki = demo_consul"
  "kv_Put \<lparr>kv_DB = demo_badger, kv_state = d\<rparr> k v = Inr \<lparr>kv_DB = demo_badger, kv_state = d(go_bytes k \<mapsto> v)\<rparr>"
  "kv_Get \<lparr>kv_DB = demo_badger, kv_state = d\<rparr> k =
     (case d (go_bytes k) of None \<Rightarrow> Inl (ESentinel ErrKeyNotFound) | Some v \<Rightarrow> Inr v)"
  by (simp_all add: empty_kv_def empty_ki_def demo_badger_def kv_Put_def kv_Get_def)

lemma demo_ki_simps [simp]:
  "keyinfo_Save \<lparr>ks_consulKV = demo_consul, ks_state = c\<rparr> w i =
     Inr \<lparr>ks_consulKV = demo_consul, ks_state = c(composeKeyinfoKey w \<mapsto> json_Marshal (enc_KeyInfo i))\<rparr>"
  "KeyInfo_ok i \<Longrightarrow> c (composeKeyinfoKey w) = Some (json_Marshal (enc_KeyInfo i)) \<Longrightarrow>
     keyinfo_Get \<lparr>ks_consulKV = demo_consul, ks_state = c\<rparr> w = Inr i"
  "c (composeKeyinfoKey w) = None \<Longrightarrow>
     keyinfo_Get \<lparr>ks_consulKV = demo_consul, ks_state = c\<rparr> w = Inl (ENew ''Key info not found'')"
  by (simp_all add: demo_consul_def keyinfo_Save_def keyinfo_Get_def Unmarshal_KeyInfo)

section \<open>Identities\<close>

definition demo_ids :: "string list" where
  "demo_ids = [''alice'', ''bob'', ''carol'']"

definition demo_auth :: AuthorizationConfig where
  "demo_auth = \<lparr>ac_Enabled = True, ac_RequiredAuthorizers = [''ops''],
     ac_AuthorizerPublicKeys = [(''ops'', \<lparr>ak_PublicKey = hex_Encode (replicate 32 0), ak_Algorithm = ''ed25519''\<rparr>)]\<rparr>"

definition demo_store :: "string \<Rightarrow> unit fileStore" where
  "demo_store me = \<lparr>fs_publicKeys = map (\<lambda>p. (p, replicate 32 0)) demo_ids, fs_privateKey = replicate 64 0,
     fs_initiatorKey = \<lparr>ik_Algorithm = ''ed25519'', ik_Ed25519 = replicate 32 0, ik_P256 = None\<rparr>,
     fs_symmetricKeys = map (\<lambda>p. (p, Some (replicate 32 0))) (filter (\<lambda>p. p \<noteq> me) demo_ids),
     fs_authConfig = demo_auth, fs_cachedAuthorizerKeys = [(''ops'', CachedEd25519 (replicate 32 0))]\<rparr>"

lemma demo_store_auth_ok [simp]: "auth_ok demo_crypto (demo_store me)"
  by (auto simp: auth_ok_def demo_store_def demo_auth_def cache_entry_ok_def AlgorithmEd25519_def
      ParseEd25519_hex split: option.splits)

lemma demo_store_initiator_ok [simp]: "initiator_ok demo_crypto (fs_initiatorKey (demo_store me))"
  by (simp add: initiator_ok_def demo_store_def EventInitiatorKeyTypeEd25519_def)

lemma demo_store_ok [simp]: "fileStore_ok (demo_store me)"
  by (simp add: fileStore_ok_def demo_store_def demo_ids_def)

section \<open>Network\<close>

definition demo_json_pid :: "PartyID \<Rightarrow> json" where
  "demo_json_pid p = JArr [JStr (pid_Id p), JStr (pid_Moniker p), JStr (go_string (nat_be (pid_Key p)))]"

definition demo_dec_pid :: "json \<Rightarrow> PartyID option" where
  "demo_dec_pid j = (case j of
     JArr [JStr i, JStr m, JStr k] \<Rightarrow> Some \<lparr>pid_Id = i, pid_Moniker = m, pid_Key = be_nat (go_bytes k)\<rparr>
   | _ \<Rightarrow> None)"

definition demo_net :: "string \<Rightarrow> unit net" where
  "demo_net me = \<lparr>nt_crypto = demo_crypto, nt_store = demo_store me, nt_json_pid = demo_json_pid,
     nt_dec_pid = demo_dec_pid, nt_publish = (\<lambda>_. None), nt_sendSelf = (\<lambda>_. None), nt_sendOther = (\<lambda>_. None),
     nt_nonce = (\<lambda>_. Inr (replicate 12 0)), nt_parseEcdsa = (\<lambda>_ _ _. Inr KGRound1Message),
     nt_parseEddsa = (\<lambda>_ _ _. Inr Ed_KGRound1Message)\<rparr>"

lemma demo_net_simps [simp]:
  "nt_crypto (demo_net me) = demo_crypto" "nt_store (demo_net me) = demo_store me"
  "nt_json_pid (demo_net me) = demo_json_pid" "nt_dec_pid (demo_net me) = demo_dec_pid"
  "nt_publish (demo_net me) t = None" "nt_sendOther (demo_net me) t = None" "nt_sendSelf (demo_net me) t = None"
  "nt_nonce (demo_net me) i = Inr (replicate 12 0)"
  by (simp_all add: demo_net_def)

lemma demo_pid_json [simp]: "pid_json_ok (demo_net me)"
  by (simp add: pid_json_ok_def demo_json_pid_def demo_dec_pid_def)

lemma demo_keys_loaded [simp]: "keys_loaded (demo_net me)"
  by (simp add: keys_loaded_def)

section \<open>Curves\<close>

text \<open>Points are numbers, addition is addition; a share is stored as the bytes of its public key.\<close>

definition demo_curve :: "nat curve_ops" where
  "demo_curve = \<lparr>cv_ScalarBaseMult = (\<lambda>n. n), cv_Add = (\<lambda>a b. Inr (a + b)),
     cv_PublicKey = (\<lambda>p. \<lparr>pk_P = S256_P, pk_N = S256_N, pk_X = p, pk_Y = 0\<rparr>), cv_Compress = nat_be,
     cv_DeriveChild = (\<lambda>p c path. Inr (1, Some (p + 1)))\<rparr>"

definition demo_share :: "nat \<Rightarrow> (nat, unit) SaveData" where
  "demo_share p = \<lparr>sd_Pub = Some p, sd_BigXj = [], sd_Xi = Some 5, sd_ShareID = Some 1, sd_rest = ()\<rparr>"

definition demo_cu :: "(nat, unit) curve_env" where
  "demo_cu = \<lparr>cu_ops = demo_curve,
     cu_marshal = (\<lambda>d. case sd_Pub d of None \<Rightarrow> Inl (ENew ''no key'')
       | Some p \<Rightarrow> if d = demo_share p then Inr (nat_be p) else Inl (ENew ''no share'')),
     cu_unmarshal = (\<lambda>b. Inr (demo_share (be_nat b))),
     cu_empty = (\<lambda>n. (demo_share 0)\<lparr>sd_Pub := None\<rparr>),
     cu_verify = (\<lambda>p m r s. r = p \<and> s = be_nat m)\<rparr>"

section \<open>A cluster whose peers are all ready\<close>

definition demo_registry :: "string \<Rightarrow> unit registry" where
  "demo_registry me = \<lparr>rg_nodeID = me, rg_peerNodeIDs = filter (\<lambda>p. p \<noteq> me) demo_ids,
     rg_readyMap = map (\<lambda>p. (p, True)) (filter (\<lambda>p. p \<noteq> me) demo_ids),
     rg_readyCount = 1 + int (length (filter (\<lambda>p. p \<noteq> me) demo_ids)), rg_ready = True, rg_mpcThreshold = 1,
     rg_store = demo_store me\<rparr>"

definition demo_node :: "string \<Rightarrow> demo_kv \<Rightarrow> demo_ki \<Rightarrow> (unit, bytes \<Rightarrow> bytes option, string \<Rightarrow> bytes option, nat) node" where
  "demo_node me kvs kis = \<lparr>nd_nodeID = me, nd_peerIDs = demo_ids, nd_kv = kvs, nd_ki = kis,
     nd_ecdsaPreParams = [11, 12], nd_registry = demo_registry me, nd_ckd = Some \<lparr>ckd_masterChainCode = replicate 32 0\<rparr>\<rparr>"

definition demo_info :: KeyInfo where
  "demo_info = \<lparr>ki_ParticipantPeerIDs = Some demo_ids, ki_Threshold = 1, ki_Version = 1\<rparr>"

lemma demo_info_ok [simp]: "KeyInfo_ok demo_info"
  by (simp add: KeyInfo_ok_def demo_info_def is_int64_def)

text \<open>Stores after the keys of wallet \<^verbatim>\<open>w\<close> were generated.\<close>

definition wallet_kv :: demo_kv where
  "wallet_kv = \<lparr>kv_DB = demo_badger, kv_state =
     [go_bytes ''ecdsa:w_v1'' \<mapsto> [9], go_bytes ''eddsa:w_v1'' \<mapsto> [9]]\<rparr>"

definition wallet_ki :: demo_ki where
  "wallet_ki = \<lparr>ks_consulKV = demo_consul, ks_state =
     [composeKeyinfoKey ''ecdsa:w'' \<mapsto> json_Marshal (enc_KeyInfo demo_info),
      composeKeyinfoKey ''eddsa:w'' \<mapsto> json_Marshal (enc_KeyInfo demo_info)]\<rparr>"

definition demo_env :: "string \<Rightarrow> (unit, nat, unit) consumer_env" where
  "demo_env me = \<lparr>cx_net = demo_net me, cx_now = 0, cx_enqueue = (\<lambda>_. None), cx_sort = (\<lambda>xs. xs),
     cx_uuid = (\<lambda>i j. ''id''), cx_listen = (\<lambda>_. None), cx_subscribe = (\<lambda>_. None),
     cx_attempts = (\<lambda>i p. [Responded]), cx_secondLast = False,
     cx_intersect = (\<lambda>a b. filter (\<lambda>x. x \<in> set b) a), cx_ecdsa = demo_cu, cx_eddsa = demo_cu\<rparr>"

definition demo_consumer :: "string \<Rightarrow> demo_kv \<Rightarrow> demo_ki \<Rightarrow>
   (unit, bytes \<Rightarrow> bytes option, string \<Rightarrow> bytes option, nat) eventConsumer" where
  "demo_consumer me kvs kis = \<lparr>ec_node = demo_node me kvs kis, ec_mpcThreshold = 1, ec_table = new_session_table,
     ec_maxConcurrentKeygen = 2, ec_maxConcurrentSigning = 20\<rparr>"

end
