(* ===== verification/Wire_Properties.thy ===== *)
theory Wire_Properties
  imports Instances
begin

text \<open>
  What the formats guarantee: party identities, signed payloads, encrypted messages, topics,
  result subjects, stored key information and encoded public keys. Each property with a
  hypothesis is followed by its application to a concrete input.
\<close>

section \<open>Party identities\<close>

text \<open>
  A node identifier is recovered from the party identity made for it, by \<^verbatim>\<open>pkg/mpc\<close> and by
  \<^verbatim>\<open>pkg/identity\<close> alike, at every version, when it has no colon and no outer white space and
  does not start with a NUL byte.
\<close>

lemma party_id_roundtrip:
  assumes "wf_nodeID n"
  shows "partyIDToNodeID (Some (createPartyID u n l v)) = n \<and>
    identity_partyIDToNodeID (createPartyID u n l v) = n"
  using partyIDToNodeID_create [OF assms] identity_partyIDToNodeID_create [OF assms]
  by (simp del: partyIDToNodeID.simps)

lemma wf_alice [simp]: "wf_nodeID ''alice''" "wf_nodeID ''bob''" "wf_nodeID ''carol''"
  by (simp_all add: wf_nodeID_def is_space_def)

text \<open>
  (C39) Two party identities have the same key exactly when they belong to the same node and the
  same key version; label and random identifier do not matter.
\<close>

theorem party_keys_identify:
  assumes "wf_nodeID n" and "wf_nodeID m"
  shows "comparePartyIDs (createPartyID u n l v) (createPartyID u' m l' w) \<longleftrightarrow> n = m \<and> v = w"
  using createPartyID_key_eq_iff [OF assms] by (simp add: comparePartyIDs_iff)

theorem party_keys_identify_witness:
  "\<not> comparePartyIDs (createPartyID ''u'' ''alice'' ''keygen'' 1) (createPartyID ''u'' ''alice'' ''reshare'' 2) \<and>
   comparePartyIDs (createPartyID ''u'' ''bob'' ''keygen'' 2) (createPartyID ''x'' ''bob'' ''reshare'' 2)"
  using party_keys_identify [of "''alice''" "''alice''" "''u''" "''keygen''" 1 "''u''" "''reshare''" 2]
    party_keys_identify [of "''bob''" "''bob''" "''u''" "''keygen''" 2 "''x''" "''reshare''" 2] by simp

section \<open>Signed payloads\<close>

text \<open>
  (C36) What an initiator signs for a transaction fixes key type, wallet, network, transaction
  identifier and transaction, and nothing else of the message: the derivation path is not
  covered. A resharing payload fixes all its fields, and a transaction and a resharing never share a
  payload. The payload of a key generation is the wallet identifier as it stands, which it fixes, but
  with a suitable identifier it is the payload of any transaction or of any resharing, so that a
  signature for the one is a signature for the other.
\<close>

theorem initiator_payload_coverage:
  "(Raw (SignTx m) = Raw (SignTx m') \<longleftrightarrow>
      st_KeyType m = st_KeyType m' \<and> st_WalletID m = st_WalletID m' \<and>
      st_NetworkInternalCode m = st_NetworkInternalCode m' \<and> st_TxID m = st_TxID m' \<and> st_Tx m = st_Tx m') \<and>
   (Raw (Resharing r) = Raw (Resharing r') \<longleftrightarrow>
      rs_SessionID r = rs_SessionID r' \<and> rs_NodeIDs r = rs_NodeIDs r' \<and>
      rs_NewThreshold r = rs_NewThreshold r' \<and> rs_KeyType r = rs_KeyType r' \<and> rs_WalletID r = rs_WalletID r') \<and>
   (Raw (GenerateKey g) = Raw (GenerateKey g') \<longleftrightarrow> gk_WalletID g = gk_WalletID g') \<and>
   Raw (SignTx m) \<noteq> Raw (Resharing r) \<and>
   Raw (SignTx (m\<lparr>st_DerivationPath := path\<rparr>)) = Raw (SignTx m) \<and>
   (\<exists>walletID. Raw (GenerateKey (g\<lparr>gk_WalletID := walletID\<rparr>)) = Raw (SignTx m)) \<and>
   (\<exists>walletID. Raw (GenerateKey (g\<lparr>gk_WalletID := walletID\<rparr>)) = Raw (Resharing r))"
proof -
  have "\<exists>walletID. Raw (GenerateKey (g\<lparr>gk_WalletID := walletID\<rparr>)) = b" for b
    by (rule exI [of _ "go_string b"]) simp
  moreover have "go_bytes s = go_bytes s' \<longleftrightarrow> s = s'" for s s' by (metis go_string_go_bytes)
  ultimately show ?thesis
    using Raw_SignTx_eq [of m m'] Raw_Resharing_eq [of r r'] Raw_SignTx_neq_Resharing [of m r]
      Raw_SignTx_eq [of "m\<lparr>st_DerivationPath := path\<rparr>" m] by simp
qed

text \<open>
  (C37) What an authorizer signs fixes the request's identifier, its payload and the initiator's
  signature.
\<close>

theorem authorizer_payload_coverage:
  "ComposeAuthorizerRaw m = ComposeAuthorizerRaw m' \<longleftrightarrow>
     InitiatorID m = InitiatorID m' \<and> Raw m = Raw m' \<and> Sig m = Sig m'"
  by (rule ComposeAuthorizerRaw_eq)

text \<open>
  (C38) A protocol message survives encoding and decoding, and its signature covers everything but
  the identity of the sender beyond its random identifier: two messages have the same signed
  bytes exactly when they agree on all other fields and on the sender's \<^verbatim>\<open>Id\<close>.
\<close>

theorem tss_message_wire:
  assumes "pid_json_ok nt"
  shows "UnmarshalTssMessage (nt_dec_pid nt) (MarshalTssMessage (nt_json_pid nt) m) = Inr m \<and>
    (MarshalForSigning (nt_json_pid nt) f m = MarshalForSigning (nt_json_pid nt) f' m' \<longleftrightarrow>
      pid_Id f = pid_Id f' \<and> tm_IsBroadcast m = tm_IsBroadcast m' \<and>
      tm_IsToOldAndNewCommittees m = tm_IsToOldAndNewCommittees m' \<and>
      tm_IsToOldCommittee m = tm_IsToOldCommittee m' \<and> tm_MsgBytes m = tm_MsgBytes m' \<and>
      tm_WalletID m = tm_WalletID m' \<and> tm_To m = tm_To m')"
proof -
  have "inj (nt_json_pid nt)"
    using assms unfolding pid_json_ok_def inj_def by (metis option.inject)
  with MarshalForSigning_eq [of "nt_json_pid nt" f m f' m'] Unmarshal_Marshal_net [OF assms] assms
  show ?thesis by (simp add: pid_json_ok_def)
qed

theorem tss_message_wire_witness:
  "pid_json_ok (demo_net ''alice'') \<and>
   UnmarshalTssMessage demo_dec_pid (MarshalTssMessage demo_json_pid
     (NewTssMessage ''w'' (Some [1, 2]) True (Some (createPartyID ''u'' ''alice'' ''keygen'' 1)) None)) =
   Inr (NewTssMessage ''w'' (Some [1, 2]) True (Some (createPartyID ''u'' ''alice'' ''keygen'' 1)) None)"
  using tss_message_wire [OF demo_pid_json [of "''alice''"]] by simp

section \<open>Encryption and key agreement\<close>

text \<open>
  What one node encrypts for a peer, the peer decrypts to the same bytes, when both hold the
  same symmetric key for each other; the cipher must satisfy the law of an AEAD.
\<close>

lemma decrypt_encrypt:
  assumes "aead_correct cr" and "length nonce = NonceSize"
    and "GetSymmetricKey a bID = Inr (Some key)" and "GetSymmetricKey b aID = Inr (Some key)"
    and "length key \<in> {16, 24, 32}"
  shows "\<exists>c. EncryptMessage cr (Inr nonce) a p bID = Inr c \<and> DecryptMessage cr b c aID = Inr p"
proof -
  obtain c where c: "EncryptMessage cr (Inr nonce) a p bID = Inr c"
    using EncryptAESGCMWithNonceEmbed_ok [of cr nonce p key] assms(3,5) by (auto simp: EncryptMessage_def)
  with Decrypt_EncryptMessage [OF assms(1-4)] show ?thesis by blast
qed

section \<open>Topics and subjects\<close>

text \<open>
  A direct topic names its sender, and two direct topics coincide only for the same protocol,
  curve and session text, the same sender and the same receiver.
\<close>

lemma direct_topics:
  assumes "wf_nodeID f" "wf_nodeID t" "wf_nodeID f'" "wf_nodeID t'"
  shows "extractSenderIDFromDirectTopic (ComposeDirectTopic (topicComposer k) f t) = f \<and>
    (ComposeDirectTopic (topicComposer k) f t = ComposeDirectTopic (topicComposer k') f' t' \<longleftrightarrow>
      topic_words k = topic_words k' \<and> f = f' \<and> t = t')"
  using tc.sender_wf [OF assms(1)] direct_topic_session [OF assms] by simp



text \<open>
  The idempotency key of a result determines the client, the operation and the delivery
  session, when these texts hold no colon and both requests name a client and a session or
  neither does.
\<close>

lemma idempotency_keys:
  assumes "CHR '':'' \<notin> set b" "CHR '':'' \<notin> set b'"
    and "CHR '':'' \<notin> set (clientID_of m)" "CHR '':'' \<notin> set (clientID_of m')"
    and "clientID_of m = [] \<longleftrightarrow> clientID_of m' = []"
    and "nm_Header m ''SessionID'' = [] \<longleftrightarrow> nm_Header m' ''SessionID'' = []"
  shows "composeSigningIdempotentKey b m = composeSigningIdempotentKey b' m' \<longleftrightarrow>
    b = b' \<and> clientID_of m = clientID_of m' \<and> nm_Header m ''SessionID'' = nm_Header m' ''SessionID''"
    (is "?l \<longleftrightarrow> ?r")
proof
  assume ?l
  then show ?r using composeIdempotentKey_inj [OF _ assms] unfolding composeSigningIdempotentKey_def by blast
qed (simp add: composeSigningIdempotentKey_def composeIdempotentKey_def)

definition demo_msg :: "bytes \<Rightarrow> natsMsg" where
  "demo_msg d = \<lparr>nm_Data = d, nm_Reply = ''_INBOX.1'', nm_Header = (\<lambda>h. if h = ''ClientID'' then ''c1'' else [])\<rparr>"

section \<open>Stored key information and public keys\<close>

text \<open>
  Key information that was saved is read back unchanged, other wallets are not affected, and
  later saves of the same wallet replace it.
\<close>

lemma keyinfo_save_get:
  assumes "consul_ok (ks_consulKV s)" and "KeyInfo_ok info" and "keyinfo_Save s w info = Inr s'"
  shows "keyinfo_Get s' w = Inr info \<and> (w' \<noteq> w \<longrightarrow> keyinfo_Get s' w' = keyinfo_Get s w')"
  using ki.get_put [OF assms] ki.get_put_other [OF assms(1,3)] by simp

text \<open>
  The 64-byte encoding of a secp256k1 public key and its decoding are inverse to each other.
\<close>

lemma s256_pubkey_roundtrip:
  "(EncodeS256PubKey (Some k) = Inr b \<longrightarrow> on_curve (pk_X k) (pk_Y k) \<longrightarrow> DecodeECDSAPubKey on_curve b = Inr k) \<and>
   (DecodeECDSAPubKey on_curve b = Inr k \<longrightarrow> length b = 64 \<longrightarrow> EncodeS256PubKey (Some k) = Inr b)"
  using Decode_EncodeS256PubKey Encode_DecodeECDSAPubKey by blast

end
