(* ===== verification/Registry_Steps.thy ===== *)
theory Registry_Steps
  imports Registry
begin

text \<open>
  \<^verbatim>\<open>pkg/mpc/registry.go\<close> with its two goroutines side by side. \<^verbatim>\<open>WatchPeersReady\<close> and the callback of
  the key exchange share the map of ready peers, the counter, the identity store and the flag
  \<^verbatim>\<open>ready\<close>, and the lock of the registry is held only around single reads and writes of the flag. Here
  each access of one goroutine to that state is a step, and any step of the other may come between.
  The broker calls the callback for one message at a time. A run of the watch loop that nothing
  interrupts is \<open>watch_tick\<close>.
\<close>

section \<open>The state and its steps\<close>

text \<open>Where \<^verbatim>\<open>checkAndUpdateReadyState\<close> stands: counting the peers, looking at the keys and the flag, writing the flag.\<close>

datatype check_pc = NoCheck | CountPeers | CheckKeys | StoreReady

text \<open>
  Where an iteration of \<^verbatim>\<open>WatchPeersReady\<close> stands, with the peers that it still has to remove and to
  register. \<open>Counting\<close>, \<open>Dropping\<close> and \<open>Marking\<close> are the points between the accesses for one peer.
\<close>

datatype watch_pc =
    Waiting
  | Removing "string list" "string list"
  | Counting string "string list" "string list"
  | Dropping string "string list" "string list"
  | Registering "string list"
  | Marking string "string list"
  | Checking check_pc

text \<open>
  \<open>rn_stale\<close> is not part of the program. It records that the entry of a peer was cleared while the
  flag was up, or while the callback had counted the peers and not yet written the flag. It is
  dropped when the flag is reset and no such count is under way, and when a count finds all peers.
\<close>

record 'k reg_run =
  rn_reg :: "'k registry"
  rn_watch :: watch_pc
  rn_check :: check_pc
  rn_stale :: bool

definition all_counted :: "'k registry \<Rightarrow> bool" where
  "all_counted r \<longleftrightarrow> length (readyPeers (rg_readyMap r)) = length (rg_peerNodeIDs r)"

fun check_sub :: "check_pc \<Rightarrow> 'k registry \<Rightarrow> check_pc \<times> 'k registry" where
  "check_sub NoCheck r = (NoCheck, r)"
| "check_sub CountPeers r = (if all_counted r then CheckKeys else NoCheck, r)"
| "check_sub CheckKeys r = (if isECDHReady r \<and> \<not> rg_ready r then StoreReady else NoCheck, r)"
| "check_sub StoreReady r = (NoCheck, r\<lparr>rg_ready := True\<rparr>)"

fun watch_sub ::
  "(string list \<Rightarrow> string list \<Rightarrow> string list \<times> string list) \<Rightarrow> string list res \<Rightarrow> watch_pc \<Rightarrow> 'k registry \<Rightarrow>
   watch_pc \<times> 'k registry" where
  "watch_sub D listed Waiting r =
     (let new = getReadyPeersFromKVStore r (case listed of Inl _ \<Rightarrow> [] | Inr ks \<Rightarrow> ks) in
      if length new \<noteq> length (rg_peerNodeIDs r)
      then (Removing (fst (D (readyPeers (rg_readyMap r)) new)) new, r\<lparr>rg_ready := False\<rparr>)
      else (Registering new, r))"
| "watch_sub D listed (Removing [] new) r = (Registering new, r)"
| "watch_sub D listed (Removing (p # ps) new) r =
     (Counting p ps new, r\<lparr>rg_readyMap := AList.update p False (rg_readyMap r)\<rparr>)"
| "watch_sub D listed (Counting p ps new) r = (Dropping p ps new, r\<lparr>rg_readyCount := rg_readyCount r - 1\<rparr>)"
| "watch_sub D listed (Dropping p ps new) r = (Removing ps new, r\<lparr>rg_store := RemovePeer p (rg_store r)\<rparr>)"
| "watch_sub D listed (Registering []) r = (Checking CountPeers, r)"
| "watch_sub D listed (Registering (p # ps)) r =
     (if map_of (rg_readyMap r) p = Some True
      then (Registering ps, r\<lparr>rg_readyMap := AList.update p True (rg_readyMap r)\<rparr>)
      else (Marking p ps, r\<lparr>rg_readyCount := rg_readyCount r + 1\<rparr>))"
| "watch_sub D listed (Marking p ps) r =
     (Registering ps, r\<lparr>rg_readyMap := AList.update p True (rg_readyMap r)\<rparr>)"
| "watch_sub D listed (Checking c) r =
     (if c = NoCheck then (Waiting, r) else (let (c', r') = check_sub c r in (Checking c', r')))"

definition counted :: "check_pc \<Rightarrow> bool" where
  "counted c \<longleftrightarrow> c = CheckKeys \<or> c = StoreReady"

definition stale_after :: "'k reg_run \<Rightarrow> watch_pc \<Rightarrow> bool" where
  "stale_after g pc =
     (case rn_watch g of
        Waiting \<Rightarrow> rn_stale g \<and> (case pc of Removing _ _ \<Rightarrow> counted (rn_check g) | _ \<Rightarrow> True)
      | Removing (p # ps) new \<Rightarrow> rn_stale g \<or> rg_ready (rn_reg g) \<or> counted (rn_check g)
      | Checking c \<Rightarrow> rn_stale g \<and> \<not> (c = CountPeers \<and> all_counted (rn_reg g))
      | _ \<Rightarrow> rn_stale g)"

definition watch_move ::
  "(string list \<Rightarrow> string list \<Rightarrow> string list \<times> string list) \<Rightarrow> string list res \<Rightarrow> 'k reg_run \<Rightarrow> 'k reg_run" where
  "watch_move D listed g =
     (let (pc, r) = watch_sub D listed (rn_watch g) (rn_reg g) in
      g\<lparr>rn_watch := pc, rn_reg := r, rn_stale := stale_after g pc\<rparr>)"

definition check_move :: "'k reg_run \<Rightarrow> 'k reg_run" where
  "check_move g =
     (let (c, r) = check_sub (rn_check g) (rn_reg g) in
      g\<lparr>rn_check := c, rn_reg := r,
        rn_stale := (rn_stale g \<and> \<not> (rn_check g = CountPeers \<and> all_counted (rn_reg g)))\<rparr>)"

inductive reg_step ::
  "(string list \<Rightarrow> string list \<Rightarrow> string list \<times> string list) \<Rightarrow> 'k crypto \<Rightarrow> 'p ecdh \<Rightarrow> (string \<Rightarrow> bool) \<Rightarrow> 'p \<Rightarrow> (string \<Rightarrow> bool) \<Rightarrow> 'k reg_run \<Rightarrow> 'k reg_run \<Rightarrow> bool"
  for D cr ec rfc3339 priv K where
  watch: "(case listed of Inl _ \<Rightarrow> True | Inr keys \<Rightarrow> list_all K (getReadyPeersFromKVStore (rn_reg g) keys)) \<Longrightarrow>
     reg_step D cr ec rfc3339 priv K g (watch_move D listed g)"
| check: "reg_step D cr ec rfc3339 priv K g (check_move g)"
| message: "rn_check g = NoCheck \<Longrightarrow>
     ecdh_handler cr ec rfc3339 ((ecdh_of (rn_reg g))\<lparr>es_privateKey := Some priv\<rparr>) priv (rg_store (rn_reg g)) data = Returns x \<Longrightarrow>
     reg_step D cr ec rfc3339 priv K g
       (g\<lparr>rn_reg := (rn_reg g)\<lparr>rg_store := er_store x\<rparr>, rn_check := if er_complete x then CountPeers else NoCheck\<rparr>)"

definition run_start :: "'k registry \<Rightarrow> 'k reg_run" where
  "run_start r = \<lparr>rn_reg = r, rn_watch = Waiting, rn_check = NoCheck, rn_stale = False\<rparr>"

abbreviation reg_reach ::
  "(string list \<Rightarrow> string list \<Rightarrow> string list \<times> string list) \<Rightarrow> 'k crypto \<Rightarrow> 'p ecdh \<Rightarrow> (string \<Rightarrow> bool) \<Rightarrow> 'p \<Rightarrow> (string \<Rightarrow> bool) \<Rightarrow> 'k reg_run \<Rightarrow> 'k reg_run \<Rightarrow> bool" where
  "reg_reach D cr ec rfc3339 priv K \<equiv> (reg_step D cr ec rfc3339 priv K)\<^sup>*\<^sup>*"

section \<open>The invariant of the interleaved runs\<close>

text \<open>How far the counter is ahead of the map, and what holds where the watch loop stands.\<close>

fun ahead :: "watch_pc \<Rightarrow> int" where
  "ahead (Counting p ps new) = 1"
| "ahead (Marking p ps) = 1"
| "ahead _ = 0"

fun pc_ok :: "(string \<Rightarrow> bool) \<Rightarrow> 'k registry \<Rightarrow> watch_pc \<Rightarrow> bool" where
  "pc_ok K r Waiting = True"
| "pc_ok K r (Removing ps new) = (distinct ps \<and> set ps \<subseteq> ready_set r \<and> list_all K new)"
| "pc_ok K r (Counting p ps new) =
     (K p \<and> p \<notin> ready_set r \<and> distinct ps \<and> set ps \<subseteq> ready_set r \<and> list_all K new)"
| "pc_ok K r (Dropping p ps new) = (distinct ps \<and> set ps \<subseteq> ready_set r \<and> list_all K new)"
| "pc_ok K r (Registering new) = list_all K new"
| "pc_ok K r (Marking p new) = (K p \<and> p \<notin> ready_set r \<and> list_all K new)"
| "pc_ok K r (Checking c) = (counted c \<longrightarrow> length (rg_peerNodeIDs r) \<le> card (ready_set r))"

definition map_inv :: "(string \<Rightarrow> bool) \<Rightarrow> 'k registry \<Rightarrow> watch_pc \<Rightarrow> bool" where
  "map_inv K r pc \<longleftrightarrow> gomap_ok (rg_readyMap r) \<and> rg_readyCount r = 1 + int (card (ready_set r)) + ahead pc \<and>
     (\<forall>p \<in> dom (map_of (rg_readyMap r)). K p) \<and> pc_ok K r pc"

definition keys_inv :: "'k registry \<Rightarrow> bool" where
  "keys_inv r \<longleftrightarrow> fileStore_ok (rg_store r) \<and>
     (\<forall>p \<in> sym.holders (rg_store r). p \<noteq> rg_nodeID r \<and> map_of (fs_publicKeys (rg_store r)) p \<noteq> None)"

definition flag_inv :: "'k reg_run \<Rightarrow> bool" where
  "flag_inv g \<longleftrightarrow> (\<not> rn_stale g \<and> (rg_ready (rn_reg g) \<or> counted (rn_check g)) \<longrightarrow>
     length (rg_peerNodeIDs (rn_reg g)) \<le> card (ready_set (rn_reg g)))"

lemma ready_set_fields [simp]:
  "ready_set (r\<lparr>rg_ready := b\<rparr>) = ready_set r"
  "ready_set (r\<lparr>rg_readyCount := c\<rparr>) = ready_set r"
  "ready_set (r\<lparr>rg_store := s\<rparr>) = ready_set r"
  "ready_set (r\<lparr>rg_readyMap := AList.update p True (rg_readyMap r)\<rparr>) = insert p (ready_set r)"
  "ready_set (r\<lparr>rg_readyMap := AList.update p False (rg_readyMap r)\<rparr>) = ready_set r - {p}"
  by (auto simp: ready_set_def)

lemma check_sub_cases:
  assumes "check_sub c r = (c', r')"
  shows "rg_readyMap r' = rg_readyMap r" "rg_readyCount r' = rg_readyCount r" "rg_store r' = rg_store r"
    "same_frame r r'" "ready_set r' = ready_set r" "rg_ready r' = (rg_ready r \<or> c = StoreReady)"
    "counted c' \<Longrightarrow> c = CountPeers \<and> all_counted r \<or> counted c"
  using assms by (cases c; auto simp: same_frame_def ready_set_def counted_def split: if_splits)+

lemma all_counted_card: "gomap_ok (rg_readyMap r) \<Longrightarrow> all_counted r \<Longrightarrow> length (rg_peerNodeIDs r) \<le> card (ready_set r)"
  by (simp add: all_counted_def length_readyPeers)

text \<open>The watch loop keeps the map, its counter and the set of keys in order.\<close>

lemma new_ready_list:
  fixes listed :: "string list res"
  assumes "case listed of Inl _ \<Rightarrow> True | Inr keys \<Rightarrow> list_all K (getReadyPeersFromKVStore r keys)"
  shows "list_all (\<lambda>p. p \<noteq> rg_nodeID r \<and> K p) (getReadyPeersFromKVStore r (case listed of Inl _ \<Rightarrow> [] | Inr ks \<Rightarrow> ks))"
  using new_ready_K [OF assms] by (auto simp: list_all_iff new_ready_def)

lemma watch_sub_map:
  assumes "watch_sub D listed pc r = (pc', r')" and "map_inv K r pc" and "difference_ok D"
    and "list_all K (getReadyPeersFromKVStore r (case listed of Inl _ \<Rightarrow> [] | Inr ks \<Rightarrow> ks))"
  shows "map_inv K r' pc' \<and> same_frame r r'"
proof (cases pc)
  case Waiting
  with assms show ?thesis
    using ready_set_readyPeers [of r] distinct_readyPeers [of "rg_readyMap r"]
    by (auto simp: map_inv_def same_frame_def Let_def difference_ok_def split: if_splits)
next
  case (Removing ps new)
  show ?thesis
  proof (cases ps)
    case Nil
    with Removing assms show ?thesis by (auto simp: map_inv_def same_frame_def)
  next
    case (Cons p qs)
    with Removing assms have p: "p \<in> ready_set r" and g: "gomap_ok (rg_readyMap r)" by (auto simp: map_inv_def)
    have "card (ready_set r) = Suc (card (ready_set r - {p}))" using p by (intro card.remove) auto
    moreover have "K p" using p ready_set_dom [of r] Removing Cons assms(2) by (auto simp: map_inv_def)
    moreover have "distinct qs \<and> set qs \<subseteq> ready_set r - {p} \<and> list_all K new"
      using Removing Cons assms(2) by (auto simp: map_inv_def)
    moreover have "\<forall>q \<in> insert p (dom (map_of (rg_readyMap r))). K q"
      using \<open>K p\<close> assms(2) by (auto simp: map_inv_def)
    moreover have "pc' = Counting p qs new" "r' = r\<lparr>rg_readyMap := AList.update p False (rg_readyMap r)\<rparr>"
      using assms(1) Removing Cons by auto
    moreover have "rg_readyCount r = 1 + int (card (ready_set r))" using assms(2) Removing by (simp add: map_inv_def)
    ultimately show ?thesis using g by (simp add: map_inv_def same_frame_def) blast
  qed
next
  case (Registering ps)
  show ?thesis
  proof (cases ps)
    case Nil
    with Registering assms show ?thesis by (auto simp: map_inv_def same_frame_def counted_def)
  next
    case (Cons p qs)
    have k: "K p" "list_all K qs" "\<forall>q \<in> insert p (dom (map_of (rg_readyMap r))). K q"
      using assms(2) Registering Cons by (auto simp: map_inv_def)
    show ?thesis
    proof (cases "map_of (rg_readyMap r) p = Some True")
      case True
      then have "insert p (ready_set r) = ready_set r" by (auto simp: ready_set_def)
      moreover have "pc' = Registering qs" "r' = r\<lparr>rg_readyMap := AList.update p True (rg_readyMap r)\<rparr>"
        using True assms(1) Registering Cons by auto
      ultimately show ?thesis using k assms(2) Registering by (simp add: map_inv_def same_frame_def distinct_update)
    next
      case False
      then have "p \<notin> ready_set r" by (simp add: ready_set_def)
      with False k assms(1,2) Registering Cons show ?thesis by (auto simp: map_inv_def same_frame_def)
    qed
  qed
next
  case (Marking p ps)
  then have "pc' = Registering ps" "r' = r\<lparr>rg_readyMap := AList.update p True (rg_readyMap r)\<rparr>" using assms(1) by auto
  with Marking assms(2) show ?thesis by (simp add: map_inv_def same_frame_def distinct_update)
next
  case (Checking c)
  show ?thesis
  proof (cases "c = NoCheck")
    case True
    with Checking assms show ?thesis by (auto simp: map_inv_def same_frame_def)
  next
    case False
    with Checking assms(1) obtain c' where c': "check_sub c r = (c', r')" "pc' = Checking c'"
      by (auto split: prod.splits)
    note k = check_sub_cases [OF c'(1)]
    have "counted c' \<longrightarrow> length (rg_peerNodeIDs r) \<le> card (ready_set r)"
      using k(7) all_counted_card [of r] assms(2) Checking by (auto simp: map_inv_def)
    with k assms(2) Checking c'(2) show ?thesis by (auto simp: map_inv_def same_frame_def)
  qed
qed (use assms in \<open>auto simp: map_inv_def same_frame_def\<close>)

lemma watch_sub_keys:
  assumes "watch_sub D listed pc r = (pc', r')" and "keys_inv r"
  shows "keys_inv r' \<and> fs_publicKeys (rg_store r') = fs_publicKeys (rg_store r)"
proof -
  have "rg_store r' = rg_store r \<and> rg_nodeID r' = rg_nodeID r \<or>
      (\<exists>p. rg_store r' = RemovePeer p (rg_store r) \<and> rg_nodeID r' = rg_nodeID r)"
    using assms(1)
    by (cases "(D, listed, pc, r)" rule: watch_sub.cases)
      (auto simp: Let_def same_frame_def split: if_splits prod.splits dest: check_sub_cases(3,4))
  moreover have "fs_publicKeys (RemovePeer p (rg_store r)) = fs_publicKeys (rg_store r)" for p
    by (simp add: RemovePeer_def RemoveSymmetricKey_def)
  ultimately show ?thesis using assms(2)
    by (auto simp: keys_inv_def RemovePeer_def sym.remove_ok sym.holders_remove)
qed

lemma watch_sub_flag:
  assumes "watch_sub D listed (rn_watch g) (rn_reg g) = (pc, r)" and "flag_inv g" and "map_inv K (rn_reg g) (rn_watch g)"
  shows "flag_inv (g\<lparr>rn_watch := pc, rn_reg := r, rn_stale := stale_after g pc\<rparr>)"
proof (cases "rn_watch g")
  case Waiting
  with assms(1,2) show ?thesis by (auto simp: flag_inv_def stale_after_def Let_def split: if_splits)
next
  case (Removing ps new)
  with assms(1,2) show ?thesis by (cases ps) (auto simp: flag_inv_def stale_after_def)
next
  case (Registering ps)
  have "card (ready_set (rn_reg g)) \<le> card (insert p (ready_set (rn_reg g)))" for p by (simp add: card_insert_le)
  with Registering assms(1,2) show ?thesis
    by (cases ps) (auto simp: flag_inv_def stale_after_def split: if_splits intro: order_trans)
next
  case (Marking p ps)
  have "card (ready_set (rn_reg g)) \<le> card (insert p (ready_set (rn_reg g)))" by (simp add: card_insert_le)
  with Marking assms(1,2) show ?thesis by (auto simp: flag_inv_def stale_after_def intro: order_trans)
next
  case (Checking c)
  show ?thesis
  proof (cases "c = NoCheck")
    case True
    with Checking assms(1,2) show ?thesis by (auto simp: flag_inv_def stale_after_def)
  next
    case False
    with Checking assms(1) obtain c' where c': "check_sub c (rn_reg g) = (c', r)" by (auto split: prod.splits)
    have "c = CountPeers \<and> all_counted (rn_reg g) \<or> c = StoreReady \<longrightarrow>
        length (rg_peerNodeIDs (rn_reg g)) \<le> card (ready_set (rn_reg g))"
      using assms(3) Checking all_counted_card [of "rn_reg g"] by (auto simp: map_inv_def counted_def)
    with check_sub_cases [OF c'] assms(2) Checking show ?thesis
      by (auto simp: flag_inv_def stale_after_def same_frame_def)
  qed
qed (use assms(1,2) in \<open>auto simp: flag_inv_def stale_after_def\<close>)

definition run_inv :: "(string \<Rightarrow> bool) \<Rightarrow> 'k reg_run \<Rightarrow> bool" where
  "run_inv K g \<longleftrightarrow> map_inv K (rn_reg g) (rn_watch g) \<and> keys_inv (rn_reg g) \<and> flag_inv g"

lemma run_inv_start:
  assumes "NewRegistry n ps t s = Returns r" and "fresh_store s"
  shows "run_inv K (run_start r)"
  using assms
  by (auto simp: NewRegistry_def run_inv_def run_start_def map_inv_def keys_inv_def flag_inv_def counted_def ready_set_def
      fresh_store_def sym.holders_def GetSymmetricKey_def split: if_splits)

lemma check_move_inv:
  assumes "run_inv K g"
  shows "run_inv K (check_move g) \<and> same_frame (rn_reg g) (rn_reg (check_move g)) \<and>
    rg_store (rn_reg (check_move g)) = rg_store (rn_reg g)"
proof -
  obtain c r where c: "check_sub (rn_check g) (rn_reg g) = (c, r)" by (cases "check_sub (rn_check g) (rn_reg g)")
  note k = check_sub_cases [OF c]
  have m: "map_inv K r (rn_watch g)" using assms k
    by (cases "rn_watch g") (auto simp: run_inv_def map_inv_def same_frame_def)
  have "rn_check g = CountPeers \<and> all_counted (rn_reg g) \<longrightarrow>
      length (rg_peerNodeIDs (rn_reg g)) \<le> card (ready_set (rn_reg g))"
    using assms all_counted_card [of "rn_reg g"] by (auto simp: run_inv_def map_inv_def)
  then have "flag_inv (check_move g)"
    using assms k by (auto simp: check_move_def c run_inv_def flag_inv_def same_frame_def counted_def)
  with assms k m show ?thesis by (auto simp: check_move_def c run_inv_def keys_inv_def same_frame_def)
qed

lemma message_keys:
  assumes "ecdh_handler cr ec rfc3339 ((ecdh_of r)\<lparr>es_privateKey := Some priv\<rparr>) priv (rg_store r) data = Returns x"
    and "keys_inv r"
  shows "keys_inv (r\<lparr>rg_store := er_store x\<rparr>) \<and> fs_publicKeys (er_store x) = fs_publicKeys (rg_store r)"
proof -
  have "er_store x = rg_store r \<or> (\<exists>q k. q \<noteq> rg_nodeID r \<and>
      map_of (fs_publicKeys (rg_store r)) q \<noteq> None \<and> er_store x = SetSymmetricKey q k (rg_store r))"
    using ecdh_handler_cases [OF assms(1)] by (auto simp: ecdh_of_def NewECDHSession_def)
  moreover have "fs_publicKeys (SetSymmetricKey q k (rg_store r)) = fs_publicKeys (rg_store r)" for q k
    by (simp add: SetSymmetricKey_def)
  ultimately show ?thesis using assms(2) by (auto simp: keys_inv_def sym.set_ok sym.holders_set)
qed

lemma reg_step_inv:
  assumes "reg_step D cr ec rfc3339 priv K g g'" and "run_inv (\<lambda>p. p \<noteq> n \<and> K p) g" and "rg_nodeID (rn_reg g) = n"
    and "difference_ok D"
  shows "run_inv (\<lambda>p. p \<noteq> n \<and> K p) g' \<and> same_frame (rn_reg g) (rn_reg g') \<and>
    fs_publicKeys (rg_store (rn_reg g')) = fs_publicKeys (rg_store (rn_reg g))"
  using assms(1)
proof cases
  case (watch listed)
  obtain pc r where w: "watch_sub D listed (rn_watch g) (rn_reg g) = (pc, r)"
    by (cases "watch_sub D listed (rn_watch g) (rn_reg g)")
  have g': "g' = g\<lparr>rn_watch := pc, rn_reg := r, rn_stale := stale_after g pc\<rparr>"
    using watch(1) w by (simp add: watch_move_def)
  have m: "map_inv (\<lambda>p. p \<noteq> n \<and> K p) (rn_reg g) (rn_watch g)" "keys_inv (rn_reg g)" "flag_inv g"
    using assms(2) by (simp_all add: run_inv_def)
  from watch_sub_map [OF w m(1) assms(4)] new_ready_list [OF watch(2)] assms(3)
    watch_sub_keys [OF w m(2)] watch_sub_flag [OF w m(3,1)]
  show ?thesis by (simp add: g' run_inv_def)
next
  case check
  with check_move_inv [OF assms(2)] show ?thesis by simp
next
  case (message data x)
  have "map_inv K' (r\<lparr>rg_store := s\<rparr>) pc = map_inv K' r pc" for K' r s pc
    by (cases pc) (simp_all add: map_inv_def)
  with message message_keys [OF message(3)] assms(2) show ?thesis
    by (auto simp: run_inv_def flag_inv_def same_frame_def counted_def)
qed

lemma reg_reach_inv:
  assumes "reg_reach D cr ec rfc3339 priv K (run_start r0) g" and "NewRegistry n ps t s = Returns r0" and "fresh_store s"
    and "difference_ok D"
  shows "run_inv (\<lambda>p. p \<noteq> n \<and> K p) g \<and> same_frame r0 (rn_reg g) \<and>
    fs_publicKeys (rg_store (rn_reg g)) = fs_publicKeys (rg_store r0)"
  using assms(1)
proof (induction rule: rtranclp_induct)
  case base
  show ?case using run_inv_start [OF assms(2,3)] by (simp add: run_start_def same_frame_def)
next
  case (step g g')
  have "rg_nodeID r0 = n" using assms(2) by (auto simp: NewRegistry_def split: if_splits)
  with step reg_step_inv [OF step(2) _ _ assms(4), of n] show ?case by (auto simp: same_frame_def)
qed

text \<open>
  When the flag is up and no stale count explains it, the map holds all configured peers. The watch
  loop then stands at no point where the counter is ahead of the map.
\<close>

lemma fresh_flag_all:
  assumes "run_inv (\<lambda>p. p \<noteq> n \<and> p \<in> set ps) g" and "ArePeersReady (rn_reg g)" and "\<not> rn_stale g"
    and "distinct (rg_peerNodeIDs (rn_reg g))" "set (rg_peerNodeIDs (rn_reg g)) = set ps - {n}" "rg_nodeID (rn_reg g) = n"
  shows "registry_inv (\<lambda>p. p \<in> set (rg_peerNodeIDs (rn_reg g))) (rn_reg g)"
proof -
  let ?r = "rn_reg g"
  have inv: "map_inv (\<lambda>p. p \<noteq> n \<and> p \<in> set ps) ?r (rn_watch g)" "keys_inv ?r" "flag_inv g"
    using assms(1) by (simp_all add: run_inv_def)
  have sub: "ready_set ?r \<subseteq> set (rg_peerNodeIDs ?r)"
    using inv(1) ready_set_dom [of ?r] assms(5) by (auto simp: map_inv_def)
  have len: "length (rg_peerNodeIDs ?r) \<le> card (ready_set ?r)"
    using inv(3) assms(2,3) by (simp add: flag_inv_def ArePeersReady_def)
  then have full: "ready_set ?r = set ps - {n}"
    using sub assms(4,5) by (metis List.finite_set card_seteq distinct_card)
  have "ahead (rn_watch g) = 0"
    using inv(1) full by (cases "rn_watch g") (auto simp: map_inv_def)
  with inv assms(5,6) len show ?thesis by (auto simp: registry_inv_def map_inv_def count_inv_def keys_inv_def)
qed

section \<open>Runs of one goroutine\<close>

text \<open>The rest of an iteration, when nothing comes between; the other fields of the state are left alone.\<close>

lemma watch_reach:
  assumes "watch_sub D (Inl e) pc r = (pc', r')"
  obtains b' where "reg_step D cr ec rfc3339 priv K \<lparr>rn_reg = r, rn_watch = pc, rn_check = c, rn_stale = b\<rparr>
    \<lparr>rn_reg = r', rn_watch = pc', rn_check = c, rn_stale = b'\<rparr>"
proof -
  let ?g = "\<lparr>rn_reg = r, rn_watch = pc, rn_check = c, rn_stale = b\<rparr>"
  have "reg_step D cr ec rfc3339 priv K ?g (watch_move D (Inl e) ?g)" by (rule reg_step.watch) simp
  with assms that show thesis by (simp add: watch_move_def)
qed

definition moves_to ::
  "(string list \<Rightarrow> string list \<Rightarrow> string list \<times> string list) \<Rightarrow> 'k crypto \<Rightarrow> 'p ecdh \<Rightarrow> (string \<Rightarrow> bool) \<Rightarrow> 'p \<Rightarrow> (string \<Rightarrow> bool) \<Rightarrow> check_pc \<Rightarrow> watch_pc \<times> 'k registry \<Rightarrow> watch_pc \<times> 'k registry \<Rightarrow> bool" where
  "moves_to D cr ec rfc3339 priv K c x y \<longleftrightarrow>
     (\<forall>b. \<exists>b'. reg_reach D cr ec rfc3339 priv K \<lparr>rn_reg = snd x, rn_watch = fst x, rn_check = c, rn_stale = b\<rparr>
        \<lparr>rn_reg = snd y, rn_watch = fst y, rn_check = c, rn_stale = b'\<rparr>)"

lemma moves_to_refl [simp]: "moves_to D cr ec rfc3339 priv K c x x"
  by (auto simp: moves_to_def)

lemma moves_to_trans [trans]:
  "moves_to D cr ec rfc3339 priv K c x y \<Longrightarrow> moves_to D cr ec rfc3339 priv K c y z \<Longrightarrow> moves_to D cr ec rfc3339 priv K c x z"
  unfolding moves_to_def by (metis rtranclp_trans)

lemma moves_to_step:
  assumes "watch_sub D (Inl (ENew [])) (fst x) (snd x) = y"
  shows "moves_to D cr ec rfc3339 priv K c x y"
  unfolding moves_to_def
  by (metis assms prod.collapse r_into_rtranclp watch_reach)

lemma removing_run:
  "moves_to D cr ec rfc3339 priv K c (Removing ps new, r) (Registering new, fold disconnect_peer ps r)"
proof (induction ps arbitrary: r)
  case Nil
  show ?case by (rule moves_to_step) simp
next
  case (Cons p ps)
  let ?r1 = "r\<lparr>rg_readyMap := AList.update p False (rg_readyMap r)\<rparr>"
  let ?r2 = "?r1\<lparr>rg_readyCount := rg_readyCount ?r1 - 1\<rparr>"
  have "moves_to D cr ec rfc3339 priv K c (Removing (p # ps) new, r) (Counting p ps new, ?r1)"
    by (rule moves_to_step) simp
  also have "moves_to D cr ec rfc3339 priv K c \<dots> (Dropping p ps new, ?r2)" by (rule moves_to_step) simp
  also have "moves_to D cr ec rfc3339 priv K c \<dots> (Removing ps new, disconnect_peer p r)"
    by (rule moves_to_step) (simp add: disconnect_peer_def)
  also note Cons.IH
  finally show ?case by simp
qed

lemma registering_run:
  "moves_to D cr ec rfc3339 priv K c (Registering ps, r) (Checking CountPeers, fst (register_loop ps r))"
proof (induction ps arbitrary: r)
  case Nil
  show ?case by (rule moves_to_step) simp
next
  case (Cons p ps)
  have "moves_to D cr ec rfc3339 priv K c (Registering (p # ps), r) (Registering ps, fst (register_peer p r))"
  proof (cases "map_of (rg_readyMap r) p = Some True")
    case True
    then show ?thesis by (intro moves_to_step) (simp add: register_peer_def Let_def)
  next
    case False
    let ?r1 = "r\<lparr>rg_readyCount := rg_readyCount r + 1\<rparr>"
    have "moves_to D cr ec rfc3339 priv K c (Registering (p # ps), r) (Marking p ps, ?r1)"
      using False by (intro moves_to_step) simp
    also have "moves_to D cr ec rfc3339 priv K c \<dots> (Registering ps, fst (register_peer p r))"
      using False by (intro moves_to_step) (auto simp: register_peer_def Let_def split: option.splits)
    finally show ?thesis .
  qed
  also note Cons.IH
  finally show ?case by (simp add: case_prod_beta Let_def)
qed

lemma checking_run:
  "moves_to D cr ec rfc3339 priv K c (Checking CountPeers, r) (Waiting, checkAndUpdateReadyState r)"
proof -
  have no: "moves_to D cr ec rfc3339 priv K c (Checking NoCheck, r') (Waiting, r')" for r'
    by (rule moves_to_step) simp
  have step: "moves_to D cr ec rfc3339 priv K c (Checking x, r') (Checking x', r'')"
    if "check_sub x r' = (x', r'')" "x \<noteq> NoCheck" for x x' r' r''
    by (rule moves_to_step) (use that in simp)
  show ?thesis
  proof (cases "all_counted r")
    case False
    have "moves_to D cr ec rfc3339 priv K c (Checking CountPeers, r) (Checking NoCheck, r)"
      by (rule step) (use False in simp_all)
    also note no
    finally show ?thesis using False by (simp add: checkAndUpdateReadyState_def all_counted_def Let_def)
  next
    case counted: True
    have "moves_to D cr ec rfc3339 priv K c (Checking CountPeers, r) (Checking CheckKeys, r)"
      by (rule step) (use counted in simp_all)
    also have "moves_to D cr ec rfc3339 priv K c \<dots> (Waiting, checkAndUpdateReadyState r)"
    proof (cases "isECDHReady r \<and> \<not> rg_ready r")
      case False
      have "moves_to D cr ec rfc3339 priv K c (Checking CheckKeys, r) (Checking NoCheck, r)"
        by (rule step) (use False in simp_all)
      also note no
      finally show ?thesis using False by (auto simp: checkAndUpdateReadyState_def Let_def)
    next
      case True
      have "moves_to D cr ec rfc3339 priv K c (Checking CheckKeys, r) (Checking StoreReady, r)"
        by (rule step) (use True in simp_all)
      also have "moves_to D cr ec rfc3339 priv K c \<dots> (Checking NoCheck, r\<lparr>rg_ready := True\<rparr>)" by (rule step) simp_all
      also note no
      finally show ?thesis using True counted by (simp add: checkAndUpdateReadyState_def all_counted_def Let_def)
    qed
    finally show ?thesis .
  qed
qed

lemma after_removal_run:
  "moves_to D cr ec rfc3339 priv K c (Removing ps new, r) (Waiting, fst (registerReadyPairs new (fold disconnect_peer ps r)))"
  using moves_to_trans [OF moves_to_trans [OF removing_run registering_run] checking_run]
  by (simp add: registerReadyPairs_def case_prod_beta)

lemma watch_begin:
  fixes listed :: "string list res"
  assumes "case listed of Inl _ \<Rightarrow> True | Inr keys \<Rightarrow> list_all K (getReadyPeersFromKVStore r keys)"
    and "watch_sub D listed Waiting r = (pc, r')"
  obtains b' where "reg_step D cr ec rfc3339 priv K \<lparr>rn_reg = r, rn_watch = Waiting, rn_check = c, rn_stale = b\<rparr>
    \<lparr>rn_reg = r', rn_watch = pc, rn_check = c, rn_stale = b'\<rparr>"
proof -
  let ?g = "\<lparr>rn_reg = r, rn_watch = Waiting, rn_check = c, rn_stale = b\<rparr>"
  have "reg_step D cr ec rfc3339 priv K ?g (watch_move D listed ?g)" by (rule reg_step.watch) (use assms(1) in \<open>cases listed; simp\<close>)
  with assms(2) that show thesis by (simp add: watch_move_def)
qed

text \<open>An iteration that nothing interrupts is \<open>watch_tick\<close>.\<close>

lemma uninterrupted_iteration:
  fixes listed :: "string list res"
  assumes "case listed of Inl _ \<Rightarrow> True | Inr keys \<Rightarrow> list_all K (getReadyPeersFromKVStore r keys)"
  obtains b' where "reg_reach D cr ec rfc3339 priv K \<lparr>rn_reg = r, rn_watch = Waiting, rn_check = c, rn_stale = b\<rparr>
    \<lparr>rn_reg = fst (watch_tick D listed r), rn_watch = Waiting, rn_check = c, rn_stale = b'\<rparr>"
proof -
  obtain pc r' where w: "watch_sub D listed Waiting r = (pc, r')" by (cases "watch_sub D listed Waiting r")
  from watch_begin [OF assms w] obtain b1 where first:
    "reg_step D cr ec rfc3339 priv K \<lparr>rn_reg = r, rn_watch = Waiting, rn_check = c, rn_stale = b\<rparr>
      \<lparr>rn_reg = r', rn_watch = pc, rn_check = c, rn_stale = b1\<rparr>" by metis
  have "moves_to D cr ec rfc3339 priv K c (pc, r') (Waiting, fst (watch_tick D listed r))"
    using w after_removal_run [of D cr ec rfc3339 priv K c] 
      moves_to_trans [OF registering_run checking_run, of D cr ec rfc3339 priv K c]
    by (auto simp: watch_tick_def registerReadyPairs_def Let_def case_prod_beta split: if_splits)
  then obtain b' where "reg_reach D cr ec rfc3339 priv K \<lparr>rn_reg = r', rn_watch = pc, rn_check = c, rn_stale = b1\<rparr>
      \<lparr>rn_reg = fst (watch_tick D listed r), rn_watch = Waiting, rn_check = c, rn_stale = b'\<rparr>"
    by (auto simp: moves_to_def)
  with first that show thesis by (meson converse_rtranclp_into_rtranclp)
qed

text \<open>A check of the callback that nothing interrupts raises the flag when all peers have registered and exchanged keys.\<close>

lemma uninterrupted_check:
  assumes "all_counted r" and "isECDHReady r" and "\<not> rg_ready r"
  shows "reg_reach D cr ec rfc3339 priv K \<lparr>rn_reg = r, rn_watch = pc, rn_check = CountPeers, rn_stale = b\<rparr>
    \<lparr>rn_reg = r\<lparr>rg_ready := True\<rparr>, rn_watch = pc, rn_check = NoCheck, rn_stale = False\<rparr>"
proof -
  let ?g = "\<lparr>rn_reg = r, rn_watch = pc, rn_check = CountPeers, rn_stale = b\<rparr>"
  have "check_move (check_move (check_move ?g)) =
      \<lparr>rn_reg = r\<lparr>rg_ready := True\<rparr>, rn_watch = pc, rn_check = NoCheck, rn_stale = False\<rparr>"
    using assms by (simp add: check_move_def)
  moreover have "reg_reach D cr ec rfc3339 priv K g (check_move g)" for g by (rule r_into_rtranclp) (rule reg_step.check)
  ultimately show ?thesis by (metis rtranclp_trans)
qed

section \<open>The race\<close>

text \<open>
  All peers are ready; one of them, \<open>p\<close>, is missing from the next listing. The watch loop resets the
  flag and learns who is gone. Before it clears the entry of \<open>p\<close>, a message of the key exchange
  completes: all peers still count, and the callback raises the flag again. Then \<open>p\<close> is removed,
  and its key with it.
\<close>

lemma readiness_race_run:
  assumes inv: "registry_inv (\<lambda>q. q \<in> set (rg_peerNodeIDs r)) r" and D: "difference_ok D"
    and full: "ready_set r = set (rg_peerNodeIDs r)" "sym.holders (rg_store r) = set (rg_peerNodeIDs r)"
    and "distinct (rg_peerNodeIDs r)" and p: "p \<in> set (rg_peerNodeIDs r)"
    and listed: "set (getReadyPeersFromKVStore r keys) = set (rg_peerNodeIDs r) - {p}"
      "distinct (getReadyPeersFromKVStore r keys)"
    and K: "\<forall>q \<in> set (rg_peerNodeIDs r). K q"
    and msg: "ecdh_handler cr ec rfc3339 ((ecdh_of r)\<lparr>es_privateKey := Some priv\<rparr>) priv (rg_store r) data = Returns x"
      "er_complete x" "er_store x = SetSymmetricKey q k (rg_store r)" "q \<in> set (rg_peerNodeIDs r)"
  shows "\<exists>g. reg_reach D cr ec rfc3339 priv K (\<lparr>rn_reg = r, rn_watch = Waiting, rn_check = NoCheck, rn_stale = b\<rparr>) g \<and>
    rn_watch g = Waiting \<and> rn_check g = NoCheck \<and> ArePeersReady (rn_reg g) \<and> p \<notin> ready_set (rn_reg g) \<and>
    p \<notin> sym.holders (rg_store (rn_reg g)) \<and> GetReadyPeersCount (rn_reg g) = GetTotalPeersCount (rn_reg g) - 1"
proof -
  let ?new = "getReadyPeersFromKVStore r keys"
  let ?ps = "rg_peerNodeIDs r"
  let ?dis = "filter (\<lambda>y. y \<notin> set ?new) (readyPeers (rg_readyMap r))"
  have ok: "gomap_ok (rg_readyMap r)" "fileStore_ok (rg_store r)" and count: "count_inv r"
    using inv by (simp_all add: registry_inv_def count_inv_def)
  have card: "card (set ?ps) = length ?ps" using assms(5) by (rule distinct_card)
  have c: "card (set ?ps - {p}) = length ?ps - 1" using card p by (simp add: card_Diff_singleton)
  have new: "length ?new = length ?ps - 1" using distinct_card [OF listed(2)] c unfolding listed(1) by simp
  have pos: "length ?ps > 0" using p by (cases ?ps) simp_all
  have differ: "length ?new \<noteq> length ?ps" using new pos by linarith
  have w: "watch_sub D (Inr keys) Waiting r = (Removing ?dis ?new, r\<lparr>rg_ready := False\<rparr>)"
    using differ D by (simp add: difference_ok_def Let_def)
  have "case Inr keys of Inl (_ :: gerror) \<Rightarrow> True | Inr keys \<Rightarrow> list_all K (getReadyPeersFromKVStore r keys)"
    using listed(1) K by (auto simp: list_all_iff)
  from watch_begin [OF this w] obtain b1 where s1:
    "reg_reach D cr ec rfc3339 priv K \<lparr>rn_reg = r, rn_watch = Waiting, rn_check = NoCheck, rn_stale = b\<rparr>
      \<lparr>rn_reg = r\<lparr>rg_ready := False\<rparr>, rn_watch = Removing ?dis ?new, rn_check = NoCheck, rn_stale = b1\<rparr>"
    by (metis r_into_rtranclp)
  let ?r1 = "r\<lparr>rg_ready := False, rg_store := er_store x\<rparr>"
  let ?g1 = "\<lparr>rn_reg = r\<lparr>rg_ready := False\<rparr>, rn_watch = Removing ?dis ?new, rn_check = NoCheck, rn_stale = b1\<rparr>"
  have "reg_step D cr ec rfc3339 priv K ?g1 (?g1\<lparr>rn_reg := (rn_reg ?g1)\<lparr>rg_store := er_store x\<rparr>,
      rn_check := if er_complete x then CountPeers else NoCheck\<rparr>)"
    by (rule reg_step.message) (use msg(1) in \<open>simp_all add: ecdh_of_def\<close>)
  then have s2: "reg_step D cr ec rfc3339 priv K ?g1
      \<lparr>rn_reg = ?r1, rn_watch = Removing ?dis ?new, rn_check = CountPeers, rn_stale = b1\<rparr>"
    using msg(2) by simp
  have holders: "fileStore_ok (er_store x)" "sym.holders (er_store x) = set ?ps"
    using ok(2) full(2) msg(3,4) by (auto simp: sym.set_ok sym.holders_set)
  have keys: "GetSymetricKeyCount s = int (card (sym.holders s))" if "fileStore_ok s" for s :: "'a fileStore"
    using sym.count_keys [OF that] by (simp add: sym.holders_def)
  have n: "rg_readyCount r = 1 + int (length ?ps)" using count full(1) card by (simp add: count_inv_def)
  have "all_counted ?r1" using ok(1) full(1) card by (simp add: all_counted_def length_readyPeers)
  moreover have "isECDHReady ?r1"
    using keys [OF holders(1)] holders(2) card n
    by (simp add: isECDHReady_def CheckSymmetricKeyComplete_iff GetReadyPeersCountExcludeSelf_def GetReadyPeersCount_def)
  ultimately have s3: "reg_reach D cr ec rfc3339 priv K
      \<lparr>rn_reg = ?r1, rn_watch = Removing ?dis ?new, rn_check = CountPeers, rn_stale = b1\<rparr>
      \<lparr>rn_reg = ?r1\<lparr>rg_ready := True\<rparr>, rn_watch = Removing ?dis ?new, rn_check = NoCheck, rn_stale = False\<rparr>"
    by (intro uninterrupted_check) simp_all
  let ?r2 = "?r1\<lparr>rg_ready := True\<rparr>"
  let ?r3 = "fold disconnect_peer ?dis ?r2"
  obtain r4 e where r4: "register_loop ?new ?r3 = (r4, e)" by (cases "register_loop ?new ?r3")
  have pairs: "fst (registerReadyPairs ?new ?r3) = checkAndUpdateReadyState r4"
    by (simp only: registerReadyPairs_def r4 Let_def prod.case fst_conv)
  from after_removal_run [of D cr ec rfc3339 priv K NoCheck ?dis ?new ?r2, unfolded pairs moves_to_def fst_conv snd_conv] obtain b4 where s4:
    "reg_reach D cr ec rfc3339 priv K
      \<lparr>rn_reg = ?r2, rn_watch = Removing ?dis ?new, rn_check = NoCheck, rn_stale = False\<rparr>
      \<lparr>rn_reg = checkAndUpdateReadyState r4, rn_watch = Waiting, rn_check = NoCheck, rn_stale = b4\<rparr>"
    by blast
  have dis: "set ?dis = {p}" "distinct ?dis"
    using ready_set_readyPeers [OF ok(1)] distinct_readyPeers [OF ok(1)] full(1) listed(1) p by auto
  have c2: "count_inv ?r2" "ready_set ?r2 = set ?ps" using count full(1) by (simp_all add: count_inv_def)
  have r3: "count_inv ?r3" "ready_set ?r3 = set ?ps - {p}" "rg_ready ?r3" "rg_peerNodeIDs ?r3 = ?ps"
    using fold_disconnect_inv [OF c2(1), of ?dis] dis c2(2) p by (auto simp: same_frame_def)
  from register_loop_inv [OF r3(1) r4] r3 listed(1)
  have l: "count_inv r4" "ready_set r4 = set ?ps - {p}" "rg_ready r4" "rg_peerNodeIDs r4 = ?ps"
    "rg_store r4 = fold RemovePeer ?dis (er_store x)"
    by (auto simp: same_frame_def disconnect_store)
  have st: "fileStore_ok (rg_store r4)" "sym.holders (rg_store r4) = set ?ps - {p}"
    using fold_RemovePeer [OF holders(1), of ?dis] holders(2) dis(1) l(5) by simp_all
  have "isECDHReady r4"
    using keys [OF st(1)] st(2) l(1,2)
    by (simp add: isECDHReady_def CheckSymmetricKeyComplete_iff GetReadyPeersCountExcludeSelf_def GetReadyPeersCount_def count_inv_def)
  then have "checkAndUpdateReadyState r4 = r4" using l(3) by (simp add: checkAndUpdateReadyState_def Let_def)
  moreover have "ArePeersReady r4" using \<open>isECDHReady r4\<close> l(3) by (simp add: ArePeersReady_def)
  moreover have "GetReadyPeersCount r4 = GetTotalPeersCount r4 - 1"
    using l(1,2,4) c pos by (simp add: count_inv_def GetReadyPeersCount_def GetTotalPeersCount_def)
  moreover have "reg_reach D cr ec rfc3339 priv K \<lparr>rn_reg = r, rn_watch = Waiting, rn_check = NoCheck, rn_stale = b\<rparr>
      \<lparr>rn_reg = checkAndUpdateReadyState r4, rn_watch = Waiting, rn_check = NoCheck, rn_stale = b4\<rparr>"
    using s1 s2 s3 s4 by (meson rtranclp.rtrancl_into_rtrancl rtranclp_trans)
  ultimately show ?thesis using l(2) st(2)
    by (intro exI [of _ "\<lparr>rn_reg = checkAndUpdateReadyState r4, rn_watch = Waiting, rn_check = NoCheck, rn_stale = b4\<rparr>"]) simp
qed

end
