(* ===== verification/Cluster_Properties.thy ===== *)
theory Cluster_Properties
  imports Wire_Properties Registry_Steps
begin

text \<open>
  What the nodes of a cluster agree on: symmetric keys, readiness of peers, the committees of the
  sessions, and the delivery of protocol messages between sessions.
\<close>

section \<open>Key agreement\<close>

text \<open>
  (C16) Two nodes that exchange the messages they broadcast end with the same symmetric key for
  each other. Each must know the public key of the other, and X25519 behaves as documented:
  a public key has 32 bytes, and both sides compute the same secret; the broker delivers what was
  published.
\<close>

theorem key_agreement:
  assumes "x25519_ok ec" and "ed25519_pair cr (fs_privateKey sa) pa" "ed25519_pair cr (fs_privateKey sb) pb"
    and "map_of (fs_publicKeys sb) (es_nodeID a) = Some pa" "map_of (fs_publicKeys sa) (es_nodeID b) = Some pb"
    and "es_nodeID a \<noteq> es_nodeID b" and "es_privateKey a = Some ka" "es_privateKey b = Some kb"
    and "rfc3339 ta" "rfc3339 tb"
    and "x_ECDH ec ka (x_PublicKey ec kb) = Inr secret"
    and "x_HKDF ec secret (deriveConsistentInfo (es_nodeID a) (es_nodeID b)) = Inr key"
    and "BroadcastPublicKey cr ec (\<lambda>_. Inr ()) ta a sa = Returns (Inr wa)"
    and "BroadcastPublicKey cr ec (\<lambda>_. Inr ()) tb b sb = Returns (Inr wb)"
  shows "\<exists>ra rb. ecdh_handler cr ec rfc3339 a ka sa wb = Returns ra \<and> ecdh_handler cr ec rfc3339 b kb sb wa = Returns rb \<and>
    GetSymmetricKey (er_store ra) (es_nodeID b) = Inr (Some key) \<and>
    GetSymmetricKey (er_store rb) (es_nodeID a) = Inr (Some key)"
proof -
  let ?m = "\<lambda>e k t s. \<lparr>em_From = es_nodeID e, em_PublicKey = Some (x_PublicKey ec k), em_Timestamp = t, em_Signature = s\<rparr>"
  have wire: "\<exists>sig. SignEcdhMessage cr s (?m e k t None) = Returns (Inr sig) \<and>
      w = json_Marshal (enc_ECDHMessage (?m e k t (Some sig)))"
    if "BroadcastPublicKey cr ec (\<lambda>_. Inr ()) t e s = Returns (Inr w)" "es_privateKey e = Some k" for t e s w k
    using that by (cases "SignEcdhMessage cr s (?m e k t None)")
      (auto simp: BroadcastPublicKey_def Let_def split: sum.split_asm)
  from wire [OF assms(13,7)] obtain siga where a: "SignEcdhMessage cr sa (?m a ka ta None) = Returns (Inr siga)"
    "wa = json_Marshal (enc_ECDHMessage (?m a ka ta (Some siga)))" by blast
  from wire [OF assms(14,8)] obtain sigb where b: "SignEcdhMessage cr sb (?m b kb tb None) = Returns (Inr sigb)"
    "wb = json_Marshal (enc_ECDHMessage (?m b kb tb (Some sigb)))" by blast
  have "VerifySignature cr sb (?m a ka ta (Some siga)) = Returns (Inr ())"
    using Verify_SignEcdhMessage [OF assms(2) _ a(1), of sb] assms(4) by simp
  moreover have "VerifySignature cr sa (?m b kb tb (Some sigb)) = Returns (Inr ())"
    using Verify_SignEcdhMessage [OF assms(3) _ b(1), of sa] assms(5) by simp
  moreover have "x_ECDH ec kb (x_PublicKey ec ka) = Inr secret"
    using assms(1,11) by (metis dh_commutes_def x25519_ok_def)
  ultimately show ?thesis
    using assms(6,9-12) deriveSymmetricKey_agree [OF assms(12)] x25519_ok_NewPublicKey [OF assms(1)]
    by (simp add: a(2) b(2) ecdh_handler_def Unmarshal_ECDHMessage sig_bytes_def Let_def sym.get_set)
qed

definition demo_session :: "string \<Rightarrow> nat \<Rightarrow> nat ecdhSession" where
  "demo_session n k = \<lparr>es_nodeID = n, es_peerIDs = filter (\<lambda>p. p \<noteq> n) demo_ids, es_privateKey = Some k\<rparr>"

theorem key_agreement_witness:
  "\<exists>wa wb ra rb.
     ecdh_handler demo_crypto demo_ecdh (\<lambda>_. True) (demo_session ''alice'' 3) 3 (demo_store ''alice'') wb = Returns ra \<and>
     ecdh_handler demo_crypto demo_ecdh (\<lambda>_. True) (demo_session ''bob'' 5) 5 (demo_store ''bob'') wa = Returns rb \<and>
     GetSymmetricKey (er_store ra) ''bob'' = GetSymmetricKey (er_store rb) ''alice''"
proof -
  have e: "es_nodeID (demo_session n k) = n" "es_privateKey (demo_session n k) = Some k" for n k
    by (simp_all add: demo_session_def)
  have s: "fs_privateKey (demo_store n) = replicate 64 0" for n by (simp add: demo_store_def)
  have pk: "map_of (fs_publicKeys (demo_store n)) ''alice'' = Some (replicate 32 0)"
    "map_of (fs_publicKeys (demo_store n)) ''bob'' = Some (replicate 32 0)" for n
    by (simp_all add: demo_store_def demo_ids_def)
  have "\<exists>w. BroadcastPublicKey demo_crypto demo_ecdh (\<lambda>_. Inr ()) ''t'' (demo_session n k) (demo_store n) = Returns (Inr w)"
    for n k by (simp add: BroadcastPublicKey_def e SignEcdhMessage_def ed25519_Sign_def s Let_def bind_out_Returns)
  then obtain wa wb where
    w: "BroadcastPublicKey demo_crypto demo_ecdh (\<lambda>_. Inr ()) ''t'' (demo_session ''alice'' 3) (demo_store ''alice'') = Returns (Inr wa)"
      "BroadcastPublicKey demo_crypto demo_ecdh (\<lambda>_. Inr ()) ''t'' (demo_session ''bob'' 5) (demo_store ''bob'') = Returns (Inr wb)"
    by metis
  have "\<exists>ra rb. ecdh_handler demo_crypto demo_ecdh (\<lambda>_. True) (demo_session ''alice'' 3) 3 (demo_store ''alice'') wb = Returns ra \<and>
     ecdh_handler demo_crypto demo_ecdh (\<lambda>_. True) (demo_session ''bob'' 5) 5 (demo_store ''bob'') wa = Returns rb \<and>
     GetSymmetricKey (er_store ra) (es_nodeID (demo_session ''bob'' 5)) = Inr (Some (replicate 32 0)) \<and>
     GetSymmetricKey (er_store rb) (es_nodeID (demo_session ''alice'' 3)) = Inr (Some (replicate 32 0))"
    by (rule key_agreement [OF demo_x25519 _ _ _ _ _ e(2) e(2) _ _ _ _ w,
          where pa = "replicate 32 0" and pb = "replicate 32 0" and secret = "[15]" and key = "replicate 32 0"])
      (simp_all add: e s pk demo_ecdh_def)
  then show ?thesis unfolding e by metis
qed

section \<open>Readiness\<close>

text \<open>
  (C18) In every state that a registry reaches from its start, by iterations of the watch loop with
  any answers of Consul and by any messages of the key exchange, the atomic counter is one more
  than the number of ready peers, and the list of ready peers has no duplicates, contains the
  node itself once, and has the length of the counter.
\<close>

theorem ready_counter_invariant:
  assumes "NewRegistry n ps th s = Returns r0" and "fresh_store s" and "difference_ok D"
    and "registry_reach D cr ec rfc3339 priv K r0 r"
  shows "GetReadyPeersCount r = 1 + int (card (ready_set r)) \<and> n \<notin> ready_set r \<and>
    distinct (GetReadyPeersIncludeSelf r) \<and> set (GetReadyPeersIncludeSelf r) = insert n (ready_set r) \<and>
    int (length (GetReadyPeersIncludeSelf r)) = GetReadyPeersCount r"
proof -
  have inv: "registry_inv K r" and fr: "same_frame r0 r"
    using registry_reach_inv [OF assms(4) NewRegistry_inv [OF assms(1,2)] assms(3)] by simp_all
  have n: "rg_nodeID r = n" using fr assms(1) by (auto simp: same_frame_def NewRegistry_def split: if_splits)
  have "gomap_ok (rg_readyMap r)" using inv by (simp add: registry_inv_def count_inv_def)
  from ready_set_readyPeers [OF this] n
  have "set (GetReadyPeersIncludeSelf r) = insert n (ready_set r)"
    by (simp add: GetReadyPeersIncludeSelf_def)
  moreover have "n \<notin> ready_set r" using inv n by (auto simp: registry_inv_def ready_set_def)
  moreover have "GetReadyPeersCount r = 1 + int (card (ready_set r))"
    using inv by (simp add: registry_inv_def count_inv_def GetReadyPeersCount_def)
  ultimately show ?thesis using GetReadyPeersIncludeSelf_distinct [OF inv] by simp
qed

definition demo_diff :: "string list \<Rightarrow> string list \<Rightarrow> string list \<times> string list" where
  "demo_diff a b = (filter (\<lambda>x. x \<notin> set b) a, filter (\<lambda>x. x \<notin> set a) b)"

lemma demo_diff_ok [simp]: "difference_ok demo_diff"
  by (simp add: difference_ok_def demo_diff_def)

definition fresh_demo :: "string \<Rightarrow> unit fileStore" where
  "fresh_demo n = (demo_store n)\<lparr>fs_symmetricKeys := [],
     fs_publicKeys := [(''alice'', replicate 32 0), (''bob'', replicate 32 0)]\<rparr>"

lemma fresh_demo_ok [simp]: "fresh_store (fresh_demo n)"
  by (simp add: fresh_store_def fresh_demo_def fileStore_ok_def demo_store_def demo_ids_def)

definition start_registry :: "unit registry" where
  "start_registry = \<lparr>rg_nodeID = ''alice'', rg_peerNodeIDs = [''bob''], rg_readyMap = [], rg_readyCount = 1,
     rg_ready = False, rg_mpcThreshold = 1, rg_store = fresh_demo ''alice''\<rparr>"

lemma start_registry_new: "NewRegistry ''alice'' [''alice'', ''bob''] 1 (fresh_demo ''alice'') = Returns start_registry"
  by (simp add: NewRegistry_def start_registry_def getPeerIDsExceptSelf_def)

definition listed_registry :: "unit registry" where
  "listed_registry = fst (watch_tick demo_diff (Inr [''ready/alice'', ''ready/bob'']) start_registry)"

lemma listed_registry_eq:
  "listed_registry = start_registry\<lparr>rg_readyMap := [(''bob'', True)], rg_readyCount := 2\<rparr>"
  by (simp add: listed_registry_def watch_tick_def getReadyPeersFromKVStore_def scan_ready_def start_registry_def
      is_space_def registerReadyPairs_def register_peer_def checkAndUpdateReadyState_def readyPeers_def
      isECDHReady_def CheckSymmetricKeyComplete_def GetReadyPeersCountExcludeSelf_def GetReadyPeersCount_def
      fresh_demo_def)

lemma listed_reach:
  "registry_reach demo_diff demo_crypto demo_ecdh (\<lambda>_. True) 3 (\<lambda>p. p \<in> set [''bob'']) start_registry listed_registry"
  unfolding listed_registry_def
  by (rule registry_reach.step [OF registry_reach.start], rule registry_step.tick)
    (simp add: getReadyPeersFromKVStore_def scan_ready_def start_registry_def is_space_def)

theorem ready_counter_invariant_witness:
  "GetReadyPeersCount listed_registry = 1 + int (card (ready_set listed_registry)) \<and>
   set (GetReadyPeersIncludeSelf listed_registry) = insert ''alice'' (ready_set listed_registry)"
  using ready_counter_invariant [OF start_registry_new fresh_demo_ok demo_diff_ok listed_reach] by simp

text \<open>A state that reports readiness without a stale count.\<close>

lemma fresh_ready_state:
  assumes "NewRegistry n ps th s = Returns r0" and "fresh_store s" and "difference_ok D"
    and "reg_reach D cr ec rfc3339 priv (\<lambda>p. p \<in> set ps) (run_start r0) g"
    and "distinct ps" and "dom (map_of (fs_publicKeys s)) \<subseteq> set ps"
    and "ArePeersReady (rn_reg g)" and "\<not> rn_stale g"
  shows "registry_inv (\<lambda>p. p \<in> set (rg_peerNodeIDs (rn_reg g))) (rn_reg g)"
    and "rg_peerNodeIDs (rn_reg g) = filter (\<lambda>p. p \<noteq> n) ps" and "rg_nodeID (rn_reg g) = n"
    and "distinct (rg_peerNodeIDs (rn_reg g))" and "set (rg_peerNodeIDs (rn_reg g)) = set ps - {n}"
    and "dom (map_of (fs_publicKeys (rg_store (rn_reg g)))) \<subseteq> insert n (set (rg_peerNodeIDs (rn_reg g)))"
proof -
  let ?r = "rn_reg g"
  have r0: "rg_peerNodeIDs r0 = filter (\<lambda>p. p \<noteq> n) ps" "rg_nodeID r0 = n" "rg_store r0 = s"
    using assms(1) by (auto simp: NewRegistry_def getPeerIDsExceptSelf_def split: if_splits)
  have "run_inv (\<lambda>p. p \<noteq> n \<and> p \<in> set ps) g" and fr: "same_frame r0 ?r"
    and pk: "fs_publicKeys (rg_store ?r) = fs_publicKeys s"
    using reg_reach_inv [OF assms(4,1,2,3)] r0 by simp_all
  show p: "rg_peerNodeIDs ?r = filter (\<lambda>p. p \<noteq> n) ps" "rg_nodeID ?r = n"
    using fr r0 by (simp_all add: same_frame_def)
  show d: "distinct (rg_peerNodeIDs ?r)" and set: "set (rg_peerNodeIDs ?r) = set ps - {n}" using assms(5) p by auto
  show "registry_inv (\<lambda>p. p \<in> set (rg_peerNodeIDs ?r)) ?r"
    by (rule fresh_flag_all [OF \<open>run_inv _ g\<close> assms(7,8) d set p(2)])
  show "dom (map_of (fs_publicKeys (rg_store ?r))) \<subseteq> insert n (set (rg_peerNodeIDs ?r))"
    using assms(6) pk p by auto
qed

text \<open>
  (C19) The watch loop and the callback of the key exchange interleaved access by access: whenever
  the registry reports that the peers are ready, every configured peer is registered, a symmetric key
  is held for exactly the configured peers, and the counter is the size of the cluster, unless the
  entry of a peer was cleared while the flag was up or while the callback stood between its count of
  the peers and its write of the flag. That can happen only after a reset that such a callback
  overtook, and the theorem on the race below shows that it does. Only configured peers may be listed in Consul and
  known to the identity store.
\<close>

theorem readiness_means_all_peers:
  assumes "NewRegistry n ps th s = Returns r0" and "fresh_store s" and "difference_ok D"
    and "reg_reach D cr ec rfc3339 priv (\<lambda>p. p \<in> set ps) (run_start r0) g"
    and "distinct ps" and "dom (map_of (fs_publicKeys s)) \<subseteq> set ps" and "n \<in> set ps"
    and "ArePeersReady (rn_reg g)" and "\<not> rn_stale g"
  shows "ready_set (rn_reg g) = set ps - {n} \<and> sym.holders (rg_store (rn_reg g)) = set ps - {n} \<and>
    GetReadyPeersCount (rn_reg g) = GetTotalPeersCount (rn_reg g) \<and> GetTotalPeersCount (rn_reg g) = int (length ps)"
proof -
  note f = fresh_ready_state [OF assms(1-6,8,9)]
  note all = ArePeersReady_all [OF f(1,4) _ assms(8)]
  have "length (rg_peerNodeIDs (rn_reg g)) + 1 = length ps"
    using distinct_card [OF f(4)] distinct_card [OF assms(5)] assms(7) by (cases ps) (auto simp: f(5))
  with all f(3,5,6) show ?thesis by (simp add: GetTotalPeersCount_def)
qed

lemma bob_message:
  fixes r :: "unit registry"
  assumes "rg_nodeID r = ''alice''" and "rg_peerNodeIDs r = [''bob'']"
    and "map_of (fs_publicKeys (rg_store r)) ''bob'' = Some (replicate 32 0)"
    and "GetSymetricKeyCount (SetSymmetricKey ''bob'' (Some (replicate 32 0)) (rg_store r)) = 1"
  shows "\<exists>w x. ecdh_handler demo_crypto demo_ecdh (\<lambda>_. True) ((ecdh_of r)\<lparr>es_privateKey := Some 3\<rparr>) 3 (rg_store r) w = Returns x \<and>
     er_complete x \<and> er_store x = SetSymmetricKey ''bob'' (Some (replicate 32 0)) (rg_store r)"
proof -
  let ?m = "\<lparr>em_From = ''bob'', em_PublicKey = Some (replicate 31 0 @ [5]), em_Timestamp = ''t'', em_Signature = None\<rparr>"
  obtain sig where sig: "SignEcdhMessage demo_crypto (fresh_demo ''bob'') ?m = Returns (Inr sig)"
    by (simp add: SignEcdhMessage_def ed25519_Sign_def fresh_demo_def demo_store_def)
  have "VerifySignature demo_crypto (rg_store r) (?m\<lparr>em_Signature := Some sig\<rparr>) = Returns (Inr ())"
    by (rule Verify_SignEcdhMessage [OF _ _ sig, where pub = "replicate 32 0"])
      (simp_all add: assms(3) fresh_demo_def demo_store_def)
  then have "ecdh_handler demo_crypto demo_ecdh (\<lambda>_. True) ((ecdh_of r)\<lparr>es_privateKey := Some 3\<rparr>) 3
     (rg_store r) (json_Marshal (enc_ECDHMessage (?m\<lparr>em_Signature := Some sig\<rparr>))) =
     Returns \<lparr>er_store = SetSymmetricKey ''bob'' (Some (replicate 32 0)) (rg_store r), er_errors = [],
       er_complete = True\<rparr>"
    using assms(4)
    by (simp add: ecdh_handler_def Unmarshal_ECDHMessage sig_bytes_def ecdh_of_def NewECDHSession_def assms(1,2)
        demo_ecdh_def deriveSymmetricKey_def Let_def)
  then show ?thesis by force
qed

lemma bob_wire:
  "\<exists>w x. ecdh_handler demo_crypto demo_ecdh (\<lambda>_. True) ((ecdh_of listed_registry)\<lparr>es_privateKey := Some 3\<rparr>) 3
     (rg_store listed_registry) w = Returns x \<and> er_complete x \<and>
     er_store x = SetSymmetricKey ''bob'' (Some (replicate 32 0)) (fresh_demo ''alice'')"
  using bob_message [of listed_registry]
  by (simp add: listed_registry_eq start_registry_def GetSymetricKeyCount_def SetSymmetricKey_def fresh_demo_def)

lemma listed_run:
  obtains b where "reg_reach demo_diff demo_crypto demo_ecdh (\<lambda>_. True) 3 (\<lambda>p. p \<in> set [''alice'', ''bob'']) (run_start start_registry)
    \<lparr>rn_reg = listed_registry, rn_watch = Waiting, rn_check = NoCheck, rn_stale = b\<rparr>"
proof -
  have "case Inr [''ready/alice'', ''ready/bob''] of Inl (_ :: gerror) \<Rightarrow> True
      | Inr keys \<Rightarrow> list_all (\<lambda>p. p \<in> set [''alice'', ''bob'']) (getReadyPeersFromKVStore start_registry keys)"
    by (simp add: getReadyPeersFromKVStore_def scan_ready_def start_registry_def is_space_def)
  from uninterrupted_iteration [OF this] that show thesis
    unfolding listed_registry_def run_start_def by metis
qed

text \<open>After the listing, the message of Bob completes the exchange and the callback raises the flag.\<close>

definition ready_registry :: "unit registry" where
  "ready_registry = listed_registry\<lparr>rg_store := SetSymmetricKey ''bob'' (Some (replicate 32 0)) (fresh_demo ''alice''),
     rg_ready := True\<rparr>"

lemma ready_run:
  "reg_reach demo_diff demo_crypto demo_ecdh (\<lambda>_. True) 3 (\<lambda>p. p \<in> set [''alice'', ''bob'']) (run_start start_registry)
    \<lparr>rn_reg = ready_registry, rn_watch = Waiting, rn_check = NoCheck, rn_stale = False\<rparr>"
proof -
  let ?step = "reg_step demo_diff demo_crypto demo_ecdh (\<lambda>_. True) 3 (\<lambda>p. p \<in> set [''alice'', ''bob''])"
  from bob_wire obtain w x where
    h: "ecdh_handler demo_crypto demo_ecdh (\<lambda>_. True) ((ecdh_of listed_registry)\<lparr>es_privateKey := Some 3\<rparr>) 3
      (rg_store listed_registry) w = Returns x"
    and x: "er_complete x" "er_store x = SetSymmetricKey ''bob'' (Some (replicate 32 0)) (fresh_demo ''alice'')"
    by blast
  from listed_run obtain b where l: "?step\<^sup>*\<^sup>* (run_start start_registry)
    \<lparr>rn_reg = listed_registry, rn_watch = Waiting, rn_check = NoCheck, rn_stale = b\<rparr>" by blast
  let ?r = "listed_registry\<lparr>rg_store := er_store x\<rparr>"
  let ?g = "\<lparr>rn_reg = listed_registry, rn_watch = Waiting, rn_check = NoCheck, rn_stale = b\<rparr>"
  have "?step ?g (?g\<lparr>rn_reg := (rn_reg ?g)\<lparr>rg_store := er_store x\<rparr>, rn_check := if er_complete x then CountPeers else NoCheck\<rparr>)"
    by (rule reg_step.message) (use h in simp_all)
  then have m: "?step ?g \<lparr>rn_reg = ?r, rn_watch = Waiting, rn_check = CountPeers, rn_stale = b\<rparr>" using x(1) by simp
  have "all_counted ?r" "\<not> rg_ready ?r"
    by (simp_all add: listed_registry_eq start_registry_def all_counted_def readyPeers_def)
  moreover have "isECDHReady ?r"
    by (simp add: x(2) listed_registry_eq start_registry_def
        isECDHReady_def CheckSymmetricKeyComplete_def GetReadyPeersCountExcludeSelf_def GetReadyPeersCount_def
        SetSymmetricKey_def fresh_demo_def)
  ultimately have "?step\<^sup>*\<^sup>* \<lparr>rn_reg = ?r, rn_watch = Waiting, rn_check = CountPeers, rn_stale = b\<rparr>
      \<lparr>rn_reg = ready_registry, rn_watch = Waiting, rn_check = NoCheck, rn_stale = False\<rparr>"
    using uninterrupted_check [of ?r demo_diff demo_crypto demo_ecdh "\<lambda>_. True" 3 "\<lambda>p. p \<in> set [''alice'', ''bob'']" Waiting b]
    by (simp add: ready_registry_def x(2))
  with l m show ?thesis by (meson rtranclp.rtrancl_into_rtrancl rtranclp_trans)
qed

lemma ready_registry_ready: "ArePeersReady ready_registry"
  by (simp add: ready_registry_def listed_registry_eq start_registry_def ArePeersReady_def
      isECDHReady_def CheckSymmetricKeyComplete_def GetReadyPeersCountExcludeSelf_def GetReadyPeersCount_def
      SetSymmetricKey_def fresh_demo_def)

theorem readiness_means_all_peers_witness:
  "\<exists>g. reg_reach demo_diff demo_crypto demo_ecdh (\<lambda>_. True) 3 (\<lambda>p. p \<in> set [''alice'', ''bob'']) (run_start start_registry) g \<and>
     ArePeersReady (rn_reg g) \<and> ready_set (rn_reg g) = {''bob''} \<and> sym.holders (rg_store (rn_reg g)) = {''bob''}"
proof -
  let ?g = "\<lparr>rn_reg = ready_registry, rn_watch = Waiting, rn_check = NoCheck, rn_stale = False\<rparr>"
  have "ready_set (rn_reg ?g) = set [''alice'', ''bob''] - {''alice''} \<and>
    sym.holders (rg_store (rn_reg ?g)) = set [''alice'', ''bob''] - {''alice''} \<and>
    GetReadyPeersCount (rn_reg ?g) = GetTotalPeersCount (rn_reg ?g) \<and>
    GetTotalPeersCount (rn_reg ?g) = int (length [''alice'', ''bob''])"
    by (rule readiness_means_all_peers [OF start_registry_new fresh_demo_ok demo_diff_ok ready_run])
      (auto simp: fresh_demo_def ready_registry_ready)
  with ready_run ready_registry_ready show ?thesis by (intro exI [of _ ?g]) auto
qed

text \<open>
  (C31) The exception of the claim on readiness is real. When all peers are ready and one of them, \<open>p\<close>, is
  missing from the next listing, a message of the key exchange that completes between the reset of the
  flag and the removal of \<open>p\<close> raises the flag again: the iteration can end with the registry reporting
  that the peers are ready although \<open>p\<close> is neither registered nor shares a key.
\<close>

theorem readiness_race:
  assumes "NewRegistry n ps th s = Returns r0" and "fresh_store s" and "difference_ok D"
    and "reg_reach D cr ec rfc3339 priv (\<lambda>p. p \<in> set ps) (run_start r0) g"
    and "distinct ps" and "dom (map_of (fs_publicKeys s)) \<subseteq> set ps"
    and "ArePeersReady (rn_reg g)" and "\<not> rn_stale g" and "rn_watch g = Waiting" and "rn_check g = NoCheck"
    and "p \<in> set ps - {n}" and "set (getReadyPeersFromKVStore (rn_reg g) keys) = set ps - {n, p}"
    and "distinct (getReadyPeersFromKVStore (rn_reg g) keys)"
    and "ecdh_handler cr ec rfc3339 ((ecdh_of (rn_reg g))\<lparr>es_privateKey := Some priv\<rparr>) priv (rg_store (rn_reg g)) data = Returns x"
    and "er_complete x"
  shows "\<exists>g'. reg_reach D cr ec rfc3339 priv (\<lambda>p. p \<in> set ps) (run_start r0) g' \<and> rn_watch g' = Waiting \<and> ArePeersReady (rn_reg g') \<and>
    p \<notin> ready_set (rn_reg g') \<and> p \<notin> sym.holders (rg_store (rn_reg g')) \<and>
    GetReadyPeersCount (rn_reg g') = GetTotalPeersCount (rn_reg g') - 1"
proof -
  note f = fresh_ready_state [OF assms(1-8)]
  have all: "ready_set (rn_reg g) = set (rg_peerNodeIDs (rn_reg g))" "sym.holders (rg_store (rn_reg g)) = set (rg_peerNodeIDs (rn_reg g))"
    using ArePeersReady_all(1,2) [OF f(1,4) _ assms(7)] f(3,6) by simp_all
  obtain q k where q: "q \<noteq> rg_nodeID (rn_reg g)" "map_of (fs_publicKeys (rg_store (rn_reg g))) q \<noteq> None"
    "er_store x = SetSymmetricKey q k (rg_store (rn_reg g))"
    using ecdh_handler_cases [OF assms(14)] assms(15) by (auto simp: ecdh_of_def NewECDHSession_def)
  then have "q \<in> set (rg_peerNodeIDs (rn_reg g))" using f(3,6) by (auto simp: dom_def)
  moreover have "p \<in> set (rg_peerNodeIDs (rn_reg g))"
    and "set (getReadyPeersFromKVStore (rn_reg g) keys) = set (rg_peerNodeIDs (rn_reg g)) - {p}"
    and "\<forall>q \<in> set (rg_peerNodeIDs (rn_reg g)). q \<in> set ps"
    unfolding assms(12) f(5) using assms(11) by auto
  ultimately
  obtain g' where g': "reg_reach D cr ec rfc3339 priv (\<lambda>p. p \<in> set ps)
      \<lparr>rn_reg = rn_reg g, rn_watch = Waiting, rn_check = NoCheck, rn_stale = rn_stale g\<rparr> g'"
    "rn_watch g' = Waiting \<and> rn_check g' = NoCheck \<and> ArePeersReady (rn_reg g') \<and> p \<notin> ready_set (rn_reg g') \<and>
     p \<notin> sym.holders (rg_store (rn_reg g')) \<and> GetReadyPeersCount (rn_reg g') = GetTotalPeersCount (rn_reg g') - 1"
    using readiness_race_run [OF f(1) assms(3) all f(4) _ _ assms(13) _ assms(14,15) q(3), of p "\<lambda>p. p \<in> set ps" "rn_stale g"]
    by blast
  have "\<lparr>rn_reg = rn_reg g, rn_watch = Waiting, rn_check = NoCheck, rn_stale = rn_stale g\<rparr> = g" using assms(9,10) by simp
  with assms(4) g' show ?thesis by (metis rtranclp_trans)
qed

theorem readiness_race_witness:
  "\<exists>g. reg_reach demo_diff demo_crypto demo_ecdh (\<lambda>_. True) 3 (\<lambda>p. p \<in> set [''alice'', ''bob'']) (run_start start_registry) g \<and>
     ArePeersReady (rn_reg g) \<and> ''bob'' \<notin> ready_set (rn_reg g)"
proof -
  let ?g = "\<lparr>rn_reg = ready_registry, rn_watch = Waiting, rn_check = NoCheck, rn_stale = False\<rparr>"
  obtain w x where msg: "ecdh_handler demo_crypto demo_ecdh (\<lambda>_. True) ((ecdh_of (rn_reg ?g))\<lparr>es_privateKey := Some 3\<rparr>) 3
      (rg_store (rn_reg ?g)) w = Returns x" "er_complete x"
    using bob_message [of ready_registry]
    by (auto simp: ready_registry_def listed_registry_eq start_registry_def GetSymetricKeyCount_def SetSymmetricKey_def fresh_demo_def)
  have new: "getReadyPeersFromKVStore (rn_reg ?g) [''ready/alice''] = []"
    by (simp add: getReadyPeersFromKVStore_def scan_ready_def ready_registry_def listed_registry_eq start_registry_def is_space_def)
  have "\<exists>g'. reg_reach demo_diff demo_crypto demo_ecdh (\<lambda>_. True) 3 (\<lambda>p. p \<in> set [''alice'', ''bob'']) (run_start start_registry) g' \<and>
      rn_watch g' = Waiting \<and> ArePeersReady (rn_reg g') \<and> ''bob'' \<notin> ready_set (rn_reg g') \<and>
      ''bob'' \<notin> sym.holders (rg_store (rn_reg g')) \<and> GetReadyPeersCount (rn_reg g') = GetTotalPeersCount (rn_reg g') - 1"
    by (rule readiness_race [OF start_registry_new fresh_demo_ok demo_diff_ok ready_run _ _ _ _ _ _ _ _ _ msg, where keys = "[''ready/alice'']"])
      (use new in \<open>auto simp: fresh_demo_def ready_registry_ready\<close>)
  then show ?thesis by blast
qed

text \<open>
  A peer is evicted, by deleting its ready key, exactly when it fails to respond for the fifth
  time in a row; any other answer resets its count, and counts stay below five.
\<close>

lemma eviction_after_five_failures:
  assumes "health_round send ps fc = (fc', ks)" and "distinct ps" and "p \<in> set ps" and "counts_ok fc"
  shows "(readyKey p \<in> set ks \<longleftrightarrow> no_responders (send p) \<and> failures fc p = 4) \<and>
    failures fc' p = (if no_responders (send p) then (failures fc p + 1) mod 5 else 0) \<and> failures fc' p < maxFailures"
proof -
  have f: "0 \<le> failures fc p" "failures fc p < 5" using assms(4) by (simp_all add: counts_ok_def maxFailures_def)
  show ?thesis
  proof (cases "failures fc p = 4")
    case False
    then have "(failures fc p + 1) mod 5 = failures fc p + 1" using f by simp
    with False health_round_peer [OF assms(1-3)] f show ?thesis by (auto simp: maxFailures_def)
  qed (use health_round_peer [OF assms(1-3)] in \<open>auto simp: maxFailures_def\<close>)
qed

text \<open>
  An error of the Consul listing is treated like an empty listing: when peers are configured,
  the registry leaves the ready state, all peers count as disconnected, and the symmetric keys
  of all peers that were ready are removed.
\<close>

lemma listing_error_disconnects_all:
  assumes "difference_ok D" and "count_inv r" and "rg_peerNodeIDs r \<noteq> []"
    and "watch_tick D (Inl e) r = (r', evs)"
  shows "ready_set r' = {} \<and> (rg_ready r' \<longrightarrow> False) \<and> GetReadyPeersCount r' = 1 \<and>
    rg_store r' = fold RemovePeer (readyPeers (rg_readyMap r)) (rg_store r) \<and>
    evs = map PeerDisconnected (readyPeers (rg_readyMap r))"
proof -
  let ?dis = "readyPeers (rg_readyMap r)"
  have ok: "gomap_ok (rg_readyMap r)" using assms(2) by (simp add: count_inv_def)
  have none: "getReadyPeersFromKVStore r [] = []" by (simp add: getReadyPeersFromKVStore_def)
  have D: "fst (D ?dis []) = ?dis" using assms(1) by (simp add: difference_ok_def)
  let ?r1 = "fold disconnect_peer ?dis (r\<lparr>rg_ready := False\<rparr>)"
  have r': "r' = checkAndUpdateReadyState ?r1" "evs = map PeerDisconnected ?dis"
    using assms(3,4) none D by (auto simp: watch_tick_def registerReadyPairs_def Let_def)
  from watch_tick_cases [OF assms(2) refl assms(1), of "Inl e"] assms(3,4) obtain r1 where
    c: "count_inv r1" "r' = checkAndUpdateReadyState r1" "ready_set r1 = {}" "\<not> rg_ready r1" "same_frame r r1"
      "rg_store r1 = fold RemovePeer ?dis (rg_store r)"
    by (auto simp: new_ready_def none)
  have "length (readyPeers (rg_readyMap r1)) = 0"
    using c(1,3) by (simp add: length_readyPeers count_inv_def)
  then have "r' = r1" using c(2,5) assms(3) by (simp add: checkAndUpdateReadyState_def same_frame_def Let_def)
  with c r'(2) show ?thesis by (simp add: count_inv_def GetReadyPeersCount_def)
qed

section \<open>Committees\<close>

lemma demo_registry_simps [simp]:
  "rg_nodeID (demo_registry me) = me" "nd_registry (demo_node me kvs kis) = demo_registry me"
  "nd_nodeID (demo_node me kvs kis) = me"
  by (simp_all add: demo_registry_def demo_node_def)

lemma demo_node_ok [simp]: "node_ok (demo_node me kvs kis)"
  by (simp add: node_ok_def demo_node_def)

lemma demo_ready: "GetReadyPeersIncludeSelf (demo_registry ''alice'') = [''bob'', ''carol'', ''alice'']"
  by (simp add: GetReadyPeersIncludeSelf_def demo_registry_def demo_ids_def readyPeers_def)

lemma wallet_info: "getKeyInfo (demo_node me kvs wallet_ki) SessionTypeECDSA ''w'' = Inr demo_info"
  by (simp add: getKeyInfo_def demo_node_def wallet_ki_def composeKeyinfoKey_def)

lemma sorts_id [simp]: "sorts (\<lambda>xs. xs)"
  by (simp add: sorts_def)

text \<open>
  (C20) A signing session is created exactly when the threshold of the key is met by ready
  participants of the key and the node is one of them. Its parties are then those participants,
  one party each, with the keys of the stored key version, and the node's own party is among
  them.
\<close>

theorem signing_committee:
  assumes "sorts S" and "node_ok p" and "getKeyInfo p t w = Inr info"
    and "\<forall>q \<in> set (participants info). wf_nodeID q"
  defines "ps \<equiv> filter (\<lambda>q. q \<in> set (GetReadyPeersIncludeSelf (nd_registry p))) (participants info)"
  shows "((\<exists>sg :: ('pt, 'r) signing. CreateSigningSession S u p t w x n rt path ik = Returns (Inr sg)) \<longleftrightarrow>
      ki_Threshold info + 1 \<le> int (length ps) \<and> nd_nodeID p \<in> set (participants info)) \<and>
    (\<forall>sg :: ('pt, 'r) signing. CreateSigningSession S u p t w x n rt path ik = Returns (Inr sg) \<longrightarrow>
      ss_participantPeerIDs (sg_session sg) = ps \<and>
      mset (partyIDsToNodeIDs (ss_partyIDs (sg_session sg))) = mset ps \<and>
      mset (map pid_Key (ss_partyIDs (sg_session sg))) =
        mset (map (\<lambda>q. be_nat (go_bytes (party_key_text q (ki_Version info)))) ps) \<and>
      (\<exists>self. ss_selfPartyID (sg_session sg) = Some self \<and> self \<in> set (ss_partyIDs (sg_session sg)) \<and>
         partyIDToNodeID (Some self) = nd_nodeID p))"
proof -
  have ps: "getReadyPeersForSession info (GetReadyPeersIncludeSelf (nd_registry p)) = ps"
    by (simp add: ps_def getReadyPeersForSession_def slices_contains_def)
  have ok: "ki_Threshold info + 1 \<le> int (length ps) \<and> nd_nodeID p \<in> set (participants info) \<and>
      ss_participantPeerIDs (sg_session sg) = ps"
    if "CreateSigningSession S u p t w x n rt path ik = Returns (Inr sg)" for sg :: "('pt, 'r) signing"
    by (rule CreateSigningSession_ok [OF that])
      (use assms(3) ps in \<open>auto simp: newSigningSession_def base_session_def\<close>)
  have "mset (partyIDsToNodeIDs (ss_partyIDs (sg_session sg))) = mset ps \<and>
      mset (map pid_Key (ss_partyIDs (sg_session sg))) =
        mset (map (\<lambda>q. be_nat (go_bytes (party_key_text q (ki_Version info)))) ps) \<and>
      (\<exists>self. ss_selfPartyID (sg_session sg) = Some self \<and> self \<in> set (ss_partyIDs (sg_session sg)) \<and>
         partyIDToNodeID (Some self) = nd_nodeID p)"
    if "CreateSigningSession S u p t w x n rt path ik = Returns (Inr sg)" for sg :: "('pt, 'r) signing"
    using CreateSigningSession_parties(3-5) [OF that assms(1-4)] ok [OF that] by metis
  moreover have "\<exists>sg :: ('pt, 'r) signing. CreateSigningSession S u p t w x n rt path ik = Returns (Inr sg)"
    if "ki_Threshold info + 1 \<le> int (length ps)" "nd_nodeID p \<in> set (participants info)"
    using CreateSigningSession_complete [OF assms(3,2) _ that(2)] that(1) ps by simp
  ultimately show ?thesis using ok by blast
qed

theorem signing_committee_witness:
  "\<exists>sg :: (nat, unit) signing. CreateSigningSession (\<lambda>xs. xs) (\<lambda>_. ''u'') (demo_node ''alice'' wallet_kv wallet_ki)
       SessionTypeECDSA ''w'' ''tx'' ''eth'' ''r'' [] ''k'' = Returns (Inr sg) \<and>
     ss_participantPeerIDs (sg_session sg) = [''alice'', ''bob'', ''carol'']"
proof -
  note c = signing_committee [OF sorts_id demo_node_ok wallet_info [of "''alice''" wallet_kv],
      where u = "\<lambda>_. ''u''" and x = "''tx''" and n = "''eth''" and rt = "''r''" and path = "[]" and ik = "''k''"]
  have wf: "\<forall>q \<in> set (participants demo_info). wf_nodeID q"
    by (simp add: demo_info_def participants_def demo_ids_def)
  have "filter (\<lambda>q. q \<in> set (GetReadyPeersIncludeSelf (demo_registry ''alice''))) (participants demo_info) =
      [''alice'', ''bob'', ''carol'']"
    by (simp add: demo_ready demo_info_def participants_def demo_ids_def)
  moreover have "ki_Threshold demo_info = 1" "''alice'' \<in> set (participants demo_info)"
    by (simp_all add: demo_info_def participants_def demo_ids_def)
  ultimately show ?thesis using c [OF wf] by auto
qed


lemma demo_registry_inv:
  "registry_inv (\<lambda>q. q \<in> set (rg_peerNodeIDs (demo_registry ''alice''))) (demo_registry ''alice'')"
proof -
  have r: "ready_set (demo_registry ''alice'') = {''bob'', ''carol''}"
    by (auto simp: ready_set_def demo_registry_def demo_ids_def)
  have "sym.holders (demo_store ''alice'') = {''bob'', ''carol''}"
    by (auto simp: sym.holders_def GetSymmetricKey_def demo_store_def demo_ids_def split: option.splits)
  with r show ?thesis
    by (simp add: registry_inv_def count_inv_def demo_registry_def demo_ids_def)
      (simp add: demo_store_def demo_ids_def)
qed

lemma demo_peers_ready: "ArePeersReady (demo_registry ''alice'')"
  by (simp add: ArePeersReady_def isECDHReady_def CheckSymmetricKeyComplete_def GetReadyPeersCountExcludeSelf_def
      GetReadyPeersCount_def demo_registry_def demo_store_def demo_ids_def)


text \<open>
  (C22) A reshare session has disjoint party keys for the old and the new committee, even for nodes
  that are in both, and the keys of the new committee are those of the key version that the
  resharing stores: signing sessions created afterwards use the same keys.
\<close>

theorem reshare_committees:
  assumes "CreateReshareSession S u u' p t w nt nps isNew = Returns (Inr (Some (r, pp)))"
    and "sorts S" and "node_ok p" and "getKeyInfo p t w = Inr info"
    and "\<forall>q \<in> set (participants info) \<union> set nps. wf_nodeID q"
  shows "\<exists>newAll oldAll. ss_partyIDs (rh_session r) = (if isNew then newAll else oldAll) \<and>
    rh_oldPeerIDs r = partyIDsToNodeIDs oldAll \<and> pid_Key ` set oldAll \<inter> pid_Key ` set newAll = {} \<and>
    mset (map pid_Key newAll) =
      mset (map (\<lambda>q. be_nat (go_bytes (party_key_text q (ki_Version (reshare_info r (rh_session r)))))) nps) \<and>
    set (rh_oldPeerIDs r) = set (participants info) \<inter> set (GetReadyPeersIncludeSelf (nd_registry p)) \<and>
    set (GetLegacyCommitteePeers r) = set (rh_oldPeerIDs r) - set nps \<and>
    ss_version (rh_session r) = ki_Version info \<and> ss_selfPartyID (rh_session r) \<noteq> None"
proof -
  obtain newAll oldAll where
    "ss_partyIDs (rh_session r) = (if isNew then newAll else oldAll)"
    "rh_oldPeerIDs r = partyIDsToNodeIDs oldAll" "pid_Key ` set oldAll \<inter> pid_Key ` set newAll = {}"
    "mset (map pid_Key newAll) =
      mset (map (\<lambda>q. be_nat (go_bytes (party_key_text q (ki_Version (reshare_info r (rh_session r)))))) nps)"
    "set (rh_oldPeerIDs r) = set (participants info) \<inter> set (GetReadyPeersIncludeSelf (nd_registry p))"
    "rh_newPeerIDs r = nps" "ss_version (rh_session r) = ki_Version info" "ss_selfPartyID (rh_session r) \<noteq> None"
    by (rule CreateReshareSession_parties [OF assms]) blast
  then show ?thesis using GetLegacyCommitteePeers_set [of r] by blast
qed

lemma demo_threshold [simp]: "ki_Threshold demo_info = 1" "ki_Version demo_info = 1"
  by (simp_all add: demo_info_def)

theorem reshare_committees_witness:
  "\<exists>r pp newAll oldAll. CreateReshareSession (\<lambda>xs. xs) (\<lambda>_. ''u'') (\<lambda>_. ''x'') (demo_node ''alice'' wallet_kv wallet_ki)
       SessionTypeECDSA ''w'' 1 [''alice'', ''bob''] True = Returns (Inr (Some (r, pp))) \<and>
     rh_oldPeerIDs r = partyIDsToNodeIDs oldAll \<and> ss_partyIDs (rh_session r) = newAll \<and>
     pid_Key ` set oldAll \<inter> pid_Key ` set newAll = {} \<and> set (GetLegacyCommitteePeers r) = {''carol''}"
proof -
  let ?p = "demo_node ''alice'' wallet_kv wallet_ki"
  have gi: "keyinfo_Get (nd_ki ?p) ''ecdsa:w'' = Inr demo_info"
    using wallet_info [of "''alice''" wallet_kv] by (simp add: getKeyInfo_def)
  have n: "GetReadyPeersCount (demo_registry ''alice'') = 3"
    by (simp add: GetReadyPeersCount_def demo_registry_def demo_ids_def)
  have v: "getVersion ?p SessionTypeECDSA ''w'' = Returns 1"
    using getVersion_keyInfo [OF wallet_info] by (simp add: demo_info_def)
  have pp: "preParams_at (nd_ecdsaPreParams ?p) 1 = Returns 12" by (simp add: preParams_at_def demo_node_def)
  have build: "\<exists>r pp. reshare_build (\<lambda>xs. xs) (\<lambda>_. ''u'') (\<lambda>_. ''x'') ?p SessionTypeECDSA ''w'' 1 [''alice'', ''bob''] True
      demo_info ready 1 = Returns (Inr (Some (r, pp)))" for ready
    by (simp add: reshare_build_def go_rem_def pp Let_def split: prod.splits)
  have parts: "participants demo_info = [''alice'', ''bob'', ''carol'']"
    by (simp add: demo_info_def participants_def demo_ids_def)
  obtain r pp where c: "CreateReshareSession (\<lambda>xs. xs) (\<lambda>_. ''u'') (\<lambda>_. ''x'') ?p SessionTypeECDSA ''w'' 1
      [''alice'', ''bob''] True = Returns (Inr (Some (r, pp)))"
    using build [of "[''alice'', ''bob'', ''carol'']"] gi v n
    by (auto simp: CreateReshareSession_def demo_ready slices_contains_def getReadyPeersForSession_def parts Let_def)
  have wf: "\<forall>q \<in> set (participants demo_info) \<union> set [''alice'', ''bob'']. wf_nodeID q"
    by (simp add: parts)
  have "set (participants demo_info) \<inter> set (GetReadyPeersIncludeSelf (nd_registry ?p)) = {''alice'', ''bob'', ''carol''}"
    by (simp add: parts demo_ready insert_commute)
  with reshare_committees [OF c sorts_id demo_node_ok wallet_info wf] obtain newAll oldAll where
    x: "ss_partyIDs (rh_session r) = newAll" "rh_oldPeerIDs r = partyIDsToNodeIDs oldAll"
    "pid_Key ` set oldAll \<inter> pid_Key ` set newAll = {}"
    "set (rh_oldPeerIDs r) = {''alice'', ''bob'', ''carol''}"
    "set (GetLegacyCommitteePeers r) = set (rh_oldPeerIDs r) - set [''alice'', ''bob'']" by metis
  have "set (GetLegacyCommitteePeers r) = {''carol''}" unfolding x(4,5) by auto
  with c x show ?thesis by blast
qed

section \<open>Protocol messages\<close>

text \<open>
  (C24) A direct message that one session sends to the party of another session of the same kind
  is handed unchanged to that session's party, with the stated sender. Both nodes hold the same
  symmetric key for each other, and the transport accepts the message.
\<close>

theorem direct_message_delivered:
  assumes "ss_kind b = ss_kind a" and "wf_nodeID (selfNodeID a)"
    and "selfNodeID a \<noteq> selfNodeID b" and "partyIDToNodeID (Some to) = selfNodeID b"
    and "ss_selfPartyID b = Some self" "pid_Key to = pid_Key self"
    and "GetSymmetricKey (nt_store na) (selfNodeID b) = Inr (Some k)"
      "GetSymmetricKey (nt_store nb) (selfNodeID a) = Inr (Some k)" "length k \<in> {16, 24, 32}"
    and "nt_crypto nb = nt_crypto na" "aead_correct (nt_crypto na)"
    and "nt_nonce na 0 = Inr nonce" "length nonce = NonceSize"
    and "pid_json_ok nb" "nt_json_pid na = nt_json_pid nb"
    and "nt_sendOther na (directTopic a (selfNodeID a) (selfNodeID b)) = None"
    and "getRoundFunc nb b data (ss_selfPartyID b) bc = Inr ri"
  shows "\<exists>c. handleTssMessage na (Inr (data, \<lparr>ro_From = Some from, ro_To = Some [to], ro_IsBroadcast = bc\<rparr>)) a =
      Returns (a, [SendToOther (directTopic a (selfNodeID a) (selfNodeID b)) (Some c)]) \<and>
    receiveP2PTssMessage nb (directTopic a (selfNodeID a) (selfNodeID b)) c b = (b, [UpdateParty data from bc])"
  by (rule direct_delivery [OF assms])

definition demo_party :: "string \<Rightarrow> PartyID" where
  "demo_party n = createPartyID ''u'' n ''keygen'' 1"

definition demo_sess :: "string \<Rightarrow> session" where
  "demo_sess n = base_session (ECDSAKeygen ''w'') ''w'' 1 demo_ids (Some (demo_party n)) (map demo_party demo_ids) 1"

lemma demo_sess_simps [simp]:
  "ss_kind (demo_sess n) = ECDSAKeygen ''w''" "ss_selfPartyID (demo_sess n) = Some (demo_party n)"
  "ss_walletID (demo_sess n) = ''w''" "ss_partyIDs (demo_sess n) = map demo_party demo_ids"
  by (simp_all add: demo_sess_def base_session_def)

lemma demo_party_node: "wf_nodeID n \<Longrightarrow> partyIDToNodeID (Some (demo_party n)) = n"
  unfolding demo_party_def by (rule partyIDToNodeID_create)

lemma demo_self [simp]: "wf_nodeID n \<Longrightarrow> selfNodeID (demo_sess n) = n"
  by (simp add: selfNodeID_def demo_party_node del: partyIDToNodeID.simps)

lemma demo_keys [simp]:
  "GetSymmetricKey (demo_store ''alice'') ''bob'' = Inr (Some (replicate 32 0))"
  "GetSymmetricKey (demo_store ''bob'') ''alice'' = Inr (Some (replicate 32 0))"
  by (simp_all add: GetSymmetricKey_def demo_store_def demo_ids_def)

lemma demo_round [simp]: "\<exists>ri. getRoundFunc (demo_net me) (demo_sess n) d p bc = Inr ri"
  by (simp add: getRoundFunc_def GetEcdsaMsgRound_def round_info_def demo_net_def)

theorem direct_message_delivered_witness:
  "\<exists>c. handleTssMessage (demo_net ''alice'') (Inr ([1, 2],
       \<lparr>ro_From = Some (demo_party ''alice''), ro_To = Some [demo_party ''bob''], ro_IsBroadcast = False\<rparr>)) (demo_sess ''alice'') =
     Returns (demo_sess ''alice'', [SendToOther (directTopic (demo_sess ''alice'') ''alice'' ''bob'') (Some c)]) \<and>
   receiveP2PTssMessage (demo_net ''bob'') (directTopic (demo_sess ''alice'') ''alice'' ''bob'') c (demo_sess ''bob'') =
     (demo_sess ''bob'', [UpdateParty [1, 2] (demo_party ''alice'') False])"
proof -
  obtain ri where ri: "getRoundFunc (demo_net ''bob'') (demo_sess ''bob'') [1, 2] (ss_selfPartyID (demo_sess ''bob'')) False = Inr ri"
    using demo_round by blast
  have to: "partyIDToNodeID (Some (demo_party ''bob'')) = selfNodeID (demo_sess ''bob'')"
    using demo_party_node [of "''bob''"] by (simp del: partyIDToNodeID.simps)
  show ?thesis
    using direct_message_delivered [OF _ _ _ to demo_sess_simps(2) refl _ _ _ _ _ _ _ _ _ _ ri,
        of "demo_sess ''alice''" "demo_net ''alice''" "replicate 32 0" "replicate 12 0" "demo_party ''alice''"]
    by (simp add: NonceSize_def)
qed

text \<open>
  (C25) A broadcast is signed by its sender and handed, once verified, to the party of every session
  that knows the sender's public key.
\<close>

theorem broadcast_delivered:
  assumes "ed25519_pair (nt_crypto na) (fs_privateKey (nt_store na)) pub"
    and "wf_nodeID n" and "map_of (fs_publicKeys (nt_store nb)) n = Some pub"
    and "from = createPartyID u n l v" and "ss_selfPartyID b = Some self"
    and "nt_crypto nb = nt_crypto na"
    and "pid_json_ok nb" "nt_json_pid na = nt_json_pid nb"
    and "nt_publish na (broadcastTopic a) = None"
    and "getRoundFunc nb b data (ss_selfPartyID b) True = Inr ri"
    and "to_list tos = []"
  shows "\<exists>w. handleTssMessage na (Inr (data, \<lparr>ro_From = Some from, ro_To = tos, ro_IsBroadcast = True\<rparr>)) a =
      Returns (a, [Publish (broadcastTopic a) w]) \<and>
    receiveBroadcastTssMessage nb w b = Returns (b, [UpdateParty data from True])"
  by (rule broadcast_delivery [OF assms])

lemma demo_broadcast:
  "fs_privateKey (demo_store me) = replicate 64 0"
  "map_of (fs_publicKeys (demo_store me)) ''alice'' = Some (replicate 32 0)"
  by (simp_all add: demo_store_def demo_ids_def)

theorem broadcast_delivered_witness:
  "\<exists>w. handleTssMessage (demo_net ''alice'') (Inr ([7],
       \<lparr>ro_From = Some (demo_party ''alice''), ro_To = None, ro_IsBroadcast = True\<rparr>)) (demo_sess ''alice'') =
     Returns (demo_sess ''alice'', [Publish (broadcastTopic (demo_sess ''alice'')) w]) \<and>
   receiveBroadcastTssMessage (demo_net ''carol'') w (demo_sess ''carol'') =
     Returns (demo_sess ''carol'', [UpdateParty [7] (demo_party ''alice'') True])"
proof -
  obtain ri where ri: "getRoundFunc (demo_net ''carol'') (demo_sess ''carol'') [7] (ss_selfPartyID (demo_sess ''carol'')) True = Inr ri"
    using demo_round by blast
  show ?thesis
    by (rule broadcast_delivered [OF _ _ _ demo_party_def demo_sess_simps(2) _ _ _ _ ri])
      (simp_all add: demo_broadcast to_list_def)
qed

lemma receiveP2P_own_topic:
  fixes nt :: "'k net"
  assumes "extractSenderIDFromDirectTopic topic = selfNodeID s"
  shows "receiveP2PTssMessage (nt\<lparr>nt_store := store\<rparr>) topic c s = receiveP2PTssMessage nt topic c s"
proof -
  have "getRoundFunc (nt\<lparr>nt_store := store\<rparr>) s = getRoundFunc nt s"
    by (cases "kind_curve (ss_kind s)") (simp_all add: getRoundFunc_def)
  then have "receiveTssMessage (nt\<lparr>nt_store := store\<rparr>) msg s = receiveTssMessage nt msg s" for msg
    by (simp only: receiveTssMessage_def)
  with assms show ?thesis
    by (cases "UnmarshalTssMessage (nt_dec_pid nt) c") (simp_all add: receiveP2PTssMessage_def Let_def)
qed

text \<open>
  (C23) Nothing else reaches a party: a broadcast that is handed to it was signed under the public
  key registered for its sender, over its own payload, wallet, addressees and flags; a direct
  message on the topic of a peer was decrypted with the key of that peer, and is addressed to the
  session's own party. Direct messages on the topic from the node to itself are the exception: they
  are taken as they arrive, and no key has any influence on what happens to them, although the
  session subscribes to that topic on the broker as to those of its peers.
\<close>

theorem only_authentic_messages:
  assumes "UpdateParty d from bc \<in> set es"
  shows "(receiveBroadcastTssMessage nt raw s = Returns (s', es) \<longrightarrow>
      (\<exists>msg sig pub. UnmarshalTssMessage (nt_dec_pid nt) raw = Inr msg \<and> tm_From msg = Some from \<and>
         d = to_list (tm_MsgBytes msg) \<and> tm_Signature msg = Some sig \<and>
         map_of (fs_publicKeys (nt_store nt)) (identity_partyIDToNodeID from) = Some pub \<and>
         ed25519_Verify (nt_crypto nt) pub (MarshalForSigning (nt_json_pid nt) from msg) sig = Returns True)) \<and>
    (receiveP2PTssMessage nt topic c s = (s', es) \<longrightarrow>
      (\<exists>plain msg. (if extractSenderIDFromDirectTopic topic = selfNodeID s then plain = c
           else DecryptMessage (nt_crypto nt) (nt_store nt) c (extractSenderIDFromDirectTopic topic) = Inr plain) \<and>
         UnmarshalTssMessage (nt_dec_pid nt) plain = Inr msg \<and> tm_From msg = Some from \<and>
         d = to_list (tm_MsgBytes msg) \<and>
         (tm_IsBroadcast msg \<and> to_list (tm_To msg) = [] \<or>
          (\<exists>self. ss_selfPartyID s = Some self \<and> (\<exists>to \<in> set (to_list (tm_To msg)). pid_Key to = pid_Key self))))) \<and>
    (extractSenderIDFromDirectTopic topic = selfNodeID s \<longrightarrow>
      receiveP2PTssMessage (nt\<lparr>nt_store := store\<rparr>) topic c s = receiveP2PTssMessage nt topic c s)"
  using receiveBroadcast_update [of nt raw s s' es d "from" bc] receiveP2P_update [of nt topic c s s' es d "from" bc] assms
    receiveP2P_own_topic [of topic s store nt c]
  by blast

theorem only_authentic_messages_witness:
  "\<exists>c msg. receiveP2PTssMessage (demo_net ''bob'') (directTopic (demo_sess ''bob'') ''alice'' ''bob'') c (demo_sess ''bob'') =
       (demo_sess ''bob'', [UpdateParty [1, 2] (demo_party ''alice'') False]) \<and>
     DecryptMessage demo_crypto (demo_store ''bob'') c ''alice'' = Inr (MarshalTssMessage demo_json_pid msg) \<and>
     tm_From msg = Some (demo_party ''alice'')"
proof -
  let ?m = "NewTssMessage ''w'' (Some [1, 2]) False (Some (demo_party ''alice'')) (Some [demo_party ''bob''])"
  let ?t = "directTopic (demo_sess ''bob'') ''alice'' ''bob''"
  obtain c where e: "EncryptMessage demo_crypto (Inr (replicate 12 0)) (demo_store ''alice'') (MarshalTssMessage demo_json_pid ?m) ''bob'' = Inr c"
    using EncryptAESGCMWithNonceEmbed_ok [of demo_crypto "replicate 12 0" "MarshalTssMessage demo_json_pid ?m" "replicate 32 0"]
    by (auto simp: EncryptMessage_def)
  have d: "DecryptMessage demo_crypto (demo_store ''bob'') c ''alice'' = Inr (MarshalTssMessage demo_json_pid ?m)"
    by (rule Decrypt_EncryptMessage [OF demo_aead _ demo_keys e]) (simp add: NonceSize_def)
  obtain ri where "getRoundFunc (demo_net ''bob'') (demo_sess ''bob'') [1, 2] (ss_selfPartyID (demo_sess ''bob'')) False = Inr ri"
    using demo_round by blast
  then have r: "receiveP2PTssMessage (demo_net ''bob'') ?t c (demo_sess ''bob'') =
      (demo_sess ''bob'', [UpdateParty [1, 2] (demo_party ''alice'') False])"
    using direct_from_unchecked [of "''alice''" "demo_sess ''bob''" "demo_party ''bob''" "demo_net ''bob''" c "''w''" "[1, 2]" False
        "demo_party ''alice''" ri] d by simp
  have "extractSenderIDFromDirectTopic ?t = ''alice''" unfolding directTopic_def by (rule tc.sender_wf) simp
  moreover have "UpdateParty [1, 2] (demo_party ''alice'') False \<in> set [UpdateParty [1, 2] (demo_party ''alice'') False]" by simp
  note only_authentic_messages [OF this, of "demo_net ''bob''" "[]" "demo_sess ''bob''" "demo_sess ''bob''" ?t c]
  ultimately obtain plain msg where p: "DecryptMessage demo_crypto (demo_store ''bob'') c ''alice'' = Inr plain"
    "UnmarshalTssMessage demo_dec_pid plain = Inr msg" "tm_From msg = Some (demo_party ''alice'')"
    using r by auto
  with d r show ?thesis using Unmarshal_Marshal_net [OF demo_pid_json, of "''bob''" ?m] by force
qed

text \<open>
  (C35) The sender that a direct message claims is not compared with the peer whose key decrypted
  it: a message that a peer encrypts for a session reaches the session's party under whatever
  sender the peer wrote into it.
\<close>

theorem direct_sender_not_checked:
  assumes "wf_nodeID x" and "selfNodeID b \<noteq> x" and "ss_selfPartyID b = Some self"
    and "pid_json_ok nb" and "aead_correct (nt_crypto nb)" and "length nonce = NonceSize"
    and "GetSymmetricKey sx (selfNodeID b) = Inr (Some k)" "GetSymmetricKey (nt_store nb) x = Inr (Some k)"
    and "length k \<in> {16, 24, 32}" and "getRoundFunc nb b data (ss_selfPartyID b) bc = Inr ri"
  shows "\<exists>c. EncryptMessage (nt_crypto nb) (Inr nonce) sx
      (MarshalTssMessage (nt_json_pid nb) (NewTssMessage w (Some data) bc (Some claimed) (Some [self]))) (selfNodeID b) = Inr c \<and>
    receiveP2PTssMessage nb (directTopic b x (selfNodeID b)) c b = (b, [UpdateParty data claimed bc])"
proof -
  let ?m = "MarshalTssMessage (nt_json_pid nb) (NewTssMessage w (Some data) bc (Some claimed) (Some [self]))"
  obtain c where c: "EncryptMessage (nt_crypto nb) (Inr nonce) sx ?m (selfNodeID b) = Inr c"
    using EncryptAESGCMWithNonceEmbed_ok [of "nt_crypto nb" nonce ?m k] assms(7,9) by (auto simp: EncryptMessage_def)
  have "DecryptMessage (nt_crypto nb) (nt_store nb) c x = Inr ?m"
    by (rule Decrypt_EncryptMessage [OF assms(5,6,7,8) c])
  with c direct_from_unchecked [OF assms(1-4) _ assms(10)] show ?thesis by blast
qed

theorem direct_sender_not_checked_witness:
  "\<exists>c. EncryptMessage demo_crypto (Inr (replicate 12 0)) (demo_store ''alice'')
      (MarshalTssMessage demo_json_pid (NewTssMessage ''w'' (Some [1]) False (Some (demo_party ''carol'')) (Some [demo_party ''bob'']))) ''bob'' = Inr c \<and>
    receiveP2PTssMessage (demo_net ''bob'') (directTopic (demo_sess ''bob'') ''alice'' ''bob'') c (demo_sess ''bob'') =
      (demo_sess ''bob'', [UpdateParty [1] (demo_party ''carol'') False])"
proof -
  obtain ri where ri: "getRoundFunc (demo_net ''bob'') (demo_sess ''bob'') [1] (ss_selfPartyID (demo_sess ''bob'')) False = Inr ri"
    using demo_round by blast
  show ?thesis
    using direct_sender_not_checked [OF wf_alice(1) _ demo_sess_simps(2) demo_pid_json _ _ _ _ _ ri, of "replicate 12 0"
        "demo_store ''alice''" "replicate 32 0" "''w''" "demo_party ''carol''"]
    by (simp add: NonceSize_def)
qed

section \<open>The barrier\<close>

text \<open>
  (C34) The barrier of a session ends once each peer's attempts meet the deadline, and it succeeds
  exactly when every party of the session other than the node itself has answered before any
  deadline or stop.
\<close>

theorem barrier_waits_for_all:
  assumes "\<forall>p \<in> set (partyIDsToNodeIDs (ss_partyIDs s)). p \<noteq> selfNodeID s \<longrightarrow> AtDeadline \<in> set (att p)"
  shows "\<exists>r. WaitForPeersReady None att s =
      (s\<lparr>ss_barrierSub := Some (barrierTopic (topicComposer (ss_kind s)) (selfNodeID s))\<rparr>, Some r) \<and>
    (r = Inr () \<longleftrightarrow> (\<forall>p \<in> set (partyIDsToNodeIDs (ss_partyIDs s)). p \<noteq> selfNodeID s \<longrightarrow>
       (\<exists>pauses rest. att p = pauses @ Responded # rest \<and> set pauses \<subseteq> {Paused})))"
proof -
  obtain r where r: "wait_peers (selfNodeID s) att (partyIDsToNodeIDs (ss_partyIDs s)) = Some r"
    using wait_peers_ends [OF assms] by blast
  then have "r = Inr () \<longleftrightarrow> (\<forall>p \<in> set (partyIDsToNodeIDs (ss_partyIDs s)). p \<noteq> selfNodeID s \<longrightarrow> responds (att p))"
    using wait_peers_ok [of "selfNodeID s" att "partyIDsToNodeIDs (ss_partyIDs s)"] by simp
  with r show ?thesis by (simp add: WaitForPeersReady_def responds_def)
qed

lemma demo_nodes: "partyIDsToNodeIDs (map demo_party demo_ids) = demo_ids"
  by (simp add: partyIDsToNodeIDs_def demo_ids_def demo_party_node del: partyIDToNodeID.simps)

theorem barrier_waits_for_all_witness:
  "snd (WaitForPeersReady None (\<lambda>p. [Paused, Responded, AtDeadline]) (demo_sess ''alice'')) = Some (Inr ()) \<and>
   (\<exists>e. snd (WaitForPeersReady None (\<lambda>p. if p = ''carol'' then [Paused, AtDeadline] else [Responded, AtDeadline])
      (demo_sess ''alice'')) = Some (Inl e))"
proof -
  let ?a = "\<lambda>p :: string. [Paused, Responded, AtDeadline]"
  let ?b = "\<lambda>p. if p = ''carol'' then [Paused, AtDeadline] else [Responded, AtDeadline]"
  have nodes: "partyIDsToNodeIDs (map demo_party demo_ids) = [''alice'', ''bob'', ''carol'']"
    by (simp add: demo_nodes) (simp add: demo_ids_def)
  have resp: "\<exists>pauses rest. [Paused, Responded, AtDeadline] = pauses @ Responded # rest \<and> set pauses \<subseteq> {Paused}"
    by (rule exI [of _ "[Paused]"]) simp
  obtain r where "snd (WaitForPeersReady None ?a (demo_sess ''alice'')) = Some r \<and> r = Inr ()"
    using barrier_waits_for_all [of "demo_sess ''alice''" ?a] resp by (auto simp: nodes)
  moreover have no: "\<not> (\<exists>pauses rest. [Paused, AtDeadline] = pauses @ Responded # rest \<and> set pauses \<subseteq> {Paused})"
    by (auto simp: Cons_eq_append_conv)
  obtain r' where "snd (WaitForPeersReady None ?b (demo_sess ''alice'')) = Some r'" "r' \<noteq> Inr ()"
    using barrier_waits_for_all [of "demo_sess ''alice''" ?b] no by (auto simp: nodes)
  ultimately show ?thesis by (cases r') auto
qed

section \<open>Pre-parameters\<close>

text \<open>
  The ECDSA pre-parameters of a node are generated once: after a first start has stored them,
  every later start on the same store reads the same ones, whatever a new generation would give.
\<close>

lemma preparams_stable:
  assumes "preParams_one enc dec gen i kvs = Returns (pp, kvs')" and "badger_ok (kv_DB kvs)"
    and "\<And>x b. enc x = Inr b \<Longrightarrow> dec b = Inr x"
  shows "preParams_one enc dec gen' i kvs' = Returns (pp, kvs')"
  using preParams_one_stable [OF assms] by blast

end
