(* ===== verification/Request_Properties.thy ===== *)
theory Request_Properties
  imports Cluster_Properties Client
begin

text \<open>
  Properties of the request handlers, of the client, and of both together: authorization, the
  guard against duplicates, what is published and to whom, and what is persisted. Each theorem
  with hypotheses is followed by its application at the cluster of \<^verbatim>\<open>Instances\<close>.
\<close>

section \<open>Authorization\<close>

text \<open>
  (C3) A request passes the checks of a node exactly when it is authorized: the initiator signed its
  payload and, when authorization is enabled, every required authorizer signed the request and
  no signature that it carries is invalid. The keys of the node must have been loaded from its
  configuration.
\<close>

theorem authorization_decides:
  assumes "keys_loaded nt"
  shows "(VerifyInitiatorMessage (nt_crypto nt) (nt_store nt) msg = Returns (Inr ()) \<and>
      AuthorizeInitiatorMessage (nt_crypto nt) (nt_store nt) msg = Returns (Inr ())) \<longleftrightarrow>
    initiator_valid (nt_crypto nt) (fs_initiatorKey (nt_store nt)) (Raw msg) (sig_bytes (Sig msg)) \<and>
    (ac_Enabled (fs_authConfig (nt_store nt)) \<longrightarrow>
       set (ac_RequiredAuthorizers (fs_authConfig (nt_store nt))) \<subseteq> as_AuthorizerID ` set (GetAuthorizerSignatures msg) \<and>
       (\<forall>sig \<in> set (GetAuthorizerSignatures msg).
          authorizer_valid (nt_crypto nt) (fs_authConfig (nt_store nt)) (ComposeAuthorizerRaw msg) sig))"
  using authorized_iff [OF assms, of msg] by (simp add: authorized_def)

definition demo_tx :: "string \<Rightarrow> SignTxMessage" where
  "demo_tx curve = \<lparr>st_KeyType = curve, st_WalletID = ''w'', st_NetworkInternalCode = ''net'', st_TxID = ''tx'',
     st_Tx = Some [1, 2], st_Signature = None, st_DerivationPath = [], st_AuthorizerSignatures = []\<rparr>"

definition sign_demo :: "SignTxMessage \<Rightarrow> SignTxMessage" where
  "sign_demo m =
     (let m1 = m\<lparr>st_Signature := Some (demo_sign (Raw (SignTx m)))\<rparr> in
      m1\<lparr>st_AuthorizerSignatures := [\<lparr>as_AuthorizerID = ''ops'', as_Signature = demo_sign (ComposeAuthorizerRaw (SignTx m1))\<rparr>]\<rparr>)"

lemma demo_authorizer_valid:
  "as_AuthorizerID sig = ''ops'' \<Longrightarrow> as_Signature sig = demo_sign raw \<Longrightarrow>
   authorizer_valid demo_crypto (fs_authConfig (demo_store me)) raw sig"
  by (simp add: authorizer_valid_def demo_store_def demo_auth_def AlgorithmEd25519_def ParseEd25519_hex)

lemma demo_initiator_valid [simp]:
  "initiator_valid demo_crypto (fs_initiatorKey (demo_store me)) raw s \<longleftrightarrow> s = demo_sign raw"
  by (auto simp: initiator_valid_def demo_store_def EventInitiatorKeyTypeEd25519_def)

lemma demo_auth_config [simp]:
  "ac_Enabled (fs_authConfig (demo_store me))" "ac_RequiredAuthorizers (fs_authConfig (demo_store me)) = [''ops'']"
  by (simp_all add: demo_store_def demo_auth_def)

lemma sign_demo_simps [simp]:
  "st_WalletID (sign_demo m) = st_WalletID m" "st_TxID (sign_demo m) = st_TxID m" "st_KeyType (sign_demo m) = st_KeyType m"
  "st_Tx (sign_demo m) = st_Tx m" "st_DerivationPath (sign_demo m) = st_DerivationPath m"
  "st_NetworkInternalCode (sign_demo m) = st_NetworkInternalCode m"
  "st_Signature (sign_demo m) = Some (demo_sign (Raw (SignTx m)))"
  "SignTx_payload (sign_demo m) = SignTx_payload m"
  by (simp_all add: sign_demo_def Let_def SignTx_payload_def)

lemma demo_authorized: "authorized (demo_net me) (SignTx (sign_demo m))"
proof -
  let ?m = "m\<lparr>st_Signature := Some (demo_sign (Raw (SignTx m)))\<rparr>"
  have sigs: "GetAuthorizerSignatures (SignTx (sign_demo m)) =
      [\<lparr>as_AuthorizerID = ''ops'', as_Signature = demo_sign (ComposeAuthorizerRaw (SignTx ?m))\<rparr>]"
    by (simp add: sign_demo_def Let_def)
  have raw: "ComposeAuthorizerRaw (SignTx (sign_demo m)) = ComposeAuthorizerRaw (SignTx ?m)"
    by (simp add: ComposeAuthorizerRaw_eq SignTx_payload_def sign_demo_def Let_def)
  show ?thesis unfolding authorized_def sigs raw
    by (simp add: sig_bytes_def demo_authorizer_valid)
qed

theorem authorization_decides_witness:
  "keys_loaded (demo_net ''alice'') \<and>
   VerifyInitiatorMessage (nt_crypto (demo_net ''alice'')) (nt_store (demo_net ''alice''))
     (SignTx (sign_demo (demo_tx ''secp256k1''))) = Returns (Inr ()) \<and>
   AuthorizeInitiatorMessage (nt_crypto (demo_net ''alice'')) (nt_store (demo_net ''alice''))
     (SignTx (sign_demo (demo_tx ''secp256k1''))) = Returns (Inr ())"
  using authorization_decides [OF demo_keys_loaded [of "''alice''"], of "SignTx (sign_demo (demo_tx ''secp256k1''))"]
    demo_authorized [of "''alice''" "demo_tx ''secp256k1''"] demo_keys_loaded [of "''alice''"]
  unfolding authorized_def by blast

section \<open>Unauthorized requests\<close>

lemma unauthorized_cases:
  assumes "keys_loaded nt" and "\<not> authorized nt msg"
  obtains e where "VerifyInitiatorMessage (nt_crypto nt) (nt_store nt) msg = Returns (Inl e)"
  | e where "VerifyInitiatorMessage (nt_crypto nt) (nt_store nt) msg = Returns (Inr ())"
      "AuthorizeInitiatorMessage (nt_crypto nt) (nt_store nt) msg = Returns (Inl e)"
proof -
  have ok: "initiator_ok (nt_crypto nt) (fs_initiatorKey (nt_store nt))" "auth_ok (nt_crypto nt) (nt_store nt)"
    using assms(1) by (simp_all add: keys_loaded_def)
  obtain r r' where "VerifyInitiatorMessage (nt_crypto nt) (nt_store nt) msg = Returns r"
    "AuthorizeInitiatorMessage (nt_crypto nt) (nt_store nt) msg = Returns r'"
    using VerifyInitiatorMessage_iff [OF ok(1)] Authorize_iff [OF ok(2)] by meson
  with authorized_iff [OF assms(1), of msg] assms(2) that show thesis
    by (cases r; cases r') auto
qed

text \<open>The error result of a resharing request.\<close>

definition reshare_error :: "ResharingMessage \<Rightarrow> gerror \<Rightarrow> string \<Rightarrow> ResharingResultEvent" where
  "reshare_error r e c = \<lparr>rr_WalletID = rs_WalletID r, rr_NewThreshold = rs_NewThreshold r, rr_KeyType = rs_KeyType r,
     rr_PubKey = [], rr_ResultType = ResultTypeError, rr_ErrorReason = c @ '': '' @ Error e,
     rr_ErrorCode = GetErrorCodeFromError (Some e)\<rparr>"

lemma reshare_fail_cases:
  "reshare_fail r m e c = (if rs_SessionID r = [] then [] else
     [ResultEnqueue (ReshareResultSubject (clientID_of m) (rs_SessionID r))
        (json_Marshal (enc_ResharingResultEvent (reshare_error r e c))) (composeReshareIdempotentKey (rs_SessionID r) m)])"
  by (simp add: reshare_fail_def handleReshareSessionError_def reshare_error_def Let_def)

lemma reshare_refused:
  assumes "keys_loaded (cx_net env)"
    and refused: "\<forall>msg. json_Unmarshal ResharingMessage_fields zero_ResharingMessage (nm_Data m) = Inr msg \<longrightarrow>
        \<not> authorized (cx_net env) (Resharing msg)"
  shows "\<exists>e c. consumeReshareEvent env ro rw m ec = Returns (ec, reshare_fail (requested_reshare m) m e c, True)"
  proof (cases "json_Unmarshal ResharingMessage_fields zero_ResharingMessage (nm_Data m)")
    case (Inr msg)
    with refused have "\<not> authorized (cx_net env) (Resharing msg)" by blast
    from assms(1) this Inr show ?thesis
      by (cases rule: unauthorized_cases; cases "rs_SessionID msg = []") (auto simp: consumeReshareEvent_def requested_reshare_def Let_def)
  qed (auto simp: consumeReshareEvent_def requested_reshare_def)

text \<open>
  (C2) A request that does not decode or is not authorized changes nothing on a node: state, stores and
  session table stay as they are. A signing request is dropped silently. A key generation request is
  answered with an error result for its wallet. A resharing request is answered with an error result
  for its session when it names one, as far as it was decoded, and with nothing when its session
  identifier is empty.
\<close>

theorem unauthorized_requests_rejected:
  assumes "keys_loaded (cx_net env)"
  shows "((\<forall>msg. json_Unmarshal SignTxMessage_fields zero_SignTxMessage (nm_Data m) = Inr msg \<longrightarrow>
        \<not> authorized (cx_net env) (SignTx msg)) \<longrightarrow>
      handleSigningEvent env rn m ec = Returns (ec, [])) \<and>
    ((\<forall>msg. json_Unmarshal GenerateKeyMessage_fields zero_GenerateKeyMessage (nm_Data m) = Inr msg \<longrightarrow>
        \<not> authorized (cx_net env) (GenerateKey msg)) \<longrightarrow>
      (\<exists>e c. handleKeyGenEvent env re rd late m ec = Returns (ec, handleKeygenSessionError (requested_wallet m) e c m))) \<and>
    ((\<forall>msg. json_Unmarshal ResharingMessage_fields zero_ResharingMessage (nm_Data m) = Inr msg \<longrightarrow>
        \<not> authorized (cx_net env) (Resharing msg)) \<longrightarrow>
      (\<exists>e c. consumeReshareEvent env ro rw m ec = Returns (ec,
         if rs_SessionID (requested_reshare m) = [] then []
         else [ResultEnqueue (ReshareResultSubject (clientID_of m) (rs_SessionID (requested_reshare m)))
                 (json_Marshal (enc_ResharingResultEvent (reshare_error (requested_reshare m) e c)))
                 (composeReshareIdempotentKey (rs_SessionID (requested_reshare m)) m)], True)))"
proof (intro conjI impI)
  assume *: "\<forall>msg. json_Unmarshal SignTxMessage_fields zero_SignTxMessage (nm_Data m) = Inr msg \<longrightarrow>
        \<not> authorized (cx_net env) (SignTx msg)"
  show "handleSigningEvent env rn m ec = Returns (ec, [])"
  proof (cases "json_Unmarshal SignTxMessage_fields zero_SignTxMessage (nm_Data m)")
    case (Inr msg)
    with * have "\<not> authorized (cx_net env) (SignTx msg)" by blast
    from assms this Inr show ?thesis
      by (cases rule: unauthorized_cases) (simp_all add: handleSigningEvent_def Let_def)
  qed (simp add: handleSigningEvent_def)
next
  assume *: "\<forall>msg. json_Unmarshal GenerateKeyMessage_fields zero_GenerateKeyMessage (nm_Data m) = Inr msg \<longrightarrow>
        \<not> authorized (cx_net env) (GenerateKey msg)"
  show "\<exists>e c. handleKeyGenEvent env re rd late m ec = Returns (ec, handleKeygenSessionError (requested_wallet m) e c m)"
  proof (cases "json_Unmarshal GenerateKeyMessage_fields zero_GenerateKeyMessage (nm_Data m)")
    case (Inr msg)
    with * have "\<not> authorized (cx_net env) (GenerateKey msg)" by blast
    from assms this Inr show ?thesis
      by (cases rule: unauthorized_cases) (auto simp: handleKeyGenEvent_def requested_wallet_def Let_def)
  qed (auto simp: handleKeyGenEvent_def requested_wallet_def Let_def)
next
  assume *: "\<forall>msg. json_Unmarshal ResharingMessage_fields zero_ResharingMessage (nm_Data m) = Inr msg \<longrightarrow>
        \<not> authorized (cx_net env) (Resharing msg)"
  from reshare_refused [OF assms this] show "\<exists>e c. consumeReshareEvent env ro rw m ec = Returns (ec,
         if rs_SessionID (requested_reshare m) = [] then []
         else [ResultEnqueue (ReshareResultSubject (clientID_of m) (rs_SessionID (requested_reshare m)))
                 (json_Marshal (enc_ResharingResultEvent (reshare_error (requested_reshare m) e c)))
                 (composeReshareIdempotentKey (rs_SessionID (requested_reshare m)) m)], True)"
    unfolding reshare_fail_cases .
qed

definition sign_request :: "SignTxMessage \<Rightarrow> natsMsg" where
  "sign_request msg = \<lparr>nm_Data = json_Marshal (enc_SignTxMessage msg), nm_Reply = ''inbox'',
     nm_Header = (\<lambda>h. if h = ''ClientID'' then ''c1'' else [])\<rparr>"

lemma sign_request_decodes [simp]:
  "json_Unmarshal SignTxMessage_fields zero_SignTxMessage (nm_Data (sign_request msg)) = Inr msg"
  by (simp add: sign_request_def Unmarshal_SignTxMessage)

lemma demo_unsigned: "\<not> authorized (demo_net me) (SignTx (demo_tx curve))"
  using demo_sign_nonempty [of "Raw (SignTx (demo_tx curve))"]
  by (simp add: authorized_def demo_tx_def sig_bytes_def del: Raw.simps)

theorem unauthorized_requests_rejected_witness:
  "keys_loaded (cx_net (demo_env ''alice'')) \<and>
   handleSigningEvent (demo_env ''alice'') \<lparr>rn_events = [], rn_errors = [], rn_errFirst = False\<rparr>
     (sign_request (demo_tx ''ed25519'')) (demo_consumer ''alice'' wallet_kv wallet_ki) =
     Returns (demo_consumer ''alice'' wallet_kv wallet_ki, [])"
proof -
  have net: "cx_net (demo_env ''alice'') = demo_net ''alice''" by (simp add: demo_env_def)
  then have k: "keys_loaded (cx_net (demo_env ''alice''))" by simp
  show ?thesis
    using unauthorized_requests_rejected [OF k, where m = "sign_request (demo_tx ''ed25519'')"
        and rn = "\<lparr>rn_events = [], rn_errors = [], rn_errFirst = False\<rparr>"
        and ec = "demo_consumer ''alice'' wallet_kv wallet_ki"]
      k demo_unsigned [of "''alice''" "''ed25519''"] by (simp add: net)
qed

section \<open>Signing requests\<close>


definition demo_sig :: SignatureData where
  "demo_sig = \<lparr>sd_R = [9], sd_S = [1, 2], sd_SignatureRecovery = [0], sd_Signature = [9, 1, 2]\<rparr>"

definition demo_run :: "SignatureData run" where
  "demo_run = \<lparr>rn_events = [PartyEnd demo_sig], rn_errors = [], rn_errFirst = False\<rparr>"

definition demo_request :: natsMsg where
  "demo_request = sign_request (sign_demo (demo_tx ''secp256k1''))"

lemma demo_env_net [simp]: "cx_net (demo_env me) = demo_net me"
  by (simp add: demo_env_def)

lemma demo_request_decodes:
  "json_Unmarshal SignTxMessage_fields zero_SignTxMessage (nm_Data demo_request) = Inr (sign_demo (demo_tx ''secp256k1''))"
  by (simp add: demo_request_def)

lemma demo_checks:
  "VerifyInitiatorMessage demo_crypto (demo_store me) (SignTx (sign_demo msg)) = Returns (Inr ())"
  "AuthorizeInitiatorMessage demo_crypto (demo_store me) (SignTx (sign_demo msg)) = Returns (Inr ())"
  using authorized_iff [OF demo_keys_loaded [of me], of "SignTx (sign_demo msg)"] demo_authorized [of me msg] by auto

lemma demo_version: "getVersion (demo_node me kvs wallet_ki) SessionTypeECDSA ''w'' = Returns 1"
  using getVersion_keyInfo [OF wallet_info [of me kvs]] by (simp add: demo_info_def)

lemma demo_create:
  "CreateSigningSession (\<lambda>xs. xs) u (demo_node ''alice'' kvs wallet_ki) SessionTypeECDSA ''w'' x n rt path ik =
   Returns (Inr (newECDSASigningSession ''w'' x n rt [''alice'', ''bob'', ''carol'']
     (fst (generatePartyIDs (\<lambda>xs. xs) u ''alice'' PurposeKeygen [''alice'', ''bob'', ''carol''] 1))
     (snd (generatePartyIDs (\<lambda>xs. xs) u ''alice'' PurposeKeygen [''alice'', ''bob'', ''carol''] 1)) 1 path ik
     (Some \<lparr>ckd_masterChainCode = replicate 32 0\<rparr>)))"
proof -
  have ready: "getReadyPeersForSession demo_info (GetReadyPeersIncludeSelf (demo_registry ''alice'')) = [''alice'', ''bob'', ''carol'']"
    by (simp add: getReadyPeersForSession_def slices_contains_def demo_ready demo_info_def participants_def demo_ids_def)
  have th: "ki_Threshold demo_info = 1" "ensureNodeIsParticipant (demo_node ''alice'' kvs wallet_ki) demo_info = Inr ()"
    by (simp_all add: demo_info_def ensureNodeIsParticipant_def demo_node_def participants_def demo_ids_def slices_contains_def)
  have nd: "nd_registry (demo_node ''alice'' kvs wallet_ki) = demo_registry ''alice''"
    "nd_nodeID (demo_node ''alice'' kvs wallet_ki) = ''alice''"
    "nd_ecdsaPreParams (demo_node ''alice'' kvs wallet_ki) = [11, 12]"
    "nd_ckd (demo_node ''alice'' kvs wallet_ki) = Some \<lparr>ckd_masterChainCode = replicate 32 0\<rparr>"
    by (simp_all add: demo_node_def)
  show ?thesis
    by (simp add: CreateSigningSession_def demo_version wallet_info ready th nd Let_def preParams_at_def split: prod.split)
qed

lemma demo_barrier:
  "barrier (demo_env me) i s =
     (s\<lparr>ss_barrierSub := Some (barrierTopic (topicComposer (ss_kind s)) (selfNodeID s))\<rparr>, Inr ())"
proof -
  have "wait_peers self (\<lambda>p. [Responded, AtDeadline]) ps = Some (Inr ())" for self ps
    by (induction ps) simp_all
  then show ?thesis by (simp add: barrier_def demo_env_def WaitForPeersReady_def Let_def)
qed


definition demo_signer :: "string \<Rightarrow> string \<Rightarrow> (nat, unit) signing" where
  "demo_signer rt ik = newECDSASigningSession ''w'' ''tx'' ''net'' rt [''alice'', ''bob'', ''carol'']
     (fst (generatePartyIDs (\<lambda>xs. xs) (\<lambda>j. ''id'') ''alice'' PurposeKeygen [''alice'', ''bob'', ''carol''] 1))
     (snd (generatePartyIDs (\<lambda>xs. xs) (\<lambda>j. ''id'') ''alice'' PurposeKeygen [''alice'', ''bob'', ''carol''] 1)) 1 [] ik
     (Some \<lparr>ckd_masterChainCode = replicate 32 0\<rparr>)"

definition demo_loaded :: "string \<Rightarrow> string \<Rightarrow> (nat, unit) signing" where
  "demo_loaded rt ik = (demo_signer rt ik)\<lparr>sg_session := (sg_session (demo_signer rt ik))\<lparr>ss_version := 1\<rparr>,
     sg_data := Some (demo_share 9), sg_tx := Some (be_nat [1, 2]), sg_delta := None\<rparr>"

lemma demo_tx_simps [simp]:
  "st_KeyType (demo_tx c) = c" "st_WalletID (demo_tx c) = ''w''" "st_NetworkInternalCode (demo_tx c) = ''net''"
  "st_TxID (demo_tx c) = ''tx''" "st_Tx (demo_tx c) = Some [1, 2]" "st_DerivationPath (demo_tx c) = []"
  by (simp_all add: demo_tx_def)

lemma demo_sign_session:
  "sign_session (demo_env ''alice'') (Inr SessionTypeECDSA) (sign_demo (demo_tx c)) m (demo_node ''alice'' kvs wallet_ki) =
   Returns (Inr (demo_signer (SigningResultSubject (clientID_of m)) (composeSigningIdempotentKey ''tx'' m)))"
  by (simp add: sign_session_def demo_signer_def demo_env_def demo_create)

lemma demo_sign_init:
  "sign_init (demo_env ''alice'') SessionTypeECDSA (sign_demo (demo_tx c)) (demo_signer rt ik)
     (demo_node ''alice'' wallet_kv wallet_ki) = Returns (Inr (demo_loaded rt ik))"
proof -
  let ?w = "\<lparr>wd_session = undefined, wd_kv = wallet_kv, wd_ki = wallet_ki\<rparr>"
  let ?s = "sg_session (demo_signer rt ik)"
  have s: "ss_kind ?s = ECDSASigning ''w'' ''tx''" "ss_walletID ?s = ''w''"
    "ss_participantPeerIDs ?s = [''alice'', ''bob'', ''carol'']" "sg_derivationPath (demo_signer rt ik) = []"
    by (simp_all add: demo_signer_def newECDSASigningSession_def newSigningSession_def base_session_def)
  have "itoa 1 = ''1''" by code_simp
  then have "kv_Get wallet_kv (composeKey (ECDSASigning ''w'' ''tx'') (walletIDWithVersion ''w'' 1)) = Inr [9]"
    by (simp add: wallet_kv_def walletIDWithVersion_def)
  moreover have "keyinfo_Get wallet_ki ''ecdsa:w'' = Inr demo_info" "ki_Version demo_info = 1"
    using wallet_info [of "''alice''" wallet_kv] by (simp_all add: getKeyInfo_def demo_node_def demo_info_def)
  ultimately have p: "persisted ?w (ECDSASigning ''w'' ''tx'') ''w'' [9] demo_info"
    by (simp add: persisted_def)
  show ?thesis
    using signing_Init_persisted [of ?w "demo_signer rt ik" "[9]" demo_info "cu_unmarshal demo_cu" "demo_share 9"
        "\<lambda>a b. filter (\<lambda>x. x \<in> set b) a" demo_curve "be_nat [1, 2]"] p
    by (simp add: sign_init_def ecdsa_signing_Init_def demo_env_def demo_node_def demo_cu_def demo_info_def
        participants_def demo_ids_def s demo_loaded_def Let_def to_list_def be_nat_def)
qed

lemma demo_listen_errors: "ss_errors (listen_all (demo_env me) s) = ss_errors s"
proof -
  have "ss_errors (subscribeFromPeersAsync (\<lambda>_. None) ps s) = ss_errors s" for ps s
    by (induction ps arbitrary: s) (simp_all add: Let_def)
  moreover have "ss_errors (subscribeBroadcastAsync (\<lambda>_. None) s) = ss_errors s"
    by (simp add: subscribeBroadcastAsync_def Let_def)
  ultimately show ?thesis
    by (simp add: listen_all_def demo_env_def ListenToIncomingMessageAsync_def Let_def)
qed

lemma demo_signing_run:
  "signing_run (demo_env ''alice'') demo_run SessionTypeECDSA (sign_demo (demo_tx c)) m (demo_loaded rt ik)
     (demo_node ''alice'' wallet_kv wallet_ki) =
   Returns (SessionEffect (Enqueue rt (signing_fill SessionTypeECDSA demo_sig (success_event (demo_loaded rt ik))) ik) #
     sendReplyToRemoveMsg m)"
proof -
  have v: "cu_verify demo_cu 9 (nat_be (be_nat [1, 2])) (be_nat [9]) (be_nat [1, 2])"
    by (simp add: demo_cu_def be_nat_nat_be) (simp add: be_nat_def)
  define s where "s = (let s = listen_all (demo_env ''alice'') (sg_session (demo_loaded rt ik)) in
    s\<lparr>ss_barrierSub := Some (barrierTopic (topicComposer (ss_kind s)) (selfNodeID s))\<rparr>)"
  have b: "barrier (demo_env ''alice'') 0 (listen_all (demo_env ''alice'') (sg_session (demo_loaded rt ik))) = (s, Inr ())"
    by (simp add: demo_barrier s_def Let_def)
  have l: "ss_resultTopic (sg_session (demo_loaded rt ik)) = rt" "ss_idempotentKey (sg_session (demo_loaded rt ik)) = ik"
    "ss_errors (sg_session (demo_loaded rt ik)) = []" "sg_data (demo_loaded rt ik) = Some (demo_share 9)"
    "sg_tx (demo_loaded rt ik) = Some (be_nat [1, 2])"
    by (simp_all add: demo_loaded_def demo_signer_def newECDSASigningSession_def newSigningSession_def base_session_def)
  have s: "ss_resultTopic s = rt" "ss_idempotentKey s = ik" "ss_errors s = []"
    using listen_frame [of "sg_session (demo_loaded rt ik)" "demo_env ''alice''"] l
    by (simp_all add: s_def Let_def session_frame_def demo_listen_errors)
  have "ecdsa_Sign (demo_net ''alice'') (cu_verify demo_cu) (\<lambda>_. None) (demo_loaded rt ik) [PartyEnd demo_sig]
      \<lparr>wd_session = s, wd_kv = wallet_kv, wd_ki = wallet_ki\<rparr> =
    Returns (\<lparr>wd_session = Stop s, wd_kv = wallet_kv, wd_ki = wallet_ki\<rparr>,
      [Enqueue rt (signing_fill SessionTypeECDSA demo_sig (success_event (demo_loaded rt ik))) ik], True)"
    using v s l by (simp add: ecdsa_Sign_def signing_end_def session_Close_def demo_share_def signing_fill_def demo_sig_def)
  moreover have "watch_run demo_run (Stop s) True = WatchDone (ss_pubkeyBytes s)"
    using s by (simp add: watch_run_def demo_run_def Stop_def)
  ultimately show ?thesis
    using b by (simp add: signing_run_def Let_def demo_run_def) (simp add: demo_env_def demo_node_def)
qed

lemma demo_handle_signing:
  "handleSigningEvent (demo_env ''alice'') demo_run demo_request (demo_consumer ''alice'' wallet_kv wallet_ki) =
   Returns ((demo_consumer ''alice'' wallet_kv wallet_ki)\<lparr>ec_table := fst (tryAddSession 0 ''w'' ''tx'' new_session_table)\<rparr>,
     SessionEffect (Enqueue (SigningResultSubject (clientID_of demo_request))
       (signing_fill SessionTypeECDSA demo_sig (success_event
          (demo_loaded (SigningResultSubject (clientID_of demo_request)) (composeSigningIdempotentKey ''tx'' demo_request))))
       (composeSigningIdempotentKey ''tx'' demo_request)) # sendReplyToRemoveMsg demo_request)"
proof -
  let ?m = demo_request
  let ?rt = "SigningResultSubject (clientID_of ?m)" and ?ik = "composeSigningIdempotentKey ''tx'' ?m"
  obtain t where t: "tryAddSession 0 ''w'' ''tx'' new_session_table = (t, True)"
    by (simp add: tryAddSession_def new_session_table_def Let_def)
  show ?thesis
    using t demo_sign_session [of "''secp256k1''" ?m wallet_kv] demo_sign_init [of "''secp256k1''" ?rt ?ik]
      demo_signing_run [of "''secp256k1''" ?m ?rt ?ik]
    by (simp add: handleSigningEvent_def demo_request_decodes demo_checks demo_consumer_def KeyTypeSecp256k1_def Let_def)
      (simp add: demo_env_def)
qed


section \<open>The guard against duplicates\<close>

text \<open>Each handler runs the table as the goroutines of a node may.\<close>

lemma handleSigning_guard_run:
  assumes "handleSigningEvent env rn m ec = Returns (ec', fx)"
  shows "\<exists>ops. guard_run (ec_table ec, ks) ops (ec_table ec', ks)"
proof -
  have "ec_table ec' = ec_table ec \<or> (\<exists>w x. ec_table ec' = fst (tryAddSession (cx_now env) w x (ec_table ec)))"
    using assms by (auto simp: handleSigningEvent_def Let_def simp del: sessionTypeFromKeyType.simps
        split: sum.splits outcome.splits prod.splits bool.splits if_splits) (metis fst_conv)+
  then show ?thesis
    using guard_none [of "(ec_table ec, ks)"] guard_more [OF guard_step.signing guard_none] by metis
qed

lemma handleKeyGen_guard_run:
  assumes "handleKeyGenEvent env re rd late m ec = Returns (ec', fx)"
  shows "\<exists>ops. guard_run (ec_table ec, ks) ops (ec_table ec', ks)"
proof -
  have "ec_table ec' = ec_table ec \<or> (\<exists>w t. tryAddSession (cx_now env) w ''keygen'' (ec_table ec) = (t, True) \<and>
      ec_table ec' = removeSession w ''keygen'' t)"
    using assms by (auto simp: handleKeyGenEvent_def Let_def
        split: sum.splits option.splits outcome.splits prod.splits bool.splits if_splits) metis+
  then show ?thesis
  proof (elim disjE exE conjE)
    fix w t assume a: "tryAddSession (cx_now env) w ''keygen'' (ec_table ec) = (t, True)"
      and e: "ec_table ec' = removeSession w ''keygen'' t"
    have "guard_step (t, session_id w ''keygen'' # ks) (OpRemove w ''keygen'') (removeSession w ''keygen'' t, ks)"
      using guard_step.keygen_done [of w "session_id w ''keygen'' # ks" t] by simp
    then show ?thesis unfolding e using guard_more [OF guard_step.keygen [OF a] guard_more [OF _ guard_none]] by blast
  qed (use guard_none [of "(ec_table ec, ks)"] in metis)
qed

lemma consumeReshare_table:
  "consumeReshareEvent env ro rw m ec = Returns (ec', fx, b) \<Longrightarrow> ec_table ec' = ec_table ec"
  by (auto simp: consumeReshareEvent_def Let_def simp del: sessionTypeFromKeyType.simps
      split: sum.splits outcome.splits prod.splits bool.splits if_splits)

text \<open>
  (C26) After a node accepted a signing request, it refuses every later authorized request for the same
  wallet and transaction, whatever else that request says, as a duplicate, and stays as it is. This holds
  whatever signing requests, key generations and cleanups run in between, until a cleanup runs more
  than the session timeout of 30 minutes after the first request: no branch of the handler releases
  the entry, and the key generations, which end within that timeout, release only their own.
\<close>

theorem signing_refused_after_first:
  assumes "keys_loaded (cx_net env)" and "guard_run (new_session_table, []) earlier (ec_table ec, ks)"
    and "json_Unmarshal SignTxMessage_fields zero_SignTxMessage (nm_Data m) = Inr msg"
    and "authorized (cx_net env) (SignTx msg)"
    and "active_since (ec_table ec) (session_id (st_WalletID msg) (st_TxID msg)) = None"
    and "handleSigningEvent env rn m ec = Returns (ec', fx)"
    and "guard_run (ec_table ec', ks) later (ec_table ec2, ks2)"
    and "\<And>now. OpCleanup now \<in> set later \<Longrightarrow> now - cx_now env \<le> minutes 30"
    and "keys_loaded (cx_net env')"
    and "json_Unmarshal SignTxMessage_fields zero_SignTxMessage (nm_Data m') = Inr msg'"
    and "authorized (cx_net env') (SignTx msg')"
    and "st_WalletID msg' = st_WalletID msg" and "st_TxID msg' = st_TxID msg"
  shows "handleSigningEvent env' rn' m' ec2 = Returns (ec2,
      handleSigningSessionError (st_WalletID msg) (st_TxID msg) (st_NetworkInternalCode msg')
        (ENew (''duplicate signing request detected for walletID='' @ st_WalletID msg @ '' txID='' @ st_TxID msg))
        ''Duplicate session'' m')"
proof -
  let ?k = "session_id (st_WalletID msg) (st_TxID msg)"
  have inv: "guard_inv (ec_table ec, ks)" by (rule guard_run_inv [OF assms(2) guard_inv_start])
  have t: "ec_table ec' = fst (tryAddSession (cx_now env) (st_WalletID msg) (st_TxID msg) (ec_table ec))"
  proof -
    obtain tb where tb: "tryAddSession (cx_now env) (st_WalletID msg) (st_TxID msg) (ec_table ec) = (tb, True)"
      using tab.granted_iff [of "cx_now env" "st_WalletID msg" "st_TxID msg" "ec_table ec"] assms(5)
      by (metis (full_types) prod.collapse)
    with assms(3,4,6) authorized_iff [OF assms(1)] show ?thesis
      by (auto simp: handleSigningEvent_def Let_def simp del: sessionTypeFromKeyType.simps
        split: sum.splits outcome.splits if_splits)
  qed
  have "guard_step (ec_table ec, ks) (OpTryAdd (cx_now env) (st_WalletID msg) (st_TxID msg)) (ec_table ec', ks)"
    unfolding t by (rule guard_step.signing)
  then have "guard_inv (ec_table ec', ks)" using guard_inv_step inv by blast
  moreover have "active_since (ec_table ec') ?k = Some (cx_now env)" unfolding t using assms(5) by (simp add: tab.since_add)
  moreover have "?k \<notin> set ks" using inv assms(5) by (auto simp: guard_inv_def)
  ultimately have "held_by_signing ?k (cx_now env) (ec_table ec', ks)" by (simp add: held_by_signing_def)
  from held_run [OF assms(7) this assms(8)] have "active_since (ec_table ec2) (session_id (st_WalletID msg') (st_TxID msg')) \<noteq> None"
    by (simp add: held_by_signing_def assms(12,13))
  from handleSigning_duplicate [OF assms(10,9,11) this] show ?thesis by (simp add: assms(12,13))
qed

lemma demo_request_grant:
  "handleSigningEvent (demo_env ''alice'') demo_run demo_request (demo_consumer ''alice'' wallet_kv wallet_ki) = Returns (ec', fx) \<Longrightarrow>
   ec_table ec' = fst (tryAddSession 0 ''w'' ''tx'' new_session_table)"
  using demo_handle_signing by (auto simp: demo_consumer_def)

theorem signing_refused_after_first_witness:
  "\<exists>ec' fx ec2. handleSigningEvent (demo_env ''alice'') demo_run demo_request (demo_consumer ''alice'' wallet_kv wallet_ki) =
       Returns (ec', fx) \<and>
     ec2 = ec'\<lparr>ec_table := cleanupStaleSessions (minutes 30) (removeSession ''w'' ''keygen''
       (fst (tryAddSession 5 ''w'' ''keygen'' (ec_table ec'))))\<rparr> \<and>
     handleSigningEvent (demo_env ''alice'') demo_run (sign_request (sign_demo (demo_tx ''ed25519''))) ec2 = Returns (ec2,
       handleSigningSessionError ''w'' ''tx'' ''net''
         (ENew (''duplicate signing request detected for walletID='' @ ''w'' @ '' txID='' @ ''tx''))
         ''Duplicate session'' (sign_request (sign_demo (demo_tx ''ed25519''))))"
proof -
  let ?env = "demo_env ''alice''" and ?ec = "demo_consumer ''alice'' wallet_kv wallet_ki"
  let ?m = "sign_request (sign_demo (demo_tx ''ed25519''))"
  obtain ec' fx where h: "handleSigningEvent ?env demo_run demo_request ?ec = Returns (ec', fx)"
    using demo_handle_signing by blast
  let ?t1 = "fst (tryAddSession 5 ''w'' ''keygen'' (ec_table ec'))"
  let ?t2 = "removeSession ''w'' ''keygen'' ?t1"
  let ?ec2 = "ec'\<lparr>ec_table := cleanupStaleSessions (minutes 30) ?t2\<rparr>"
  have k: "keys_loaded (cx_net ?env)" by simp
  have start: "guard_run (new_session_table, []) [] (ec_table ?ec, [])"
    using guard_none by (simp add: demo_consumer_def)
  have free: "active_since (ec_table ?ec) (session_id ''w'' ''tx'') = None"
    by (simp add: demo_consumer_def active_since_def new_session_table_def)
  have "active_since (ec_table ec') (session_id ''w'' ''keygen'') = None"
    by (simp add: demo_request_grant [OF h] tab.since_add session_id_def) (simp add: active_since_def new_session_table_def)
  then have add: "tryAddSession 5 ''w'' ''keygen'' (ec_table ec') = (?t1, True)"
    using tab.granted_iff [of 5 "''w''" "''keygen''" "ec_table ec'"] by (metis prod.collapse)
  have "guard_step (?t1, [session_id ''w'' ''keygen'']) (OpRemove ''w'' ''keygen'') (?t2, [])"
    using guard_step.keygen_done [of "''w''" "[session_id ''w'' ''keygen'']" ?t1] by simp
  moreover have "guard_step (?t2, []) (OpCleanup (minutes 30)) (cleanupStaleSessions (minutes 30) ?t2, [])"
    by (rule guard_step.cleanup) simp
  ultimately have later: "guard_run (ec_table ec', []) [OpTryAdd 5 ''w'' ''keygen'', OpRemove ''w'' ''keygen'', OpCleanup (minutes 30)]
      (ec_table ?ec2, [])"
    using guard_step.keygen [OF add, of "[]"] by (auto intro!: guard_more guard_none)
  have a: "authorized (cx_net ?env) (SignTx (sign_demo (demo_tx c)))" for c using demo_authorized by simp
  have now: "cx_now ?env = 0" by (simp add: demo_env_def)
  have id: "st_WalletID (sign_demo (demo_tx c)) = ''w''" "st_TxID (sign_demo (demo_tx c)) = ''tx''"
    "st_NetworkInternalCode (sign_demo (demo_tx c)) = ''net''" for c by (simp_all add: demo_tx_def)
  have "handleSigningEvent ?env demo_run ?m ?ec2 = Returns (?ec2,
      handleSigningSessionError ''w'' ''tx'' ''net''
        (ENew (''duplicate signing request detected for walletID='' @ ''w'' @ '' txID='' @ ''tx'')) ''Duplicate session'' ?m)"
    using signing_refused_after_first [OF k start demo_request_decodes a _ h later _ k sign_request_decodes a]
    unfolding id now using free by simp
  with h show ?thesis by blast
qed

text \<open>
  (C28) A signing request for which too few participants of the key are ready is answered with an error
  result, not retried: the error of the node is not the one that the handler tests for. The
  entry in the session table stays.
\<close>

theorem too_few_ready_is_reported:
  assumes "json_Unmarshal SignTxMessage_fields zero_SignTxMessage (nm_Data m) = Inr msg"
    and "keys_loaded (cx_net env)" and "authorized (cx_net env) (SignTx msg)"
    and "active_since (ec_table ec) (session_id (st_WalletID msg) (st_TxID msg)) = None"
    and "sessionTypeFromKeyType (st_KeyType msg) = Inr t"
    and "getKeyInfo (ec_node ec) t (st_WalletID msg) = Inr info"
    and "int (length (getReadyPeersForSession info (GetReadyPeersIncludeSelf (nd_registry (ec_node ec))))) < ki_Threshold info + 1"
  shows "\<exists>e. handleSigningEvent env rn m ec =
      Returns (ec\<lparr>ec_table := fst (tryAddSession (cx_now env) (st_WalletID msg) (st_TxID msg) (ec_table ec))\<rparr>,
        handleSigningSessionError (st_WalletID msg) (st_TxID msg) (st_NetworkInternalCode msg) e
          ''Failed to create signing session'' m) \<and>
    \<not> errors_Is e ''Not enough participants to sign''"
proof -
  obtain tb where tb: "tryAddSession (cx_now env) (st_WalletID msg) (st_TxID msg) (ec_table ec) = (tb, True)"
    using tab.granted_iff [of "cx_now env" "st_WalletID msg" "st_TxID msg" "ec_table ec"] assms(4)
    by (metis (full_types) prod.collapse)
  let ?e = "ENew (''not enough peers to create signing session! expected '' @ itoa (ki_Threshold info + 1) @ '', got '' @
    itoa (int (length (getReadyPeersForSession info (GetReadyPeersIncludeSelf (nd_registry (ec_node ec)))))))"
  have c: "sign_session env (Inr t) msg m (ec_node ec) = Returns (Inl ?e)"
    using assms(6,7) getVersion_keyInfo [OF assms(6)] by (simp add: sign_session_def CreateSigningSession_def Let_def)
  have "\<not> errors_Is ?e s" for s by simp
  with c tb assms(1,3,5) authorized_iff [OF assms(2)] show ?thesis
    by (intro exI [of _ ?e]) (simp add: handleSigningEvent_def Let_def del: sessionTypeFromKeyType.simps)
qed

definition lonely_consumer :: "(unit, bytes \<Rightarrow> bytes option, string \<Rightarrow> bytes option, nat) eventConsumer" where
  "lonely_consumer = (demo_consumer ''alice'' wallet_kv wallet_ki)\<lparr>ec_node :=
     (demo_node ''alice'' wallet_kv wallet_ki)\<lparr>nd_registry := (demo_registry ''alice'')\<lparr>rg_readyMap := []\<rparr>\<rparr>\<rparr>"

theorem too_few_ready_is_reported_witness:
  "\<exists>ec' e. handleSigningEvent (demo_env ''alice'') demo_run demo_request lonely_consumer =
     Returns (ec', handleSigningSessionError ''w'' ''tx'' ''net'' e ''Failed to create signing session'' demo_request)"
proof -
  have k: "keys_loaded (cx_net (demo_env ''alice''))" by simp
  have a: "authorized (cx_net (demo_env ''alice'')) (SignTx (sign_demo (demo_tx ''secp256k1'')))"
    using demo_authorized by simp
  have f: "active_since (ec_table lonely_consumer) (session_id ''w'' ''tx'') = None"
    by (simp add: lonely_consumer_def demo_consumer_def active_since_def new_session_table_def)
  have t: "sessionTypeFromKeyType ''secp256k1'' = Inr SessionTypeECDSA" by (simp add: KeyTypeSecp256k1_def)
  have i: "getKeyInfo (ec_node lonely_consumer) SessionTypeECDSA ''w'' = Inr demo_info"
    using wallet_info [of "''alice''" wallet_kv] by (simp add: lonely_consumer_def getKeyInfo_def demo_node_def)
  have r: "getReadyPeersForSession demo_info (GetReadyPeersIncludeSelf (nd_registry (ec_node lonely_consumer))) = [''alice'']"
    by (simp add: lonely_consumer_def GetReadyPeersIncludeSelf_def readyPeers_def getReadyPeersForSession_def
        slices_contains_def demo_info_def participants_def demo_ids_def demo_registry_def)
  have l: "int (length (getReadyPeersForSession demo_info
      (GetReadyPeersIncludeSelf (nd_registry (ec_node lonely_consumer))))) < ki_Threshold demo_info + 1"
    unfolding r by (simp add: demo_info_def)
  show ?thesis
    using too_few_ready_is_reported [OF demo_request_decodes k a _ _ _ l, where rn = demo_run] f t i by (simp del: sessionTypeFromKeyType.simps) blast
qed

section \<open>Results of key generation\<close>

text \<open>
  (C27) Key generation is idempotent: once the result of a wallet is stored, every authorized request
  for the wallet is answered with the stored bytes, under the identifier of the new request, and
  nothing is generated or changed.
\<close>

theorem stored_result_replayed:
  assumes "json_Unmarshal GenerateKeyMessage_fields zero_GenerateKeyMessage (nm_Data m) = Inr msg"
    and "keys_loaded (cx_net env)" and "authorized (cx_net env) (GenerateKey msg)"
    and "StoreWalletCreationResult node (gk_WalletID msg) payload = Inr (ec_node ec)" and "badger_ok (kv_DB (nd_kv node))"
    and "cx_enqueue env (KeygenResultSubject (clientID_of m) (gk_WalletID msg)) = None"
  shows "handleKeyGenEvent env re rd late m ec = Returns (ec,
      ResultEnqueue (KeygenResultSubject (clientID_of m) (gk_WalletID msg)) payload
        (composeKeygenIdempotentKey (gk_WalletID msg) m) # sendReplyToRemoveMsg m)"
proof -
  obtain kvs where put: "kv_Put (nd_kv node) (walletCreationResultPrefix @ '':'' @ gk_WalletID msg) payload = Inr kvs"
    and node: "ec_node ec = node\<lparr>nd_kv := kvs\<rparr>"
    using assms(4) by (auto simp: StoreWalletCreationResult_def split: sum.splits)
  have "GetWalletCreationResult (ec_node ec) (gk_WalletID msg) = Inr payload"
    using kv.get_put [OF assms(5) TrueI put] by (simp add: GetWalletCreationResult_def node)
  with assms(1,3,6) authorized_iff [OF assms(2)] show ?thesis
    by (simp add: handleKeyGenEvent_def Let_def)
qed

definition demo_keygen :: GenerateKeyMessage where
  "demo_keygen =
     (let m = \<lparr>gk_WalletID = ''w'', gk_Signature = Some (demo_sign (go_bytes ''w'')), gk_AuthorizerSignatures = []\<rparr> in
      m\<lparr>gk_AuthorizerSignatures := [\<lparr>as_AuthorizerID = ''ops'', as_Signature = demo_sign (ComposeAuthorizerRaw (GenerateKey m))\<rparr>]\<rparr>)"

definition keygen_request :: natsMsg where
  "keygen_request = \<lparr>nm_Data = json_Marshal (enc_GenerateKeyMessage demo_keygen), nm_Reply = ''inbox'',
     nm_Header = (\<lambda>h. if h = ''ClientID'' then ''c1'' else [])\<rparr>"

lemma keygen_request_decodes:
  "json_Unmarshal GenerateKeyMessage_fields zero_GenerateKeyMessage (nm_Data keygen_request) = Inr demo_keygen"
  by (simp add: keygen_request_def Unmarshal_GenerateKeyMessage)

lemma demo_keygen_authorized: "authorized (demo_net me) (GenerateKey demo_keygen)"
proof -
  let ?m = "\<lparr>gk_WalletID = ''w'', gk_Signature = Some (demo_sign (go_bytes ''w'')), gk_AuthorizerSignatures = []\<rparr>"
  have sigs: "GetAuthorizerSignatures (GenerateKey demo_keygen) =
      [\<lparr>as_AuthorizerID = ''ops'', as_Signature = demo_sign (ComposeAuthorizerRaw (GenerateKey ?m))\<rparr>]"
    by (simp add: demo_keygen_def Let_def)
  have raw: "ComposeAuthorizerRaw (GenerateKey demo_keygen) = ComposeAuthorizerRaw (GenerateKey ?m)"
    by (simp add: ComposeAuthorizerRaw_eq demo_keygen_def Let_def)
  show ?thesis unfolding authorized_def sigs raw
    by (simp add: sig_bytes_def demo_authorizer_valid demo_keygen_def Let_def)
qed

lemma demo_keygen_wallet [simp]: "gk_WalletID demo_keygen = ''w''"
  by (simp add: demo_keygen_def Let_def)

theorem stored_result_replayed_witness:
  "\<exists>node'. \<forall>re rd late. StoreWalletCreationResult (demo_node ''alice'' empty_kv empty_ki) ''w'' [7] = Inr node' \<and>
     handleKeyGenEvent (demo_env ''alice'') re rd late keygen_request ((demo_consumer ''alice'' empty_kv empty_ki)\<lparr>ec_node := node'\<rparr>) =
     Returns ((demo_consumer ''alice'' empty_kv empty_ki)\<lparr>ec_node := node'\<rparr>,
       ResultEnqueue (KeygenResultSubject (clientID_of keygen_request) ''w'') [7] (composeKeygenIdempotentKey ''w'' keygen_request) #
       sendReplyToRemoveMsg keygen_request)"
proof -
  obtain node' where n: "StoreWalletCreationResult (demo_node ''alice'' empty_kv empty_ki) ''w'' [7] = Inr node'"
    by (simp add: StoreWalletCreationResult_def demo_node_def empty_kv_def)
  have k: "keys_loaded (cx_net (demo_env ''alice''))" by simp
  have a: "authorized (cx_net (demo_env ''alice'')) (GenerateKey demo_keygen)" using demo_keygen_authorized by simp
  have b: "badger_ok (kv_DB (nd_kv (demo_node ''alice'' empty_kv empty_ki)))" by (simp add: demo_node_def)
  have e: "cx_enqueue (demo_env ''alice'') t = None" for t by (simp add: demo_env_def)
  show ?thesis
    using stored_result_replayed [OF keygen_request_decodes k a _ b e, where payload = "[7]"
        and ec = "(demo_consumer ''alice'' empty_kv empty_ki)\<lparr>ec_node := node'\<rparr>"] n by simp
qed

end
