(* ===== verification/Keygen_Properties.thy ===== *)
theory Keygen_Properties
  imports Request_Properties
begin

text \<open>
  Key generation from request to disk: what a completed run of the two protocols stores, how the
  announced result leads back to the runs, and the end-to-end property that an announced wallet can
  sign with the announced keys.
\<close>

section \<open>Writes of the two sessions\<close>

lemma stores_ok_session [simp]: "stores_ok (w\<lparr>wd_session := s\<rparr>) = stores_ok w"
  by (simp add: stores_ok_def)

lemma stores_ok_write:
  "stores_ok w \<Longrightarrow> kv_Put (wd_kv w) k b = Inr kvs \<Longrightarrow> keyinfo_Save (wd_ki w) i info = Inr kis \<Longrightarrow>
   stores_ok (w\<lparr>wd_kv := kvs, wd_ki := kis, wd_session := s\<rparr>)"
  using kv.put_ok [of "wd_kv w"] ki.put_ok [of "wd_ki w"] by (simp add: stores_ok_def)

text \<open>A key generation writes its own keys of the stores and no others, also when it fails half-way.\<close>

lemma keygen_end_writes:
  assumes "ecdsa_keygen_end cv marshal sv w = Returns (w', es, b) \<or> eddsa_keygen_end cv marshal sv w = Returns (w', es, b)"
    and "stores_ok w"
  shows "stores_ok w'"
    and "k \<noteq> share_key (wd_session w) (ss_version (wd_session w)) \<Longrightarrow> kv_Get (wd_kv w') k = kv_Get (wd_kv w) k"
    and "j \<noteq> composeKey (ss_kind (wd_session w)) (ss_walletID (wd_session w)) \<Longrightarrow>
      keyinfo_Get (wd_ki w') j = keyinfo_Get (wd_ki w) j"
proof -
  let ?s = "wd_session w"
  have kv: "wd_kv w' = wd_kv w \<or> (\<exists>b. kv_Put (wd_kv w) (share_key ?s (ss_version ?s)) b = Inr (wd_kv w'))"
    and ki: "wd_ki w' = wd_ki w \<or> keyinfo_Save (wd_ki w) (composeKey (ss_kind ?s) (ss_walletID ?s)) (keygen_info ?s) = Inr (wd_ki w')"
    using assms(1)
    by (auto simp: ecdsa_keygen_end_def eddsa_keygen_end_def Let_def failed_def keygen_info_def
        split: sum.splits option.splits)
  show "stores_ok w'"
    using kv ki assms(2) kv.put_ok [of "wd_kv w"] ki.put_ok [of "wd_ki w"] unfolding stores_ok_def by metis
  show "k \<noteq> share_key ?s (ss_version ?s) \<Longrightarrow> kv_Get (wd_kv w') k = kv_Get (wd_kv w) k"
    using kv kv.get_put_other [of "wd_kv w"] assms(2) unfolding stores_ok_def by metis
  show "j \<noteq> composeKey (ss_kind ?s) (ss_walletID ?s) \<Longrightarrow> keyinfo_Get (wd_ki w') j = keyinfo_Get (wd_ki w) j"
    using ki ki.get_put_other [of "wd_ki w"] assms(2) unfolding stores_ok_def by metis
qed

lemma session_loop_writes:
  assumes "session_loop nt onErr stops finish evs w = Returns (w', es, b)"
    and "\<And>e s. session_frame s (onErr e s)"
  shows "wd_kv w' = wd_kv w \<and> wd_ki w' = wd_ki w \<or>
    (\<exists>x w0 es0. finish x w0 = Returns (w', es0, b) \<and> wd_kv w0 = wd_kv w \<and> wd_ki w0 = wd_ki w \<and>
       session_frame (wd_session w) (wd_session w0))"
  using assms
proof (induction nt onErr stops finish evs w arbitrary: es rule: session_loop.induct)
  case (2 nt onErr stops finish wire evs w)
  then obtain s' es1 es2 where h: "handleTssMessage nt wire (wd_session w) = Returns (s', es1)"
    and l: "session_loop nt onErr stops finish evs (w\<lparr>wd_session := s'\<rparr>) = Returns (w', es2, b)"
    by (auto split: outcome.splits)
  from "2.IH" [OF h refl l "2.prems"(2)]
  consider "wd_kv w' = wd_kv w" "wd_ki w' = wd_ki w"
    | x w0 es0 where "finish x w0 = Returns (w', es0, b)" "wd_kv w0 = wd_kv w" "wd_ki w0 = wd_ki w" "session_frame s' (wd_session w0)"
    by auto
  then show ?case
  proof cases
    case (2 x w0 es0)
    then show ?thesis using session_frame_trans [OF handleTssMessage_frame [OF h] 2(4)] by blast
  qed simp
next
  case (3 nt onErr stops finish x evs w)
  then show ?case by force
next
  case (4 nt onErr stops finish e evs w)
  from "4.IH" [of es] "4.prems"
  consider "wd_kv w' = wd_kv w" "wd_ki w' = wd_ki w"
    | x w0 es0 where "finish x w0 = Returns (w', es0, b)" "wd_kv w0 = wd_kv w" "wd_ki w0 = wd_ki w"
      "session_frame (onErr e (wd_session w)) (wd_session w0)"
    by auto
  then show ?case
  proof cases
    case (2 x w0 es0)
    then show ?thesis using session_frame_trans [OF "4.prems"(2) 2(4)] by blast
  qed simp
qed (force split: if_splits)+

lemma GenerateKey_writes:
  assumes "ecdsa_GenerateKey nt cv marshal evs w = Returns (w', es, b) \<or> eddsa_GenerateKey nt cv marshal evs w = Returns (w', es, b)"
    and "stores_ok w"
  shows "stores_ok w'"
    and "k \<noteq> share_key (wd_session w) (ss_version (wd_session w)) \<Longrightarrow> kv_Get (wd_kv w') k = kv_Get (wd_kv w) k"
    and "j \<noteq> composeKey (ss_kind (wd_session w)) (ss_walletID (wd_session w)) \<Longrightarrow>
      keyinfo_Get (wd_ki w') j = keyinfo_Get (wd_ki w) j"
proof -
  have frame: "session_frame s (pushErr e s)" for s e by simp
  consider "wd_kv w' = wd_kv w" "wd_ki w' = wd_ki w"
    | sv w0 es0 where "ecdsa_keygen_end cv marshal sv w0 = Returns (w', es0, b) \<or> eddsa_keygen_end cv marshal sv w0 = Returns (w', es0, b)"
      "wd_kv w0 = wd_kv w" "wd_ki w0 = wd_ki w" "session_frame (wd_session w) (wd_session w0)"
    using assms(1) unfolding ecdsa_GenerateKey_def eddsa_GenerateKey_def
  proof (elim disjE)
    assume "session_loop nt pushErr False (ecdsa_keygen_end cv marshal) evs w = Returns (w', es, b)"
    from session_loop_writes [OF this frame] that show thesis by blast
  next
    assume "session_loop nt pushErr False (eddsa_keygen_end cv marshal) evs w = Returns (w', es, b)"
    from session_loop_writes [OF this frame] that show thesis by blast
  qed
  then have "stores_ok w' \<and>
    (k \<noteq> share_key (wd_session w) (ss_version (wd_session w)) \<longrightarrow> kv_Get (wd_kv w') k = kv_Get (wd_kv w) k) \<and>
    (j \<noteq> composeKey (ss_kind (wd_session w)) (ss_walletID (wd_session w)) \<longrightarrow> keyinfo_Get (wd_ki w') j = keyinfo_Get (wd_ki w) j)"
  proof cases
    case 1
    with assms(2) show ?thesis by (simp add: stores_ok_def)
  next
    case (2 sv w0 es0)
    then have "stores_ok w0" using assms(2) by (simp add: stores_ok_def)
    from keygen_end_writes [OF 2(1) this] 2(2-4) show ?thesis by (simp add: session_frame_def share_key_def)
  qed
  then show "stores_ok w'"
    and "k \<noteq> share_key (wd_session w) (ss_version (wd_session w)) \<Longrightarrow> kv_Get (wd_kv w') k = kv_Get (wd_kv w) k"
    and "j \<noteq> composeKey (ss_kind (wd_session w)) (ss_walletID (wd_session w)) \<Longrightarrow> keyinfo_Get (wd_ki w') j = keyinfo_Get (wd_ki w) j"
    by blast+
qed

lemma pushErr_frame: "session_frame s (pushErr e s)"
  by simp

text \<open>A completed run of either curve: what it stored, what it left alone, and the key it answers with.\<close>

lemma ecdsa_GenerateKey_completed:
  assumes "ecdsa_GenerateKey nt cv marshal evs w = Returns (w', es, True)" and "stores_ok w"
    and "KeyInfo_ok (keygen_info (wd_session w))"
  shows "\<exists>sv b p pk. PartyEnd sv \<in> set evs \<and> marshal sv = Inr b \<and> sd_Pub sv = Some p \<and>
    EncodeS256PubKey (Some (cv_PublicKey cv p)) = Inr pk \<and> ss_pubkeyBytes (wd_session w') = Some pk \<and>
    persisted w' (ss_kind (wd_session w)) (ss_walletID (wd_session w)) b (keygen_info (wd_session w))"
proof -
  from session_loop_finish [OF assms(1) [unfolded ecdsa_GenerateKey_def] pushErr_frame] obtain sv w0 es0 where
    x: "PartyEnd sv \<in> set evs" and e: "ecdsa_keygen_end cv marshal sv w0 = Returns (w', es0, True)"
    and st: "wd_kv w0 = wd_kv w" "wd_ki w0 = wd_ki w" and f: "session_frame (wd_session w) (wd_session w0)" by blast
  have i: "keygen_info (wd_session w0) = keygen_info (wd_session w)" and s: "stores_ok w0"
    using f st assms(2) by (simp_all add: keygen_info_def session_frame_def stores_ok_def)
  from ecdsa_keygen_end_ok [OF e s] x i assms(3) f show ?thesis
    by (auto simp: session_frame_def)
qed

lemma eddsa_GenerateKey_completed:
  assumes "eddsa_GenerateKey nt cv marshal evs w = Returns (w', es, True)" and "stores_ok w"
    and "KeyInfo_ok (keygen_info (wd_session w))"
  shows "\<exists>sv b p. PartyEnd sv \<in> set evs \<and> marshal sv = Inr b \<and> sd_Pub sv = Some p \<and>
    ss_pubkeyBytes (wd_session w') = Some (cv_Compress cv p) \<and>
    persisted w' (ss_kind (wd_session w)) (ss_walletID (wd_session w)) b (keygen_info (wd_session w))"
proof -
  from session_loop_finish [OF assms(1) [unfolded eddsa_GenerateKey_def] pushErr_frame] obtain sv w0 es0 where
    x: "PartyEnd sv \<in> set evs" and e: "eddsa_keygen_end cv marshal sv w0 = Returns (w', es0, True)"
    and st: "wd_kv w0 = wd_kv w" "wd_ki w0 = wd_ki w" and f: "session_frame (wd_session w) (wd_session w0)" by blast
  have i: "keygen_info (wd_session w0) = keygen_info (wd_session w)" and s: "stores_ok w0"
    using f st assms(2) by (simp_all add: keygen_info_def session_frame_def stores_ok_def)
  from eddsa_keygen_end_ok [OF e s] x i assms(3) f show ?thesis by (auto simp: session_frame_def)
qed

section \<open>From the result back to the runs\<close>

lemma error_result_decodes:
  "ResultEnqueue s p k \<in> set (handleKeygenSessionError w e c m) \<Longrightarrow> OnWalletCreationResult p = Inr r \<Longrightarrow>
   kr_ResultType r = ResultTypeError"
  by (auto simp: handleKeygenSessionError_def sendReplyToRemoveMsg_def Let_def named_code_GetErrorCode
      OnWalletCreationResult_enc split: if_splits)

lemma watch_error_decodes:
  "ResultEnqueue s p k \<in> set (watch_effects w c m v) \<Longrightarrow> OnWalletCreationResult p = Inr r \<Longrightarrow>
   kr_ResultType r = ResultTypeError"
  by (auto simp: watch_effects_def dest: error_result_decodes split: watch.splits)

lemma reply_no_result [simp]: "ResultEnqueue s p k \<notin> set (sendReplyToRemoveMsg m)"
  by (simp add: sendReplyToRemoveMsg_def)

lemma success_result_decodes:
  "OnWalletCreationResult (json_Marshal (enc_KeygenResultEvent (keygen_success w a b))) = Inr (keygen_success w a b)"
  by (rule OnWalletCreationResult_enc) (simp_all add: keygen_success_def named_code_def)

lemma watch_done: "watch_run rn s c = WatchDone k \<longleftrightarrow>
    c \<and> k = ss_pubkeyBytes s \<and> (ss_errors s @ rn_errors rn = [] \<or> \<not> rn_errFirst rn)"
  by (auto simp: watch_run_def split: list.splits if_splits)

lemma keygen_finish_success:
  assumes "keygen_finish env late w m we wd node = (node', fx)" and "ResultEnqueue s p k \<in> set fx"
    and "OnWalletCreationResult p = Inr r" and "kr_ResultType r = ResultTypeSuccess"
  shows "r = keygen_success w (watch_key we) (watch_key wd) \<and> StoreWalletCreationResult node w p = Inr node' \<and>
    (\<not> late \<longrightarrow> (\<exists>ke. we = WatchDone ke) \<and> (\<exists>kd. wd = WatchDone kd))"
proof -
  have err [simp]: "ResultEnqueue s p k \<notin> set (handleKeygenSessionError w e c m)" for e c
    using error_result_decodes [OF _ assms(3)] assms(4) by auto
  have [simp]: "ResultEnqueue s p k \<notin> set (watch_effects w c m v)" for c v
    using watch_error_decodes [OF _ assms(3)] assms(4) by auto
  have "(\<not> late \<longrightarrow> we \<noteq> WatchPending \<and> wd \<noteq> WatchPending) \<and> (\<nexists>e. we = WatchErr e) \<and> (\<nexists>e. wd = WatchErr e) \<and>
    p = json_Marshal (enc_KeygenResultEvent (keygen_success w (watch_key we) (watch_key wd))) \<and>
    StoreWalletCreationResult node w p = Inr node'"
    using assms(1,2) by (auto simp: keygen_finish_def Let_def split: if_splits sum.splits option.splits)
  with assms(3) show ?thesis by (cases we; cases wd) (auto simp: success_result_decodes)
qed

text \<open>What is on disk for a wallet and a curve, as the node reads it.\<close>

definition wallet_stored ::
  "('k, 'd, 'c, 'pp) node \<Rightarrow> SessionType \<Rightarrow> string \<Rightarrow> bytes \<Rightarrow> KeyInfo \<Rightarrow> bool" where
  "wallet_stored p t w share info \<longleftrightarrow>
     kv_Get (nd_kv p) (composeKey (keygen_kind t w) (walletIDWithVersion w (ki_Version info))) = Inr share \<and>
     getKeyInfo p t w = Inr info"

definition node_stores_ok :: "('k, 'd, 'c, 'pp) node \<Rightarrow> bool" where
  "node_stores_ok p \<longleftrightarrow> badger_ok (kv_DB (nd_kv p)) \<and> consul_ok (ks_consulKV (nd_ki p))"

definition generated_info :: "('k, 'd, 'c, 'pp) node \<Rightarrow> int \<Rightarrow> KeyInfo" where
  "generated_info p th = \<lparr>ki_ParticipantPeerIDs = Some (GetReadyPeersIncludeSelf (nd_registry p)),
     ki_Threshold = th, ki_Version = DefaultVersion\<rparr>"

lemma StoreWalletCreationResult_keeps:
  assumes "StoreWalletCreationResult p w b = Inr p'" and "node_stores_ok p"
  shows "GetWalletCreationResult p' w = Inr b" and "getKeyInfo p' t v = getKeyInfo p t v"
    and "wallet_stored p SessionTypeECDSA v share info \<Longrightarrow> wallet_stored p' SessionTypeECDSA v share info"
    and "wallet_stored p SessionTypeEDDSA v share info \<Longrightarrow> wallet_stored p' SessionTypeEDDSA v share info"
proof -
  obtain kvs where put: "kv_Put (nd_kv p) (walletCreationResultPrefix @ '':'' @ w) b = Inr kvs"
    and p': "p' = p\<lparr>nd_kv := kvs\<rparr>"
    using assms(1) by (auto simp: StoreWalletCreationResult_def split: sum.splits)
  have ok: "badger_ok (kv_DB (nd_kv p))" using assms(2) by (simp add: node_stores_ok_def)
  show "GetWalletCreationResult p' w = Inr b"
    using kv.get_put [OF ok TrueI put] p' by (simp add: GetWalletCreationResult_def)
  show i: "getKeyInfo p' t v = getKeyInfo p t v" for t v
    by (cases t) (simp_all add: p' getKeyInfo_def)
  have "kv_Get kvs (''ecdsa:'' @ x) = kv_Get (nd_kv p) (''ecdsa:'' @ x)"
    "kv_Get kvs (''eddsa:'' @ x) = kv_Get (nd_kv p) (''eddsa:'' @ x)" for x
    by (rule kv.get_put_other [OF ok put], simp add: walletCreationResultPrefix_def)+
  then show "wallet_stored p SessionTypeECDSA v share info \<Longrightarrow> wallet_stored p' SessionTypeECDSA v share info"
    and "wallet_stored p SessionTypeEDDSA v share info \<Longrightarrow> wallet_stored p' SessionTypeEDDSA v share info"
    by (simp_all add: wallet_stored_def i) (simp_all add: p')
qed

lemma wallet_stored_share:
  "wallet_stored p t w b info \<Longrightarrow> cu_unmarshal (curve_of env t) b = Inr sv \<Longrightarrow> t = SessionTypeECDSA \<or> t = SessionTypeEDDSA \<Longrightarrow>
   stored_share env t p w = Inr sv"
  by (auto simp: wallet_stored_def stored_share_def)

text \<open>What a completed session of each curve leaves on the node, for the public key \<open>k\<close>.\<close>

definition ecdsa_generated ::
  "('k, 'pt, 'r) consumer_env \<Rightarrow> ('pt, 'r) SaveData run \<Rightarrow> ('k, 'd, 'c, 'pp) node \<Rightarrow> string \<Rightarrow> KeyInfo \<Rightarrow> bytes \<Rightarrow> bool" where
  "ecdsa_generated env re p w info k \<longleftrightarrow>
     (\<exists>sv q. PartyEnd sv \<in> set (rn_events re) \<and> sd_Pub sv = Some q \<and>
        EncodeS256PubKey (Some (cv_PublicKey (cu_ops (cx_ecdsa env)) q)) = Inr k \<and>
        stored_share env SessionTypeECDSA p w = Inr sv \<and> getKeyInfo p SessionTypeECDSA w = Inr info)"

definition eddsa_generated ::
  "('k, 'pt, 'r) consumer_env \<Rightarrow> ('pt, 'r) SaveData run \<Rightarrow> ('k, 'd, 'c, 'pp) node \<Rightarrow> string \<Rightarrow> KeyInfo \<Rightarrow> bytes \<Rightarrow> bool" where
  "eddsa_generated env rd p w info k \<longleftrightarrow>
     (\<exists>sv q. PartyEnd sv \<in> set (rn_events rd) \<and> sd_Pub sv = Some q \<and> k = cv_Compress (cu_ops (cx_eddsa env)) q \<and>
        stored_share env SessionTypeEDDSA p w = Inr sv \<and> getKeyInfo p SessionTypeEDDSA w = Inr info)"

text \<open>The JSON form of the shares that tss-lib ends with can be read back.\<close>

definition shares_json_ok :: "('k, 'pt, 'r) consumer_env \<Rightarrow> bool" where
  "shares_json_ok env \<longleftrightarrow>
     (\<forall>sv b. cu_marshal (cx_ecdsa env) sv = Inr b \<longrightarrow> cu_unmarshal (cx_ecdsa env) b = Inr sv) \<and>
     (\<forall>sv b. cu_marshal (cx_eddsa env) sv = Inr b \<longrightarrow> cu_unmarshal (cx_eddsa env) b = Inr sv)"

lemma wallet_stored_keys:
  "wallet_stored p t w b info \<Longrightarrow> getKeyInfo p t w = Inr info"
  by (simp add: wallet_stored_def)

lemma watch_key_completed:
  "to_list (watch_key (watch_run rn s c)) \<noteq> [] \<or> (\<exists>k. watch_run rn s c = WatchDone k) \<Longrightarrow>
   c \<and> watch_key (watch_run rn s c) = ss_pubkeyBytes s"
  by (auto simp: watch_run_def watch_key_def to_list_def split: list.splits if_splits)

lemma keygen_run_success:
  assumes "keygen_run env re rd late w m es ds node = Returns (node', fx)" and "ResultEnqueue s p k \<in> set fx"
    and "OnWalletCreationResult p = Inr r" and "kr_ResultType r = ResultTypeSuccess" and "node_stores_ok node"
    and "keygen_info es = info" "keygen_info ds = info" "KeyInfo_ok info"
    and "ss_kind es = ECDSAKeygen w" "ss_kind ds = EDDSAKeygen w" "ss_walletID es = w" "ss_walletID ds = w"
    and "shares_json_ok env"
  shows "kr_WalletID r = w \<and> GetWalletCreationResult node' w = Inr p \<and>
    (kr_ECDSAPubKey r \<noteq> [] \<or> \<not> late \<longrightarrow> ecdsa_generated env re node' w info (kr_ECDSAPubKey r)) \<and>
    (kr_EDDSAPubKey r \<noteq> [] \<or> \<not> late \<longrightarrow> eddsa_generated env rd node' w info (kr_EDDSAPubKey r))"
proof -
  obtain es1 eb where b1: "barrier env 0 (listen_all env es) = (es1, eb)" by fastforce
  obtain ds1 db where b2: "barrier env 1 (listen_all env ds) = (ds1, db)" by fastforce
  have fe: "session_frame es es1" and fd: "session_frame ds ds1"
    using session_frame_trans [OF listen_frame barrier_frame [OF b1]]
      session_frame_trans [OF listen_frame barrier_frame [OF b2]] by auto
  have [simp]: "ResultEnqueue s p k \<notin> set (handleKeygenSessionError w e c m)" for e c
    using error_result_decodes [OF _ assms(3)] assms(4) by auto
  have [simp]: "ResultEnqueue s p k \<notin> set (watch_effects w c m v)" for c v
    using watch_error_decodes [OF _ assms(3)] assms(4) by auto
  let ?w0 = "\<lparr>wd_session = es1, wd_kv = nd_kv node, wd_ki = nd_ki node\<rparr>"
  from assms(1,2) b1 b2 obtain w1 fx1 c1 w2 fx2 c2 fx' where
    g1: "ecdsa_GenerateKey (cx_net env) (cu_ops (cx_ecdsa env)) (cu_marshal (cx_ecdsa env)) (rn_events re) ?w0 = Returns (w1, fx1, c1)"
    and g2: "eddsa_GenerateKey (cx_net env) (cu_ops (cx_eddsa env)) (cu_marshal (cx_eddsa env)) (rn_events rd)
        \<lparr>wd_session = ds1, wd_kv = wd_kv w1, wd_ki = wd_ki w1\<rparr> = Returns (w2, fx2, c2)"
    and fin: "keygen_finish env late w m (watch_run re (wd_session w1) c1) (watch_run rd (wd_session w2) c2)
        (node\<lparr>nd_kv := wd_kv w2, nd_ki := wd_ki w2\<rparr>) = (node', fx')" and "fx = map SessionEffect (fx1 @ fx2) @ fx'"
    by (auto simp: keygen_run_def split: option.splits outcome.splits prod.splits)
  then have "ResultEnqueue s p k \<in> set fx'" using assms(2) by auto
  note fin = keygen_finish_success [OF fin this assms(3,4)]
  let ?n = "node\<lparr>nd_kv := wd_kv w2, nd_ki := wd_ki w2\<rparr>"
  have i: "keygen_info es1 = info" "keygen_info ds1 = info" "ss_kind es1 = ECDSAKeygen w" "ss_kind ds1 = EDDSAKeygen w"
    "ss_walletID es1 = w" "ss_walletID ds1 = w" "ki_Version info = ss_version ds1"
    using assms(6-12) fe fd by (auto simp: keygen_info_def session_frame_def)
  have ok0: "stores_ok ?w0" using assms(5) by (simp add: node_stores_ok_def stores_ok_def)
  have ok1: "stores_ok w1" by (rule GenerateKey_writes(1) [OF disjI1 [OF g1] ok0])
  then have ok1': "stores_ok \<lparr>wd_session = ds1, wd_kv = wd_kv w1, wd_ki = wd_ki w1\<rparr>" by (simp add: stores_ok_def)
  note w2 = GenerateKey_writes [OF disjI2 [OF g2] ok1']
  have keep: "kv_Get (wd_kv w2) (''ecdsa:'' @ x) = kv_Get (wd_kv w1) (''ecdsa:'' @ x)"
    "keyinfo_Get (wd_ki w2) (''ecdsa:'' @ x) = keyinfo_Get (wd_ki w1) (''ecdsa:'' @ x)" for x
    using w2(2,3) i by (simp_all add: share_key_def)
  have n: "node_stores_ok ?n" using w2(1) by (simp add: stores_ok_def node_stores_ok_def)
  have st: "StoreWalletCreationResult ?n w p = Inr node'" and r: "r = keygen_success w
      (watch_key (watch_run re (wd_session w1) c1)) (watch_key (watch_run rd (wd_session w2) c2))"
    using fin by simp_all
  note kept = StoreWalletCreationResult_keeps [OF st n]
  have e: "ecdsa_generated env re node' w info (kr_ECDSAPubKey r)" if "kr_ECDSAPubKey r \<noteq> [] \<or> \<not> late"
  proof -
    have "to_list (watch_key (watch_run re (wd_session w1) c1)) \<noteq> [] \<or> (\<exists>k. watch_run re (wd_session w1) c1 = WatchDone k)"
      using that fin by (auto simp: keygen_success_def)
    from watch_key_completed [OF this] have c: "c1" and k: "kr_ECDSAPubKey r = to_list (ss_pubkeyBytes (wd_session w1))"
      by (auto simp: r keygen_success_def)
    from ecdsa_GenerateKey_completed [OF g1 [unfolded eqTrueI [OF c]] ok0] assms(8) i obtain sv b q pk where
      x: "PartyEnd sv \<in> set (rn_events re)" "cu_marshal (cx_ecdsa env) sv = Inr b" "sd_Pub sv = Some q"
      "EncodeS256PubKey (Some (cv_PublicKey (cu_ops (cx_ecdsa env)) q)) = Inr pk" "ss_pubkeyBytes (wd_session w1) = Some pk"
      "persisted w1 (ECDSAKeygen w) w b info" by auto
    have "wallet_stored ?n SessionTypeECDSA w b info"
      using x(6) keep(2) [of w] keep(1) [of "walletIDWithVersion w (ki_Version info)"]
      by (simp add: wallet_stored_def persisted_def getKeyInfo_def)
    from kept(3) [OF this] have ws: "wallet_stored node' SessionTypeECDSA w b info" .
    have "stored_share env SessionTypeECDSA node' w = Inr sv"
      using wallet_stored_share [OF ws, of env sv] assms(13) x(2) by (simp add: curve_of_def shares_json_ok_def)
    with x wallet_stored_keys [OF ws] k show ?thesis by (auto simp: ecdsa_generated_def to_list_def)
  qed
  have d: "eddsa_generated env rd node' w info (kr_EDDSAPubKey r)" if "kr_EDDSAPubKey r \<noteq> [] \<or> \<not> late"
  proof -
    have "to_list (watch_key (watch_run rd (wd_session w2) c2)) \<noteq> [] \<or> (\<exists>k. watch_run rd (wd_session w2) c2 = WatchDone k)"
      using that fin by (auto simp: keygen_success_def)
    from watch_key_completed [OF this] have c: "c2" and k: "kr_EDDSAPubKey r = to_list (ss_pubkeyBytes (wd_session w2))"
      by (auto simp: r keygen_success_def)
    from eddsa_GenerateKey_completed [OF g2 [unfolded eqTrueI [OF c]] ok1'] assms(8) i obtain sv b q where
      x: "PartyEnd sv \<in> set (rn_events rd)" "cu_marshal (cx_eddsa env) sv = Inr b" "sd_Pub sv = Some q"
      "ss_pubkeyBytes (wd_session w2) = Some (cv_Compress (cu_ops (cx_eddsa env)) q)"
      "persisted w2 (EDDSAKeygen w) w b info" by auto
    have "wallet_stored ?n SessionTypeEDDSA w b info"
      using x(5) by (simp add: wallet_stored_def persisted_def getKeyInfo_def)
    from kept(4) [OF this] have ws: "wallet_stored node' SessionTypeEDDSA w b info" .
    have "stored_share env SessionTypeEDDSA node' w = Inr sv"
      using wallet_stored_share [OF ws, of env sv] assms(13) x(2) by (simp add: curve_of_def shares_json_ok_def)
    with x wallet_stored_keys [OF ws] k show ?thesis by (auto simp: eddsa_generated_def to_list_def)
  qed
  from e d kept(1) show ?thesis by (simp add: r keygen_success_def)
qed

lemma keygen_sessions_success:
  assumes "keygen_sessions env re rd late th w m node = Returns (node', fx)" and "ResultEnqueue s p k \<in> set fx"
    and "OnWalletCreationResult p = Inr r" and "kr_ResultType r = ResultTypeSuccess" and "node_stores_ok node"
    and "is_int64 th" and "shares_json_ok env"
  shows "ArePeersReady (nd_registry node) \<and> kr_WalletID r = w \<and> GetWalletCreationResult node' w = Inr p \<and>
    (kr_ECDSAPubKey r \<noteq> [] \<or> \<not> late \<longrightarrow> ecdsa_generated env re node' w (generated_info node th) (kr_ECDSAPubKey r)) \<and>
    (kr_EDDSAPubKey r \<noteq> [] \<or> \<not> late \<longrightarrow> eddsa_generated env rd node' w (generated_info node th) (kr_EDDSAPubKey r))"
proof -
  have [simp]: "ResultEnqueue s p k \<notin> set (handleKeygenSessionError w e c m)" for e c
    using error_result_decodes [OF _ assms(3)] assms(4) by auto
  from assms(1,2) obtain es pp ds pp' where
    ce: "CreateKeyGenSession (cx_sort env) (cx_uuid env 0) node SessionTypeECDSA w th = Returns (Inr (es, pp))"
    and cd: "CreateKeyGenSession (cx_sort env) (cx_uuid env 1) node SessionTypeEDDSA w th = Returns (Inr (ds, pp'))"
    and run: "keygen_run env re rd late w m es ds node = Returns (node', fx)"
    by (auto simp: keygen_sessions_def split: outcome.splits sum.splits prod.splits)
  obtain self all where "ArePeersReady (nd_registry node)" and
    "es = base_session (ECDSAKeygen w) w th (GetReadyPeersIncludeSelf (nd_registry node)) self all DefaultVersion"
    by (rule CreateKeyGenSession_ok [OF ce]) simp
  moreover obtain self' all' where
    "ds = base_session (EDDSAKeygen w) w th (GetReadyPeersIncludeSelf (nd_registry node)) self' all' DefaultVersion"
    by (rule CreateKeyGenSession_ok [OF cd]) simp
  moreover have "KeyInfo_ok (generated_info node th)"
    using assms(6) by (simp add: KeyInfo_ok_def generated_info_def is_int64_def DefaultVersion_def)
  ultimately show ?thesis
    using keygen_run_success [OF run assms(2-5), of "generated_info node th"] assms(7)
    by (simp add: base_session_def keygen_info_def generated_info_def)
qed

section \<open>Key generation\<close>

lemma handleKeyGen_run:
  assumes "handleKeyGenEvent env re rd late m ec = Returns (ec', fx)" and "ResultEnqueue s p k \<in> set fx"
    and "OnWalletCreationResult p = Inr r" and "kr_ResultType r = ResultTypeSuccess"
    and "GetWalletCreationResult (ec_node ec) (requested_wallet m) = Inl e"
  shows "keygen_sessions env re rd late (ec_mpcThreshold ec) (requested_wallet m) m (ec_node ec) = Returns (ec_node ec', fx)"
proof -
  have [simp]: "ResultEnqueue s p k \<notin> set (handleKeygenSessionError w e c m)" for e c w
    using error_result_decodes [OF _ assms(3)] assms(4) by auto
  from assms(1,2,5) show ?thesis
    by (auto simp: handleKeyGenEvent_def requested_wallet_def Let_def
        split: sum.splits option.splits outcome.splits prod.splits if_splits bool.splits)
qed

text \<open>
  (C4) When a node announces the success of a key generation that it ran, it has stored what signing
  needs for each announced public key: the share that the protocol ended with, whose key it is, under
  key information that names the ready nodes, the threshold and the first key version. The
  announcement itself is stored for later requests. A public key is missing from the announcement only
  if the handler began to wait for its sessions after the deadline of 30 seconds (\<open>late\<close>), when it may
  take sessions that the deadline ended for completed ones. The JSON form of the shares must be
  decodable.
\<close>

theorem keygen_success_persists:
  assumes "handleKeyGenEvent env re rd late m ec = Returns (ec', fx)" and "ResultEnqueue s p k \<in> set fx"
    and "OnWalletCreationResult p = Inr r" and "kr_ResultType r = ResultTypeSuccess"
    and "GetWalletCreationResult (ec_node ec) (requested_wallet m) = Inl e"
    and "node_stores_ok (ec_node ec)" and "is_int64 (ec_mpcThreshold ec)" and "shares_json_ok env"
  shows "ArePeersReady (nd_registry (ec_node ec)) \<and> kr_WalletID r = requested_wallet m \<and>
    GetWalletCreationResult (ec_node ec') (requested_wallet m) = Inr p \<and>
    (kr_ECDSAPubKey r \<noteq> [] \<or> \<not> late \<longrightarrow>
       ecdsa_generated env re (ec_node ec') (requested_wallet m)
         (generated_info (ec_node ec) (ec_mpcThreshold ec)) (kr_ECDSAPubKey r)) \<and>
    (kr_EDDSAPubKey r \<noteq> [] \<or> \<not> late \<longrightarrow>
       eddsa_generated env rd (ec_node ec') (requested_wallet m)
         (generated_info (ec_node ec) (ec_mpcThreshold ec)) (kr_EDDSAPubKey r))"
  by (rule keygen_sessions_success [OF handleKeyGen_run [OF assms(1-5)] assms(2-4,6-8)])

text \<open>The late case: both sessions still run, and the handler announces a wallet without keys.\<close>

lemma late_keygen_announces_nothing:
  assumes "StoreWalletCreationResult node w (json_Marshal (enc_KeygenResultEvent (keygen_success w None None))) = Inr node'"
  shows "\<exists>rest. keygen_finish env True w m WatchPending WatchPending node = (node',
    ResultEnqueue (KeygenResultSubject (clientID_of m) w) (json_Marshal (enc_KeygenResultEvent (keygen_success w None None)))
      (composeKeygenIdempotentKey w m) # rest)"
  using assms by (simp add: keygen_finish_def watch_key_def Let_def)

definition demo_kg :: "(nat, unit) SaveData run" where
  "demo_kg = \<lparr>rn_events = [PartyEnd (demo_share 9)], rn_errors = [], rn_errFirst = False\<rparr>"

lemma demo_share_json: "cu_marshal demo_cu sv = Inr b \<Longrightarrow> cu_unmarshal demo_cu b = Inr sv"
  by (auto simp: demo_cu_def be_nat_nat_be split: option.splits if_splits)

lemma demo_cu_simps [simp]:
  "cu_marshal demo_cu (demo_share p) = Inr (nat_be p)" "cu_ops demo_cu = demo_curve" "sd_Pub (demo_share p) = Some p"
  by (simp_all add: demo_cu_def demo_share_def)

lemma demo_encode: "\<exists>pk. EncodeS256PubKey (Some (cv_PublicKey demo_curve 9)) = Inr pk"
proof -
  have "nat_be 9 = [9]" by code_simp
  then show ?thesis by (simp add: EncodeS256PubKey_def demo_curve_def coordSize_def)
qed

lemma demo_GenerateKey:
  assumes "ss_errors s = []"
  shows "\<exists>w'. ecdsa_GenerateKey nt demo_curve (cu_marshal demo_cu) (rn_events demo_kg)
      \<lparr>wd_session = s, wd_kv = \<lparr>kv_DB = demo_badger, kv_state = d\<rparr>, wd_ki = \<lparr>ks_consulKV = demo_consul, ks_state = c\<rparr>\<rparr> =
      Returns (w', [], True) \<and> (\<exists>d' c'. wd_kv w' = \<lparr>kv_DB = demo_badger, kv_state = d'\<rparr> \<and>
        wd_ki w' = \<lparr>ks_consulKV = demo_consul, ks_state = c'\<rparr>) \<and>
      (\<exists>k. watch_run demo_kg (wd_session w') True = WatchDone k)" (is ?ecdsa)
    and "\<exists>w'. eddsa_GenerateKey nt demo_curve (cu_marshal demo_cu) (rn_events demo_kg)
      \<lparr>wd_session = s, wd_kv = \<lparr>kv_DB = demo_badger, kv_state = d\<rparr>, wd_ki = \<lparr>ks_consulKV = demo_consul, ks_state = c\<rparr>\<rparr> =
      Returns (w', [], True) \<and> (\<exists>d' c'. wd_kv w' = \<lparr>kv_DB = demo_badger, kv_state = d'\<rparr> \<and>
        wd_ki w' = \<lparr>ks_consulKV = demo_consul, ks_state = c'\<rparr>) \<and>
      (\<exists>k. watch_run demo_kg (wd_session w') True = WatchDone k)" (is ?eddsa)
proof -
  obtain pk where "EncodeS256PubKey (Some (cv_PublicKey demo_curve 9)) = Inr pk" using demo_encode by blast
  then show ?ecdsa
    using assms by (simp add: demo_kg_def ecdsa_GenerateKey_def ecdsa_keygen_end_def Let_def watch_done session_Close_def Stop_def)
  show ?eddsa
    using assms by (simp add: demo_kg_def eddsa_GenerateKey_def eddsa_keygen_end_def Let_def watch_done session_Close_def Stop_def)
qed

lemma demo_keygen_run:
  assumes "ss_errors es = []" "ss_errors ds = []"
  shows "\<exists>node' a b. keygen_run (demo_env ''alice'') demo_kg demo_kg False ''w'' keygen_request es ds
      (demo_node ''alice'' empty_kv empty_ki) = Returns (node', ResultEnqueue (KeygenResultSubject (clientID_of keygen_request) ''w'')
        (json_Marshal (enc_KeygenResultEvent (keygen_success ''w'' a b)))
        (composeKeygenIdempotentKey ''w'' keygen_request) # sendReplyToRemoveMsg keygen_request)"
proof -
  let ?env = "demo_env ''alice''"
  obtain es1 where b1: "barrier ?env 0 (listen_all ?env es) = (es1, Inr ())" "ss_errors es1 = []"
    using assms by (simp add: demo_barrier demo_listen_errors)
  obtain ds1 where b2: "barrier ?env 1 (listen_all ?env ds) = (ds1, Inr ())" "ss_errors ds1 = []"
    using assms by (simp add: demo_barrier demo_listen_errors)
  obtain w1 d1 c1 k1 where g1: "ecdsa_GenerateKey (demo_net ''alice'') demo_curve (cu_marshal demo_cu) (rn_events demo_kg)
      \<lparr>wd_session = es1, wd_kv = empty_kv, wd_ki = empty_ki\<rparr> = Returns (w1, [], True)"
    "wd_kv w1 = \<lparr>kv_DB = demo_badger, kv_state = d1\<rparr>" "wd_ki w1 = \<lparr>ks_consulKV = demo_consul, ks_state = c1\<rparr>"
    "watch_run demo_kg (wd_session w1) True = WatchDone k1"
    using demo_GenerateKey(1) [OF b1(2)] unfolding empty_kv_def empty_ki_def by blast
  obtain w2 d2 c2 k2 where g2: "eddsa_GenerateKey (demo_net ''alice'') demo_curve (cu_marshal demo_cu) (rn_events demo_kg)
      \<lparr>wd_session = ds1, wd_kv = wd_kv w1, wd_ki = wd_ki w1\<rparr> = Returns (w2, [], True)"
    "wd_kv w2 = \<lparr>kv_DB = demo_badger, kv_state = d2\<rparr>" "wd_ki w2 = \<lparr>ks_consulKV = demo_consul, ks_state = c2\<rparr>"
    "watch_run demo_kg (wd_session w2) True = WatchDone k2"
    using demo_GenerateKey(2) [OF b2(2), of "demo_net ''alice''" d1 c1] unfolding g1(2,3) by blast
  have env: "cx_ecdsa ?env = demo_cu" "cx_eddsa ?env = demo_cu" "cx_enqueue ?env = (\<lambda>_. None)"
    by (simp_all add: demo_env_def)
  have nd: "nd_kv (demo_node ''alice'' empty_kv empty_ki) = empty_kv" "nd_ki (demo_node ''alice'' empty_kv empty_ki) = empty_ki"
    by (simp_all add: demo_node_def)
  show ?thesis
    using b1 b2 g1 g2
    by (simp add: keygen_run_def env nd barrier_err_def keygen_finish_def watch_key_def watch_effects_def
        StoreWalletCreationResult_def Let_def) blast
qed

lemma demo_create_keygen:
  assumes "t = SessionTypeECDSA \<or> t = SessionTypeEDDSA"
  shows "\<exists>s pp. CreateKeyGenSession (\<lambda>xs. xs) u (demo_node ''alice'' empty_kv empty_ki) t ''w'' 1 = Returns (Inr (s, pp)) \<and>
    ss_errors s = []"
proof -
  let ?p = "demo_node ''alice'' empty_kv empty_ki"
  have i: "getKeyInfo ?p t ''w'' = Inl (ENew ''Key info not found'')"
    using assms by (auto simp: getKeyInfo_def demo_node_def empty_ki_def)
  obtain self all where g: "generatePartyIDs (\<lambda>xs. xs) u ''alice'' PurposeKeygen
      (GetReadyPeersIncludeSelf (demo_registry ''alice'')) DefaultVersion = (self, all)" by fastforce
  have nd: "nd_registry ?p = demo_registry ''alice''" "nd_nodeID ?p = ''alice''" "nd_ecdsaPreParams ?p = [11, 12]"
    by (simp_all add: demo_node_def)
  show ?thesis
    using assms i g demo_peers_ready
    by (auto simp: CreateKeyGenSession_def createECDSAKeyGenSession_def createEDDSAKeyGenSession_def nd preParams_at_def
        newECDSAKeygenSession_def newEDDSAKeygenSession_def base_session_def Let_def)
qed

lemma demo_handle_keygen:
  "\<exists>ec' a b. handleKeyGenEvent (demo_env ''alice'') demo_kg demo_kg False keygen_request
      (demo_consumer ''alice'' empty_kv empty_ki) = Returns (ec',
        ResultEnqueue (KeygenResultSubject (clientID_of keygen_request) ''w'')
        (json_Marshal (enc_KeygenResultEvent (keygen_success ''w'' a b)))
        (composeKeygenIdempotentKey ''w'' keygen_request) # sendReplyToRemoveMsg keygen_request)"
proof -
  let ?env = "demo_env ''alice''" and ?p = "demo_node ''alice'' empty_kv empty_ki" and ?ec = "demo_consumer ''alice'' empty_kv empty_ki"
  obtain es pe where es: "CreateKeyGenSession (\<lambda>xs. xs) (\<lambda>_. ''id'') ?p SessionTypeECDSA ''w'' 1 = Returns (Inr (es, pe))"
    "ss_errors es = []" using demo_create_keygen by blast
  obtain ds pd where ds: "CreateKeyGenSession (\<lambda>xs. xs) (\<lambda>_. ''id'') ?p SessionTypeEDDSA ''w'' 1 = Returns (Inr (ds, pd))"
    "ss_errors ds = []" using demo_create_keygen by blast
  obtain node' a b where run: "keygen_run ?env demo_kg demo_kg False ''w'' keygen_request es ds ?p = Returns (node',
      ResultEnqueue (KeygenResultSubject (clientID_of keygen_request) ''w'')
        (json_Marshal (enc_KeygenResultEvent (keygen_success ''w'' a b)))
        (composeKeygenIdempotentKey ''w'' keygen_request) # sendReplyToRemoveMsg keygen_request)"
    using demo_keygen_run [OF es(2) ds(2)] by blast
  have ks: "keygen_sessions ?env demo_kg demo_kg False 1 ''w'' keygen_request ?p = Returns (node',
      ResultEnqueue (KeygenResultSubject (clientID_of keygen_request) ''w'')
        (json_Marshal (enc_KeygenResultEvent (keygen_success ''w'' a b)))
        (composeKeygenIdempotentKey ''w'' keygen_request) # sendReplyToRemoveMsg keygen_request)"
    using es(1) ds(1) run by (simp add: keygen_sessions_def demo_env_def)
  have nf: "GetWalletCreationResult ?p ''w'' = Inl (ESentinel ErrKeyNotFound)"
    by (simp add: GetWalletCreationResult_def demo_node_def empty_kv_def)
  obtain t where t: "tryAddSession (cx_now ?env) ''w'' ''keygen'' new_session_table = (t, True)"
    by (simp add: tryAddSession_def new_session_table_def Let_def)
  have ck: "VerifyInitiatorMessage demo_crypto (demo_store ''alice'') (GenerateKey demo_keygen) = Returns (Inr ())"
    "AuthorizeInitiatorMessage demo_crypto (demo_store ''alice'') (GenerateKey demo_keygen) = Returns (Inr ())"
    using authorized_iff [OF demo_keys_loaded [of "''alice''"], of "GenerateKey demo_keygen"]
      demo_keygen_authorized [of "''alice''"] by auto
  have ec: "ec_node ?ec = ?p" "ec_mpcThreshold ?ec = 1" "ec_table ?ec = new_session_table"
    by (simp_all add: demo_consumer_def)
  show ?thesis
    using ks nf t by (simp add: handleKeyGenEvent_def keygen_request_decodes ck ec Let_def) blast
qed

theorem keygen_success_persists_witness:
  "\<exists>ec' fx. handleKeyGenEvent (demo_env ''alice'') demo_kg demo_kg False keygen_request
       (demo_consumer ''alice'' empty_kv empty_ki) = Returns (ec', fx) \<and>
     stored_share (demo_env ''alice'') SessionTypeECDSA (ec_node ec') ''w'' = Inr (demo_share 9) \<and>
     stored_share (demo_env ''alice'') SessionTypeEDDSA (ec_node ec') ''w'' = Inr (demo_share 9)"
proof -
  let ?ec = "demo_consumer ''alice'' empty_kv empty_ki"
  obtain ec' a b where h: "handleKeyGenEvent (demo_env ''alice'') demo_kg demo_kg False keygen_request ?ec = Returns (ec',
        ResultEnqueue (KeygenResultSubject (clientID_of keygen_request) ''w'')
        (json_Marshal (enc_KeygenResultEvent (keygen_success ''w'' a b)))
        (composeKeygenIdempotentKey ''w'' keygen_request) # sendReplyToRemoveMsg keygen_request)"
    using demo_handle_keygen by blast
  have w: "requested_wallet keygen_request = ''w''" by (simp add: requested_wallet_def keygen_request_decodes)
  have nf: "GetWalletCreationResult (ec_node ?ec) (requested_wallet keygen_request) = Inl (ESentinel ErrKeyNotFound)"
    by (simp add: w GetWalletCreationResult_def demo_consumer_def demo_node_def empty_kv_def)
  have st: "node_stores_ok (ec_node ?ec)" "is_int64 (ec_mpcThreshold ?ec)"
    by (simp_all add: demo_consumer_def demo_node_def node_stores_ok_def is_int64_def)
  have cu: "cx_ecdsa (demo_env ''alice'') = demo_cu" "cx_eddsa (demo_env ''alice'') = demo_cu"
    by (simp_all add: demo_env_def)
  have json: "shares_json_ok (demo_env ''alice'')" unfolding shares_json_ok_def cu using demo_share_json by blast
  have ok: "kr_ResultType (keygen_success ''w'' a b) = ResultTypeSuccess" by (simp add: keygen_success_def)
  have "stored_share (demo_env ''alice'') SessionTypeECDSA (ec_node ec') ''w'' = Inr (demo_share 9) \<and>
     stored_share (demo_env ''alice'') SessionTypeEDDSA (ec_node ec') ''w'' = Inr (demo_share 9)"
    using keygen_success_persists [OF h _ success_result_decodes ok nf st json]
    by (auto simp: w demo_kg_def ecdsa_generated_def eddsa_generated_def)
  with h show ?thesis by blast
qed

text \<open>
  The entry that guards a key generation is released when the handler returns, whatever the
  outcome: the session table is the one the handler found.
\<close>

lemma keygen_guard_is_released:
  assumes "handleKeyGenEvent env re rd late m ec = Returns (ec', fx)"
  shows "active_since (ec_table ec') = active_since (ec_table ec)"
  by (rule keygen_guard_released [OF assms])

end
