(* ===== verification/Reshare_Properties.thy ===== *)
theory Reshare_Properties
  imports Keygen_Properties
begin

text \<open>
  Resharing from request to disk: what the two sessions of a handler write, and the end-to-end
  property that an announced resharing has replaced the committee of the wallet and kept the old
  share.
\<close>

section \<open>Writes of a resharing\<close>

lemma session_loop_stores:
  assumes "session_loop nt onErr stops finish evs w = Returns (w', es, c)" and "\<And>e s. session_frame s (onErr e s)"
  shows "wd_kv w' = wd_kv w \<and> wd_ki w' = wd_ki w \<or>
    (\<exists>x w0 es0. PartyEnd x \<in> set evs \<and> finish x w0 = Returns (w', es0, c) \<and>
       wd_kv w0 = wd_kv w \<and> wd_ki w0 = wd_ki w \<and> session_frame (wd_session w) (wd_session w0))"
  using assms
proof (induction nt onErr stops finish evs w arbitrary: es rule: session_loop.induct)
  case (2 nt onErr stops finish wire evs w)
  then obtain s' es1 es2 where h: "handleTssMessage nt wire (wd_session w) = Returns (s', es1)"
    and l: "session_loop nt onErr stops finish evs (w\<lparr>wd_session := s'\<rparr>) = Returns (w', es2, c)"
    by (auto split: outcome.splits)
  have "wd_kv w' = wd_kv w \<and> wd_ki w' = wd_ki w \<or>
    (\<exists>x w0 es0. PartyEnd x \<in> set evs \<and> finish x w0 = Returns (w', es0, c) \<and>
       wd_kv w0 = wd_kv w \<and> wd_ki w0 = wd_ki w \<and> session_frame s' (wd_session w0))"
    using "2.IH" [OF h refl l "2.prems"(2)] by simp
  with handleTssMessage_frame [OF h] show ?case by (meson list.set_intros(2) session_frame_trans)
next
  case (3 nt onErr stops finish x evs w)
  then show ?case by force
next
  case (4 nt onErr stops finish e evs w)
  from "4.IH" [of es] "4.prems" have "wd_kv w' = wd_kv w \<and> wd_ki w' = wd_ki w \<or>
    (\<exists>x w0 es0. PartyEnd x \<in> set evs \<and> finish x w0 = Returns (w', es0, c) \<and>
       wd_kv w0 = wd_kv w \<and> wd_ki w0 = wd_ki w \<and> session_frame (onErr e (wd_session w)) (wd_session w0))"
    by simp
  with "4.prems"(2) show ?case by (meson list.set_intros(2) session_frame_trans)
qed (auto split: if_splits)

text \<open>However it ends, a resharing touches only the share of the next version.\<close>

lemma reshare_end_writes:
  assumes "reshare_end encode marshal r sv w = Returns (w', es, c)" and "stores_ok w"
  shows "stores_ok w' \<and> (\<forall>k. k \<noteq> share_key (wd_session w) (ss_version (wd_session w) + 1) \<longrightarrow>
    kv_Get (wd_kv w') k = kv_Get (wd_kv w) k)"
proof -
  let ?s = "wd_session w"
  consider "wd_kv w' = wd_kv w" "wd_ki w' = wd_ki w"
    | b kvs where "kv_Put (wd_kv w) (share_key ?s (ss_version ?s + 1)) b = Inr kvs" "wd_kv w' = kvs" "wd_ki w' = wd_ki w"
    | b kvs kis i info where "kv_Put (wd_kv w) (share_key ?s (ss_version ?s + 1)) b = Inr kvs" "wd_kv w' = kvs"
        "keyinfo_Save (wd_ki w) i info = Inr kis" "wd_ki w' = kis"
    using assms(1) by (auto simp: reshare_end_def Let_def failed_def split: sum.splits option.splits)
  then show ?thesis
  proof cases
    case (2 b kvs)
    with assms(2) kv.put_ok [OF _ 2(1)] kv.get_put_other [OF _ 2(1)] show ?thesis by (simp add: stores_ok_def)
  next
    case (3 b kvs kis i info)
    with assms(2) kv.put_ok [OF _ 3(1)] kv.get_put_other [OF _ 3(1)] ki.put_ok [OF _ 3(3)] show ?thesis
      by (simp add: stores_ok_def)
  qed (use assms(2) in \<open>simp add: stores_ok_def\<close>)
qed

definition reshare_encode :: "('k, 'pt, 'r) consumer_env \<Rightarrow> SessionType \<Rightarrow> 'pt \<Rightarrow> bytes res" where
  "reshare_encode env t p =
     (if t = SessionTypeECDSA then EncodeS256PubKey (Some (cv_PublicKey (cu_ops (cx_ecdsa env)) p))
      else Inr (cv_Compress (cu_ops (cx_eddsa env)) p))"

lemma reshare_loop:
  "(if t = SessionTypeECDSA
    then ecdsa_Reshare (cx_net env) (cu_ops (cx_ecdsa env)) (cu_marshal (cx_ecdsa env)) r evs
    else eddsa_Reshare (cx_net env) (cu_ops (cx_eddsa env)) (cu_marshal (cx_eddsa env)) r evs) w =
   session_loop (cx_net env) pushErr False (reshare_end (reshare_encode env t) (cu_marshal (curve_of env t)) r) evs w"
  by (simp add: ecdsa_Reshare_def eddsa_Reshare_def reshare_encode_def [abs_def] curve_of_def)

lemma reshare_run_one_writes:
  assumes "reshare_run_one env t rn (Some (r, s)) node = Returns (node', fx, v)" and "node_stores_ok node"
  shows "node_stores_ok node' \<and> (\<forall>k. k \<noteq> share_key s (ss_version s + 1) \<longrightarrow>
    kv_Get (nd_kv node') k = kv_Get (nd_kv node) k)"
proof -
  let ?w = "\<lparr>wd_session = s, wd_kv = nd_kv node, wd_ki = nd_ki node\<rparr>"
  from assms(1) obtain w' c where
    l: "session_loop (cx_net env) pushErr False (reshare_end (reshare_encode env t) (cu_marshal (curve_of env t)) r)
      (rn_events rn) ?w = Returns (w', fx, c)" and n: "node' = node\<lparr>nd_kv := wd_kv w', nd_ki := wd_ki w'\<rparr>"
    unfolding reshare_run_one_def option.case prod.case reshare_loop by (auto split: outcome.splits)
  have w: "stores_ok ?w" using assms(2) by (simp add: node_stores_ok_def stores_ok_def)
  have k: "share_key u v = share_key s v" "ss_version u = ss_version s" if "session_frame s u" for u v
    using that by (simp_all add: share_key_def session_frame_def)
  from session_loop_stores [OF l pushErr_frame] show ?thesis
  proof
    assume "\<exists>x w0 es0. PartyEnd x \<in> set (rn_events rn) \<and>
      reshare_end (reshare_encode env t) (cu_marshal (curve_of env t)) r x w0 = Returns (w', es0, c) \<and>
      wd_kv w0 = wd_kv ?w \<and> wd_ki w0 = wd_ki ?w \<and> session_frame (wd_session ?w) (wd_session w0)"
    then obtain x w0 es0 where e: "reshare_end (reshare_encode env t) (cu_marshal (curve_of env t)) r x w0 = Returns (w', es0, c)"
      and st: "wd_kv w0 = nd_kv node" "wd_ki w0 = nd_ki node" and f: "session_frame s (wd_session w0)" by auto
    have "stores_ok w0" using w st by (simp add: stores_ok_def)
    from reshare_end_writes [OF e this] k [OF f] st n show ?thesis by (simp add: stores_ok_def node_stores_ok_def)
  qed (use w n in \<open>simp add: stores_ok_def node_stores_ok_def\<close>)
qed

lemma reshare_run_one_done:
  assumes "reshare_run_one env t rn (Some (r, s)) node = Returns (node', fx, WatchDone (Some pk))"
    and "node_stores_ok node" and "ss_pubkeyBytes s = None" and "0 \<le> ss_version s" and "KeyInfo_ok (reshare_info r s)"
  shows "\<exists>sv p b. PartyEnd sv \<in> set (rn_events rn) \<and> sd_Pub sv = Some p \<and> cu_marshal (curve_of env t) sv = Inr b \<and>
    reshare_encode env t p = Inr pk \<and>
    kv_Get (nd_kv node') (composeKey (ss_kind s) (walletIDWithVersion (ss_walletID s) (ss_version s + 1))) = Inr b \<and>
    keyinfo_Get (nd_ki node') (composeKey (ss_kind s) (ss_walletID s)) = Inr (reshare_info r s)"
proof -
  let ?w = "\<lparr>wd_session = s, wd_kv = nd_kv node, wd_ki = nd_ki node\<rparr>"
  from assms(1) obtain w' where
    l: "session_loop (cx_net env) pushErr False (reshare_end (reshare_encode env t) (cu_marshal (curve_of env t)) r)
      (rn_events rn) ?w = Returns (w', fx, True)" and n: "node' = node\<lparr>nd_kv := wd_kv w', nd_ki := wd_ki w'\<rparr>"
    and pk: "ss_pubkeyBytes (wd_session w') = Some pk"
    unfolding reshare_run_one_def option.case prod.case reshare_loop by (auto simp: watch_done split: outcome.splits)
  from session_loop_finish [OF l pushErr_frame] obtain sv w0 es0 where
    x: "PartyEnd sv \<in> set (rn_events rn)"
    and e: "reshare_end (reshare_encode env t) (cu_marshal (curve_of env t)) r sv w0 = Returns (w', es0, True)"
    and st: "wd_kv w0 = nd_kv node" "wd_ki w0 = nd_ki node" and f: "session_frame s (wd_session w0)" by auto
  have i: "reshare_info r (wd_session w0) = reshare_info r s" "stores_ok w0" "ss_pubkeyBytes (wd_session w0) = None"
    "0 \<le> ss_version (wd_session w0)"
    using f st assms(2-4) by (simp_all add: reshare_info_def session_frame_def stores_ok_def node_stores_ok_def)
  have "sd_Pub sv \<noteq> None"
    using reshare_end_old [of sv "reshare_encode env t" "cu_marshal (curve_of env t)" r w0] e pk i(3)
    by (cases "sd_Pub sv") (auto simp: Stop_def)
  then obtain p where p: "sd_Pub sv = Some p" by blast
  from reshare_end_ok [OF e i(2) _ p i(4)] assms(5) i(1) pk n x p f show ?thesis
    by (auto simp: persisted_def session_frame_def reshare_info_def)
qed

lemma wf_enc_Resharing: "wf_json (enc_ResharingResultEvent e)"
  by (simp add: enc_ResharingResultEvent_def)

lemma enc_Resharing_eq:
  assumes "json_Marshal (enc_ResharingResultEvent e) = json_Marshal (enc_ResharingResultEvent e')"
  shows "rr_WalletID e = rr_WalletID e' \<and> rr_NewThreshold e = rr_NewThreshold e' \<and> rr_KeyType e = rr_KeyType e' \<and>
    enc_opt_bytes (rr_PubKey e) = enc_opt_bytes (rr_PubKey e') \<and>
    result_type_string (rr_ResultType e) = result_type_string (rr_ResultType e')"
proof -
  have "enc_ResharingResultEvent e = enc_ResharingResultEvent e'"
    using assms json_Marshal_inj [OF wf_enc_Resharing wf_enc_Resharing] by blast
  then show ?thesis by (simp add: enc_ResharingResultEvent_def)
qed

lemma reshare_error_not_success:
  assumes "ResultEnqueue s (json_Marshal (enc_ResharingResultEvent r)) k \<in> set (reshare_fail msg m e c)"
  shows "rr_ResultType r \<noteq> ResultTypeSuccess"
proof -
  have "\<exists>r'. rr_ResultType r' = ResultTypeError \<and>
      json_Marshal (enc_ResharingResultEvent r) = json_Marshal (enc_ResharingResultEvent r')"
    using assms by (auto simp: reshare_fail_def handleReshareSessionError_def Let_def split: if_splits
        intro: exI [of _ "\<lparr>rr_WalletID = rs_WalletID msg, rr_NewThreshold = rs_NewThreshold msg,
          rr_KeyType = rs_KeyType msg, rr_PubKey = [], rr_ResultType = ResultTypeError,
          rr_ErrorReason = c @ '': '' @ Error e, rr_ErrorCode = GetErrorCodeFromError (Some e)\<rparr>"])
  then obtain r' where "rr_ResultType r' = ResultTypeError"
    and "json_Marshal (enc_ResharingResultEvent r) = json_Marshal (enc_ResharingResultEvent r')" by blast
  then have "result_type_string (rr_ResultType r) = result_type_string ResultTypeError"
    using enc_Resharing_eq by metis
  then show ?thesis by auto
qed

lemma ListenToPeers_frame: "session_frame s (ListenToPeersAsync l ps s)"
  unfolding ListenToPeersAsync_def by (rule subscribe_frame)

lemma reshare_sessions_success:
  assumes "reshare_sessions env t ro rn msg m old new node = Returns (node', fx, ret)"
    and "ResultEnqueue s (json_Marshal (enc_ResharingResultEvent r)) k \<in> set fx" and "rr_ResultType r = ResultTypeSuccess"
  shows "\<exists>n sn node1 fx2 pk. new = Some n \<and> session_frame (rh_session n) sn \<and>
    (node1 = node \<or> (\<exists>q sq fx1 wo. old = Some q \<and> session_frame (rh_session q) sq \<and>
       reshare_run_one env t ro (Some (q, sq)) node = Returns (node1, fx1, wo))) \<and>
    reshare_run_one env t rn (Some (n, sn)) node1 = Returns (node', fx2, WatchDone (Some pk)) \<and>
    json_Marshal (enc_ResharingResultEvent r) = json_Marshal (enc_ResharingResultEvent (reshare_success msg pk))"
proof -
  have [simp]: "ResultEnqueue s (json_Marshal (enc_ResharingResultEvent r)) k \<notin> set (reshare_fail msg m e c)" for e c
    using reshare_error_not_success assms(3) by blast
  have fr: "session_frame u (fst (barrier env i (ListenToPeersAsync l ps (listen_all env u))))" for i l ps u
    by (rule session_frame_trans [OF session_frame_trans [OF listen_frame ListenToPeers_frame] barrier_frame [OF surjective_pairing]])
  define bo where "bo = (\<lambda>q :: reshare. barrier env 0 (ListenToPeersAsync (cx_listen env) (to_list (rs_NodeIDs msg)) (listen_all env (rh_session q))))"
  define bn where "bn = (\<lambda>n :: reshare. barrier env 1 (ListenToPeersAsync (cx_listen env) (GetLegacyCommitteePeers n) (listen_all env (rh_session n))))"
  from assms(1,2) obtain node1 fx1 wo fx2 wn fx3 where
    o: "reshare_run_one env t ro (map_option (\<lambda>q. (q, fst (bo q))) old) node = Returns (node1, fx1, wo)"
    and n: "reshare_run_one env t rn (map_option (\<lambda>n. (n, fst (bn n))) new) node1 = Returns (node', fx2, wn)"
    and f: "fst (reshare_finish env msg m wo wn) = fx3" and fx: "fx = map SessionEffect (fx1 @ fx2) @ fx3"
    by (auto simp: reshare_sessions_def Let_def bo_def bn_def option.map_comp comp_def case_prod_beta simp del: One_nat_def
        split: option.splits outcome.splits)
  have "ResultEnqueue s (json_Marshal (enc_ResharingResultEvent r)) k \<in> set fx3" using assms(2) fx by auto
  then obtain pk where wn: "wn = WatchDone (Some pk)"
    and p: "json_Marshal (enc_ResharingResultEvent r) = json_Marshal (enc_ResharingResultEvent (reshare_success msg pk))"
    using f by (auto simp: reshare_finish_def Let_def watch_key_def to_list_def split: if_splits watch.splits option.splits)
  from n wn obtain nn where new: "new = Some nn" by (cases new) (auto simp: reshare_run_one_def)
  have on: "node1 = node \<or> (\<exists>q sq fx1 wo. old = Some q \<and> session_frame (rh_session q) sq \<and>
       reshare_run_one env t ro (Some (q, sq)) node = Returns (node1, fx1, wo))"
  proof (cases old)
    case (Some oo)
    with o fr [of "rh_session oo"] show ?thesis by (auto simp: bo_def)
  qed (use o in \<open>simp add: reshare_run_one_def\<close>)
  from n wn new p on fr [of "rh_session nn"] show ?thesis
    by (intro exI [of _ nn] exI [of _ "fst (bn nn)"] exI [of _ node1] exI [of _ fx2] exI [of _ pk]) (simp add: bn_def)
qed

section \<open>Resharing\<close>

lemma reshare_session_fields:
  assumes "CreateReshareSession S u u' p t w nt nps isNew = Returns (Inr (Some (q, pp)))"
  shows "\<exists>info. getKeyInfo p t w = Inr info \<and> ss_kind (rh_session q) = reshare_kind t w \<and> ss_walletID (rh_session q) = w \<and>
    ss_version (rh_session q) = ki_Version info \<and> ss_pubkeyBytes (rh_session q) = None \<and>
    rh_newPeerIDs q = nps \<and> rh_newThreshold q = nt"
proof -
  obtain info where info: "getKeyInfo p t w = Inr info"
    and b: "reshare_build S u u' p t w nt nps isNew info
      (getReadyPeersForSession info (GetReadyPeersIncludeSelf (nd_registry p))) (ki_Version info) = Returns (Inr (Some (q, pp)))"
    by (rule CreateReshareSession_ok [OF assms])
  obtain a all where a: "generatePartyIDs S u (nd_nodeID p) PurposeKeygen
      (getReadyPeersForSession info (GetReadyPeersIncludeSelf (nd_registry p))) (ki_Version info) = (a, all)" by fastforce
  obtain a' all' where a': "generatePartyIDs S u' (nd_nodeID p) PurposeReshare nps (ki_Version info + 1) = (a', all')" by fastforce
  from reshare_build_ok [OF b a a'] info show ?thesis
    by (auto simp: NewReshareSession_def base_session_def Let_def)
qed

lemma composeKey_reshare: "t = SessionTypeECDSA \<or> t = SessionTypeEDDSA \<Longrightarrow>
    composeKey (reshare_kind t w) i = composeKey (keygen_kind t w) i"
  by (auto simp: composeKey_eq_iff)

lemma session_type_curve: "sessionTypeFromKeyType k = Inr t \<Longrightarrow> t = SessionTypeECDSA \<or> t = SessionTypeEDDSA"
  by (auto split: if_splits)

text \<open>
  (C5) When a node announces the success of a resharing, the request was authorized, the new share is
  stored under the next key version, and the key information now names the new committee, the new
  threshold and that version; the announced public key is the one of the new share. The share of
  the old version is still there, unchanged.
\<close>

theorem reshare_success_persists:
  assumes "consumeReshareEvent env ro rn m ec = Returns (ec', fx, ret)"
    and "ResultEnqueue s (json_Marshal (enc_ResharingResultEvent r)) k \<in> set fx" and "rr_ResultType r = ResultTypeSuccess"
    and "keys_loaded (cx_net env)" and "node_stores_ok (ec_node ec)"
    and "\<forall>t info. getKeyInfo (ec_node ec) t (rr_WalletID r) = Inr info \<longrightarrow> 0 \<le> ki_Version info \<and> is_int64 (ki_Version info + 1)"
    and "is_int64 (rr_NewThreshold r)"
  shows "\<exists>msg t info sv p b pk. json_Unmarshal ResharingMessage_fields zero_ResharingMessage (nm_Data m) = Inr msg \<and>
    authorized (cx_net env) (Resharing msg) \<and> sessionTypeFromKeyType (rs_KeyType msg) = Inr t \<and>
    rr_WalletID r = rs_WalletID msg \<and> rr_NewThreshold r = rs_NewThreshold msg \<and>
    getKeyInfo (ec_node ec) t (rs_WalletID msg) = Inr info \<and>
    PartyEnd sv \<in> set (rn_events rn) \<and> sd_Pub sv = Some p \<and> cu_marshal (curve_of env t) sv = Inr b \<and>
    reshare_encode env t p = Inr pk \<and> enc_opt_bytes (rr_PubKey r) = enc_opt_bytes pk \<and>
    wallet_stored (ec_node ec') t (rs_WalletID msg) b
      \<lparr>ki_ParticipantPeerIDs = Some (to_list (rs_NodeIDs msg)), ki_Threshold = rs_NewThreshold msg,
       ki_Version = ki_Version info + 1\<rparr> \<and>
    kv_Get (nd_kv (ec_node ec')) (composeKey (keygen_kind t (rs_WalletID msg)) (walletIDWithVersion (rs_WalletID msg) (ki_Version info))) =
      kv_Get (nd_kv (ec_node ec)) (composeKey (keygen_kind t (rs_WalletID msg)) (walletIDWithVersion (rs_WalletID msg) (ki_Version info)))"
proof -
  have [simp]: "ResultEnqueue s (json_Marshal (enc_ResharingResultEvent r)) k \<notin> set (reshare_fail msg m e c)" for msg e c
    using reshare_error_not_success assms(3) by blast
  let ?create = "\<lambda>msg t i new. CreateReshareSession (cx_sort env) (cx_uuid env i) (cx_uuid env (i + 1)) (ec_node ec) t
      (rs_WalletID msg) (rs_NewThreshold msg) (to_list (rs_NodeIDs msg)) new"
  from assms(1,2) obtain msg t old new where
    msg: "json_Unmarshal ResharingMessage_fields zero_ResharingMessage (nm_Data m) = Inr msg"
    and v: "VerifyInitiatorMessage (nt_crypto (cx_net env)) (nt_store (cx_net env)) (Resharing msg) = Returns (Inr ())"
      "AuthorizeInitiatorMessage (nt_crypto (cx_net env)) (nt_store (cx_net env)) (Resharing msg) = Returns (Inr ())"
    and t: "sessionTypeFromKeyType (rs_KeyType msg) = Inr t"
    and co: "?create msg t 0 False = Returns (Inr old)" and cn: "?create msg t 2 True = Returns (Inr new)"
    and run: "reshare_sessions env t ro rn msg m (map_option fst old) (map_option fst new) (ec_node ec) = Returns (ec_node ec', fx, ret)"
    by (auto simp: consumeReshareEvent_def Let_def simp del: sessionTypeFromKeyType.simps One_nat_def
        split: sum.splits outcome.splits if_splits)
  note tc = session_type_curve [OF t]
  from reshare_sessions_success [OF run assms(2,3)] obtain n sn node1 fx2 pk where
    n: "map_option fst new = Some n" "session_frame (rh_session n) sn"
    and on: "node1 = ec_node ec \<or> (\<exists>q sq fx1 wo. map_option fst old = Some q \<and> session_frame (rh_session q) sq \<and>
       reshare_run_one env t ro (Some (q, sq)) (ec_node ec) = Returns (node1, fx1, wo))"
    and rn: "reshare_run_one env t rn (Some (n, sn)) node1 = Returns (ec_node ec', fx2, WatchDone (Some pk))"
    and res: "json_Marshal (enc_ResharingResultEvent r) = json_Marshal (enc_ResharingResultEvent (reshare_success msg pk))"
    by blast
  from n(1) cn obtain pp where cn': "?create msg t 2 True = Returns (Inr (Some (n, pp)))" by auto
  from reshare_session_fields [OF cn'] obtain info where info: "getKeyInfo (ec_node ec) t (rs_WalletID msg) = Inr info"
    and sn: "ss_kind sn = reshare_kind t (rs_WalletID msg)" "ss_walletID sn = rs_WalletID msg" "ss_version sn = ki_Version info"
      "ss_pubkeyBytes sn = None" "rh_newPeerIDs n = to_list (rs_NodeIDs msg)" "rh_newThreshold n = rs_NewThreshold msg"
    using n(2) by (auto simp: session_frame_def)
  note eq = enc_Resharing_eq [OF res]
  have ver: "0 \<le> ki_Version info" "is_int64 (ki_Version info + 1)" using assms(6) info eq by (auto simp: reshare_success_def)
  let ?key = "\<lambda>i. composeKey (reshare_kind t (rs_WalletID msg)) (walletIDWithVersion (rs_WalletID msg) i)"
  have old: "node_stores_ok node1 \<and> (\<forall>k. k \<noteq> ?key (ki_Version info + 1) \<longrightarrow>
      kv_Get (nd_kv node1) k = kv_Get (nd_kv (ec_node ec)) k)"
    using on
  proof
    assume "\<exists>q sq fx1 wo. map_option fst old = Some q \<and> session_frame (rh_session q) sq \<and>
       reshare_run_one env t ro (Some (q, sq)) (ec_node ec) = Returns (node1, fx1, wo)"
    then obtain q qp sq fx1 wo where q: "?create msg t 0 False = Returns (Inr (Some (q, qp)))" "session_frame (rh_session q) sq"
      and run1: "reshare_run_one env t ro (Some (q, sq)) (ec_node ec) = Returns (node1, fx1, wo)" using co by auto
    from reshare_session_fields [OF q(1)] info q(2) have "share_key sq (ss_version sq + 1) = ?key (ki_Version info + 1)"
      by (auto simp: session_frame_def share_key_def)
    with reshare_run_one_writes [OF run1 assms(5)] show ?thesis by simp
  qed (use assms(5) in simp)
  have ok: "KeyInfo_ok (reshare_info n sn)"
    using ver(2) assms(7) eq sn by (simp add: KeyInfo_ok_def reshare_info_def reshare_success_def)
  from reshare_run_one_done [OF rn _ sn(4) _ ok] old ver(1) sn obtain sv p b where
    d: "PartyEnd sv \<in> set (rn_events rn)" "sd_Pub sv = Some p" "cu_marshal (curve_of env t) sv = Inr b"
      "reshare_encode env t p = Inr pk" "kv_Get (nd_kv (ec_node ec')) (?key (ki_Version info + 1)) = Inr b"
      "keyinfo_Get (nd_ki (ec_node ec')) (composeKey (reshare_kind t (rs_WalletID msg)) (rs_WalletID msg)) = Inr (reshare_info n sn)"
    by auto
  have "?key (ki_Version info) \<noteq> ?key (ki_Version info + 1)"
    using walletIDWithVersion_Suc_neq [OF ver(1), of "rs_WalletID msg"] by (simp add: composeKey_eq_iff)
  then have keep: "kv_Get (nd_kv (ec_node ec')) (?key (ki_Version info)) = kv_Get (nd_kv (ec_node ec)) (?key (ki_Version info))"
    using reshare_run_one_writes [OF rn] old sn by (simp add: share_key_def)
  have "reshare_info n sn = \<lparr>ki_ParticipantPeerIDs = Some (to_list (rs_NodeIDs msg)), ki_Threshold = rs_NewThreshold msg,
       ki_Version = ki_Version info + 1\<rparr>" using sn by (simp add: reshare_info_def)
  then have "wallet_stored (ec_node ec') t (rs_WalletID msg) b
      \<lparr>ki_ParticipantPeerIDs = Some (to_list (rs_NodeIDs msg)), ki_Threshold = rs_NewThreshold msg, ki_Version = ki_Version info + 1\<rparr>"
    using d(5,6) tc by (auto simp: wallet_stored_def getKeyInfo_def)
  with msg t info d(1-4) eq keep v authorized_iff [OF assms(4)] composeKey_reshare [OF tc] show ?thesis
    by (intro exI [of _ msg] exI [of _ t] exI [of _ info] exI [of _ sv] exI [of _ p] exI [of _ b] exI [of _ pk])
      (simp add: reshare_success_def del: sessionTypeFromKeyType.simps)
qed

definition demo_resharing :: ResharingMessage where
  "demo_resharing =
     (let m = \<lparr>rs_SessionID = ''s1'', rs_NodeIDs = Some demo_ids, rs_NewThreshold = 1, rs_KeyType = ''ed25519'',
            rs_WalletID = ''w'', rs_Signature = None, rs_AuthorizerSignatures = []\<rparr>;
          m1 = m\<lparr>rs_Signature := Some (demo_sign (Raw (Resharing m)))\<rparr>
      in m1\<lparr>rs_AuthorizerSignatures := [\<lparr>as_AuthorizerID = ''ops'', as_Signature = demo_sign (ComposeAuthorizerRaw (Resharing m1))\<rparr>]\<rparr>)"

definition reshare_request :: natsMsg where
  "reshare_request = \<lparr>nm_Data = json_Marshal (enc_ResharingMessage demo_resharing), nm_Reply = [],
     nm_Header = (\<lambda>h. if h = ''ClientID'' then ''c1'' else [])\<rparr>"

lemma demo_resharing_fields [simp]:
  "rs_SessionID demo_resharing = ''s1''" "rs_NodeIDs demo_resharing = Some demo_ids" "rs_NewThreshold demo_resharing = 1"
  "rs_KeyType demo_resharing = ''ed25519''" "rs_WalletID demo_resharing = ''w''"
  by (simp_all add: demo_resharing_def Let_def)

lemma reshare_request_decodes:
  "json_Unmarshal ResharingMessage_fields zero_ResharingMessage (nm_Data reshare_request) = Inr demo_resharing"
  by (simp add: reshare_request_def Unmarshal_ResharingMessage) (simp add: demo_resharing_def Let_def Unmarshal_ResharingMessage)

lemma demo_resharing_authorized: "authorized (demo_net me) (Resharing demo_resharing)"
proof -
  define m where "m = \<lparr>rs_SessionID = ''s1'', rs_NodeIDs = Some demo_ids, rs_NewThreshold = 1, rs_KeyType = ''ed25519'',
            rs_WalletID = ''w'', rs_Signature = None, rs_AuthorizerSignatures = []\<rparr>"
  define m1 where "m1 = m\<lparr>rs_Signature := Some (demo_sign (Raw (Resharing m)))\<rparr>"
  have d: "demo_resharing = m1\<lparr>rs_AuthorizerSignatures :=
      [\<lparr>as_AuthorizerID = ''ops'', as_Signature = demo_sign (ComposeAuthorizerRaw (Resharing m1))\<rparr>]\<rparr>"
    by (simp add: demo_resharing_def m_def m1_def Let_def)
  have raw: "Raw (Resharing demo_resharing) = Raw (Resharing m)" "Raw (Resharing m1) = Raw (Resharing m)"
    "ComposeAuthorizerRaw (Resharing demo_resharing) = ComposeAuthorizerRaw (Resharing m1)"
    unfolding ComposeAuthorizerRaw_eq Raw_Resharing_eq by (simp_all add: d m1_def Raw_Resharing_eq del: Raw.simps)
  show ?thesis unfolding authorized_def raw
    by (simp add: d m1_def sig_bytes_def demo_authorizer_valid del: Raw.simps)
qed

lemma wallet_info_eddsa: "getKeyInfo (demo_node me kvs wallet_ki) SessionTypeEDDSA ''w'' = Inr demo_info"
  by (simp add: getKeyInfo_def demo_node_def wallet_ki_def composeKeyinfoKey_def)

lemma demo_create_reshare:
  "\<exists>q pp. CreateReshareSession (\<lambda>xs. xs) u u' (demo_node ''alice'' wallet_kv wallet_ki) SessionTypeEDDSA ''w'' 1 demo_ids isNew =
     Returns (Inr (Some (q, pp))) \<and> rh_isNewParty q = isNew \<and> ss_errors (rh_session q) = []"
proof -
  let ?p = "demo_node ''alice'' wallet_kv wallet_ki"
  have gi: "keyinfo_Get (nd_ki ?p) ''eddsa:w'' = Inr demo_info"
    using wallet_info_eddsa [of "''alice''" wallet_kv] by (simp add: getKeyInfo_def)
  have n: "GetReadyPeersCount (demo_registry ''alice'') = 3"
    by (simp add: GetReadyPeersCount_def demo_registry_def demo_ids_def)
  have v: "getVersion ?p SessionTypeEDDSA ''w'' = Returns 1"
    using getVersion_keyInfo [OF wallet_info_eddsa] by (simp add: demo_info_def)
  have build: "\<exists>q pp. reshare_build (\<lambda>xs. xs) u u' ?p SessionTypeEDDSA ''w'' 1 demo_ids isNew
      demo_info ready 1 = Returns (Inr (Some (q, pp))) \<and> rh_isNewParty q = isNew \<and> ss_errors (rh_session q) = []" for ready
    by (simp add: reshare_build_def NewEDDSAReshareSession_def NewReshareSession_def base_session_def Let_def split: prod.splits)
  have parts: "participants demo_info = [''alice'', ''bob'', ''carol'']" "demo_ids = [''alice'', ''bob'', ''carol'']"
    by (simp_all add: demo_info_def participants_def demo_ids_def)
  show ?thesis
    using build [of "[''alice'', ''bob'', ''carol'']"] gi v n
    by (auto simp: CreateReshareSession_def demo_ready slices_contains_def getReadyPeersForSession_def parts
        ensureNodeIsParticipant_def Let_def)
qed

definition old_run :: "(nat, unit) SaveData run" where
  "old_run = \<lparr>rn_events = [PartyEnd ((demo_share 9)\<lparr>sd_Pub := None\<rparr>)], rn_errors = [], rn_errFirst = False\<rparr>"

lemma demo_old_run:
  "ss_errors s = [] \<Longrightarrow> \<exists>v. reshare_run_one env t old_run (Some (q, s)) node = Returns (node, [], WatchDone v)"
  by (simp add: reshare_run_one_def old_run_def ecdsa_Reshare_def eddsa_Reshare_def reshare_end_old watch_run_def Stop_def)

lemma demo_new_run:
  assumes "ss_errors s = []"
  shows "\<exists>node'. reshare_run_one (demo_env me) SessionTypeEDDSA demo_kg (Some (q, s)) (demo_node me wallet_kv wallet_ki) =
    Returns (node', [], WatchDone (Some [9]))"
proof -
  have "nat_be 9 = [9]" by code_simp
  then show ?thesis
    using assms by (simp add: reshare_run_one_def demo_kg_def eddsa_Reshare_def reshare_end_def demo_env_def demo_node_def
        watch_run_def session_Close_def Stop_def Let_def wallet_kv_def wallet_ki_def demo_curve_def)
qed

lemma demo_init_opt:
  "ss_kind (rh_session q) = EDDSAReshare ''w'' \<Longrightarrow> ss_walletID (rh_session q) = ''w'' \<Longrightarrow> ss_version (rh_session q) = 1 \<Longrightarrow>
   init_opt (demo_env me) SessionTypeEDDSA (demo_node me wallet_kv wallet_ki) (Some q) = None"
proof -
  assume q: "ss_kind (rh_session q) = EDDSAReshare ''w''" "ss_walletID (rh_session q) = ''w''" "ss_version (rh_session q) = 1"
  have "itoa 1 = ''1''" by code_simp
  then have "kv_Get wallet_kv (composeKey (EDDSAReshare ''w'') (walletIDWithVersion ''w'' 1)) = Inr [9]"
    by (simp add: wallet_kv_def walletIDWithVersion_def)
  with q show ?thesis
    by (simp add: init_opt_def reshare_init_def eddsa_reshare_Init_def reshare_Init_def loadOldShareDataGeneric_def
        demo_env_def demo_node_def demo_cu_def)
qed

lemma demo_reshare_sessions:
  assumes "ss_errors (rh_session q) = []" "ss_errors (rh_session n) = []"
    and "init_opt (demo_env ''alice'') SessionTypeEDDSA (demo_node ''alice'' wallet_kv wallet_ki) (Some q) = None"
    and "init_opt (demo_env ''alice'') SessionTypeEDDSA (demo_node ''alice'' wallet_kv wallet_ki) (Some n) = None"
  shows "\<exists>node'. reshare_sessions (demo_env ''alice'') SessionTypeEDDSA old_run demo_kg demo_resharing reshare_request
      (Some q) (Some n) (demo_node ''alice'' wallet_kv wallet_ki) =
    Returns (node', [ResultEnqueue (ReshareResultSubject (clientID_of reshare_request) ''s1'')
      (json_Marshal (enc_ResharingResultEvent (reshare_success demo_resharing [9])))
      (composeReshareIdempotentKey ''s1'' reshare_request)], True)"
proof -
  let ?env = "demo_env ''alice''" and ?p = "demo_node ''alice'' wallet_kv wallet_ki"
  have e: "ss_errors (subscribeFromPeersAsync (cx_listen ?env) ps s) = ss_errors s" for ps s
    by (induction ps arbitrary: s) (simp_all add: Let_def demo_env_def)
  have b: "\<exists>s'. barrier ?env i (ListenToPeersAsync (cx_listen ?env) ps (listen_all ?env s)) = (s', Inr ()) \<and> ss_errors s' = ss_errors s"
    for i ps s by (simp add: demo_barrier ListenToPeersAsync_def e demo_listen_errors)
  obtain q' where q': "barrier ?env 0 (ListenToPeersAsync (cx_listen ?env) (to_list (rs_NodeIDs demo_resharing))
      (listen_all ?env (rh_session q))) = (q', Inr ())" "ss_errors q' = []" using b assms(1) by metis
  obtain n' where n': "barrier ?env 1 (ListenToPeersAsync (cx_listen ?env) (GetLegacyCommitteePeers n)
      (listen_all ?env (rh_session n))) = (n', Inr ())" "ss_errors n' = []" using b assms(2) by metis
  obtain v where "reshare_run_one ?env SessionTypeEDDSA old_run (Some (q, q')) ?p = Returns (?p, [], WatchDone v)"
    using demo_old_run [OF q'(2)] by blast
  moreover obtain node' where "reshare_run_one ?env SessionTypeEDDSA demo_kg (Some (n, n')) ?p = Returns (node', [], WatchDone (Some [9]))"
    using demo_new_run [OF n'(2)] by blast
  moreover have "reshare_finish ?env demo_resharing reshare_request (WatchDone v) (WatchDone (Some [9])) =
      ([ResultEnqueue (ReshareResultSubject (clientID_of reshare_request) ''s1'')
        (json_Marshal (enc_ResharingResultEvent (reshare_success demo_resharing [9])))
        (composeReshareIdempotentKey ''s1'' reshare_request)], True)" for v
    by (simp add: reshare_finish_def watch_key_def to_list_def demo_env_def Let_def)
  ultimately show ?thesis
    using assms(3,4) q'(1) n'(1) by (simp add: reshare_sessions_def barrier_err_def del: One_nat_def)
qed

lemma demo_handle_reshare:
  "\<exists>ec'. consumeReshareEvent (demo_env ''alice'') old_run demo_kg reshare_request (demo_consumer ''alice'' wallet_kv wallet_ki) =
    Returns (ec', [ResultEnqueue (ReshareResultSubject (clientID_of reshare_request) ''s1'')
      (json_Marshal (enc_ResharingResultEvent (reshare_success demo_resharing [9])))
      (composeReshareIdempotentKey ''s1'' reshare_request)], True)"
proof -
  let ?p = "demo_node ''alice'' wallet_kv wallet_ki" and ?ec = "demo_consumer ''alice'' wallet_kv wallet_ki"
  obtain q qp where q: "CreateReshareSession (\<lambda>xs. xs) (\<lambda>_. ''id'') (\<lambda>_. ''id'') ?p SessionTypeEDDSA ''w'' 1 demo_ids False =
      Returns (Inr (Some (q, qp)))" "ss_errors (rh_session q) = []" using demo_create_reshare by blast
  obtain n np where n: "CreateReshareSession (\<lambda>xs. xs) (\<lambda>_. ''id'') (\<lambda>_. ''id'') ?p SessionTypeEDDSA ''w'' 1 demo_ids True =
      Returns (Inr (Some (n, np)))" "ss_errors (rh_session n) = []" using demo_create_reshare by blast
  have i: "init_opt (demo_env ''alice'') SessionTypeEDDSA ?p (Some x) = None" if
    "CreateReshareSession (\<lambda>xs. xs) (\<lambda>_. ''id'') (\<lambda>_. ''id'') ?p SessionTypeEDDSA ''w'' 1 demo_ids b = Returns (Inr (Some (x, xp)))" for x xp b
    using reshare_session_fields [OF that] wallet_info_eddsa [of "''alice''" wallet_kv] by (intro demo_init_opt) auto
  obtain node' where run: "reshare_sessions (demo_env ''alice'') SessionTypeEDDSA old_run demo_kg demo_resharing reshare_request
      (Some q) (Some n) ?p =
    Returns (node', [ResultEnqueue (ReshareResultSubject (clientID_of reshare_request) ''s1'')
      (json_Marshal (enc_ResharingResultEvent (reshare_success demo_resharing [9])))
      (composeReshareIdempotentKey ''s1'' reshare_request)], True)"
    using demo_reshare_sessions [OF q(2) n(2) i [OF q(1)] i [OF n(1)]] by blast
  have ck: "VerifyInitiatorMessage demo_crypto (demo_store ''alice'') (Resharing demo_resharing) = Returns (Inr ())"
    "AuthorizeInitiatorMessage demo_crypto (demo_store ''alice'') (Resharing demo_resharing) = Returns (Inr ())"
    using authorized_iff [OF demo_keys_loaded [of "''alice''"], of "Resharing demo_resharing"]
      demo_resharing_authorized [of "''alice''"] by auto
  have t: "sessionTypeFromKeyType ''ed25519'' = Inr SessionTypeEDDSA" by (simp add: KeyTypeSecp256k1_def KeyTypeEd25519_def)
  have env: "cx_sort (demo_env ''alice'') = (\<lambda>xs. xs)" "cx_uuid (demo_env ''alice'') j = (\<lambda>_. ''id'')" for j
    by (simp_all add: demo_env_def)
  have ec: "ec_node ?ec = ?p" by (simp add: demo_consumer_def)
  show ?thesis
    using q(1) n(1) run
    by (simp add: consumeReshareEvent_def reshare_request_decodes ck t env ec to_list_def Let_def del: sessionTypeFromKeyType.simps)
qed

theorem reshare_success_persists_witness:
  "\<exists>ec' fx. consumeReshareEvent (demo_env ''alice'') old_run demo_kg reshare_request (demo_consumer ''alice'' wallet_kv wallet_ki) =
       Returns (ec', fx, True) \<and>
     (\<exists>(msg :: ResharingMessage) t b. wallet_stored (ec_node ec') t ''w'' b
        \<lparr>ki_ParticipantPeerIDs = Some (to_list (rs_NodeIDs msg)), ki_Threshold = rs_NewThreshold msg, ki_Version = 2\<rparr>)"
proof -
  let ?ec = "demo_consumer ''alice'' wallet_kv wallet_ki" and ?r = "reshare_success demo_resharing [9]"
  obtain ec' where h: "consumeReshareEvent (demo_env ''alice'') old_run demo_kg reshare_request ?ec =
    Returns (ec', [ResultEnqueue (ReshareResultSubject (clientID_of reshare_request) ''s1'')
      (json_Marshal (enc_ResharingResultEvent ?r))
      (composeReshareIdempotentKey ''s1'' reshare_request)], True)" using demo_handle_reshare by blast
  have k: "keys_loaded (cx_net (demo_env ''alice''))" by simp
  have st: "node_stores_ok (ec_node ?ec)" by (simp add: demo_consumer_def demo_node_def node_stores_ok_def wallet_kv_def wallet_ki_def)
  have r: "rr_ResultType ?r = ResultTypeSuccess" "rr_WalletID ?r = ''w''" "is_int64 (rr_NewThreshold ?r)"
    by (simp_all add: reshare_success_def is_int64_def)
  have i: "info = demo_info" if "getKeyInfo (ec_node ?ec) t ''w'' = Inr info" for t info
    using that wallet_info [of "''alice''" wallet_kv] wallet_info_eddsa [of "''alice''" wallet_kv]
    by (cases t) (auto simp: demo_consumer_def getKeyInfo_def)
  have "is_int64 2" by (simp add: is_int64_def)
  then have v: "\<forall>t info. getKeyInfo (ec_node ?ec) t (rr_WalletID ?r) = Inr info \<longrightarrow>
      0 \<le> ki_Version info \<and> is_int64 (ki_Version info + 1)"
    unfolding r(2) using i by fastforce
  from reshare_success_persists [OF h list.set_intros(1) r(1) k st v r(3)] obtain msg :: ResharingMessage and t and info :: KeyInfo and b where
    "rr_WalletID ?r = rs_WalletID msg" "getKeyInfo (ec_node ?ec) t (rs_WalletID msg) = Inr info"
    "wallet_stored (ec_node ec') t (rs_WalletID msg) b
      \<lparr>ki_ParticipantPeerIDs = Some (to_list (rs_NodeIDs msg)), ki_Threshold = rs_NewThreshold msg, ki_Version = ki_Version info + 1\<rparr>"
    by blast
  with r(2) i have "wallet_stored (ec_node ec') t ''w'' b
      \<lparr>ki_ParticipantPeerIDs = Some (to_list (rs_NodeIDs msg)), ki_Threshold = rs_NewThreshold msg, ki_Version = 2\<rparr>" by force
  with h show ?thesis by blast
qed

end
