(* ===== verification/Stream_Properties.thy ===== *)
theory Stream_Properties
  imports Stream_Consumers Reshare_Properties
begin

text \<open>
  Properties of the consumers of the request streams: they return, they settle each message once,
  and what becomes of a request that the event consumers do not answer.
\<close>

section \<open>Every message is settled\<close>

definition inbox_ready :: "'k stream_env \<Rightarrow> string \<Rightarrow> natsMsg \<Rightarrow> bool" where
  "inbox_ready env topic msg \<longleftrightarrow> sn_subscribeSync env = None \<and>
     fst (PublishWithReply (sn_publish env) topic (sn_newInbox env) (nm_Data msg)
       (forwarded_headers (sn_uuid env) (clientID_of msg))) = Inr ()"

text \<open>
  (C30) The handlers of the request streams return when a timeout of the inbox takes the polling
  interval: each polls at most 90 times, whatever arrives.
\<close>

theorem stream_handlers_return:
  assumes "inbox_law signingPollingInterval env"
  shows "(\<exists>fx. sc_handleSigningEvent sc env msg = Some fx \<and> count_list fx InProgress \<le> 90) \<and>
    (\<exists>fx. kc_handleKeygenEvent env msg = Some fx \<and> count_list fx InProgress \<le> 90)"
proof -
  have i: "0 < signingPollingInterval" by (simp add: signingPollingInterval_def Millisecond_def)
  have t: "signingResponseTimeout \<le> int 90 * signingPollingInterval" "keygenResponseTimeout \<le> int 90 * signingPollingInterval"
    by (simp_all add: signingResponseTimeout_def keygenResponseTimeout_def signingPollingInterval_def
        Second_def Millisecond_def)
  show ?thesis
    using forward_request_returns [OF assms i t(1), of MPCSignEvent msg]
      forward_request_returns [OF assms i t(2), of MPCGenerateEvent msg]
    by (auto simp: sc_handleSigningEvent_def kc_handleKeygenEvent_def Let_def sc_handleSigningError_def
        kc_handleKeygenError_def split: sum.splits)
qed

definition quiet_env :: "(nat \<Rightarrow> poll) \<Rightarrow> unit stream_env" where
  "quiet_env answers = \<lparr>sn_registry = demo_registry ''alice'', sn_newInbox = ''_INBOX.1'', sn_uuid = ''s1'',
     sn_subscribeSync = None, sn_publish = (\<lambda>_. None), sn_next = answers, sn_now = 0,
     sn_clock = (\<lambda>i. int i * signingPollingInterval)\<rparr>"

lemma quiet_env_law: "(\<And>j. answers j \<noteq> PollNil) \<Longrightarrow> inbox_law signingPollingInterval (quiet_env answers)"
  by (simp add: inbox_law_def quiet_env_def algebra_simps)

theorem stream_handlers_return_witness:
  "\<exists>fx. sc_handleSigningEvent \<lparr>sc_mpcThreshold = 1\<rparr> (quiet_env (\<lambda>_. PollTimeout)) (sign_request (demo_tx ''ed25519'')) = Some fx \<and>
     count_list fx InProgress \<le> 90"
  using stream_handlers_return [OF quiet_env_law, of "\<lambda>_. PollTimeout"] by fastforce

text \<open>
  (C29) Each request of a stream is settled exactly once. It is acknowledged when it was answered with an
  error result, because it does not decode or the cluster is not ready, or when a reply of the event
  consumers arrived before the deadline with nothing but timeouts before it. In every other case,
  it is given back for redelivery.
\<close>

theorem stream_message_settled_once:
  "(\<forall>fx. sc_handleSigningEvent sc env msg = Some fx \<longrightarrow>
      settlements fx = [if (\<forall>m. json_Unmarshal SignTxMessage_fields zero_SignTxMessage (nm_Data msg) \<noteq> Inr m) \<or>
        \<not> AreMajorityReady (sn_registry env) \<or>
        (inbox_ready env MPCSignEvent msg \<and>
         answered (sn_next env) (sn_clock env) (sn_now env + signingResponseTimeout) 0) then Ack else Nak]) \<and>
   (\<forall>fx. kc_handleKeygenEvent env msg = Some fx \<longrightarrow>
      settlements fx = [if (\<forall>m. json_Unmarshal GenerateKeyMessage_fields zero_GenerateKeyMessage (nm_Data msg) \<noteq> Inr m) \<or>
        \<not> ArePeersReady (sn_registry env) \<or>
        (inbox_ready env MPCGenerateEvent msg \<and>
         answered (sn_next env) (sn_clock env) (sn_now env + keygenResponseTimeout) 0) then Ack else Nak])"
proof (intro conjI allI impI)
  fix fx assume run: "sc_handleSigningEvent sc env msg = Some fx"
  show "settlements fx = [if (\<forall>m. json_Unmarshal SignTxMessage_fields zero_SignTxMessage (nm_Data msg) \<noteq> Inr m) \<or>
        \<not> AreMajorityReady (sn_registry env) \<or>
        (inbox_ready env MPCSignEvent msg \<and>
         answered (sn_next env) (sn_clock env) (sn_now env + signingResponseTimeout) 0) then Ack else Nak]"
    using run unfolding sc_handleSigningEvent_def Let_def
    by (auto simp: sc_handleSigningError_def inbox_ready_def split: sum.splits if_splits
        dest!: forward_request_settles)
next
  fix fx assume run: "kc_handleKeygenEvent env msg = Some fx"
  show "settlements fx = [if (\<forall>m. json_Unmarshal GenerateKeyMessage_fields zero_GenerateKeyMessage (nm_Data msg) \<noteq> Inr m) \<or>
        \<not> ArePeersReady (sn_registry env) \<or>
        (inbox_ready env MPCGenerateEvent msg \<and>
         answered (sn_next env) (sn_clock env) (sn_now env + keygenResponseTimeout) 0) then Ack else Nak]"
    using run unfolding kc_handleKeygenEvent_def Let_def
    by (auto simp: kc_handleKeygenError_def inbox_ready_def split: sum.splits if_splits
        dest!: forward_request_settles)
qed

lemma quiet_handler:
  "answers 0 = PollMsg \<Longrightarrow>
   \<exists>fx. sc_handleSigningEvent \<lparr>sc_mpcThreshold = 1\<rparr> (quiet_env answers) (sign_request (demo_tx ''ed25519'')) = Some fx"
  by (auto simp: sc_handleSigningEvent_def forward_request_def Let_def quiet_env_def poll_reply.simps [of answers]
      split: prod.splits sum.splits)

lemma demo_majority: "AreMajorityReady (demo_registry ''alice'')"
  by (simp add: AreMajorityReady_def demo_registry_def GetReadyPeersCount_def isECDHReady_def demo_store_def demo_ids_def
      CheckSymmetricKeyComplete_def GetReadyPeersCountExcludeSelf_def GetSymetricKeyCount_def)

theorem stream_message_settled_once_witness:
  "\<exists>fx. sc_handleSigningEvent \<lparr>sc_mpcThreshold = 1\<rparr> (quiet_env (\<lambda>_. PollMsg)) (sign_request (demo_tx ''ed25519'')) = Some fx \<and>
     settlements fx = [Ack]"
proof -
  let ?e = "quiet_env (\<lambda>_. PollMsg)" and ?m = "sign_request (demo_tx ''ed25519'')"
  obtain fx where run: "sc_handleSigningEvent \<lparr>sc_mpcThreshold = 1\<rparr> ?e ?m = Some fx"
    using quiet_handler [of "\<lambda>_. PollMsg"] by auto
  have "inbox_ready ?e MPCSignEvent ?m"
    by (simp add: inbox_ready_def quiet_env_def PublishWithReply_def Let_def)
  moreover have "answered (sn_next ?e) (sn_clock ?e) (sn_now ?e + signingResponseTimeout) 0"
    by (subst answered_step) (simp add: quiet_env_def signingResponseTimeout_def Second_def)
  ultimately have "settlements fx = [Ack]"
    using stream_message_settled_once run by (smt (verit, best))
  with run show ?thesis by blast
qed

lemma poll_reply_effects:
  assumes "poll_reply nxt clock deadline i = Some fx"
  shows "x \<in> set fx \<Longrightarrow> x = InProgress \<or> x = Settle Ack \<or> x = Settle Nak"
proof -
  have "set fx \<subseteq> {InProgress, Settle Ack, Settle Nak}"
  proof (rule poll_reply.raw_induct [OF _ assms, where P = "\<lambda>nxt clock deadline i fx. set fx \<subseteq> {InProgress, Settle Ack, Settle Nak}"])
    fix rec and nxt :: "nat \<Rightarrow> poll" and clock :: "nat \<Rightarrow> int" and deadline i fx
    assume IH: "\<And>nxt clock deadline i fx. rec nxt clock deadline i = Some fx \<Longrightarrow> set fx \<subseteq> {InProgress, Settle Ack, Settle Nak}"
      and run: "(if clock i < deadline then
        (case nxt i of
           PollMsg \<Rightarrow> Some [Settle Ack]
         | PollNil \<Rightarrow> rec nxt clock deadline (Suc i)
         | PollTimeout \<Rightarrow> Option.bind (rec nxt clock deadline (Suc i)) (\<lambda>fx. Some (InProgress # fx))
         | PollErr e \<Rightarrow> Some [Settle Nak])
      else Some [Settle Nak]) = Some fx"
    show "set fx \<subseteq> {InProgress, Settle Ack, Settle Nak}"
      using run by (auto split: if_splits poll.splits bind_splits dest!: IH)
  qed
  then show "x \<in> set fx \<Longrightarrow> x = InProgress \<or> x = Settle Ack \<or> x = Settle Nak" by auto
qed

lemma unauthorized_silent:
  assumes "keys_loaded (cx_net env)"
    and "\<And>m. json_Unmarshal SignTxMessage_fields zero_SignTxMessage (nm_Data msg) = Inr m \<Longrightarrow>
          \<not> authorized (cx_net env) (SignTx m)"
  shows "handleSigningEvent env rn msg ec = Returns (ec, [])"
proof (cases "json_Unmarshal SignTxMessage_fields zero_SignTxMessage (nm_Data msg)")
  case (Inr m)
  with assms(2) have "\<not> authorized (cx_net env) (SignTx m)" by blast
  from assms(1) this Inr show ?thesis
    by (cases rule: unauthorized_cases) (simp_all add: handleSigningEvent_def Let_def)
qed (simp add: handleSigningEvent_def)

lemma quiet_run:
  "\<exists>fx. sc_handleSigningEvent \<lparr>sc_mpcThreshold = 1\<rparr> (quiet_env (\<lambda>_. PollTimeout)) (sign_request (demo_tx ''ed25519'')) = Some fx"
proof -
  have "inbox_law signingPollingInterval (quiet_env (\<lambda>_. PollTimeout))" by (rule quiet_env_law) simp
  from forward_request_returns [OF this, where n = 90 and timeout = signingResponseTimeout]
  show ?thesis
    by (fastforce simp: sc_handleSigningEvent_def Let_def sc_handleSigningError_def signingPollingInterval_def
        Millisecond_def Second_def signingResponseTimeout_def)
qed

lemma request_as_result:
  "json_Unmarshal SigningResultEvent_fields zero_SigningResultEvent (json_Marshal (enc_SignTxMessage m)) =
   Inr \<lparr>sr_ResultType = OtherResultType [], sr_ErrorCode = NoErrorCode, sr_ErrorReason = [], sr_IsTimeout = False,
     sr_NetworkInternalCode = st_NetworkInternalCode m, sr_WalletID = st_WalletID m, sr_TxID = st_TxID m, sr_R = [],
     sr_S = [], sr_SignatureRecovery = [], sr_Signature = to_list (st_Signature m)\<rparr>"
proof -
  have none: "find_field SigningResultEvent_fields ''key_type'' = None" "find_field SigningResultEvent_fields ''tx'' = None"
    "find_field SigningResultEvent_fields ''derivation_path'' = None"
    "find_field SigningResultEvent_fields ''authorizer_signatures'' = None"
    by (simp_all add: SigningResultEvent_fields_def to_lower_def lower_char_def)
  have "wf_json (enc_SignTxMessage m)" by (auto simp: enc_SignTxMessage_def enc_sigs_def)
  then show ?thesis unfolding enc_SignTxMessage_def
    by (cases "st_AuthorizerSignatures m = []"; cases "st_Signature m")
      (simp_all add: json_Unmarshal_Marshal zero_SigningResultEvent_def enc_sigs_def none to_list_def)
qed

section \<open>Requests that nobody answers\<close>

text \<open>The message that a consumer publishes for the event consumers.\<close>

definition forwarded :: "'k stream_env \<Rightarrow> string \<Rightarrow> natsMsg \<Rightarrow> out_msg" where
  "forwarded env topic msg = \<lparr>om_Subject = topic, om_Reply = sn_newInbox env,
     om_Header = applyHeaders [] (forwarded_headers (sn_uuid env) (clientID_of msg)), om_Data = nm_Data msg\<rparr>"

lemma forward_request_calls:
  "forward_request env topic timeout msg = Some fx \<Longrightarrow> NatsCalls calls \<in> set fx \<Longrightarrow> calls = [PublishMsg (forwarded env topic msg)]"
  by (auto simp: forward_request_def PublishWithReply_def forwarded_def Let_def split: option.splits bind_splits
      dest!: poll_reply_effects)

text \<open>
  An unauthorized signing request is redelivered instead of being answered: no event consumer
  replies to it, so that the signing consumer gives it back at its deadline without a result for
  the client, and JetStream delivers it again. The inbox holds only what was published to it.
\<close>

lemma unauthorized_signing_redelivered:
  assumes "json_Unmarshal SignTxMessage_fields zero_SignTxMessage (nm_Data msg) = Inr req"
    and "\<forall>(env', rn, ec) \<in> nodes. keys_loaded (cx_net env') \<and> \<not> authorized (cx_net env') (SignTx req)"
    and "\<forall>i. sn_next env i = PollMsg \<longrightarrow> (\<exists>(env', rn, ec) \<in> nodes. \<exists>ec' fx data.
          handleSigningEvent env' rn (received (forwarded env MPCSignEvent msg)) ec = Returns (ec', fx) \<and>
          ReplyPublish (sn_newInbox env) data \<in> set fx)"
    and "AreMajorityReady (sn_registry env)"
    and "sc_handleSigningEvent sc env msg = Some fx"
  shows "settlements fx = [Nak] \<and> (\<forall>s b k. StreamEnqueue s b k \<notin> set fx)"
proof -
  have data: "nm_Data (received (forwarded env MPCSignEvent msg)) = nm_Data msg"
    by (simp add: received_def forwarded_def)
  have silent: "handleSigningEvent env' rn (received (forwarded env MPCSignEvent msg)) ec = Returns (ec, [])"
    if "(env', rn, ec) \<in> nodes" for env' rn ec
  proof (rule unauthorized_silent)
    show "keys_loaded (cx_net env')" using that assms(2) by auto
    show "\<not> authorized (cx_net env') (SignTx m)"
      if "json_Unmarshal SignTxMessage_fields zero_SignTxMessage (nm_Data (received (forwarded env MPCSignEvent msg))) = Inr m" for m
      using that assms(1,2) \<open>(env', rn, ec) \<in> nodes\<close> unfolding data by auto
  qed
  have "sn_next env i \<noteq> PollMsg" for i
    using assms(3) silent by fastforce
  then have "\<not> answered (sn_next env) (sn_clock env) d 0" for d
    by (auto simp: answered_def)
  moreover have run: "forward_request env MPCSignEvent signingResponseTimeout msg = Some fx"
    using assms by (simp add: sc_handleSigningEvent_def Let_def)
  ultimately have "settlements fx = [Nak]"
    using forward_request_settles [OF run] by simp
  moreover have "StreamEnqueue s b k \<notin> set fx" for s b k
    using run by (auto simp: forward_request_def Let_def split: option.splits sum.splits prod.splits bind_splits
        dest: poll_reply_effects)
  ultimately show ?thesis by blast
qed

definition quiet_node :: "(unit, nat, unit) consumer_env \<times> SignatureData run \<times>
    (unit, bytes \<Rightarrow> bytes option, string \<Rightarrow> bytes option, nat) eventConsumer" where
  "quiet_node = (demo_env ''alice'', \<lparr>rn_events = [], rn_errors = [], rn_errFirst = False\<rparr>,
     demo_consumer ''alice'' wallet_kv wallet_ki)"

section \<open>Requests that were delivered too often\<close>

text \<open>
  The result that the timeout consumer makes of a signing request that was delivered too often is
  addressed to the client of the request and names its wallet, transaction and network. It is
  decoded from the bytes of the request, whose signature by the initiator it therefore carries as
  the signature of the result.
\<close>

lemma timeout_result_of_request:
  assumes "json_Unmarshal advisory_fields \<lparr>av_Stream = [], av_StreamSeq = 0\<rparr> data =
      Inr \<lparr>av_Stream = SigningPublisherStream, av_StreamSeq = n\<rparr>"
    and "GetMsg SigningPublisherStream n = Inr stored"
    and "nm_Data stored = json_Marshal (enc_SignTxMessage m)"
  shows "\<exists>b. tc_advisory None GetMsg data = Returns [StreamEnqueue (SigningResultSubject (clientID_of stored)) b
        (''mpc.mpc_signing_result.'' @ ScopedOperationID (clientID_of stored) (st_TxID m))] \<and>
      OnSignResult b = Inr \<lparr>sr_ResultType = ResultTypeError, sr_ErrorCode = ErrorCodeMaxDeliveryAttempts,
        sr_ErrorReason = ''Signing failed: maximum delivery attempts exceeded'', sr_IsTimeout = True,
        sr_NetworkInternalCode = st_NetworkInternalCode m, sr_WalletID = st_WalletID m, sr_TxID = st_TxID m,
        sr_R = [], sr_S = [], sr_SignatureRecovery = [], sr_Signature = to_list (st_Signature m)\<rparr>"
proof -
  define r where "r = \<lparr>sr_ResultType = ResultTypeError, sr_ErrorCode = ErrorCodeMaxDeliveryAttempts,
        sr_ErrorReason = ''Signing failed: maximum delivery attempts exceeded'', sr_IsTimeout = True,
        sr_NetworkInternalCode = st_NetworkInternalCode m, sr_WalletID = st_WalletID m, sr_TxID = st_TxID m,
        sr_R = [], sr_S = [], sr_SignatureRecovery = [], sr_Signature = to_list (st_Signature m)\<rparr>"
  have "tc_advisory None GetMsg data = Returns [StreamEnqueue (SigningResultSubject (clientID_of stored))
      (json_Marshal (enc_SigningResultEvent r)) (''mpc.mpc_signing_result.'' @ ScopedOperationID (clientID_of stored) (st_TxID m))]"
    by (simp add: tc_advisory_def assms request_as_result r_def Let_def)
  moreover have "OnSignResult (json_Marshal (enc_SigningResultEvent r)) = Inr r"
    by (rule OnSignResult_enc) (simp_all add: r_def named_code_def)
  ultimately show ?thesis unfolding r_def by blast
qed

section \<open>Consumers of the streams\<close>

fun consumer_call_ok :: "nats_call \<Rightarrow> bool" where
  "consumer_call_ok (CreateOrUpdateConsumer stream cc) =
     (cc_Durable cc = cc_Name cc \<and> set (cc_Name cc) \<inter> replaced_name_chars = {} \<and>
      sanitizeConsumerName (cc_Name cc) = cc_Name cc \<and> cc_AckPolicy cc = AckExplicitPolicy \<and> length (cc_FilterSubjects cc) = 1)"
| "consumer_call_ok (Consume name) = (set name \<inter> replaced_name_chars = {} \<and> sanitizeConsumerName name = name)"
| "consumer_call_ok (Fetch name n wait) = (set name \<inter> replaced_name_chars = {} \<and> sanitizeConsumerName name = name)"
| "consumer_call_ok _ = False"

text \<open>
  Subscriptions, fetches and queues address consumers that are durable under their own name, settled
  explicitly, and have one filter. The name is a fixed point of the sanitizing, so that a restart, or
  a caller that passes the name on, addresses the same consumer. An empty name stays empty and makes
  the consumer ephemeral, and characters that the function does not replace, like slashes or tabs, stay.
\<close>

lemma consumers_well_formed:
  "list_all consumer_call_ok (snd (CreateSubscription js cfg name subject)) \<and>
   list_all consumer_call_ok (snd (FetchMessages js batch cfg name subject n handler)) \<and>
   list_all consumer_call_ok (snd (NewMessageQueue js queue name subject))"
  by (simp add: CreateSubscription_def FetchMessages_def NewMessageQueue_def consumer_config_def sanitize_safe
      sanitize_idem Let_def split: option.splits)

end
