(* ===== verification/Worker_Properties.thy ===== *)
theory Worker_Properties
  imports Workers Stream_Properties
begin

text \<open>
  Properties of the workers of the event consumer: the bounds on handlers and buffers, and the
  refinement of a bounded queue.
\<close>

text \<open>
  (C33) A worker never runs more handlers at a time than its configured limit, and what it accepted but
  has not started is at most its buffer and one request. At start-up only a positive limit is
  possible: zero stands for the default and a negative limit panics.
\<close>

theorem worker_bounds:
  assumes "startSigningEventWorker (NewEventConsumer viper node) = Returns ws \<and> worker_reach ws s"
    and "startKeyGenEventWorker (NewEventConsumer viper node) = Returns wk \<and> worker_reach wk k"
  shows "0 < ec_maxConcurrentSigning (NewEventConsumer viper node) \<and> 0 < ec_maxConcurrentKeygen (NewEventConsumer viper node) \<and>
    int (length (wk_running s)) \<le> ec_maxConcurrentSigning (NewEventConsumer viper node) \<and>
    int (length (wk_running k)) \<le> ec_maxConcurrentKeygen (NewEventConsumer viper node) \<and>
    length (accepted s) \<le> length (wk_started s) + 201 \<and> length (accepted k) \<le> length (wk_started k) + 101"
proof -
  have pos: "0 < ec_maxConcurrentSigning (NewEventConsumer viper node)" "0 < ec_maxConcurrentKeygen (NewEventConsumer viper node)"
    using assms by (auto simp: startSigningEventWorker_def startKeyGenEventWorker_def make_worker_def
        NewEventConsumer_def Let_def DefaultConcurrentKeygen_def DefaultConcurrentSigning_def split: if_splits)
  have b: "int (length (wk_running w)) \<le> n \<and> length (accepted w) \<le> length (wk_started w) + Suc cap"
    if "make_worker cap n = Returns w0" and "worker_reach w0 w" and "0 < n" for cap n and w0 w :: "'z worker"
    using worker_reach_inv [OF that(2) worker_inv_init [OF that(1)]] that(1,3)
    by (auto simp: worker_inv_def accepted_def make_worker_def split: if_splits option.splits)
  from b [of 200 "ec_maxConcurrentSigning (NewEventConsumer viper node)" ws s]
    b [of 100 "ec_maxConcurrentKeygen (NewEventConsumer viper node)" wk k] assms pos
  show ?thesis by (simp add: startSigningEventWorker_def startKeyGenEventWorker_def)
qed

definition no_config :: "string \<Rightarrow> int" where
  "no_config k = 0"

definition idle_worker :: "nat \<Rightarrow> nat \<Rightarrow> nat worker" where
  "idle_worker cap n = \<lparr>wk_buffer = [], wk_cap = cap, wk_max = n, wk_held = None, wk_slots = 0, wk_running = [],
     wk_started = [], wk_closed = False, wk_subscribed = True, wk_exited = False\<rparr>"

lemma demo_workers:
  "startSigningEventWorker (NewEventConsumer no_config (demo_node ''alice'' empty_kv empty_ki)) = Returns (idle_worker 200 20)"
  "startKeyGenEventWorker (NewEventConsumer no_config (demo_node ''alice'' empty_kv empty_ki)) = Returns (idle_worker 100 2)"
  by (simp_all add: startSigningEventWorker_def startKeyGenEventWorker_def make_worker_def NewEventConsumer_def
      Let_def no_config_def DefaultConcurrentKeygen_def DefaultConcurrentSigning_def idle_worker_def)

definition busy_worker :: "nat worker" where
  "busy_worker = (idle_worker 200 20)\<lparr>wk_slots := 1, wk_running := [7], wk_started := [7]\<rparr>"

lemma busy_reached: "worker_reach (idle_worker 200 20) busy_worker"
proof -
  let ?w = "idle_worker 200 20"
  have 1: "worker_reach ?w (?w\<lparr>wk_buffer := [7]\<rparr>)"
    using worker_reach.step [OF worker_reach.init worker_step.deliver, of ?w 7] by (simp add: idle_worker_def)
  have 2: "worker_reach ?w (?w\<lparr>wk_held := Some 7\<rparr>)"
    using worker_reach.step [OF 1 worker_step.receive, of 7 "[]"] by (simp add: idle_worker_def)
  show ?thesis
    using worker_reach.step [OF 2 worker_step.start, of 7] by (simp add: idle_worker_def busy_worker_def)
qed

theorem worker_bounds_witness:
  "worker_reach (idle_worker 200 20) busy_worker \<and>
   int (length (wk_running busy_worker)) \<le> ec_maxConcurrentSigning (NewEventConsumer no_config (demo_node ''alice'' empty_kv empty_ki))"
  using worker_bounds [OF conjI [OF demo_workers(1) busy_reached] conjI [OF demo_workers(2) worker_reach.init]] busy_reached
  by blast

text \<open>
  (C32) A worker refines a queue with a bounded number of running elements: each of its steps is a step
  of the queue or invisible. Requests start in the order in which they were accepted, none is lost
  or started twice, and a worker that exited has started all of them.
\<close>

theorem worker_refines_queue:
  assumes "startSigningEventWorker ec = Returns w0 \<or> startKeyGenEventWorker ec = Returns w0"
    and "worker_reach w0 w" and "worker_step w w'"
  shows "(queue_of w' = queue_of w \<or> queue_step (wk_max w0) (queue_of w) (queue_of w')) \<and>
    accepted w = wk_started w @ q_waiting (queue_of w) \<and>
    (\<exists>ms. accepted w' = accepted w @ ms \<and> length ms \<le> 1) \<and> (wk_exited w \<longrightarrow> wk_started w = accepted w)"
proof -
  have "worker_inv w0"
    using assms(1) worker_inv_init by (auto simp: startSigningEventWorker_def startKeyGenEventWorker_def)
  with worker_reach_inv [OF assms(2)] have inv: "worker_inv w" and m: "wk_max w = wk_max w0" by auto
  have "\<exists>ms. accepted w' = accepted w @ ms \<and> length ms \<le> 1"
    using accepted_step [OF assms(3)] by auto
  moreover have "accepted w = wk_started w @ q_waiting (queue_of w)"
    by (simp add: accepted_def queue_of_def)
  ultimately show ?thesis
    using worker_refines [OF assms(3) inv] m exited_started [OF inv] by simp
qed

theorem worker_refines_queue_witness:
  "queue_step 20 (queue_of busy_worker) (queue_of (busy_worker\<lparr>wk_running := [], wk_slots := 0\<rparr>))"
proof -
  have s: "worker_step busy_worker (busy_worker\<lparr>wk_running := [], wk_slots := 0\<rparr>)"
    using worker_step.finish [of 7 busy_worker] by (simp add: busy_worker_def)
  show ?thesis
    using worker_refines_queue [OF disjI1 [OF demo_workers(1)] busy_reached s]
    by (simp add: queue_of_def busy_worker_def idle_worker_def)
qed

end
