(* ===== verification/Wallet_Chain.thy ===== *)
theory Wallet_Chain
  imports Client
begin

text \<open>
  The wallet service (\<^verbatim>\<open>wallet-api/pkg/transaction\<close>): chains and tokens, nonces, the transaction
  that is signed, and the assembly of the signed transaction.

  go-ethereum and Redis are outside of the sources. What the code calls of them are the records
  \<open>eth\<close> and \<open>redis\<close>; \<open>redis_ok\<close> states the documented behaviour of the four Redis commands on a
  counter that does not expire meanwhile. A transaction of go-ethereum has the abstract type
  \<open>'tx\<close>.
\<close>

section \<open>Chains and tokens\<close>

definition tokenAddresses :: "(string \<times> (string \<times> string) list) list" where
  "tokenAddresses =
     [(''ethereum'', [(''USDC'', ''0xA0b86991c6218b36c1d19D4a2e9Eb0cE3606eB48''),
                      (''USDT'', ''0xdAC17F958D2ee523a2206206994597C13D831ec7'')]),
      (''polygon'', [(''USDC'', ''0x3c499c542cEF5E3811e1192ce70d8cC03d5c3359''),
                     (''USDT'', ''0xc2132D05D31c914a87C6611C10748AEb04B58e8F'')]),
      (''arbitrum'', [(''USDC'', ''0xaf88d065e77c8cC2239327C5EDb3A432268e5831''),
                      (''USDT'', ''0xFd086bC7CD5C481DCC9C85ebE478A1C0b69FCbb9'')]),
      (''base'', [(''USDC'', ''0x833589fCD6eDb6E08f4c7C32D4f71b54bdA02913'')]),
      (''optimism'', [(''USDC'', ''0x0b2C639c533813f4Aa9D7837CAf62653d097Ff85''),
                      (''USDT'', ''0x94b008aA00579c1307B0EF2c499aD98a8ce58e58'')])]"

definition chainIDs :: "(string \<times> int) list" where
  "chainIDs = [(''ethereum'', 1), (''polygon'', 137), (''arbitrum'', 42161), (''base'', 8453), (''optimism'', 10)]"

definition TokenAddress :: "(string \<Rightarrow> bytes) \<Rightarrow> string \<Rightarrow> string \<Rightarrow> bytes res" where
  "TokenAddress HexToAddress chain0 token0 =
     (let chain = to_lower chain0; tok = to_upper token0 in
      case map_of tokenAddresses chain of
        None \<Rightarrow> Inl (ENew (''unknown chain: '' @ chain))
      | Some tokens \<Rightarrow>
          (case map_of tokens tok of
             None \<Rightarrow> Inl (ENew (''unsupported token '' @ tok @ '' on '' @ chain))
           | Some addr \<Rightarrow> Inr (HexToAddress addr)))"

definition ChainID :: "string \<Rightarrow> int res" where
  "ChainID chain =
     (case map_of chainIDs (to_lower chain) of
        None \<Rightarrow> Inl (ENew (''unknown chain: '' @ chain))
      | Some i \<Rightarrow> Inr i)"

definition TokenDecimals :: "string \<Rightarrow> 8 word" where
  "TokenDecimals tok = 6"

record AlchemyURLs =
  al_Eth :: string
  al_Polygon :: string
  al_Arbitrum :: string
  al_Base :: string
  al_Optimism :: string

definition chain_url :: "AlchemyURLs \<Rightarrow> string \<Rightarrow> string option" where
  "chain_url cfg chain =
     (let c = to_lower chain in
      if c = ''ethereum'' then Some (al_Eth cfg)
      else if c = ''polygon'' then Some (al_Polygon cfg)
      else if c = ''arbitrum'' then Some (al_Arbitrum cfg)
      else if c = ''base'' then Some (al_Base cfg)
      else if c = ''optimism'' then Some (al_Optimism cfg)
      else None)"

section \<open>Libraries\<close>

record DynamicFeeTx =
  dt_ChainID :: int
  dt_Nonce :: "64 word"
  dt_GasTipCap :: int
  dt_GasFeeCap :: int
  dt_Gas :: "64 word"
  dt_To :: "bytes option"
  dt_Value :: int
  dt_Data :: bytes

record 'tx eth =
  et_HexToAddress :: "string \<Rightarrow> bytes"
  et_Hex :: "bytes \<Rightarrow> string"
  et_PackTransfer :: "bytes \<Rightarrow> int option \<Rightarrow> bytes res"
  et_NewTx :: "DynamicFeeTx \<Rightarrow> 'tx"
  et_inner :: "'tx \<Rightarrow> DynamicFeeTx"
  et_SigningHash :: "int \<Rightarrow> 'tx \<Rightarrow> bytes"
  et_MarshalBinary :: "'tx \<Rightarrow> bytes res"
  et_UnmarshalBinary :: "bytes \<Rightarrow> 'tx res"
  et_WithSignature :: "int \<Rightarrow> 'tx \<Rightarrow> bytes \<Rightarrow> 'tx res"
  et_Hash :: "'tx \<Rightarrow> string"

record 'r redis =
  rd_Exists :: "'r \<Rightarrow> string \<Rightarrow> int"
  rd_SetNX :: "'r \<Rightarrow> string \<Rightarrow> int \<Rightarrow> 'r"
  rd_Incr :: "'r \<Rightarrow> string \<Rightarrow> ('r \<times> int) res"
  rd_Decr :: "'r \<Rightarrow> string \<Rightarrow> 'r"
  rd_value :: "'r \<Rightarrow> string \<Rightarrow> int option"

text \<open>
  The documented behaviour of the commands on a counter, for a server that answers and a value that
  stays below the limit of 64 bits with sign, at which INCR fails. What \<^verbatim>\<open>nextNonce\<close> does when INCR
  fails is part of its definition below, and does not depend on this law.
\<close>

definition redis_ok :: "'r redis \<Rightarrow> bool" where
  "redis_ok R \<longleftrightarrow> (\<forall>r k.
     (rd_Exists R r k = (if rd_value R r k = None then 0 else 1)) \<and>
     (\<forall>v. rd_value R (rd_SetNX R r k v) = (if rd_value R r k = None then (rd_value R r)(k \<mapsto> v) else rd_value R r)) \<and>
     (\<exists>r'. let n = (case rd_value R r k of None \<Rightarrow> 0 | Some v \<Rightarrow> v) + 1 in
        rd_Incr R r k = Inr (r', n) \<and> rd_value R r' = (rd_value R r)(k \<mapsto> n)) \<and>
     rd_value R (rd_Decr R r k) =
       (rd_value R r)(k \<mapsto> (case rd_value R r k of None \<Rightarrow> 0 | Some v \<Rightarrow> v) - 1))"

section \<open>Nonces\<close>

definition nonce_key :: "(bytes \<Rightarrow> string) \<Rightarrow> string \<Rightarrow> bytes \<Rightarrow> string" where
  "nonce_key Hex chain addr = ''nonce:'' @ chain @ '':'' @ to_lower (Hex addr)"

text \<open>\<^verbatim>\<open>strconv.ParseUint\<close> of the decimal form of a number: an error when it is negative.\<close>

definition parse_uint64 :: "int \<Rightarrow> 64 word res" where
  "parse_uint64 n =
     (if 0 \<le> n \<and> n < 2 ^ 64 then Inr (word_of_int n)
      else Inl (ENew (''strconv.ParseUint: parsing '' @ itoa n @ '': invalid syntax'')))"

definition nextNonce ::
  "'tx eth \<Rightarrow> 'r redis \<Rightarrow> (bytes \<Rightarrow> 64 word res) \<Rightarrow> string \<Rightarrow> bytes \<Rightarrow> 'r \<Rightarrow> 'r \<times> 64 word res" where
  "nextNonce E R PendingNonceAt chain addr r =
     (let key = nonce_key (et_Hex E) chain addr;
          seeded = (if rd_Exists R r key = 0
                    then (case PendingNonceAt addr of
                            Inl e \<Rightarrow> Inl (EWrap ''rpc nonce: '' e [])
                          | Inr rpcNonce \<Rightarrow> Inr (rd_SetNX R r key (uint rpcNonce)))
                    else Inr r)
      in case seeded of
           Inl e \<Rightarrow> (r, Inl e)
         | Inr r1 \<Rightarrow>
             (case rd_Incr R r1 key of
                Inl e \<Rightarrow> (r1, Inl (EWrap ''redis incr nonce: '' e []))
              | Inr (r2, n) \<Rightarrow> (r2, parse_uint64 (n - 1))))"

definition ReleaseNonce :: "'tx eth \<Rightarrow> 'r redis \<Rightarrow> string \<Rightarrow> bytes \<Rightarrow> 'r \<Rightarrow> 'r" where
  "ReleaseNonce E R chain addr r = rd_Decr R r (nonce_key (et_Hex E) chain addr)"

section \<open>Building and assembling\<close>

record BuildResult =
  br_SigningHash :: bytes
  br_UnsignedTxRLP :: bytes
  br_Nonce :: "64 word"
  br_ChainID :: int

record rpc =
  rp_Dial :: "string \<Rightarrow> gerror option"
  rp_PendingNonceAt :: "bytes \<Rightarrow> 64 word res"
  rp_SuggestGasTipCap :: "int res"
  rp_SendTransaction :: "bytes \<Rightarrow> gerror option"

definition clientForChain :: "AlchemyURLs \<Rightarrow> rpc \<Rightarrow> string \<Rightarrow> unit res" where
  "clientForChain cfg rpc chain =
     (case chain_url cfg chain of
        None \<Rightarrow> Inl (ENew (''builder: unknown chain: '' @ chain))
      | Some url \<Rightarrow>
          (case rp_Dial rpc url of
             Some e \<Rightarrow> Inl (EWrap (''builder: dial '' @ chain @ '': '') e [])
           | None \<Rightarrow> Inr ()))"

definition erc20_tx :: "int \<Rightarrow> 64 word \<Rightarrow> int \<Rightarrow> bytes \<Rightarrow> bytes \<Rightarrow> DynamicFeeTx" where
  "erc20_tx chainID nonce gasTip tokenAddr calldata =
     \<lparr>dt_ChainID = chainID, dt_Nonce = nonce, dt_GasTipCap = gasTip, dt_GasFeeCap = gasTip + 20000000000,
      dt_Gas = 65000, dt_To = Some tokenAddr, dt_Value = 0, dt_Data = calldata\<rparr>"

definition BuildERC20Transfer ::
  "'tx eth \<Rightarrow> 'r redis \<Rightarrow> AlchemyURLs \<Rightarrow> rpc \<Rightarrow> string \<Rightarrow> string \<Rightarrow> bytes \<Rightarrow> bytes \<Rightarrow> int option \<Rightarrow> 'r \<Rightarrow>
   'r \<times> BuildResult res" where
  "BuildERC20Transfer E R cfg rpc chain tok fromAddress toAddress amount r =
     (case clientForChain cfg rpc chain of
        Inl e \<Rightarrow> (r, Inl e)
      | Inr _ \<Rightarrow>
     (case ChainID chain of
        Inl e \<Rightarrow> (r, Inl e)
      | Inr chainID \<Rightarrow>
     (case TokenAddress (et_HexToAddress E) chain tok of
        Inl e \<Rightarrow> (r, Inl e)
      | Inr tokenAddr \<Rightarrow>
     (case nextNonce E R (rp_PendingNonceAt rpc) chain fromAddress r of
        (r1, Inl e) \<Rightarrow> (r1, Inl (EWrap ''builder: nonce: '' e []))
      | (r1, Inr nonce) \<Rightarrow>
          (let gasTip = (case rp_SuggestGasTipCap rpc of Inl _ \<Rightarrow> 1000000000 | Inr g \<Rightarrow> g) in
           case et_PackTransfer E toAddress amount of
             Inl e \<Rightarrow> (r1, Inl (EWrap ''builder: ABI pack: '' e []))
           | Inr calldata \<Rightarrow>
               (let tx = et_NewTx E (erc20_tx chainID nonce gasTip tokenAddr calldata) in
                case et_MarshalBinary E tx of
                  Inl e \<Rightarrow> (r1, Inl (EWrap ''builder: marshal unsigned tx: '' e []))
                | Inr unsignedRLP \<Rightarrow>
                    (r1, Inr \<lparr>br_SigningHash = et_SigningHash E chainID tx, br_UnsignedTxRLP = unsignedRLP,
                       br_Nonce = nonce, br_ChainID = chainID\<rparr>)))))))"

definition padLeft :: "bytes \<Rightarrow> nat \<Rightarrow> bytes" where
  "padLeft b n =
     (if length b \<ge> n then drop (length b - n) b else replicate (n - length b) 0 @ b)"

definition sig65 :: "bytes \<Rightarrow> bytes \<Rightarrow> bytes \<Rightarrow> bytes" where
  "sig65 r s recovery = padLeft r 32 @ padLeft s 32 @ [and (last recovery) 1]"

definition AssembleSignedTx :: "'tx eth \<Rightarrow> bytes \<Rightarrow> bytes \<Rightarrow> bytes \<Rightarrow> bytes \<Rightarrow> int \<Rightarrow> bytes res" where
  "AssembleSignedTx E unsignedTxRLP r s recovery chainID =
     (case et_UnmarshalBinary E unsignedTxRLP of
        Inl e \<Rightarrow> Inl (EWrap ''assembler: unmarshal unsigned tx: '' e [])
      | Inr tx \<Rightarrow>
          if r = [] \<or> s = [] \<or> recovery = [] then Inl (ENew ''assembler: missing signature components'')
          else
            (case et_WithSignature E chainID tx (sig65 r s recovery) of
               Inl e \<Rightarrow> Inl (EWrap ''assembler: WithSignature: '' e [])
             | Inr stx \<Rightarrow>
                 (case et_MarshalBinary E stx of
                    Inl e \<Rightarrow> Inl (EWrap ''assembler: marshal signed tx: '' e [])
                  | Inr signedRLP \<Rightarrow> Inr signedRLP)))"

definition urlForChain :: "AlchemyURLs \<Rightarrow> string \<Rightarrow> string res" where
  "urlForChain cfg chain =
     (case chain_url cfg chain of
        None \<Rightarrow> Inl (ENew (''broadcaster: unknown chain: '' @ chain))
      | Some url \<Rightarrow> Inr url)"

definition BroadcastTx :: "'tx eth \<Rightarrow> AlchemyURLs \<Rightarrow> rpc \<Rightarrow> string \<Rightarrow> bytes \<Rightarrow> string res \<times> bytes list" where
  "BroadcastTx E cfg rpc chain signedTxRLP =
     (case urlForChain cfg chain of
        Inl e \<Rightarrow> (Inl e, [])
      | Inr url \<Rightarrow>
     (case rp_Dial rpc url of
        Some e \<Rightarrow> (Inl (EWrap (''broadcaster: dial '' @ chain @ '': '') e []), [])
      | None \<Rightarrow>
     (case et_UnmarshalBinary E signedTxRLP of
        Inl e \<Rightarrow> (Inl (EWrap ''broadcaster: unmarshal tx: '' e []), [])
      | Inr tx \<Rightarrow>
          (case rp_SendTransaction rpc signedTxRLP of
             Some e \<Rightarrow> (Inl (EWrap ''broadcaster: send tx: '' e []), [signedTxRLP])
           | None \<Rightarrow> (Inr (et_Hash E tx), [signedTxRLP])))))"

end
