(* ===== verification/Wallet_Service.thy ===== *)
theory Wallet_Service
  imports Wallet_Chain
begin

text \<open>
  \<^verbatim>\<open>wallet-api/pkg/transaction/service.go\<close>: sending, cancelling and speeding up transfers over the
  table \<^verbatim>\<open>transactions\<close>.

  The table is a map from identifiers to rows; each SQL statement of the source is a function on it,
  applied unless the database answers with an error (\<open>sv_db\<close>). The wait for a signature ends with one
  of the three cases of the \<^verbatim>\<open>select\<close>. What leaves the service is the list of its effects.
\<close>

section \<open>Transactions\<close>

datatype Status =
    StatusDraft | StatusPolicyCheck | StatusSigning | StatusSigned | StatusBroadcast | StatusConfirmed | StatusFailed

fun status_string :: "Status \<Rightarrow> string" where
  "status_string StatusDraft = ''draft''"
| "status_string StatusPolicyCheck = ''policy_check''"
| "status_string StatusSigning = ''signing''"
| "status_string StatusSigned = ''signed''"
| "status_string StatusBroadcast = ''broadcast''"
| "status_string StatusConfirmed = ''confirmed''"
| "status_string StatusFailed = ''failed''"

record tx_row =
  tr_WalletID :: string
  tr_TxID :: string
  tr_Chain :: string
  tr_Token :: string
  tr_ToAddress :: string
  tr_AmountRaw :: string
  tr_Status :: Status
  tr_MpcErrorCode :: string
  tr_UnsignedRLP :: bytes
  tr_SignedRLP :: "bytes option"
  tr_TxHash :: "string option"
  tr_BlockNumber :: "int option"
  tr_CreatedAt :: string

record Tx =
  tx_ID :: string
  tx_WalletID :: string
  tx_TxID :: string
  tx_Chain :: string
  tx_Token :: string
  tx_ToAddress :: string
  tx_AmountRaw :: string
  tx_Status :: string
  tx_TxHash :: string
  tx_BlockNumber :: int
  tx_CreatedAt :: string

definition scan_tx :: "string \<Rightarrow> tx_row \<Rightarrow> Tx" where
  "scan_tx i row = \<lparr>tx_ID = i, tx_WalletID = tr_WalletID row, tx_TxID = tr_TxID row, tx_Chain = tr_Chain row,
     tx_Token = tr_Token row, tx_ToAddress = tr_ToAddress row, tx_AmountRaw = tr_AmountRaw row,
     tx_Status = status_string (tr_Status row),
     tx_TxHash = (case tr_TxHash row of None \<Rightarrow> [] | Some h \<Rightarrow> h),
     tx_BlockNumber = (case tr_BlockNumber row of None \<Rightarrow> 0 | Some n \<Rightarrow> n), tx_CreatedAt = tr_CreatedAt row\<rparr>"

record SendRequest =
  sq_WalletID :: string
  sq_Chain :: string
  sq_Token :: string
  sq_ToAddress :: string
  sq_Amount :: "int option"

type_synonym tx_table = "(string, tx_row) gomap"

section \<open>Statements\<close>

datatype stmt =
    UpdateStatus Status
  | SaveSignedRLP
  | SaveTxHash
  | MarkCancelled
  | SelectTx
  | SelectOriginal
  | ConfirmStmt

datatype wait_result =
    SignResult SigningResultEvent
  | SignTimeout
  | CtxEnded gerror

datatype send_effect =
    SubmitSigning SignTxMessage
  | Broadcast bytes

record 'r wstate =
  ws_table :: tx_table
  ws_redis :: 'r

record ('tx, 'r) send_env =
  sv_eth :: "'tx eth"
  sv_redis :: "'r redis"
  sv_urls :: AlchemyURLs
  sv_rpc :: rpc
  sv_insert :: "tx_row \<Rightarrow> gerror option"
  sv_db :: "stmt \<Rightarrow> gerror option"
  sv_submit :: "SignTxMessage \<Rightarrow> gerror option"
  sv_wait :: "SignTxMessage \<Rightarrow> wait_result"
  sv_uuid :: string
  sv_rowID :: string
  sv_now :: string

text \<open>\<^verbatim>\<open>big.Int\<close>: its decimal form, and \<^verbatim>\<open>SetString\<close> at base 10.\<close>

definition bigint_String :: "int option \<Rightarrow> string" where
  "bigint_String n = (case n of None \<Rightarrow> ''<nil>'' | Some i \<Rightarrow> itoa i)"

definition bigint_SetString :: "string \<Rightarrow> int option" where
  "bigint_SetString s =
     (let neg = (s \<noteq> [] \<and> hd s = CHR ''-''); ds = (if s \<noteq> [] \<and> hd s \<in> {CHR ''-'', CHR ''+''} then tl s else s) in
      if ds \<noteq> [] \<and> list_all is_digit ds then Some (if neg then - int (digits_value ds) else int (digits_value ds))
      else None)"

text \<open>The database checks the row that it is given: the amount is a number, the identifier is new.\<close>

definition insertDraft ::
  "('tx, 'r) send_env \<Rightarrow> SendRequest \<Rightarrow> string \<Rightarrow> bytes \<Rightarrow> 'r wstate \<Rightarrow> 'r wstate \<times> Tx res" where
  "insertDraft env req txID unsignedRLP s =
     (let row = \<lparr>tr_WalletID = sq_WalletID req, tr_TxID = txID, tr_Chain = sq_Chain req, tr_Token = sq_Token req,
            tr_ToAddress = sq_ToAddress req, tr_AmountRaw = bigint_String (sq_Amount req), tr_Status = StatusDraft,
            tr_MpcErrorCode = [], tr_UnsignedRLP = unsignedRLP, tr_SignedRLP = None, tr_TxHash = None,
            tr_BlockNumber = None, tr_CreatedAt = sv_now env\<rparr>
      in case sv_insert env row of
           Some e \<Rightarrow> (s, Inl e)
         | None \<Rightarrow> (s\<lparr>ws_table := AList.update (sv_rowID env) row (ws_table s)\<rparr>, Inr (scan_tx (sv_rowID env) row)))"

text \<open>An \<^verbatim>\<open>UPDATE\<close> of the row with a given identifier; it changes nothing when there is none.\<close>

definition update_row :: "(tx_row \<Rightarrow> tx_row) \<Rightarrow> string \<Rightarrow> tx_table \<Rightarrow> tx_table" where
  "update_row f i t = map (\<lambda>(k, row). (k, if k = i then f row else row)) t"

definition updateStatus :: "('tx, 'r) send_env \<Rightarrow> string \<Rightarrow> Status \<Rightarrow> string \<Rightarrow> 'r wstate \<Rightarrow> 'r wstate \<times> unit res" where
  "updateStatus env i status mpcErr s =
     (case sv_db env (UpdateStatus status) of
        Some e \<Rightarrow> (s, Inl e)
      | None \<Rightarrow>
          (s\<lparr>ws_table := update_row (\<lambda>row. row\<lparr>tr_Status := status, tr_MpcErrorCode := mpcErr\<rparr>) i (ws_table s)\<rparr>, Inr ()))"

definition saveSignedRLP :: "('tx, 'r) send_env \<Rightarrow> string \<Rightarrow> bytes \<Rightarrow> 'r wstate \<Rightarrow> 'r wstate" where
  "saveSignedRLP env i rlp s =
     (case sv_db env SaveSignedRLP of
        Some e \<Rightarrow> s
      | None \<Rightarrow> s\<lparr>ws_table := update_row (\<lambda>row. row\<lparr>tr_SignedRLP := Some rlp\<rparr>) i (ws_table s)\<rparr>)"

definition saveTxHash :: "('tx, 'r) send_env \<Rightarrow> string \<Rightarrow> string \<Rightarrow> 'r wstate \<Rightarrow> 'r wstate \<times> unit res" where
  "saveTxHash env i hash s =
     (case sv_db env SaveTxHash of
        Some e \<Rightarrow> (s, Inl e)
      | None \<Rightarrow> (s\<lparr>ws_table := update_row (\<lambda>row. row\<lparr>tr_TxHash := Some hash\<rparr>) i (ws_table s)\<rparr>, Inr ()))"

text \<open>\<^verbatim>\<open>ConfirmTx\<close> changes every row with the hash, whatever its status.\<close>

definition ConfirmTx :: "('tx, 'r) send_env \<Rightarrow> string \<Rightarrow> int \<Rightarrow> 'r wstate \<Rightarrow> 'r wstate \<times> unit res" where
  "ConfirmTx env txHash blockNumber s =
     (case sv_db env ConfirmStmt of
        Some e \<Rightarrow> (s, Inl e)
      | None \<Rightarrow>
          (s\<lparr>ws_table := map (\<lambda>(k, row). (k, if tr_TxHash row = Some txHash
             then row\<lparr>tr_Status := StatusConfirmed, tr_TxHash := Some txHash, tr_BlockNumber := Some blockNumber\<rparr>
             else row)) (ws_table s)\<rparr>, Inr ()))"

definition GetTx :: "('tx, 'r) send_env \<Rightarrow> string \<Rightarrow> string \<Rightarrow> 'r wstate \<Rightarrow> Tx res" where
  "GetTx env txDBID walletID s =
     (case sv_db env SelectTx of
        Some e \<Rightarrow> Inl (EWrap ''tx: get: '' e [])
      | None \<Rightarrow>
          (case map_of (ws_table s) txDBID of
             None \<Rightarrow> Inl (EWrap ''tx: get: '' (ESentinel ''no rows in result set'') [])
           | Some row \<Rightarrow>
               if tr_WalletID row = walletID then Inr (scan_tx txDBID row)
               else Inl (EWrap ''tx: get: '' (ESentinel ''no rows in result set'') [])))"

text \<open>
  \<open>newest_first\<close> is the ordering of the database by \<^verbatim>\<open>created_at\<close>, descending.
\<close>

definition ListByWallet ::
  "('tx, 'r) send_env \<Rightarrow> ((string \<times> tx_row) list \<Rightarrow> (string \<times> tx_row) list) \<Rightarrow> string \<Rightarrow> 'r wstate \<Rightarrow> Tx list res" where
  "ListByWallet env newest_first walletID s =
     (case sv_db env SelectTx of
        Some e \<Rightarrow> Inl (EWrap ''tx: list by wallet: '' e [])
      | None \<Rightarrow> Inr (map (\<lambda>(k, row). scan_tx k row)
          (take 50 (newest_first (filter (\<lambda>(k, row). tr_WalletID row = walletID) (ws_table s))))))"

section \<open>Sending\<close>

definition fail_tx :: "('tx, 'r) send_env \<Rightarrow> string \<Rightarrow> string \<Rightarrow> 'r wstate \<Rightarrow> 'r wstate" where
  "fail_tx env i reason s = fst (updateStatus env i StatusFailed reason s)"

definition release :: "('tx, 'r) send_env \<Rightarrow> string \<Rightarrow> string \<Rightarrow> 'r wstate \<Rightarrow> 'r wstate" where
  "release env chain fromAddress s =
     s\<lparr>ws_redis := ReleaseNonce (sv_eth env) (sv_redis env) chain (et_HexToAddress (sv_eth env) fromAddress) (ws_redis s)\<rparr>"

definition sign_msg :: "string \<Rightarrow> string \<Rightarrow> string \<Rightarrow> bytes \<Rightarrow> SignTxMessage" where
  "sign_msg mpcWalletID chain txID hash =
     \<lparr>st_KeyType = KeyTypeSecp256k1, st_WalletID = mpcWalletID, st_NetworkInternalCode = chain, st_TxID = txID,
      st_Tx = Some hash, st_Signature = None, st_DerivationPath = [], st_AuthorizerSignatures = []\<rparr>"

text \<open>Steps 5 and 6 of \<^verbatim>\<open>Send\<close>: the signature is there.\<close>

definition send_signed ::
  "('tx, 'r) send_env \<Rightarrow> SendRequest \<Rightarrow> BuildResult \<Rightarrow> Tx \<Rightarrow> SigningResultEvent \<Rightarrow> 'r wstate \<Rightarrow>
   'r wstate \<times> send_effect list \<times> Tx res" where
  "send_signed env req br tx sg s0 =
     (let i = tx_ID tx;
          s1 = fst (updateStatus env i StatusSigned [] s0)
      in case AssembleSignedTx (sv_eth env) (br_UnsignedTxRLP br) (sr_R sg) (sr_S sg) (sr_SignatureRecovery sg) (br_ChainID br) of
           Inl e \<Rightarrow> (fail_tx env i (Error e) s1, [], Inl (EWrap ''send: assemble tx: '' e []))
         | Inr signedRLP \<Rightarrow>
             (let s2 = saveSignedRLP env i signedRLP s1 in
              case BroadcastTx (sv_eth env) (sv_urls env) (sv_rpc env) (sq_Chain req) signedRLP of
                (Inl e, sent) \<Rightarrow> (fail_tx env i (Error e) s2, map Broadcast sent, Inl (EWrap ''send: broadcast: '' e []))
              | (Inr txHash, sent) \<Rightarrow>
                  (let s3 = fst (saveTxHash env i txHash s2);
                       s4 = fst (updateStatus env i StatusBroadcast [] s3)
                   in (s4, map Broadcast sent,
                       Inr (tx\<lparr>tx_Status := status_string StatusBroadcast, tx_TxHash := txHash\<rparr>)))))"

text \<open>Steps 3 and 4: the signature is requested and awaited.\<close>

definition send_submit ::
  "('tx, 'r) send_env \<Rightarrow> SendRequest \<Rightarrow> string \<Rightarrow> BuildResult \<Rightarrow> Tx \<Rightarrow> SignTxMessage \<Rightarrow> 'r wstate \<Rightarrow>
   'r wstate \<times> send_effect list \<times> Tx res" where
  "send_submit env req fromAddress br tx signMsg s =
     (let give_up = (\<lambda>reason. release env (sq_Chain req) fromAddress (fail_tx env (tx_ID tx) reason s)) in
      case sv_submit env signMsg of
        Some e \<Rightarrow> (give_up (Error e), [SubmitSigning signMsg], Inl (EWrap ''send: submit signing: '' e []))
      | None \<Rightarrow>
          (case sv_wait env signMsg of
             SignTimeout \<Rightarrow> (give_up ''signing timeout'', [SubmitSigning signMsg], Inl (ENew ''send: signing timed out''))
           | CtxEnded e \<Rightarrow> (s, [SubmitSigning signMsg], Inl e)
           | SignResult sg \<Rightarrow>
               if sr_ResultType sg \<noteq> ResultTypeSuccess
               then (give_up (sr_ErrorReason sg), [SubmitSigning signMsg],
                     Inl (ENew (''send: signing failed: '' @ sr_ErrorReason sg @ '' ('' @
                       error_code_string (sr_ErrorCode sg) @ '')'')))
               else (case send_signed env req br tx sg s of
                       (s, fx, res) \<Rightarrow> (s, SubmitSigning signMsg # fx, res))))"

definition Send ::
  "('tx, 'r) send_env \<Rightarrow> SendRequest \<Rightarrow> string \<Rightarrow> string \<Rightarrow> 'r wstate \<Rightarrow> 'r wstate \<times> send_effect list \<times> Tx res" where
  "Send env req mpcWalletID fromAddress s0 =
     (let E = sv_eth env; from = et_HexToAddress E fromAddress; txID = sv_uuid env in
      case BuildERC20Transfer E (sv_redis env) (sv_urls env) (sv_rpc env) (sq_Chain req) (sq_Token req) from
             (et_HexToAddress E (sq_ToAddress req)) (sq_Amount req) (ws_redis s0) of
        (r, Inl e) \<Rightarrow> (s0\<lparr>ws_redis := r\<rparr>, [], Inl (EWrap ''send: build tx: '' e []))
      | (r, Inr br) \<Rightarrow>
          (case insertDraft env req txID (br_UnsignedTxRLP br) (s0\<lparr>ws_redis := r\<rparr>) of
             (s, Inl e) \<Rightarrow> (release env (sq_Chain req) fromAddress s, [], Inl (EWrap ''send: insert draft: '' e []))
           | (s, Inr tx) \<Rightarrow>
               (case updateStatus env (tx_ID tx) StatusSigning [] s of
                  (s, Inl e) \<Rightarrow> (s, [], Inl e)
                | (s, Inr _) \<Rightarrow>
                    send_submit env req fromAddress br tx
                      (sign_msg mpcWalletID (sq_Chain req) txID (br_SigningHash br)) s)))"

section \<open>Replacing a transaction\<close>

text \<open>20\<^verbatim>\<open>%\<close> more, by the Euclidean division of \<^verbatim>\<open>big.Int\<close>.\<close>

definition bump :: "int \<Rightarrow> int" where
  "bump n = n * 120 div 100"

definition load_unsigned :: "('tx, 'r) send_env \<Rightarrow> string \<Rightarrow> string \<Rightarrow> 'r wstate \<Rightarrow> bytes res" where
  "load_unsigned env txDBID walletID s =
     (case sv_db env SelectTx of
        Some e \<Rightarrow> Inl e
      | None \<Rightarrow>
          (case map_of (ws_table s) txDBID of
             None \<Rightarrow> Inl (ESentinel ''no rows in result set'')
           | Some row \<Rightarrow>
               if tr_WalletID row = walletID \<and> tr_Status row \<in> {StatusBroadcast, StatusSigned}
               then Inr (tr_UnsignedRLP row) else Inl (ESentinel ''no rows in result set'')))"

text \<open>
  From the draft on, cancelling and speeding up take the same steps; \<open>name\<close> is the word in their
  error texts and \<open>on_done\<close> what follows a broadcast.
\<close>

definition replace_tx ::
  "('tx, 'r) send_env \<Rightarrow> string \<Rightarrow> ('r wstate \<Rightarrow> 'r wstate) \<Rightarrow> string \<Rightarrow> string \<Rightarrow> int \<Rightarrow> bytes \<Rightarrow> bytes \<Rightarrow> Tx \<Rightarrow>
   'r wstate \<Rightarrow> 'r wstate \<times> send_effect list \<times> Tx res" where
  "replace_tx env name on_done mpcWalletID chain chainID hash unsignedRLP newTx s0 =
     (let i = tx_ID newTx;
          s = fst (updateStatus env i StatusSigning [] s0);
          msg = sign_msg mpcWalletID chain (sv_uuid env) hash
      in case sv_submit env msg of
           Some e \<Rightarrow> (fail_tx env i (Error e) s, [SubmitSigning msg], Inl e)
         | None \<Rightarrow>
             (case sv_wait env msg of
                SignTimeout \<Rightarrow> (s, [SubmitSigning msg], Inl (ENew (name @ '': signing timed out'')))
              | CtxEnded e \<Rightarrow> (s, [SubmitSigning msg], Inl e)
              | SignResult sg \<Rightarrow>
                  if sr_ResultType sg \<noteq> ResultTypeSuccess
                  then (fail_tx env i (sr_ErrorReason sg) s, [SubmitSigning msg],
                        Inl (ENew (name @ '' signing failed: '' @ sr_ErrorReason sg)))
                  else
                    (case AssembleSignedTx (sv_eth env) unsignedRLP (sr_R sg) (sr_S sg) (sr_SignatureRecovery sg) chainID of
                       Inl e \<Rightarrow> (s, [SubmitSigning msg], Inl e)
                     | Inr signedRLP \<Rightarrow>
                         (let s2 = saveSignedRLP env i signedRLP s in
                          case BroadcastTx (sv_eth env) (sv_urls env) (sv_rpc env) chain signedRLP of
                            (Inl e, sent) \<Rightarrow> (fail_tx env i (Error e) s2, SubmitSigning msg # map Broadcast sent, Inl e)
                          | (Inr txHash, sent) \<Rightarrow>
                              (let s3 = fst (saveTxHash env i txHash s2);
                                   s4 = on_done (fst (updateStatus env i StatusBroadcast [] s3))
                               in (s4, SubmitSigning msg # map Broadcast sent,
                                   Inr (newTx\<lparr>tx_Status := status_string StatusBroadcast, tx_TxHash := txHash\<rparr>)))))))"

definition mark_cancelled :: "('tx, 'r) send_env \<Rightarrow> string \<Rightarrow> 'r wstate \<Rightarrow> 'r wstate" where
  "mark_cancelled env i s =
     (case sv_db env MarkCancelled of
        Some e \<Rightarrow> s
      | None \<Rightarrow> s\<lparr>ws_table := update_row (\<lambda>row. row\<lparr>tr_Status := StatusFailed, tr_MpcErrorCode := ''cancelled_by_user''\<rparr>) i (ws_table s)\<rparr>)"

text \<open>The error of \<^verbatim>\<open>MarshalBinary\<close> is dropped, which leaves nil bytes.\<close>

definition marshal_or_nil :: "'tx eth \<Rightarrow> 'tx \<Rightarrow> bytes" where
  "marshal_or_nil E tx = (case et_MarshalBinary E tx of Inl e \<Rightarrow> [] | Inr b \<Rightarrow> b)"

definition CancelTx ::
  "('tx, 'r) send_env \<Rightarrow> string \<Rightarrow> string \<Rightarrow> string \<Rightarrow> string \<Rightarrow> string \<Rightarrow> 'r wstate \<Rightarrow>
   'r wstate \<times> send_effect list \<times> Tx res" where
  "CancelTx env txDBID walletID fromAddress mpcWalletID chain s =
     (let E = sv_eth env in
      case load_unsigned env txDBID walletID s of
        Inl e \<Rightarrow> (s, [], Inl (EWrap ''cancel: load tx: '' e []))
      | Inr unsignedRLP \<Rightarrow>
     (case et_UnmarshalBinary E unsignedRLP of
        Inl e \<Rightarrow> (s, [], Inl (EWrap ''cancel: decode tx: '' e []))
      | Inr orig \<Rightarrow>
     (case ChainID chain of
        Inl e \<Rightarrow> (s, [], Inl e)
      | Inr chainID \<Rightarrow>
          (let cancelTx = et_NewTx E \<lparr>dt_ChainID = chainID, dt_Nonce = dt_Nonce (et_inner E orig),
                 dt_GasTipCap = bump (dt_GasTipCap (et_inner E orig)), dt_GasFeeCap = bump (dt_GasFeeCap (et_inner E orig)),
                 dt_Gas = 21000, dt_To = Some (et_HexToAddress E fromAddress), dt_Value = 0, dt_Data = []\<rparr>;
               unsigned = marshal_or_nil E cancelTx;
               req = \<lparr>sq_WalletID = walletID, sq_Chain = chain, sq_Token = ''USDC'', sq_ToAddress = fromAddress, sq_Amount = Some 0\<rparr>
           in case insertDraft env req (sv_uuid env) unsigned s of
                (s, Inl e) \<Rightarrow> (s, [], Inl (EWrap ''cancel: insert cancel tx: '' e []))
              | (s, Inr newTx) \<Rightarrow>
                  replace_tx env ''cancel'' (mark_cancelled env txDBID) mpcWalletID chain chainID
                    (et_SigningHash E chainID cancelTx) unsigned newTx s))))"

text \<open>
  The row of the original is read again for the draft. The error of that read is dropped, which
  leaves empty texts and no amount.
\<close>

definition original_context :: "('tx, 'r) send_env \<Rightarrow> string \<Rightarrow> 'r wstate \<Rightarrow> string \<times> string \<times> string" where
  "original_context env txDBID s =
     (case sv_db env SelectOriginal of
        Some e \<Rightarrow> ([], [], [])
      | None \<Rightarrow>
          (case map_of (ws_table s) txDBID of
             None \<Rightarrow> ([], [], [])
           | Some row \<Rightarrow> (tr_ToAddress row, tr_Token row, tr_AmountRaw row)))"

definition SpeedUpTx ::
  "('tx, 'r) send_env \<Rightarrow> string \<Rightarrow> string \<Rightarrow> string \<Rightarrow> string \<Rightarrow> 'r wstate \<Rightarrow> 'r wstate \<times> send_effect list \<times> Tx res" where
  "SpeedUpTx env txDBID walletID mpcWalletID chain s =
     (let E = sv_eth env in
      case load_unsigned env txDBID walletID s of
        Inl e \<Rightarrow> (s, [], Inl (EWrap ''speedup: load tx: '' e []))
      | Inr unsignedRLP \<Rightarrow>
     (case et_UnmarshalBinary E unsignedRLP of
        Inl e \<Rightarrow> (s, [], Inl (EWrap ''speedup: decode tx: '' e []))
      | Inr orig \<Rightarrow>
     (case ChainID chain of
        Inl e \<Rightarrow> (s, [], Inl e)
      | Inr chainID \<Rightarrow>
          (let inner = et_inner E orig;
               speedTx = et_NewTx E \<lparr>dt_ChainID = chainID, dt_Nonce = dt_Nonce inner,
                 dt_GasTipCap = bump (dt_GasTipCap inner), dt_GasFeeCap = bump (dt_GasFeeCap inner),
                 dt_Gas = dt_Gas inner, dt_To = dt_To inner, dt_Value = dt_Value inner, dt_Data = dt_Data inner\<rparr>;
               unsigned = marshal_or_nil E speedTx
           in case original_context env txDBID s of
                (toAddr, tok, amtStr) \<Rightarrow>
                  (case insertDraft env \<lparr>sq_WalletID = walletID, sq_Chain = chain, sq_Token = tok,
                          sq_ToAddress = toAddr, sq_Amount = bigint_SetString amtStr\<rparr> (sv_uuid env) unsigned s of
                     (s, Inl e) \<Rightarrow> (s, [], Inl e)
                   | (s, Inr newTx) \<Rightarrow>
                       replace_tx env ''speedup'' (\<lambda>s. s) mpcWalletID chain chainID
                         (et_SigningHash E chainID speedTx) unsigned newTx s)))))"

end
