(* ===== verification/Wallet_Accounts.thy ===== *)
theory Wallet_Accounts
  imports Wallet_Service
begin

text \<open>
  The rest of the wallet service: the client that waits for results of the cluster
  (\<^verbatim>\<open>wallet-api/pkg/mpc\<close>), wallets (\<^verbatim>\<open>pkg/wallet\<close>), the indexer with its event bus
  (\<^verbatim>\<open>pkg/indexer\<close>), users and tokens (\<^verbatim>\<open>pkg/auth\<close>), and the handlers of the HTTP interface
  (\<^verbatim>\<open>pkg/api\<close>).

  Tables are maps from identifiers to rows, as for transactions. A channel is a number; a result
  sent to it is an output of the step. JWT, bcrypt, HMAC and the curve are parameters.
\<close>

section \<open>Waiting for results of the cluster\<close>

record waiters =
  wt_keygen :: "(string, nat) gomap"
  wt_signing :: "(string, nat) gomap"
  wt_next :: nat

definition no_waiters :: waiters where
  "no_waiters = \<lparr>wt_keygen = [], wt_signing = [], wt_next = 0\<rparr>"

text \<open>\<open>publish\<close> answers the request that the client of \<^verbatim>\<open>pkg/client\<close> publishes.\<close>

definition wc_CreateWallet :: "(string \<Rightarrow> 'p res) \<Rightarrow> string \<Rightarrow> waiters \<Rightarrow> waiters \<times> nat res" where
  "wc_CreateWallet publish walletID w =
     (let ch = wt_next w; w1 = w\<lparr>wt_keygen := AList.update walletID ch (wt_keygen w), wt_next := Suc ch\<rparr> in
      case publish walletID of
        Inl e \<Rightarrow> (w1\<lparr>wt_keygen := AList.delete walletID (wt_keygen w1)\<rparr>, Inl (EWrap ''mpc: CreateWallet publish: '' e []))
      | Inr _ \<Rightarrow> (w1, Inr ch))"

definition wc_SignTransaction :: "(SignTxMessage \<Rightarrow> 'p res) \<Rightarrow> SignTxMessage \<Rightarrow> waiters \<Rightarrow> waiters \<times> nat res" where
  "wc_SignTransaction publish msg w =
     (let ch = wt_next w; w1 = w\<lparr>wt_signing := AList.update (st_TxID msg) ch (wt_signing w), wt_next := Suc ch\<rparr> in
      case publish msg of
        Inl e \<Rightarrow> (w1\<lparr>wt_signing := AList.delete (st_TxID msg) (wt_signing w1)\<rparr>, Inl (EWrap ''mpc: SignTransaction publish: '' e []))
      | Inr _ \<Rightarrow> (w1, Inr ch))"

definition handleKeygenResult :: "KeygenResultEvent \<Rightarrow> waiters \<Rightarrow> waiters \<times> nat option" where
  "handleKeygenResult ev w =
     (case map_of (wt_keygen w) (kr_WalletID ev) of
        None \<Rightarrow> (w, None)
      | Some ch \<Rightarrow> (w\<lparr>wt_keygen := AList.delete (kr_WalletID ev) (wt_keygen w)\<rparr>, Some ch))"

definition handleSignResult :: "SigningResultEvent \<Rightarrow> waiters \<Rightarrow> waiters \<times> nat option" where
  "handleSignResult ev w =
     (case map_of (wt_signing w) (sr_TxID ev) of
        None \<Rightarrow> (w, None)
      | Some ch \<Rightarrow> (w\<lparr>wt_signing := AList.delete (sr_TxID ev) (wt_signing w)\<rparr>, Some ch))"

text \<open>A run of the client: the channels that received a result, in order.\<close>

datatype waiter_op =
    OpCreate string bool
  | OpSign SignTxMessage bool
  | OpKeygenResult KeygenResultEvent
  | OpSignResult SigningResultEvent

definition answer :: "bool \<Rightarrow> unit res" where
  "answer ok = (if ok then Inr () else Inl (ENew ''publish''))"

fun waiter_step :: "waiter_op \<Rightarrow> waiters \<Rightarrow> waiters \<times> nat list" where
  "waiter_step (OpCreate i ok) w = (fst (wc_CreateWallet (\<lambda>_. answer ok) i w), [])"
| "waiter_step (OpSign m ok) w = (fst (wc_SignTransaction (\<lambda>_. answer ok) m w), [])"
| "waiter_step (OpKeygenResult ev) w =
     (case handleKeygenResult ev w of (w', None) \<Rightarrow> (w', []) | (w', Some ch) \<Rightarrow> (w', [ch]))"
| "waiter_step (OpSignResult ev) w =
     (case handleSignResult ev w of (w', None) \<Rightarrow> (w', []) | (w', Some ch) \<Rightarrow> (w', [ch]))"

fun waiter_run :: "waiter_op list \<Rightarrow> waiters \<Rightarrow> waiters \<times> nat list" where
  "waiter_run [] w = (w, [])"
| "waiter_run (x # xs) w =
     (let (w1, out) = waiter_step x w; (w2, out') = waiter_run xs w1 in (w2, out @ out'))"

section \<open>Wallets\<close>

record wallet_row =
  wr_UserID :: string
  wr_MPCWalletID :: string
  wr_Chain :: string
  wr_ECDSAPubKey :: bytes
  wr_Address :: string
  wr_DerivationPath :: string
  wr_CreatedAt :: string

record Wallet =
  wl_ID :: string
  wl_UserID :: string
  wl_MPCWalletID :: string
  wl_Chain :: string
  wl_Address :: string
  wl_DerivationPath :: string
  wl_CreatedAt :: string

type_synonym wallet_table = "(string, wallet_row) gomap"

definition scan_wallet :: "string \<Rightarrow> wallet_row \<Rightarrow> Wallet" where
  "scan_wallet i row = \<lparr>wl_ID = i, wl_UserID = wr_UserID row, wl_MPCWalletID = wr_MPCWalletID row, wl_Chain = wr_Chain row,
     wl_Address = wr_Address row, wl_DerivationPath = wr_DerivationPath row, wl_CreatedAt = wr_CreatedAt row\<rparr>"

record 'pk evm =
  ev_DecompressPubkey :: "bytes \<Rightarrow> 'pk res"
  ev_UnmarshalPubkey :: "bytes \<Rightarrow> 'pk res"
  ev_PubkeyToAddress :: "'pk \<Rightarrow> bytes"

definition address_text :: "'pk evm \<Rightarrow> 'pk \<Rightarrow> string" where
  "address_text V pub = to_lower (''0x'' @ hex_Encode (ev_PubkeyToAddress V pub))"

definition derivedEVMAddress :: "'pk evm \<Rightarrow> bytes \<Rightarrow> string res" where
  "derivedEVMAddress V pubKeyBytes =
     (let finish = (\<lambda>uncompressed. case ev_UnmarshalPubkey V uncompressed of
            Inl e \<Rightarrow> Inl (EWrap ''unmarshal pubkey: '' e [])
          | Inr pub \<Rightarrow> Inr (address_text V pub));
          n = length pubKeyBytes
      in if n = 64 then finish (4 # pubKeyBytes)
         else if n = 65 then finish pubKeyBytes
         else if n = 33 then
           (case ev_DecompressPubkey V pubKeyBytes of
              Inl e \<Rightarrow> Inl (EWrap ''decompress pubkey: '' e [])
            | Inr pub \<Rightarrow> Inr (address_text V pub))
         else Inl (ENew (''unexpected pubkey length '' @ itoa (int n) @ '' (expected 33, 64, or 65)'')))"

definition persistWallet ::
  "'pk evm \<Rightarrow> (wallet_row \<Rightarrow> gerror option) \<Rightarrow> string \<Rightarrow> string \<Rightarrow> string \<Rightarrow> string \<Rightarrow> string \<Rightarrow> KeygenResultEvent \<Rightarrow>
   wallet_table \<Rightarrow> wallet_table \<times> Wallet res" where
  "persistWallet V db_insert rowID now userID mpcWalletID chain r t =
     (case derivedEVMAddress V (kr_ECDSAPubKey r) of
        Inl e \<Rightarrow> (t, Inl (EWrap ''wallet: address derivation: '' e []))
      | Inr address \<Rightarrow>
          (let row = \<lparr>wr_UserID = userID, wr_MPCWalletID = mpcWalletID, wr_Chain = chain, wr_ECDSAPubKey = kr_ECDSAPubKey r,
                 wr_Address = address, wr_DerivationPath = [], wr_CreatedAt = now\<rparr>
           in case db_insert row of
                Some e \<Rightarrow> (t, Inl (EWrap ''wallet: db insert: '' e []))
              | None \<Rightarrow> (AList.update rowID row t,
                  Inr \<lparr>wl_ID = rowID, wl_UserID = userID, wl_MPCWalletID = mpcWalletID, wl_Chain = chain,
                    wl_Address = address, wl_DerivationPath = [], wl_CreatedAt = []\<rparr>)))"

datatype keygen_wait = KeygenResult KeygenResultEvent | KeygenTimeout | KeygenCtx gerror

definition ws_CreateWallet ::
  "'pk evm \<Rightarrow> (wallet_row \<Rightarrow> gerror option) \<Rightarrow> string \<Rightarrow> string \<Rightarrow> (string \<Rightarrow> gerror option) \<Rightarrow> keygen_wait \<Rightarrow> string \<Rightarrow>
   string \<Rightarrow> string \<Rightarrow> wallet_table \<Rightarrow> wallet_table \<times> Wallet res" where
  "ws_CreateWallet V db_insert rowID now submit wait mpcWalletID userID chain t =
     (case submit mpcWalletID of
        Some e \<Rightarrow> (t, Inl (EWrap ''wallet: trigger keygen: '' e []))
      | None \<Rightarrow>
          (case wait of
             KeygenResult r \<Rightarrow>
               if kr_ResultType r \<noteq> ResultTypeSuccess
               then (t, Inl (ENew (''wallet: keygen failed: '' @ kr_ErrorReason r @ '' ('' @ error_code_string (kr_ErrorCode r) @ '')'')))
               else persistWallet V db_insert rowID now userID mpcWalletID chain r t
           | KeygenTimeout \<Rightarrow> (t, Inl (ENew ''wallet: keygen timed out after 5m0s''))
           | KeygenCtx e \<Rightarrow> (t, Inl e)))"

text \<open>\<open>db_select\<close> is the answer of the database to the two identifiers, which are \<^verbatim>\<open>UUID\<close> columns.\<close>

definition GetWallet :: "(string \<Rightarrow> string \<Rightarrow> gerror option) \<Rightarrow> string \<Rightarrow> string \<Rightarrow> wallet_table \<Rightarrow> Wallet res" where
  "GetWallet db_select walletID userID t =
     (case db_select walletID userID of
        Some e \<Rightarrow> Inl (EWrap ''wallet: get: '' e [])
      | None \<Rightarrow>
          (case map_of t walletID of
             None \<Rightarrow> Inl (EWrap ''wallet: get: '' (ESentinel ''no rows in result set'') [])
           | Some row \<Rightarrow>
               if wr_UserID row = userID then Inr (scan_wallet walletID row)
               else Inl (EWrap ''wallet: get: '' (ESentinel ''no rows in result set'') [])))"

definition ListWallets ::
  "(string \<Rightarrow> gerror option) \<Rightarrow> ((string \<times> wallet_row) list \<Rightarrow> (string \<times> wallet_row) list) \<Rightarrow> string \<Rightarrow> wallet_table \<Rightarrow> Wallet list res" where
  "ListWallets query newest_first userID t =
     (case query userID of
        Some e \<Rightarrow> Inl (EWrap ''wallet: list: '' e [])
      | None \<Rightarrow> Inr (map (\<lambda>(k, row). scan_wallet k row) (newest_first (filter (\<lambda>(k, row). wr_UserID row = userID) t))))"

section \<open>Indexer\<close>

record SSEEvent =
  se_Type :: string
  se_TxHash :: string
  se_BlockNumber :: int
  se_Asset :: string
  se_RawValue :: string
  se_ToAddress :: string
  se_FromAddress :: string

text \<open>A client of the bus is a channel with a buffer of 16 events; \<^verbatim>\<open>Publish\<close> drops an event for a full one.\<close>

type_synonym sse_bus = "(nat, SSEEvent list) gomap"

definition sse_Publish :: "SSEEvent \<Rightarrow> sse_bus \<Rightarrow> sse_bus" where
  "sse_Publish ev b = map (\<lambda>(ch, buf). (ch, if length buf < 16 then buf @ [ev] else buf)) b"

definition sse_subscribe :: "nat \<Rightarrow> sse_bus \<Rightarrow> sse_bus" where
  "sse_subscribe ch b = AList.update ch [] b"

definition sse_unsubscribe :: "nat \<Rightarrow> sse_bus \<Rightarrow> sse_bus" where
  "sse_unsubscribe ch b = AList.delete ch b"

record alchemyActivity =
  aa_FromAddress :: string
  aa_ToAddress :: string
  aa_BlockNum :: string
  aa_Hash :: string
  aa_Asset :: string
  aa_RawValue :: string

text \<open>
  \<^verbatim>\<open>Sscanf\<close> with \<^verbatim>\<open>%x\<close>: white space, a sign, hexadecimal digits; without digits or out of range the
  number stays zero.
\<close>

definition scan_hex :: "string \<Rightarrow> int" where
  "scan_hex s0 =
     (let s = dropWhile is_space s0;
          neg = (s \<noteq> [] \<and> hd s = CHR ''-'');
          ds = takeWhile (\<lambda>c. hex_value c \<noteq> None) (if s \<noteq> [] \<and> hd s \<in> {CHR ''-'', CHR ''+''} then tl s else s);
          v = foldl (\<lambda>n c. n * 16 + (case hex_value c of None \<Rightarrow> 0 | Some d \<Rightarrow> int d)) 0 ds;
          n = (if neg then - v else v)
      in if ds \<noteq> [] \<and> - (2 ^ 63) \<le> n \<and> n < 2 ^ 63 then n else 0)"

definition parseHexInt :: "string \<Rightarrow> int" where
  "parseHexInt hex = (if length hex < 2 then 0 else scan_hex (drop 2 hex))"

definition verifySignature :: "(bytes \<Rightarrow> bytes \<Rightarrow> bytes) \<Rightarrow> string \<Rightarrow> bytes \<Rightarrow> string \<Rightarrow> bool" where
  "verifySignature hmac webhookSecret body sigHeader =
     (if webhookSecret = [] then True else hex_Encode (hmac (go_bytes webhookSecret) body) = sigHeader)"

record istate =
  is_tx :: tx_table
  is_wallets :: wallet_table
  is_cache :: "string \<Rightarrow> string option"
  is_bus :: sse_bus
  is_audit :: "(string \<times> bytes) list"

definition balance_key :: "string \<Rightarrow> string \<Rightarrow> string \<Rightarrow> string" where
  "balance_key network address asset = ''balance:'' @ network @ '':'' @ address @ '':'' @ asset"

definition managed :: "wallet_table \<Rightarrow> string \<Rightarrow> bool" where
  "managed t address \<longleftrightarrow> (\<exists>(k, row) \<in> set t. to_lower (wr_Address row) = to_lower address)"

definition received_event :: "alchemyActivity \<Rightarrow> SSEEvent" where
  "received_event a = \<lparr>se_Type = ''tx_received'', se_TxHash = aa_Hash a, se_BlockNumber = 0, se_Asset = aa_Asset a,
     se_RawValue = aa_RawValue a, se_ToAddress = aa_ToAddress a, se_FromAddress = aa_FromAddress a\<rparr>"

definition confirmed_event :: "string \<Rightarrow> int \<Rightarrow> SSEEvent" where
  "confirmed_event hash blockNum = \<lparr>se_Type = ''tx_confirmed'', se_TxHash = hash, se_BlockNumber = blockNum, se_Asset = [],
     se_RawValue = [], se_ToAddress = [], se_FromAddress = []\<rparr>"

text \<open>\<open>db\<close> answers the update; a failed lookup of the wallet finds none (\<open>lookup\<close>).\<close>

definition processActivity ::
  "gerror option \<Rightarrow> gerror option \<Rightarrow> alchemyActivity \<Rightarrow> string \<Rightarrow> istate \<Rightarrow> istate" where
  "processActivity lookup db a network s0 =
     (let s = (if aa_ToAddress a \<noteq> [] then
                 (let s1 = s0\<lparr>is_cache := (is_cache s0)(balance_key network (aa_ToAddress a) (aa_Asset a) := None)\<rparr> in
                  if lookup = None \<and> managed (is_wallets s1) (aa_ToAddress a)
                  then s1\<lparr>is_bus := sse_Publish (received_event a) (is_bus s1)\<rparr> else s1)
               else s0)
      in if aa_Hash a = [] then s
         else (let blockNum = parseHexInt (aa_BlockNum a) in
               case db of
                 Some e \<Rightarrow> s
               | None \<Rightarrow>
                   s\<lparr>is_tx := map (\<lambda>(k, row). (k,
                        if tr_TxHash row = Some (aa_Hash a) \<and> tr_Status row \<in> {StatusBroadcast, StatusSigned}
                        then row\<lparr>tr_Status := StatusConfirmed, tr_BlockNumber := Some blockNum\<rparr> else row)) (is_tx s),
                     is_bus := sse_Publish (confirmed_event (aa_Hash a) blockNum) (is_bus s)\<rparr>))"

text \<open>
  The webhook: \<open>read\<close> is the answer of reading the body, \<open>decode\<close> the payload in it (type, network
  and activities). The result is the HTTP status.
\<close>

definition HandleAlchemyWebhook ::
  "(bytes \<Rightarrow> bytes \<Rightarrow> bytes) \<Rightarrow> string \<Rightarrow> bytes res \<Rightarrow> string \<Rightarrow> (bytes \<Rightarrow> (string \<times> string \<times> alchemyActivity list) res) \<Rightarrow>
   gerror option \<Rightarrow> gerror option \<Rightarrow> gerror option \<Rightarrow> istate \<Rightarrow> istate \<times> nat" where
  "HandleAlchemyWebhook hmac secret read sigHeader decode audit lookup db s =
     (case read of
        Inl e \<Rightarrow> (s, 400)
      | Inr body \<Rightarrow>
          if \<not> verifySignature hmac secret body sigHeader then (s, 401)
          else
            (case decode body of
               Inl e \<Rightarrow> (s, 400)
             | Inr (typ, network, activities) \<Rightarrow>
                 (let s1 = (if audit = None then s\<lparr>is_audit := is_audit s @ [(typ, body)]\<rparr> else s) in
                  (fold (\<lambda>a s. processActivity lookup db a network s) activities s1, 204))))"

record rpcConfig =
  rf_eth :: string
  rf_polygon :: string
  rf_arbitrum :: string
  rf_base :: string
  rf_optimism :: string

definition rpcAndToken :: "(string \<Rightarrow> bytes) \<Rightarrow> rpcConfig \<Rightarrow> string \<Rightarrow> string \<Rightarrow> (string \<times> bytes) res" where
  "rpcAndToken HexToAddress rpc network asset =
     (let table = [(''ethereum'', [(''USDC'', (rf_eth rpc, ''0xA0b86991c6218b36c1d19D4a2e9Eb0cE3606eB48'')),
                                   (''USDT'', (rf_eth rpc, ''0xdAC17F958D2ee523a2206206994597C13D831ec7''))]),
                   (''polygon'', [(''USDC'', (rf_polygon rpc, ''0x3c499c542cEF5E3811e1192ce70d8cC03d5c3359'')),
                                  (''USDT'', (rf_polygon rpc, ''0xc2132D05D31c914a87C6611C10748AEb04B58e8F''))]),
                   (''arbitrum'', [(''USDC'', (rf_arbitrum rpc, ''0xaf88d065e77c8cC2239327C5EDb3A432268e5831'')),
                                   (''USDT'', (rf_arbitrum rpc, ''0xFd086bC7CD5C481DCC9C85ebE478A1C0b69FCbb9''))]),
                   (''base'', [(''USDC'', (rf_base rpc, ''0x833589fCD6eDb6E08f4c7C32D4f71b54bdA02913''))]),
                   (''optimism'', [(''USDC'', (rf_optimism rpc, ''0x0b2C639c533813f4Aa9D7837CAf62653d097Ff85'')),
                                   (''USDT'', (rf_optimism rpc, ''0x94b008aA00579c1307B0EF2c499aD98a8ce58e58''))])]
      in case map_of table (to_lower network) of
           None \<Rightarrow> Inl (ENew (''unknown network: '' @ network))
         | Some chain \<Rightarrow>
             (case map_of chain (to_upper asset) of
                None \<Rightarrow> Inl (ENew (''unknown asset: '' @ asset))
              | Some (url, addr) \<Rightarrow> Inr (url, HexToAddress addr)))"

text \<open>\<open>balanceOf\<close> is the call of the chain, the bytes of the result.\<close>

definition ethCallBalanceOf :: "(string \<Rightarrow> bytes \<Rightarrow> bytes \<Rightarrow> bytes res) \<Rightarrow> string \<Rightarrow> bytes \<Rightarrow> bytes \<Rightarrow> string res" where
  "ethCallBalanceOf balanceOf rpcURL tokenAddr holder =
     (case balanceOf rpcURL tokenAddr holder of
        Inl e \<Rightarrow> Inl e
      | Inr b \<Rightarrow> Inr (if b = [] then ''0'' else itoa (int (be_nat b))))"

definition GetBalance ::
  "(string \<Rightarrow> bytes) \<Rightarrow> rpcConfig \<Rightarrow> (string \<Rightarrow> bytes \<Rightarrow> bytes \<Rightarrow> bytes res) \<Rightarrow> string \<Rightarrow> string \<Rightarrow> string \<Rightarrow>
   istate \<Rightarrow> istate \<times> string res" where
  "GetBalance HexToAddress rpc balanceOf network address asset s =
     (let key = balance_key network address asset in
      case is_cache s key of
        Some cached \<Rightarrow> (s, Inr cached)
      | None \<Rightarrow>
          (case rpcAndToken HexToAddress rpc network asset of
             Inl e \<Rightarrow> (s, Inr ''0'')
           | Inr (rpcURL, tokenAddr) \<Rightarrow>
               if rpcURL = [] then (s, Inr ''0'')
               else
                 (case ethCallBalanceOf balanceOf rpcURL tokenAddr (HexToAddress address) of
                    Inl e \<Rightarrow> (s, Inr ''0'')
                  | Inr raw \<Rightarrow> (s\<lparr>is_cache := (is_cache s)(key := Some raw)\<rparr>, Inr raw))))"

end
