(* ===== verification/Wallet_Http.thy ===== *)
theory Wallet_Http
  imports Wallet_Accounts
begin

text \<open>
  The HTTP interface of the wallet service: users and tokens (\<^verbatim>\<open>wallet-api/pkg/auth\<close>), the two
  middlewares and the handlers (\<^verbatim>\<open>pkg/api\<close>). A handler maps the decoded request and the user of
  the context to a new state, the effects of the transaction service, and a response; a body that
  does not decode is an error of the request.
\<close>

section \<open>Users and tokens\<close>

record claims =
  cl_UserID :: string
  cl_Email :: string
  cl_ID :: string
  cl_IssuedAt :: int
  cl_ExpiresAt :: int

record authConfig =
  ah_JWTSecret :: string
  ah_TokenTTL :: int
  ah_RefreshTokenTTL :: int

record TokenPair =
  tp_AccessToken :: string
  tp_RefreshToken :: string
  tp_ExpiresIn :: int

text \<open>
  What the code uses of the JWT library and of bcrypt. \<open>jw_parse\<close> at a time checks the signature
  and the times; it sees the key only when the method of the token is an HMAC.
\<close>

record jwt =
  jw_SignedString :: "bytes \<Rightarrow> claims \<Rightarrow> string res"
  jw_hmac :: "string \<Rightarrow> bool"
  jw_parse :: "int \<Rightarrow> bytes \<Rightarrow> string \<Rightarrow> claims res"
  bc_Generate :: "bytes \<Rightarrow> bytes res"
  bc_Compare :: "bytes \<Rightarrow> bytes \<Rightarrow> gerror option"

definition jwt_ok :: "jwt \<Rightarrow> bool" where
  "jwt_ok J \<longleftrightarrow> (\<forall>secret c t now. jw_SignedString J secret c = Inr t \<longrightarrow>
     jw_hmac J t \<and> (now < cl_ExpiresAt c \<longrightarrow> jw_parse J now secret t = Inr c))"

definition token_claims :: "string \<Rightarrow> string \<Rightarrow> string \<Rightarrow> int \<Rightarrow> int \<Rightarrow> claims" where
  "token_claims userID email i now ttl =
     \<lparr>cl_UserID = userID, cl_Email = email, cl_ID = i, cl_IssuedAt = now, cl_ExpiresAt = now + ttl\<rparr>"

text \<open>\<open>ids\<close> are the identifiers of the two tokens; times and durations count seconds.\<close>

definition issueTokens ::
  "jwt \<Rightarrow> authConfig \<Rightarrow> int \<Rightarrow> string \<times> string \<Rightarrow> string \<Rightarrow> string \<Rightarrow> TokenPair res" where
  "issueTokens J cfg now ids userID email =
     (case jw_SignedString J (go_bytes (ah_JWTSecret cfg)) (token_claims userID email (fst ids) now (ah_TokenTTL cfg)) of
        Inl e \<Rightarrow> Inl (EWrap ''auth: sign access token: '' e [])
      | Inr access \<Rightarrow>
          (case jw_SignedString J (go_bytes (ah_JWTSecret cfg)) (token_claims userID email (snd ids) now (ah_RefreshTokenTTL cfg)) of
             Inl e \<Rightarrow> Inl (EWrap ''auth: sign refresh token: '' e [])
           | Inr refresh \<Rightarrow> Inr \<lparr>tp_AccessToken = access, tp_RefreshToken = refresh, tp_ExpiresIn = ah_TokenTTL cfg\<rparr>))"

definition ValidateToken :: "jwt \<Rightarrow> authConfig \<Rightarrow> int \<Rightarrow> string \<Rightarrow> string res" where
  "ValidateToken J cfg now tokenStr =
     (if \<not> jw_hmac J tokenStr
      then Inl (EWrap ''auth: invalid token: '' (ENew ''unexpected signing method'') [])
      else (case jw_parse J now (go_bytes (ah_JWTSecret cfg)) tokenStr of
              Inl e \<Rightarrow> Inl (EWrap ''auth: invalid token: '' e [])
            | Inr c \<Rightarrow> Inr (cl_UserID c)))"

record user_row =
  us_Email :: string
  us_PasswordHash :: bytes

type_synonym user_table = "(string, user_row) gomap"

definition auth_Register ::
  "jwt \<Rightarrow> authConfig \<Rightarrow> (user_row \<Rightarrow> gerror option) \<Rightarrow> string \<Rightarrow> int \<Rightarrow> string \<times> string \<Rightarrow> string \<Rightarrow> string \<Rightarrow>
   user_table \<Rightarrow> user_table \<times> TokenPair res" where
  "auth_Register J cfg db_insert rowID now ids email password t =
     (case bc_Generate J (go_bytes password) of
        Inl e \<Rightarrow> (t, Inl (EWrap ''auth: hash password: '' e []))
      | Inr hash \<Rightarrow>
          (let row = \<lparr>us_Email = email, us_PasswordHash = hash\<rparr> in
           case db_insert row of
             Some e \<Rightarrow> (t, Inl (EWrap ''auth: insert user: '' e []))
           | None \<Rightarrow> (AList.update rowID row t, issueTokens J cfg now ids rowID email)))"

definition auth_Login ::
  "jwt \<Rightarrow> authConfig \<Rightarrow> gerror option \<Rightarrow> int \<Rightarrow> string \<times> string \<Rightarrow> string \<Rightarrow> string \<Rightarrow> user_table \<Rightarrow> TokenPair res" where
  "auth_Login J cfg db_query now ids email password t =
     (case (if db_query = None then find (\<lambda>(i, row). us_Email row = email) t else None) of
        None \<Rightarrow> Inl (ENew ''auth: user not found'')
      | Some (userID, row) \<Rightarrow>
          (case bc_Compare J (us_PasswordHash row) (go_bytes password) of
             Some e \<Rightarrow> Inl (ENew ''auth: invalid credentials'')
           | None \<Rightarrow> issueTokens J cfg now ids userID email))"

section \<open>Responses\<close>

datatype body =
    JError string
  | JText string
  | JTokens TokenPair
  | JWallet Wallet
  | JWallets "Wallet list"
  | JBalances Wallet string string
  | JTx Tx
  | JTxs "Tx list"
  | JCluster "(string \<times> string) list" int int bool
  | JNoContent

type_synonym response = "nat \<times> body"

text \<open>The text of the errors that the middlewares write themselves.\<close>

definition error_json :: "string \<Rightarrow> string" where
  "error_json msg = json_render (JObj [(''error'', JStr msg)])"

definition writeError :: "nat \<Rightarrow> string \<Rightarrow> response" where
  "writeError status msg = (status, JError msg)"

section \<open>Middleware\<close>

text \<open>\<open>refuse\<close> builds the outcome of a refused request from its response.\<close>

definition Authenticate ::
  "jwt \<Rightarrow> authConfig \<Rightarrow> int \<Rightarrow> string \<Rightarrow> (response \<Rightarrow> 'o) \<Rightarrow> (string \<Rightarrow> 'o) \<Rightarrow> 'o" where
  "Authenticate J cfg now header refuse next_handler =
     (if \<not> prefix ''Bearer '' header then refuse (401, JText (error_json ''unauthorized''))
      else (case ValidateToken J cfg now (drop 7 header) of
              Inl e \<Rightarrow> refuse (401, JText (error_json ''invalid token''))
            | Inr userID \<Rightarrow> next_handler userID))"

text \<open>A handler behind the service token finds no user in the context, which reads as the empty text.\<close>

definition ServiceToken :: "string \<Rightarrow> string \<Rightarrow> (response \<Rightarrow> 'o) \<Rightarrow> (string \<Rightarrow> 'o) \<Rightarrow> 'o" where
  "ServiceToken expectedToken header refuse next_handler =
     (if expectedToken = [] then refuse (503, JText (error_json ''service auth not configured''))
      else if header \<noteq> expectedToken then refuse (401, JText (error_json ''invalid service token''))
      else next_handler [])"

section \<open>Handlers\<close>

record credentials =
  cd_Email :: string
  cd_Password :: string

definition AuthHandler_Register ::
  "(string \<Rightarrow> string \<Rightarrow> user_table \<Rightarrow> user_table \<times> TokenPair res) \<Rightarrow> credentials res \<Rightarrow> user_table \<Rightarrow> user_table \<times> response" where
  "AuthHandler_Register register decoded t =
     (case decoded of
        Inl e \<Rightarrow> (t, writeError 400 ''invalid request body'')
      | Inr req \<Rightarrow>
          if cd_Email req = [] \<or> cd_Password req = [] then (t, writeError 400 ''email and password required'')
          else (case register (cd_Email req) (cd_Password req) t of
                  (t', Inl e) \<Rightarrow> (t', writeError 409 (Error e))
                | (t', Inr tokens) \<Rightarrow> (t', (201, JTokens tokens))))"

definition AuthHandler_Login ::
  "(string \<Rightarrow> string \<Rightarrow> TokenPair res) \<Rightarrow> credentials res \<Rightarrow> response" where
  "AuthHandler_Login login decoded =
     (case decoded of
        Inl e \<Rightarrow> writeError 400 ''invalid request body''
      | Inr req \<Rightarrow>
          (case login (cd_Email req) (cd_Password req) of
             Inl e \<Rightarrow> writeError 401 ''invalid credentials''
           | Inr tokens \<Rightarrow> (200, JTokens tokens)))"

record transfer =
  tf_WalletID :: string
  tf_Token :: string
  tf_ToAddress :: string
  tf_Amount :: string

text \<open>The environment of the handlers: the transaction service, and the wallets they look up.\<close>

record ('tx, 'r) http_env =
  he_tx :: "('tx, 'r) send_env"
  he_select :: "string \<Rightarrow> string \<Rightarrow> gerror option"
  he_wallets :: wallet_table

definition TransactionHandler_Send ::
  "('tx, 'r) http_env \<Rightarrow> transfer res \<Rightarrow> string \<Rightarrow> 'r wstate \<Rightarrow> 'r wstate \<times> send_effect list \<times> response" where
  "TransactionHandler_Send env decoded userID s =
     (case decoded of
        Inl e \<Rightarrow> (s, [], writeError 400 ''invalid request body'')
      | Inr req \<Rightarrow>
          if tf_WalletID req = [] \<or> tf_Token req = [] \<or> tf_ToAddress req = [] \<or> tf_Amount req = []
          then (s, [], writeError 400 ''wallet_id, token, to_address, amount required'')
          else
            (case bigint_SetString (tf_Amount req) of
               None \<Rightarrow> (s, [], writeError 400 ''amount must be a decimal integer (raw token units)'')
             | Some amount \<Rightarrow>
                 (case GetWallet (he_select env) (tf_WalletID req) userID (he_wallets env) of
                    Inl e \<Rightarrow> (s, [], writeError 404 ''wallet not found'')
                  | Inr wlt \<Rightarrow>
                      (case Send (he_tx env) \<lparr>sq_WalletID = tf_WalletID req, sq_Chain = wl_Chain wlt,
                              sq_Token = tf_Token req, sq_ToAddress = tf_ToAddress req, sq_Amount = Some amount\<rparr>
                              (wl_MPCWalletID wlt) (wl_Address wlt) s of
                         (s', fx, Inl e) \<Rightarrow> (s', fx, writeError 500 (Error e))
                       | (s', fx, Inr tx) \<Rightarrow> (s', fx, (202, JTx tx))))))"

definition TransactionHandler_Cancel ::
  "('tx, 'r) http_env \<Rightarrow> string \<Rightarrow> string \<Rightarrow> string \<Rightarrow> 'r wstate \<Rightarrow> 'r wstate \<times> send_effect list \<times> response" where
  "TransactionHandler_Cancel env txID walletID userID s =
     (case GetWallet (he_select env) walletID userID (he_wallets env) of
        Inl e \<Rightarrow> (s, [], writeError 404 ''wallet not found'')
      | Inr wlt \<Rightarrow>
          (case CancelTx (he_tx env) txID walletID (wl_Address wlt) (wl_MPCWalletID wlt) (wl_Chain wlt) s of
             (s', fx, Inl e) \<Rightarrow> (s', fx, writeError 500 (Error e))
           | (s', fx, Inr tx) \<Rightarrow> (s', fx, (202, JTx tx))))"

definition TransactionHandler_SpeedUp ::
  "('tx, 'r) http_env \<Rightarrow> string \<Rightarrow> string \<Rightarrow> string \<Rightarrow> 'r wstate \<Rightarrow> 'r wstate \<times> send_effect list \<times> response" where
  "TransactionHandler_SpeedUp env txID walletID userID s =
     (case GetWallet (he_select env) walletID userID (he_wallets env) of
        Inl e \<Rightarrow> (s, [], writeError 404 ''wallet not found'')
      | Inr wlt \<Rightarrow>
          (case SpeedUpTx (he_tx env) txID walletID (wl_MPCWalletID wlt) (wl_Chain wlt) s of
             (s', fx, Inl e) \<Rightarrow> (s', fx, writeError 500 (Error e))
           | (s', fx, Inr tx) \<Rightarrow> (s', fx, (202, JTx tx))))"

definition TransactionHandler_Get :: "('tx, 'r) http_env \<Rightarrow> string \<Rightarrow> string \<Rightarrow> string \<Rightarrow> 'r wstate \<Rightarrow> response" where
  "TransactionHandler_Get env txDBID walletID userID s =
     (if walletID \<noteq> [] \<and> (case GetWallet (he_select env) walletID userID (he_wallets env) of Inl e \<Rightarrow> True | Inr _ \<Rightarrow> False)
      then writeError 404 ''wallet not found''
      else (case GetTx (he_tx env) txDBID walletID s of
              Inl e \<Rightarrow> writeError 404 ''transaction not found''
            | Inr tx \<Rightarrow> (200, JTx tx)))"

definition TransactionHandler_ListByWallet ::
  "('tx, 'r) http_env \<Rightarrow> ((string \<times> tx_row) list \<Rightarrow> (string \<times> tx_row) list) \<Rightarrow> string \<Rightarrow> string \<Rightarrow> 'r wstate \<Rightarrow> response" where
  "TransactionHandler_ListByWallet env newest_first walletID userID s =
     (case GetWallet (he_select env) walletID userID (he_wallets env) of
        Inl e \<Rightarrow> writeError 404 ''wallet not found''
      | Inr _ \<Rightarrow>
          (case ListByWallet (he_tx env) newest_first walletID s of
             Inl e \<Rightarrow> writeError 500 (Error e)
           | Inr txs \<Rightarrow> (200, JTxs txs)))"

definition WalletHandler_Create ::
  "(string \<Rightarrow> string \<Rightarrow> wallet_table \<Rightarrow> wallet_table \<times> Wallet res) \<Rightarrow> string res \<Rightarrow> string \<Rightarrow> wallet_table \<Rightarrow>
   wallet_table \<times> response" where
  "WalletHandler_Create create decoded userID t =
     (case decoded of
        Inl e \<Rightarrow> (t, writeError 400 ''chain required (ethereum|polygon)'')
      | Inr chain \<Rightarrow>
          if chain = [] then (t, writeError 400 ''chain required (ethereum|polygon)'')
          else (case create userID chain t of
                  (t', Inl e) \<Rightarrow> (t', writeError 500 (Error e))
                | (t', Inr wallet) \<Rightarrow> (t', (201, JWallet wallet))))"

definition WalletHandler_List :: "(string \<Rightarrow> Wallet list res) \<Rightarrow> string \<Rightarrow> response" where
  "WalletHandler_List list_wallets userID =
     (case list_wallets userID of
        Inl e \<Rightarrow> writeError 500 (Error e)
      | Inr wallets \<Rightarrow> (200, JWallets wallets))"

text \<open>\<open>balance\<close> is \<^verbatim>\<open>GetBalance\<close> of the indexer, whose errors are dropped.\<close>

definition WalletHandler_Get ::
  "('tx, 'r) http_env \<Rightarrow> (string \<Rightarrow> string \<Rightarrow> string \<Rightarrow> 'i \<Rightarrow> 'i \<times> string res) \<Rightarrow> string \<Rightarrow> string \<Rightarrow> 'i \<Rightarrow> 'i \<times> response" where
  "WalletHandler_Get env balance walletID userID i =
     (case GetWallet (he_select env) walletID userID (he_wallets env) of
        Inl e \<Rightarrow> (i, writeError 404 ''wallet not found'')
      | Inr wlt \<Rightarrow>
          (let (i1, usdc) = balance (wl_Chain wlt) (wl_Address wlt) ''USDC'' i;
               (i2, usdt) = balance (wl_Chain wlt) (wl_Address wlt) ''USDT'' i1;
               text_of = (\<lambda>r. case r of Inl _ \<Rightarrow> [] | Inr b \<Rightarrow> b)
           in (i2, (200, JBalances wlt (text_of usdc) (text_of usdt)))))"

definition ClusterHandler_Status :: "bool \<Rightarrow> (string \<Rightarrow> int) \<Rightarrow> string list \<Rightarrow> response" where
  "ClusterHandler_Status connected viper peer_names =
     (let threshold = viper ''mpc.threshold'';
          threshold = (if threshold = 0 then 2 else threshold);
          peerNames = (if peer_names = [] then [''node0'', ''node1'', ''node2''] else peer_names);
          status = (if connected then ''online'' else ''unknown'')
      in (200, JCluster (map (\<lambda>name. (name, status)) peerNames) threshold (int (length peerNames)) connected))"

end
