(* ===== verification/Paths.thy ===== *)
theory Paths
  imports Go_Prelude
begin

text \<open>
  Paths: \<^verbatim>\<open>Clean\<close>, \<^verbatim>\<open>Join\<close> and \<^verbatim>\<open>Abs\<close> of \<^verbatim>\<open>path/filepath\<close> on Unix, and the check of
  \<^verbatim>\<open>pkg/common/pathutil\<close> that a file stays inside of a directory. The working directory is a parameter.
\<close>

section \<open>path/filepath\<close>

definition is_rooted :: "string \<Rightarrow> bool" where
  "is_rooted s \<longleftrightarrow> s \<noteq> [] \<and> hd s = CHR ''/''"

text \<open>One component, on the stack of the components before it.\<close>

definition clean_step :: "bool \<Rightarrow> string list \<Rightarrow> string \<Rightarrow> string list" where
  "clean_step rooted st c =
     (if c = [] \<or> c = ''.'' then st
      else if c = ''..'' then
        (case st of [] \<Rightarrow> if rooted then [] else [''..''] | hi # rest \<Rightarrow> if hi = ''..'' then ''..'' # st else rest)
      else c # st)"

definition clean_parts :: "string \<Rightarrow> string list" where
  "clean_parts s = rev (foldl (clean_step (is_rooted s)) [] (str_split CHR ''/'' s))"

definition path_Clean :: "string \<Rightarrow> string" where
  "path_Clean s =
     (let body = str_join (clean_parts s) ''/'' in
      if is_rooted s then ''/'' @ body else if body = [] then ''.'' else body)"

definition path_Join :: "string \<Rightarrow> string \<Rightarrow> string" where
  "path_Join a b =
     (if a = [] \<and> b = [] then [] else if a = [] then path_Clean b else if b = [] then path_Clean a
      else path_Clean (a @ ''/'' @ b))"

definition path_Abs :: "string res \<Rightarrow> string \<Rightarrow> string res" where
  "path_Abs wd p = (if is_rooted p then Inr (path_Clean p) else bind_res wd (\<lambda>d. Inr (path_Join d p)))"

section \<open>Safe paths\<close>

definition SafePath :: "string res \<Rightarrow> string \<Rightarrow> string \<Rightarrow> string res" where
  "SafePath wd baseDir filename =
     (let cleanFilename = path_Clean filename in
      if str_contains cleanFilename ''..'' then Inl (ENew ''invalid filename: path traversal not allowed'')
      else
        (let fullPath = path_Join baseDir cleanFilename in
         case path_Abs wd baseDir of
           Inl e \<Rightarrow> Inl (EWrap ''failed to get absolute path for base directory: '' e [])
         | Inr absBase \<Rightarrow>
             (case path_Abs wd fullPath of
                Inl e \<Rightarrow> Inl (EWrap ''failed to get absolute path: '' e [])
              | Inr absPath \<Rightarrow>
                  if \<not> prefix absBase absPath then Inl (ENew ''path outside base directory not allowed'')
                  else Inr fullPath)))"

definition ValidateFilePath :: "string \<Rightarrow> unit res" where
  "ValidateFilePath filePath =
     (if str_contains (path_Clean filePath) ''..'' then Inl (ENew ''invalid file path: path traversal not allowed'')
      else Inr ())"

section \<open>Components\<close>

lemma str_split_app: "str_split d (a @ d # b) = str_split d a @ str_split d b"
proof (induction a)
  case (Cons c a)
  show ?case
  proof (cases "c = d")
    case False
    obtain p ps where "str_split d a = p # ps" using str_split_nonempty [of d a] by (cases "str_split d a") auto
    with False Cons show ?thesis by simp
  qed (use Cons in simp)
qed simp

lemma str_split_single: "d \<notin> set s \<Longrightarrow> str_split d s = [s]"
  by (induction s) auto

lemma str_split_parts: "c \<in> set (str_split d s) \<Longrightarrow> d \<notin> set c"
  by (induction s arbitrary: c) (auto split: list.splits if_splits)

lemma str_split_join:
  "ps \<noteq> [] \<Longrightarrow> (\<And>p. p \<in> set ps \<Longrightarrow> CHR ''/'' \<notin> set p) \<Longrightarrow> str_split CHR ''/'' (str_join ps ''/'') = ps"
proof (induction ps rule: induct_list012)
  case (3 p q ps)
  have "str_join (p # q # ps) ''/'' = p @ CHR ''/'' # str_join (q # ps) ''/''" by simp
  then show ?case using 3 by (simp only: str_split_app) (simp add: str_split_single)
qed (simp_all add: str_split_single)

definition normal :: "string \<Rightarrow> bool" where
  "normal c \<longleftrightarrow> c \<noteq> [] \<and> c \<noteq> ''.'' \<and> c \<noteq> ''..'' \<and> CHR ''/'' \<notin> set c"

fun ok_stack :: "bool \<Rightarrow> string list \<Rightarrow> bool" where
  "ok_stack r [] = True"
| "ok_stack r (c # st) = (ok_stack r st \<and> (normal c \<or> \<not> r \<and> c = ''..'' \<and> list_all (\<lambda>d. d = ''..'') st))"

lemma clean_step_normal [simp]: "normal c \<Longrightarrow> clean_step r st c = c # st"
  by (simp add: clean_step_def normal_def)

lemma ok_step: "ok_stack r st \<Longrightarrow> CHR ''/'' \<notin> set c \<Longrightarrow> ok_stack r (clean_step r st c)"
  by (cases st) (auto simp: clean_step_def normal_def)

lemma ok_fold: "ok_stack r st \<Longrightarrow> (\<And>c. c \<in> set xs \<Longrightarrow> CHR ''/'' \<notin> set c) \<Longrightarrow> ok_stack r (foldl (clean_step r) st xs)"
  by (induction xs arbitrary: st) (auto intro: ok_step)

lemma fold_ok: "ok_stack r st \<Longrightarrow> foldl (clean_step r) [] (rev st) = st"
proof (induction st)
  case (Cons c st)
  then show ?case by (cases st) (auto simp: clean_step_def normal_def)
qed simp

lemma fold_step:
  assumes "ok_stack False st" and "CHR ''/'' \<notin> set c"
  shows "foldl (clean_step r) t (rev (clean_step False st c)) = clean_step r (foldl (clean_step r) t (rev st)) c"
proof (cases "c = ''..'' \<and> st \<noteq> []")
  case True
  then obtain hi rest where st: "st = hi # rest" by (cases st) auto
  show ?thesis
  proof (cases "hi = ''..''")
    case False
    with assms(1) st have "normal hi" by simp
    with True st False show ?thesis by (simp add: clean_step_def [of _ _ "''..''"])
  qed (use True st in \<open>simp add: clean_step_def\<close>)
qed (auto simp: clean_step_def split: list.splits)

lemma fold_clean:
  "(\<And>c. c \<in> set xs \<Longrightarrow> CHR ''/'' \<notin> set c) \<Longrightarrow>
   foldl (clean_step r) t (rev (foldl (clean_step False) [] xs)) = foldl (clean_step r) t xs"
proof (induction xs rule: rev_induct)
  case (snoc c xs)
  then show ?case using fold_step [OF ok_fold [of False "[]" xs], of c r t] by simp
qed simp

lemma clean_parts_parts: "c \<in> set (clean_parts s) \<Longrightarrow> c \<noteq> [] \<and> c \<noteq> ''.'' \<and> CHR ''/'' \<notin> set c"
proof -
  have e: "c \<in> set st \<Longrightarrow> ok_stack r st \<Longrightarrow> c \<noteq> [] \<and> c \<noteq> ''.'' \<and> CHR ''/'' \<notin> set c" for r st
    by (induction st) (auto simp: normal_def)
  have "ok_stack (is_rooted s) (foldl (clean_step (is_rooted s)) [] (str_split CHR ''/'' s))"
    by (rule ok_fold) (auto dest: str_split_parts)
  then show "c \<in> set (clean_parts s) \<Longrightarrow> ?thesis" using e by (simp add: clean_parts_def)
qed

lemma fold_split_clean:
  "foldl (clean_step r) t (str_split CHR ''/'' (path_Clean s)) = foldl (clean_step r) t (clean_parts s)"
proof (cases "clean_parts s = []")
  case True
  then show ?thesis by (simp add: path_Clean_def clean_step_def)
next
  case False
  have sp: "str_split CHR ''/'' (str_join (clean_parts s) ''/'') = clean_parts s"
    by (rule str_split_join [OF False]) (use clean_parts_parts in blast)
  moreover have "str_join (clean_parts s) ''/'' \<noteq> []"
  proof
    assume "str_join (clean_parts s) ''/'' = []"
    with sp have "clean_parts s = [[]]" by simp
    with clean_parts_parts [of "[]" s] show False by simp
  qed
  ultimately show ?thesis by (simp add: path_Clean_def clean_step_def Let_def)
qed

lemma rooted_clean [simp]: "is_rooted (path_Clean s) = is_rooted s"
proof (cases "is_rooted s")
  case False
  show ?thesis
  proof (cases "clean_parts s")
    case (Cons c cs)
    with clean_parts_parts [of c s] obtain x c' where "c = x # c'" "x \<noteq> CHR ''/''" by (cases c) auto
    with Cons False show ?thesis by (cases cs) (auto simp: path_Clean_def is_rooted_def)
  qed (use False in \<open>simp add: path_Clean_def is_rooted_def\<close>)
qed (simp add: path_Clean_def is_rooted_def)

lemma clean_nonempty [simp]: "path_Clean s \<noteq> []"
  by (simp add: path_Clean_def Let_def)

lemma clean_clean [simp]: "clean_parts (path_Clean s) = clean_parts s"
proof -
  have "ok_stack (is_rooted s) (rev (clean_parts s))"
    unfolding clean_parts_def rev_rev_ident by (rule ok_fold) (auto dest: str_split_parts)
  from fold_ok [OF this] show ?thesis
    unfolding clean_parts_def [of "path_Clean s"] rooted_clean fold_split_clean by simp
qed

lemma parts_app:
  "a \<noteq> [] \<Longrightarrow> clean_parts (a @ CHR ''/'' # b) =
     rev (foldl (clean_step (is_rooted a)) (rev (clean_parts a)) (str_split CHR ''/'' b))"
  by (simp add: clean_parts_def str_split_app is_rooted_def)

lemma no_dots_fold:
  "''..'' \<notin> set xs \<Longrightarrow> foldl (clean_step r) st xs = rev (filter (\<lambda>c. c \<noteq> [] \<and> c \<noteq> ''.'') xs) @ st"
  by (induction xs arbitrary: st) (auto simp: clean_step_def)

lemma split_contains: "c \<in> set (str_split d s) \<Longrightarrow> str_contains s c"
proof (induction s arbitrary: c)
  case (Cons x s)
  obtain p ps where sp: "str_split d s = p # ps" using str_split_nonempty [of d s] by (cases "str_split d s") auto
  have "\<exists>v. s = p @ v"
    using arg_cong [OF sp, of hd] by (simp add: hd_str_split cut_before_def) (metis takeWhile_dropWhile_id)
  then obtain v where v: "s = p @ v" by blast
  from Cons.prems sp consider "c = []" | "c = x # p" | "c \<in> set (str_split d s)"
    by (auto split: if_splits)
  then show ?case
  proof cases
    case 2
    with v have "x # s = [] @ c @ v" by simp
    then show ?thesis unfolding str_contains_iff by blast
  next
    case 3
    from Cons.IH [OF this] obtain u w where "s = u @ c @ w" by (auto simp: str_contains_iff)
    then have "x # s = (x # u) @ c @ w" by simp
    then show ?thesis unfolding str_contains_iff by blast
  next
    case 1
    have "x # s = [] @ [] @ (x # s)" by simp
    with 1 show ?thesis unfolding str_contains_iff by blast
  qed
qed (simp add: str_contains_iff)

lemma path_Abs_join:
  assumes "is_rooted wd" and "base \<noteq> []" and "\<not> str_contains (path_Clean f) ''..''"
  obtains a b where "path_Abs (Inr wd) base = Inr (path_Clean a)" "path_Abs (Inr wd) (path_Join base (path_Clean f)) = Inr (path_Clean b)"
    "is_rooted a" "is_rooted b" "clean_parts b = clean_parts a @ filter (\<lambda>c. c \<noteq> [] \<and> c \<noteq> ''.'') (str_split CHR ''/'' (path_Clean f))"
    "''..'' \<notin> set (str_split CHR ''/'' (path_Clean f))"
proof -
  let ?f = "path_Clean f"
  let ?p = "path_Join base ?f"
  have dots: "''..'' \<notin> set (str_split CHR ''/'' ?f)" using split_contains assms(3) by blast
  have wd: "wd \<noteq> []" using assms(1) by (auto simp: is_rooted_def)
  have pp: "?p = path_Clean (base @ CHR ''/'' # ?f)" using assms(2) by (simp add: path_Join_def)
  show thesis
  proof (cases "is_rooted base")
    case True
    then have r: "is_rooted (base @ CHR ''/'' # ?f)" by (simp add: is_rooted_def)
    show thesis
    proof (rule that)
      show "path_Abs (Inr wd) base = Inr (path_Clean base)" using True by (simp add: path_Abs_def)
      show "path_Abs (Inr wd) ?p = Inr (path_Clean ?p)" using r unfolding pp by (simp add: path_Abs_def)
      show "clean_parts ?p = clean_parts base @ filter (\<lambda>c. c \<noteq> [] \<and> c \<noteq> ''.'') (str_split CHR ''/'' ?f)"
        unfolding pp by (simp add: parts_app [OF assms(2)] no_dots_fold [OF dots])
    qed (use True r dots in \<open>simp_all add: pp\<close>)
  next
    case False
    have nb: "\<not> is_rooted (base @ CHR ''/'' # ?f)" using False assms(2) by (simp add: is_rooted_def)
    then have np: "\<not> is_rooted ?p" unfolding pp by simp
    have free: "CHR ''/'' \<notin> set c" if "c \<in> set (str_split CHR ''/'' base @ str_split CHR ''/'' ?f)" for c
      using that str_split_parts [of c "CHR ''/''"] by auto
    have sp: "foldl (clean_step True) t (str_split CHR ''/'' ?p) =
        foldl (clean_step True) t (str_split CHR ''/'' base @ str_split CHR ''/'' ?f)" for t
      unfolding pp fold_split_clean
      using fold_clean [of "str_split CHR ''/'' base @ str_split CHR ''/'' ?f", where r = True and t = t] free nb
      by (auto simp: clean_parts_def str_split_app)
    have rw: "is_rooted (wd @ CHR ''/'' # x)" for x using assms(1) by (simp add: is_rooted_def)
    show thesis
    proof (rule that)
      show "path_Abs (Inr wd) base = Inr (path_Clean (wd @ CHR ''/'' # base))"
        using False assms(2) wd by (simp add: path_Abs_def path_Join_def)
      show "path_Abs (Inr wd) ?p = Inr (path_Clean (wd @ CHR ''/'' # ?p))"
        using np wd by (simp add: path_Abs_def path_Join_def [of wd]) (simp add: pp)
      show "clean_parts (wd @ CHR ''/'' # ?p) =
          clean_parts (wd @ CHR ''/'' # base) @ filter (\<lambda>c. c \<noteq> [] \<and> c \<noteq> ''.'') (str_split CHR ''/'' ?f)"
        unfolding parts_app [OF wd] using assms(1) sp by (simp add: no_dots_fold [OF dots])
    qed (use rw dots in auto)
  qed
qed

text \<open>The path that \<^verbatim>\<open>SafePath\<close> allows lies below the base directory, component by component.\<close>

lemma SafePath_inside:
  assumes "is_rooted wd" and "base \<noteq> []" and "SafePath (Inr wd) base filename = Inr p"
  shows "\<exists>a b q. path_Abs (Inr wd) base = Inr a \<and> path_Abs (Inr wd) p = Inr b \<and> clean_parts b = clean_parts a @ q \<and> ''..'' \<notin> set q"
proof -
  from assms(3) have "\<not> str_contains (path_Clean filename) ''..''" "p = path_Join base (path_Clean filename)"
    by (auto simp: SafePath_def Let_def split: if_splits sum.splits)
  moreover from this(1) obtain a b where "path_Abs (Inr wd) base = Inr (path_Clean a)"
    "path_Abs (Inr wd) (path_Join base (path_Clean filename)) = Inr (path_Clean b)"
    "clean_parts b = clean_parts a @ filter (\<lambda>c. c \<noteq> [] \<and> c \<noteq> ''.'') (str_split CHR ''/'' (path_Clean filename))"
    "''..'' \<notin> set (str_split CHR ''/'' (path_Clean filename))"
    by (rule path_Abs_join [OF assms(1,2)])
  ultimately show ?thesis
    by (intro exI [of _ "path_Clean a"] exI [of _ "path_Clean b"]
        exI [of _ "filter (\<lambda>c. c \<noteq> [] \<and> c \<noteq> ''.'') (str_split CHR ''/'' (path_Clean filename))"]) simp
qed

text \<open>Conversely, only a path with two dots in a row is refused: the test of the prefix never fails.\<close>

lemma str_join_prefix: "prefix (str_join ps ''/'') (str_join (ps @ qs) ''/'')"
proof (induction ps)
  case (Cons p ps)
  then show ?case by (cases ps; cases qs) (auto simp: prefix_def)
qed simp

lemma SafePath_accepts:
  assumes "is_rooted wd" and "base \<noteq> []" and "\<not> str_contains (path_Clean f) ''..''"
  shows "SafePath (Inr wd) base f = Inr (path_Join base (path_Clean f))"
proof -
  obtain a b q where ab: "path_Abs (Inr wd) base = Inr (path_Clean a)" "path_Abs (Inr wd) (path_Join base (path_Clean f)) = Inr (path_Clean b)"
    "is_rooted a" "is_rooted b" "clean_parts b = clean_parts a @ q"
    using path_Abs_join [OF assms] by metis
  then have "prefix (path_Clean a) (path_Clean b)"
    using str_join_prefix [of "clean_parts a" q] by (simp add: path_Clean_def Let_def)
  with ab(1,2) assms(3) show ?thesis by (simp add: SafePath_def)
qed

lemma clean_name:
  assumes "normal f"
  shows "path_Clean f = f"
proof -
  have f: "f \<noteq> []" "CHR ''/'' \<notin> set f" using assms by (auto simp: normal_def)
  then have "\<not> is_rooted f" by (cases f) (auto simp: is_rooted_def)
  moreover have "clean_parts f = [f]" using assms f by (simp add: clean_parts_def str_split_single)
  ultimately show ?thesis using f by (simp add: path_Clean_def)
qed

end
