(* ===== verification/Configuration.thy ===== *)
theory Configuration
  imports Paths Stores Identity
begin

text \<open>
  What a node reads before it starts: its configuration and passwords (\<^verbatim>\<open>pkg/config\<close>,
  \<^verbatim>\<open>cmd/mpcium/main.go\<close>), the list of peers (\<^verbatim>\<open>pkg/config/peers.go\<close>), and its identity files
  (\<^verbatim>\<open>NewFileStore\<close> of \<^verbatim>\<open>pkg/identity\<close>).

  The settings of viper are a function from keys to texts that \<^verbatim>\<open>viper.Set\<close> updates. The file system is
  the record \<open>files\<close> of its answers; decryption by age is a parameter.
\<close>

section \<open>Settings\<close>

definition validateEnvironment :: "string \<Rightarrow> unit res" where
  "validateEnvironment environment =
     (if environment \<in> {''production'', ''development''} then Inr ()
      else Inl (ENew (''invalid environment '' @ [CHR 0x27] @ environment @ [CHR 0x27] @ ''. Must be one of: production, development'')))"

record ConsulConfig =
  co_Address :: string
  co_Username :: string
  co_Password :: string
  co_Token :: string

record TLSConfig =
  tl_ClientCert :: string
  tl_ClientKey :: string
  tl_CACert :: string

record NATsConfig =
  na_URL :: string
  na_Username :: string
  na_Password :: string
  na_TLS :: "TLSConfig option"

record AppConfig =
  ap_Consul :: "ConsulConfig option"
  ap_NATs :: "NATsConfig option"
  ap_Environment :: string
  ap_BadgerPassword :: string
  ap_ChainCodeHex :: string

definition enc_ConsulConfig :: "ConsulConfig option \<Rightarrow> json" where
  "enc_ConsulConfig c =
     (case c of
        None \<Rightarrow> JNull
      | Some c \<Rightarrow> JObj [(''Address'', JStr (co_Address c)), (''Username'', JStr (co_Username c)),
          (''Password'', JStr (co_Password c)), (''Token'', JStr (co_Token c))])"

definition enc_TLSConfig :: "TLSConfig option \<Rightarrow> json" where
  "enc_TLSConfig c =
     (case c of
        None \<Rightarrow> JNull
      | Some c \<Rightarrow> JObj [(''ClientCert'', JStr (tl_ClientCert c)), (''ClientKey'', JStr (tl_ClientKey c)), (''CACert'', JStr (tl_CACert c))])"

definition enc_NATsConfig :: "NATsConfig option \<Rightarrow> json" where
  "enc_NATsConfig c =
     (case c of
        None \<Rightarrow> JNull
      | Some c \<Rightarrow> JObj [(''URL'', JStr (na_URL c)), (''Username'', JStr (na_Username c)), (''Password'', JStr (na_Password c)),
          (''TLS'', enc_TLSConfig (na_TLS c))])"

definition enc_AppConfig :: "AppConfig \<Rightarrow> json" where
  "enc_AppConfig c = JObj [(''Consul'', enc_ConsulConfig (ap_Consul c)), (''NATs'', enc_NATsConfig (ap_NATs c)),
     (''Environment'', JStr (ap_Environment c)), (''BadgerPassword'', JStr (ap_BadgerPassword c)), (''ChainCodeHex'', JStr (ap_ChainCodeHex c))]"

text \<open>
  The method has a copy of the configuration, but the copy shares the two parts behind pointers with
  the original. The result is the text, and the original as it is afterwards.
\<close>

definition stars :: "string \<Rightarrow> string" where
  "stars s = replicate (length s) CHR ''*''"

definition MarshalJSONMask :: "AppConfig \<Rightarrow> (string \<times> AppConfig) outcome" where
  "MarshalJSONMask orig =
     (let c = orig\<lparr>ap_BadgerPassword := stars (ap_BadgerPassword orig)\<rparr> in
      case (ap_Consul c, ap_NATs c) of
        (Some consul, Some nats) \<Rightarrow>
          (let consul' = consul\<lparr>co_Password := stars (co_Password consul), co_Token := stars (co_Token consul)\<rparr>;
               nats' = nats\<lparr>na_Password := stars (na_Password nats)\<rparr>
           in Returns (json_render (enc_AppConfig (c\<lparr>ap_Consul := Some consul', ap_NATs := Some nats'\<rparr>)),
                orig\<lparr>ap_Consul := Some consul', ap_NATs := Some nats'\<rparr>))
      | _ \<Rightarrow> Aborts ''nil pointer dereference'')"

text \<open>\<open>decode\<close> is the decoding of all settings by the library; every failure is fatal.\<close>

definition LoadConfig :: "((string \<Rightarrow> string) \<Rightarrow> AppConfig res) \<Rightarrow> (string \<Rightarrow> string) \<Rightarrow> AppConfig outcome" where
  "LoadConfig decode viper =
     (case decode viper of
        Inl e \<Rightarrow> Aborts (''Failed to decode config'' @ Error e)
      | Inr config \<Rightarrow>
          (case validateEnvironment (ap_Environment config) of
             Inl e \<Rightarrow> Aborts (''Config validation failed:'' @ Error e)
           | Inr _ \<Rightarrow> Returns config))"

definition loadPasswordFromFile :: "(string \<Rightarrow> bytes res) \<Rightarrow> string \<Rightarrow> (string \<Rightarrow> string) \<Rightarrow> (string \<Rightarrow> string) res" where
  "loadPasswordFromFile ReadFile filePath viper =
     (case ReadFile filePath of
        Inl e \<Rightarrow> Inl (EWrap (''failed to read password file '' @ filePath @ '': '') e [])
      | Inr passwordBytes \<Rightarrow>
          (let password = trim_space (go_string passwordBytes) in
           if password = [] then Inl (ENew (''password file '' @ filePath @ '' is empty''))
           else Inr (viper(''badger_password'' := password))))"

text \<open>
  The prompt reads a password and its confirmation until both agree. \<open>ins\<close> are the answers of the
  terminal; when they run out the loop still waits.
\<close>

fun prompt_password :: "bytes res list \<Rightarrow> bytes outcome option" where
  "prompt_password [] = None"
| "prompt_password (Inl e # ins) = Some (Aborts ''Failed to read badger password'')"
| "prompt_password (Inr p # ins) =
     (if p = [] then prompt_password ins
      else (case ins of
              [] \<Rightarrow> None
            | Inl e # _ \<Rightarrow> Some (Aborts ''Failed to read confirmation password'')
            | Inr c # rest \<Rightarrow> if p \<noteq> c then prompt_password rest else Some (Returns p)))"

text \<open>\<open>maskString\<close> masks bytes, also within a character of several bytes.\<close>

definition maskString :: "string \<Rightarrow> string" where
  "maskString s =
     (if length s \<le> 2 then s else [hd s] @ replicate (length s - 2) CHR ''*'' @ [last s])"

definition promptForSensitiveCredentials ::
  "bytes res list \<Rightarrow> (string \<Rightarrow> string) \<Rightarrow> ((string \<Rightarrow> string) \<times> string) outcome option" where
  "promptForSensitiveCredentials ins viper =
     (case prompt_password ins of
        None \<Rightarrow> None
      | Some (Aborts x) \<Rightarrow> Some (Aborts x)
      | Some (Returns p) \<Rightarrow>
          Some (Returns (viper(''badger_password'' := go_string p), ''Password set: '' @ maskString (go_string p))))"

definition checkRequiredConfigValues :: "(string \<Rightarrow> string) \<Rightarrow> unit outcome" where
  "checkRequiredConfigValues viper =
     (if viper ''badger_password'' = [] then Aborts ''Badger password is required''
      else if viper ''event_initiator_pubkey'' = [] then Aborts ''Event initiator public key is required''
      else
        (let chainCode = trim_space (viper ''chain_code'') in
         if chainCode = [] then Aborts ''chain_code is required in config.yaml''
         else if length chainCode \<noteq> 64 then Aborts ''chain_code must be 32-byte hex (64 chars)''
         else Returns ()))"

section \<open>Peers\<close>

record Peer =
  pe_ID :: string
  pe_Name :: string

definition PeersPrefix :: string where "PeersPrefix = ''mpc_peers/''"

text \<open>\<open>lst\<close> is the listing of Consul; cutting a key shorter than the prefix panics.\<close>

fun peers_of_pairs :: "string \<Rightarrow> (string \<times> bytes) list \<Rightarrow> Peer list outcome" where
  "peers_of_pairs pre [] = Returns []"
| "peers_of_pairs pre ((k, v) # rest) =
     (if length k < length pre then Aborts ''slice bounds out of range''
      else bind_out (peers_of_pairs pre rest)
             (\<lambda>ps. Returns (\<lparr>pe_ID = go_string v, pe_Name = drop (length pre) k\<rparr> # ps)))"

definition LoadPeersFromConsul :: "(string \<Rightarrow> (string \<times> bytes) list res) \<Rightarrow> string \<Rightarrow> Peer list res outcome" where
  "LoadPeersFromConsul lst pre =
     (case lst pre of
        Inl e \<Rightarrow> Returns (Inl e)
      | Inr pairs \<Rightarrow> bind_out (peers_of_pairs pre pairs) (\<lambda>ps. Returns (Inr ps)))"

text \<open>Decoding into \<^verbatim>\<open>map[string]string\<close>. Where the code ranges over the map, the order is that of the list.\<close>

fun decode_string_map :: "(string \<times> json) list \<Rightarrow> (string, string) gomap \<Rightarrow> (string, string) gomap option" where
  "decode_string_map [] m = Some m"
| "decode_string_map ((k, v) # ms) m =
     (case dec_string v of None \<Rightarrow> None | Some s \<Rightarrow> decode_string_map ms (AList.update k s m))"

definition unmarshal_string_map :: "bytes \<Rightarrow> (string, string) gomap res" where
  "unmarshal_string_map b =
     (case json_parse (go_string b) of
        Some JNull \<Rightarrow> Inr []
      | Some (JObj ms) \<Rightarrow> (case decode_string_map ms [] of None \<Rightarrow> Inl unmarshal_error | Some m \<Rightarrow> Inr m)
      | _ \<Rightarrow> Inl unmarshal_error)"

definition LoadPeersFromFile :: "(string \<Rightarrow> bytes res) \<Rightarrow> string \<Rightarrow> Peer list res" where
  "LoadPeersFromFile ReadFile path =
     (case ReadFile path of
        Inl e \<Rightarrow> Inl (EWrap ''failed to read peers file: '' e [])
      | Inr data \<Rightarrow>
          (case unmarshal_string_map data of
             Inl e \<Rightarrow> Inl (EWrap ''failed to parse peers JSON: '' e [])
           | Inr m \<Rightarrow>
               if m = [] then Inl (ENew (''no peers found in file '' @ path))
               else Inr (map (\<lambda>(name, i). \<lparr>pe_ID = i, pe_Name = name\<rparr>) m)))"

fun SyncPeersToConsul :: "'c consul_ops \<Rightarrow> Peer list \<Rightarrow> 'c \<Rightarrow> 'c \<times> unit res" where
  "SyncPeersToConsul kv [] c = (c, Inr ())"
| "SyncPeersToConsul kv (peer # ps) c =
     (let key = PeersPrefix @ pe_Name peer in
      case consul_Get kv c key of
        Inl e \<Rightarrow> (c, Inl (EWrap (''failed to check existing key '' @ key @ '': '') e []))
      | Inr (Some _) \<Rightarrow> SyncPeersToConsul kv ps c
      | Inr None \<Rightarrow>
          (case consul_Put kv c key (go_bytes (pe_ID peer)) of
             Inl e \<Rightarrow> (c, Inl (EWrap (''failed to register peer '' @ pe_Name peer @ '' in Consul: '') e []))
           | Inr c' \<Rightarrow> SyncPeersToConsul kv ps c'))"

fun GetNodeID :: "string \<Rightarrow> Peer list \<Rightarrow> string" where
  "GetNodeID nodeName [] = []"
| "GetNodeID nodeName (peer # ps) = (if pe_Name peer = nodeName then pe_ID peer else GetNodeID nodeName ps)"

definition GetPeerIDs :: "Peer list \<Rightarrow> string list" where
  "GetPeerIDs peers = map pe_ID peers"

definition GetIDFromName :: "string \<Rightarrow> Peer list \<Rightarrow> string outcome" where
  "GetIDFromName name peers =
     (let nodeID = GetNodeID name peers in if nodeID = [] then Aborts ''Empty Node ID'' else Returns nodeID)"

section \<open>Identity files\<close>

record files =
  fl_Getwd :: "string res"
  fl_MkdirAll :: "string \<Rightarrow> gerror option"
  fl_Stat :: "string \<Rightarrow> gerror option"
  fl_ReadFile :: "string \<Rightarrow> bytes res"
  fl_ReadPassword :: "bytes res"

text \<open>\<open>ag_Decrypt\<close> opens an encrypted stream for a passphrase; \<open>ag_ReadAll\<close> reads it to its end.\<close>

record age =
  ag_NewScryptIdentity :: "string \<Rightarrow> unit res"
  ag_Decrypt :: "bytes \<Rightarrow> string \<Rightarrow> bytes res"
  ag_ReadAll :: "bytes \<Rightarrow> bytes res"

definition age_passphrase :: "files \<Rightarrow> string \<Rightarrow> string res" where
  "age_passphrase F agePasswordFile =
     (if agePasswordFile \<noteq> [] then
        (case fl_ReadFile F agePasswordFile of
           Inl e \<Rightarrow> Inl (EWrap (''failed to read age key file '' @ agePasswordFile @ '': '') e [])
         | Inr data \<Rightarrow> Inr (trim_space (go_string data)))
      else
        (case fl_ReadPassword F of
           Inl e \<Rightarrow> Inl (EWrap ''failed to read passphrase: '' e [])
         | Inr p \<Rightarrow> Inr (go_string p)))"

definition decrypt_key :: "files \<Rightarrow> age \<Rightarrow> string \<Rightarrow> string \<Rightarrow> string \<Rightarrow> string res" where
  "decrypt_key F A nodeName encryptedKeyPath agePasswordFile =
     (case fl_Stat F encryptedKeyPath of
        Some e \<Rightarrow> Inl (EWrap (''failed to check encrypted private key for node '' @ nodeName @ '' at '' @ encryptedKeyPath @ '': '') e [])
      | None \<Rightarrow>
     (case fl_ReadFile F encryptedKeyPath of
        Inl e \<Rightarrow> Inl (EWrap ''failed to open encrypted key file: '' e [])
      | Inr encrypted \<Rightarrow>
     (case age_passphrase F agePasswordFile of
        Inl e \<Rightarrow> Inl e
      | Inr passphrase \<Rightarrow>
     (case ag_NewScryptIdentity A passphrase of
        Inl e \<Rightarrow> Inl (EWrap ''failed to create identity for decryption: '' e [])
      | Inr _ \<Rightarrow>
     (case ag_Decrypt A encrypted passphrase of
        Inl e \<Rightarrow> Inl (EWrap ''failed to decrypt private key: '' e [])
      | Inr stream \<Rightarrow>
     (case ag_ReadAll A stream of
        Inl e \<Rightarrow> Inl (EWrap ''failed to read decrypted key: '' e [])
      | Inr decrypted \<Rightarrow> Inr (go_string decrypted)))))))"

definition loadPrivateKey :: "files \<Rightarrow> age \<Rightarrow> string \<Rightarrow> string \<Rightarrow> bool \<Rightarrow> string \<Rightarrow> string res" where
  "loadPrivateKey F A identityDir nodeName decrypt agePasswordFile =
     (case SafePath (fl_Getwd F) identityDir (nodeName @ ''_private.key.age'') of
        Inl e \<Rightarrow> Inl (EWrap (''invalid encrypted key path for node '' @ nodeName @ '': '') e [])
      | Inr encryptedKeyPath \<Rightarrow>
     (case SafePath (fl_Getwd F) identityDir (nodeName @ ''_private.key'') of
        Inl e \<Rightarrow> Inl (EWrap (''invalid unencrypted key path for node '' @ nodeName @ '': '') e [])
      | Inr unencryptedKeyPath \<Rightarrow>
          if decrypt then decrypt_key F A nodeName encryptedKeyPath agePasswordFile
          else if fl_Stat F unencryptedKeyPath \<noteq> None
            then Inl (ENew (''no unencrypted private key found for node '' @ nodeName))
          else (case fl_ReadFile F unencryptedKeyPath of
                  Inl e \<Rightarrow> Inl (EWrap ''failed to read private key file: '' e [])
                | Inr data \<Rightarrow> Inr (go_string data))))"

record NodeIdentity =
  id_NodeName :: string
  id_NodeID :: string
  id_PublicKey :: string
  id_CreatedAt :: string

definition NodeIdentity_fields :: "NodeIdentity field list" where
  "NodeIdentity_fields =
     [(''node_name'', set_string (\<lambda>s i. i\<lparr>id_NodeName := s\<rparr>)), (''node_id'', set_string (\<lambda>s i. i\<lparr>id_NodeID := s\<rparr>)),
      (''public_key'', set_string (\<lambda>s i. i\<lparr>id_PublicKey := s\<rparr>)), (''created_at'', set_string (\<lambda>s i. i\<lparr>id_CreatedAt := s\<rparr>))]"

definition zero_NodeIdentity :: NodeIdentity where
  "zero_NodeIdentity = \<lparr>id_NodeName = [], id_NodeID = [], id_PublicKey = [], id_CreatedAt = []\<rparr>"

definition load_identity :: "files \<Rightarrow> string \<Rightarrow> string \<Rightarrow> string \<Rightarrow> (string \<times> bytes) res" where
  "load_identity F identityDir nodeName nodeID =
     (case SafePath (fl_Getwd F) identityDir (nodeName @ ''_identity.json'') of
        Inl e \<Rightarrow> Inl (EWrap (''invalid identity file path for node '' @ nodeName @ '': '') e [])
      | Inr path \<Rightarrow>
     (case fl_ReadFile F path of
        Inl e \<Rightarrow> Inl (EWrap (''missing identity file for node '' @ nodeName @ '' ('' @ nodeID @ ''): '') e [])
      | Inr data \<Rightarrow>
     (case json_Unmarshal NodeIdentity_fields zero_NodeIdentity data of
        Inl e \<Rightarrow> Inl (EWrap (''failed to parse identity file for node '' @ nodeName @ '': '') e [])
      | Inr identity \<Rightarrow>
          if id_NodeID identity \<noteq> nodeID
          then Inl (ENew (''node ID mismatch for '' @ nodeName @ '': '' @ nodeID @ '' in peers.json vs '' @
                 id_NodeID identity @ '' in identity file''))
          else (case hex_Decode (id_PublicKey identity) of
                  Inl e \<Rightarrow> Inl (EWrap (''invalid public key format for node '' @ nodeName @ '': '') e [])
                | Inr key \<Rightarrow> Inr (id_NodeID identity, key)))))"

fun load_identities ::
  "files \<Rightarrow> string \<Rightarrow> (string, string) gomap \<Rightarrow> (string, bytes) gomap \<Rightarrow> (string, bytes) gomap res" where
  "load_identities F dir [] keys = Inr keys"
| "load_identities F dir ((name, i) # peers) keys =
     (case load_identity F dir name i of
        Inl e \<Rightarrow> Inl e
      | Inr (nodeID, key) \<Rightarrow> load_identities F dir peers (AList.update nodeID key keys))"

definition NewFileStore ::
  "'k crypto \<Rightarrow> files \<Rightarrow> age \<Rightarrow> (string \<Rightarrow> string) \<Rightarrow> AuthorizationConfig res \<Rightarrow> string \<Rightarrow> string \<Rightarrow> bool \<Rightarrow> string \<Rightarrow>
   'k fileStore res outcome" where
  "NewFileStore cr F A viper auth identityDir nodeName decrypt agePasswordFile =
     (case fl_MkdirAll F identityDir of
        Some e \<Rightarrow> Returns (Inl (EWrap ''failed to create identity directory: '' e []))
      | None \<Rightarrow>
     (case loadPrivateKey F A identityDir nodeName decrypt agePasswordFile of
        Inl e \<Rightarrow> Returns (Inl e)
      | Inr privateKeyHex \<Rightarrow>
     (case hex_Decode privateKeyHex of
        Inl e \<Rightarrow> Returns (Inl (EWrap ''invalid private key format: '' e []))
      | Inr privateKey \<Rightarrow>
     (case loadInitiatorKeys cr viper of
        Inl e \<Rightarrow> Returns (Inl e)
      | Inr initiatorKey \<Rightarrow>
     (case fl_ReadFile F ''peers.json'' of
        Inl e \<Rightarrow> Returns (Inl (EWrap ''failed to read peers.json: '' e []))
      | Inr peersData \<Rightarrow>
     (case unmarshal_string_map peersData of
        Inl e \<Rightarrow> Returns (Inl (EWrap ''failed to parse peers.json: '' e []))
      | Inr peers \<Rightarrow>
     (case load_identities F identityDir peers [] of
        Inl e \<Rightarrow> Returns (Inl e)
      | Inr publicKeys \<Rightarrow>
          loadAuthorizationConfig cr auth
            \<lparr>fs_publicKeys = publicKeys, fs_privateKey = privateKey, fs_initiatorKey = initiatorKey,
             fs_symmetricKeys = [], fs_authConfig = \<lparr>ac_Enabled = False, ac_RequiredAuthorizers = [], ac_AuthorizerPublicKeys = []\<rparr>,
             fs_cachedAuthorizerKeys = []\<rparr>)))))))"

end
