(* ===== verification/Signers.thy ===== *)
theory Signers
  imports Configuration Client
begin

text \<open>
  The signers of a client (\<^verbatim>\<open>pkg/client/local_signer.go\<close>, \<^verbatim>\<open>kms_signer.go\<close>) and the private-key half of
  \<^verbatim>\<open>pkg/encryption\<close>: reading keys, signing requests, and the public key that an operator puts into the
  configuration of the nodes. Private ECDSA keys are an abstract \<open>'p\<close>; their operations and AWS KMS are
  parameters.
\<close>

section \<open>Private keys\<close>

text \<open>\<open>sg_ParsePKCS8\<close> is \<open>Some\<close> only for an ECDSA key; \<open>sg_hasCurve\<close> tells that its curve is set.\<close>

record ('k, 'p) private_keys =
  sg_NewKeyFromSeed :: "bytes \<Rightarrow> bytes"
  sg_ParsePKCS8 :: "bytes \<Rightarrow> 'p option"
  sg_ParseEC :: "bytes \<Rightarrow> 'p option"
  sg_hasCurve :: "'p \<Rightarrow> bool"
  sg_SignASN1 :: "'p \<Rightarrow> bytes \<Rightarrow> bytes res"
  sg_PublicKey :: "'p \<Rightarrow> 'k"
  sg_keyCurve :: "'k \<Rightarrow> string option"
  sg_MarshalPKIX :: "'k \<Rightarrow> bytes res"
  sg_MarshalEC :: "'p \<Rightarrow> bytes res"
  sg_GenerateP256 :: "'p res"
  sg_GenerateEd25519 :: "bytes res"

definition ParseP256PrivateKey :: "('k, 'p) private_keys \<Rightarrow> bytes \<Rightarrow> 'p res" where
  "ParseP256PrivateKey pr keyData =
     (case sg_ParsePKCS8 pr keyData of
        Some k \<Rightarrow> Inr k
      | None \<Rightarrow>
     (case sg_ParseEC pr keyData of
        Some k \<Rightarrow> Inr k
      | None \<Rightarrow>
     (case hex_Decode (trim_prefix (trim_space (go_string keyData)) ''0x'') of
        Inl e \<Rightarrow> Inl (EWrap ''failed to decode hex string: '' e [])
      | Inr keyBytes \<Rightarrow>
     (case sg_ParsePKCS8 pr keyBytes of
        Some k \<Rightarrow> Inr k
      | None \<Rightarrow>
     (case sg_ParseEC pr keyBytes of
        Some k \<Rightarrow> Inr k
      | None \<Rightarrow> Inl (ENew ''failed to parse P256 private key from DER or hex format''))))))"

definition SignWithP256 :: "'k crypto \<Rightarrow> ('k, 'p) private_keys \<Rightarrow> 'p option \<Rightarrow> bytes \<Rightarrow> bytes res" where
  "SignWithP256 cr pr privateKey data =
     (case privateKey of
        None \<Rightarrow> Inl (ENew ''invalid private key: private key is nil'')
      | Some p \<Rightarrow>
          if \<not> sg_hasCurve pr p then Inl (ENew ''invalid private key: curve is nil'')
          else (case sg_SignASN1 pr p (prim_SHA256 cr data) of
                  Inl e \<Rightarrow> Inl (EWrap ''failed to sign data: '' e [])
                | Inr s \<Rightarrow> Inr s))"

text \<open>\<open>sg_keyCurve\<close> is the name of the curve of a public key, if one is set.\<close>

definition ValidateP256PublicKey :: "'k crypto \<Rightarrow> ('k, 'p) private_keys \<Rightarrow> 'k option \<Rightarrow> unit res" where
  "ValidateP256PublicKey cr pr publicKey =
     (case publicKey of
        None \<Rightarrow> Inl (ENew ''public key is nil'')
      | Some k \<Rightarrow>
          (case sg_keyCurve pr k of
             None \<Rightarrow> Inl (ENew ''public key curve is nil'')
           | Some name \<Rightarrow>
               if \<not> prim_onP256 cr k then Inl (ENew (''public key is not P-256 curve (got: '' @ name @ '')''))
               else Inr ()))"

definition MarshalP256PublicKey :: "'k crypto \<Rightarrow> ('k, 'p) private_keys \<Rightarrow> 'k option \<Rightarrow> bytes res" where
  "MarshalP256PublicKey cr pr publicKey =
     (case ValidateP256PublicKey cr pr publicKey of
        Inl e \<Rightarrow> Inl (EWrap ''invalid P256 public key: '' e [])
      | Inr _ \<Rightarrow> (case publicKey of None \<Rightarrow> Inl (ENew ''unreachable'') | Some k \<Rightarrow> sg_MarshalPKIX pr k))"

record KeyData =
  kd_PublicKeyHex :: string
  kd_PrivateKeyHex :: string

definition GenerateP256Keys :: "('k, 'p) private_keys \<Rightarrow> KeyData res" where
  "GenerateP256Keys pr =
     bind_res (sg_GenerateP256 pr) (\<lambda>privateKey.
     bind_res (sg_MarshalEC pr privateKey) (\<lambda>privateKeyBytes.
     bind_res (sg_MarshalPKIX pr (sg_PublicKey pr privateKey)) (\<lambda>publicKeyBytes.
       Inr \<lparr>kd_PublicKeyHex = hex_Encode publicKeyBytes, kd_PrivateKeyHex = hex_Encode privateKeyBytes\<rparr>)))"

text \<open>An Ed25519 private key is its seed followed by its public key.\<close>

definition GenerateEd25519Keys :: "('k, 'p) private_keys \<Rightarrow> KeyData res" where
  "GenerateEd25519Keys pr =
     bind_res (sg_GenerateEd25519 pr) (\<lambda>privKeyFull.
       Inr \<lparr>kd_PublicKeyHex = hex_Encode (drop 32 privKeyFull), kd_PrivateKeyHex = hex_Encode (take 32 privKeyFull)\<rparr>)"

definition ed25519_NewKeyFromSeed :: "('k, 'p) private_keys \<Rightarrow> bytes \<Rightarrow> bytes outcome" where
  "ed25519_NewKeyFromSeed pr seed =
     (if length seed \<noteq> 32 then Aborts ''ed25519: bad seed length'' else Returns (sg_NewKeyFromSeed pr seed))"

section \<open>Local signer\<close>

record 'p LocalSigner =
  ls_keyType :: string
  ls_ed25519Key :: "bytes option"
  ls_p256Key :: "'p option"

record LocalSignerOptions =
  lo_KeyPath :: string
  lo_Encrypted :: bool
  lo_Password :: string

definition decryptPrivateKey :: "age \<Rightarrow> bytes \<Rightarrow> string \<Rightarrow> bytes res" where
  "decryptPrivateKey A encryptedData password =
     (case ag_NewScryptIdentity A password of
        Inl e \<Rightarrow> Inl (EWrap ''failed to create identity from password: '' e [])
      | Inr _ \<Rightarrow>
     (case ag_Decrypt A encryptedData password of
        Inl e \<Rightarrow> Inl (EWrap ''failed to create decrypter: '' e [])
      | Inr stream \<Rightarrow>
     (case ag_ReadAll A stream of
        Inl e \<Rightarrow> Inl (EWrap ''failed to read decrypted data: '' e [])
      | Inr decryptedData \<Rightarrow> Inr decryptedData)))"

definition readKeyFile :: "files \<Rightarrow> age \<Rightarrow> string \<Rightarrow> bool \<Rightarrow> string \<Rightarrow> bytes res" where
  "readKeyFile F A keyPath encrypted password =
     (if fl_Stat F keyPath \<noteq> None then Inl (ENew (''key file not found: '' @ keyPath))
      else if encrypted then
        (if password = [] then Inl (ENew ''encrypted key found but no password provided'')
         else (case fl_ReadFile F keyPath of
                 Inl e \<Rightarrow> Inl (EWrap ''failed to read encrypted key file: '' e [])
               | Inr encryptedBytes \<Rightarrow> decryptPrivateKey A encryptedBytes password))
      else fl_ReadFile F keyPath)"

definition loadEd25519Key :: "('k, 'p) private_keys \<Rightarrow> bytes \<Rightarrow> 'p LocalSigner \<Rightarrow> 'p LocalSigner res outcome" where
  "loadEd25519Key pr keyData s =
     (case hex_Decode (trim_space (go_string keyData)) of
        Inl e \<Rightarrow> Returns (Inl (EWrap ''failed to decode Ed25519 private key hex: '' e []))
      | Inr privSeed \<Rightarrow> bind_out (ed25519_NewKeyFromSeed pr privSeed) (\<lambda>k. Returns (Inr (s\<lparr>ls_ed25519Key := Some k\<rparr>))))"

definition loadP256Key :: "('k, 'p) private_keys \<Rightarrow> bytes \<Rightarrow> 'p LocalSigner \<Rightarrow> 'p LocalSigner res" where
  "loadP256Key pr keyData s =
     (case ParseP256PrivateKey pr keyData of
        Inl e \<Rightarrow> Inl (EWrap ''failed to parse P256 private key: '' e [])
      | Inr k \<Rightarrow> Inr (s\<lparr>ls_p256Key := Some k\<rparr>))"

text \<open>An error of \<open>r\<close> is wrapped; a crash stays one.\<close>

definition wrap_out :: "string \<Rightarrow> 'a res outcome \<Rightarrow> 'a res outcome" where
  "wrap_out msg r = bind_out r (\<lambda>r. Returns (case r of Inl e \<Rightarrow> Inl (EWrap msg e []) | Inr a \<Rightarrow> Inr a))"

definition NewLocalSigner ::
  "('k, 'p) private_keys \<Rightarrow> files \<Rightarrow> age \<Rightarrow> string \<Rightarrow> LocalSignerOptions \<Rightarrow> 'p LocalSigner res outcome" where
  "NewLocalSigner pr F A keyType opts =
     (let keyPath = (if lo_KeyPath opts = [] then path_Join ''.'' ''event_initiator.key'' else lo_KeyPath opts);
          encrypted = (suffix ''.age'' keyPath \<or> lo_Encrypted opts);
          signer = \<lparr>ls_keyType = keyType, ls_ed25519Key = None, ls_p256Key = None\<rparr>
      in case readKeyFile F A keyPath encrypted (lo_Password opts) of
           Inl e \<Rightarrow> Returns (Inl (EWrap ''failed to read key file: '' e []))
         | Inr keyData \<Rightarrow>
             if keyType = EventInitiatorKeyTypeEd25519 then wrap_out ''failed to load Ed25519 key: '' (loadEd25519Key pr keyData signer)
             else if keyType = EventInitiatorKeyTypeP256 then wrap_out ''failed to load P256 key: '' (Returns (loadP256Key pr keyData signer))
             else Returns (Inl (ENew (''unsupported key type: '' @ keyType))))"

definition local_Sign :: "'k crypto \<Rightarrow> ('k, 'p) private_keys \<Rightarrow> 'p LocalSigner \<Rightarrow> bytes \<Rightarrow> bytes res outcome" where
  "local_Sign cr pr s data =
     (if ls_keyType s = EventInitiatorKeyTypeEd25519 then
        (case ls_ed25519Key s of
           None \<Rightarrow> Returns (Inl (ENew ''Ed25519 private key not initialized''))
         | Some k \<Rightarrow> bind_out (ed25519_Sign cr k data) (\<lambda>sig. Returns (Inr sig)))
      else if ls_keyType s = EventInitiatorKeyTypeP256 then
        Returns (case ls_p256Key s of
           None \<Rightarrow> Inl (ENew ''P256 private key not initialized'')
         | Some k \<Rightarrow> SignWithP256 cr pr (Some k) data)
      else Returns (Inl (ENew (''unsupported key type: '' @ ls_keyType s))))"

definition local_Algorithm :: "'p LocalSigner \<Rightarrow> string" where
  "local_Algorithm s = ls_keyType s"

definition local_PublicKey :: "'k crypto \<Rightarrow> ('k, 'p) private_keys \<Rightarrow> 'p LocalSigner \<Rightarrow> string res" where
  "local_PublicKey cr pr s =
     (if ls_keyType s = EventInitiatorKeyTypeEd25519 then
        (case ls_ed25519Key s of
           None \<Rightarrow> Inl (ENew ''Ed25519 private key not initialized'')
         | Some k \<Rightarrow> Inr (hex_Encode (drop 32 k)))
      else if ls_keyType s = EventInitiatorKeyTypeP256 then
        (case ls_p256Key s of
           None \<Rightarrow> Inl (ENew ''P256 private key not initialized'')
         | Some k \<Rightarrow>
             (case MarshalP256PublicKey cr pr (Some (sg_PublicKey pr k)) of
                Inl e \<Rightarrow> Inl (EWrap ''failed to marshal P256 public key: '' e [])
              | Inr b \<Rightarrow> Inr (hex_Encode b)))
      else Inl (ENew (''unsupported key type: '' @ ls_keyType s)))"

section \<open>Signer of AWS KMS\<close>

record KMSSignerOptions =
  ko_Region :: string
  ko_KeyID :: string
  ko_EndpointURL :: string
  ko_AccessKeyID :: string
  ko_SecretAccessKey :: string

text \<open>The configuration that the client is made of, and the two calls for a key identifier.\<close>

record kms_config =
  km_Region :: string
  km_Credentials :: "(string \<times> string) option"
  km_Endpoint :: "string option"

record 'k kms =
  km_LoadConfig :: "string \<Rightarrow> (string \<times> string) option \<Rightarrow> unit res"
  km_GetPublicKey :: "kms_config \<Rightarrow> string \<Rightarrow> bytes res"
  km_ParsePKIX :: "bytes \<Rightarrow> 'k option res"
  km_Sign :: "kms_config \<Rightarrow> string \<Rightarrow> bytes \<Rightarrow> bytes res"

record 'k KMSSigner =
  kg_keyType :: string
  kg_client :: kms_config
  kg_keyID :: string
  kg_publicKey :: "'k option"

definition loadPublicKey :: "'k crypto \<Rightarrow> ('k, 'p) private_keys \<Rightarrow> 'k kms \<Rightarrow> 'k KMSSigner \<Rightarrow> 'k KMSSigner res" where
  "loadPublicKey cr pr K s =
     (case km_GetPublicKey K (kg_client s) (kg_keyID s) of
        Inl e \<Rightarrow> Inl (EWrap ''failed to get public key from AWS KMS: '' e [])
      | Inr der \<Rightarrow>
     (case km_ParsePKIX K der of
        Inl e \<Rightarrow> Inl (EWrap ''failed to parse public key from KMS response: '' e [])
      | Inr None \<Rightarrow> Inl (ENew ''KMS public key is not an ECDSA key'')
      | Inr (Some k) \<Rightarrow>
          (case ValidateP256PublicKey cr pr (Some k) of
             Inl e \<Rightarrow> Inl (EWrap ''KMS public key is not a valid P256 key: '' e [])
           | Inr _ \<Rightarrow> Inr (s\<lparr>kg_publicKey := Some k\<rparr>))))"

definition NewKMSSigner ::
  "'k crypto \<Rightarrow> ('k, 'p) private_keys \<Rightarrow> 'k kms \<Rightarrow> string \<Rightarrow> KMSSignerOptions \<Rightarrow> 'k KMSSigner res" where
  "NewKMSSigner cr pr K keyType opts =
     (if keyType \<noteq> EventInitiatorKeyTypeP256 then Inl (ENew (''AWS KMS only supports P256 keys, not '' @ keyType))
      else if ko_KeyID opts = [] then Inl (ENew ''KeyID is required for KMS signer'')
      else if ko_Region opts = [] then Inl (ENew ''Region is required for KMS signer'')
      else
        (let creds = (if ko_AccessKeyID opts \<noteq> [] \<and> ko_SecretAccessKey opts \<noteq> []
               then Some (ko_AccessKeyID opts, ko_SecretAccessKey opts) else None) in
         case km_LoadConfig K (ko_Region opts) creds of
           Inl e \<Rightarrow> Inl (EWrap ''failed to load AWS config: '' e [])
         | Inr _ \<Rightarrow>
             (let client = \<lparr>km_Region = ko_Region opts, km_Credentials = creds,
                    km_Endpoint = (if ko_EndpointURL opts \<noteq> [] then Some (ko_EndpointURL opts) else None)\<rparr>
              in case loadPublicKey cr pr K \<lparr>kg_keyType = keyType, kg_client = client, kg_keyID = ko_KeyID opts, kg_publicKey = None\<rparr> of
                   Inl e \<Rightarrow> Inl (EWrap ''failed to load public key from KMS: '' e [])
                 | Inr signer \<Rightarrow> Inr signer)))"

definition kms_Sign :: "'k kms \<Rightarrow> 'k KMSSigner \<Rightarrow> bytes \<Rightarrow> bytes res" where
  "kms_Sign K s data =
     (case km_Sign K (kg_client s) (kg_keyID s) data of
        Inl e \<Rightarrow> Inl (EWrap ''failed to sign with AWS KMS: '' e [])
      | Inr sig \<Rightarrow> Inr sig)"

definition kms_Algorithm :: "'k KMSSigner \<Rightarrow> string" where
  "kms_Algorithm s = kg_keyType s"

definition kms_PublicKey :: "'k crypto \<Rightarrow> ('k, 'p) private_keys \<Rightarrow> 'k KMSSigner \<Rightarrow> string res" where
  "kms_PublicKey cr pr s =
     (case kg_publicKey s of
        None \<Rightarrow> Inl (ENew ''public key not loaded'')
      | Some k \<Rightarrow>
          (case MarshalP256PublicKey cr pr (Some k) of
             Inl e \<Rightarrow> Inl (EWrap ''failed to marshal P256 public key: '' e [])
           | Inr b \<Rightarrow> Inr (hex_Encode b)))"

end
