(* ===== verification/Wallet_Routes.thy ===== *)
theory Wallet_Routes
  imports Wallet_Http Signers
begin

text \<open>
  The wallet service as one server: the stream of events (\<^verbatim>\<open>wallet-api/pkg/indexer/sse.go\<close>), the
  connection to the cluster (\<^verbatim>\<open>pkg/mpc/client.go\<close>) and the router (\<^verbatim>\<open>pkg/api/router.go\<close>), which puts
  the middlewares of \<open>Wallet_Http\<close> in front of its handlers. \<open>ServeHTTP\<close> is a step of the server on
  the state of all services.
\<close>

section \<open>The stream of events\<close>

definition omit_empty :: "string \<Rightarrow> string \<Rightarrow> (string \<times> json) list" where
  "omit_empty name s = (if s = [] then [] else [(name, JStr s)])"

definition enc_SSEEvent :: "SSEEvent \<Rightarrow> json" where
  "enc_SSEEvent ev = JObj ((''type'', JStr (se_Type ev)) # omit_empty ''tx_hash'' (se_TxHash ev)
     @ (if se_BlockNumber ev = 0 then [] else [(''block_number'', JNum (itoa (se_BlockNumber ev)))])
     @ omit_empty ''asset'' (se_Asset ev) @ omit_empty ''raw_value'' (se_RawValue ev)
     @ omit_empty ''to_address'' (se_ToAddress ev) @ omit_empty ''from_address'' (se_FromAddress ev))"

definition sse_frame :: "SSEEvent \<Rightarrow> string" where
  "sse_frame ev = ''event: '' @ se_Type ev @ [CHR 0x0A] @ ''data: '' @ json_render (enc_SSEEvent ev) @ [CHR 0x0A, CHR 0x0A]"

text \<open>
  What happens while a client listens: another goroutine publishes, the loop takes an event from its
  channel, or the request ends. Without an end the loop still waits.
\<close>

datatype sse_turn = TurnPublish SSEEvent | TurnTake | TurnDone

fun sse_loop :: "nat \<Rightarrow> sse_turn list \<Rightarrow> sse_bus \<Rightarrow> sse_bus \<times> SSEEvent list" where
  "sse_loop ch [] b = (b, [])"
| "sse_loop ch (TurnPublish ev # ts) b = sse_loop ch ts (sse_Publish ev b)"
| "sse_loop ch (TurnTake # ts) b =
     (case map_of b ch of
        Some (ev # buf) \<Rightarrow> (let (b', out) = sse_loop ch ts (AList.update ch buf b) in (b', ev # out))
      | _ \<Rightarrow> sse_loop ch ts b)"
| "sse_loop ch (TurnDone # ts) b = (sse_unsubscribe ch b, [])"

text \<open>\<open>flusher\<close> tells whether the response can be flushed; \<open>ch\<close> is the fresh channel of the client.\<close>

definition ServeSSE :: "bool \<Rightarrow> nat \<Rightarrow> sse_turn list \<Rightarrow> sse_bus \<Rightarrow> sse_bus \<times> response" where
  "ServeSSE flusher ch ts b =
     (if \<not> flusher then (b, (500, JText ''streaming not supported''))
      else (let (b', out) = sse_loop ch ts (sse_subscribe ch b) in (b', (200, JText (concat (map sse_frame out))))))"

section \<open>The connection to the cluster\<close>

record wc_Config =
  wg_NatsURL :: string
  wg_InitiatorKeyPath :: string
  wg_ClientID :: string

record ClusterStatus =
  cs_Connected :: bool
  cs_NatsURL :: string

definition wc_Health :: "bool \<Rightarrow> wc_Config \<Rightarrow> ClusterStatus" where
  "wc_Health isConnected cfg = \<lparr>cs_Connected = isConnected, cs_NatsURL = wg_NatsURL cfg\<rparr>"

text \<open>
  The two subscriptions are calls of \<^verbatim>\<open>pkg/client\<close>, whose answers are \<open>onWallet\<close> and \<open>onSign\<close>. A new
  client waits for nothing.
\<close>

definition wc_NewClient ::
  "'k crypto \<Rightarrow> ('k, 'p) private_keys \<Rightarrow> files \<Rightarrow> age \<Rightarrow> (string \<Rightarrow> unit res) \<Rightarrow> (string \<Rightarrow> unit res) \<Rightarrow>
   unit res \<Rightarrow> unit res \<Rightarrow> wc_Config \<Rightarrow> (mpcClient \<times> waiters) res outcome" where
  "wc_NewClient cr pr F A connect broker onWallet onSign cfg =
     (case connect (wg_NatsURL cfg) of
        Inl e \<Rightarrow> Returns (Inl (EWrap ''mpc: nats connect: '' e []))
      | Inr _ \<Rightarrow>
          bind_out (NewLocalSigner pr F A EventInitiatorKeyTypeEd25519
                      \<lparr>lo_KeyPath = wg_InitiatorKeyPath cfg, lo_Encrypted = False, lo_Password = []\<rparr>) (\<lambda>signer.
            case signer of
              Inl e \<Rightarrow> Returns (Inl (EWrap ''mpc: load initiator key: '' e []))
            | Inr sg \<Rightarrow>
                bind_out (NewMPCClient broker
                  (Some (\<lambda>data. case local_Sign cr pr sg data of Returns r \<Rightarrow> r | Aborts m \<Rightarrow> Inl (ENew m)))
                  (wg_ClientID cfg)) (\<lambda>inner.
                  Returns (case onWallet of
                     Inl e \<Rightarrow> Inl (EWrap ''mpc: subscribe keygen result: '' e [])
                   | Inr _ \<Rightarrow>
                       (case onSign of
                          Inl e \<Rightarrow> Inl (EWrap ''mpc: subscribe sign result: '' e [])
                        | Inr _ \<Rightarrow> Inr (inner, no_waiters))))))"

section \<open>The routes\<close>

datatype route_guard = Unguarded | UserGuard | ServiceGuard

datatype route_handler =
    HHealth | HClusterStatus | HWebhook | HRegister | HLogin | HEvents
  | HWalletCreate | HWalletList | HWalletListAll | HWalletGet
  | HTxList | HTxSend | HTxGet | HTxCancel | HTxSpeedUp

record route =
  rt_method :: string
  rt_pattern :: string
  rt_guard :: route_guard
  rt_handler :: route_handler

definition r_Get :: "string \<Rightarrow> route_handler \<Rightarrow> route list" where
  "r_Get pat h = [\<lparr>rt_method = ''GET'', rt_pattern = pat, rt_guard = Unguarded, rt_handler = h\<rparr>]"

definition r_Post :: "string \<Rightarrow> route_handler \<Rightarrow> route list" where
  "r_Post pat h = [\<lparr>rt_method = ''POST'', rt_pattern = pat, rt_guard = Unguarded, rt_handler = h\<rparr>]"

definition r_Route :: "string \<Rightarrow> route list \<Rightarrow> route list" where
  "r_Route base rs = map (\<lambda>r. r\<lparr>rt_pattern := base @ rt_pattern r\<rparr>) rs"

definition r_Use :: "route_guard \<Rightarrow> route list \<Rightarrow> route list" where
  "r_Use g rs = map (\<lambda>r. r\<lparr>rt_guard := g\<rparr>) rs"

text \<open>The middlewares that every request passes name it, log it, and set the type of the content.\<close>

definition NewRouter :: "route list" where
  "NewRouter =
     r_Get ''/health'' HHealth
     @ r_Get ''/api/v1/health/cluster'' HClusterStatus
     @ r_Post ''/api/v1/webhooks/alchemy'' HWebhook
     @ r_Route ''/api/v1/auth'' (r_Post ''/register'' HRegister @ r_Post ''/login'' HLogin)
     @ r_Use UserGuard
         (r_Get ''/api/v1/events'' HEvents
          @ r_Route ''/api/v1/wallets''
              (r_Post ''/'' HWalletCreate @ r_Get ''/'' HWalletList @ r_Get ''/{id}'' HWalletGet
               @ r_Get ''/{id}/transactions'' HTxList)
          @ r_Route ''/api/v1/transactions''
              (r_Post ''/'' HTxSend @ r_Get ''/{id}'' HTxGet @ r_Post ''/{id}/cancel'' HTxCancel
               @ r_Post ''/{id}/speed-up'' HTxSpeedUp))
     @ r_Use ServiceGuard
         (r_Post ''/service/wallets'' HWalletCreate
          @ r_Get ''/service/wallets'' HWalletListAll
          @ r_Get ''/service/wallets/{id}'' HWalletGet
          @ r_Post ''/service/transactions'' HTxSend
          @ r_Get ''/service/transactions/{id}'' HTxGet
          @ r_Get ''/service/wallets/{id}/transactions'' HTxList
          @ r_Post ''/service/transactions/{id}/cancel'' HTxCancel
          @ r_Post ''/service/transactions/{id}/speed-up'' HTxSpeedUp
          @ r_Get ''/service/health/cluster'' HClusterStatus
          @ r_Get ''/service/events'' HEvents)"

text \<open>
  The dispatcher of chi is a parameter. It is documented to choose a registered route of the method
  whose pattern matches the path, where a placeholder matches one segment; a route mounted at the
  root of a subrouter also matches without the final slash.
\<close>

datatype chi_match = ChiRoute route "string \<Rightarrow> string" | ChiNotFound | ChiMethodNotAllowed

type_synonym chi = "route list \<Rightarrow> string \<Rightarrow> string \<Rightarrow> chi_match"

fun segments :: "string \<Rightarrow> string list" where
  "segments [] = [[]]"
| "segments (c # s) =
     (if c = CHR ''/'' then [] # segments s
      else (case segments s of [] \<Rightarrow> [[c]] | w # ws \<Rightarrow> (c # w) # ws))"

definition segment_matches :: "string \<Rightarrow> string \<Rightarrow> bool" where
  "segment_matches pat seg \<longleftrightarrow> pat = seg \<or> (pat = ''{id}'' \<and> seg \<noteq> [])"

definition path_matches :: "string \<Rightarrow> string \<Rightarrow> bool" where
  "path_matches pat path \<longleftrightarrow>
     list_all2 segment_matches (segments pat) (segments path) \<or>
     list_all2 segment_matches (segments pat) (segments (path @ ''/''))"

definition chi_ok :: "chi \<Rightarrow> bool" where
  "chi_ok chi \<longleftrightarrow> (\<forall>rs m p r ps. chi rs m p = ChiRoute r ps \<longrightarrow> r \<in> set rs \<and> rt_method r = m \<and> path_matches (rt_pattern r) p)"

section \<open>Serving a request\<close>

record request =
  rq_method :: string
  rq_path :: string
  rq_header :: "string \<Rightarrow> string"
  rq_query :: "string \<Rightarrow> string"
  rq_body :: "bytes res"

record 'r api_state =
  as_users :: user_table
  as_wallets :: wallet_table
  as_table :: tx_table
  as_redis :: 'r
  as_cache :: "string \<Rightarrow> string option"
  as_bus :: sse_bus
  as_audit :: "(string \<times> bytes) list"

text \<open>
  The environment of one request: the services with the answers of their databases, libraries and
  chains at that moment, and the decoders of the bodies. \<open>ae_listAll\<close> stands for \<^verbatim>\<open>ListAll\<close>, which the
  router names and no file defines.
\<close>

record ('tx, 'r, 'pk) api_env =
  ae_jwt :: jwt
  ae_auth :: authConfig
  ae_now :: int
  ae_ids :: "string \<times> string"
  ae_userID :: string
  ae_insertUser :: "user_row \<Rightarrow> gerror option"
  ae_queryUser :: "gerror option"
  ae_serviceToken :: string
  ae_tx :: "('tx, 'r) send_env"
  ae_select :: "string \<Rightarrow> string \<Rightarrow> gerror option"
  ae_newestTxs :: "(string \<times> tx_row) list \<Rightarrow> (string \<times> tx_row) list"
  ae_evm :: "'pk evm"
  ae_insertWallet :: "wallet_row \<Rightarrow> gerror option"
  ae_rowID :: string
  ae_date :: string
  ae_submit :: "string \<Rightarrow> gerror option"
  ae_keygen :: keygen_wait
  ae_mpcWalletID :: string
  ae_queryWallets :: "string \<Rightarrow> gerror option"
  ae_newestWallets :: "(string \<times> wallet_row) list \<Rightarrow> (string \<times> wallet_row) list"
  ae_listAll :: "wallet_table \<Rightarrow> response"
  ae_HexToAddress :: "string \<Rightarrow> bytes"
  ae_rpc :: rpcConfig
  ae_balanceOf :: "string \<Rightarrow> bytes \<Rightarrow> bytes \<Rightarrow> bytes res"
  ae_hmac :: "bytes \<Rightarrow> bytes \<Rightarrow> bytes"
  ae_webhookSecret :: string
  ae_payload :: "bytes \<Rightarrow> (string \<times> string \<times> alchemyActivity list) res"
  ae_audit :: "gerror option"
  ae_lookup :: "gerror option"
  ae_confirm :: "gerror option"
  ae_connected :: bool
  ae_settings :: "string \<Rightarrow> int"
  ae_peerNames :: "string list"
  ae_flusher :: bool
  ae_channel :: nat
  ae_turns :: "sse_turn list"
  ae_credentials :: "bytes \<Rightarrow> credentials res"
  ae_chain :: "bytes \<Rightarrow> string res"
  ae_transfer :: "bytes \<Rightarrow> transfer res"

definition wstate_of :: "'r api_state \<Rightarrow> 'r wstate" where
  "wstate_of s = \<lparr>ws_table = as_table s, ws_redis = as_redis s\<rparr>"

definition put_wstate :: "'r wstate \<Rightarrow> 'r api_state \<Rightarrow> 'r api_state" where
  "put_wstate w s = s\<lparr>as_table := ws_table w, as_redis := ws_redis w\<rparr>"

definition istate_of :: "'r api_state \<Rightarrow> istate" where
  "istate_of s = \<lparr>is_tx = as_table s, is_wallets = as_wallets s, is_cache = as_cache s, is_bus = as_bus s, is_audit = as_audit s\<rparr>"

definition put_istate :: "istate \<Rightarrow> 'r api_state \<Rightarrow> 'r api_state" where
  "put_istate i s = s\<lparr>as_table := is_tx i, as_cache := is_cache i, as_bus := is_bus i, as_audit := is_audit i\<rparr>"

definition http_of :: "('tx, 'r, 'pk) api_env \<Rightarrow> 'r api_state \<Rightarrow> ('tx, 'r) http_env" where
  "http_of env s = \<lparr>he_tx = ae_tx env, he_select = ae_select env, he_wallets = as_wallets s\<rparr>"

definition on_txs ::
  "('r wstate \<Rightarrow> 'r wstate \<times> send_effect list \<times> response) \<Rightarrow> 'r api_state \<Rightarrow> 'r api_state \<times> send_effect list \<times> response" where
  "on_txs f s = (case f (wstate_of s) of (w, fx, resp) \<Rightarrow> (put_wstate w s, fx, resp))"

text \<open>\<open>params\<close> holds the placeholders of the route.\<close>

fun run_handler ::
  "('tx, 'r, 'pk) api_env \<Rightarrow> request \<Rightarrow> (string \<Rightarrow> string) \<Rightarrow> route_handler \<Rightarrow> 'r api_state \<Rightarrow> string \<Rightarrow>
   'r api_state \<times> send_effect list \<times> response" where
  "run_handler env rq params HHealth s u = (s, [], (200, JText (json_render (JObj [(''status'', JStr ''ok'')]))))"
| "run_handler env rq params HClusterStatus s u =
     (s, [], ClusterHandler_Status (ae_connected env) (ae_settings env) (ae_peerNames env))"
| "run_handler env rq params HWebhook s u =
     (let (i, status) = HandleAlchemyWebhook (ae_hmac env) (ae_webhookSecret env) (rq_body rq)
            (rq_header rq ''X-Alchemy-Signature'') (ae_payload env) (ae_audit env) (ae_lookup env) (ae_confirm env) (istate_of s)
      in (put_istate i s, [], (status, JNoContent)))"
| "run_handler env rq params HRegister s u =
     (let (t, resp) = AuthHandler_Register
            (auth_Register (ae_jwt env) (ae_auth env) (ae_insertUser env) (ae_userID env) (ae_now env) (ae_ids env))
            (bind_res (rq_body rq) (ae_credentials env)) (as_users s)
      in (s\<lparr>as_users := t\<rparr>, [], resp))"
| "run_handler env rq params HLogin s u =
     (s, [], AuthHandler_Login
        (\<lambda>email pw. auth_Login (ae_jwt env) (ae_auth env) (ae_queryUser env) (ae_now env) (ae_ids env) email pw (as_users s))
        (bind_res (rq_body rq) (ae_credentials env)))"
| "run_handler env rq params HEvents s u =
     (let (b, resp) = ServeSSE (ae_flusher env) (ae_channel env) (ae_turns env) (as_bus s) in (s\<lparr>as_bus := b\<rparr>, [], resp))"
| "run_handler env rq params HWalletCreate s u =
     (let (t, resp) = WalletHandler_Create
            (ws_CreateWallet (ae_evm env) (ae_insertWallet env) (ae_rowID env) (ae_date env) (ae_submit env) (ae_keygen env) (ae_mpcWalletID env))
            (bind_res (rq_body rq) (ae_chain env)) u (as_wallets s)
      in (s\<lparr>as_wallets := t\<rparr>, [], resp))"
| "run_handler env rq params HWalletList s u =
     (s, [], WalletHandler_List (\<lambda>u. ListWallets (ae_queryWallets env) (ae_newestWallets env) u (as_wallets s)) u)"
| "run_handler env rq params HWalletListAll s u = (s, [], ae_listAll env (as_wallets s))"
| "run_handler env rq params HWalletGet s u =
     (let (i, resp) = WalletHandler_Get (http_of env s) (GetBalance (ae_HexToAddress env) (ae_rpc env) (ae_balanceOf env))
            (params ''id'') u (istate_of s)
      in (put_istate i s, [], resp))"
| "run_handler env rq params HTxList s u =
     (s, [], TransactionHandler_ListByWallet (http_of env s) (ae_newestTxs env) (params ''id'') u (wstate_of s))"
| "run_handler env rq params HTxSend s u =
     on_txs (TransactionHandler_Send (http_of env s) (bind_res (rq_body rq) (ae_transfer env)) u) s"
| "run_handler env rq params HTxGet s u =
     (s, [], TransactionHandler_Get (http_of env s) (params ''id'') (rq_query rq ''wallet_id'') u (wstate_of s))"
| "run_handler env rq params HTxCancel s u =
     on_txs (TransactionHandler_Cancel (http_of env s) (params ''id'') (rq_query rq ''wallet_id'') u) s"
| "run_handler env rq params HTxSpeedUp s u =
     on_txs (TransactionHandler_SpeedUp (http_of env s) (params ''id'') (rq_query rq ''wallet_id'') u) s"

definition guarded ::
  "('tx, 'r, 'pk) api_env \<Rightarrow> request \<Rightarrow> route_guard \<Rightarrow> 'r api_state \<Rightarrow>
   (string \<Rightarrow> 'r api_state \<times> send_effect list \<times> response) \<Rightarrow> 'r api_state \<times> send_effect list \<times> response" where
  "guarded env rq g s handler =
     (case g of
        Unguarded \<Rightarrow> handler []
      | UserGuard \<Rightarrow>
          Authenticate (ae_jwt env) (ae_auth env) (ae_now env) (rq_header rq ''Authorization'') (\<lambda>r. (s, [], r)) handler
      | ServiceGuard \<Rightarrow>
          ServiceToken (ae_serviceToken env) (rq_header rq ''X-Granville-Service-Token'') (\<lambda>r. (s, [], r)) handler)"

definition ServeHTTP ::
  "chi \<Rightarrow> ('tx, 'r, 'pk) api_env \<Rightarrow> request \<Rightarrow> 'r api_state \<Rightarrow> 'r api_state \<times> send_effect list \<times> response" where
  "ServeHTTP chi env rq s =
     (case chi NewRouter (rq_method rq) (rq_path rq) of
        ChiNotFound \<Rightarrow> (s, [], (404, JText ''404 page not found''))
      | ChiMethodNotAllowed \<Rightarrow> (s, [], (405, JNoContent))
      | ChiRoute r params \<Rightarrow> guarded env rq (rt_guard r) s (run_handler env rq params (rt_handler r) s))"

end
