(* ===== verification/Wallet_Properties.thy ===== *)
theory Wallet_Properties
  imports Wallet_Http
begin

text \<open>
  Properties of the wallet service: what a transfer leaves in the table of transactions and what it
  broadcasts, how nonces are given out and taken back, which channel a result of the cluster reaches,
  and which requests may sign at all.
\<close>

section \<open>Facts about rows\<close>

lemma map_of_update_row [simp]:
  "map_of (update_row f i t) j = (if j = i then map_option f (map_of t i) else map_of t j)"
  by (induction t) (auto simp: update_row_def)

text \<open>The row of a transaction.\<close>

definition row_of :: "'r wstate \<Rightarrow> string \<Rightarrow> tx_row option" where
  "row_of s i = map_of (ws_table s) i"

lemma row_updateStatus:
  "row_of (fst (updateStatus env i st er s)) j =
     (if j = i \<and> sv_db env (UpdateStatus st) = None
      then map_option (\<lambda>row. row\<lparr>tr_Status := st, tr_MpcErrorCode := er\<rparr>) (row_of s i) else row_of s j)"
  by (simp add: updateStatus_def row_of_def split: option.splits)

lemma row_saves:
  "row_of (saveSignedRLP env i rlp s) j =
     (if j = i \<and> sv_db env SaveSignedRLP = None
      then map_option (\<lambda>row. row\<lparr>tr_SignedRLP := Some rlp\<rparr>) (row_of s i) else row_of s j)"
  "row_of (fst (saveTxHash env i h s)) j =
     (if j = i \<and> sv_db env SaveTxHash = None
      then map_option (\<lambda>row. row\<lparr>tr_TxHash := Some h\<rparr>) (row_of s i) else row_of s j)"
  "row_of (release env chain from s) j = row_of s j"
  by (simp_all add: saveSignedRLP_def saveTxHash_def release_def row_of_def split: option.splits)

lemma length_padLeft [simp]: "length (padLeft b n) = n"
  by (simp add: padLeft_def)

lemma be_nat_padLeft: "length b \<le> n \<Longrightarrow> be_nat (padLeft b n) = be_nat b"
  by (cases "length b = n") (simp_all add: padLeft_def)

text \<open>The 65 bytes hold the two numbers of the signature and the lowest bit of the recovery identifier.\<close>

lemma sig65_parts:
  assumes "length r \<le> 32" and "length s \<le> 32" and "recovery \<noteq> []"
  shows "length (sig65 r s recovery) = 65 \<and> be_nat (take 32 (sig65 r s recovery)) = be_nat r \<and>
    be_nat (take 32 (drop 32 (sig65 r s recovery))) = be_nat s \<and> sig65 r s recovery ! 64 = and (last recovery) 1"
  using assms by (simp add: sig65_def be_nat_padLeft nth_append)

section \<open>Nonces\<close>

text \<open>A Redis that is its map of counters.\<close>

definition map_redis :: "(string \<rightharpoonup> int) redis" where
  "map_redis =
     \<lparr>rd_Exists = (\<lambda>r k. if r k = None then 0 else 1),
      rd_SetNX = (\<lambda>r k v. if r k = None then r(k \<mapsto> v) else r),
      rd_Incr = (\<lambda>r k. let n = (case r k of None \<Rightarrow> 0 | Some v \<Rightarrow> v) + 1 in Inr (r(k \<mapsto> n), n)),
      rd_Decr = (\<lambda>r k. r(k \<mapsto> (case r k of None \<Rightarrow> 0 | Some v \<Rightarrow> v) - 1)),
      rd_value = (\<lambda>r k. r k)\<rparr>"

lemma map_redis_ok: "redis_ok map_redis"
  by (auto simp: redis_ok_def map_redis_def Let_def)

text \<open>Transactions that are their own bytes.\<close>

definition plain_eth :: "bytes eth" where
  "plain_eth =
     \<lparr>et_HexToAddress = go_bytes, et_Hex = hex_Encode, et_PackTransfer = (\<lambda>a n. Inr a),
      et_NewTx = (\<lambda>tx. ucast (dt_Nonce tx) # dt_Data tx),
      et_inner = (\<lambda>tx. erc20_tx 1 0 0 [] tx), et_SigningHash = (\<lambda>c tx. rev tx),
      et_MarshalBinary = Inr, et_UnmarshalBinary = Inr, et_WithSignature = (\<lambda>c tx sig. Inr (tx @ sig)),
      et_Hash = hex_Encode\<rparr>"

lemma redis_facts:
  assumes "redis_ok R"
  shows "rd_Exists R r k = (if rd_value R r k = None then 0 else 1)"
    and "rd_value R r k = None \<Longrightarrow> rd_value R (rd_SetNX R r k v) k = Some v"
    and "rd_value R r k = Some c \<Longrightarrow> \<exists>r'. rd_Incr R r k = Inr (r', c + 1) \<and> rd_value R r' = (rd_value R r)(k \<mapsto> c + 1)"
    and "rd_value R r k = Some c \<Longrightarrow> rd_value R (rd_Decr R r k) = (rd_value R r)(k \<mapsto> c - 1)"
proof -
  note all = assms [unfolded redis_ok_def, rule_format, of r k]
  show "rd_Exists R r k = (if rd_value R r k = None then 0 else 1)" using all by blast
  show "rd_value R (rd_SetNX R r k v) k = Some v" if "rd_value R r k = None" using all that by simp
  show "\<exists>r'. rd_Incr R r k = Inr (r', c + 1) \<and> rd_value R r' = (rd_value R r)(k \<mapsto> c + 1)" if "rd_value R r k = Some c"
    using all that by (auto simp: Let_def)
  show "rd_value R (rd_Decr R r k) = (rd_value R r)(k \<mapsto> c - 1)" if "rd_value R r k = Some c"
    using all that by simp
qed

lemma nextNonce_counter:
  assumes "redis_ok R" and "rd_value R r (nonce_key (et_Hex E) chain addr) = Some c" and "0 \<le> c" "c < 2 ^ 64"
  shows "\<exists>r'. nextNonce E R pending chain addr r = (r', Inr (word_of_int c)) \<and>
    rd_value R r' = (rd_value R r)(nonce_key (et_Hex E) chain addr \<mapsto> c + 1)"
proof -
  from redis_facts(3) [OF assms(1,2)] obtain r' where
    "rd_Incr R r (nonce_key (et_Hex E) chain addr) = Inr (r', c + 1)"
    "rd_value R r' = (rd_value R r)(nonce_key (et_Hex E) chain addr \<mapsto> c + 1)" by blast
  moreover have "rd_Exists R r (nonce_key (et_Hex E) chain addr) \<noteq> 0"
    using redis_facts(1) [OF assms(1), of r] assms(2) by simp
  ultimately show ?thesis using assms(3,4) by (simp add: nextNonce_def Let_def parse_uint64_def)
qed

text \<open>
  (C14) Releasing a nonce takes back the last one that was handed out, whoever holds it: when the first of
  two transactions in flight fails, the next transaction gets the nonce of the second.
\<close>

theorem released_nonce_collides:
  assumes "redis_ok R" and "rd_value R r (nonce_key (et_Hex E) chain addr) = Some c" and "0 \<le> c" "c + 1 < 2 ^ 64"
  shows "\<exists>r1 r2 r3. nextNonce E R pending chain addr r = (r1, Inr (word_of_int c)) \<and>
    nextNonce E R pending chain addr r1 = (r2, Inr (word_of_int (c + 1))) \<and>
    nextNonce E R pending chain addr (ReleaseNonce E R chain addr r2) = (r3, Inr (word_of_int (c + 1)))"
proof -
  let ?k = "nonce_key (et_Hex E) chain addr"
  obtain r1 where 1: "nextNonce E R pending chain addr r = (r1, Inr (word_of_int c))"
    "rd_value R r1 ?k = Some (c + 1)"
    using nextNonce_counter [OF assms(1-3)] assms(4) by fastforce
  obtain r2 where 2: "nextNonce E R pending chain addr r1 = (r2, Inr (word_of_int (c + 1)))"
    "rd_value R r2 ?k = Some (c + 2)"
    using nextNonce_counter [OF assms(1) 1(2)] assms(3,4) by fastforce
  have "rd_value R (ReleaseNonce E R chain addr r2) ?k = Some (c + 1)"
    using redis_facts(4) [OF assms(1) 2(2)] by (simp add: ReleaseNonce_def)
  from nextNonce_counter [OF assms(1) this] assms(3,4) 1 2 show ?thesis by fastforce
qed

theorem released_nonce_collides_witness:
  "\<exists>r1 r2 r3. nextNonce plain_eth map_redis (\<lambda>a. Inr 7) ''base'' [1] [''nonce:base:01'' \<mapsto> 7] = (r1, Inr 7) \<and>
    nextNonce plain_eth map_redis (\<lambda>a. Inr 7) ''base'' [1] r1 = (r2, Inr 8) \<and>
    nextNonce plain_eth map_redis (\<lambda>a. Inr 7) ''base'' [1] (ReleaseNonce plain_eth map_redis ''base'' [1] r2) = (r3, Inr 8)"
proof -
  have k: "nonce_key (et_Hex plain_eth) ''base'' [1] = ''nonce:base:01''" by code_simp
  have v: "rd_value map_redis [''nonce:base:01'' \<mapsto> 7] (nonce_key (et_Hex plain_eth) ''base'' [1]) = Some 7"
    unfolding k by (simp add: map_redis_def)
  show ?thesis using released_nonce_collides [OF map_redis_ok v, of "\<lambda>a. Inr 7"] by simp
qed

section \<open>Sending\<close>

definition build_of :: "('tx, 'r) send_env \<Rightarrow> SendRequest \<Rightarrow> string \<Rightarrow> 'r wstate \<Rightarrow> 'r \<times> BuildResult res" where
  "build_of env req fromAddress s =
     BuildERC20Transfer (sv_eth env) (sv_redis env) (sv_urls env) (sv_rpc env) (sq_Chain req) (sq_Token req)
       (et_HexToAddress (sv_eth env) fromAddress) (et_HexToAddress (sv_eth env) (sq_ToAddress req)) (sq_Amount req) (ws_redis s)"

definition send_msg :: "('tx, 'r) send_env \<Rightarrow> SendRequest \<Rightarrow> string \<Rightarrow> BuildResult \<Rightarrow> SignTxMessage" where
  "send_msg env req mpcWalletID br = sign_msg mpcWalletID (sq_Chain req) (sv_uuid env) (br_SigningHash br)"

text \<open>The row of a transfer: whose it is and what was to be signed.\<close>

definition row_for :: "SendRequest \<Rightarrow> BuildResult \<Rightarrow> tx_row \<Rightarrow> bool" where
  "row_for req br row \<longleftrightarrow> tr_WalletID row = sq_WalletID req \<and> tr_UnsignedRLP row = br_UnsignedTxRLP br"

text \<open>
  How far the row got, by the updates that the database refused: \<open>sent_status\<close> after a broadcast,
  \<open>failed_status\<close> after an error that the service records.
\<close>

definition sent_status :: "('tx, 'r) send_env \<Rightarrow> Status \<Rightarrow> bool" where
  "sent_status env st \<longleftrightarrow>
     st = (if sv_db env (UpdateStatus StatusBroadcast) = None then StatusBroadcast
           else if sv_db env (UpdateStatus StatusSigned) = None then StatusSigned else StatusSigning)"

definition failed_status :: "('tx, 'r) send_env \<Rightarrow> Status \<Rightarrow> bool" where
  "failed_status env st \<longleftrightarrow>
     (if sv_db env (UpdateStatus StatusFailed) = None then st = StatusFailed else st \<in> {StatusSigning, StatusSigned})"

lemma send_signed_outcome:
  assumes "row_of s (tx_ID tx) = Some row0" and "row_for req br row0" and "tr_Status row0 = StatusSigning"
    and "tr_SignedRLP row0 = None" and "tr_TxHash row0 = None"
    and "send_signed env req br tx sg s = (s', fx, res)"
  shows "(\<exists>rlp hash row. res = Inr (tx\<lparr>tx_Status := ''broadcast'', tx_TxHash := hash\<rparr>) \<and>
       AssembleSignedTx (sv_eth env) (br_UnsignedTxRLP br) (sr_R sg) (sr_S sg) (sr_SignatureRecovery sg) (br_ChainID br) = Inr rlp \<and>
       BroadcastTx (sv_eth env) (sv_urls env) (sv_rpc env) (sq_Chain req) rlp = (Inr hash, [rlp]) \<and>
       fx = [Broadcast rlp] \<and> row_of s' (tx_ID tx) = Some row \<and> row_for req br row \<and> sent_status env (tr_Status row) \<and>
       tr_SignedRLP row = (if sv_db env SaveSignedRLP = None then Some rlp else None) \<and>
       tr_TxHash row = (if sv_db env SaveTxHash = None then Some hash else None)) \<or>
     (\<exists>e row. res = Inl e \<and> row_of s' (tx_ID tx) = Some row \<and> row_for req br row \<and> failed_status env (tr_Status row)) \<and>
       (\<forall>b. Broadcast b \<in> set fx \<longrightarrow>
         (\<exists>e. fst (BroadcastTx (sv_eth env) (sv_urls env) (sv_rpc env) (sq_Chain req) b) = Inl e))"
proof (cases "AssembleSignedTx (sv_eth env) (br_UnsignedTxRLP br) (sr_R sg) (sr_S sg) (sr_SignatureRecovery sg) (br_ChainID br)")
  case (Inl e)
  with assms show ?thesis
    by (auto simp: send_signed_def Let_def fail_tx_def row_updateStatus row_for_def failed_status_def)
next
  case (Inr rlp)
  obtain b sent where bc: "BroadcastTx (sv_eth env) (sv_urls env) (sv_rpc env) (sq_Chain req) rlp = (b, sent)"
    by (cases "BroadcastTx (sv_eth env) (sv_urls env) (sv_rpc env) (sq_Chain req) rlp")
  then have sent: "set sent \<subseteq> {rlp}" "\<And>h. b = Inr h \<Longrightarrow> sent = [rlp]"
    by (auto simp: BroadcastTx_def split: sum.splits option.splits)
  show ?thesis
  proof (cases b)
    case (Inl e)
    with assms Inr bc sent(1) show ?thesis
      by (auto simp: send_signed_def Let_def fail_tx_def row_updateStatus row_saves row_for_def failed_status_def)
  next
    case h: (Inr hash)
    with sent(2) have "sent = [rlp]" by simp
    with h assms Inr bc show ?thesis
      by (auto simp: send_signed_def Let_def row_updateStatus row_saves row_for_def sent_status_def)
  qed
qed

lemma insertDraft_cases:
  obtains (refused) row e where "sv_insert env row = Some e" and "insertDraft env req txID (br_UnsignedTxRLP br) s = (s, Inl e)"
  | (inserted) row where "row_for req br row" "tr_Status row = StatusDraft" "tr_SignedRLP row = None" "tr_TxHash row = None"
      and "insertDraft env req txID (br_UnsignedTxRLP br) s =
        (s\<lparr>ws_table := AList.update (sv_rowID env) row (ws_table s)\<rparr>, Inr (scan_tx (sv_rowID env) row))"
proof -
  define row where "row = \<lparr>tr_WalletID = sq_WalletID req, tr_TxID = txID, tr_Chain = sq_Chain req, tr_Token = sq_Token req,
            tr_ToAddress = sq_ToAddress req, tr_AmountRaw = bigint_String (sq_Amount req), tr_Status = StatusDraft,
            tr_MpcErrorCode = [], tr_UnsignedRLP = br_UnsignedTxRLP br, tr_SignedRLP = None, tr_TxHash = None,
            tr_BlockNumber = None, tr_CreatedAt = sv_now env\<rparr>"
  show thesis
  proof (cases "sv_insert env row")
    case None
    then show thesis by (intro inserted [of row]) (simp_all add: row_for_def row_def insertDraft_def Let_def)
  next
    case (Some e)
    then show thesis by (intro refused [of row e]) (simp_all add: row_def insertDraft_def Let_def)
  qed
qed

text \<open>
  (C6) What \<^verbatim>\<open>Send\<close> leaves behind, whatever the database answers. When it reports a transfer as sent, the
  cluster signed the hash of the transfer that was built, the assembled transaction is the only thing
  that was broadcast, and the chain took it under the announced hash. The row of the transfer is then
  \<^verbatim>\<open>broadcast\<close> with these bytes and this hash, except for each of the three updates that the database
  refused: those errors are ignored. On an error nothing is recorded, because the transfer could not be
  built or its draft was refused; or the row is a draft because the database refused to mark it as
  signing, and the nonce is kept; or the row is \<^verbatim>\<open>failed\<close>, unless the database refused that update; or the
  context ended during the wait for the signature, which leaves the row in \<^verbatim>\<open>signing\<close> and keeps the
  nonce. What was broadcast before an error was refused by the chain.
\<close>

theorem send_outcome:
  assumes "Send env req mpcWalletID from s = (s', fx, res)"
  shows "case res of
      Inr tx \<Rightarrow> \<exists>r br sg rlp row. build_of env req from s = (r, Inr br) \<and>
        sv_wait env (send_msg env req mpcWalletID br) = SignResult sg \<and> sr_ResultType sg = ResultTypeSuccess \<and>
        AssembleSignedTx (sv_eth env) (br_UnsignedTxRLP br) (sr_R sg) (sr_S sg) (sr_SignatureRecovery sg) (br_ChainID br) = Inr rlp \<and>
        BroadcastTx (sv_eth env) (sv_urls env) (sv_rpc env) (sq_Chain req) rlp = (Inr (tx_TxHash tx), [rlp]) \<and>
        fx = [SubmitSigning (send_msg env req mpcWalletID br), Broadcast rlp] \<and>
        tx_ID tx = sv_rowID env \<and> row_of s' (tx_ID tx) = Some row \<and> row_for req br row \<and> sent_status env (tr_Status row) \<and>
        tr_SignedRLP row = (if sv_db env SaveSignedRLP = None then Some rlp else None) \<and>
        tr_TxHash row = (if sv_db env SaveTxHash = None then Some (tx_TxHash tx) else None)
    | Inl e \<Rightarrow>
        (ws_table s' = ws_table s \<and> fx = [] \<and>
          ((\<exists>r e'. build_of env req from s = (r, Inl e')) \<or> (\<exists>row e'. sv_insert env row = Some e'))) \<or>
        (\<exists>r br row. build_of env req from s = (r, Inr br) \<and> row_of s' (sv_rowID env) = Some row \<and> row_for req br row \<and>
          (tr_Status row = StatusDraft \<and> sv_db env (UpdateStatus StatusSigning) = Some e \<and> ws_redis s' = r \<and> fx = [] \<or>
           failed_status env (tr_Status row) \<or>
           tr_Status row = StatusSigning \<and> sv_wait env (send_msg env req mpcWalletID br) = CtxEnded e \<and> ws_redis s' = r) \<and>
          (\<forall>b. Broadcast b \<in> set fx \<longrightarrow>
             (\<exists>e. fst (BroadcastTx (sv_eth env) (sv_urls env) (sv_rpc env) (sq_Chain req) b) = Inl e)))"
proof -
  obtain r b where build: "build_of env req from s = (r, b)" by (cases "build_of env req from s")
  show ?thesis
  proof (cases b)
    case (Inl e)
    with build assms have "s' = s\<lparr>ws_redis := r\<rparr>" "fx = []" "res = Inl (EWrap ''send: build tx: '' e [])"
      by (simp_all add: Send_def build_of_def Let_def)
    with build Inl show ?thesis by simp
  next
    case (Inr br)
    note built = build [unfolded Inr]
    show ?thesis
    proof (rule insertDraft_cases [of env req "sv_uuid env" br "s\<lparr>ws_redis := r\<rparr>"])
      fix row e
      assume ins: "sv_insert env row = Some e"
        "insertDraft env req (sv_uuid env) (br_UnsignedTxRLP br) (s\<lparr>ws_redis := r\<rparr>) = (s\<lparr>ws_redis := r\<rparr>, Inl e)"
      with built assms have "ws_table s' = ws_table s" "fx = []" "res = Inl (EWrap ''send: insert draft: '' e [])"
        by (auto simp: Send_def build_of_def release_def Let_def)
      with ins(1) show ?thesis by auto
    next
      fix row0
      assume row0: "row_for req br row0" "tr_Status row0 = StatusDraft" "tr_SignedRLP row0 = None" "tr_TxHash row0 = None"
        and ins: "insertDraft env req (sv_uuid env) (br_UnsignedTxRLP br) (s\<lparr>ws_redis := r\<rparr>) =
          (s\<lparr>ws_redis := r\<rparr>\<lparr>ws_table := AList.update (sv_rowID env) row0 (ws_table (s\<lparr>ws_redis := r\<rparr>))\<rparr>,
           Inr (scan_tx (sv_rowID env) row0))"
      define tx where "tx = scan_tx (sv_rowID env) row0"
      define s0 where "s0 = s\<lparr>ws_redis := r, ws_table := AList.update (sv_rowID env) row0 (ws_table s)\<rparr>"
      have i: "tx_ID tx = sv_rowID env" by (simp add: tx_def scan_tx_def)
      have s0: "row_of s0 (sv_rowID env) = Some row0" "ws_redis s0 = r" by (simp_all add: s0_def row_of_def)
      have ins': "insertDraft env req (sv_uuid env) (br_UnsignedTxRLP br) (s\<lparr>ws_redis := r\<rparr>) = (s0, Inr tx)"
        using ins by (simp add: s0_def tx_def)
      show ?thesis
      proof (cases "sv_db env (UpdateStatus StatusSigning)")
        case (Some e)
        then have "s' = s0" "fx = []" "res = Inl e"
          using built ins' assms by (simp_all add: Send_def build_of_def updateStatus_def Let_def)
        with Some built s0 row0 show ?thesis by auto
      next
        case None
        define s1 where "s1 = fst (updateStatus env (tx_ID tx) StatusSigning [] s0)"
        let ?row1 = "row0\<lparr>tr_Status := StatusSigning, tr_MpcErrorCode := []\<rparr>"
        have row1: "row_of s1 (sv_rowID env) = Some ?row1" "ws_redis s1 = r" "row_for req br ?row1"
          using None s0 row0 by (simp_all add: s1_def row_updateStatus i row_for_def) (simp add: updateStatus_def)
        let ?m = "send_msg env req mpcWalletID br"
        have up: "updateStatus env (tx_ID tx) StatusSigning [] s0 = (s1, Inr ())"
          using None by (simp add: s1_def updateStatus_def)
        have run: "Send env req mpcWalletID from s = send_submit env req from br tx ?m s1"
          using built ins' up by (simp add: Send_def build_of_def send_msg_def Let_def)
        have failed: "\<exists>row. row_of (release env c f (fail_tx env (tx_ID tx) er s1)) (sv_rowID env) = Some row \<and>
            row_for req br row \<and> failed_status env (tr_Status row)" for c f er
          using row1 by (simp add: row_saves fail_tx_def row_updateStatus i row_for_def failed_status_def)
        show ?thesis
        proof (cases "sv_submit env ?m")
          case (Some e)
          with run assms have "s' = release env (sq_Chain req) from (fail_tx env (tx_ID tx) (Error e) s1)"
            "fx = [SubmitSigning ?m]" "\<exists>e. res = Inl e" by (auto simp: send_submit_def)
          moreover obtain row where "row_of (release env (sq_Chain req) from (fail_tx env (tx_ID tx) (Error e) s1)) (sv_rowID env) = Some row"
                "row_for req br row" "failed_status env (tr_Status row)" using failed by blast
              ultimately show ?thesis using built by auto
        next
          case ok: None
          show ?thesis
          proof (cases "sv_wait env ?m")
            case (SignResult sg)
            show ?thesis
            proof (cases "sr_ResultType sg = ResultTypeSuccess")
              case False
              with ok SignResult run assms have "s' = release env (sq_Chain req) from (fail_tx env (tx_ID tx) (sr_ErrorReason sg) s1)"
                "fx = [SubmitSigning ?m]" "\<exists>e. res = Inl e" by (auto simp: send_submit_def)
              moreover obtain row where "row_of (release env (sq_Chain req) from (fail_tx env (tx_ID tx) (sr_ErrorReason sg) s1)) (sv_rowID env) = Some row"
                "row_for req br row" "failed_status env (tr_Status row)" using failed by blast
              ultimately show ?thesis using built by auto
            next
              case True
              obtain s2 fx2 res2 where sgn: "send_signed env req br tx sg s1 = (s2, fx2, res2)" by (cases "send_signed env req br tx sg s1")
              have e: "s' = s2" "fx = SubmitSigning ?m # fx2" "res = res2"
                using run assms ok SignResult True sgn by (simp_all add: send_submit_def)
              have "row_of s1 (tx_ID tx) = Some ?row1" using row1(1) i by simp
              from send_signed_outcome [OF this row1(3) _ _ _ sgn] row0(3,4) i built SignResult True
              show ?thesis unfolding e by (auto split: sum.splits)
            qed
          next
            case SignTimeout
            with ok run assms have "s' = release env (sq_Chain req) from (fail_tx env (tx_ID tx) ''signing timeout'' s1)"
              "fx = [SubmitSigning ?m]" "\<exists>e. res = Inl e" by (auto simp: send_submit_def)
            moreover obtain row where "row_of (release env (sq_Chain req) from (fail_tx env (tx_ID tx) ''signing timeout'' s1)) (sv_rowID env) = Some row"
                "row_for req br row" "failed_status env (tr_Status row)" using failed by blast
              ultimately show ?thesis using built by auto
          next
            case (CtxEnded e)
            with ok run assms have "s' = s1" "fx = [SubmitSigning ?m]" "res = Inl e" by (auto simp: send_submit_def)
            with CtxEnded row1 built show ?thesis by simp
          qed
        qed
      qed
    qed
  qed
qed

definition demo_urls :: AlchemyURLs where
  "demo_urls = \<lparr>al_Eth = ''e'', al_Polygon = ''p'', al_Arbitrum = ''a'', al_Base = ''b'', al_Optimism = ''o''\<rparr>"

definition demo_rpc :: rpc where
  "demo_rpc = \<lparr>rp_Dial = (\<lambda>_. None), rp_PendingNonceAt = (\<lambda>_. Inr 7), rp_SuggestGasTipCap = Inr 5,
     rp_SendTransaction = (\<lambda>_. None)\<rparr>"

definition demo_result :: SigningResultEvent where
  "demo_result = \<lparr>sr_ResultType = ResultTypeSuccess, sr_ErrorCode = NoErrorCode, sr_ErrorReason = [], sr_IsTimeout = False,
     sr_NetworkInternalCode = ''base'', sr_WalletID = ''w'', sr_TxID = ''tx'', sr_R = [9], sr_S = [1, 2],
     sr_SignatureRecovery = [0], sr_Signature = [9, 1, 2]\<rparr>"

definition demo_env :: "wait_result \<Rightarrow> (bytes, string \<rightharpoonup> int) send_env" where
  "demo_env answered = \<lparr>sv_eth = plain_eth, sv_redis = map_redis, sv_urls = demo_urls, sv_rpc = demo_rpc,
     sv_insert = (\<lambda>_. None), sv_db = (\<lambda>_. None), sv_submit = (\<lambda>_. None), sv_wait = (\<lambda>_. answered),
     sv_uuid = ''tx'', sv_rowID = ''1'', sv_now = ''now''\<rparr>"

definition no_txs :: "(string \<rightharpoonup> int) wstate" where
  "no_txs = \<lparr>ws_table = [], ws_redis = Map.empty\<rparr>"

definition demo_send :: SendRequest where
  "demo_send = \<lparr>sq_WalletID = ''w'', sq_Chain = ''base'', sq_Token = ''USDC'', sq_ToAddress = ''0x2'', sq_Amount = Some 5\<rparr>"

text \<open>A transfer whose last updates the database refuses: it is sent, and the row says \<^verbatim>\<open>signed\<close>.\<close>

definition flaky_env :: "(bytes, string \<rightharpoonup> int) send_env" where
  "flaky_env = (demo_env (SignResult demo_result))\<lparr>sv_db := (\<lambda>st. if st \<in> {SaveTxHash, UpdateStatus StatusBroadcast}
     then Some (ENew ''connection lost'') else None)\<rparr>"

theorem send_outcome_witness:
  "(\<exists>s' fx tx row. Send (demo_env (SignResult demo_result)) demo_send ''m'' ''0x1'' \<lparr>ws_table = [], ws_redis = Map.empty\<rparr> =
      (s', fx, Inr tx) \<and> length fx = 2 \<and> row_of s' ''1'' = Some row \<and> tr_Status row = StatusBroadcast) \<and>
   (\<exists>s' fx tx row. Send flaky_env demo_send ''m'' ''0x1'' \<lparr>ws_table = [], ws_redis = Map.empty\<rparr> =
      (s', fx, Inr tx) \<and> length fx = 2 \<and> row_of s' ''1'' = Some row \<and> tr_Status row = StatusSigned \<and> tr_TxHash row = None)"
proof (intro conjI)
  let ?s = "\<lparr>ws_table = [], ws_redis = Map.empty\<rparr> :: (string \<rightharpoonup> int) wstate"
  let ?env = "demo_env (SignResult demo_result)"
  have "case Send ?env demo_send ''m'' ''0x1'' ?s of (s', fx, Inr tx) \<Rightarrow> True | _ \<Rightarrow> False"
    by code_simp
  then obtain s' fx tx where run: "Send ?env demo_send ''m'' ''0x1'' ?s = (s', fx, Inr tx)"
    by (auto split: prod.splits sum.splits)
  from send_outcome [OF run] obtain row where
    "length fx = 2" "row_of s' (tx_ID tx) = Some row" "tr_Status row = StatusBroadcast" "tx_ID tx = ''1''"
    by (auto simp: demo_env_def sent_status_def)
  with run show "\<exists>s' fx tx row. Send ?env demo_send ''m'' ''0x1'' ?s = (s', fx, Inr tx) \<and> length fx = 2 \<and>
      row_of s' ''1'' = Some row \<and> tr_Status row = StatusBroadcast" by auto
  have "case Send flaky_env demo_send ''m'' ''0x1'' ?s of (s', fx, Inr tx) \<Rightarrow> True | _ \<Rightarrow> False"
    by code_simp
  then obtain s' fx tx where run: "Send flaky_env demo_send ''m'' ''0x1'' ?s = (s', fx, Inr tx)"
    by (auto split: prod.splits sum.splits)
  from send_outcome [OF run] obtain row where
    "length fx = 2" "row_of s' (tx_ID tx) = Some row" "tr_Status row = StatusSigned" "tx_ID tx = ''1''" "tr_TxHash row = None"
    by (auto simp: flaky_env_def demo_env_def sent_status_def)
  with run show "\<exists>s' fx tx row. Send flaky_env demo_send ''m'' ''0x1'' ?s = (s', fx, Inr tx) \<and> length fx = 2 \<and>
      row_of s' ''1'' = Some row \<and> tr_Status row = StatusSigned \<and> tr_TxHash row = None" by auto
qed

section \<open>Results reach their waiters\<close>

text \<open>
  The channels that are registered are distinct, older than the next one, and none of them got a
  result; \<open>out\<close> are the channels that did.
\<close>

definition one_key :: "('k \<rightharpoonup> 'v) \<Rightarrow> bool" where
  "one_key m \<longleftrightarrow> (\<forall>k k' v. m k = Some v \<longrightarrow> m k' = Some v \<longrightarrow> k = k')"

definition waiters_inv :: "waiters \<Rightarrow> nat list \<Rightarrow> bool" where
  "waiters_inv w out \<longleftrightarrow>
     one_key (map_of (wt_keygen w)) \<and> one_key (map_of (wt_signing w)) \<and>
     (\<forall>k ch. map_of (wt_keygen w) k = Some ch \<longrightarrow> ch < wt_next w \<and> ch \<notin> set out) \<and>
     (\<forall>k ch. map_of (wt_signing w) k = Some ch \<longrightarrow> ch < wt_next w \<and> ch \<notin> set out) \<and>
     (\<forall>k k' ch. map_of (wt_keygen w) k = Some ch \<longrightarrow> map_of (wt_signing w) k' \<noteq> Some ch) \<and>
     (\<forall>ch \<in> set out. ch < wt_next w) \<and> distinct out"

lemma waiters_inv_fresh:
  assumes "waiters_inv w out"
  shows "waiters_inv (w\<lparr>wt_keygen := AList.update i (wt_next w) (wt_keygen w), wt_next := Suc (wt_next w)\<rparr>) out"
    and "waiters_inv (w\<lparr>wt_signing := AList.update i (wt_next w) (wt_signing w), wt_next := Suc (wt_next w)\<rparr>) out"
  using assms unfolding waiters_inv_def one_key_def
  by (auto split: if_splits intro: less_SucI)

lemma waiters_inv_forget:
  assumes "waiters_inv w out"
  shows "waiters_inv (w\<lparr>wt_keygen := AList.delete i (wt_keygen w)\<rparr>) out"
    and "waiters_inv (w\<lparr>wt_signing := AList.delete i (wt_signing w)\<rparr>) out"
  using assms unfolding waiters_inv_def one_key_def by (auto split: if_splits)

lemma waiters_inv_take:
  assumes "waiters_inv w out"
  shows "map_of (wt_keygen w) i = Some ch \<Longrightarrow> waiters_inv (w\<lparr>wt_keygen := AList.delete i (wt_keygen w)\<rparr>) (out @ [ch])"
    and "map_of (wt_signing w) i = Some ch \<Longrightarrow> waiters_inv (w\<lparr>wt_signing := AList.delete i (wt_signing w)\<rparr>) (out @ [ch])"
  using assms unfolding waiters_inv_def one_key_def by (auto split: if_splits)

lemma waiter_step_inv:
  assumes "waiters_inv w out" and "waiter_step x w = (w', out')"
  shows "waiters_inv w' (out @ out')"
proof (cases x)
  case (OpCreate i ok)
  with assms waiters_inv_fresh(1) [OF assms(1), of i] show ?thesis
    by (cases ok) (auto simp: wc_CreateWallet_def answer_def Let_def dest: waiters_inv_forget(1) [of _ _ i])
next
  case (OpSign m ok)
  with assms waiters_inv_fresh(2) [OF assms(1), of "st_TxID m"] show ?thesis
    by (cases ok) (auto simp: wc_SignTransaction_def answer_def Let_def dest: waiters_inv_forget(2) [of _ _ "st_TxID m"])
next
  case (OpKeygenResult ev)
  with assms waiters_inv_take(1) [OF assms(1), of "kr_WalletID ev"] show ?thesis
    by (auto simp: handleKeygenResult_def split: option.splits)
next
  case (OpSignResult ev)
  with assms waiters_inv_take(2) [OF assms(1), of "sr_TxID ev"] show ?thesis
    by (auto simp: handleSignResult_def split: option.splits)
qed

lemma waiter_run_inv:
  "waiters_inv w out \<Longrightarrow> waiter_run ops w = (w', out') \<Longrightarrow> waiters_inv w' (out @ out')"
proof (induction ops arbitrary: w out out')
  case Nil
  then show ?case by simp
next
  case (Cons x xs)
  obtain w1 o1 where s: "waiter_step x w = (w1, o1)" by (cases "waiter_step x w")
  obtain o2 where r: "waiter_run xs w1 = (w', o2)" and o: "out' = o1 @ o2"
    using Cons.prems(2) s by (auto split: prod.splits)
  from Cons.IH [OF waiter_step_inv [OF Cons.prems(1) s] r] o show ?case by simp
qed

text \<open>The entry of a transaction stays until a result, or another request, names the transaction.\<close>

fun names_tx :: "string \<Rightarrow> waiter_op \<Rightarrow> bool" where
  "names_tx i (OpSign m ok) = (st_TxID m = i)"
| "names_tx i (OpSignResult ev) = (sr_TxID ev = i)"
| "names_tx i _ = False"

lemma waiter_run_keeps:
  "list_all (\<lambda>x. \<not> names_tx i x) ops \<Longrightarrow> waiter_run ops w = (w', out) \<Longrightarrow>
   map_of (wt_signing w') i = map_of (wt_signing w) i"
proof (induction ops arbitrary: w out)
  case (Cons x xs)
  obtain w1 o1 where s: "waiter_step x w = (w1, o1)" by (cases "waiter_step x w")
  then obtain o2 where r: "waiter_run xs w1 = (w', o2)"
    using Cons.prems(2) by (auto split: prod.splits)
  have "map_of (wt_signing w1) i = map_of (wt_signing w) i"
    using s Cons.prems(1)
    by (cases x) (auto simp: wc_CreateWallet_def wc_SignTransaction_def answer_def Let_def handleKeygenResult_def
        handleSignResult_def split: option.splits if_splits)
  with Cons.IH [OF _ r] Cons.prems(1) show ?case by simp
qed simp

text \<open>
  (C13) The client of the wallet service hands out each result to one channel and each channel at most
  one result. A channel that \<^verbatim>\<open>SignTransaction\<close> returned gets the first result that names its
  transaction, unless another request for the same transaction came in between.
\<close>

theorem results_reach_waiters:
  assumes "waiter_run before no_waiters = (w, out)" and "wc_SignTransaction publish msg w = (w1, Inr ch)"
    and "waiter_run ops w1 = (w2, out')" and "list_all (\<lambda>x. \<not> names_tx (st_TxID msg) x) ops"
    and "sr_TxID ev = st_TxID msg"
  shows "distinct out \<and> ch \<notin> set (out @ out') \<and> snd (handleSignResult ev w2) = Some ch \<and>
    snd (handleSignResult ev (fst (handleSignResult ev w2))) = None"
proof -
  have inv: "waiters_inv w out"
    using waiter_run_inv [OF _ assms(1), of "[]"] by (simp add: waiters_inv_def no_waiters_def one_key_def)
  have w1: "w1 = w\<lparr>wt_signing := AList.update (st_TxID msg) (wt_next w) (wt_signing w), wt_next := Suc (wt_next w)\<rparr>"
    and ch: "ch = wt_next w"
    using assms(2) by (auto simp: wc_SignTransaction_def Let_def split: sum.splits)
  have "map_of (wt_signing w1) (st_TxID msg) = Some ch" using w1 ch by simp
  then have e: "map_of (wt_signing w2) (st_TxID msg) = Some ch"
    using waiter_run_keeps [OF assms(4,3)] by simp
  have "waiters_inv w2 (out @ out')"
    using waiter_run_inv [OF waiters_inv_fresh(2) [OF inv] assms(3) [unfolded w1]] .
  then have "ch \<notin> set (out @ out')" using e unfolding waiters_inv_def by blast
  then show ?thesis using inv e assms(5) by (simp add: waiters_inv_def handleSignResult_def)
qed

definition demo_msg :: SignTxMessage where
  "demo_msg = sign_msg ''w'' ''base'' ''tx'' [1]"

theorem results_reach_waiters_witness:
  "\<exists>w1 ch. wc_SignTransaction (\<lambda>_. Inr ()) demo_msg no_waiters = (w1, Inr ch) \<and> snd (handleSignResult demo_result w1) = Some ch"
proof -
  obtain w1 ch where s: "wc_SignTransaction (\<lambda>_. Inr ()) demo_msg no_waiters = (w1, Inr ch)"
    by (simp add: wc_SignTransaction_def Let_def)
  have "waiter_run [] no_waiters = (no_waiters, [])" "waiter_run [] w1 = (w1, [])" by simp_all
  from results_reach_waiters [OF this(1) s this(2), of demo_result] s show ?thesis
    by (auto simp: demo_result_def demo_msg_def sign_msg_def)
qed

section \<open>Who may transfer\<close>

lemma GetWallet_owner:
  "GetWallet sel walletID userID t = Inr wlt \<Longrightarrow>
   \<exists>row. map_of t walletID = Some row \<and> wr_UserID row = userID \<and> wlt = scan_wallet walletID row"
  by (auto simp: GetWallet_def split: option.splits if_splits)

text \<open>The three handlers that sign, as one function of the request.\<close>

datatype tx_call = CallSend "transfer res" | CallCancel string string | CallSpeedUp string string

fun wallet_named :: "tx_call \<Rightarrow> string option" where
  "wallet_named (CallSend (Inr req)) = Some (tf_WalletID req)"
| "wallet_named (CallSend (Inl e)) = None"
| "wallet_named (CallCancel tx walletID) = Some walletID"
| "wallet_named (CallSpeedUp tx walletID) = Some walletID"

fun tx_handler :: "('tx, 'r) http_env \<Rightarrow> tx_call \<Rightarrow> 'r wstate \<Rightarrow> string \<Rightarrow> 'r wstate \<times> send_effect list \<times> response" where
  "tx_handler env (CallSend req) s userID = TransactionHandler_Send env req userID s"
| "tx_handler env (CallCancel tx walletID) s userID = TransactionHandler_Cancel env tx walletID userID s"
| "tx_handler env (CallSpeedUp tx walletID) s userID = TransactionHandler_SpeedUp env tx walletID userID s"

lemma tx_handler_owner:
  assumes "\<And>i row. wallet_named call = Some i \<Longrightarrow> map_of (he_wallets env) i = Some row \<Longrightarrow> wr_UserID row \<noteq> userID"
  shows "\<exists>resp. tx_handler env call s userID = (s, [], resp) \<and> fst resp \<in> {400, 404}"
proof -
  have g: "\<exists>e. GetWallet (he_select env) i userID (he_wallets env) = Inl e" if "wallet_named call = Some i" for i
    using assms [OF that] GetWallet_owner [of "he_select env" i userID "he_wallets env"]
    by (cases "GetWallet (he_select env) i userID (he_wallets env)") auto
  show ?thesis
  proof (cases call)
    case (CallSend req)
    with g show ?thesis
      by (cases req) (auto simp: TransactionHandler_Send_def writeError_def split: option.splits)
  qed (use g in \<open>auto simp: TransactionHandler_Cancel_def TransactionHandler_SpeedUp_def writeError_def\<close>)
qed

section \<open>Whose rows and messages\<close>

text \<open>
  From \<open>t0\<close> to \<open>t\<close> only rows of the wallet \<open>i\<close> were added or changed, and the rows that are still to be
  changed are of that wallet.
\<close>

definition wallet_rows :: "string \<Rightarrow> string set \<Rightarrow> tx_table \<Rightarrow> tx_table \<Rightarrow> bool" where
  "wallet_rows i ids t0 t \<longleftrightarrow>
     (\<forall>k row. map_of t k = Some row \<longrightarrow> map_of t0 k = Some row \<or> tr_WalletID row = i) \<and>
     (\<forall>k \<in> ids. \<forall>row. map_of t k = Some row \<longrightarrow> tr_WalletID row = i)"

lemma wallet_rows_update:
  assumes "wallet_rows i ids t0 t" and "k \<in> ids" and "\<And>row. tr_WalletID (f row) = tr_WalletID row"
  shows "wallet_rows i ids t0 (update_row f k t)"
  using assms unfolding wallet_rows_def by (auto simp: map_of_update_row split: if_splits)

lemma wallet_rows_insert:
  assumes "wallet_rows i ids t0 t" and "tr_WalletID row = i"
  shows "wallet_rows i (insert k ids) t0 (AList.update k row t)"
  using assms unfolding wallet_rows_def by (auto split: if_splits)

lemma wallet_rows_stmts:
  assumes "wallet_rows i ids t0 (ws_table s)" and "k \<in> ids"
  shows "wallet_rows i ids t0 (ws_table (fst (updateStatus env k st er s)))"
    and "wallet_rows i ids t0 (ws_table (saveSignedRLP env k rlp s))"
    and "wallet_rows i ids t0 (ws_table (fst (saveTxHash env k h s)))"
    and "wallet_rows i ids t0 (ws_table (fail_tx env k er s))"
    and "wallet_rows i ids t0 (ws_table (mark_cancelled env k s))"
    and "wallet_rows i ids t0 (ws_table (release env c a s))"
  using assms
  by (simp_all add: updateStatus_def saveSignedRLP_def saveTxHash_def fail_tx_def mark_cancelled_def release_def
      wallet_rows_update split: option.splits)

lemma insertDraft_rows:
  assumes "insertDraft env req txID rlp s = (s', Inr tx)" and "wallet_rows (sq_WalletID req) ids t0 (ws_table s)"
  shows "tx_ID tx = sv_rowID env" and "wallet_rows (sq_WalletID req) (insert (sv_rowID env) ids) t0 (ws_table s')"
  using assms by (auto simp: insertDraft_def Let_def scan_tx_def intro!: wallet_rows_insert split: option.splits)

lemma insertDraft_refused: "insertDraft env req txID rlp s = (s', Inl e) \<Longrightarrow> s' = s"
  by (auto simp: insertDraft_def Let_def split: option.splits)

lemma send_signed_rows:
  assumes "send_signed env req br tx sg s = (s', fx, res)" and "wallet_rows i ids t0 (ws_table s)" and "tx_ID tx \<in> ids"
  shows "wallet_rows i ids t0 (ws_table s') \<and> SubmitSigning m \<notin> set fx"
  using assms by (auto simp: send_signed_def Let_def wallet_rows_stmts split: sum.splits prod.splits)

lemma send_submit_rows:
  assumes "send_submit env req from br tx msg s = (s', fx, res)" and "wallet_rows i ids t0 (ws_table s)" and "tx_ID tx \<in> ids"
  shows "wallet_rows i ids t0 (ws_table s') \<and> (SubmitSigning m \<in> set fx \<longrightarrow> m = msg)"
  using assms send_signed_rows [of env req br tx _ s _ _ _ i ids t0 m]
  by (auto simp: send_submit_def Let_def wallet_rows_stmts split: option.splits wait_result.splits if_splits prod.splits)

lemma wallet_rows_refl: "wallet_rows i {} t t"
  by (simp add: wallet_rows_def)

lemma Send_rows:
  assumes "Send env req mpcWalletID from s = (s', fx, res)"
  shows "(\<exists>ids. wallet_rows (sq_WalletID req) ids (ws_table s) (ws_table s')) \<and>
    (SubmitSigning m \<in> set fx \<longrightarrow> st_WalletID m = mpcWalletID)"
proof -
  obtain r b where build: "build_of env req from s = (r, b)" by (cases "build_of env req from s")
  show ?thesis
  proof (cases b)
    case (Inl e)
    with build assms have "ws_table s' = ws_table s" "fx = []" by (auto simp: Send_def build_of_def Let_def)
    then show ?thesis using wallet_rows_refl [of "sq_WalletID req" "ws_table s"] by (intro conjI exI [of _ "{}"]) simp_all
  next
    case (Inr br)
    obtain s1 d where ins: "insertDraft env req (sv_uuid env) (br_UnsignedTxRLP br) (s\<lparr>ws_redis := r\<rparr>) = (s1, d)"
      by (cases "insertDraft env req (sv_uuid env) (br_UnsignedTxRLP br) (s\<lparr>ws_redis := r\<rparr>)")
    show ?thesis
    proof (cases d)
      case dl: (Inl e)
      with insertDraft_refused ins have "s1 = s\<lparr>ws_redis := r\<rparr>" by blast
      with build Inr ins dl assms have "ws_table s' = ws_table s" "fx = []"
        by (auto simp: Send_def build_of_def release_def Let_def)
      then show ?thesis using wallet_rows_refl [of "sq_WalletID req" "ws_table s"] by (intro conjI exI [of _ "{}"]) simp_all
    next
      case tx: (Inr tx)
      have rows: "tx_ID tx = sv_rowID env" "wallet_rows (sq_WalletID req) {sv_rowID env} (ws_table s) (ws_table s1)"
        using insertDraft_rows [OF ins [unfolded tx], of "{}" "ws_table s"] wallet_rows_refl by simp_all
      let ?s2 = "fst (updateStatus env (tx_ID tx) StatusSigning [] s1)"
      have rows2: "wallet_rows (sq_WalletID req) {sv_rowID env} (ws_table s) (ws_table ?s2)"
        using wallet_rows_stmts(1) [OF rows(2)] rows(1) by simp
      show ?thesis
      proof (cases "snd (updateStatus env (tx_ID tx) StatusSigning [] s1)")
        case err: (Inl e)
        with build Inr ins tx assms have "s' = ?s2" "fx = []"
          by (auto simp: Send_def build_of_def Let_def split: prod.splits)
        with rows2 show ?thesis by auto
      next
        case ok: (Inr u)
        with build Inr ins tx assms have "send_submit env req from br tx (send_msg env req mpcWalletID br) ?s2 = (s', fx, res)"
          by (auto simp: Send_def build_of_def send_msg_def Let_def split: prod.splits)
        from send_submit_rows [OF this rows2, of m] rows(1) show ?thesis by (auto simp: send_msg_def sign_msg_def)
      qed
    qed
  qed
qed

lemma replace_tx_rows:
  assumes "replace_tx env name done mpcWalletID chain chainID hash rlp tx s = (s', fx, res)"
    and "wallet_rows i ids t0 (ws_table s)" and "tx_ID tx \<in> ids"
    and "\<And>s. wallet_rows i ids t0 (ws_table s) \<Longrightarrow> wallet_rows i ids t0 (ws_table (done s))"
  shows "wallet_rows i ids t0 (ws_table s') \<and> (SubmitSigning m \<in> set fx \<longrightarrow> st_WalletID m = mpcWalletID)"
  using assms
  by (auto simp: replace_tx_def sign_msg_def Let_def wallet_rows_stmts split: option.splits wait_result.splits if_splits sum.splits prod.splits)

lemma load_unsigned_wallet:
  "load_unsigned env k w s = Inr rlp \<Longrightarrow> wallet_rows w {k} (ws_table s) (ws_table s)"
  by (auto simp: load_unsigned_def wallet_rows_def split: option.splits if_splits)

lemma CancelTx_rows:
  assumes "CancelTx env k w from mpcWalletID chain s = (s', fx, res)"
  shows "(\<exists>ids. wallet_rows w ids (ws_table s) (ws_table s')) \<and> (SubmitSigning m \<in> set fx \<longrightarrow> st_WalletID m = mpcWalletID)"
proof (cases "s' = s \<and> fx = []")
  case True
  then show ?thesis using wallet_rows_refl [of w "ws_table s"] by auto
next
  case False
  with assms obtain rlp req u s1 tx chainID hash where l: "load_unsigned env k w s = Inr rlp"
    and ins: "insertDraft env req (sv_uuid env) u s = (s1, Inr tx)" "sq_WalletID req = w"
    and rep: "replace_tx env ''cancel'' (mark_cancelled env k) mpcWalletID chain chainID hash u tx s1 = (s', fx, res)"
    by (auto simp: CancelTx_def Let_def dest: insertDraft_refused split: sum.splits prod.splits)
  have rows: "tx_ID tx = sv_rowID env" "wallet_rows w {sv_rowID env, k} (ws_table s) (ws_table s1)"
    using insertDraft_rows [OF ins(1), of "{k}" "ws_table s"] load_unsigned_wallet [OF l] ins(2) by simp_all
  have "wallet_rows w {sv_rowID env, k} (ws_table s) (ws_table (mark_cancelled env k s2))"
    if "wallet_rows w {sv_rowID env, k} (ws_table s) (ws_table s2)" for s2
    using wallet_rows_stmts(5) [OF that, of k env] by simp
  from replace_tx_rows [OF rep rows(2) _ this, of m] rows(1) show ?thesis by auto
qed

lemma SpeedUpTx_rows:
  assumes "SpeedUpTx env k w mpcWalletID chain s = (s', fx, res)"
  shows "(\<exists>ids. wallet_rows w ids (ws_table s) (ws_table s')) \<and> (SubmitSigning m \<in> set fx \<longrightarrow> st_WalletID m = mpcWalletID)"
proof (cases "s' = s \<and> fx = []")
  case True
  then show ?thesis using wallet_rows_refl [of w "ws_table s"] by auto
next
  case False
  with assms obtain req u s1 tx chainID hash where
    ins: "insertDraft env req (sv_uuid env) u s = (s1, Inr tx)" "sq_WalletID req = w"
    and rep: "replace_tx env ''speedup'' (\<lambda>s. s) mpcWalletID chain chainID hash u tx s1 = (s', fx, res)"
    by (auto simp: SpeedUpTx_def Let_def dest: insertDraft_refused split: sum.splits prod.splits)
  have rows: "tx_ID tx = sv_rowID env" "wallet_rows w {sv_rowID env} (ws_table s) (ws_table s1)"
    using insertDraft_rows [OF ins(1), of "{}" "ws_table s"] wallet_rows_refl ins(2) by simp_all
  from replace_tx_rows [OF rep rows(2), of m] rows(1) show ?thesis by auto
qed

lemma Send_handler_wallet:
  assumes "TransactionHandler_Send env d u s = (s', fx, resp)" and "\<not> (s' = s \<and> fx = [])"
  obtains req wlt ids where "d = Inr req" and "GetWallet (he_select env) (tf_WalletID req) u (he_wallets env) = Inr wlt"
    and "wallet_rows (tf_WalletID req) ids (ws_table s) (ws_table s')"
    and "\<And>m. SubmitSigning m \<in> set fx \<Longrightarrow> st_WalletID m = wl_MPCWalletID wlt"
proof -
  from assms obtain req where d: "d = Inr req" by (cases d) (auto simp: TransactionHandler_Send_def)
  from assms d obtain amount where a: "bigint_SetString (tf_Amount req) = Some amount"
    by (cases "bigint_SetString (tf_Amount req)") (auto simp: TransactionHandler_Send_def split: if_splits)
  from assms d a obtain wlt where g: "GetWallet (he_select env) (tf_WalletID req) u (he_wallets env) = Inr wlt"
    by (cases "GetWallet (he_select env) (tf_WalletID req) u (he_wallets env)")
      (auto simp: TransactionHandler_Send_def split: if_splits)
  let ?sreq = "\<lparr>sq_WalletID = tf_WalletID req, sq_Chain = wl_Chain wlt, sq_Token = tf_Token req,
    sq_ToAddress = tf_ToAddress req, sq_Amount = Some amount\<rparr>"
  obtain s2 fx2 res where run: "Send (he_tx env) ?sreq (wl_MPCWalletID wlt) (wl_Address wlt) s = (s2, fx2, res)"
    by (metis prod_cases3)
  with assms d a g have "s2 = s'" "fx2 = fx"
    by (auto simp: TransactionHandler_Send_def split: if_splits sum.splits)
  with Send_rows [OF run] d g that show ?thesis by auto
qed

lemma tx_handler_wallet:
  assumes "tx_handler env call s u = (s', fx, resp)"
  shows "s' = s \<and> fx = [] \<or>
    (\<exists>i row ids. wallet_named call = Some i \<and> map_of (he_wallets env) i = Some row \<and> wr_UserID row = u \<and>
       (\<forall>m. SubmitSigning m \<in> set fx \<longrightarrow> st_WalletID m = wr_MPCWalletID row) \<and>
       wallet_rows i ids (ws_table s) (ws_table s'))"
proof (cases "s' = s \<and> fx = []")
  case False
  show ?thesis
  proof (cases call)
    case (CallSend d)
    with assms have "TransactionHandler_Send env d u s = (s', fx, resp)" by simp
    from Send_handler_wallet [OF this False] show ?thesis
    proof cases
      case (1 req wlt ids)
      from GetWallet_owner [OF 1(2)] 1 CallSend show ?thesis by (auto simp: scan_wallet_def)
    qed
  next
    case (CallCancel k w)
    with assms False obtain wlt where g: "GetWallet (he_select env) w u (he_wallets env) = Inr wlt"
      by (cases "GetWallet (he_select env) w u (he_wallets env)") (auto simp: TransactionHandler_Cancel_def)
    obtain s2 fx2 res where run: "CancelTx (he_tx env) k w (wl_Address wlt) (wl_MPCWalletID wlt) (wl_Chain wlt) s = (s2, fx2, res)"
      by (metis prod_cases3)
    with assms CallCancel g have "s2 = s'" "fx2 = fx" by (auto simp: TransactionHandler_Cancel_def split: sum.splits)
    with GetWallet_owner [OF g] CancelTx_rows [OF run] CallCancel show ?thesis by (auto simp: scan_wallet_def)
  next
    case (CallSpeedUp k w)
    with assms False obtain wlt where g: "GetWallet (he_select env) w u (he_wallets env) = Inr wlt"
      by (cases "GetWallet (he_select env) w u (he_wallets env)") (auto simp: TransactionHandler_SpeedUp_def)
    obtain s2 fx2 res where run: "SpeedUpTx (he_tx env) k w (wl_MPCWalletID wlt) (wl_Chain wlt) s = (s2, fx2, res)"
      by (metis prod_cases3)
    with assms CallSpeedUp g have "s2 = s'" "fx2 = fx" by (auto simp: TransactionHandler_SpeedUp_def split: sum.splits)
    with GetWallet_owner [OF g] SpeedUpTx_rows [OF run] CallSpeedUp show ?thesis by (auto simp: scan_wallet_def)
  qed
qed simp

text \<open>
  Nothing is signed, broadcast or recorded for a request unless its token is valid for the owner of
  the wallet that it names. A request behind the service token carries no user and is therefore
  always refused, although the handlers mean to let it pass.
\<close>

lemma only_owner_transfers:
  assumes "\<forall>(i, row) \<in> set (he_wallets env). wr_UserID row \<noteq> []"
  shows "(Authenticate J cfg now header (\<lambda>r. (s, [], r)) (tx_handler env call s) = (s', fx, resp) \<longrightarrow>
      (s' = s \<and> fx = [] \<and> fst resp \<in> {400, 401, 404}) \<or>
      (\<exists>userID i row. ValidateToken J cfg now (drop 7 header) = Inr userID \<and> wallet_named call = Some i \<and>
         map_of (he_wallets env) i = Some row \<and> wr_UserID row = userID)) \<and>
    (\<exists>resp. ServiceToken secret header (\<lambda>r. (s, [], r)) (tx_handler env call s) = (s, [], resp) \<and>
       fst resp \<in> {400, 401, 404, 503})"
proof (intro conjI impI)
  assume run: "Authenticate J cfg now header (\<lambda>r. (s, [], r)) (tx_handler env call s) = (s', fx, resp)"
  show "(s' = s \<and> fx = [] \<and> fst resp \<in> {400, 401, 404}) \<or>
      (\<exists>userID i row. ValidateToken J cfg now (drop 7 header) = Inr userID \<and> wallet_named call = Some i \<and>
         map_of (he_wallets env) i = Some row \<and> wr_UserID row = userID)"
  proof (cases "prefix ''Bearer '' header \<and> (\<exists>u. ValidateToken J cfg now (drop 7 header) = Inr u)")
    case False
    with run show ?thesis by (auto simp: Authenticate_def split: if_splits sum.splits)
  next
    case True
    then obtain u where u: "ValidateToken J cfg now (drop 7 header) = Inr u" by blast
    with True run have h: "tx_handler env call s u = (s', fx, resp)" by (simp add: Authenticate_def)
    show ?thesis
    proof (rule ccontr)
      assume n: "\<not> ?thesis"
      then have own: "\<And>i row. wallet_named call = Some i \<Longrightarrow> map_of (he_wallets env) i = Some row \<Longrightarrow> wr_UserID row \<noteq> u"
        using u by blast
      have "\<exists>resp. tx_handler env call s u = (s, [], resp) \<and> fst resp \<in> {400, 404}"
        by (rule tx_handler_owner) (rule own)
      with h n show False by auto
    qed
  qed
next
  have own: "wr_UserID row \<noteq> []" if "map_of (he_wallets env) i = Some row" for i row
    using assms map_of_SomeD [OF that] by blast
  have "\<exists>resp. tx_handler env call s [] = (s, [], resp) \<and> fst resp \<in> {400, 404}"
    by (rule tx_handler_owner) (rule own)
  then show "\<exists>resp. ServiceToken secret header (\<lambda>r. (s, [], r)) (tx_handler env call s) = (s, [], resp) \<and>
      fst resp \<in> {400, 401, 404, 503}"
    by (fastforce simp: ServiceToken_def)
qed

definition plain_jwt :: jwt where
  "plain_jwt = \<lparr>jw_SignedString = (\<lambda>k c. Inr (cl_UserID c)), jw_hmac = (\<lambda>t. True),
     jw_parse = (\<lambda>now k t. Inr (token_claims t [] [] 0 (now + 1))),
     bc_Generate = Inr, bc_Compare = (\<lambda>h p. if h = p then None else Some (ENew ''mismatch''))\<rparr>"

definition demo_http :: "(bytes, string \<rightharpoonup> int) http_env" where
  "demo_http = \<lparr>he_tx = demo_env SignTimeout, he_select = (\<lambda>_ _. None),
     he_wallets = [(''w'', \<lparr>wr_UserID = ''alice'', wr_MPCWalletID = ''m'', wr_Chain = ''base'', wr_ECDSAPubKey = [],
       wr_Address = ''0x1'', wr_DerivationPath = [], wr_CreatedAt = ''now''\<rparr>)]\<rparr>"

text \<open>A refresh token passes wherever an access token does: nothing in the claims tells them apart.\<close>

lemma refresh_token_accepted:
  assumes "jwt_ok J" and "issueTokens J cfg now ids userID email = Inr pair" and "t < now + ah_RefreshTokenTTL cfg"
  shows "ValidateToken J cfg t (tp_RefreshToken pair) = Inr userID"
  using assms by (auto simp: issueTokens_def ValidateToken_def jwt_ok_def token_claims_def split: sum.splits)

end
