(* ===== verification/Route_Properties.thy ===== *)
theory Route_Properties
  imports Wallet_Routes Wallet_Properties
begin

text \<open>
  What the server as a whole keeps: which requests can change the state of a service or make the
  cluster sign, and what a listener of the stream of events reads.
\<close>

section \<open>The stream of events\<close>

lemma sse_Publish_lookup:
  "map_of (sse_Publish ev b) ch = map_option (\<lambda>buf. if length buf < 16 then buf @ [ev] else buf) (map_of b ch)"
  by (induction b) (auto simp: sse_Publish_def)

fun published :: "sse_turn list \<Rightarrow> SSEEvent list" where
  "published [] = []"
| "published (TurnPublish ev # ts) = ev # published ts"
| "published (TurnTake # ts) = published ts"
| "published (TurnDone # ts) = []"

text \<open>A listener reads events in the order of their publication, each at most once; some may be missing.\<close>

lemma sse_loop_order:
  assumes "map_of b ch = Some buf"
  shows "subseq (snd (sse_loop ch ts b)) (buf @ published ts)"
  using assms
proof (induction ch ts b arbitrary: buf rule: sse_loop.induct)
  case (2 ch ev ts b)
  have "map_of (sse_Publish ev b) ch = Some (if length buf < 16 then buf @ [ev] else buf)"
    using 2(2) by (simp add: sse_Publish_lookup)
  from 2(1) [OF this] show ?case
    by (auto split: if_splits elim: subseq_order.trans intro!: list_emb_append_mono)
next
  case (3 ch ts b)
  show ?case
  proof (cases buf)
    case Nil
    with 3 show ?thesis by simp
  next
    case (Cons ev buf')
    have "map_of (AList.update ch buf' b) ch = Some buf'" by (simp add: update_Some_unfold)
    with 3 Cons show ?thesis by (auto split: prod.splits)
  qed
qed simp_all

text \<open>While the buffer has room, a listener that keeps reading misses nothing.\<close>

fun drained :: "nat \<Rightarrow> sse_turn list \<Rightarrow> bool" where
  "drained n [] = (n = 0)"
| "drained n (TurnPublish ev # ts) = (n < 16 \<and> drained (Suc n) ts)"
| "drained n (TurnTake # ts) = drained (n - 1) ts"
| "drained n (TurnDone # ts) = (n = 0)"

lemma sse_loop_complete:
  assumes "map_of b ch = Some buf" and "drained (length buf) ts"
  shows "snd (sse_loop ch ts b) = buf @ published ts"
  using assms
proof (induction ch ts b arbitrary: buf rule: sse_loop.induct)
  case (2 ch ev ts b)
  then have "map_of (sse_Publish ev b) ch = Some (buf @ [ev])" by (simp add: sse_Publish_lookup)
  from 2(1) [OF this] 2(3) show ?case by simp
next
  case (3 ch ts b)
  show ?case
  proof (cases buf)
    case Nil
    with 3 show ?thesis by simp
  next
    case (Cons ev buf')
    have "map_of (AList.update ch buf' b) ch = Some buf'" by (simp add: update_Some_unfold)
    with 3 Cons show ?thesis by (auto split: prod.splits)
  qed
qed simp_all

section \<open>The routes and their guards\<close>

lemmas route_table = NewRouter_def r_Get_def r_Post_def r_Route_def r_Use_def

lemma route_guards:
  assumes "r \<in> set NewRouter"
  shows "rt_handler r \<in> {HTxSend, HTxCancel, HTxSpeedUp, HWalletCreate, HWalletGet, HEvents} \<Longrightarrow> rt_guard r \<noteq> Unguarded"
    and "rt_handler r = HRegister \<Longrightarrow> rt_pattern r = ''/api/v1/auth/register'' \<and> rt_method r = ''POST''"
    and "rt_handler r = HWebhook \<Longrightarrow> rt_pattern r = ''/api/v1/webhooks/alchemy'' \<and> rt_method r = ''POST''"
  using assms by (auto simp: route_table)

lemma segments_prefix_slash: "segments (''/service/'' @ s) = [] # ''service'' # segments s"
  by (cases "segments s") simp_all

lemma unguarded_segments:
  "list_all (\<lambda>r. rt_guard r = ServiceGuard \<or> segments (rt_pattern r) ! 1 \<in> {''health'', ''api''}) NewRouter"
  by code_simp

lemma service_routes:
  assumes "r \<in> set NewRouter" and "path_matches (rt_pattern r) (''/service/'' @ s)"
  shows "rt_guard r = ServiceGuard"
proof (rule ccontr)
  assume "rt_guard r \<noteq> ServiceGuard"
  with unguarded_segments assms(1) have lit: "segments (rt_pattern r) ! 1 \<in> {''health'', ''api''}"
    by (auto simp: list_all_iff)
  have "segments ((''/service/'' @ s) @ ''/'') = [] # ''service'' # segments (s @ ''/'')"
    unfolding append_assoc by (rule segments_prefix_slash)
  then obtain t where "list_all2 segment_matches (segments (rt_pattern r)) ([] # ''service'' # t)"
    using assms(2) segments_prefix_slash [of s] unfolding path_matches_def by metis
  then have "segment_matches (segments (rt_pattern r) ! 1) ''service''"
    by (auto simp: list_all2_Cons2)
  with lit show False by (auto simp: segment_matches_def)
qed

definition bearer :: "('tx, 'r, 'pk) api_env \<Rightarrow> request \<Rightarrow> string option" where
  "bearer env rq =
     (if prefix ''Bearer '' (rq_header rq ''Authorization'')
      then (case ValidateToken (ae_jwt env) (ae_auth env) (ae_now env) (drop 7 (rq_header rq ''Authorization'')) of
              Inl e \<Rightarrow> None | Inr u \<Rightarrow> Some u)
      else None)"

definition service_call :: "('tx, 'r, 'pk) api_env \<Rightarrow> request \<Rightarrow> bool" where
  "service_call env rq \<longleftrightarrow> ae_serviceToken env \<noteq> [] \<and> rq_header rq ''X-Granville-Service-Token'' = ae_serviceToken env"

lemma guarded_cases:
  obtains (refused) resp where "guarded env rq g s h = (s, [], resp)" and "fst resp \<in> {401, 503}"
      and "g = UserGuard \<and> bearer env rq = None \<or> g = ServiceGuard \<and> \<not> service_call env rq"
  | (passed) u where "guarded env rq g s h = h u" and "g = UserGuard \<longrightarrow> bearer env rq = Some u"
      and "g \<noteq> UserGuard \<longrightarrow> u = []" and "g = ServiceGuard \<longrightarrow> service_call env rq"
proof (cases g)
  case Unguarded
  then show ?thesis using passed [of "[]"] by (simp add: guarded_def)
next
  case UserGuard
  show ?thesis
  proof (cases "bearer env rq")
    case None
    then obtain resp where "guarded env rq g s h = (s, [], resp)" and "fst resp \<in> {401, 503}"
      by (auto simp: UserGuard guarded_def bearer_def Authenticate_def split: if_splits sum.splits)
    with None UserGuard show ?thesis by (intro refused) simp_all
  next
    case (Some u)
    then show ?thesis using UserGuard passed [of u]
      by (simp add: guarded_def bearer_def Authenticate_def split: if_splits sum.splits)
  qed
next
  case ServiceGuard
  show ?thesis
  proof (cases "service_call env rq")
    case True
    then show ?thesis using ServiceGuard passed [of "[]"]
      by (simp add: guarded_def service_call_def ServiceToken_def)
  next
    case False
    then obtain resp where "guarded env rq g s h = (s, [], resp)" and "fst resp \<in> {401, 503}"
      by (cases "ae_serviceToken env = []") (auto simp: ServiceGuard guarded_def service_call_def ServiceToken_def)
    with False ServiceGuard show ?thesis by (intro refused) simp_all
  qed
qed

section \<open>What a handler may change\<close>

lemma wstate_of_put [simp]: "put_wstate (wstate_of s) s = s"
  by (simp add: put_wstate_def wstate_of_def)

lemma on_txs_frame:
  assumes "on_txs f s = (s', fx, resp)"
  shows "as_users s' = as_users s \<and> as_wallets s' = as_wallets s \<and> as_cache s' = as_cache s \<and> as_bus s' = as_bus s"
  using assms by (auto simp: on_txs_def put_wstate_def split: prod.splits)

lemma run_handler_users:
  assumes "run_handler env rq ps h s u = (s', fx, resp)" and "h \<noteq> HRegister"
  shows "as_users s' = as_users s"
  using assms by (cases h) (auto simp: put_istate_def split: prod.splits dest: on_txs_frame)

lemma run_handler_wallets:
  assumes "run_handler env rq ps h s u = (s', fx, resp)" and "h \<noteq> HWalletCreate"
  shows "as_wallets s' = as_wallets s"
  using assms by (cases h) (auto simp: put_istate_def split: prod.splits dest: on_txs_frame)

lemma run_handler_redis:
  assumes "run_handler env rq ps h s u = (s', fx, resp)" and "h \<notin> {HTxSend, HTxCancel, HTxSpeedUp}"
  shows "as_redis s' = as_redis s \<and> fx = []"
  using assms by (cases h) (auto simp: put_istate_def split: prod.splits)

lemma WalletHandler_Get_tables:
  assumes "WalletHandler_Get henv (GetBalance hex rpc bal) walletID u i = (i', resp)"
  shows "is_tx i' = is_tx i"
proof -
  have b: "is_tx (fst (GetBalance hex rpc bal n a t j)) = is_tx j" for n a t j
    by (simp add: GetBalance_def Let_def split: option.splits sum.splits)
  show ?thesis using assms b
    by (cases "GetWallet (he_select henv) walletID u (he_wallets henv)")
      (auto simp: WalletHandler_Get_def Let_def case_prod_beta)
qed

lemma run_handler_table:
  assumes "run_handler env rq ps h s u = (s', fx, resp)" and "h \<notin> {HTxSend, HTxCancel, HTxSpeedUp, HWebhook}"
  shows "as_table s' = as_table s"
  using assms
  by (cases h) (auto simp: put_istate_def istate_of_def split: prod.splits dest!: WalletHandler_Get_tables)

lemma webhook_table:
  assumes "run_handler env rq ps HWebhook s u = (s', fx, resp)" and "as_table s' \<noteq> as_table s"
  obtains body where "rq_body rq = Inr body"
    and "verifySignature (ae_hmac env) (ae_webhookSecret env) body (rq_header rq ''X-Alchemy-Signature'')"
  using assms
  by (auto simp: HandleAlchemyWebhook_def put_istate_def istate_of_def split: sum.splits if_splits prod.splits)

text \<open>The three handlers that sign, as calls of \<open>Wallet_Properties\<close>.\<close>

fun call_of :: "('tx, 'r, 'pk) api_env \<Rightarrow> request \<Rightarrow> (string \<Rightarrow> string) \<Rightarrow> route_handler \<Rightarrow> tx_call option" where
  "call_of env rq ps HTxSend = Some (CallSend (bind_res (rq_body rq) (ae_transfer env)))"
| "call_of env rq ps HTxCancel = Some (CallCancel (ps ''id'') (rq_query rq ''wallet_id''))"
| "call_of env rq ps HTxSpeedUp = Some (CallSpeedUp (ps ''id'') (rq_query rq ''wallet_id''))"
| "call_of env rq ps _ = None"

lemma run_handler_call:
  assumes "call_of env rq ps h = Some call"
  shows "run_handler env rq ps h s u = on_txs (\<lambda>w. tx_handler (http_of env s) call w u) s"
  using assms by (cases h) auto

text \<open>
  The wallet a handler that signs acts on: the one of the body to send, the one of the query to
  cancel or to speed up. \<open>owns_named\<close>: the route that chi chose names the wallet \<open>i\<close>, and the bearer
  of the token is the user of its row.
\<close>

definition named_wallet :: "('tx, 'r, 'pk) api_env \<Rightarrow> request \<Rightarrow> route_handler \<Rightarrow> string option" where
  "named_wallet env rq h =
     (case h of
        HTxSend \<Rightarrow> (case bind_res (rq_body rq) (ae_transfer env) of Inl e \<Rightarrow> None | Inr req \<Rightarrow> Some (tf_WalletID req))
      | HTxCancel \<Rightarrow> Some (rq_query rq ''wallet_id'')
      | HTxSpeedUp \<Rightarrow> Some (rq_query rq ''wallet_id'')
      | _ \<Rightarrow> None)"

definition owns_named :: "chi \<Rightarrow> ('tx, 'r, 'pk) api_env \<Rightarrow> request \<Rightarrow> 'r api_state \<Rightarrow> string \<Rightarrow> wallet_row \<Rightarrow> bool" where
  "owns_named chi env rq s i row \<longleftrightarrow>
     (\<exists>r ps. chi NewRouter (rq_method rq) (rq_path rq) = ChiRoute r ps \<and> named_wallet env rq (rt_handler r) = Some i) \<and>
     map_of (as_wallets s) i = Some row \<and> bearer env rq = Some (wr_UserID row)"

lemma named_wallet_call:
  "call_of env rq ps h = Some call \<Longrightarrow> wallet_named call = Some i \<Longrightarrow> named_wallet env rq h = Some i"
  by (cases h) (auto simp: named_wallet_def, cases "bind_res (rq_body rq) (ae_transfer env)", auto)

lemma signing_handler_wallet:
  assumes run: "run_handler env rq ps h s u = (s', fx, resp)" and h: "h \<in> {HTxSend, HTxCancel, HTxSpeedUp}"
    and changed: "s' \<noteq> s \<or> fx \<noteq> []"
  obtains i row where "named_wallet env rq h = Some i" and "map_of (as_wallets s) i = Some row" and "wr_UserID row = u"
    and "\<forall>m. SubmitSigning m \<in> set fx \<longrightarrow> st_WalletID m = wr_MPCWalletID row"
    and "\<forall>k tr. map_of (as_table s') k = Some tr \<longrightarrow> map_of (as_table s) k = Some tr \<or> tr_WalletID tr = i"
proof -
  from h obtain call where call: "call_of env rq ps h = Some call" by auto
  obtain w where w: "tx_handler (http_of env s) call (wstate_of s) u = (w, fx, resp)" "s' = put_wstate w s"
    using run by (auto simp: run_handler_call [OF call] on_txs_def split: prod.splits)
  from w(2) changed have "\<not> (w = wstate_of s \<and> fx = [])" by auto
  with tx_handler_wallet [OF w(1)] obtain i row ids where "wallet_named call = Some i"
    and "map_of (as_wallets s) i = Some row" "wr_UserID row = u"
    and "\<forall>m. SubmitSigning m \<in> set fx \<longrightarrow> st_WalletID m = wr_MPCWalletID row"
    and "wallet_rows i ids (as_table s) (ws_table w)"
    by (auto simp: http_of_def wstate_of_def)
  with named_wallet_call [OF call] w(2) that show ?thesis by (auto simp: wallet_rows_def put_wstate_def)
qed

section \<open>Every change is authorised\<close>

lemma chi_route:
  assumes "chi_ok chi" and "chi NewRouter m p = ChiRoute r ps"
  shows "r \<in> set NewRouter" and "rt_method r = m" and "path_matches (rt_pattern r) p"
  using assms unfolding chi_ok_def by blast+

lemma ServeHTTP_cases:
  assumes "ServeHTTP chi env rq s = (s', fx, resp)"
  obtains (refused) "s' = s" and "fx = []"
  | (handled) r ps u where "chi NewRouter (rq_method rq) (rq_path rq) = ChiRoute r ps"
      and "run_handler env rq ps (rt_handler r) s u = (s', fx, resp)"
      and "rt_guard r = UserGuard \<longrightarrow> bearer env rq = Some u" and "rt_guard r \<noteq> UserGuard \<longrightarrow> u = []"
      and "rt_guard r = ServiceGuard \<longrightarrow> service_call env rq"
proof (cases "chi NewRouter (rq_method rq) (rq_path rq)")
  case (ChiRoute r ps)
  with assms have run: "guarded env rq (rt_guard r) s (run_handler env rq ps (rt_handler r) s) = (s', fx, resp)"
    by (simp add: ServeHTTP_def)
  show ?thesis
  proof (rule guarded_cases [of env rq "rt_guard r" s "run_handler env rq ps (rt_handler r) s"])
    fix resp' assume "guarded env rq (rt_guard r) s (run_handler env rq ps (rt_handler r) s) = (s, [], resp')"
    with run show ?thesis by (intro refused) simp_all
  next
    fix u assume "guarded env rq (rt_guard r) s (run_handler env rq ps (rt_handler r) s) = run_handler env rq ps (rt_handler r) s u"
      and "rt_guard r = UserGuard \<longrightarrow> bearer env rq = Some u" "rt_guard r \<noteq> UserGuard \<longrightarrow> u = []"
      and "rt_guard r = ServiceGuard \<longrightarrow> service_call env rq"
    with run ChiRoute show ?thesis by (intro handled) simp_all
  qed
qed (use assms refused in \<open>simp_all add: ServeHTTP_def\<close>)


text \<open>A dispatcher that takes the first route that fits, and a cancellation by the wrong user.\<close>

fun placeholder :: "string list \<Rightarrow> string list \<Rightarrow> string" where
  "placeholder (p # ps) (x # xs) = (if p = ''{id}'' then x else placeholder ps xs)"
| "placeholder _ _ = []"

definition first_chi :: chi where
  "first_chi rs m path =
     (case find (\<lambda>r. rt_method r = m \<and> path_matches (rt_pattern r) path) rs of
        Some r \<Rightarrow> ChiRoute r (\<lambda>k. if k = ''id'' then placeholder (segments (rt_pattern r)) (segments path) else [])
      | None \<Rightarrow> if \<exists>r \<in> set rs. path_matches (rt_pattern r) path then ChiMethodNotAllowed else ChiNotFound)"

lemma first_chi_ok: "chi_ok first_chi"
  by (auto simp: chi_ok_def first_chi_def find_Some_iff split: option.splits if_splits)

definition demo_api :: "(bytes, string \<rightharpoonup> int, bytes) api_env" where
  "demo_api =
     \<lparr>ae_jwt = plain_jwt, ae_auth = \<lparr>ah_JWTSecret = ''k'', ah_TokenTTL = 60, ah_RefreshTokenTTL = 600\<rparr>, ae_now = 0,
      ae_ids = (''a'', ''b''), ae_userID = ''u'', ae_insertUser = (\<lambda>_. None), ae_queryUser = None, ae_serviceToken = ''secret'',
      ae_tx = demo_env SignTimeout, ae_select = (\<lambda>_ _. None), ae_newestTxs = rev,
      ae_evm = \<lparr>ev_DecompressPubkey = Inr, ev_UnmarshalPubkey = Inr, ev_PubkeyToAddress = take 20\<rparr>,
      ae_insertWallet = (\<lambda>_. None), ae_rowID = ''r'', ae_date = ''now'', ae_submit = (\<lambda>_. None), ae_keygen = KeygenTimeout,
      ae_mpcWalletID = ''m'', ae_queryWallets = (\<lambda>_. None), ae_newestWallets = rev, ae_listAll = (\<lambda>_. (200, JWallets [])),
      ae_HexToAddress = (\<lambda>_. []), ae_rpc = \<lparr>rf_eth = [], rf_polygon = [], rf_arbitrum = [], rf_base = [], rf_optimism = []\<rparr>,
      ae_balanceOf = (\<lambda>_ _ _. Inr []), ae_hmac = (\<lambda>k b. k @ b), ae_webhookSecret = ''hook'',
      ae_payload = (\<lambda>_. Inl (ENew ''payload'')), ae_audit = None, ae_lookup = None, ae_confirm = None, ae_connected = True,
      ae_settings = (\<lambda>_. 0), ae_peerNames = [], ae_flusher = True, ae_channel = 0, ae_turns = [],
      ae_credentials = (\<lambda>_. Inl (ENew ''json'')), ae_chain = (\<lambda>_. Inl (ENew ''json'')), ae_transfer = (\<lambda>_. Inl (ENew ''json''))\<rparr>"

definition demo_state :: "(string \<rightharpoonup> int) api_state" where
  "demo_state = \<lparr>as_users = [], as_wallets = he_wallets demo_http, as_table = [], as_redis = Map.empty,
     as_cache = Map.empty, as_bus = [], as_audit = []\<rparr>"

text \<open>The backend holds the service token and asks to cancel a transaction of Alice's wallet.\<close>

definition service_cancel :: request where
  "service_cancel = \<lparr>rq_method = ''POST'', rq_path = ''/service/transactions/1/cancel'',
     rq_header = (\<lambda>k. if k = ''X-Granville-Service-Token'' then ''secret'' else []),
     rq_query = (\<lambda>k. if k = ''wallet_id'' then ''w'' else []), rq_body = Inr []\<rparr>"


end
