(* ===== verification/Provisioning.thy ===== *)
theory Provisioning
  imports Signers Backups
begin

text \<open>
  The commands of \<^verbatim>\<open>mpcium-cli\<close> that set a cluster up: the file of peers, their registration in Consul,
  the identity of a node, the keys of initiators and authorizers, and the recovery of a database.
  Commands transform the state of the disk, a map from paths to contents; the errors of the operating
  system, the terminal, the clock and the cryptographic libraries are parameters.
\<close>

section \<open>Disk\<close>

type_synonym disk = "string \<Rightarrow> bytes option"

text \<open>\<open>os_write\<close> tells how a write fails: which part of the file exists then, if any.\<close>

record os =
  os_Getwd :: "string res"
  os_MkdirAll :: "string \<Rightarrow> gerror option"
  os_stat :: "string \<Rightarrow> gerror option"
  os_read :: "string \<Rightarrow> gerror option"
  os_write :: "string \<Rightarrow> (bytes option \<times> gerror) option"
  os_prompt :: "bytes res"

definition ErrNotExist :: gerror where "ErrNotExist = ESentinel ''file does not exist''"

definition os_Stat :: "os \<Rightarrow> disk \<Rightarrow> string \<Rightarrow> gerror option" where
  "os_Stat S d p =
     (case os_stat S p of Some e \<Rightarrow> Some e | None \<Rightarrow> if d p = None then Some ErrNotExist else None)"

definition os_ReadFile :: "os \<Rightarrow> disk \<Rightarrow> string \<Rightarrow> bytes res" where
  "os_ReadFile S d p =
     (case os_read S p of Some e \<Rightarrow> Inl e | None \<Rightarrow> (case d p of None \<Rightarrow> Inl ErrNotExist | Some b \<Rightarrow> Inr b))"

definition os_WriteFile :: "os \<Rightarrow> string \<Rightarrow> bytes \<Rightarrow> disk \<Rightarrow> disk \<times> gerror option" where
  "os_WriteFile S p b d =
     (case os_write S p of
        None \<Rightarrow> (d(p \<mapsto> b), None)
      | Some (None, e) \<Rightarrow> (d, Some e)
      | Some (Some part, e) \<Rightarrow> (d(p \<mapsto> part), Some e))"

text \<open>\<^verbatim>\<open>os.Create\<close> empties the file.\<close>

definition os_Create :: "os \<Rightarrow> string \<Rightarrow> disk \<Rightarrow> disk \<times> gerror option" where
  "os_Create S p d = os_WriteFile S p [] d"

text \<open>What a node sees of this disk.\<close>

definition node_files :: "os \<Rightarrow> disk \<Rightarrow> files" where
  "node_files S d = \<lparr>fl_Getwd = os_Getwd S, fl_MkdirAll = os_MkdirAll S, fl_Stat = os_Stat S d,
     fl_ReadFile = os_ReadFile S d, fl_ReadPassword = os_prompt S\<rparr>"

definition then_do :: "disk \<times> gerror option \<Rightarrow> (gerror \<Rightarrow> gerror) \<Rightarrow> (disk \<Rightarrow> disk \<times> gerror option) \<Rightarrow> disk \<times> gerror option" where
  "then_do r wrap f = (case r of (d, Some e) \<Rightarrow> (d, Some (wrap e)) | (d, None) \<Rightarrow> f d)"

section \<open>Indented JSON\<close>

text \<open>\<^verbatim>\<open>json.MarshalIndent\<close> with two spaces, of an object whose members are texts.\<close>

definition indent_member :: "string \<times> string \<Rightarrow> string" where
  "indent_member m = [CHR 0x0A] @ ''  '' @ json_quote (fst m) @ '': '' @ json_quote (snd m)"

definition json_MarshalIndent :: "(string \<times> string) list \<Rightarrow> bytes" where
  "json_MarshalIndent ms =
     go_bytes (if ms = [] then ''{}''
               else ''{'' @ str_join (map indent_member ms) '','' @ [CHR 0x0A] @ ''}'')"

section \<open>Passphrases\<close>

text \<open>
  \<open>runes\<close> are the code points of a text, \<open>is_letter_or_digit\<close> the classification of \<^verbatim>\<open>unicode\<close>.
\<close>

fun contains_special :: "(nat \<Rightarrow> bool) \<Rightarrow> nat list \<Rightarrow> nat \<Rightarrow> nat \<Rightarrow> bool" where
  "contains_special is_letter_or_digit [] n found = False"
| "contains_special is_letter_or_digit (r # rs) n found =
     (if is_letter_or_digit r then contains_special is_letter_or_digit rs n found
      else if found + 1 \<ge> n then True
      else contains_special is_letter_or_digit rs n (found + 1))"

definition ContainsAtLeastNSpecial :: "(string \<Rightarrow> nat list) \<Rightarrow> (nat \<Rightarrow> bool) \<Rightarrow> string \<Rightarrow> nat \<Rightarrow> bool" where
  "ContainsAtLeastNSpecial runes is_letter_or_digit s n = contains_special is_letter_or_digit (runes s) n 0"

text \<open>The two answers of the terminal.\<close>

definition requestPassword :: "(string \<Rightarrow> nat list) \<Rightarrow> (nat \<Rightarrow> bool) \<Rightarrow> bytes res \<Rightarrow> bytes res \<Rightarrow> string res" where
  "requestPassword runes is_letter_or_digit entered confirmed =
     (case entered of
        Inl e \<Rightarrow> Inl (EWrap ''failed to read passphrase: '' e [])
      | Inr p \<Rightarrow>
     (case confirmed of
        Inl e \<Rightarrow> Inl (EWrap ''failed to read confirmation passphrase: '' e [])
      | Inr c \<Rightarrow>
          (let passphrase = go_string p in
           if passphrase \<noteq> go_string c then Inl (ENew ''passphrases do not match'')
           else if length passphrase < 12 then Inl (ENew ''passphrase too short (minimum 12 characters recommended)'')
           else if \<not> ContainsAtLeastNSpecial runes is_letter_or_digit passphrase 1
             then Inl (ENew ''passphrase must contain at least 2 special characters'')
           else Inr passphrase)))"

text \<open>Encryption by age into an open file: the contents after each call.\<close>

record age_writer =
  aw_NewScryptRecipient :: "string \<Rightarrow> unit res"
  aw_Encrypt :: "string \<Rightarrow> bytes \<times> gerror option"
  aw_Write :: "string \<Rightarrow> bytes \<Rightarrow> bytes \<times> gerror option"
  aw_Close :: "string \<Rightarrow> bytes \<Rightarrow> bytes \<times> gerror option"

text \<open>The steps from the check of the path to the end of the encryption, the same in the three commands.\<close>

definition write_encrypted :: "os \<Rightarrow> age_writer \<Rightarrow> string \<Rightarrow> string \<Rightarrow> bytes \<Rightarrow> disk \<Rightarrow> disk \<times> gerror option" where
  "write_encrypted S W path passphrase plain d =
     (case ValidateFilePath path of
        Inl e \<Rightarrow> (d, Some (EWrap ''invalid encrypted key file path: '' e []))
      | Inr _ \<Rightarrow>
          then_do (os_Create S path d) (\<lambda>e. EWrap ''failed to create encrypted private key file: '' e []) (\<lambda>d.
            case aw_NewScryptRecipient W passphrase of
              Inl e \<Rightarrow> (d, Some (EWrap ''failed to create scrypt recipient: '' e []))
            | Inr _ \<Rightarrow>
                (let (c0, e0) = aw_Encrypt W passphrase; (c1, e1) = aw_Write W passphrase plain; (c2, e2) = aw_Close W passphrase plain in
                 case e0 of Some e \<Rightarrow> (d(path \<mapsto> c0), Some (EWrap ''failed to create age encryption writer: '' e []))
                 | None \<Rightarrow>
                (case e1 of Some e \<Rightarrow> (d(path \<mapsto> c1), Some (EWrap ''failed to write encrypted private key: '' e []))
                 | None \<Rightarrow>
                (case e2 of Some e \<Rightarrow> (d(path \<mapsto> c2), Some (EWrap ''failed to finalize age encryption: '' e []))
                 | None \<Rightarrow> (d(path \<mapsto> c2), None))))))"

section \<open>The file of peers\<close>

definition peers_entries :: "string list \<Rightarrow> (string \<times> string) list" where
  "peers_entries ids = map (\<lambda>(i, u). (''node'' @ itoa (int i), u)) (enumerate 0 ids)"

fun new_ids :: "(nat \<Rightarrow> string res) \<Rightarrow> nat list \<Rightarrow> string list res" where
  "new_ids newUUID [] = Inr []"
| "new_ids newUUID (i # is) = bind_res (newUUID i) (\<lambda>u. bind_res (new_ids newUUID is) (\<lambda>us. Inr (u # us)))"

text \<open>A map is marshalled in the order of its keys. \<open>newUUID\<close> is the answer for each node.\<close>

definition generatePeers :: "os \<Rightarrow> (nat \<Rightarrow> string res) \<Rightarrow> (string \<Rightarrow> string) \<Rightarrow> int \<Rightarrow> string \<Rightarrow> disk \<Rightarrow> disk \<times> gerror option" where
  "generatePeers S newUUID path_Dir numNodes outputPath d =
     (if numNodes < 1 then (d, Some (ENew ''number of nodes must be at least 1''))
      else
        (case os_Stat S d outputPath of
           None \<Rightarrow> (d, Some (ENew (''file '' @ outputPath @ '' already exists, won't overwrite'')))
         | Some e \<Rightarrow>
             if e \<noteq> ErrNotExist then (d, Some (EWrap ''error checking file status: '' e []))
             else
               (case if path_Dir outputPath \<noteq> ''.'' then os_MkdirAll S (path_Dir outputPath) else None of
                  Some e \<Rightarrow> (d, Some (EWrap ''failed to create directory: '' e []))
                | None \<Rightarrow>
                    (case new_ids newUUID [0..<nat numNodes] of
                       Inl e \<Rightarrow> (d, Some (EWrap ''failed to generate UUID: '' e []))
                     | Inr ids \<Rightarrow>
                         then_do (os_WriteFile S outputPath
                             (json_MarshalIndent (sort_key (\<lambda>m. map (of_char :: char \<Rightarrow> nat) (fst m)) (peers_entries ids))) d)
                           (\<lambda>e. EWrap ''failed to write file: '' e []) (\<lambda>d. (d, None))))))"

section \<open>Registration of peers\<close>

fun register_all :: "'c consul_ops \<Rightarrow> (string, string) gomap \<Rightarrow> 'c \<Rightarrow> 'c \<times> gerror option" where
  "register_all kv [] c = (c, None)"
| "register_all kv ((nodeName, nodeID) # ps) c =
     (let key = ''mpc_peers/'' @ nodeName in
      case consul_Get kv c key of
        Inl e \<Rightarrow> (c, Some (EWrap (''failed to check existing key '' @ key @ '': '') e []))
      | Inr (Some v) \<Rightarrow>
          (let existingID = go_string v in
           if existingID \<noteq> nodeID
           then (c, Some (ENew (''conflict detected: peer '' @ nodeName @ '' already exists with ID '' @ existingID @
                   '', but trying to register with different ID '' @ nodeID)))
           else register_all kv ps c)
      | Inr None \<Rightarrow>
          (case consul_Put kv c key (go_bytes nodeID) of
             Inl e \<Rightarrow> (c, Some (EWrap (''failed to store key '' @ key @ '': '') e []))
           | Inr c' \<Rightarrow> register_all kv ps c'))"

text \<open>\<open>connect\<close> stands for the configuration and the client of Consul, whose failures end the process.\<close>

definition registerPeers ::
  "os \<Rightarrow> disk \<Rightarrow> unit outcome \<Rightarrow> 'c consul_ops \<Rightarrow> string \<Rightarrow> 'c \<Rightarrow> ('c \<times> gerror option) outcome" where
  "registerPeers S d connect kv peersPath c =
     (let inputPath = (if peersPath = [] then ''peers.json'' else peersPath) in
      case ValidateFilePath inputPath of
        Inl e \<Rightarrow> Returns (c, Some (EWrap ''invalid input file path: '' e []))
      | Inr _ \<Rightarrow>
          if os_Stat S d inputPath = Some ErrNotExist
          then Returns (c, Some (ENew (if inputPath = ''peers.json''
                 then ''peers.json not found in current directory. Please specify the path using --peers flag or create peers.json in the current directory''
                 else ''input file '' @ inputPath @ '' does not exist'')))
          else
            (case os_ReadFile S d inputPath of
               Inl e \<Rightarrow> Returns (c, Some (EWrap ''failed to read JSON file: '' e []))
             | Inr data \<Rightarrow>
            (case unmarshal_string_map data of
               Inl e \<Rightarrow> Returns (c, Some (EWrap ''failed to unmarshal JSON data: '' e []))
             | Inr peerMap \<Rightarrow>
                 if peerMap = [] then Returns (c, Some (ENew ''no peers found in the input file''))
                 else bind_out connect (\<lambda>_. Returns (register_all kv peerMap c)))))"

section \<open>The identity of a node\<close>

text \<open>\<open>gen\<close> is the answer of the key generator: the private key, whose second half is the public one.\<close>

definition identity_entries :: "string \<Rightarrow> string \<Rightarrow> bytes \<Rightarrow> string \<Rightarrow> (string \<times> string) list" where
  "identity_entries nodeName nodeID pub now =
     [(''node_name'', nodeName), (''node_id'', nodeID), (''public_key'', hex_Encode pub), (''created_at'', now)]"

definition generateNodeIdentity ::
  "os \<Rightarrow> age_writer \<Rightarrow> bytes res \<Rightarrow> string \<Rightarrow> string \<Rightarrow> string \<Rightarrow> string \<Rightarrow> bool \<Rightarrow> string \<Rightarrow> bool \<Rightarrow> disk \<Rightarrow> disk \<times> gerror option" where
  "generateNodeIdentity S W gen now nodeName nodeID identityDir encrypt passphrase overwrite d =
     (case gen of
        Inl e \<Rightarrow> (d, Some (EWrap ''failed to generate keypair: '' e []))
      | Inr privKey \<Rightarrow>
     (let identityPath = path_Join identityDir (nodeName @ ''_identity.json'');
          privateKeyPath = path_Join identityDir (nodeName @ ''_private.key'');
          encryptedKeyPath = privateKeyPath @ ''.age'';
          privateKeyHex = go_bytes (hex_Encode privKey)
      in if os_Stat S d identityPath = None \<and> \<not> overwrite
         then (d, Some (ENew (''identity file '' @ identityPath @ '' already exists. Use --overwrite to force'')))
         else
           then_do (os_WriteFile S identityPath (json_MarshalIndent (identity_entries nodeName nodeID (drop 32 privKey) now)) d)
             (\<lambda>e. EWrap ''failed to write identity JSON: '' e []) (\<lambda>d.
               if encrypt then
                 (if os_Stat S d encryptedKeyPath = None \<and> \<not> overwrite
                  then (d, Some (ENew (''encrypted key file '' @ encryptedKeyPath @ '' already exists. Use --overwrite to force'')))
                  else write_encrypted S W encryptedKeyPath passphrase privateKeyHex d)
               else
                 (if os_Stat S d privateKeyPath = None \<and> \<not> overwrite
                  then (d, Some (ENew (''private key file '' @ privateKeyPath @ '' already exists. Use --overwrite to force'')))
                  else then_do (os_WriteFile S privateKeyPath privateKeyHex d)
                         (\<lambda>e. EWrap ''failed to write private key: '' e []) (\<lambda>d. (d, None))))))"

definition generateIdentity ::
  "os \<Rightarrow> age_writer \<Rightarrow> string res \<Rightarrow> bytes res \<Rightarrow> string \<Rightarrow> string \<Rightarrow> string \<Rightarrow> string \<Rightarrow> bool \<Rightarrow> bool \<Rightarrow> disk \<Rightarrow> disk \<times> gerror option" where
  "generateIdentity S W entered gen now nodeName peersPath identityDir encryptKey overwrite d =
     (case if encryptKey then entered else Inr [] of
        Inl e \<Rightarrow> (d, Some e)
      | Inr passphrase \<Rightarrow>
     (case os_Stat S d peersPath of
        Some e \<Rightarrow> (d, Some (if e = ErrNotExist then ENew (''peers file '' @ peersPath @ '' does not exist'')
                             else EWrap ''error checking peers file: '' e []))
      | None \<Rightarrow>
     (case ValidateFilePath peersPath of
        Inl e \<Rightarrow> (d, Some (EWrap ''invalid peers file path: '' e []))
      | Inr _ \<Rightarrow>
     (case os_ReadFile S d peersPath of
        Inl e \<Rightarrow> (d, Some (EWrap ''failed to read peers file: '' e []))
      | Inr peersData \<Rightarrow>
     (case unmarshal_string_map peersData of
        Inl e \<Rightarrow> (d, Some (EWrap ''failed to parse peers JSON: '' e []))
      | Inr peers \<Rightarrow>
     (case map_of peers nodeName of
        None \<Rightarrow> (d, Some (ENew (''node '' @ nodeName @ '' not found in peers file'')))
      | Some nodeID \<Rightarrow>
     (case os_MkdirAll S identityDir of
        Some e \<Rightarrow> (d, Some (EWrap ''failed to create identity directory: '' e []))
      | None \<Rightarrow>
          then_do (generateNodeIdentity S W gen now nodeName nodeID identityDir encryptKey passphrase overwrite d)
            (\<lambda>e. EWrap (''failed to generate identity for '' @ nodeName @ '': '') e []) (\<lambda>d. (d, None)))))))))"

section \<open>Keys of initiators and authorizers\<close>

record machine =
  mh_now :: string
  mh_user :: "string res"
  mh_hostname :: "string res"
  mh_os :: string

definition key_algorithm :: "string \<Rightarrow> string res" where
  "key_algorithm a =
     (let algorithm = (if a = [] then EventInitiatorKeyTypeEd25519 else a) in
      if \<not> slices_contains [EventInitiatorKeyTypeEd25519, EventInitiatorKeyTypeP256] algorithm
      then Inl (ENew (''invalid algorithm: '' @ algorithm @ ''. Must be '' @ EventInitiatorKeyTypeEd25519 @ '' or '' @ EventInitiatorKeyTypeP256))
      else Inr algorithm)"

definition GenerateKeyData :: "('k, 'p) private_keys \<Rightarrow> string \<Rightarrow> KeyData res" where
  "GenerateKeyData pr algorithm =
     (if algorithm = EventInitiatorKeyTypeEd25519 then GenerateEd25519Keys pr else GenerateP256Keys pr)"

text \<open>
  The body that the two commands share word for word, up to the names of files and of the first field.
\<close>

definition generate_key_files ::
  "os \<Rightarrow> age_writer \<Rightarrow> ('k, 'p) private_keys \<Rightarrow> machine \<Rightarrow> string res \<Rightarrow> string \<Rightarrow> string \<Rightarrow> string \<Rightarrow> string \<Rightarrow> string \<Rightarrow> bool \<Rightarrow> bool \<Rightarrow>
   disk \<Rightarrow> disk \<times> gerror option" where
  "generate_key_files S W pr M entered nameField name identityPath keyPath algorithm encrypt overwrite d =
     (if os_Stat S d identityPath = None \<and> \<not> overwrite
      then (d, Some (ENew (''identity file already exists: '' @ identityPath @ '' (use --overwrite to force)'')))
      else if os_Stat S d keyPath = None \<and> \<not> overwrite
      then (d, Some (ENew (''key file already exists: '' @ keyPath @ '' (use --overwrite to force)'')))
      else if encrypt \<and> os_Stat S d (keyPath @ ''.age'') = None \<and> \<not> overwrite
      then (d, Some (ENew (''encrypted key file already exists: '' @ keyPath @ ''.age'' @ '' (use --overwrite to force)'')))
      else
        (case GenerateKeyData pr algorithm of
           Inl e \<Rightarrow> (d, Some (EWrap (''failed to generate '' @ algorithm @ '' keys: '') e []))
         | Inr keyData \<Rightarrow>
        (case mh_user M of
           Inl e \<Rightarrow> (d, Some (EWrap ''failed to get current user: '' e []))
         | Inr username \<Rightarrow>
        (let hostname = (case mh_hostname M of Inl _ \<Rightarrow> ''unknown'' | Inr h \<Rightarrow> h);
             identity = [(nameField, name), (''algorithm'', algorithm), (''public_key'', kd_PublicKeyHex keyData),
               (''created_at'', mh_now M), (''created_by'', username), (''machine_os'', mh_os M), (''machine_name'', hostname)]
         in then_do (os_WriteFile S identityPath (json_MarshalIndent identity) d)
              (\<lambda>e. EWrap ''failed to save identity file: '' e []) (\<lambda>d.
                if encrypt then
                  (case entered of
                     Inl e \<Rightarrow> (d, Some e)
                   | Inr passphrase \<Rightarrow> write_encrypted S W (keyPath @ ''.age'') passphrase (go_bytes (kd_PrivateKeyHex keyData)) d)
                else then_do (os_WriteFile S keyPath (go_bytes (kd_PrivateKeyHex keyData)) d)
                       (\<lambda>e. EWrap ''failed to save private key: '' e []) (\<lambda>d. (d, None)))))))"

definition generateInitiatorIdentity ::
  "os \<Rightarrow> age_writer \<Rightarrow> ('k, 'p) private_keys \<Rightarrow> machine \<Rightarrow> string res \<Rightarrow> string \<Rightarrow> string \<Rightarrow> string \<Rightarrow> bool \<Rightarrow> bool \<Rightarrow>
   disk \<Rightarrow> disk \<times> gerror option" where
  "generateInitiatorIdentity S W pr M entered nodeName outputDir algorithm0 encrypt overwrite d =
     (case key_algorithm algorithm0 of
        Inl e \<Rightarrow> (d, Some e)
      | Inr algorithm \<Rightarrow>
     (case os_MkdirAll S outputDir of
        Some e \<Rightarrow> (d, Some (EWrap ''failed to create output directory: '' e []))
      | None \<Rightarrow>
          generate_key_files S W pr M entered ''node_name'' nodeName (path_Join outputDir (nodeName @ ''.identity.json''))
            (path_Join outputDir (nodeName @ ''.key'')) algorithm encrypt overwrite d))"

definition name_char :: "char \<Rightarrow> bool" where
  "name_char c \<longleftrightarrow>
     (let n = of_char c :: nat in 97 \<le> n \<and> n \<le> 122 \<or> 65 \<le> n \<and> n \<le> 90 \<or> 48 \<le> n \<and> n \<le> 57 \<or> c = CHR ''_'' \<or> c = CHR ''-'')"

definition validateAuthorizerName :: "string \<Rightarrow> unit res" where
  "validateAuthorizerName name =
     (if name = [] then Inl (ENew ''name cannot be empty'')
      else if \<not> list_all name_char name
      then Inl (ENew ''name can only contain alphanumeric characters, hyphens, and underscores (no spaces or special characters)'')
      else Inr ())"

definition generateAuthorizerIdentity ::
  "os \<Rightarrow> age_writer \<Rightarrow> ('k, 'p) private_keys \<Rightarrow> machine \<Rightarrow> string res \<Rightarrow> string \<Rightarrow> string \<Rightarrow> string \<Rightarrow> bool \<Rightarrow> bool \<Rightarrow>
   disk \<Rightarrow> disk \<times> gerror option" where
  "generateAuthorizerIdentity S W pr M entered name outputDir algorithm0 encrypt overwrite d =
     (case validateAuthorizerName name of
        Inl e \<Rightarrow> (d, Some e)
      | Inr _ \<Rightarrow>
     (case key_algorithm algorithm0 of
        Inl e \<Rightarrow> (d, Some e)
      | Inr algorithm \<Rightarrow>
     (case os_MkdirAll S outputDir of
        Some e \<Rightarrow> (d, Some (EWrap ''failed to create output directory: '' e []))
      | None \<Rightarrow>
          generate_key_files S W pr M entered ''name'' name (path_Join outputDir (name @ ''.authorizer.identity.json''))
            (path_Join outputDir (name @ ''.authorizer.key'')) algorithm encrypt overwrite d)))"

section \<open>Recovery\<close>

text \<open>\<open>Stat\<close> is the answer of \<^verbatim>\<open>os.Stat\<close>, \<open>dir\<close> the contents of the backup directory.\<close>

definition recoverDatabase ::
  "'k crypto \<Rightarrow> 'd badger_db \<Rightarrow> (string \<Rightarrow> gerror option) \<Rightarrow> (string \<Rightarrow> gerror option) \<Rightarrow> (string \<Rightarrow> gerror option) \<Rightarrow>
   (string \<Rightarrow> bytes \<Rightarrow> 'd res) \<Rightarrow> gerror option \<Rightarrow> bytes res \<Rightarrow> backup_dir \<Rightarrow> string \<Rightarrow> string \<Rightarrow> bool \<Rightarrow> 'd res outcome" where
  "recoverDatabase cr B Stat mkdir RemoveAll open_db close_err entered dir backupDir recoveryPath force =
     (if Stat backupDir = Some ErrNotExist then Returns (Inl (ENew (''backup directory does not exist: '' @ backupDir)))
      else if Stat recoveryPath = None \<and> \<not> force
      then Returns (Inl (ENew (''recovery path already exists: '' @ recoveryPath @ '' (use --force to overwrite)'')))
      else
        (case entered of
           Inl e \<Rightarrow> Returns (Inl (EWrap ''failed to read encryption key: '' e []))
         | Inr key \<Rightarrow>
             if key = [] then Returns (Inl (ENew ''encryption key cannot be empty''))
             else
               (case if force then RemoveAll recoveryPath else None of
                  Some e \<Rightarrow> Returns (Inl (EWrap ''failed to remove existing recovery path: '' e []))
                | None \<Rightarrow>
                    bind_out (NewBadgerBackupExecutor mkdir ''temp'' key backupDir) (\<lambda>tempExecutor.
                      Returns (case RestoreAllBackupsEncrypted cr B tempExecutor mkdir open_db close_err dir recoveryPath key of
                                 Inl e \<Rightarrow> Inl (EWrap ''recovery failed: '' e [])
                               | Inr d \<Rightarrow> Inr d)))))"

end
