(* ===== verification/Node_Start.thy ===== *)
theory Node_Start
  imports Configuration Backups Messaging Stream_Consumers Workers
begin

text \<open>
  \<^verbatim>\<open>cmd/mpcium/main.go\<close>: how a node starts, what it waits for, and how it shuts down; and its health
  endpoint (\<^verbatim>\<open>pkg/healthcheck\<close>).

  The start is a chain of steps, each of which may end the process (\<open>Fatal\<close>), return an error
  (\<open>Failed\<close>), or wait for input that does not come (\<open>Waiting\<close>). A chain keeps the list of the steps
  it took. The answers of the outside (terminal, files, Consul, Badger, NATS) are the record \<open>boot_env\<close>.
\<close>

section \<open>Chains of steps\<close>

datatype boot_step =
    PasswordFromFile
  | PasswordPrompted string
  | ConfigLoaded
  | ConsulConnected
  | PeersSynced
  | PeersLoaded "string list"
  | StoreOpened string
  | BackupsEvery int
  | IdentityLoaded
  | NatsConnected
  | NatsAsked "nats_call list"
  | NodeCreated
  | RequestsSubscribed "string list"
  | TimeoutsSubscribed bool
  | PeerReady bool
  | HealthServed string
  | StreamsConsumed

datatype 'a boot_end = Fatal string | Failed gerror | Waiting | Going 'a

type_synonym 'a boot = "boot_step list \<times> 'a boot_end"

definition boot_return :: "'a \<Rightarrow> 'a boot" where
  "boot_return a = ([], Going a)"

definition boot_bind :: "'a boot \<Rightarrow> ('a \<Rightarrow> 'b boot) \<Rightarrow> 'b boot" where
  "boot_bind m f =
     (case m of
        (t, Going a) \<Rightarrow> (case f a of (t', r) \<Rightarrow> (t @ t', r))
      | (t, Fatal x) \<Rightarrow> (t, Fatal x)
      | (t, Failed e) \<Rightarrow> (t, Failed e)
      | (t, Waiting) \<Rightarrow> (t, Waiting))"

definition did :: "boot_step \<Rightarrow> unit boot" where
  "did s = ([s], Going ())"

definition or_fatal :: "string \<Rightarrow> 'a res \<Rightarrow> 'a boot" where
  "or_fatal msg r = (case r of Inl e \<Rightarrow> ([], Fatal msg) | Inr a \<Rightarrow> ([], Going a))"

definition of_outcome :: "'a outcome \<Rightarrow> 'a boot" where
  "of_outcome r = (case r of Aborts x \<Rightarrow> ([], Fatal x) | Returns a \<Rightarrow> ([], Going a))"

definition or_fatal_out :: "string \<Rightarrow> 'a res outcome \<Rightarrow> 'a boot" where
  "or_fatal_out msg r = boot_bind (of_outcome r) (or_fatal msg)"

text \<open>Calls of NATS are part of the trace also when they fail.\<close>

definition nats_boot :: "'a boot_end \<times> nats_call list \<Rightarrow> 'a boot" where
  "nats_boot r = ([NatsAsked (snd r)], fst r)"

section \<open>Connections\<close>

text \<open>The client configuration of Consul; \<open>base\<close> is the default one of the library.\<close>

record consul_config =
  cf_Address :: string
  cf_Token :: string
  cf_HttpAuth :: "(string \<times> string) option"
  cf_WaitTime :: int

definition EnvProduction :: string where "EnvProduction = ''production''"

definition consul_client_config :: "consul_config \<Rightarrow> string \<Rightarrow> (string \<Rightarrow> string) \<Rightarrow> consul_config" where
  "consul_client_config base environment viper =
     (let config =
        (if environment = EnvProduction
         then base\<lparr>cf_Token := viper ''consul.token'',
                cf_HttpAuth := (if viper ''consul.username'' \<noteq> [] \<or> viper ''consul.password'' \<noteq> []
                  then Some (viper ''consul.username'', viper ''consul.password'') else cf_HttpAuth base)\<rparr>
         else base)
      in config\<lparr>cf_Address := viper ''consul.address'', cf_WaitTime := 10 * Second\<rparr>)"

definition GetConsulClient ::
  "(consul_config \<Rightarrow> 'cl res) \<Rightarrow> ('cl \<Rightarrow> string res) \<Rightarrow> consul_config \<Rightarrow> string \<Rightarrow> (string \<Rightarrow> string) \<Rightarrow> 'cl outcome" where
  "GetConsulClient NewClient Leader base environment viper =
     (case NewClient (consul_client_config base environment viper) of
        Inl e \<Rightarrow> Aborts ''Failed to create consul client''
      | Inr client \<Rightarrow> (case Leader client of Inl e \<Rightarrow> Aborts ''failed to connect to Consul'' | Inr _ \<Rightarrow> Returns client))"

text \<open>The options of the connection; the three handlers only log.\<close>

datatype nats_option =
    MaxReconnects int
  | ReconnectWait int
  | ReconnectBufSize int
  | Dialer int int
  | PingInterval int
  | MaxPingsOutstanding int
  | CustomInboxPrefix string
  | LogDisconnects
  | LogReconnects
  | LogClosed
  | ClientCert string string
  | RootCAs string
  | UserInfo string string

definition nats_base_options :: "nats_option list" where
  "nats_base_options =
     [MaxReconnects (-1), ReconnectWait (2 * Second), ReconnectBufSize (16 * 1024 * 1024), Dialer (5 * Second) (30 * Second),
      PingInterval (20 * Second), MaxPingsOutstanding 3, CustomInboxPrefix ''_INBOX_mpcium'', LogDisconnects, LogReconnects, LogClosed]"

definition or_path :: "string \<Rightarrow> string \<Rightarrow> string" where
  "or_path p name = (if p = [] then path_Join (path_Join ''.'' ''certs'') name else p)"

definition nats_tls_options :: "NATsConfig \<Rightarrow> nats_option list" where
  "nats_tls_options nats =
     (let tls = (case na_TLS nats of None \<Rightarrow> \<lparr>tl_ClientCert = [], tl_ClientKey = [], tl_CACert = []\<rparr> | Some t \<Rightarrow> t) in
      [ClientCert (or_path (tl_ClientCert tls) ''client-cert.pem'') (or_path (tl_ClientKey tls) ''client-key.pem''),
       RootCAs (or_path (tl_CACert tls) ''rootCA.pem''), UserInfo (na_Username nats) (na_Password nats)])"

definition GetNATSConnection ::
  "(string \<Rightarrow> nats_option list \<Rightarrow> unit res) \<Rightarrow> string \<Rightarrow> AppConfig \<Rightarrow> unit res outcome" where
  "GetNATSConnection connect environment appConfig =
     (case ap_NATs appConfig of
        None \<Rightarrow> Aborts ''nil pointer dereference''
      | Some nats \<Rightarrow>
          Returns (connect (na_URL nats)
            (nats_base_options @ (if environment = EnvProduction then nats_tls_options nats else []))))"

section \<open>The background backups\<close>

text \<open>
  One round of \<^verbatim>\<open>select\<close>: a tick, with the state of the database and the answers of the system at that
  moment, or the end. A failed backup is logged; the second component holds the results, the third
  tells whether the job has returned.
\<close>

datatype 'd backup_event = BackupTick backup_io 'd | BackupDone

fun StartPeriodicBackup ::
  "'k crypto \<Rightarrow> 'd badger_db \<Rightarrow> badgerBackupExecutor \<Rightarrow> 'd backup_event list \<Rightarrow> backup_dir \<Rightarrow>
   backup_dir \<times> gerror option list \<times> bool" where
  "StartPeriodicBackup cr B b [] dir = (dir, [], False)"
| "StartPeriodicBackup cr B b (BackupDone # evs) dir = (dir, [], True)"
| "StartPeriodicBackup cr B b (BackupTick io d # evs) dir =
     (case Execute cr B b io d dir of
        (dir', r) \<Rightarrow> (case StartPeriodicBackup cr B b evs dir' of (dir'', rs, stopped) \<Rightarrow> (dir'', r # rs, stopped)))"

section \<open>The environment\<close>

record start_flags =
  sf_name :: string
  sf_decrypt :: bool
  sf_prompts :: bool
  sf_passwordFile :: string
  sf_agePasswordFile :: string
  sf_peers :: string

record ('k, 'd, 'c, 'pp) boot_env =
  bt_config :: "(string \<Rightarrow> string) res"
  bt_int :: "string \<Rightarrow> int"
  bt_bool :: "string \<Rightarrow> bool"
  bt_decode :: "(string \<Rightarrow> string) \<Rightarrow> AppConfig res"
  bt_auth :: "AuthorizationConfig res"
  bt_terminal :: "bytes res list"
  bt_files :: files
  bt_age :: age
  bt_mkdir :: "string \<Rightarrow> gerror option"
  bt_consulDefault :: consul_config
  bt_newConsul :: "consul_config \<Rightarrow> unit res"
  bt_leader :: "string res"
  bt_kv :: "'c consul_ops"
  bt_list :: "'c \<Rightarrow> string \<Rightarrow> (string \<times> bytes) list res"
  bt_badger :: "'d badger_ops"
  bt_open :: "string \<Rightarrow> bytes \<Rightarrow> 'd res"
  bt_nats :: "string \<Rightarrow> nats_option list \<Rightarrow> unit res"
  bt_js :: jetstream
  bt_crypto :: "'k crypto"
  bt_encPreParams :: "'pp \<Rightarrow> bytes res"
  bt_decPreParams :: "bytes \<Rightarrow> 'pp res"
  bt_genPreParams :: "nat \<Rightarrow> 'pp res"
  bt_subscribe :: "string \<Rightarrow> gerror option"
  bt_ready :: "string \<Rightarrow> unit res"

definition KeygenBrokerStream :: string where "KeygenBrokerStream = ''mpc-keygen''"
definition DefaultBackupPeriodSeconds :: int where "DefaultBackupPeriodSeconds = 300"

section \<open>Parts of the start\<close>

definition NewBadgerKV ::
  "('k, 'd, 'c, 'pp) boot_env \<Rightarrow> (string \<Rightarrow> string) \<Rightarrow> string \<Rightarrow> AppConfig \<Rightarrow> 'd BadgerKVStore boot" where
  "NewBadgerKV env viper nodeName appConfig =
     (let basePath = (if viper ''db_path'' = [] then path_Join ''.'' ''db'' else viper ''db_path'');
          dbPath = path_Join basePath nodeName;
          backupDir = (if viper ''backup_dir'' = [] then path_Join ''.'' ''backups'' else viper ''backup_dir'');
          password = go_bytes (ap_BadgerPassword appConfig);
          config = \<lparr>bc_NodeID = nodeName, bc_EncryptionKey = password, bc_BackupEncryptionKey = password,
                    bc_BackupDir = backupDir, bc_DBPath = dbPath\<rparr>
      in boot_bind (or_fatal ''Failed to create badger kv store'' (NewBadgerKVStore (bt_badger env) (bt_open env) config))
           (\<lambda>kvs. boot_bind (of_outcome (NewBadgerBackupExecutor (bt_mkdir env) nodeName password backupDir))
           (\<lambda>executor. boot_bind (did (StoreOpened dbPath)) (\<lambda>_. boot_return kvs))))"

text \<open>The period of the background backups, which start only when they are enabled.\<close>

definition backup_period :: "int \<Rightarrow> int" where
  "backup_period periodSeconds = (if periodSeconds \<le> 0 then DefaultBackupPeriodSeconds else periodSeconds)"

definition start_backups :: "('k, 'd, 'c, 'pp) boot_env \<Rightarrow> unit boot" where
  "start_backups env =
     (if bt_bool env ''backup_enabled'' then did (BackupsEvery (backup_period (bt_int env ''backup_period_seconds'')))
      else boot_return ())"

definition read_passwords ::
  "('k, 'd, 'c, 'pp) boot_env \<Rightarrow> start_flags \<Rightarrow> (string \<Rightarrow> string) \<Rightarrow> (string \<Rightarrow> string) boot" where
  "read_passwords env flags v0 =
     boot_bind
       (if sf_passwordFile flags = [] then boot_return v0
        else (case loadPasswordFromFile (fl_ReadFile (bt_files env)) (sf_passwordFile flags) v0 of
                Inl e \<Rightarrow> ([], Failed (EWrap ''failed to load password from file: '' e []))
              | Inr v \<Rightarrow> ([PasswordFromFile], Going v)))
       (\<lambda>v1. if \<not> sf_prompts flags then boot_return v1
             else (case promptForSensitiveCredentials (bt_terminal env) v1 of
                     None \<Rightarrow> ([], Waiting)
                   | Some (Aborts x) \<Rightarrow> ([], Fatal x)
                   | Some (Returns (v, shown)) \<Rightarrow> ([PasswordPrompted shown], Going v)))"

definition sync_peers :: "('k, 'd, 'c, 'pp) boot_env \<Rightarrow> start_flags \<Rightarrow> 'c \<Rightarrow> 'c boot" where
  "sync_peers env flags c =
     (if sf_peers flags = [] then boot_return c
      else boot_bind (or_fatal ''Failed to load peers from file'' (LoadPeersFromFile (fl_ReadFile (bt_files env)) (sf_peers flags)))
        (\<lambda>ps. case SyncPeersToConsul (bt_kv env) ps c of
                (c', Inl e) \<Rightarrow> ([], Fatal ''Failed to sync peers to Consul'')
              | (c', Inr _) \<Rightarrow> ([PeersSynced], Going c')))"

definition load_peers :: "('k, 'd, 'c, 'pp) boot_env \<Rightarrow> 'c \<Rightarrow> Peer list boot" where
  "load_peers env c =
     boot_bind (or_fatal_out ''Failed to load peers from Consul'' (LoadPeersFromConsul (bt_list env c) PeersPrefix))
       (\<lambda>peers. boot_bind (did (PeersLoaded (GetPeerIDs peers))) (\<lambda>_. boot_return peers))"

definition boot_broker :: "('k, 'd, 'c, 'pp) boot_env \<Rightarrow> string \<Rightarrow> string \<Rightarrow> int \<Rightarrow> string \<Rightarrow> brokerConfiguration boot" where
  "boot_broker env stream topic maxAckPending msg =
     nats_boot (case NewJetStreamBroker (bt_js env) stream [topic] [WithMaxAckPending maxAckPending] of
                  (Inl e, calls) \<Rightarrow> (Fatal msg, calls)
                | (Inr cfg, calls) \<Rightarrow> (Going cfg, calls))"

definition boot_out :: "'a outcome \<times> nats_call list \<Rightarrow> 'a boot" where
  "boot_out r = nats_boot (case fst r of Aborts x \<Rightarrow> Fatal x | Returns a \<Rightarrow> Going a, snd r)"

definition configured_or :: "int \<Rightarrow> int \<Rightarrow> int" where
  "configured_or n default_value = (if n = 0 then default_value else n)"

text \<open>Both brokers and the three result queues.\<close>

definition start_messaging :: "('k, 'd, 'c, 'pp) boot_env \<Rightarrow> string \<Rightarrow> AppConfig \<Rightarrow> (brokerConfiguration \<times> brokerConfiguration) boot" where
  "start_messaging env environment appConfig =
     boot_bind (or_fatal_out ''Failed to connect to NATS'' (GetNATSConnection (bt_nats env) environment appConfig)) (\<lambda>_.
     boot_bind (did NatsConnected) (\<lambda>_.
     boot_bind (boot_broker env KeygenBrokerStream KeygenRequestTopic
       (configured_or (bt_int env ''max_concurrent_keygen'') DefaultConcurrentKeygen) ''Failed to create keygen jetstream broker'') (\<lambda>keygenBroker.
     boot_bind (boot_broker env SigningPublisherStream SigningRequestTopic
       (configured_or (bt_int env ''max_concurrent_signing'') DefaultConcurrentSigning) ''Failed to create signing jetstream broker'') (\<lambda>signingBroker.
     boot_bind (boot_out (NewNATsMessageQueueManager (bt_js env) ''mpc'' ResultStreamSubjects)) (\<lambda>queue.
     boot_bind (boot_out (NewMessageQueue (bt_js env) queue ''mpc_keygen_result'' (KeygenResultSubscriptionSubject []))) (\<lambda>_.
     boot_bind (boot_out (NewMessageQueue (bt_js env) queue ''mpc_signing_result'' (SigningResultSubscriptionSubject []))) (\<lambda>_.
     boot_bind (boot_out (NewMessageQueue (bt_js env) queue ''mpc_reshare_result'' (ReshareResultSubscriptionSubject []))) (\<lambda>_.
       boot_return (keygenBroker, signingBroker)))))))))"

definition NewNode ::
  "('k, 'd, 'c, 'pp) boot_env \<Rightarrow> string \<Rightarrow> string list \<Rightarrow> 'd BadgerKVStore \<Rightarrow> 'c \<Rightarrow> 'k registry \<Rightarrow> CKD \<Rightarrow>
   ('k, 'd, 'c, 'pp) node outcome" where
  "NewNode env nodeID peerIDs kvs c reg ckd =
     bind_out (generatePreParams (bt_encPreParams env) (bt_decPreParams env) (bt_genPreParams env) kvs) (\<lambda>(pps, kvs').
       Returns \<lparr>nd_nodeID = nodeID, nd_peerIDs = peerIDs, nd_kv = kvs',
         nd_ki = \<lparr>ks_consulKV = bt_kv env, ks_state = c\<rparr>, nd_ecdsaPreParams = pps, nd_registry = reg, nd_ckd = Some ckd\<rparr>)"

definition start_node ::
  "('k, 'd, 'c, 'pp) boot_env \<Rightarrow> (string \<Rightarrow> string) \<Rightarrow> string \<Rightarrow> Peer list \<Rightarrow> 'd BadgerKVStore \<Rightarrow> 'c \<Rightarrow> 'k fileStore \<Rightarrow>
   ('k, 'd, 'c, 'pp) eventConsumer boot" where
  "start_node env viper nodeID peers kvs c store =
     boot_bind (of_outcome (NewRegistry nodeID (GetPeerIDs peers) (bt_int env ''mpc_threshold'') store)) (\<lambda>reg.
     boot_bind (or_fatal ''Failed to create ckd store'' (NewCKDFromHex (viper ''chain_code''))) (\<lambda>ckd.
     boot_bind (of_outcome (NewNode env nodeID (GetPeerIDs peers) kvs c reg ckd)) (\<lambda>node.
     boot_bind (did NodeCreated) (\<lambda>_.
     boot_bind (of_outcome (consumer_Run (bt_subscribe env))) (\<lambda>topics.
     boot_bind (did (RequestsSubscribed topics)) (\<lambda>_.
       boot_return (NewEventConsumer (bt_int env) node)))))))"

text \<open>A registry that cannot announce itself is only logged.\<close>

definition start_consuming :: "('k, 'd, 'c, 'pp) boot_env \<Rightarrow> (string \<Rightarrow> string) \<Rightarrow> string \<Rightarrow> unit boot" where
  "start_consuming env viper nodeID =
     boot_bind (did (TimeoutsSubscribed (bt_subscribe env maxDeliveriesExceededSubject = None))) (\<lambda>_.
     boot_bind (did (PeerReady (case bt_ready env nodeID of Inl e \<Rightarrow> False | Inr _ \<Rightarrow> True))) (\<lambda>_.
     boot_bind (if bt_bool env ''healthcheck.enabled''
                then did (HealthServed (if viper ''healthcheck.address'' = [] then '':8080'' else viper ''healthcheck.address''))
                else boot_return ()) (\<lambda>_.
       did StreamsConsumed)))"

section \<open>The start of a node\<close>

definition runNode ::
  "('k, 'd, 'c, 'pp) boot_env \<Rightarrow> start_flags \<Rightarrow> 'c \<Rightarrow> ('k, 'd, 'c, 'pp) eventConsumer boot" where
  "runNode env flags c0 =
     boot_bind (or_fatal ''Fatal error config file: '' (bt_config env)) (\<lambda>v0.
     boot_bind (read_passwords env flags v0) (\<lambda>viper.
     boot_bind (of_outcome (LoadConfig (bt_decode env) viper)) (\<lambda>appConfig.
     boot_bind (of_outcome (checkRequiredConfigValues viper)) (\<lambda>_.
     boot_bind (did ConfigLoaded) (\<lambda>_.
     boot_bind (of_outcome (GetConsulClient (bt_newConsul env) (\<lambda>_. bt_leader env) (bt_consulDefault env) (v0 ''environment'') viper)) (\<lambda>_.
     boot_bind (did ConsulConnected) (\<lambda>_.
     boot_bind (sync_peers env flags c0) (\<lambda>c.
     boot_bind (load_peers env c) (\<lambda>peers.
     boot_bind (of_outcome (GetIDFromName (sf_name flags) peers)) (\<lambda>nodeID.
     boot_bind (NewBadgerKV env viper (sf_name flags) appConfig) (\<lambda>kvs.
     boot_bind (start_backups env) (\<lambda>_.
     boot_bind (or_fatal_out ''Failed to create identity store'' (NewFileStore (bt_crypto env) (bt_files env) (bt_age env) viper
       (bt_auth env) ''identity'' (sf_name flags) (sf_decrypt flags) (sf_agePasswordFile flags))) (\<lambda>store.
     boot_bind (did IdentityLoaded) (\<lambda>_.
     boot_bind (start_messaging env (v0 ''environment'') appConfig) (\<lambda>_.
     boot_bind (start_node env viper nodeID peers kvs c store) (\<lambda>consumer.
     boot_bind (start_consuming env viper nodeID) (\<lambda>_.
       boot_return consumer)))))))))))))))))"

section \<open>Running and stopping\<close>

text \<open>
  The two consumers of the streams end with a result each, in the order of the list; the first error
  that is not due to the shutdown ends the node.
\<close>

definition consumer_error :: "bool \<Rightarrow> string \<Rightarrow> unit res \<Rightarrow> gerror list" where
  "consumer_error canceled name r =
     (case r of Inl e \<Rightarrow> if canceled then [] else [EWrap (name @ '' consumer error: '') e []] | Inr _ \<Rightarrow> [])"

fun wait_consumers :: "(bool \<times> string \<times> unit res) list \<Rightarrow> unit res" where
  "wait_consumers [] = Inr ()"
| "wait_consumers ((canceled, name, r) # rest) =
     (case consumer_error canceled name r of [] \<Rightarrow> wait_consumers rest | e # _ \<Rightarrow> Inl e)"

datatype stop_step = CancelContext | ShutdownHealth | ResignRegistry | CloseKeygenConsumer | CloseSigningConsumer | DrainNats

text \<open>A signal: each step is taken whatever the ones before it answered.\<close>

definition shutdown_steps :: "bool \<Rightarrow> stop_step list" where
  "shutdown_steps health =
     [CancelContext] @ (if health then [ShutdownHealth] else []) @
     [ResignRegistry, CloseKeygenConsumer, CloseSigningConsumer, DrainNats]"

section \<open>Health endpoint\<close>

record HealthResponse =
  hr_Status :: string
  hr_Live :: bool
  hr_Ready :: bool
  hr_Details :: "(string \<times> string) list"

text \<open>\<open>leader\<close> is the answer of Consul; the details render as they do in JSON.\<close>

definition healthHandler :: "bool \<Rightarrow> string res option \<Rightarrow> 'k registry option \<Rightarrow> nat \<times> HealthResponse" where
  "healthHandler natsConnected leader reg =
     (let consulConnected = (case leader of Some (Inr l) \<Rightarrow> l \<noteq> [] | _ \<Rightarrow> False);
          peers = (case reg of
              Some r \<Rightarrow> [(''peers_ready_count'', itoa (GetReadyPeersCount r) @ ''/'' @ itoa (GetTotalPeersCount r)),
                         (''all_peers_ready'', show_bool (ArePeersReady r)), (''majority_ready'', show_bool (AreMajorityReady r))]
            | None \<Rightarrow> [(''peers_available'', show_bool False)]);
          ready = (natsConnected \<and> consulConnected \<and> (case reg of Some r \<Rightarrow> AreMajorityReady r | None \<Rightarrow> False))
      in (if ready then 200 else 503,
          \<lparr>hr_Status = (if ready then ''ready'' else ''not_ready''), hr_Live = True, hr_Ready = ready,
           hr_Details = [(''nats_connected'', show_bool natsConnected), (''consul_connected'', show_bool consulConnected)] @ peers\<rparr>))"

end
