(* ===== verification/Backup_Properties.thy ===== *)
theory Backup_Properties
  imports Backups
begin

text \<open>
  Restoring the backups of a directory gives back the database: the laws of Badger that this rests
  on, the format of a file, and the invariant that the backups of a directory keep.
\<close>

section \<open>A file is read back\<close>

lemma set_uint64_enc [simp]: "set_uint64 upd (enc_int (uint (w :: 64 word))) r = Some (upd w r)"
proof -
  have "list_all is_digit (show_nat n)" for n by (auto simp: list_all_iff show_nat_digits)
  moreover have "unat w < 2 ^ 64" using unsigned_less [of w, where ?'a = nat] by simp
  ultimately show ?thesis by (simp add: set_uint64_def enc_int_def itoa_def)
qed

lemma find_backup_fields [simp]:
  "find_field BadgerBackupMeta_fields ''algo'' = Some (set_string (\<lambda>s m. m\<lparr>bm_Algo := s\<rparr>))"
  "find_field BadgerBackupMeta_fields ''nonce_b64'' = Some (set_string (\<lambda>s m. m\<lparr>bm_NonceB64 := s\<rparr>))"
  "find_field BadgerBackupMeta_fields ''created_at'' = Some (set_string (\<lambda>s m. m\<lparr>bm_CreatedAt := s\<rparr>))"
  "find_field BadgerBackupMeta_fields ''since'' = Some (set_uint64 (\<lambda>w m. m\<lparr>bm_Since := w\<rparr>))"
  "find_field BadgerBackupMeta_fields ''next_since'' = Some (set_uint64 (\<lambda>w m. m\<lparr>bm_NextSince := w\<rparr>))"
  "find_field BadgerBackupMeta_fields ''encryption_key_id'' = Some (set_string (\<lambda>s m. m\<lparr>bm_EncryptionKeyID := s\<rparr>))"
  "find_field BadgerBackupVersionInfo_fields ''version'' = Some (set_uint64 (\<lambda>w i. i\<lparr>bv_Version := w\<rparr>))"
  "find_field BadgerBackupVersionInfo_fields ''since'' = Some (set_uint64 (\<lambda>w i. i\<lparr>bv_Since := w\<rparr>))"
  "find_field BadgerBackupVersionInfo_fields ''updated_at'' = Some (set_string (\<lambda>s i. i\<lparr>bv_UpdatedAt := s\<rparr>))"
  by (simp_all add: BadgerBackupMeta_fields_def BadgerBackupVersionInfo_fields_def to_lower_def lower_char_def)

lemma Unmarshal_meta [simp]:
  "json_Unmarshal BadgerBackupMeta_fields z (json_Marshal (enc_BadgerBackupMeta m)) = Inr m"
proof -
  have "wf_json (enc_BadgerBackupMeta m)" by (simp add: enc_BadgerBackupMeta_def)
  then show ?thesis unfolding enc_BadgerBackupMeta_def by (simp add: json_Unmarshal_Marshal)
qed

lemma Unmarshal_version [simp]:
  "json_Unmarshal BadgerBackupVersionInfo_fields z (json_Marshal (enc_BadgerBackupVersionInfo i)) = Inr i"
proof -
  have "wf_json (enc_BadgerBackupVersionInfo i)" by (simp add: enc_BadgerBackupVersionInfo_def)
  then show ?thesis unfolding enc_BadgerBackupVersionInfo_def by (simp add: json_Unmarshal_Marshal)
qed

lemma read_full_append: "length a = n \<Longrightarrow> read_full n (a @ b) = Inr (a, b)"
  by (simp add: read_full_def)

lemma read_backup_parts:
  assumes "aead_correct cr" and "EncryptAESGCM cr rand plain key = Inr (ct, nonce)"
    and "bm_NonceB64 meta = base64_encode nonce"
    and "length (json_Marshal (enc_BadgerBackupMeta meta)) < 2 ^ 32"
  shows "read_backup cr key (concat (backup_parts (json_Marshal (enc_BadgerBackupMeta meta)) ct)) = Inr plain"
  using assms Decrypt_Encrypt_split [OF assms(1,2)]
  by (simp add: read_backup_def backup_parts_def read_full_append base64_decode_encode)

lemma write_parts_None: "write_parts w i ps = (c, None) \<Longrightarrow> c = concat ps"
  by (induction ps arbitrary: i c) (auto split: option.splits prod.splits)

lemma write_parts_all: "(\<And>i. w i = None) \<Longrightarrow> write_parts w i ps = (concat ps, None)"
  by (induction ps arbitrary: i) auto

section \<open>Versions of keys\<close>

type_synonym versions = "bytes \<rightharpoonup> nat \<times> bytes option"

definition merge_versions :: "versions \<Rightarrow> versions \<Rightarrow> versions" where
  "merge_versions a b = (\<lambda>k. case a k of
     None \<Rightarrow> b k
   | Some (v, x) \<Rightarrow> (case b k of None \<Rightarrow> a k | Some (w, y) \<Rightarrow> if v < w then b k else a k))"

text \<open>
  The documented behaviour of Badger: a backup holds the latest versions that are not older than the
  given one and returns the version of the last entry; loading keeps the newer version of each key.
  Versions start at one.
\<close>

definition badger_backup_ok :: "'d badger_db \<Rightarrow> bool" where
  "badger_backup_ok B \<longleftrightarrow>
     (\<forall>d since p n. bk_Backup B d since = Inr (p, n) \<longrightarrow>
        bk_content B p = (\<lambda>k. case bk_latest B d k of None \<Rightarrow> None
          | Some (v, x) \<Rightarrow> if unat since \<le> v then Some (v, x) else None) \<and>
        (\<forall>k v x. bk_content B p k = Some (v, x) \<longrightarrow> v \<le> unat n) \<and>
        (p \<noteq> [] \<longrightarrow> (\<exists>k x. bk_content B p k = Some (unat n, x))) \<and>
        (p = [] \<longrightarrow> bk_content B p = Map.empty)) \<and>
     (\<forall>d p d'. bk_Load B d p = Inr d' \<longrightarrow> bk_latest B d' = merge_versions (bk_latest B d) (bk_content B p)) \<and>
     (\<forall>d k v x. bk_latest B d k = Some (v, x) \<longrightarrow> 0 < v)"

lemma versions_positive: "badger_backup_ok B \<Longrightarrow> bk_latest B d k = Some (v, x) \<Longrightarrow> 0 < v"
  unfolding badger_backup_ok_def by blast

lemma badger_Backup:
  assumes "badger_backup_ok B" and "bk_Backup B d since = Inr (p, n)"
  shows "bk_content B p = (\<lambda>k. case bk_latest B d k of None \<Rightarrow> None
      | Some (v, x) \<Rightarrow> if unat since \<le> v then Some (v, x) else None)"
    and "bk_content B p k = Some (v, x) \<Longrightarrow> v \<le> unat n"
    and "p \<noteq> [] \<Longrightarrow> \<exists>k x. bk_content B p k = Some (unat n, x)"
    and "p = [] \<Longrightarrow> bk_content B p = Map.empty"
proof -
  note law = assms(1) [unfolded badger_backup_ok_def, THEN conjunct1, rule_format, OF assms(2)]
  show "bk_content B p = (\<lambda>k. case bk_latest B d k of None \<Rightarrow> None
      | Some (v, x) \<Rightarrow> if unat since \<le> v then Some (v, x) else None)" using law by (elim conjE)
  show "bk_content B p k = Some (v, x) \<Longrightarrow> v \<le> unat n" using law by blast
  show "p \<noteq> [] \<Longrightarrow> \<exists>k x. bk_content B p k = Some (unat n, x)" using law by blast
  show "p = [] \<Longrightarrow> bk_content B p = Map.empty" using law by blast
qed

text \<open>A commit gives all of its keys a version above every earlier one.\<close>

definition advances :: "versions \<Rightarrow> versions \<Rightarrow> bool" where
  "advances L L' \<longleftrightarrow> (\<forall>k. L' k = L k \<or>
     (\<exists>v x. L' k = Some (v, x) \<and> (\<forall>k' w y. L k' = Some (w, y) \<longrightarrow> w < v)))"

definition below :: "versions \<Rightarrow> versions \<Rightarrow> bool" where
  "below m L \<longleftrightarrow> (\<forall>k v x. m k = Some (v, x) \<longrightarrow> (\<exists>w y. L k = Some (w, y) \<and> v \<le> w \<and> (v = w \<longrightarrow> x = y)))"

lemma belowD: "below m L \<Longrightarrow> m k = Some (v, x) \<Longrightarrow> \<exists>w y. L k = Some (w, y) \<and> v \<le> w \<and> (v = w \<longrightarrow> x = y)"
  by (simp add: below_def)

lemma below_merge: "below a L \<Longrightarrow> below b L \<Longrightarrow> below (merge_versions a b) L"
  unfolding below_def merge_versions_def by (auto split: option.splits if_splits)

lemma merge_top:
  assumes "below a L" and "below b L" and "L k = Some e" and "a k = Some e \<or> b k = Some e"
  shows "merge_versions a b k = Some e"
  using assms(4) belowD [OF assms(1), of k] belowD [OF assms(2), of k] assms(3)
  by (cases e) (fastforce simp: merge_versions_def split: option.splits)

lemma below_advances:
  assumes "below m L" and "advances L L'"
  shows "below m L'"
  unfolding below_def
proof (intro allI impI)
  fix k v x assume m: "m k = Some (v, x)"
  obtain w y where l: "L k = Some (w, y)" "v \<le> w" "v = w \<longrightarrow> x = y" using belowD [OF assms(1) m] by blast
  from assms(2) consider "L' k = L k" | v' x' where "L' k = Some (v', x')" "w < v'"
    unfolding advances_def using l(1) by blast
  then show "\<exists>w y. L' k = Some (w, y) \<and> v \<le> w \<and> (v = w \<longrightarrow> x = y)"
    by cases (use l in auto)
qed

section \<open>The backups of a directory\<close>

definition plain_in :: "'k crypto \<Rightarrow> bytes \<Rightarrow> backup_dir \<Rightarrow> string \<Rightarrow> bytes \<Rightarrow> bool" where
  "plain_in cr key dir f p \<longleftrightarrow> is_backup_name f \<and> (\<exists>c. map_of dir f = Some c \<and> read_backup cr key c = Inr p)"

definition readable :: "'k crypto \<Rightarrow> bytes \<Rightarrow> backup_dir \<Rightarrow> bool" where
  "readable cr key dir \<longleftrightarrow> (\<forall>f \<in> set (SortedEncryptedBackups dir). \<exists>p. plain_in cr key dir f p)"

lemma sorted_backups: "set (SortedEncryptedBackups dir) = {f. is_backup_name f \<and> f \<in> dom (map_of dir)}"
  by (auto simp: SortedEncryptedBackups_def dom_map_of_conv_image_fst)

definition covered :: "'d badger_db \<Rightarrow> 'k crypto \<Rightarrow> bytes \<Rightarrow> backup_dir \<Rightarrow> bytes \<Rightarrow> nat \<times> bytes option \<Rightarrow> bool" where
  "covered B cr key dir k e \<longleftrightarrow> (\<exists>f p. plain_in cr key dir f p \<and> bk_content B p k = Some e)"

definition dir_below :: "'d badger_db \<Rightarrow> 'k crypto \<Rightarrow> bytes \<Rightarrow> backup_dir \<Rightarrow> versions \<Rightarrow> bool" where
  "dir_below B cr key dir L \<longleftrightarrow> (\<forall>f p. plain_in cr key dir f p \<longrightarrow> below (bk_content B p) L)"

lemma load_all_latest:
  assumes ok: "badger_backup_ok B" and dir: "dir_below B cr (be_BackupEncryptionKey b) dir L"
  shows "set fs \<subseteq> {f. is_backup_name f} \<Longrightarrow> below (bk_latest B d) L \<Longrightarrow>
    load_all (\<lambda>d f. loadEncryptedBackup cr B b (open_in dir) f d) fs d = Inr d' \<Longrightarrow>
    below (bk_latest B d') L \<and>
    (\<forall>k e. L k = Some e \<longrightarrow> bk_latest B d k = Some e \<or>
       (\<exists>f \<in> set fs. \<exists>p. plain_in cr (be_BackupEncryptionKey b) dir f p \<and> bk_content B p k = Some e) \<longrightarrow>
       bk_latest B d' k = Some e)"
proof (induction fs arbitrary: d)
  case (Cons f fs)
  let ?key = "be_BackupEncryptionKey b"
  obtain d1 where ld: "loadEncryptedBackup cr B b (open_in dir) f d = Inr d1"
    and rest: "load_all (\<lambda>d f. loadEncryptedBackup cr B b (open_in dir) f d) fs d1 = Inr d'"
    using Cons.prems(3) by (auto split: sum.splits)
  from ld obtain c p where c: "map_of dir f = Some c" "read_backup cr ?key c = Inr p" "bk_Load B d p = Inr d1"
    by (auto simp: loadEncryptedBackup_def bind_res_Inr open_in_def split: option.splits)
  then have pl: "plain_in cr ?key dir f p" using Cons.prems(1) by (auto simp: plain_in_def)
  have only: "q = p" if "plain_in cr ?key dir f q" for q using that c by (auto simp: plain_in_def)
  have b: "below (bk_content B p) L" using dir pl by (auto simp: dir_below_def)
  have m: "bk_latest B d1 = merge_versions (bk_latest B d) (bk_content B p)"
    using ok c(3) by (auto simp: badger_backup_ok_def)
  have b1: "below (bk_latest B d1) L" unfolding m by (rule below_merge [OF Cons.prems(2) b])
  note IH = Cons.IH [OF _ b1 rest]
  have top: "bk_latest B d1 k = Some e" if "L k = Some e" "bk_latest B d k = Some e \<or> bk_content B p k = Some e" for k e
    unfolding m by (rule merge_top [OF Cons.prems(2) b that])
  show ?case using IH Cons.prems(1) top only by (auto 0 4)
qed auto

lemma restore_latest:
  assumes "badger_backup_ok B" and "dir_below B cr (be_BackupEncryptionKey b) dir L"
    and "\<And>k e. L k = Some e \<Longrightarrow> covered B cr (be_BackupEncryptionKey b) dir k e"
    and "open_db path key = Inr d0" and "bk_latest B d0 = Map.empty"
    and "RestoreAllBackupsEncrypted cr B b mkdir open_db close_err dir path key = Inr d"
  shows "bk_latest B d = L"
proof
  fix k
  have fs: "set (SortedEncryptedBackups dir) \<subseteq> {f. is_backup_name f}" by (auto simp: sorted_backups)
  have e0: "below (bk_latest B d0) L" by (simp add: assms(5) below_def)
  have l: "load_all (\<lambda>d f. loadEncryptedBackup cr B b (open_in dir) f d) (SortedEncryptedBackups dir) d0 = Inr d"
    using assms(4,6) by (auto simp: RestoreAllBackupsEncrypted_def split: option.splits sum.splits)
  note r = load_all_latest [OF assms(1,2) fs e0 l]
  show "bk_latest B d k = L k"
  proof (cases "L k")
    case None
    with r belowD [of "bk_latest B d" L k] show ?thesis by (cases "bk_latest B d k") auto
  next
    case (Some e)
    from assms(3) [OF Some] obtain f p where "plain_in cr (be_BackupEncryptionKey b) dir f p" "bk_content B p k = Some e"
      by (auto simp: covered_def)
    moreover from this have "f \<in> set (SortedEncryptedBackups dir)" by (auto simp: plain_in_def sorted_backups)
    ultimately have "bk_latest B d k = Some e" using r Some by blast
    then show ?thesis using Some by simp
  qed
qed

section \<open>A node that backs up while it runs\<close>

text \<open>
  Any write may fail. The conditions on a call of \<^verbatim>\<open>Execute\<close>: the name of its file is new and has no
  separator in its parts; a version file that was written in part is not valid JSON; and a backup file
  that was written in part, left behind with an error, cannot be decrypted.
\<close>

definition new_file :: "badgerBackupExecutor \<Rightarrow> backup_io \<Rightarrow> backup_dir \<Rightarrow> bool" where
  "new_file b io dir \<longleftrightarrow>
     (\<forall>part e. io_save io = Some (Some part, e) \<longrightarrow>
        (\<exists>e'. json_Unmarshal BadgerBackupVersionInfo_fields \<lparr>bv_Version = 0, bv_Since = 0, bv_UpdatedAt = []\<rparr> part = Inl e')) \<and>
     CHR ''/'' \<notin> set (be_NodeID b) \<and> CHR ''/'' \<notin> set (io_stamp io) \<and>
     (\<forall>v. map_of dir (backup_name (be_NodeID b) (io_stamp io) v) = None)"

definition left_broken :: "'k crypto \<Rightarrow> bytes \<Rightarrow> backup_dir \<Rightarrow> backup_dir \<Rightarrow> bool" where
  "left_broken cr key dir dir' \<longleftrightarrow>
     (\<forall>f c. is_backup_name f \<longrightarrow> map_of dir' f = Some c \<longrightarrow> map_of dir f = Some c \<or> (\<exists>e. read_backup cr key c = Inl e))"

inductive backup_run :: "'k crypto \<Rightarrow> 'd badger_db \<Rightarrow> badgerBackupExecutor \<Rightarrow> 'd \<Rightarrow> backup_dir \<Rightarrow> bool"
  for cr B b where
  start: "backup_run cr B b d []"
| commit: "backup_run cr B b d dir \<Longrightarrow> advances (bk_latest B d) (bk_latest B d') \<Longrightarrow> backup_run cr B b d' dir"
| backup: "backup_run cr B b d dir \<Longrightarrow> new_file b io dir \<Longrightarrow> Execute cr B b io d dir = (dir', r) \<Longrightarrow>
    (r = None \<or> left_broken cr (be_BackupEncryptionKey b) dir dir') \<Longrightarrow> backup_run cr B b d dir'"

definition dir_since :: "backup_dir \<Rightarrow> nat \<Rightarrow> bool" where
  "dir_since dir n \<longleftrightarrow> (\<forall>io info. LoadVersionInfo io dir = Inr info \<longrightarrow> unat (bv_Since info) = n)"

definition backups_inv :: "'k crypto \<Rightarrow> 'd badger_db \<Rightarrow> badgerBackupExecutor \<Rightarrow> 'd \<Rightarrow> backup_dir \<Rightarrow> bool" where
  "backups_inv cr B b d dir \<longleftrightarrow>
     dir_below B cr (be_BackupEncryptionKey b) dir (bk_latest B d) \<and>
     (\<exists>n. dir_since dir n \<and> (n = 0 \<or> (\<exists>k v x. bk_latest B d k = Some (v, x) \<and> n \<le> v)) \<and>
        (\<forall>k v x. bk_latest B d k = Some (v, x) \<longrightarrow> v \<le> n \<longrightarrow> covered B cr (be_BackupEncryptionKey b) dir k (v, x)))"

definition complete :: "'k crypto \<Rightarrow> 'd badger_db \<Rightarrow> badgerBackupExecutor \<Rightarrow> 'd \<Rightarrow> backup_dir \<Rightarrow> bool" where
  "complete cr B b d dir \<longleftrightarrow> (\<forall>k e. bk_latest B d k = Some e \<longrightarrow> covered B cr (be_BackupEncryptionKey b) dir k e)"

lemma LoadVersionInfo_since:
  "dir_since dir n \<Longrightarrow> LoadVersionInfo io dir = Inr info \<Longrightarrow> unat (bv_Since info) = n"
  by (auto simp: dir_since_def)

lemma dir_since_update:
  "dir_since (AList.update version_file (json_Marshal (enc_BadgerBackupVersionInfo i)) dir) (unat (bv_Since i))"
  "version_file \<noteq> name \<Longrightarrow> dir_since (AList.update name c dir) n \<longleftrightarrow> dir_since dir n"
  "json_Unmarshal BadgerBackupVersionInfo_fields \<lparr>bv_Version = 0, bv_Since = 0, bv_UpdatedAt = []\<rparr> part = Inl e \<Longrightarrow>
   dir_since (AList.update version_file part dir) n"
  by (auto simp: dir_since_def LoadVersionInfo_def split: option.splits)

lemma backups_inv_commit:
  assumes "badger_backup_ok B" and "backups_inv cr B b d dir" and "advances (bk_latest B d) (bk_latest B d')"
  shows "backups_inv cr B b d' dir"
proof -
  let ?key = "be_BackupEncryptionKey b"
  from assms(2) obtain n where n: "dir_since dir n" "n = 0 \<or> (\<exists>k v x. bk_latest B d k = Some (v, x) \<and> n \<le> v)"
    "\<And>k v x. bk_latest B d k = Some (v, x) \<Longrightarrow> v \<le> n \<Longrightarrow> covered B cr ?key dir k (v, x)"
    by (auto simp: backups_inv_def)
  have dir: "dir_below B cr ?key dir (bk_latest B d')"
    using assms(2) below_advances [OF _ assms(3)] by (auto simp: backups_inv_def dir_below_def)
  have ge: "n = 0 \<or> (\<exists>k v x. bk_latest B d' k = Some (v, x) \<and> n \<le> v)"
  proof (cases "n = 0")
    case False
    with n(2) obtain k v x where k: "bk_latest B d k = Some (v, x)" "n \<le> v" by blast
    from assms(3) consider "bk_latest B d' k = bk_latest B d k"
      | v' x' where "bk_latest B d' k = Some (v', x')" "v < v'"
      unfolding advances_def using k(1) by blast
    then show ?thesis by cases (use k in \<open>auto intro!: exI [of _ k]\<close>)
  qed simp
  have "covered B cr ?key dir k (v, x)" if l: "bk_latest B d' k = Some (v, x)" "v \<le> n" for k v x
  proof -
    have "0 < v" using assms(1) l(1) by (rule versions_positive)
    then obtain k0 w y where k0: "bk_latest B d k0 = Some (w, y)" "n \<le> w" using n(2) l(2) by auto
    from assms(3) have "bk_latest B d' k = bk_latest B d k \<or> w < v"
      unfolding advances_def using l(1) k0(1) by (metis option.inject prod.inject)
    with k0(2) l n(3) show ?thesis by auto
  qed
  with n(1) ge dir assms(2) show ?thesis by (auto simp: backups_inv_def)
qed

lemma backup_name_ok:
  assumes "new_file b io dir"
  shows "is_backup_name (backup_name (be_NodeID b) (io_stamp io) v)"
proof -
  have "CHR ''/'' \<notin> set (show_nat n)" for n using show_nat_digits [of "CHR ''/''" n] by (auto simp: is_digit_def)
  with assms show ?thesis by (auto simp: is_backup_name_def backup_name_def new_file_def suffix_def)
qed

text \<open>Adding a file with new content.\<close>

lemma plain_in_update:
  assumes "map_of dir name = None" and "is_backup_name name" and "read_backup cr key c = Inr p"
    and "\<not> is_backup_name version_file" and "dir' = AList.update name c dir \<or> (\<exists>d. dir' = AList.update version_file d (AList.update name c dir))"
  shows "plain_in cr key dir' f q \<longleftrightarrow> plain_in cr key dir f q \<or> (f = name \<and> q = p)"
proof -
  have "map_of dir' f = (if f = name then Some c else map_of dir f)" if "is_backup_name f"
    using assms(2,4,5) that by (auto split: if_splits)
  then show ?thesis
    using assms(1-3) unfolding plain_in_def by (cases "is_backup_name f"; cases "f = name") auto
qed

lemma not_backup_version: "\<not> is_backup_name version_file"
  by (simp add: is_backup_name_def version_file_def)

text \<open>A successful call: nothing new to save, or one more file.\<close>

lemma Execute_cases:
  assumes "aead_correct cr" and "new_file b io dir" and "Execute cr B b io d dir = (dir', None)"
  obtains (same) info p n where "LoadVersionInfo io dir = Inr info" "bk_Backup B d (bv_Since info) = Inr (p, n)"
      "p = [] \<or> n = bv_Since info" "dir' = dir"
    | (added) info p n name c where "LoadVersionInfo io dir = Inr info" "bk_Backup B d (bv_Since info) = Inr (p, n)" "p \<noteq> []"
      "is_backup_name name" "map_of dir name = None" "read_backup cr (be_BackupEncryptionKey b) c = Inr p"
      "dir' = fst (SaveVersionInfo io (bv_Version info + 1) n (AList.update name c dir))"
proof -
  from assms(3) obtain info where info: "LoadVersionInfo io dir = Inr info"
    by (auto simp: Execute_def split: sum.splits)
  then obtain p n where bk: "bk_Backup B d (bv_Since info) = Inr (p, n)"
    using assms(3) by (cases "bk_Backup B d (bv_Since info)") (auto simp: Execute_def)
  show thesis
  proof (cases "p = [] \<or> n = bv_Since info")
    case True
    with assms(3) info bk have "dir' = dir" by (auto simp: Execute_def)
    then show thesis by (rule same [OF info bk True])
  next
    case False
    then obtain ct nonce where
      enc: "EncryptAESGCM cr (io_rand io) p (be_BackupEncryptionKey b) = Inr (ct, nonce)"
      using assms(3) info bk
      by (cases "EncryptAESGCM cr (io_rand io) p (be_BackupEncryptionKey b)") (auto simp: Execute_def)
    define meta where "meta = backup_meta cr (be_BackupEncryptionKey b) nonce (io_time io) (bv_Since info) n"
    define name where "name = backup_name (be_NodeID b) (io_stamp io) (bv_Version info + 1)"
    define c where "c = concat (backup_parts (json_Marshal (enc_BadgerBackupMeta meta)) ct)"
    let ?j = "json_Marshal (enc_BadgerBackupMeta meta)"
    have run: "write_backup b io (bv_Version info + 1) n ?j ct dir = (dir', None)"
      using assms(3) info bk False enc by (simp add: Execute_def meta_def)
    have len: "length ?j < 2 ^ 32"
    proof (rule ccontr)
      assume "\<not> length ?j < 2 ^ 32"
      with run show False by (simp add: write_backup_def Let_def split: option.splits prod.splits)
    qed
    with run have dir': "dir' = fst (SaveVersionInfo io (bv_Version info + 1) n (AList.update name c dir))"
      by (cases "io_create io")
        (auto simp: write_backup_def Let_def name_def c_def dest: write_parts_None split: prod.splits option.splits)
    have "read_backup cr (be_BackupEncryptionKey b) c = Inr p"
      unfolding c_def by (rule read_backup_parts [OF assms(1) enc _ len]) (simp add: meta_def backup_meta_def)
    moreover have "is_backup_name name" unfolding name_def by (rule backup_name_ok [OF assms(2)])
    moreover have "map_of dir name = None" using assms(2) by (simp add: new_file_def name_def)
    ultimately show thesis using added info bk False dir' by blast
  qed
qed

text \<open>What saving the version does to the directory.\<close>

lemma SaveVersionInfo_dir:
  assumes "new_file b io dir0" and "dir' = fst (SaveVersionInfo io v n dir)" and "dir_since dir m"
  shows "dir' = dir \<or> (\<exists>c. dir' = AList.update version_file c dir)" and "dir_since dir' m \<or> dir_since dir' (unat n)"
proof -
  let ?i = "\<lparr>bv_Version = v, bv_Since = n, bv_UpdatedAt = io_time io\<rparr>"
  consider "dir' = dir" | "dir' = AList.update version_file (json_Marshal (enc_BadgerBackupVersionInfo ?i)) dir"
    | part e where "io_save io = Some (Some part, e)" "dir' = AList.update version_file part dir"
    using assms(2) by (auto simp: SaveVersionInfo_def Let_def split: option.splits prod.splits)
  then have "(dir' = dir \<or> (\<exists>c. dir' = AList.update version_file c dir)) \<and> (dir_since dir' m \<or> dir_since dir' (unat n))"
  proof cases
    case 2
    then show ?thesis using dir_since_update(1) [of ?i dir] by auto
  next
    case 3
    with assms(1) obtain e' where "json_Unmarshal BadgerBackupVersionInfo_fields
        \<lparr>bv_Version = 0, bv_Since = 0, bv_UpdatedAt = []\<rparr> part = Inl e'" unfolding new_file_def by blast
    with 3(2) dir_since_update(3) show ?thesis by blast
  qed (use assms(3) in simp)
  then show "dir' = dir \<or> (\<exists>c. dir' = AList.update version_file c dir)" and "dir_since dir' m \<or> dir_since dir' (unat n)"
    by blast+
qed

lemma backups_inv_Execute:
  assumes "aead_correct cr" and "badger_backup_ok B" and "backups_inv cr B b d dir" and "new_file b io dir"
    and "Execute cr B b io d dir = (dir', None)"
  shows "backups_inv cr B b d dir' \<and> complete cr B b d dir' \<and>
    (readable cr (be_BackupEncryptionKey b) dir \<longrightarrow> readable cr (be_BackupEncryptionKey b) dir')"
proof -
  let ?key = "be_BackupEncryptionKey b"
  from assms(3) obtain m where m: "dir_since dir m" "m = 0 \<or> (\<exists>k v x. bk_latest B d k = Some (v, x) \<and> m \<le> v)"
    "\<And>k v x. bk_latest B d k = Some (v, x) \<Longrightarrow> v \<le> m \<Longrightarrow> covered B cr ?key dir k (v, x)"
    by (auto simp: backups_inv_def)
  from assms(1,4,5) show ?thesis
  proof (cases rule: Execute_cases)
    case (same info p n)
    have s: "unat (bv_Since info) = m" by (rule LoadVersionInfo_since [OF m(1) same(1)])
    note bk = badger_Backup [OF assms(2) same(2), unfolded s]
    have "v \<le> m" if "bk_latest B d k = Some (v, x)" for k v x
    proof (rule ccontr)
      assume "\<not> v \<le> m"
      then have "bk_content B p k = Some (v, x)" using bk(1) that by simp
      with bk(4) bk(2) [of k v x] same(3) s \<open>\<not> v \<le> m\<close> show False by auto
    qed
    then have "complete cr B b d dir'" using m(3) same(4) by (auto simp: complete_def)
    with assms(3) same(4) show ?thesis by simp
  next
    case (added info p n name c)
    have s: "unat (bv_Since info) = m" by (rule LoadVersionInfo_since [OF m(1) added(1)])
    note content = badger_Backup(1) [OF assms(2) added(2), unfolded s]
      and top = badger_Backup(3) [OF assms(2) added(2,3)]
    have vn: "version_file \<noteq> name" using added(4) not_backup_version by auto
    have m': "dir_since (AList.update name c dir) m" using m(1) dir_since_update(2) [OF vn] by simp
    note save = SaveVersionInfo_dir [OF assms(4) added(7) m']
    have pl: "plain_in cr ?key dir' f q \<longleftrightarrow> plain_in cr ?key dir f q \<or> (f = name \<and> q = p)" for f q
      by (rule plain_in_update [OF added(5,4,6) not_backup_version save(1)])
    have cov: "covered B cr ?key dir' k (v, x)" if "bk_latest B d k = Some (v, x)" for k v x
    proof (cases "m \<le> v")
      case True
      with that content have "bk_content B p k = Some (v, x)" by simp
      then show ?thesis using pl by (auto simp: covered_def)
    next
      case False
      with m(3) [OF that] show ?thesis using pl by (auto simp: covered_def)
    qed
    have "below (bk_content B p) (bk_latest B d)"
      unfolding below_def content by (auto split: option.splits if_splits)
    then have bel: "dir_below B cr ?key dir' (bk_latest B d)"
      using assms(3) pl by (auto simp: backups_inv_def dir_below_def)
    have dom: "f \<in> dom (map_of dir) \<or> f = name" if "is_backup_name f" "f \<in> dom (map_of dir')" for f
      using save(1) that not_backup_version by (auto split: if_splits)
    have rd: "readable cr ?key dir \<longrightarrow> readable cr ?key dir'"
      using pl dom by (auto simp: readable_def sorted_backups) blast+
    have nn: "\<exists>k v x. bk_latest B d k = Some (v, x) \<and> unat n \<le> v"
      using top unfolding content by (auto split: option.splits if_splits)
    have "\<exists>j. dir_since dir' j \<and> (j = 0 \<or> (\<exists>k v x. bk_latest B d k = Some (v, x) \<and> j \<le> v))"
      using save(2) m(2) nn by blast
    with rd bel cov show ?thesis by (auto simp: backups_inv_def complete_def)
  qed
qed

text \<open>A call that returns an error leaves at most one file more, which cannot be decrypted.\<close>

lemma Execute_failed:
  assumes "Execute cr B b io d dir = (dir', Some e)" and "new_file b io dir"
  shows "dir' = dir \<or> (\<exists>name c. is_backup_name name \<and> map_of dir name = None \<and> dir' = AList.update name c dir)"
proof -
  have "is_backup_name (backup_name (be_NodeID b) (io_stamp io) v) \<and> map_of dir (backup_name (be_NodeID b) (io_stamp io) v) = None" for v
    using backup_name_ok [OF assms(2)] assms(2) by (auto simp: new_file_def)
  moreover have "dir' = dir \<or> (\<exists>v c. dir' = AList.update (backup_name (be_NodeID b) (io_stamp io) v) c dir)"
    using assms(1)
    by (auto simp: Execute_def write_backup_def Let_def split: sum.splits if_splits prod.splits option.splits)
  ultimately show ?thesis by metis
qed

lemma backups_inv_failed:
  assumes "backups_inv cr B b d dir" and "Execute cr B b io d dir = (dir', Some e)" and "new_file b io dir"
    and "left_broken cr (be_BackupEncryptionKey b) dir dir'"
  shows "backups_inv cr B b d dir'"
proof (cases "dir' = dir")
  case False
  with Execute_failed [OF assms(2,3)] obtain name c where n: "is_backup_name name" "map_of dir name = None"
    "dir' = AList.update name c dir" by blast
  have pl: "plain_in cr (be_BackupEncryptionKey b) dir' f p = plain_in cr (be_BackupEncryptionKey b) dir f p" for f p
  proof (cases "f = name")
    case True
    then show ?thesis using n assms(4) by (fastforce simp: plain_in_def left_broken_def)
  qed (simp add: n(3) plain_in_def)
  have "version_file \<noteq> name" using n(1) not_backup_version by auto
  then have "dir_since dir' m = dir_since dir m" for m using dir_since_update(2) n(3) by simp
  with assms(1) pl show ?thesis by (simp add: backups_inv_def dir_below_def covered_def)
qed (use assms(1) in simp)

lemma backup_run_inv:
  assumes "aead_correct cr" and "badger_backup_ok B"
  shows "backup_run cr B b d dir \<Longrightarrow> backups_inv cr B b d dir"
proof (induction rule: backup_run.induct)
  case (start d)
  have "\<not> v \<le> 0" if "bk_latest B d k = Some (v, x)" for k v x
    using versions_positive [OF assms(2) that] by simp
  moreover have "dir_since [] 0" by (auto simp: dir_since_def LoadVersionInfo_def split: option.splits)
  ultimately show ?case by (auto simp: backups_inv_def dir_below_def plain_in_def)
next
  case (commit d dir d')
  then show ?case using backups_inv_commit [OF assms(2)] by blast
next
  case (backup d dir io dir' r)
  show ?case
  proof (cases r)
    case None
    with backup backups_inv_Execute [OF assms backup.IH] show ?thesis by blast
  next
    case (Some e)
    with backup backups_inv_failed [OF backup.IH] show ?thesis by blast
  qed
qed

lemma load_all_readable:
  assumes "load_all (\<lambda>d f. loadEncryptedBackup cr B b (open_in dir) f d) fs d0 = Inr d" and "f \<in> set fs" and "is_backup_name f"
  shows "\<exists>p. plain_in cr (be_BackupEncryptionKey b) dir f p"
  using assms
  by (induction fs arbitrary: d0)
    (auto simp: loadEncryptedBackup_def bind_res_Inr open_in_def plain_in_def split: sum.splits option.splits)

lemma Restore_readable:
  assumes "RestoreAllBackupsEncrypted cr B b mkdir open_db close_err dir path key = Inr d"
  shows "readable cr (be_BackupEncryptionKey b) dir"
proof -
  obtain d0 where l: "load_all (\<lambda>d f. loadEncryptedBackup cr B b (open_in dir) f d) (SortedEncryptedBackups dir) d0 = Inr d"
    using assms by (auto simp: RestoreAllBackupsEncrypted_def split: option.splits sum.splits)
  then show ?thesis using load_all_readable [OF l] by (auto simp: readable_def sorted_backups)
qed

text \<open>
  (C8) Restoring the backups of a directory gives the node its database back, or fails: after any
  sequence of commits and backups, in which any write may have failed, and a last backup that returned
  without an error, a restore into an empty database that returns without an error gives the latest
  version of every key. It cannot succeed while a file is there that cannot be decrypted, such as the
  one that a failed write leaves behind, which nothing removes; a backup that returns without an error
  adds no such file. The name of each backup is new; a file that was written in part is neither a
  valid backup nor valid JSON.
\<close>

theorem backups_restore:
  assumes "aead_correct cr" and "badger_backup_ok B" and "backup_run cr B b d dir" and "new_file b io dir"
    and "Execute cr B b io d dir = (dir', None)"
    and "open_db path key = Inr d0" and "bk_latest B d0 = Map.empty"
  shows "(RestoreAllBackupsEncrypted cr B b mkdir open_db close_err dir' path key = Inr d' \<longrightarrow>
       bk_latest B d' = bk_latest B d \<and> readable cr (be_BackupEncryptionKey b) dir') \<and>
    (readable cr (be_BackupEncryptionKey b) dir \<longrightarrow> readable cr (be_BackupEncryptionKey b) dir')"
proof -
  have inv: "backups_inv cr B b d dir'" and all: "complete cr B b d dir'"
    and rd: "readable cr (be_BackupEncryptionKey b) dir \<longrightarrow> readable cr (be_BackupEncryptionKey b) dir'"
    using backups_inv_Execute [OF assms(1,2) backup_run_inv [OF assms(1-3)] assms(4,5)] by blast+
  show ?thesis
    using inv all rd restore_latest [OF assms(2), of cr b dir' "bk_latest B d" open_db path key d0] Restore_readable
      assms(6,7) by (auto simp: backups_inv_def complete_def)
qed

text \<open>A Badger with one key, whose state is the number of its commits.\<close>

definition counter_db :: "nat badger_db" where
  "counter_db =
     \<lparr>bk_Backup = (\<lambda>d since. if 2 ^ 64 \<le> d then Inl (ENew ''version out of range'')
        else if d = 0 \<or> d < unat since then Inr ([], since) else Inr (replicate d 0, word_of_nat d)),
      bk_Load = (\<lambda>d p. Inr (max d (length p))),
      bk_latest = (\<lambda>d k. if k = [1] \<and> 0 < d then Some (d, Some []) else None),
      bk_content = (\<lambda>p k. if k = [1] \<and> p \<noteq> [] then Some (length p, Some []) else None)\<rparr>"

lemma counter_db_ok: "badger_backup_ok counter_db"
  unfolding badger_backup_ok_def counter_db_def
  by (auto simp: fun_eq_iff merge_versions_def unat_of_nat max_def split: if_splits)

definition demo_executor :: badgerBackupExecutor where
  "demo_executor = \<lparr>be_NodeID = ''node0'', be_BackupEncryptionKey = replicate 32 0, be_BackupDir = ''./backups''\<rparr>"

definition demo_io :: backup_io where
  "demo_io = \<lparr>io_stamp = ''2025-01-01_00-00-00'', io_time = ''2025-01-01T00:00:00Z'', io_rand = Inr (replicate 12 0),
     io_read = None, io_create = None, io_write = (\<lambda>_. None), io_save = None\<rparr>"

lemma load_all_total: "(\<And>f d. f \<in> set fs \<Longrightarrow> \<exists>d'. load d f = Inr d') \<Longrightarrow> \<exists>d'. load_all load fs d = Inr d'"
proof (induction fs arbitrary: d)
  case (Cons f fs)
  obtain d1 where "load d f = Inr d1" using Cons.prems [of f d] by auto
  with Cons.IH [of d1] Cons.prems show ?case by auto
qed simp

lemma demo_Execute: "\<exists>dir. Execute demo_crypto counter_db demo_executor demo_io 3 [] = (dir, None)"
proof -
  have "length (json_Marshal (enc_BadgerBackupMeta (backup_meta demo_crypto (replicate 32 0) (replicate 12 0)
      ''2025-01-01T00:00:00Z'' 0 (word_of_nat 3)))) < 1000"
    by code_simp
  then show ?thesis
    by (simp add: Execute_def LoadVersionInfo_def demo_io_def demo_executor_def counter_db_def EncryptAESGCM_def
        aes_NewCipher_def write_backup_def write_parts_all Let_def)
qed

theorem backups_restore_witness:
  "\<exists>dir d'. Execute demo_crypto counter_db demo_executor demo_io 3 [] = (dir, None) \<and>
     RestoreAllBackupsEncrypted demo_crypto counter_db demo_executor (\<lambda>_. None) (\<lambda>_ _. Inr 0) None dir ''restored'' [] = Inr d' \<and>
     bk_latest counter_db d' = bk_latest counter_db 3"
proof -
  obtain dir where ex: "Execute demo_crypto counter_db demo_executor demo_io 3 [] = (dir, None)" using demo_Execute by blast
  have io: "new_file demo_executor demo_io []" by (simp add: new_file_def demo_executor_def demo_io_def)
  have empty: "bk_latest counter_db 0 = Map.empty" by (simp add: counter_db_def fun_eq_iff)
  let ?open = "\<lambda>(p :: string) (k :: bytes). Inr 0 :: nat res"
  have opened: "?open ''restored'' [] = Inr 0" by simp
  note facts = backups_restore [where open_db = "?open", OF demo_aead counter_db_ok backup_run.start io ex opened empty]
  have "\<exists>d'. loadEncryptedBackup demo_crypto counter_db demo_executor (open_in dir) f d = Inr d'"
    if "f \<in> set (SortedEncryptedBackups dir)" for f d
  proof -
    have "readable demo_crypto (be_BackupEncryptionKey demo_executor) []" by (simp add: readable_def SortedEncryptedBackups_def)
    with facts [THEN conjunct2] that obtain p where "plain_in demo_crypto (be_BackupEncryptionKey demo_executor) dir f p"
      by (auto simp: readable_def)
    then show ?thesis by (auto simp: plain_in_def loadEncryptedBackup_def open_in_def counter_db_def)
  qed
  then obtain d' where "RestoreAllBackupsEncrypted demo_crypto counter_db demo_executor (\<lambda>_. None) ?open None dir ''restored'' [] = Inr d'"
    using load_all_total [of "SortedEncryptedBackups dir" "\<lambda>d f. loadEncryptedBackup demo_crypto counter_db demo_executor (open_in dir) f d" 0]
    by (auto simp: RestoreAllBackupsEncrypted_def)
  with ex facts [THEN conjunct1, rule_format, OF this] show ?thesis by blast
qed

end
