(* ===== verification/Start_Properties.thy ===== *)
theory Start_Properties
  imports Node_Start Stream_Properties Backup_Properties
begin

text \<open>
  What the start of a node guarantees: where its files lie, how peers are registered, and that the
  node it creates satisfies the hypotheses under which the properties of registry, sessions and
  handlers are stated.
\<close>

section \<open>Small parts\<close>

lemma length_maskString [simp]: "length (maskString s) = length s"
proof -
  have "length s \<noteq> 0 \<Longrightarrow> length s \<noteq> 1 \<Longrightarrow> Suc (Suc (length s - 2)) = length s" by arith
  then show ?thesis by (auto simp: maskString_def)
qed

text \<open>A password that the prompt returns was entered twice in a row and is not empty.\<close>

lemma prompt_password_confirmed:
  "prompt_password ins = Some (Returns p) \<Longrightarrow> p \<noteq> [] \<and> (\<exists>pre post. ins = pre @ [Inr p, Inr p] @ post)"
proof (induction ins rule: prompt_password.induct)
  case (3 q ins)
  show ?case
  proof (cases "q = []")
    case True
    with 3 obtain pre post where "p \<noteq> []" "ins = pre @ [Inr p, Inr p] @ post" by auto
    then have "Inr q # ins = (Inr q # pre) @ [Inr p, Inr p] @ post" by simp
    with \<open>p \<noteq> []\<close> show ?thesis by blast
  next
    case False
    with 3(3) obtain c rest where ins: "ins = Inr c # rest" by (auto split: list.splits sum.splits)
    show ?thesis
    proof (cases "q = c")
      case True
      with 3(3) False ins have "Inr q # ins = [] @ [Inr p, Inr p] @ rest" "p \<noteq> []" by auto
      then show ?thesis by blast
    next
      case ne: False
      with 3(2) [OF False ins refl] 3(3) False ins obtain pre post where "p \<noteq> []" "rest = pre @ [Inr p, Inr p] @ post" by auto
      then have "Inr q # ins = (Inr q # Inr c # pre) @ [Inr p, Inr p] @ post" using ins by simp
      with \<open>p \<noteq> []\<close> show ?thesis by blast
    qed
  qed
qed simp_all

text \<open>Registering peers never replaces a key, and afterwards every peer of the file has one.\<close>

lemma SyncPeersToConsul_keeps:
  assumes "consul_ok kv"
  shows "SyncPeersToConsul kv ps c = (c', r) \<Longrightarrow> consul_Get kv c k = Inr (Some v) \<Longrightarrow> consul_Get kv c' k = Inr (Some v)"
proof (induction ps arbitrary: c)
  case (Cons p ps)
  let ?key = "PeersPrefix @ pe_Name p"
  show ?case
  proof (cases "consul_Get kv c ?key")
    case (Inr old)
    show ?thesis
    proof (cases old)
      case None
      show ?thesis
      proof (cases "consul_Put kv c ?key (go_bytes (pe_ID p))")
        case put: (Inr c1)
        have "k \<noteq> ?key" using Cons.prems(2) Inr None by auto
        then have "consul_Get kv c1 k = Inr (Some v)" using assms put Cons.prems(2) by (auto simp: consul_ok_def)
        then show ?thesis using Cons.IH [of c1] Cons.prems(1) Inr None put by simp
      qed (use Cons.prems Inr None in simp)
    qed (use Cons Inr in simp)
  qed (use Cons.prems in simp)
qed simp

lemma SyncPeersToConsul_registers:
  assumes "consul_ok kv"
  shows "SyncPeersToConsul kv ps c = (c', Inr ()) \<Longrightarrow> p \<in> set ps \<Longrightarrow>
    \<exists>v. consul_Get kv c' (PeersPrefix @ pe_Name p) = Inr (Some v)"
proof (induction ps arbitrary: c)
  case (Cons q ps)
  let ?key = "PeersPrefix @ pe_Name q"
  obtain c1 v where c1: "SyncPeersToConsul kv ps c1 = (c', Inr ())" "consul_Get kv c1 ?key = Inr (Some v)"
    using Cons.prems(1) assms by (auto simp: Let_def consul_ok_def split: sum.splits option.splits)
  show ?case
  proof (cases "p = q")
    case True
    with SyncPeersToConsul_keeps [OF assms c1] show ?thesis by blast
  qed (use Cons c1(1) in auto)
qed simp

lemma GetNodeID_find:
  "GetNodeID name ps \<noteq> [] \<Longrightarrow> \<exists>p. find (\<lambda>p. pe_Name p = name) ps = Some p \<and> GetNodeID name ps = pe_ID p"
  by (induction ps) auto

text \<open>The identity store knows exactly the identifiers of \<^verbatim>\<open>peers.json\<close>.\<close>

lemma load_identity_id: "load_identity F dir name i = Inr (j, key) \<Longrightarrow> j = i"
  by (auto simp: load_identity_def split: sum.splits if_splits)

lemma load_identities_dom:
  "load_identities F dir peers keys = Inr keys' \<Longrightarrow>
   dom (map_of keys') = dom (map_of keys) \<union> snd ` set peers \<and> (gomap_ok keys \<longrightarrow> gomap_ok keys')"
proof (induction peers arbitrary: keys)
  case (Cons a peers)
  obtain name i where a: "a = (name, i)" by (cases a)
  with Cons.prems obtain j key where l: "load_identity F dir name i = Inr (j, key)"
    "load_identities F dir peers (AList.update j key keys) = Inr keys'"
    by (auto split: sum.splits)
  with Cons.IH [OF l(2)] load_identity_id [OF l(1)] a show ?case by auto
qed simp

text \<open>A key that the store reads lies in its directory.\<close>

lemma private_key_inside:
  assumes "fl_Getwd F = Inr wd" and "is_rooted wd" and "dir \<noteq> []" and "loadPrivateKey F A dir name decrypt ageFile = Inr k"
  shows "\<exists>p a b q. path_Abs (Inr wd) dir = Inr a \<and> path_Abs (Inr wd) p = Inr b \<and> clean_parts b = clean_parts a @ q \<and>
    ''..'' \<notin> set q \<and> fl_Stat F p = None \<and> (\<exists>c. fl_ReadFile F p = Inr c)"
proof -
  from assms(1,4) obtain e u where e: "SafePath (Inr wd) dir (name @ ''_private.key.age'') = Inr e"
    and u: "SafePath (Inr wd) dir (name @ ''_private.key'') = Inr u"
    by (auto simp: loadPrivateKey_def split: sum.splits)
  have "fl_Stat F (if decrypt then e else u) = None \<and> (\<exists>c. fl_ReadFile F (if decrypt then e else u) = Inr c)"
    using assms(1,4) e u
    by (auto simp: loadPrivateKey_def decrypt_key_def split: if_splits option.splits sum.splits)
  moreover from SafePath_inside [OF assms(2,3) e] SafePath_inside [OF assms(2,3) u] obtain a b q where
    "path_Abs (Inr wd) dir = Inr a" "path_Abs (Inr wd) (if decrypt then e else u) = Inr b" "clean_parts b = clean_parts a @ q" "''..'' \<notin> set q"
    by (cases decrypt) auto
  ultimately show ?thesis by blast
qed

section \<open>Configuration\<close>

text \<open>The masked text depends on nothing of a secret but its length.\<close>

definition same_but_secrets :: "AppConfig \<Rightarrow> AppConfig \<Rightarrow> bool" where
  "same_but_secrets c d \<longleftrightarrow>
     (\<exists>a b p t q. length p = length (ap_BadgerPassword c) \<and> ap_Consul c = Some a \<and> ap_NATs c = Some b \<and>
        length t = length (co_Token a) \<and> length q = length (co_Password a) \<and>
        (\<exists>n. length n = length (na_Password b) \<and>
          d = c\<lparr>ap_BadgerPassword := p, ap_Consul := Some (a\<lparr>co_Password := q, co_Token := t\<rparr>),
                ap_NATs := Some (b\<lparr>na_Password := n\<rparr>)\<rparr>))"

lemma mask_hides: "same_but_secrets c d \<Longrightarrow> map_outcome fst (MarshalJSONMask c) = map_outcome fst (MarshalJSONMask d)"
  by (auto simp: same_but_secrets_def MarshalJSONMask_def stars_def Let_def)

text \<open>But the live configuration has lost the credentials of Consul and NATS afterwards.\<close>

lemma mask_overwrites:
  "MarshalJSONMask c = Returns (text, c') \<Longrightarrow>
   (\<exists>a b. ap_Consul c' = Some a \<and> ap_NATs c' = Some b \<and> set (co_Token a @ co_Password a @ na_Password b) \<subseteq> {CHR ''*''}) \<and>
   ap_BadgerPassword c' = ap_BadgerPassword c"
  by (auto simp: MarshalJSONMask_def stars_def Let_def split: option.splits)

text \<open>Credentials leave the node only in production.\<close>

lemma nats_credentials:
  "GetNATSConnection (\<lambda>url opts. if UserInfo u p \<in> set opts then r else r') env c = Returns r \<Longrightarrow> r \<noteq> r' \<Longrightarrow>
   env = EnvProduction \<and> (\<exists>n. ap_NATs c = Some n \<and> u = na_Username n \<and> p = na_Password n)"
  by (auto simp: GetNATSConnection_def nats_base_options_def nats_tls_options_def Let_def split: option.splits if_splits)

section \<open>Background backups\<close>

text \<open>Ticks of a database that only advances, where a write that fails leaves a file that cannot be decrypted.\<close>

fun ticks_ok :: "'k crypto \<Rightarrow> 'd badger_db \<Rightarrow> badgerBackupExecutor \<Rightarrow> 'd backup_event list \<Rightarrow> 'd \<Rightarrow> backup_dir \<Rightarrow> bool" where
  "ticks_ok cr B b (BackupTick io d' # evs) d dir \<longleftrightarrow>
     advances (bk_latest B d) (bk_latest B d') \<and> new_file b io dir \<and>
     (snd (Execute cr B b io d' dir) = None \<or>
      left_broken cr (be_BackupEncryptionKey b) dir (fst (Execute cr B b io d' dir))) \<and>
     ticks_ok cr B b evs d' (fst (Execute cr B b io d' dir))"
| "ticks_ok cr B b evs d dir \<longleftrightarrow> True"

text \<open>
  The job is a run in the sense of \<open>Backup_Properties\<close>, so what it leaves can be restored; a failed
  backup does not end it.
\<close>

lemma periodic_backup_run:
  "backup_run cr B b d dir \<Longrightarrow> ticks_ok cr B b evs d dir \<Longrightarrow> StartPeriodicBackup cr B b evs dir = (dir', rs, stopped) \<Longrightarrow>
   \<exists>d'. backup_run cr B b d' dir'"
proof (induction evs arbitrary: d dir rs)
  case (Cons e evs)
  show ?case
  proof (cases e)
    case (BackupTick io d1)
    obtain dir1 r where x: "Execute cr B b io d1 dir = (dir1, r)" by (cases "Execute cr B b io d1 dir")
    with Cons.prems(3) BackupTick obtain rs' where rest: "StartPeriodicBackup cr B b evs dir1 = (dir', rs', stopped)"
      by (auto split: prod.splits)
    have ok: "advances (bk_latest B d) (bk_latest B d1)" "new_file b io dir"
      "r = None \<or> left_broken cr (be_BackupEncryptionKey b) dir dir1"
      using Cons.prems(2) BackupTick x by simp_all
    have "backup_run cr B b d1 dir1"
      by (rule backup_run.backup [OF backup_run.commit [OF Cons.prems(1) ok(1)] ok(2) x ok(3)])
    then show ?thesis by (rule Cons.IH [OF _ _ rest]) (use Cons.prems(2) BackupTick x in simp)
  qed (use Cons.prems in auto)
qed auto

lemma periodic_backup_ticks:
  "BackupDone \<notin> set evs \<Longrightarrow> StartPeriodicBackup cr B b evs dir = (dir', rs, stopped) \<Longrightarrow> length rs = length evs \<and> \<not> stopped"
proof (induction evs arbitrary: dir rs)
  case (Cons e evs)
  then show ?case by (cases e) (auto split: prod.splits)
qed auto

section \<open>Chains that succeed\<close>

lemma boot_bind_Going:
  "boot_bind m f = (t, Going b) \<longleftrightarrow> (\<exists>t1 a t2. m = (t1, Going a) \<and> f a = (t2, Going b) \<and> t = t1 @ t2)"
  by (auto simp: boot_bind_def split: prod.splits boot_end.splits)

lemma boot_atoms [simp]:
  "boot_return a = (t, Going b) \<longleftrightarrow> t = [] \<and> a = b"
  "did s = (t, Going u) \<longleftrightarrow> t = [s]"
  "or_fatal msg r = (t, Going b) \<longleftrightarrow> t = [] \<and> r = Inr b"
  "of_outcome x = (t, Going b) \<longleftrightarrow> t = [] \<and> x = Returns b"
  "nats_boot y = (t, Going b) \<longleftrightarrow> t = [NatsAsked (snd y)] \<and> fst y = Going b"
  by (auto simp: boot_return_def did_def or_fatal_def of_outcome_def nats_boot_def split: sum.splits outcome.splits)

lemma or_fatal_out_Going [simp]: "or_fatal_out msg r = (t, Going b) \<longleftrightarrow> t = [] \<and> r = Returns (Inr b)"
  by (auto simp: or_fatal_out_def boot_bind_Going)

lemma boot_bindE:
  assumes "boot_bind m f = (t, Going b)"
  obtains t1 a t2 where "m = (t1, Going a)" "f a = (t2, Going b)" "t = t1 @ t2"
  using assms unfolding boot_bind_Going by blast

lemmas boot_going = boot_bind_Going boot_atoms or_fatal_out_Going

text \<open>Steps before the node exists.\<close>

fun early :: "boot_step \<Rightarrow> bool" where
  "early NodeCreated = False"
| "early (RequestsSubscribed ts) = False"
| "early (TimeoutsSubscribed b) = False"
| "early (PeerReady b) = False"
| "early (HealthServed a) = False"
| "early StreamsConsumed = False"
| "early _ = True"

lemma early_passwords: "read_passwords env flags v0 = (t, Going v) \<Longrightarrow> list_all early t"
  by (auto simp: read_passwords_def boot_going split: if_splits sum.splits option.splits outcome.splits prod.splits)

lemma early_sync:
  assumes "sync_peers env flags c = (t, Going c')"
  shows "list_all early t"
proof (cases "sf_peers flags = []")
  case False
  with assms obtain ps where
    "(case SyncPeersToConsul (bt_kv env) ps c of (c', Inl e) \<Rightarrow> ([], Fatal ''Failed to sync peers to Consul'')
      | (c', Inr u) \<Rightarrow> ([PeersSynced], Going c')) = (t, Going c')"
    by (auto simp: sync_peers_def boot_going)
  then show ?thesis by (cases "SyncPeersToConsul (bt_kv env) ps c") (auto split: sum.splits)
qed (use assms in \<open>simp add: sync_peers_def\<close>)

lemma early_load: "load_peers env c = (t, Going ps) \<Longrightarrow> list_all early t"
  by (auto simp: load_peers_def boot_going)

lemma early_store: "NewBadgerKV env v name cfg = (t, Going kvs) \<Longrightarrow> list_all early t"
  by (auto simp: NewBadgerKV_def boot_going Let_def)

lemma early_backups: "start_backups env = (t, Going u) \<Longrightarrow> list_all early t"
  by (auto simp: start_backups_def split: if_splits)

lemma early_messaging: "start_messaging env en ac = (t, Going p) \<Longrightarrow> list_all early t"
  by (auto simp: start_messaging_def boot_going boot_broker_def boot_out_def)

lemma runNode_parts:
  assumes "runNode env flags c0 = (trace, Going ec)"
  obtains viper c peers nodeID kvs store t1 t2 t3 where
    "checkRequiredConfigValues viper = Returns ()" "snd (sync_peers env flags c0) = Going c"
    "LoadPeersFromConsul (bt_list env c) PeersPrefix = Returns (Inr peers)"
    "GetIDFromName (sf_name flags) peers = Returns nodeID"
    "NewFileStore (bt_crypto env) (bt_files env) (bt_age env) viper (bt_auth env) ''identity'' (sf_name flags)
       (sf_decrypt flags) (sf_agePasswordFile flags) = Returns (Inr store)"
    "start_node env viper nodeID peers kvs c store = (t2, Going ec)"
    "start_consuming env viper nodeID = (t3, Going ())"
    "trace = t1 @ t2 @ t3" "list_all early t1"
proof -
  from assms show thesis
    unfolding runNode_def
  proof (elim boot_bindE, goal_cases)
    case (1 a0 v0 b0 a1 viper b1 a2 appConfig b2 a3 u3 b3 a4 u4 b4 a5 u5 b5 a6 u6 b6 a7 c b7 a8 peers b8 a9 nodeID b9
        a10 kvs b10 a11 u11 b11 a12 store b12 a13 u13 b13 a14 bs b14 a15 consumer b15 a16 u16 b16)
    show thesis
    proof (rule that)
      show "checkRequiredConfigValues viper = Returns ()" using 1 by simp
      show "snd (sync_peers env flags c0) = Going c" using 1 by simp
      show "LoadPeersFromConsul (bt_list env c) PeersPrefix = Returns (Inr peers)"
        using 1 by (auto simp: load_peers_def boot_going)
      show "GetIDFromName (sf_name flags) peers = Returns nodeID" using 1 by simp
      show "NewFileStore (bt_crypto env) (bt_files env) (bt_age env) viper (bt_auth env) ''identity'' (sf_name flags)
        (sf_decrypt flags) (sf_agePasswordFile flags) = Returns (Inr store)" using 1 by simp
      show "start_node env viper nodeID peers kvs c store = (a15, Going ec)" using 1 by simp
      show "start_consuming env viper nodeID = (a16, Going ())" using 1 by simp
      show "trace = (a1 @ [ConfigLoaded] @ [ConsulConnected] @ a7 @ a8 @ a10 @ a11 @ [IdentityLoaded] @ a14) @ a15 @ a16"
        using 1 by simp
      show "list_all early (a1 @ [ConfigLoaded] @ [ConsulConnected] @ a7 @ a8 @ a10 @ a11 @ [IdentityLoaded] @ a14)"
        using 1 by (simp add: early_passwords early_sync early_load early_store early_backups early_messaging)
    qed
  qed
qed

lemma start_node_Going:
  assumes "start_node env viper nodeID peers kvs c store = (t, Going ec)"
  shows "NewRegistry nodeID (GetPeerIDs peers) (bt_int env ''mpc_threshold'') store = Returns (nd_registry (ec_node ec))"
    and "nd_nodeID (ec_node ec) = nodeID" "nd_peerIDs (ec_node ec) = GetPeerIDs peers" "length (nd_ecdsaPreParams (ec_node ec)) = 2"
    and "\<exists>ckd. nd_ckd (ec_node ec) = Some ckd \<and> length (ckd_masterChainCode ckd) = 32"
    and "t = [NodeCreated, RequestsSubscribed [MPCGenerateEvent, MPCSignEvent, MPCReshareEvent]]"
  using assms
  by (auto simp: start_node_def boot_going NewNode_def NewEventConsumer_def Let_def NewCKDFromHex_def chainCodeLength_def
      consumer_Run_def generatePreParams_def bind_out_Returns split: if_splits sum.splits)

lemma NewFileStore_ok:
  assumes "NewFileStore cr F A viper auth dir name decrypt ageFile = Returns (Inr s)"
    and "\<And>ac. auth = Inr ac \<Longrightarrow> distinct (map fst (ac_AuthorizerPublicKeys ac))"
  shows "fresh_store s \<and> auth_ok cr s \<and> initiator_ok cr (fs_initiatorKey s) \<and>
    (\<exists>b peers. fl_ReadFile F ''peers.json'' = Inr b \<and> unmarshal_string_map b = Inr peers \<and>
       dom (map_of (fs_publicKeys s)) = snd ` set peers)"
proof -
  from assms(1) obtain ik b peers keys s0 where
    p: "loadInitiatorKeys cr viper = Inr ik" "fl_ReadFile F ''peers.json'' = Inr b" "unmarshal_string_map b = Inr peers"
      "load_identities F dir peers [] = Inr keys" "loadAuthorizationConfig cr auth s0 = Returns (Inr s)"
      "fs_publicKeys s0 = keys" "fs_initiatorKey s0 = ik" "fs_symmetricKeys s0 = []" "fs_cachedAuthorizerKeys s0 = []"
    unfolding NewFileStore_def by (auto split: option.splits sum.splits)
  from p(5) obtain ac where ac: "auth = Inr ac" by (auto simp: loadAuthorizationConfig_def split: sum.splits)
  have frame: "fs_publicKeys s = keys" "fs_initiatorKey s = ik" "fs_symmetricKeys s = []"
    using p(5-8) ac by (auto simp: loadAuthorizationConfig_def Let_def bind_out_Returns split: if_splits)
  have "auth_ok cr s" using loadAuthorizationConfig_auth_ok [OF p(5) [unfolded ac] assms(2) [OF ac] p(9)] by simp
  moreover have "gomap_ok keys" "dom (map_of keys) = snd ` set peers"
    using load_identities_dom [OF p(4)] by simp_all
  ultimately show ?thesis using frame p(2,3) loadInitiatorKeys_ok [OF p(1)]
    by (simp add: fresh_store_def fileStore_ok_def)
qed

lemma NewRegistry_nodeID: "NewRegistry n ps th s = Returns r \<Longrightarrow> rg_nodeID r = n"
  by (auto simp: NewRegistry_def split: if_splits)

text \<open>An identity store as the files describe it.\<close>

definition store_matches :: "'k crypto \<Rightarrow> files \<Rightarrow> 'k fileStore \<Rightarrow> bool" where
  "store_matches cr F store \<longleftrightarrow>
     fresh_store store \<and> auth_ok cr store \<and> initiator_ok cr (fs_initiatorKey store) \<and>
     (\<exists>b peers. fl_ReadFile F ''peers.json'' = Inr b \<and> unmarshal_string_map b = Inr peers \<and>
        dom (map_of (fs_publicKeys store)) = snd ` set peers)"

text \<open>The order of the steps that others can see.\<close>

definition start_order :: "boot_step list \<Rightarrow> bool" where
  "start_order trace \<longleftrightarrow>
     (\<exists>t h announced advised. list_all early t \<and> (h = [] \<or> (\<exists>a. h = [HealthServed a])) \<and>
        trace = t @ [NodeCreated, RequestsSubscribed [MPCGenerateEvent, MPCSignEvent, MPCReshareEvent],
          TimeoutsSubscribed advised, PeerReady announced] @ h @ [StreamsConsumed])"

text \<open>
  (C9) A node that has started is the one that the other properties speak of: its peers are those that
  Consul lists after the peers of the file, if one is given, were written there; its identifier is the
  one that this listing first gives for the name on the command line; its registry is new, its identity store is fresh, knows the
  nodes of \<^verbatim>\<open>peers.json\<close>, and holds valid initiator and authorizer keys; it has pre-parameters and a
  chain code of 32 bytes. It had subscribed to the three kinds of requests before it announced itself
  as ready, and announced itself before it consumed the streams.
\<close>

theorem started_node_sound:
  assumes "runNode env flags c0 = (trace, Going ec)"
    and "\<And>ac. bt_auth env = Inr ac \<Longrightarrow> distinct (map fst (ac_AuthorizerPublicKeys ac))"
  shows "start_order trace \<and> node_ok (ec_node ec) \<and> nd_nodeID (ec_node ec) \<noteq> [] \<and>
    (\<exists>c peers peer. snd (sync_peers env flags c0) = Going c \<and>
       LoadPeersFromConsul (bt_list env c) PeersPrefix = Returns (Inr peers) \<and> nd_peerIDs (ec_node ec) = map pe_ID peers \<and>
       find (\<lambda>p. pe_Name p = sf_name flags) peers = Some peer \<and> nd_nodeID (ec_node ec) = pe_ID peer) \<and>
    (\<exists>ckd. nd_ckd (ec_node ec) = Some ckd \<and> length (ckd_masterChainCode ckd) = 32) \<and>
    (\<exists>store. store_matches (bt_crypto env) (bt_files env) store \<and>
       NewRegistry (nd_nodeID (ec_node ec)) (nd_peerIDs (ec_node ec)) (bt_int env ''mpc_threshold'') store =
         Returns (nd_registry (ec_node ec)))"
proof -
  obtain viper c peers nodeID kvs store t1 t2 t3 where
    sync: "snd (sync_peers env flags c0) = Going c" and
    p: "LoadPeersFromConsul (bt_list env c) PeersPrefix = Returns (Inr peers)"
      "GetIDFromName (sf_name flags) peers = Returns nodeID"
      "NewFileStore (bt_crypto env) (bt_files env) (bt_age env) viper (bt_auth env) ''identity'' (sf_name flags)
       (sf_decrypt flags) (sf_agePasswordFile flags) = Returns (Inr store)"
      "start_node env viper nodeID peers kvs c store = (t2, Going ec)"
      "start_consuming env viper nodeID = (t3, Going ())" "trace = t1 @ t2 @ t3" "list_all early t1"
    using runNode_parts [OF assms(1)] by metis
  note n = start_node_Going [OF p(4)]
  have i: "nodeID \<noteq> []" "nodeID = GetNodeID (sf_name flags) peers"
    using p(2) by (auto simp: GetIDFromName_def Let_def split: if_splits)
  then obtain peer where peer: "find (\<lambda>p. pe_Name p = sf_name flags) peers = Some peer" "nodeID = pe_ID peer"
    using GetNodeID_find [of "sf_name flags" peers] by auto
  from NewFileStore_ok [OF p(3) assms(2)] obtain b ps where f: "fresh_store store" "auth_ok (bt_crypto env) store"
    "initiator_ok (bt_crypto env) (fs_initiatorKey store)" "fl_ReadFile (bt_files env) ''peers.json'' = Inr b"
    "unmarshal_string_map b = Inr ps" "dom (map_of (fs_publicKeys store)) = snd ` set ps" by blast
  from p(5) obtain h announced advised where t3: "h = [] \<or> (\<exists>a. h = [HealthServed a])"
    "t3 = [TimeoutsSubscribed advised, PeerReady announced] @ h @ [StreamsConsumed]"
    by (auto simp: start_consuming_def boot_going split: if_splits)
  have "start_order trace"
    unfolding start_order_def
    by (intro exI conjI) (rule p(7), rule t3(1), use p(6) n(6) t3(2) in simp)
  moreover have "store_matches (bt_crypto env) (bt_files env) store" using f unfolding store_matches_def by blast
  moreover have "node_ok (ec_node ec)"
    using NewRegistry_nodeID [OF n(1)] n(2,4) by (simp add: node_ok_def)
  moreover have "nd_nodeID (ec_node ec) \<noteq> []" "nd_nodeID (ec_node ec) = pe_ID peer" "nd_peerIDs (ec_node ec) = map pe_ID peers"
    using i(1) peer(2) n(2,3) by (simp_all add: GetPeerIDs_def)
  moreover have "NewRegistry (nd_nodeID (ec_node ec)) (nd_peerIDs (ec_node ec)) (bt_int env ''mpc_threshold'') store =
    Returns (nd_registry (ec_node ec))" using n(1-3) by simp
  ultimately show ?thesis using n(5) sync p(1) peer(1) by blast
qed

section \<open>A start\<close>

definition runs :: "'a boot \<Rightarrow> 'a \<Rightarrow> bool" where
  "runs m a \<longleftrightarrow> snd m = Going a"

lemma runs_bind: "runs m a \<Longrightarrow> runs (f a) b \<Longrightarrow> runs (boot_bind m f) b"
  by (cases m) (auto simp: runs_def boot_bind_def split: prod.splits boot_end.splits)

lemma runs_atoms [simp]:
  "runs (boot_return a) b \<longleftrightarrow> a = b"
  "runs (did s) u"
  "runs (or_fatal msg r) a \<longleftrightarrow> r = Inr a"
  "runs (of_outcome x) a \<longleftrightarrow> x = Returns a"
  "runs (nats_boot y) a \<longleftrightarrow> fst y = Going a"
  by (auto simp: runs_def boot_return_def did_def or_fatal_def of_outcome_def nats_boot_def split: sum.splits outcome.splits)

lemma runs_or_fatal_out [simp]: "x = Returns (Inr a) \<Longrightarrow> runs (or_fatal_out msg x) a"
  unfolding or_fatal_out_def by (rule runs_bind) simp_all

definition demo_peers_json :: json where
  "demo_peers_json = JObj [(''node0'', JStr ''alice'')]"

definition demo_identity_json :: json where
  "demo_identity_json = JObj [(''node_name'', JStr ''node0''), (''node_id'', JStr ''alice''),
     (''public_key'', JStr (hex_Encode (replicate 32 0))), (''created_at'', JStr ''2025'')]"

definition demo_files :: files where
  "demo_files = \<lparr>fl_Getwd = Inr ''/app'', fl_MkdirAll = (\<lambda>d. None), fl_Stat = (\<lambda>p. None),
     fl_ReadFile = (\<lambda>p. if p = ''peers.json'' then Inr (json_Marshal demo_peers_json)
        else if p = ''identity/node0_identity.json'' then Inr (json_Marshal demo_identity_json)
        else if p = ''identity/node0_private.key'' then Inr (go_bytes (hex_Encode (replicate 64 0)))
        else Inl (ENew ''no such file'')),
     fl_ReadPassword = Inl (ENew ''no terminal'')\<rparr>"

definition demo_age :: age where
  "demo_age = \<lparr>ag_NewScryptIdentity = (\<lambda>p. Inr ()), ag_Decrypt = (\<lambda>b p. Inr b), ag_ReadAll = Inr\<rparr>"

definition demo_viper :: "string \<Rightarrow> string" where
  "demo_viper k = (if k = ''badger_password'' then ''secret'' else if k = ''event_initiator_pubkey'' then hex_Encode (replicate 32 0)
     else if k = ''chain_code'' then hex_Encode (replicate 32 0) else [])"

definition demo_flags :: start_flags where
  "demo_flags = \<lparr>sf_name = ''node0'', sf_decrypt = False, sf_prompts = False, sf_passwordFile = [],
     sf_agePasswordFile = [], sf_peers = []\<rparr>"

definition demo_js :: jetstream where
  "demo_js = \<lparr>js_New = None, js_IsClosed = False, js_Stream = (\<lambda>c. None), js_Consumer = (\<lambda>s c. None),
     js_Publish = (\<lambda>m. None), js_Consume = (\<lambda>s. None)\<rparr>"

definition demo_nats :: NATsConfig where
  "demo_nats = \<lparr>na_URL = ''nats://localhost'', na_Username = [], na_Password = [], na_TLS = None\<rparr>"

definition demo_app :: AppConfig where
  "demo_app = \<lparr>ap_Consul = None, ap_NATs = Some demo_nats, ap_Environment = ''production'', ap_BadgerPassword = ''secret'', ap_ChainCodeHex = hex_Encode (replicate 32 0)\<rparr>"

definition demo_boot :: "(unit, bytes \<Rightarrow> bytes option, string \<Rightarrow> bytes option, unit) boot_env" where
  "demo_boot = \<lparr>bt_config = Inr demo_viper, bt_int = (\<lambda>k. 1), bt_bool = (\<lambda>k. True),
     bt_decode = (\<lambda>v. Inr \<lparr>ap_Consul = None, ap_NATs = Some demo_nats, ap_Environment = ''production'', ap_BadgerPassword = v ''badger_password'', ap_ChainCodeHex = v ''chain_code''\<rparr>),
     bt_auth = Inr demo_auth, bt_terminal = [], bt_files = demo_files, bt_age = demo_age, bt_mkdir = (\<lambda>d. None),
     bt_consulDefault = \<lparr>cf_Address = [], cf_Token = [], cf_HttpAuth = None, cf_WaitTime = 0\<rparr>, bt_newConsul = (\<lambda>c. Inr ()), bt_leader = Inr ''leader'',
     bt_kv = demo_consul, bt_list = (\<lambda>c p. Inr [(p @ ''node0'', go_bytes ''alice'')]), bt_badger = demo_badger,
     bt_open = (\<lambda>p k. Inr Map.empty), bt_nats = (\<lambda>u opts. Inr ()), bt_js = demo_js, bt_crypto = demo_crypto,
     bt_encPreParams = (\<lambda>p. Inr []), bt_decPreParams = (\<lambda>b. Inr ()), bt_genPreParams = (\<lambda>i. Inr ()),
     bt_subscribe = (\<lambda>t. None), bt_ready = (\<lambda>i. Inr ())\<rparr>"

lemma demo_paths [simp]:
  "SafePath (Inr ''/app'') ''identity'' ''node0_identity.json'' = Inr ''identity/node0_identity.json''"
  "SafePath (Inr ''/app'') ''identity'' ''node0_private.key'' = Inr ''identity/node0_private.key''"
  "SafePath (Inr ''/app'') ''identity'' ''node0_private.key.age'' = Inr ''identity/node0_private.key.age''"
  by code_simp+

lemma demo_loaded_peers: "unmarshal_string_map (json_Marshal demo_peers_json) = Inr [(''node0'', ''alice'')]"
proof -
  have "json_parse (go_string (json_Marshal demo_peers_json)) = Some demo_peers_json"
    by (simp only: json_Marshal_def go_string_go_bytes) (rule json_parse_render, simp add: demo_peers_json_def)
  then show ?thesis by (simp add: unmarshal_string_map_def) (simp add: demo_peers_json_def dec_string_def)
qed

lemma demo_files_simps [simp]:
  "fl_Getwd demo_files = Inr ''/app''" "fl_MkdirAll demo_files d = None" "fl_Stat demo_files p = None"
  "fl_ReadFile demo_files ''peers.json'' = Inr (json_Marshal demo_peers_json)"
  "fl_ReadFile demo_files ''identity/node0_identity.json'' = Inr (json_Marshal demo_identity_json)"
  "fl_ReadFile demo_files ''identity/node0_private.key'' = Inr (go_bytes (hex_Encode (replicate 64 0)))"
  by (simp_all add: demo_files_def)

lemma demo_identity_fields [simp]:
  "find_field NodeIdentity_fields ''node_name'' = Some (set_string (\<lambda>s i. i\<lparr>id_NodeName := s\<rparr>))"
  "find_field NodeIdentity_fields ''node_id'' = Some (set_string (\<lambda>s i. i\<lparr>id_NodeID := s\<rparr>))"
  "find_field NodeIdentity_fields ''public_key'' = Some (set_string (\<lambda>s i. i\<lparr>id_PublicKey := s\<rparr>))"
  "find_field NodeIdentity_fields ''created_at'' = Some (set_string (\<lambda>s i. i\<lparr>id_CreatedAt := s\<rparr>))"
  by (simp_all add: NodeIdentity_fields_def to_lower_def lower_char_def)

lemma demo_loaded_identity: "load_identity demo_files ''identity'' ''node0'' ''alice'' = Inr (''alice'', replicate 32 0)"
proof -
  have "json_Unmarshal NodeIdentity_fields zero_NodeIdentity (json_Marshal demo_identity_json) =
      Inr \<lparr>id_NodeName = ''node0'', id_NodeID = ''alice'', id_PublicKey = hex_Encode (replicate 32 0), id_CreatedAt = ''2025''\<rparr>"
    by (simp add: demo_identity_json_def json_Unmarshal_Marshal zero_NodeIdentity_def set_string_def dec_string_def del: replicate.simps)
  then show ?thesis by (simp add: load_identity_def)
qed

lemma demo_initiator: "loadInitiatorKeys demo_crypto demo_viper =
    Inr \<lparr>ik_Algorithm = EventInitiatorKeyTypeEd25519, ik_Ed25519 = replicate 32 0, ik_P256 = None\<rparr>"
proof -
  have "hex_Encode (replicate 32 (0 :: byte)) \<noteq> []" by (simp add: hex_Encode_def)
  then have "loadEd25519InitiatorKey demo_viper = Inr (replicate 32 0)"
    by (simp add: loadEd25519InitiatorKey_def demo_viper_def ParseEd25519_hex Let_def)
  then show ?thesis
    by (simp add: loadInitiatorKeys_def slices_contains_def demo_viper_def KeyTypeEd25519_def EventInitiatorKeyTypeEd25519_def)
qed

lemma demo_authorizers: "\<exists>s'. loadAuthorizationConfig demo_crypto (Inr demo_auth) s = Returns (Inr s')"
  by (simp add: loadAuthorizationConfig_def demo_auth_def ParseEd25519_hex AlgorithmEd25519_def bind_out_def)

lemma demo_store_loads:
  "\<exists>s. NewFileStore demo_crypto demo_files demo_age demo_viper (Inr demo_auth) ''identity'' ''node0'' False [] = Returns (Inr s)"
  by (simp add: NewFileStore_def loadPrivateKey_def demo_loaded_peers demo_loaded_identity demo_initiator demo_authorizers)

lemma demo_boot_simps [simp]:
  "bt_config demo_boot = Inr demo_viper" "bt_int demo_boot k = 1" "bt_bool demo_boot k" "bt_auth demo_boot = Inr demo_auth"
  "bt_files demo_boot = demo_files" "bt_age demo_boot = demo_age" "bt_mkdir demo_boot d = None" "bt_newConsul demo_boot cf = Inr ()" "bt_leader demo_boot = Inr ''leader''" "bt_kv demo_boot = demo_consul"
  "bt_list demo_boot c p = Inr [(p @ ''node0'', go_bytes ''alice'')]" "bt_badger demo_boot = demo_badger"
  "bt_open demo_boot p b = Inr Map.empty" "bt_nats demo_boot u opts = Inr ()" "bt_js demo_boot = demo_js" "bt_crypto demo_boot = demo_crypto"
  "bt_subscribe demo_boot t = None"
  by (simp_all add: demo_boot_def)

lemma demo_config: "LoadConfig (bt_decode demo_boot) demo_viper =
    Returns demo_app"
  by (simp add: LoadConfig_def demo_boot_def validateEnvironment_def demo_viper_def demo_app_def)

lemma demo_required: "checkRequiredConfigValues demo_viper = Returns ()"
  by code_simp

lemma demo_peers: "runs (load_peers demo_boot c) [\<lparr>pe_ID = ''alice'', pe_Name = ''node0''\<rparr>]"
  unfolding load_peers_def by (rule runs_bind) (auto simp: LoadPeersFromConsul_def bind_out_def intro: runs_bind)

lemma start_kv: "runs (NewBadgerKV demo_boot demo_viper n demo_app) empty_kv"
  unfolding NewBadgerKV_def Let_def
  by (intro runs_bind) (auto simp: NewBadgerKVStore_def NewBadgerBackupExecutor_def empty_kv_def go_bytes_def demo_app_def Let_def)

lemma demo_messaging: "\<exists>b. runs (start_messaging demo_boot en demo_app) b"
  unfolding start_messaging_def boot_broker_def boot_out_def
  by (intro exI runs_bind)
     (auto simp: GetNATSConnection_def demo_app_def NewJetStreamBroker_def ensureStreamExists_def demo_js_def NewNATsMessageQueueManager_def NewMessageQueue_def Let_def)

lemma demo_ckd: "NewCKDFromHex (demo_viper ''chain_code'') = Inr \<lparr>ckd_masterChainCode = replicate 32 0\<rparr>"
  by (auto simp: NewCKDFromHex_def demo_viper_def chainCodeLength_def) (simp add: hex_Encode_def)

lemma start_made: "\<exists>node. NewNode demo_boot i ps empty_kv c reg ckd = Returns node"
  by (simp add: NewNode_def generatePreParams_def preParams_one_def demo_boot_def bind_out_def empty_kv_def Let_def split: option.splits)

lemma demo_started: "\<exists>ec. runs (start_node demo_boot demo_viper ''alice'' [\<lparr>pe_ID = ''alice'', pe_Name = ''node0''\<rparr>] empty_kv c s) ec"
proof -
  obtain reg where r: "NewRegistry ''alice'' [''alice''] 1 s = Returns reg" by (auto simp: NewRegistry_def)
  obtain node where n: "NewNode demo_boot ''alice'' [''alice''] empty_kv c reg \<lparr>ckd_masterChainCode = replicate 32 0\<rparr> = Returns node"
    using start_made by blast
  show ?thesis
    unfolding start_node_def
    by (intro exI runs_bind [where a = reg] runs_bind [where a = "\<lparr>ckd_masterChainCode = replicate 32 0\<rparr>"] runs_bind [where a = node]
        runs_bind [where a = "()"] runs_bind [where a = "[MPCGenerateEvent, MPCSignEvent, MPCReshareEvent]"])
      (use r n in \<open>auto simp: GetPeerIDs_def demo_ckd consumer_Run_def\<close>)
qed

lemma start_run: "\<exists>trace ec. runNode demo_boot demo_flags Map.empty = (trace, Going ec)"
proof -
  obtain store where s: "NewFileStore demo_crypto demo_files demo_age demo_viper (Inr demo_auth) ''identity'' ''node0'' False [] =
    Returns (Inr store)" using demo_store_loads by blast
  obtain bs where b: "runs (start_messaging demo_boot (demo_viper ''environment'') demo_app) bs" using demo_messaging by blast
  obtain ec where e: "runs (start_node demo_boot demo_viper ''alice'' [\<lparr>pe_ID = ''alice'', pe_Name = ''node0''\<rparr>] empty_kv Map.empty store) ec"
    using demo_started by blast
  have "runs (runNode demo_boot demo_flags Map.empty) ec"
    unfolding runNode_def
  proof (intro runs_bind)
    show "runs (or_fatal ''Fatal error config file: '' (bt_config demo_boot)) demo_viper" by simp
    show "runs (read_passwords demo_boot demo_flags demo_viper) demo_viper"
      unfolding read_passwords_def by (rule runs_bind) (simp_all add: demo_flags_def)
    show "runs (of_outcome (LoadConfig (bt_decode demo_boot) demo_viper))
      demo_app"
      by (simp add: demo_config)
    show "runs (of_outcome (checkRequiredConfigValues demo_viper)) ()" by (simp add: demo_required)
    show "runs (of_outcome (GetConsulClient (bt_newConsul demo_boot) (\<lambda>_. bt_leader demo_boot) (bt_consulDefault demo_boot)
      (demo_viper ''environment'') demo_viper)) ()" by (simp add: GetConsulClient_def)
    show "runs (sync_peers demo_boot demo_flags Map.empty) Map.empty" by (simp add: sync_peers_def demo_flags_def)
    show "runs (load_peers demo_boot Map.empty) [\<lparr>pe_ID = ''alice'', pe_Name = ''node0''\<rparr>]" by (rule demo_peers)
    show "runs (of_outcome (GetIDFromName (sf_name demo_flags) [\<lparr>pe_ID = ''alice'', pe_Name = ''node0''\<rparr>])) ''alice''"
      by (simp add: GetIDFromName_def demo_flags_def)
    show "runs (start_backups demo_boot) ()" by (simp add: start_backups_def)
    show "runs (start_messaging demo_boot (demo_viper ''environment'') demo_app) bs" by (rule b)
    show "runs (start_node demo_boot demo_viper ''alice'' [\<lparr>pe_ID = ''alice'', pe_Name = ''node0''\<rparr>] empty_kv Map.empty store) ec" by (rule e)
    show "runs (start_consuming demo_boot demo_viper ''alice'') ()"
      unfolding start_consuming_def by (intro runs_bind) simp_all
  qed (use s in \<open>simp_all add: demo_flags_def start_kv\<close>)
  then show ?thesis by (cases "runNode demo_boot demo_flags Map.empty") (auto simp: runs_def)
qed

theorem started_node_sound_witness:
  "\<exists>trace ec. runNode demo_boot demo_flags Map.empty = (trace, Going ec) \<and> start_order trace \<and> nd_nodeID (ec_node ec) = ''alice''"
proof -
  obtain trace ec where r: "runNode demo_boot demo_flags Map.empty = (trace, Going ec)" using start_run by blast
  have "distinct (map fst (ac_AuthorizerPublicKeys ac))" if "bt_auth demo_boot = Inr ac" for ac
    using that by (auto simp: demo_auth_def)
  note s = started_node_sound [OF r this]
  have "LoadPeersFromConsul (bt_list demo_boot c) PeersPrefix = Returns (Inr [\<lparr>pe_ID = ''alice'', pe_Name = ''node0''\<rparr>])" for c
    by (simp add: LoadPeersFromConsul_def bind_out_def)
  with s have "nd_nodeID (ec_node ec) = ''alice''" by (auto simp: demo_flags_def)
  with r s show ?thesis by blast
qed

end
