(* ===== verification/Signer_Properties.thy ===== *)
theory Signer_Properties
  imports Signers Instances
begin

text \<open>
  What an operator relies on: a node whose configuration holds the algorithm and public key that a signer
  reports accepts what the signer signs. The contract is the locale \<open>request_signer\<close>; both signers of
  the client satisfy it.
\<close>

section \<open>The contract of a signer\<close>

definition node_config :: "(string \<Rightarrow> string) \<Rightarrow> string \<Rightarrow> string \<Rightarrow> bool" where
  "node_config viper algorithm pk \<longleftrightarrow>
     viper ''event_initiator_algorithm'' = algorithm \<and> viper ''event_initiator_pubkey'' = pk"

locale request_signer =
  fixes cr :: "'k crypto"
    and ok :: "'s \<Rightarrow> bool"
    and sign :: "'s \<Rightarrow> bytes \<Rightarrow> bytes res outcome"
    and public :: "'s \<Rightarrow> string res"
    and algorithm :: "'s \<Rightarrow> string"
  assumes sign_returns: "ok s \<Longrightarrow> \<exists>r. sign s d = Returns r"
    and signed_valid: "ok s \<Longrightarrow> public s = Inr pk \<Longrightarrow> sign s d = Returns (Inr sig) \<Longrightarrow> node_config viper (algorithm s) pk \<Longrightarrow>
      \<exists>ik. loadInitiatorKeys cr viper = Inr ik \<and> initiator_valid cr ik d sig"
begin

lemma node_accepts:
  assumes "ok s" and "public s = Inr pk" and "sign s (Raw msg) = Returns (Inr sig)" and "node_config viper (algorithm s) pk"
    and "loadInitiatorKeys cr viper = Inr (fs_initiatorKey st)" and "sig_bytes (Sig msg) = sig"
  shows "VerifyInitiatorMessage cr st msg = Returns (Inr ())"
proof -
  have "initiator_valid cr (fs_initiatorKey st) (Raw msg) (sig_bytes (Sig msg))"
    using signed_valid [OF assms(1-4)] assms(5,6) by simp
  with VerifyInitiatorMessage_iff [OF loadInitiatorKeys_ok [OF assms(5)]] show ?thesis by auto
qed

end

section \<open>Laws of the primitives\<close>

text \<open>A key pair of Ed25519, and of ECDSA with the DER form of its public key.\<close>

definition private_keys_ok :: "'k crypto \<Rightarrow> ('k, 'p) private_keys \<Rightarrow> bool" where
  "private_keys_ok cr pr \<longleftrightarrow>
     (\<forall>seed. length seed = 32 \<longrightarrow> length (sg_NewKeyFromSeed pr seed) = 64 \<and>
        (\<forall>d. length (prim_Ed25519_Sign cr (sg_NewKeyFromSeed pr seed) d) = 64 \<and>
           prim_Ed25519_Verify cr (drop 32 (sg_NewKeyFromSeed pr seed)) d (prim_Ed25519_Sign cr (sg_NewKeyFromSeed pr seed) d))) \<and>
     (\<forall>p h s. sg_SignASN1 pr p h = Inr s \<longrightarrow> s \<noteq> [] \<and> prim_VerifyASN1 cr (sg_PublicKey pr p) h s) \<and>
     (\<forall>k b. sg_MarshalPKIX pr k = Inr b \<longrightarrow> b \<noteq> [] \<and> prim_ParsePKIX cr b = Some k)"

text \<open>KMS signs the SHA-256 digest of a raw message with the key whose public half it reports.\<close>

definition kms_ok :: "'k crypto \<Rightarrow> 'k kms \<Rightarrow> bool" where
  "kms_ok cr K \<longleftrightarrow>
     (\<forall>c i der k d s. km_GetPublicKey K c i = Inr der \<longrightarrow> km_ParsePKIX K der = Inr (Some k) \<longrightarrow> km_Sign K c i d = Inr s \<longrightarrow>
        s \<noteq> [] \<and> prim_VerifyASN1 cr k (prim_SHA256 cr d) s)"

section \<open>Public keys in the configuration\<close>

lemma hex_Encode_no_prefix: "trim_prefix (hex_Encode b) ''0x'' = hex_Encode b"
proof -
  have "\<not> prefix ''0x'' (hex_Encode b)"
  proof
    assume "prefix ''0x'' (hex_Encode b)"
    then obtain r where "hex_Encode b = CHR ''0'' # CHR ''x'' # r" by (auto simp: prefix_def)
    then have "\<exists>e. hex_Decode (hex_Encode b) = Inl e" by (simp add: hex_value.simps)
    then show False by simp
  qed
  then show ?thesis by (simp add: trim_prefix_def)
qed

lemma load_ed25519:
  assumes "node_config viper EventInitiatorKeyTypeEd25519 (hex_Encode k)" and "length k = 32"
  shows "loadInitiatorKeys cr viper = Inr \<lparr>ik_Algorithm = EventInitiatorKeyTypeEd25519, ik_Ed25519 = k, ik_P256 = None\<rparr>"
proof -
  have "hex_Encode k \<noteq> []" using assms(2) by (cases k) (auto simp: hex_Encode_def)
  with assms show ?thesis
    by (simp add: loadInitiatorKeys_def loadEd25519InitiatorKey_def node_config_def ParseEd25519_hex slices_contains_def Let_def
        EventInitiatorKeyTypeEd25519_def)
qed

lemma load_p256:
  assumes "node_config viper EventInitiatorKeyTypeP256 (hex_Encode b)" and "b \<noteq> []" and "prim_ParsePKIX cr b = Some k" and "prim_onP256 cr k"
  shows "loadInitiatorKeys cr viper = Inr \<lparr>ik_Algorithm = EventInitiatorKeyTypeP256, ik_Ed25519 = [], ik_P256 = Some k\<rparr>"
proof -
  have "hex_Encode b \<noteq> []" using assms(2) by (cases b) (auto simp: hex_Encode_def)
  moreover have "ParseP256PublicKeyFromHex cr (hex_Encode b) = Inr k"
    using assms(3,4) by (simp add: ParseP256PublicKeyFromHex_def hex_Encode_no_prefix ParseP256PublicKeyFromBytes_def)
  ultimately have "loadP256InitiatorKey cr viper = Inr k"
    using assms(1) by (simp add: loadP256InitiatorKey_def node_config_def Let_def)
  with assms(1) show ?thesis
    by (simp add: loadInitiatorKeys_def node_config_def slices_contains_def Let_def EventInitiatorKeyTypeP256_def
        EventInitiatorKeyTypeEd25519_def)
qed

lemma Marshal_P256:
  "MarshalP256PublicKey cr pr (Some k) = Inr b \<longleftrightarrow> sg_keyCurve pr k \<noteq> None \<and> prim_onP256 cr k \<and> sg_MarshalPKIX pr k = Inr b"
  by (auto simp: MarshalP256PublicKey_def ValidateP256PublicKey_def split: option.splits)

lemma SignWithP256_valid:
  assumes "private_keys_ok cr pr" and "SignWithP256 cr pr (Some p) d = Inr s"
  shows "s \<noteq> [] \<and> prim_VerifyASN1 cr (sg_PublicKey pr p) (prim_SHA256 cr d) s"
proof -
  from assms(2) have "sg_SignASN1 pr p (prim_SHA256 cr d) = Inr s"
    by (auto simp: SignWithP256_def split: if_splits sum.splits)
  with assms(1) show ?thesis unfolding private_keys_ok_def by blast
qed

lemma key_types_differ [simp]: "EventInitiatorKeyTypeP256 \<noteq> EventInitiatorKeyTypeEd25519" "EventInitiatorKeyTypeEd25519 \<noteq> EventInitiatorKeyTypeP256"
  by (simp_all add: EventInitiatorKeyTypeEd25519_def EventInitiatorKeyTypeP256_def)

lemma load_marshalled_p256:
  assumes "private_keys_ok cr pr" and "MarshalP256PublicKey cr pr (Some k) = Inr b" and "node_config viper EventInitiatorKeyTypeP256 (hex_Encode b)"
  shows "loadInitiatorKeys cr viper = Inr \<lparr>ik_Algorithm = EventInitiatorKeyTypeP256, ik_Ed25519 = [], ik_P256 = Some k\<rparr>"
proof -
  from assms(2) have k: "prim_onP256 cr k" and b: "sg_MarshalPKIX pr k = Inr b" by (simp_all add: Marshal_P256)
  from assms(1) have "\<forall>k b. sg_MarshalPKIX pr k = Inr b \<longrightarrow> b \<noteq> [] \<and> prim_ParsePKIX cr b = Some k"
    unfolding private_keys_ok_def by (elim conjE)
  with b have "b \<noteq> []" "prim_ParsePKIX cr b = Some k" by simp_all
  then show ?thesis by (rule load_p256 [OF assms(3) _ _ k])
qed

section \<open>The local signer\<close>

definition local_ok :: "('k, 'p) private_keys \<Rightarrow> 'p LocalSigner \<Rightarrow> bool" where
  "local_ok pr s \<longleftrightarrow>
     ls_keyType s = EventInitiatorKeyTypeEd25519 \<and> (\<exists>seed. length seed = 32 \<and> ls_ed25519Key s = Some (sg_NewKeyFromSeed pr seed)) \<or>
     ls_keyType s = EventInitiatorKeyTypeP256 \<and> (\<exists>p. ls_p256Key s = Some p)"

lemma wrap_out_Inr [simp]: "wrap_out m r = Returns (Inr a) \<longleftrightarrow> r = Returns (Inr a)"
proof (cases r)
  case (Returns x)
  then show ?thesis by (cases x) (simp_all add: wrap_out_def)
qed (simp add: wrap_out_def)

lemma loadEd25519Key_ok:
  "loadEd25519Key pr b s0 = Returns (Inr s) \<Longrightarrow> \<exists>seed. length seed = 32 \<and> s = s0\<lparr>ls_ed25519Key := Some (sg_NewKeyFromSeed pr seed)\<rparr>"
  by (auto simp: loadEd25519Key_def ed25519_NewKeyFromSeed_def bind_out_Returns split: sum.splits if_splits)

lemma loadP256Key_ok: "loadP256Key pr b s0 = Inr s \<Longrightarrow> \<exists>k. s = s0\<lparr>ls_p256Key := Some k\<rparr>"
  by (auto simp: loadP256Key_def split: sum.splits)

lemma NewLocalSigner_ok:
  assumes "NewLocalSigner pr F A keyType opts = Returns (Inr s)"
  shows "local_ok pr s \<and> ls_keyType s = keyType"
proof -
  from assms obtain b where "keyType = EventInitiatorKeyTypeEd25519 \<and>
      loadEd25519Key pr b \<lparr>ls_keyType = keyType, ls_ed25519Key = None, ls_p256Key = None\<rparr> = Returns (Inr s) \<or>
    keyType = EventInitiatorKeyTypeP256 \<and> loadP256Key pr b \<lparr>ls_keyType = keyType, ls_ed25519Key = None, ls_p256Key = None\<rparr> = Inr s"
    unfolding NewLocalSigner_def Let_def by (auto split: sum.splits if_splits)
  then show ?thesis by (auto simp: local_ok_def dest!: loadEd25519Key_ok loadP256Key_ok)
qed

lemma local_signed_valid:
  assumes "private_keys_ok cr pr" and "local_ok pr s" and "local_PublicKey cr pr s = Inr pk"
    and "local_Sign cr pr s d = Returns (Inr sig)" and "node_config viper (local_Algorithm s) pk"
  shows "\<exists>ik. loadInitiatorKeys cr viper = Inr ik \<and> initiator_valid cr ik d sig"
proof (cases "ls_keyType s = EventInitiatorKeyTypeEd25519")
  case True
  with assms(2) obtain seed where k: "length seed = 32" "ls_ed25519Key s = Some (sg_NewKeyFromSeed pr seed)"
    by (auto simp: local_ok_def)
  let ?key = "sg_NewKeyFromSeed pr seed"
  from assms(1) k(1) have key: "length ?key = 64" "length (prim_Ed25519_Sign cr ?key d) = 64"
    "prim_Ed25519_Verify cr (drop 32 ?key) d (prim_Ed25519_Sign cr ?key d)"
    unfolding private_keys_ok_def by blast+
  have "sig = prim_Ed25519_Sign cr ?key d" "pk = hex_Encode (drop 32 ?key)"
    using assms(3,4) True k(2) key(1) by (simp_all add: local_Sign_def local_PublicKey_def ed25519_Sign_def)
  moreover have "sig \<noteq> []" using key(2) calculation(1) by auto
  ultimately show ?thesis
    using load_ed25519 [of viper "drop 32 ?key" cr] assms(5) True key
    by (auto simp: local_Algorithm_def initiator_valid_def)
next
  case False
  with assms(2) obtain p where p: "ls_keyType s = EventInitiatorKeyTypeP256" "ls_p256Key s = Some p" by (auto simp: local_ok_def)
  from assms(3) p obtain b where b: "MarshalP256PublicKey cr pr (Some (sg_PublicKey pr p)) = Inr b" "pk = hex_Encode b"
    by (auto simp: local_PublicKey_def split: sum.splits)
  have "SignWithP256 cr pr (Some p) d = Inr sig" using assms(4) p by (simp add: local_Sign_def)
  note sig = SignWithP256_valid [OF assms(1) this]
  show ?thesis
    using load_marshalled_p256 [OF assms(1) b(1)] assms(5) b(2) p(1) sig by (auto simp: local_Algorithm_def initiator_valid_def)
qed

lemma local_Sign_returns: "private_keys_ok cr pr \<Longrightarrow> local_ok pr s \<Longrightarrow> \<exists>r. local_Sign cr pr s d = Returns r"
  by (auto simp: local_ok_def local_Sign_def private_keys_ok_def ed25519_Sign_def)

interpretation local_signer: request_signer cr "\<lambda>s. private_keys_ok cr pr \<and> local_ok pr s" "local_Sign cr pr" "local_PublicKey cr pr" local_Algorithm
  using local_Sign_returns local_signed_valid by unfold_locales blast+

section \<open>The signer of KMS\<close>

definition kms_signer_ok :: "'k crypto \<Rightarrow> 'k kms \<Rightarrow> 'k KMSSigner \<Rightarrow> bool" where
  "kms_signer_ok cr K s \<longleftrightarrow>
     kg_keyType s = EventInitiatorKeyTypeP256 \<and>
     (\<exists>der k. kg_publicKey s = Some k \<and> km_GetPublicKey K (kg_client s) (kg_keyID s) = Inr der \<and> km_ParsePKIX K der = Inr (Some k) \<and>
        prim_onP256 cr k)"

lemma NewKMSSigner_ok: "NewKMSSigner cr pr K keyType opts = Inr s \<Longrightarrow> kms_signer_ok cr K s \<and> kg_keyType s = keyType"
  by (auto simp: NewKMSSigner_def kms_signer_ok_def loadPublicKey_def ValidateP256PublicKey_def Let_def
      split: sum.splits if_splits option.splits)

lemma kms_signed_valid:
  assumes "private_keys_ok cr pr" and "kms_ok cr K" and "kms_signer_ok cr K s" and "kms_PublicKey cr pr s = Inr pk"
    and "kms_Sign K s d = Inr sig" and "node_config viper (kms_Algorithm s) pk"
  shows "\<exists>ik. loadInitiatorKeys cr viper = Inr ik \<and> initiator_valid cr ik d sig"
proof -
  from assms(3) obtain der k where k: "kg_keyType s = EventInitiatorKeyTypeP256" "kg_publicKey s = Some k"
    "km_GetPublicKey K (kg_client s) (kg_keyID s) = Inr der" "km_ParsePKIX K der = Inr (Some k)"
    by (auto simp: kms_signer_ok_def)
  from assms(4) k(2) obtain b where b: "MarshalP256PublicKey cr pr (Some k) = Inr b" "pk = hex_Encode b"
    by (auto simp: kms_PublicKey_def split: sum.splits)
  have "km_Sign K (kg_client s) (kg_keyID s) d = Inr sig" using assms(5) by (auto simp: kms_Sign_def split: sum.splits)
  with assms(2) k(3,4) have "sig \<noteq> []" "prim_VerifyASN1 cr k (prim_SHA256 cr d) sig" unfolding kms_ok_def by blast+
  then show ?thesis
    using load_marshalled_p256 [OF assms(1) b(1)] assms(6) b(2) k(1) by (auto simp: kms_Algorithm_def initiator_valid_def)
qed

interpretation kms_signer: request_signer cr "\<lambda>s. private_keys_ok cr pr \<and> kms_ok cr K \<and> kms_signer_ok cr K s"
  "\<lambda>s d. Returns (kms_Sign K s d)" "kms_PublicKey cr pr" kms_Algorithm
  using kms_signed_valid by unfold_locales auto

section \<open>Accepted requests\<close>

text \<open>
  (C10) What a signer of the client signs, the nodes accept: when a node has loaded its initiator key from
  the algorithm and public key that the signer reports, every message with a signature of that signer
  passes the check of the node; this holds for key files of both algorithms and for AWS KMS, and a local
  signer never crashes.
\<close>

theorem signer_accepted:
  assumes "private_keys_ok cr pr" and "kms_ok cr K"
    and "loadInitiatorKeys cr viper = Inr (fs_initiatorKey st)"
  shows "(NewLocalSigner pr F A keyType opts = Returns (Inr s) \<longrightarrow>
      (\<exists>r. local_Sign cr pr s (Raw msg) = Returns r) \<and>
      (\<forall>pk. local_PublicKey cr pr s = Inr pk \<longrightarrow> node_config viper keyType pk \<longrightarrow>
         local_Sign cr pr s (Raw msg) = Returns (Inr (sig_bytes (Sig msg))) \<longrightarrow> VerifyInitiatorMessage cr st msg = Returns (Inr ()))) \<and>
    (NewKMSSigner cr pr K keyType kopts = Inr ks \<longrightarrow>
      (\<forall>pk. kms_PublicKey cr pr ks = Inr pk \<longrightarrow> node_config viper keyType pk \<longrightarrow>
         kms_Sign K ks (Raw msg) = Inr (sig_bytes (Sig msg)) \<longrightarrow> VerifyInitiatorMessage cr st msg = Returns (Inr ())))"
proof (intro conjI impI allI)
  assume "NewLocalSigner pr F A keyType opts = Returns (Inr s)"
  from NewLocalSigner_ok [OF this] have s: "private_keys_ok cr pr \<and> local_ok pr s" and t: "local_Algorithm s = keyType"
    using assms(1) by (simp_all add: local_Algorithm_def)
  show "\<exists>r. local_Sign cr pr s (Raw msg) = Returns r" using local_signer.sign_returns [OF s] .
  show "VerifyInitiatorMessage cr st msg = Returns (Inr ())"
    if "local_PublicKey cr pr s = Inr pk" "node_config viper keyType pk" "local_Sign cr pr s (Raw msg) = Returns (Inr (sig_bytes (Sig msg)))" for pk
    using local_signer.node_accepts [OF s that(1,3) _ assms(3) refl] that(2) t by blast
next
  fix pk
  assume new: "NewKMSSigner cr pr K keyType kopts = Inr ks" and p: "kms_PublicKey cr pr ks = Inr pk" "node_config viper keyType pk"
    "kms_Sign K ks (Raw msg) = Inr (sig_bytes (Sig msg))"
  from NewKMSSigner_ok [OF new] have s: "private_keys_ok cr pr \<and> kms_ok cr K \<and> kms_signer_ok cr K ks"
    and t: "kms_Algorithm ks = keyType"
    using assms(1,2) by (simp_all add: kms_Algorithm_def)
  show "VerifyInitiatorMessage cr st msg = Returns (Inr ())"
    using kms_signer.node_accepts [OF s p(1) _ _ assms(3) refl] p(2,3) t by auto
qed

section \<open>A key file\<close>

definition signer_keys :: "(unit, unit) private_keys" where
  "signer_keys = \<lparr>sg_NewKeyFromSeed = (\<lambda>s. s @ s), sg_ParsePKCS8 = (\<lambda>b. None), sg_ParseEC = (\<lambda>b. Some ()), sg_hasCurve = (\<lambda>p. True),
     sg_SignASN1 = (\<lambda>p h. if h = [] then Inl (ENew ''empty digest'') else Inr h), sg_PublicKey = (\<lambda>p. ()), sg_keyCurve = (\<lambda>k. Some ''P-256''),
     sg_MarshalPKIX = (\<lambda>k. Inr [48]), sg_MarshalEC = (\<lambda>p. Inr [48]), sg_GenerateP256 = Inr (), sg_GenerateEd25519 = Inr (replicate 64 0)\<rparr>"

lemma signer_keys_ok: "private_keys_ok demo_crypto signer_keys"
  by (simp add: private_keys_ok_def signer_keys_def) (simp add: demo_crypto_def)

definition demo_kms :: "unit kms" where
  "demo_kms = \<lparr>km_LoadConfig = (\<lambda>r c. Inr ()), km_GetPublicKey = (\<lambda>c i. Inr []), km_ParsePKIX = (\<lambda>b. Inr (Some ())),
     km_Sign = (\<lambda>c i d. if d = [] then Inl (ENew ''empty message'') else Inr d)\<rparr>"

lemma demo_kms_ok: "kms_ok demo_crypto demo_kms"
  by (simp add: kms_ok_def demo_kms_def demo_crypto_def)

definition demo_key_files :: files where
  "demo_key_files = \<lparr>fl_Getwd = Inr ''/app'', fl_MkdirAll = (\<lambda>d. None), fl_Stat = (\<lambda>p. None),
     fl_ReadFile = (\<lambda>p. Inr (go_bytes (hex_Encode (replicate 32 0)))), fl_ReadPassword = Inl (ENew ''no terminal'')\<rparr>"

definition plain_age :: age where
  "plain_age = \<lparr>ag_NewScryptIdentity = (\<lambda>p. Inr ()), ag_Decrypt = (\<lambda>b p. Inr b), ag_ReadAll = Inr\<rparr>"

definition demo_local :: "unit LocalSigner" where
  "demo_local = \<lparr>ls_keyType = EventInitiatorKeyTypeEd25519, ls_ed25519Key = Some (replicate 32 0 @ replicate 32 0), ls_p256Key = None\<rparr>"

definition demo_signer_options :: LocalSignerOptions where
  "demo_signer_options = \<lparr>lo_KeyPath = ''initiator.key'', lo_Encrypted = False, lo_Password = []\<rparr>"

lemma trim_hex_zeros: "trim_space (hex_Encode (replicate 32 0)) = hex_Encode (replicate 32 0)"
  by code_simp

lemma demo_signer_loads:
  "NewLocalSigner signer_keys demo_key_files plain_age EventInitiatorKeyTypeEd25519 demo_signer_options = Returns (Inr demo_local)"
  by (simp add: NewLocalSigner_def demo_signer_options_def readKeyFile_def demo_key_files_def loadEd25519Key_def trim_hex_zeros
      ed25519_NewKeyFromSeed_def signer_keys_def demo_local_def Let_def suffix_def)

definition signed_request :: GenerateKeyMessage where
  "signed_request = \<lparr>gk_WalletID = ''wallet'', gk_Signature = None, gk_AuthorizerSignatures = []\<rparr>"

definition demo_viper_key :: "string \<Rightarrow> string" where
  "demo_viper_key k = (if k = ''event_initiator_algorithm'' then EventInitiatorKeyTypeEd25519 else hex_Encode (replicate 32 0))"

theorem signer_accepted_witness:
  "\<exists>s sig. NewLocalSigner signer_keys demo_key_files plain_age EventInitiatorKeyTypeEd25519 demo_signer_options = Returns (Inr s) \<and>
     local_Sign demo_crypto signer_keys s (Raw (GenerateKey signed_request)) = Returns (Inr sig) \<and>
     VerifyInitiatorMessage demo_crypto (demo_store ''alice'') (GenerateKey (signed_request\<lparr>gk_Signature := Some sig\<rparr>)) = Returns (Inr ())"
proof -
  let ?sig = "demo_sign (Raw (GenerateKey signed_request))"
  let ?msg = "GenerateKey (signed_request\<lparr>gk_Signature := Some ?sig\<rparr>)"
  have cfg: "node_config demo_viper_key EventInitiatorKeyTypeEd25519 (hex_Encode (replicate 32 0))"
    by (simp add: node_config_def demo_viper_key_def)
  have load: "loadInitiatorKeys demo_crypto demo_viper_key = Inr (fs_initiatorKey (demo_store ''alice''))"
    using load_ed25519 [OF cfg] by (simp add: demo_store_def EventInitiatorKeyTypeEd25519_def)
  have pk: "local_PublicKey demo_crypto signer_keys demo_local = Inr (hex_Encode (replicate 32 0))"
    by (simp add: local_PublicKey_def demo_local_def)
  have sign: "local_Sign demo_crypto signer_keys demo_local (Raw ?msg) = Returns (Inr (sig_bytes (Sig ?msg)))"
    by (simp add: local_Sign_def demo_local_def ed25519_Sign_def sig_bytes_def)
  from signer_accepted [OF signer_keys_ok demo_kms_ok load] demo_signer_loads pk cfg sign
  have "VerifyInitiatorMessage demo_crypto (demo_store ''alice'') ?msg = Returns (Inr ())" by blast
  then show ?thesis using demo_signer_loads sign by (auto simp: sig_bytes_def)
qed

end
