(* ===== verification/Provisioning_Properties.thy ===== *)
theory Provisioning_Properties
  imports Provisioning Start_Properties Signer_Properties
begin

text \<open>
  What the commands leave behind is what nodes read: the files of a generated identity load, generated
  peers decode, registered peers are those of the file, and a recovered database is the one backed up.
\<close>

section \<open>Indented JSON parses\<close>

lemma skip_ws_idem [simp]: "skip_ws (skip_ws s) = skip_ws s"
  unfolding skip_ws_def by (induction s) simp_all

lemma parse_members_skip: "parse_members n (skip_ws s) = parse_members n s"
  by (cases n) simp_all

lemma skip_ws_Cons: "skip_ws (c # s) = (if is_json_ws c then skip_ws s else c # s)"
  by (simp add: skip_ws_def)

lemma parse_quoted: "parse_value (Suc n) (CHR '' '' # json_quote v @ r) = Some (JStr v, r)"
  by (simp add: skip_ws_Cons is_json_ws_def json_quote_def parse_string_quote)

lemma parse_member_more:
  "parse_members (Suc (Suc p)) (indent_member (k, v) @ CHR '','' # t) = map_option (\<lambda>(ms, w). ((k, JStr v) # ms, w)) (parse_members (Suc p) t)"
proof -
  have "parse_members (Suc n) (indent_member (k, v) @ CHR '','' # t) =
      (case parse_value n (CHR '' '' # json_quote v @ CHR '','' # t) of
         None \<Rightarrow> None
       | Some (w, r) \<Rightarrow>
           (case skip_ws r of
              [] \<Rightarrow> None
            | d # u \<Rightarrow> if d = CHR ''}'' then Some ([(k, w)], u)
                       else if d = CHR '','' then map_option (\<lambda>(ms, x). ((k, w) # ms, x)) (parse_members n u) else None))" for n
    by (simp add: indent_member_def skip_ws_Cons is_json_ws_def json_quote_def parse_string_quote)
  from this [of "Suc p"] show ?thesis
    by (simp only: parse_quoted option.case prod.case) (simp only: skip_ws_Cons is_json_ws_def, simp del: parse_members.simps)
qed

lemma parse_member_last:
  "parse_members (Suc (Suc p)) (indent_member (k, v) @ CHR 0x0A # CHR ''}'' # r) = Some ([(k, JStr v)], r)"
  by (simp add: indent_member_def skip_ws_Cons is_json_ws_def json_quote_def parse_string_quote)

lemma parse_indented:
  "ms \<noteq> [] \<Longrightarrow> Suc (length ms) \<le> n \<Longrightarrow>
   parse_members n (str_join (map indent_member ms) '','' @ CHR 0x0A # CHR ''}'' # r) = Some (map (\<lambda>(k, v). (k, JStr v)) ms, r)"
proof (induction ms arbitrary: n)
  case (Cons m ms)
  obtain k v where m: "m = (k, v)" by (cases m)
  from Cons.prems(2) obtain p where n: "n = Suc (Suc p)" "length ms \<le> p" by (cases n; cases "n - 1") auto
  show ?case
  proof (cases "ms = []")
    case True
    with parse_member_last [of p k v r] n m show ?thesis by (simp del: parse_members.simps)
  next
    case False
    with Cons.IH [OF False, of "Suc p"] n m show ?thesis
      by (simp add: str_join_Cons parse_member_more del: parse_members.simps)
  qed
qed simp

lemma length_indented: "length ms \<le> length (str_join (map indent_member ms) '','')"
proof (induction ms)
  case (Cons m ms)
  then show ?case by (cases ms) (auto simp: indent_member_def)
qed simp

lemma json_parse_MarshalIndent:
  assumes "ms \<noteq> []"
  shows "json_parse (go_string (json_MarshalIndent ms)) = Some (JObj (map (\<lambda>(k, v). (k, JStr v)) ms))"
proof -
  let ?t = "str_join (map indent_member ms) '','' @ CHR 0x0A # CHR ''}'' # []"
  obtain k v ms' where ms: "ms = (k, v) # ms'" using assms by (cases ms) auto
  obtain u where u: "?t = CHR 0x0A # CHR '' '' # CHR '' '' # CHR 0x22 # u"
    using ms by (cases ms') (simp_all add: indent_member_def json_quote_def)
  have "parse_members (2 * Suc (length ?t)) ?t = Some (map (\<lambda>(k, v). (k, JStr v)) ms, [])"
    using assms length_indented [of ms] by (intro parse_indented) simp_all
  then have "parse_members (2 * Suc (length ?t)) (CHR 0x22 # u) = Some (map (\<lambda>(k, v). (k, JStr v)) ms, [])"
    using parse_members_skip [of "2 * Suc (length ?t)" ?t] unfolding u by (simp add: skip_ws_Cons is_json_ws_def del: parse_members.simps)
  moreover have "parse_value (Suc n) (CHR ''{'' # ?t) = map_option (\<lambda>(ms, r). (JObj ms, r)) (parse_members n (CHR 0x22 # u))" for n
    unfolding u by (simp add: skip_ws_Cons is_json_ws_def)
  moreover have "go_string (json_MarshalIndent ms) = CHR ''{'' # ?t" using assms by (simp add: json_MarshalIndent_def)
  ultimately show ?thesis by (simp add: json_parse_def skip_ws_def del: parse_value.simps parse_members.simps)
qed

text \<open>The members of a map with distinct names decode to themselves.\<close>

lemma AList_update_new: "k \<notin> fst ` set m \<Longrightarrow> AList.update k v m = m @ [(k, v)]"
  by (induction m) auto

lemma decode_texts:
  "distinct (map fst (m @ ms)) \<Longrightarrow> decode_string_map (map (\<lambda>(k, v). (k, JStr v)) ms) m = Some (m @ ms)"
proof (induction ms arbitrary: m)
  case (Cons a ms)
  obtain k v where a: "a = (k, v)" by (cases a)
  with Cons.prems have "k \<notin> fst ` set m" "distinct (map fst ((m @ [(k, v)]) @ ms))" by auto
  with Cons.IH [of "m @ [(k, v)]"] a show ?case by (simp add: AList_update_new dec_string_def)
qed simp

lemma unmarshal_MarshalIndent:
  "ms \<noteq> [] \<Longrightarrow> distinct (map fst ms) \<Longrightarrow> unmarshal_string_map (json_MarshalIndent ms) = Inr ms"
  using decode_texts [of "[]" ms] by (simp add: unmarshal_string_map_def json_parse_MarshalIndent)

lemma os_WriteFile_ok: "os_WriteFile S p b d = (d', None) \<longleftrightarrow> os_write S p = None \<and> d' = d(p \<mapsto> b)"
  by (auto simp: os_WriteFile_def split: option.splits prod.splits)

lemma then_do_None: "then_do r w f = (d', None) \<longleftrightarrow> (\<exists>d1. r = (d1, None) \<and> f d1 = (d', None))"
  by (auto simp: then_do_def split: prod.splits option.splits)

section \<open>Generated peers\<close>

text \<open>A generated file of peers decodes to one entry per node, with the identifiers that were drawn.\<close>

lemma new_ids_length: "new_ids f is = Inr us \<Longrightarrow> length us = length is"
  by (induction "is" arbitrary: us) (auto simp: bind_res_Inr)

lemma distinct_peers_entries: "distinct (map fst (peers_entries us))"
proof -
  have "map fst (peers_entries us) = map (\<lambda>i. ''node'' @ itoa (int i)) [0..<length us]"
    by (rule nth_equalityI) (auto simp: peers_entries_def nth_enumerate_eq)
  moreover have "inj (\<lambda>i. ''node'' @ itoa (int i))" by (auto simp: inj_def itoa_inj)
  ultimately show ?thesis by (simp add: distinct_map inj_on_def inj_def)
qed

lemma generatePeers_reads:
  assumes "generatePeers S newUUID path_Dir n p d = (d', None)"
  shows "\<exists>us. new_ids newUUID [0..<nat n] = Inr us \<and> length us = nat n \<and> os_Stat S d p = Some ErrNotExist \<and>
    (\<forall>q. q \<noteq> p \<longrightarrow> d' q = d q) \<and> (\<exists>b ms. d' p = Some b \<and> unmarshal_string_map b = Inr ms \<and> map_of ms = map_of (peers_entries us))"
proof -
  let ?key = "\<lambda>m :: string \<times> string. map (of_char :: char \<Rightarrow> nat) (fst m)"
  from assms have n: "n \<ge> 1" and st: "os_Stat S d p = Some ErrNotExist"
    by (auto simp: generatePeers_def split: if_splits option.splits)
  from assms obtain us where us: "new_ids newUUID [0..<nat n] = Inr us"
    using n st by (auto simp: generatePeers_def split: if_splits option.splits sum.splits)
  have w: "os_WriteFile S p (json_MarshalIndent (sort_key ?key (peers_entries us))) d = (d', None)"
    using assms n st us by (auto simp: generatePeers_def then_do_None split: if_splits option.splits)
  let ?ms = "sort_key ?key (peers_entries us)"
  have len: "length us = nat n" using new_ids_length [OF us] by simp
  have "?ms \<noteq> []"
  proof
    assume "?ms = []"
    then have "length (peers_entries us) = 0" by (metis length_sort list.size(3))
    with len n show False by (simp add: peers_entries_def)
  qed
  moreover have dist: "distinct (map fst ?ms)" using distinct_peers_entries [of us] unfolding distinct_map by simp
  ultimately have "unmarshal_string_map (json_MarshalIndent ?ms) = Inr ?ms" by (rule unmarshal_MarshalIndent)
  moreover have "map_of ?ms = map_of (peers_entries us)"
    using map_of_inject_set [OF dist distinct_peers_entries [of us]] by simp
  moreover have "d' = d(p \<mapsto> json_MarshalIndent ?ms)" using w by (simp add: os_WriteFile_ok)
  ultimately show ?thesis using us st len by auto
qed

section \<open>Generated identities\<close>

lemma parts_join:
  assumes "normal f" and "dir \<noteq> []"
  shows "clean_parts (path_Join dir f) = clean_parts dir @ [f]" and "is_rooted (path_Join dir f) = is_rooted dir"
proof -
  have f: "f \<noteq> []" "CHR ''/'' \<notin> set f" using assms(1) by (auto simp: normal_def)
  then have "path_Join dir f = path_Clean (dir @ CHR ''/'' # f)" using assms(2) by (simp add: path_Join_def)
  then show "clean_parts (path_Join dir f) = clean_parts dir @ [f]" "is_rooted (path_Join dir f) = is_rooted dir"
    using assms f by (simp_all add: parts_app str_split_single) (simp add: is_rooted_def)
qed

lemma str_join_snoc: "str_join (ps @ [p]) sep = (if ps = [] then p else str_join ps sep @ sep @ p)"
  by (induction ps) (auto simp: str_join_Cons)

lemma join_text:
  assumes "normal f" and "dir \<noteq> []"
  shows "path_Join dir f = (if is_rooted dir then ''/'' else []) @ str_join (clean_parts dir @ [f]) ''/''"
proof -
  have f: "f \<noteq> []" "CHR ''/'' \<notin> set f" using assms(1) by (auto simp: normal_def)
  then have j: "path_Join dir f = path_Clean (dir @ CHR ''/'' # f)" using assms(2) by (simp add: path_Join_def)
  have "clean_parts (dir @ CHR ''/'' # f) = clean_parts dir @ [f]" "is_rooted (dir @ CHR ''/'' # f) = is_rooted dir"
    using assms f by (simp_all add: parts_app str_split_single) (simp add: is_rooted_def)
  then show ?thesis unfolding j path_Clean_def using f by (simp add: str_join_snoc)
qed

lemma join_append: "normal f \<Longrightarrow> normal (f @ t) \<Longrightarrow> dir \<noteq> [] \<Longrightarrow> path_Join dir f @ t = path_Join dir (f @ t)"
  by (simp add: join_text str_join_snoc)

lemma join_inj: "normal f \<Longrightarrow> normal g \<Longrightarrow> dir \<noteq> [] \<Longrightarrow> path_Join dir f = path_Join dir g \<longleftrightarrow> f = g"
  by (metis parts_join(1) last_snoc)

text \<open>Names of nodes without a separator or a dot; the files made of them are plain components.\<close>

definition plain_name :: "string \<Rightarrow> bool" where
  "plain_name n \<longleftrightarrow> CHR ''/'' \<notin> set n \<and> CHR ''.'' \<notin> set n"

lemma no_dots: "CHR ''.'' \<notin> set n \<Longrightarrow> str_contains (n @ t) ''..'' = str_contains t ''..''"
  by (induction n) auto

lemma identity_names:
  assumes "plain_name n" and "f \<in> {n @ ''_identity.json'', n @ ''_private.key'', n @ ''_private.key.age''}"
  shows "normal f" and "\<not> str_contains f ''..''"
proof -
  have "f \<noteq> []" "f \<noteq> ''.''" "f \<noteq> ''..''" "CHR ''/'' \<notin> set f"
    using assms by (auto simp: plain_name_def append_eq_Cons_conv)
  then show "normal f" by (simp add: normal_def)
  show "\<not> str_contains f ''..''" using assms by (auto simp: plain_name_def no_dots)
qed

lemma SafePath_name:
  assumes "plain_name n" and "f \<in> {n @ ''_identity.json'', n @ ''_private.key'', n @ ''_private.key.age''}"
    and "is_rooted wd" and "dir \<noteq> []"
  shows "SafePath (Inr wd) dir f = Inr (path_Join dir f)"
  using SafePath_accepts [OF assms(3,4), of f] identity_names [OF assms(1,2)] by (simp add: clean_name)

text \<open>What age encrypted under a passphrase, it decrypts under it.\<close>

definition age_ok :: "age_writer \<Rightarrow> age \<Rightarrow> bool" where
  "age_ok W A \<longleftrightarrow>
     (\<forall>p b c. aw_Close W p b = (c, None) \<longrightarrow>
        ag_NewScryptIdentity A p = Inr () \<and> (\<exists>st. ag_Decrypt A c p = Inr st \<and> ag_ReadAll A st = Inr b))"

lemma write_encrypted_ok:
  assumes "write_encrypted S W p pass b d = (d', None)"
  shows "\<exists>c. aw_Close W pass b = (c, None) \<and> d' = d(p \<mapsto> c)"
  using assms by (auto simp: write_encrypted_def then_do_None os_Create_def os_WriteFile_ok Let_def
      split: sum.splits option.splits prod.splits)

lemma Unmarshal_identity:
  "json_Unmarshal NodeIdentity_fields zero_NodeIdentity (json_MarshalIndent (identity_entries n i pub now)) =
   Inr \<lparr>id_NodeName = n, id_NodeID = i, id_PublicKey = hex_Encode pub, id_CreatedAt = now\<rparr>"
  by (simp add: json_Unmarshal_def json_parse_MarshalIndent identity_entries_def decode_struct_def zero_NodeIdentity_def
      set_string_def dec_string_def)

text \<open>
  (C12) The identity that the command generates is the one that the node loads: with the same name, directory
  and passphrase, and a disk without errors, \<^verbatim>\<open>NewFileStore\<close> reads back exactly the private key that was
  drawn, and the identity file names the node and the matching public key.
\<close>

theorem generated_identity_loads:
  assumes "generateNodeIdentity S W (Inr priv) now name i dir encrypt passphrase overwrite d = (d', None)"
    and "plain_name name" and "dir \<noteq> []" and "os_Getwd S = Inr wd" and "is_rooted wd"
    and "os_stat S = (\<lambda>_. None)" and "os_read S = (\<lambda>_. None)" and "age_ok W A" and "os_prompt S = Inr (go_bytes passphrase)"
  shows "loadPrivateKey (node_files S d') A dir name encrypt [] = Inr (hex_Encode priv) \<and>
    load_identity (node_files S d') dir name i = Inr (i, drop 32 priv)"
proof -
  let ?id = "path_Join dir (name @ ''_identity.json'')"
    and ?key = "path_Join dir (name @ ''_private.key'')" and ?enc = "path_Join dir (name @ ''_private.key.age'')"
  have names: "SafePath (Inr wd) dir (name @ ''_identity.json'') = Inr ?id" "SafePath (Inr wd) dir (name @ ''_private.key'') = Inr ?key"
    "SafePath (Inr wd) dir (name @ ''_private.key.age'') = Inr ?enc"
    using SafePath_name [OF assms(2) _ assms(5,3)] by simp_all
  have normals: "normal (name @ ''_identity.json'')" "normal (name @ ''_private.key'')" "normal (name @ ''_private.key.age'')"
    using identity_names [OF assms(2)] by simp_all
  then have ne: "?id \<noteq> ?key" "?id \<noteq> ?enc" using assms(3) by (simp_all add: join_inj)
  have enc: "?key @ ''.age'' = ?enc" using join_append [OF normals(2), of "''.age''" dir] normals(3) assms(3) by simp
  let ?json = "json_MarshalIndent (identity_entries name i (drop 32 priv) now)"
  from assms(1) have run: "(if encrypt then write_encrypted S W ?enc passphrase (go_bytes (hex_Encode priv)) (d(?id \<mapsto> ?json))
      else os_WriteFile S ?key (go_bytes (hex_Encode priv)) (d(?id \<mapsto> ?json))) = (d', None)"
    by (auto simp: generateNodeIdentity_def Let_def then_do_None os_WriteFile_ok enc split: if_splits)
  have stored: "d' ?id = Some ?json \<and>
    (if encrypt then \<exists>c. aw_Close W passphrase (go_bytes (hex_Encode priv)) = (c, None) \<and> d' ?enc = Some c
     else d' ?key = Some (go_bytes (hex_Encode priv)))"
  proof (cases encrypt)
    case True
    with run write_encrypted_ok obtain c where "aw_Close W passphrase (go_bytes (hex_Encode priv)) = (c, None)"
      "d' = d(?id \<mapsto> ?json, ?enc \<mapsto> c)" by (metis (full_types))
    with True ne show ?thesis by auto
  qed (use run ne in \<open>auto simp: os_WriteFile_ok\<close>)
  have rd: "fl_ReadFile (node_files S d') p = (case d' p of None \<Rightarrow> Inl ErrNotExist | Some b \<Rightarrow> Inr b)"
    "fl_Stat (node_files S d') p = (if d' p = None then Some ErrNotExist else None)" for p
    using assms(6,7) by (simp_all add: node_files_def os_ReadFile_def os_Stat_def)
  have wdf: "fl_Getwd (node_files S d') = Inr wd" "fl_ReadPassword (node_files S d') = Inr (go_bytes passphrase)"
    using assms(4,9) by (simp_all add: node_files_def)
  have "load_identity (node_files S d') dir name i = Inr (i, drop 32 priv)"
    using stored by (simp add: load_identity_def wdf names rd Unmarshal_identity)
  moreover have "loadPrivateKey (node_files S d') A dir name encrypt [] = Inr (hex_Encode priv)"
  proof (cases encrypt)
    case True
    with stored obtain c where c: "aw_Close W passphrase (go_bytes (hex_Encode priv)) = (c, None)" "d' ?enc = Some c" by auto
    from c(1) assms(8) obtain st where "ag_NewScryptIdentity A passphrase = Inr ()" "ag_Decrypt A c passphrase = Inr st"
      "ag_ReadAll A st = Inr (go_bytes (hex_Encode priv))" unfolding age_ok_def by blast
    with True c(2) show ?thesis
      by (simp add: loadPrivateKey_def decrypt_key_def age_passphrase_def wdf names rd)
  qed (use stored in \<open>simp add: loadPrivateKey_def wdf names rd\<close>)
  ultimately show ?thesis by blast
qed

text \<open>
  (C15) But a command that is refused may leave a node with an identity that is not its own: when the
  identity file is missing and a private key exists, the command without \<^verbatim>\<open>--overwrite\<close> first writes
  the identity of a fresh key and then refuses to replace the old one. The node then loads the old
  private key, while the identity file announces the public key of the fresh one.
\<close>

theorem refused_identity_mismatch:
  assumes "generateNodeIdentity S W (Inr priv) now name i dir False passphrase False d = (d', r)"
    and "plain_name name" and "dir \<noteq> []" and "os_Getwd S = Inr wd" and "is_rooted wd"
    and "os_stat S = (\<lambda>_. None)" and "os_read S = (\<lambda>_. None)" and "os_write S = (\<lambda>_. None)"
    and "d (path_Join dir (name @ ''_identity.json'')) = None"
    and "d (path_Join dir (name @ ''_private.key'')) = Some (go_bytes (hex_Encode old))"
  shows "r \<noteq> None \<and> loadPrivateKey (node_files S d') A dir name False [] = Inr (hex_Encode old) \<and>
    load_identity (node_files S d') dir name i = Inr (i, drop 32 priv)"
proof -
  let ?id = "path_Join dir (name @ ''_identity.json'')" and ?key = "path_Join dir (name @ ''_private.key'')"
  let ?json = "json_MarshalIndent (identity_entries name i (drop 32 priv) now)"
  have names: "SafePath (Inr wd) dir (name @ ''_identity.json'') = Inr ?id" "SafePath (Inr wd) dir (name @ ''_private.key'') = Inr ?key"
    "SafePath (Inr wd) dir (name @ ''_private.key.age'') = Inr (path_Join dir (name @ ''_private.key.age''))"
    using SafePath_name [OF assms(2) _ assms(5,3)] by simp_all
  have "normal (name @ ''_identity.json'')" "normal (name @ ''_private.key'')" using identity_names [OF assms(2)] by simp_all
  then have ne: "?id \<noteq> ?key" using assms(3) by (simp add: join_inj)
  have wr: "os_WriteFile S p b d = (d(p \<mapsto> b), None)" for p b d using assms(8) by (simp add: os_WriteFile_ok)
  have st: "os_Stat S d p = (if d p = None then Some ErrNotExist else None)" for p d using assms(6) by (simp add: os_Stat_def)
  have "r \<noteq> None" and d': "d' = d(?id \<mapsto> ?json)"
    using assms(1,9,10) ne by (auto simp: generateNodeIdentity_def Let_def then_do_def wr st)
  moreover have "load_identity (node_files S d') dir name i = Inr (i, drop 32 priv)"
    using assms(4,7) by (simp add: load_identity_def node_files_def names os_ReadFile_def d' Unmarshal_identity)
  moreover have "loadPrivateKey (node_files S d') A dir name False [] = Inr (hex_Encode old)"
    using assms(4,7,10) ne by (simp add: loadPrivateKey_def node_files_def names os_ReadFile_def st d')
  ultimately show ?thesis by blast
qed

section \<open>Recovery\<close>

text \<open>Recovering from the directory of a node whose last backup succeeded gives its database back.\<close>

lemma recovered_database:
  assumes "aead_correct cr" and "badger_backup_ok B" and "backup_run cr B b d dir" and "new_file b io dir"
    and "Execute cr B b io d dir = (dir', None)" and "key = be_BackupEncryptionKey b"
    and "\<And>p k d0. open_db p k = Inr d0 \<Longrightarrow> bk_latest B d0 = Map.empty"
    and "recoverDatabase cr B Stat mkdir RemoveAll open_db close_err (Inr key) dir' backupDir recoveryPath force = Returns (Inr d')"
  shows "bk_latest B d' = bk_latest B d"
proof -
  have inv: "backups_inv cr B b d dir'" and all: "complete cr B b d dir'"
    using backups_inv_Execute [OF assms(1,2) backup_run_inv [OF assms(1-3)] assms(4,5)] by blast+
  let ?restore = "\<lambda>ex. RestoreAllBackupsEncrypted cr B ex mkdir open_db close_err dir' recoveryPath key"
  from assms(8) obtain ex where ex: "NewBadgerBackupExecutor mkdir ''temp'' key backupDir = Returns ex"
    and "(case ?restore ex of Inl e \<Rightarrow> Inl (EWrap ''recovery failed: '' e []) | Inr d \<Rightarrow> Inr d) = Inr d'"
    by (auto simp: recoverDatabase_def bind_out_Returns split: if_splits option.splits)
  then have restore: "?restore ex = Inr d'" by (cases "?restore ex") simp_all
  then obtain d0 where d0: "open_db recoveryPath key = Inr d0"
    by (auto simp: RestoreAllBackupsEncrypted_def split: option.splits sum.splits)
  from ex have k: "be_BackupEncryptionKey ex = be_BackupEncryptionKey b"
    using assms(6) by (auto simp: NewBadgerBackupExecutor_def Let_def split: option.splits)
  show ?thesis
  proof (rule restore_latest [OF assms(2) _ _ d0 assms(7) [OF d0] restore])
    show "dir_below B cr (be_BackupEncryptionKey ex) dir' (bk_latest B d)" using inv by (simp add: backups_inv_def k)
    show "covered B cr (be_BackupEncryptionKey ex) dir' k e" if "bk_latest B d k = Some e" for k e
      using all that unfolding complete_def k by blast
  qed
qed

section \<open>Registration\<close>

text \<open>A registration without a conflict leaves every peer with the identifier of the file.\<close>

lemma register_all_keeps:
  assumes "consul_ok kv"
  shows "register_all kv ps c = (c', r) \<Longrightarrow> consul_Get kv c k = Inr (Some v) \<Longrightarrow> consul_Get kv c' k = Inr (Some v)"
proof (induction ps arbitrary: c)
  case (Cons p ps)
  obtain name i where p: "p = (name, i)" by (cases p)
  let ?key = "''mpc_peers/'' @ name"
  show ?case
  proof (cases "consul_Get kv c ?key")
    case (Inr old)
    show ?thesis
    proof (cases old)
      case None
      show ?thesis
      proof (cases "consul_Put kv c ?key (go_bytes i)")
        case put: (Inr c1)
        have "k \<noteq> ?key" using Cons.prems(2) Inr None by auto
        then have "consul_Get kv c1 k = Inr (Some v)" using assms put Cons.prems(2) by (auto simp: consul_ok_def)
        then show ?thesis using Cons.IH [of c1] Cons.prems(1) Inr None put p by simp
      qed (use Cons.prems Inr None p in simp)
    qed (use Cons Inr p in \<open>auto simp: Let_def split: if_splits\<close>)
  qed (use Cons.prems p in simp)
qed simp

lemma register_all_registers:
  assumes "consul_ok kv"
  shows "register_all kv ps c = (c', None) \<Longrightarrow> (n, i) \<in> set ps \<Longrightarrow> \<exists>v. consul_Get kv c' (''mpc_peers/'' @ n) = Inr (Some v) \<and> go_string v = i"
proof (induction ps arbitrary: c)
  case (Cons q ps)
  obtain m j where q: "q = (m, j)" by (cases q)
  let ?key = "''mpc_peers/'' @ m"
  obtain c1 v where c1: "register_all kv ps c1 = (c', None)" "consul_Get kv c1 ?key = Inr (Some v)" "go_string v = j"
    using Cons.prems(1) assms q by (auto simp: Let_def consul_ok_def split: sum.splits option.splits if_splits)
  show ?case
  proof (cases "(n, i) = q")
    case True
    with register_all_keeps [OF assms c1(1,2)] c1(3) q show ?thesis by blast
  qed (use Cons c1(1) in auto)
qed simp

section \<open>An identity\<close>

definition demo_os :: os where
  "demo_os = \<lparr>os_Getwd = Inr ''/app'', os_MkdirAll = (\<lambda>p. None), os_stat = (\<lambda>p. None), os_read = (\<lambda>p. None),
     os_write = (\<lambda>p. None), os_prompt = Inr (go_bytes ''horse-battery'')\<rparr>"

definition demo_writer :: age_writer where
  "demo_writer = \<lparr>aw_NewScryptRecipient = (\<lambda>p. Inr ()), aw_Encrypt = (\<lambda>p. ([], None)), aw_Write = (\<lambda>p b. ([], None)),
     aw_Close = (\<lambda>p b. (b, None))\<rparr>"

lemma demo_writer_ok: "age_ok demo_writer plain_age"
  by (simp add: age_ok_def demo_writer_def plain_age_def)

lemma demo_os_simps [simp]:
  "os_Getwd demo_os = Inr ''/app''" "os_stat demo_os = (\<lambda>p. None)" "os_read demo_os = (\<lambda>p. None)" "os_write demo_os = (\<lambda>p. None)"
  "os_prompt demo_os = Inr (go_bytes ''horse-battery'')" "is_rooted ''/app''" "plain_name ''node0''"
  by (simp_all add: demo_os_def is_rooted_def plain_name_def)

lemma demo_identity_paths [simp]:
  "path_Join ''identity'' ''node0_identity.json'' = ''identity/node0_identity.json''"
  "path_Join ''identity'' ''node0_private.key'' = ''identity/node0_private.key''"
  "ValidateFilePath ''identity/node0_private.key.age'' = Inr ()"
  by code_simp+

lemma demo_generates:
  "\<exists>d'. generateNodeIdentity demo_os demo_writer (Inr (replicate 64 0)) ''2025'' ''node0'' ''alice'' ''identity'' True ''horse-battery'' False Map.empty =
     (d', None)"
  by (simp add: generateNodeIdentity_def os_Stat_def os_WriteFile_def then_do_def write_encrypted_def os_Create_def demo_writer_def)

theorem generated_identity_loads_witness:
  "\<exists>d'. generateNodeIdentity demo_os demo_writer (Inr (replicate 64 0)) ''2025'' ''node0'' ''alice'' ''identity'' True ''horse-battery'' False Map.empty =
     (d', None) \<and> loadPrivateKey (node_files demo_os d') plain_age ''identity'' ''node0'' True [] = Inr (hex_Encode (replicate 64 0))"
proof -
  obtain d' where g: "generateNodeIdentity demo_os demo_writer (Inr (replicate 64 0)) ''2025'' ''node0'' ''alice'' ''identity'' True
    ''horse-battery'' False Map.empty = (d', None)" using demo_generates by blast
  have "loadPrivateKey (node_files demo_os d') plain_age ''identity'' ''node0'' True [] = Inr (hex_Encode (replicate 64 0))"
    using generated_identity_loads [OF g _ _ _ _ _ _ demo_writer_ok, of "''/app''"] by simp
  with g show ?thesis by blast
qed

theorem refused_identity_mismatch_witness:
  "\<exists>d' r. generateNodeIdentity demo_os demo_writer (Inr (replicate 64 0)) ''2025'' ''node0'' ''alice'' ''identity'' False [] False
       [''identity/node0_private.key'' \<mapsto> go_bytes (hex_Encode (replicate 64 1))] = (d', r) \<and>
     loadPrivateKey (node_files demo_os d') plain_age ''identity'' ''node0'' False [] = Inr (hex_Encode (replicate 64 1)) \<and>
     load_identity (node_files demo_os d') ''identity'' ''node0'' ''alice'' = Inr (''alice'', replicate 32 0)"
proof -
  let ?d = "[''identity/node0_private.key'' \<mapsto> go_bytes (hex_Encode (replicate 64 1))]"
  obtain d' r where g: "generateNodeIdentity demo_os demo_writer (Inr (replicate 64 0)) ''2025'' ''node0'' ''alice'' ''identity'' False
    [] False ?d = (d', r)" by (cases "generateNodeIdentity demo_os demo_writer (Inr (replicate 64 0)) ''2025'' ''node0'' ''alice'' ''identity'' False [] False ?d")
  have "loadPrivateKey (node_files demo_os d') plain_age ''identity'' ''node0'' False [] = Inr (hex_Encode (replicate 64 1)) \<and>
     load_identity (node_files demo_os d') ''identity'' ''node0'' ''alice'' = Inr (''alice'', replicate 32 0)"
    using refused_identity_mismatch [OF g, of "''/app''" "replicate 64 1" plain_age] by simp
  with g show ?thesis by blast
qed

end
