(* ===== verification/Benchmark.thy ===== *)
theory Benchmark
  imports Node_Start Provisioning
begin

text \<open>
  The benchmark of the command line tool (\<^verbatim>\<open>cmd/mpcium-cli/benchmark.go\<close>): it publishes requests one
  after the other, matches the results that come back with them while it does, waits for the rest,
  and reports counts and times.

  The mutex makes the handling of a result one step, so a run is determined by the results that
  arrive between two steps of the loop. Times count nanoseconds; \<open>None\<close> is the zero time. A rate that
  the source computes in floating point is the pair of its numerator and denominator; the printing
  of rates and durations is a parameter.
\<close>

section \<open>Integers\<close>

text \<open>Division of Go truncates towards zero; the divisor zero is checked where it can occur.\<close>

definition go_quot :: "int \<Rightarrow> int \<Rightarrow> int" where
  "go_quot a b = sgn a * sgn b * (\<bar>a\<bar> div \<bar>b\<bar>)"

lemma go_quot_nonneg [simp]: "0 \<le> a \<Longrightarrow> 0 < b \<Longrightarrow> go_quot a b = a div b"
  by (cases "a = 0") (simp_all add: go_quot_def)

text \<open>
  \<^verbatim>\<open>fmt.Sscanf\<close> with \<^verbatim>\<open>%d\<close>: blanks but no line break, a sign, digits; what follows is ignored.
\<close>

definition scan_dec :: "string \<Rightarrow> int option" where
  "scan_dec s0 =
     (let s = dropWhile (\<lambda>c. is_space c \<and> c \<noteq> CHR 0x0A) s0;
          neg = (s \<noteq> [] \<and> hd s = CHR ''-'');
          ds = takeWhile is_digit (if s \<noteq> [] \<and> hd s \<in> {CHR ''-'', CHR ''+''} then tl s else s);
          v = int (digits_value ds);
          n = (if neg then - v else v)
      in if ds \<noteq> [] \<and> - (2 ^ 63) \<le> n \<and> n < 2 ^ 63 then Some n else None)"

definition parseNumOps :: "string \<Rightarrow> nat res" where
  "parseNumOps numOps =
     (case scan_dec numOps of
        None \<Rightarrow> Inl (ENew (''invalid number of operations: '' @ numOps))
      | Some n \<Rightarrow> if n \<le> 0 then Inl (ENew ''number of operations must be positive'') else Inr (nat n))"

section \<open>The client\<close>

definition promptForPassword :: "bytes res \<Rightarrow> string res" where
  "promptForPassword terminal =
     (case terminal of
        Inl e \<Rightarrow> Inl (EWrap ''failed to read password: '' e [])
      | Inr b \<Rightarrow> if b = [] then Inl (ENew ''password cannot be empty'') else Inr (go_string b))"

definition getNATSConnection ::
  "(string \<Rightarrow> nats_option list \<Rightarrow> unit res) \<Rightarrow> string \<Rightarrow> AppConfig \<Rightarrow> unit res outcome" where
  "getNATSConnection connect environment appConfig =
     (case ap_NATs appConfig of
        None \<Rightarrow> Aborts ''nil pointer dereference''
      | Some nats \<Rightarrow>
          Returns (connect (na_URL nats)
            ([MaxReconnects (-1), ReconnectWait (2 * Second), LogDisconnects, LogReconnects, LogClosed]
             @ (if environment = EnvProduction then nats_tls_options nats else []))))"

record bench_flags =
  bf_keyPath :: string
  bf_promptPassword :: bool
  bf_clientID :: string
  bf_timeout :: int
  bf_batchSize :: int
  bf_newThreshold :: int
  bf_nodeIDs :: "string list"
  bf_output :: string

text \<open>The configuration has been loaded (\<open>Configuration\<close>); \<open>broker\<close> answers the creation of the two streams.\<close>

definition createMPCClient ::
  "'k crypto \<Rightarrow> ('k, 'p) private_keys \<Rightarrow> files \<Rightarrow> age \<Rightarrow> (string \<Rightarrow> nats_option list \<Rightarrow> unit res) \<Rightarrow>
   (string \<Rightarrow> unit res) \<Rightarrow> bytes res \<Rightarrow> AppConfig \<Rightarrow> bench_flags \<Rightarrow> mpcClient res outcome" where
  "createMPCClient cr pr F A connect broker terminal appConfig fl =
     bind_out (getNATSConnection connect (ap_Environment appConfig) appConfig) (\<lambda>nc.
       case nc of
         Inl e \<Rightarrow> Returns (Inl (EWrap ''failed to connect to NATS: '' e []))
       | Inr _ \<Rightarrow>
           (case (if bf_promptPassword fl then promptForPassword terminal else Inr []) of
              Inl e \<Rightarrow> Returns (Inl (EWrap ''failed to get password: '' e []))
            | Inr password \<Rightarrow>
                bind_out (NewLocalSigner pr F A EventInitiatorKeyTypeEd25519
                    \<lparr>lo_KeyPath = bf_keyPath fl, lo_Encrypted = False, lo_Password = password\<rparr>) (\<lambda>signer.
                  case signer of
                    Inl e \<Rightarrow> Returns (Inl (EWrap ''failed to create signer: '' e []))
                  | Inr sg \<Rightarrow>
                      bind_out (NewMPCClient broker
                        (Some (\<lambda>data. case local_Sign cr pr sg data of Returns r \<Rightarrow> r | Aborts m \<Rightarrow> Inl (ENew m)))
                        (bf_clientID fl)) (\<lambda>c. Returns (Inr c)))))"

text \<open>An identifier of the process, the clock and eight random bytes, if there are any.\<close>

definition generateUniqueID :: "string \<Rightarrow> int \<Rightarrow> int \<Rightarrow> bytes res \<Rightarrow> string" where
  "generateUniqueID pre nano pid random =
     (let base = pre @ ''-'' @ itoa nano @ ''-'' @ itoa pid in
      case random of Inl e \<Rightarrow> base | Inr b \<Rightarrow> base @ ''-'' @ hex_Encode b)"

section \<open>Operations and their results\<close>

record OperationResult =
  op_ID :: string
  op_StartTime :: int
  op_EndTime :: "int option"
  op_Completed :: bool
  op_Success :: bool
  op_ErrorReason :: string
  op_ErrorCode :: string

text \<open>The slice of operations and the counter of the wait group.\<close>

record tracker =
  tk_results :: "OperationResult list"
  tk_wg :: nat

definition new_tracker :: tracker where
  "new_tracker = \<lparr>tk_results = [], tk_wg = 0\<rparr>"

definition wg_Done :: "tracker \<Rightarrow> tracker outcome" where
  "wg_Done tk = (if tk_wg tk = 0 then Aborts ''sync: negative WaitGroup counter'' else Returns (tk\<lparr>tk_wg := tk_wg tk - 1\<rparr>))"

text \<open>The loop of a listener: the first pending operation that matches is completed.\<close>

fun settle :: "(string \<Rightarrow> bool) \<Rightarrow> (OperationResult \<Rightarrow> OperationResult) \<Rightarrow> OperationResult list \<Rightarrow> OperationResult list option" where
  "settle m f [] = None"
| "settle m f (r # rs) =
     (if m (op_ID r) \<and> \<not> op_Completed r then Some (f r # rs) else map_option ((#) r) (settle m f rs))"

definition completed :: "int \<Rightarrow> bool \<Rightarrow> string \<Rightarrow> string \<Rightarrow> OperationResult \<Rightarrow> OperationResult" where
  "completed now ok reason code r =
     (let r1 = r\<lparr>op_EndTime := Some now, op_Completed := True, op_Success := ok\<rparr> in
      if ok then r1 else r1\<lparr>op_ErrorReason := reason, op_ErrorCode := code\<rparr>)"

definition on_arrival :: "(string \<Rightarrow> bool) \<Rightarrow> (OperationResult \<Rightarrow> OperationResult) \<Rightarrow> tracker \<Rightarrow> tracker outcome" where
  "on_arrival m f tk =
     (case settle m f (tk_results tk) of None \<Rightarrow> Returns tk | Some rs \<Rightarrow> wg_Done (tk\<lparr>tk_results := rs\<rparr>))"

definition keygen_arrival :: "KeygenResultEvent \<times> int \<Rightarrow> tracker \<Rightarrow> tracker outcome" where
  "keygen_arrival = (\<lambda>(ev, now). on_arrival (\<lambda>i. i = kr_WalletID ev)
     (completed now (kr_ResultType ev = ResultTypeSuccess) (kr_ErrorReason ev) (error_code_string (kr_ErrorCode ev))))"

definition sign_arrival :: "SigningResultEvent \<times> int \<Rightarrow> tracker \<Rightarrow> tracker outcome" where
  "sign_arrival = (\<lambda>(ev, now). on_arrival (\<lambda>i. i = sr_TxID ev)
     (completed now (sr_ResultType ev = ResultTypeSuccess) (sr_ErrorReason ev) (error_code_string (sr_ErrorCode ev))))"

definition reshare_arrival :: "ResharingResultEvent \<times> int \<Rightarrow> tracker \<Rightarrow> tracker outcome" where
  "reshare_arrival = (\<lambda>(ev, now). on_arrival (\<lambda>i. prefix (rr_WalletID ev) i)
     (completed now (rr_ResultType ev = ResultTypeSuccess) (rr_ErrorReason ev) (error_code_string (rr_ErrorCode ev))))"

fun arrivals :: "('ev \<Rightarrow> tracker \<Rightarrow> tracker outcome) \<Rightarrow> 'ev list \<Rightarrow> tracker \<Rightarrow> tracker outcome" where
  "arrivals arrive [] tk = Returns tk"
| "arrivals arrive (ev # evs) tk = bind_out (arrive ev tk) (arrivals arrive evs)"

text \<open>
  One turn of the loop: the clock and the random bytes it reads, the answer to its publication, and the
  results that arrive while it publishes (\<open>it_early\<close>) and before the next turn (\<open>it_late\<close>).
\<close>

record 'ev turn =
  it_nano :: int
  it_random :: "bytes res"
  it_data :: "bytes res"
  it_start :: int
  it_early :: "'ev list"
  it_net :: "string \<Rightarrow> bytes \<Rightarrow> headers \<Rightarrow> unit res"
  it_failed :: int
  it_late :: "'ev list"

text \<open>
  The appending of an operation and \<^verbatim>\<open>wg.Add\<close> are one step here. The source leaves a gap between them, in which no
  result can name the operation, as it is not published yet.
\<close>

definition add_operation :: "string \<Rightarrow> int \<Rightarrow> tracker \<Rightarrow> tracker" where
  "add_operation i start tk = tk\<lparr>tk_results := tk_results tk @ [\<lparr>op_ID = i, op_StartTime = start, op_EndTime = None,
     op_Completed = False, op_Success = False, op_ErrorReason = [], op_ErrorCode = []\<rparr>], tk_wg := Suc (tk_wg tk)\<rparr>"

text \<open>A publication that fails completes the operation of this turn, whether or not a result has.\<close>

definition publish_failed :: "nat \<Rightarrow> int \<Rightarrow> gerror \<Rightarrow> tracker \<Rightarrow> tracker outcome" where
  "publish_failed i now e tk =
     (if i < length (tk_results tk)
      then wg_Done (tk\<lparr>tk_results := (tk_results tk)[i := (tk_results tk ! i)
             \<lparr>op_Completed := True, op_Success := False, op_ErrorReason := Error e, op_EndTime := Some now\<rparr>]\<rparr>)
      else Aborts ''index out of range'')"

definition bench_turn ::
  "('ev \<Rightarrow> tracker \<Rightarrow> tracker outcome) \<Rightarrow> (nat \<Rightarrow> 'ev turn \<Rightarrow> string) \<Rightarrow> (nat \<Rightarrow> 'ev turn \<Rightarrow> gerror option) \<Rightarrow>
   nat \<Rightarrow> 'ev turn \<Rightarrow> tracker \<Rightarrow> tracker outcome" where
  "bench_turn arrive mkID publish i it tk =
     bind_out (arrivals arrive (it_early it) (add_operation (mkID i it) (it_start it) tk)) (\<lambda>tk1.
     bind_out (case publish i it of None \<Rightarrow> Returns tk1 | Some e \<Rightarrow> publish_failed i (it_failed it) e tk1)
       (arrivals arrive (it_late it)))"

fun bench_turns ::
  "('ev \<Rightarrow> tracker \<Rightarrow> tracker outcome) \<Rightarrow> (nat \<Rightarrow> 'ev turn \<Rightarrow> string) \<Rightarrow> (nat \<Rightarrow> 'ev turn \<Rightarrow> gerror option) \<Rightarrow>
   (nat \<times> 'ev turn) list \<Rightarrow> tracker \<Rightarrow> tracker outcome" where
  "bench_turns arrive mkID publish [] tk = Returns tk"
| "bench_turns arrive mkID publish ((i, it) # its) tk =
     bind_out (bench_turn arrive mkID publish i it tk) (bench_turns arrive mkID publish its)"

text \<open>The wait: results arrive until the counter is zero or, with none left to come, the timeout ends it.\<close>

fun bench_wait :: "('ev \<Rightarrow> tracker \<Rightarrow> tracker outcome) \<Rightarrow> 'ev list \<Rightarrow> tracker \<Rightarrow> tracker outcome" where
  "bench_wait arrive [] tk = Returns tk"
| "bench_wait arrive (ev # evs) tk =
     (if tk_wg tk = 0 then Returns tk else bind_out (arrive ev tk) (bench_wait arrive evs))"

section \<open>Results\<close>

text \<open>A rate is a fraction; the zero value of the source is \<open>(0, 1)\<close>.\<close>

type_synonym rate = "int \<times> int"

record BenchmarkResult =
  br_TotalOperations :: int
  br_SuccessfulOps :: int
  br_FailedOps :: int
  br_TotalTime :: int
  br_AverageTime :: int
  br_MedianTime :: int
  br_OperationTimes :: "int list"
  br_ErrorRate :: rate
  br_OperationsPerMin :: rate
  br_BatchSize :: int
  br_TotalBatches :: int
  br_BatchTimes :: "int list"

definition succeeded :: "OperationResult \<Rightarrow> bool" where
  "succeeded r \<longleftrightarrow> op_Completed r \<and> op_Success r"

fun operation_times :: "OperationResult list \<Rightarrow> int list" where
  "operation_times [] = []"
| "operation_times (r # rs) =
     (if succeeded r then (case op_EndTime r of None \<Rightarrow> [] | Some t \<Rightarrow> [t - op_StartTime r]) else []) @ operation_times rs"

definition average_time :: "int list \<Rightarrow> int" where
  "average_time ts = (if ts = [] then 0 else go_quot (sum_list ts) (int (length ts)))"

text \<open>\<open>ts\<close> is sorted.\<close>

definition median_time :: "int list \<Rightarrow> int" where
  "median_time ts =
     (let n = length ts in
      if n = 0 then 0
      else if even n then go_quot (ts ! (n div 2 - 1) + ts ! (n div 2)) 2
      else ts ! (n div 2))"

definition calculateBenchmarkResult :: "OperationResult list \<Rightarrow> int \<Rightarrow> int \<Rightarrow> int list \<Rightarrow> BenchmarkResult" where
  "calculateBenchmarkResult results totalTime batchSize batchTimes =
     (let ok = int (length (filter succeeded results));
          failed = int (length (filter (\<lambda>r. \<not> succeeded r) results));
          total = int (length results);
          times = sort (operation_times results)
      in \<lparr>br_TotalOperations = total, br_SuccessfulOps = ok, br_FailedOps = failed, br_TotalTime = totalTime,
          br_AverageTime = average_time times, br_MedianTime = median_time times, br_OperationTimes = times,
          br_ErrorRate = (failed * 100, total),
          br_OperationsPerMin = (if times = [] then (0, 1) else (ok * 60 * Second, totalTime)),
          br_BatchSize = batchSize, br_TotalBatches = int (length batchTimes), br_BatchTimes = batchTimes\<rparr>)"

section \<open>The report\<close>

text \<open>\<open>fr\<close> prints a rate with two digits, \<open>fd\<close> a duration, and \<open>now\<close> is the time of the report.\<close>

definition nl :: string where "nl = [CHR 0x0A]"

definition first_n_lines :: "(int \<Rightarrow> string) \<Rightarrow> BenchmarkResult \<Rightarrow> string outcome" where
  "first_n_lines fd r =
     (if br_BatchSize r \<le> int (length (br_OperationTimes r)) then
        (if br_BatchSize r < 0 then Aborts ''slice bounds out of range''
         else (let n = itoa (br_BatchSize r); firstN = take (nat (br_BatchSize r)) (br_OperationTimes r) in
               Returns (''Completed from first '' @ n @ '': '' @ itoa (int (length firstN)) @ ''/'' @ n @ nl
                 @ (if firstN = [] then []
                    else ''Fastest (first '' @ n @ ''): '' @ fd (foldl min (hd firstN) firstN) @ nl
                       @ ''Slowest (first '' @ n @ ''): '' @ fd (foldl max (hd firstN) firstN) @ nl))))
      else Returns [])"

definition generateBenchmarkReport ::
  "(rate \<Rightarrow> string) \<Rightarrow> (int \<Rightarrow> string) \<Rightarrow> string \<Rightarrow> string \<Rightarrow> BenchmarkResult \<Rightarrow> string outcome" where
  "generateBenchmarkReport fr fd now operationType r =
     bind_out (first_n_lines fd r) (\<lambda>first_n. Returns (
       nl @ ''==============================='' @ nl
       @ to_upper operationType @ '' BENCHMARK RESULTS SUMMARY'' @ nl
       @ ''==============================='' @ nl
       @ ''Timestamp: '' @ now @ nl
       @ ''Operation Type: '' @ operationType @ nl
       @ ''Total benchmark time: '' @ fd (br_TotalTime r) @ nl
       @ ''Total batches sent: '' @ itoa (br_TotalBatches r) @ nl
       @ ''Total requests sent: '' @ itoa (br_TotalOperations r) @ nl
       @ ''Successful completions: '' @ itoa (br_SuccessfulOps r) @ nl
       @ ''Failed operations: '' @ itoa (br_FailedOps r) @ nl
       @ ''Success rate: '' @ fr (100 * snd (br_ErrorRate r) - fst (br_ErrorRate r), snd (br_ErrorRate r)) @ ''%'' @ nl
       @ ''Error rate: '' @ fr (br_ErrorRate r) @ ''%'' @ nl
       @ ''Average operations per minute: '' @ fr (br_OperationsPerMin r) @ nl
       @ (if br_OperationTimes r = [] then []
          else ''Average operation time: '' @ fd (br_AverageTime r) @ nl
             @ ''Median operation time: '' @ fd (br_MedianTime r) @ nl)
       @ nl @ ''------------------------------'' @ nl
       @ itoa (br_BatchSize r) @ '' REQUEST ANALYSIS'' @ nl
       @ ''------------------------------'' @ nl
       @ first_n @ nl))"

text \<open>
  The answers of the operating system: each write of \<open>bo_write\<close> stores a prefix of the text, all of
  it without an error.
\<close>

record bench_io =
  bo_MkdirAll :: "gerror option"
  bo_OpenFile :: "gerror option"
  bo_write :: "string \<Rightarrow> string \<times> gerror option"
  bo_Close :: "gerror option"

definition append_text :: "string \<Rightarrow> string \<Rightarrow> disk \<Rightarrow> disk" where
  "append_text path txt d = d(path \<mapsto> (case d path of None \<Rightarrow> [] | Some b \<Rightarrow> b) @ go_bytes txt)"

text \<open>The deferred close reports its error only when nothing else has failed.\<close>

definition writeBenchmarkToFile :: "bench_io \<Rightarrow> string \<Rightarrow> string \<Rightarrow> string \<Rightarrow> disk \<Rightarrow> disk \<times> gerror option" where
  "writeBenchmarkToFile io dir content outputFile d =
     (case bo_MkdirAll io of
        Some e \<Rightarrow> (d, Some (EWrap (''failed to create directory '' @ dir @ '': '') e []))
      | None \<Rightarrow>
          (case bo_OpenFile io of
             Some e \<Rightarrow> (d, Some (EWrap ''failed to open file: '' e []))
           | None \<Rightarrow>
               (case bo_write io content of
                  (part, Some e) \<Rightarrow> (append_text outputFile part d, Some (EWrap ''failed to write content: '' e []))
                | (part, None) \<Rightarrow>
                    (let d1 = append_text outputFile part d in
                     case bo_write io (nl @ replicate 80 (CHR ''='') @ nl @ nl) of
                       (part', Some e) \<Rightarrow> (append_text outputFile part' d1, Some (EWrap ''failed to write separator: '' e []))
                     | (part', None) \<Rightarrow> (append_text outputFile part' d1,
                         map_option (\<lambda>e. EWrap ''failed to close file: '' e []) (bo_Close io))))))"

text \<open>The text on the terminal, the disk and the error; \<open>dir\<close> is the directory of the file.\<close>

definition printBenchmarkResult ::
  "(rate \<Rightarrow> string) \<Rightarrow> (int \<Rightarrow> string) \<Rightarrow> string \<Rightarrow> bench_io \<Rightarrow> (string \<Rightarrow> string) \<Rightarrow> string \<Rightarrow> BenchmarkResult \<Rightarrow> string \<Rightarrow>
   disk \<Rightarrow> (string \<times> disk \<times> gerror option) outcome" where
  "printBenchmarkResult fr fd now io path_Dir operationType r outputFile d =
     bind_out (generateBenchmarkReport fr fd now operationType r) (\<lambda>report.
       Returns (if outputFile = [] then (report, d, None)
         else (case writeBenchmarkToFile io (path_Dir outputFile) report outputFile d of
                 (d', Some e) \<Rightarrow> (report, d', Some (EWrap (''failed to write to file '' @ outputFile @ '': '') e []))
               | (d', None) \<Rightarrow> (report @ nl @ ''Benchmark results written to: '' @ outputFile @ nl, d', None))))"

section \<open>The three benchmarks\<close>

text \<open>
  What a run meets: the client, the answer of the subscription, the turns of the loop, the results that
  arrive during the wait, the times it takes, and the printing of its report.
\<close>

record 'ev bench_env =
  be_client :: "mpcClient res outcome"
  be_listen :: "unit res"
  be_pid :: int
  be_turns :: "'ev turn list"
  be_tail :: "'ev list"
  be_totalTime :: int
  be_batchTimes :: "int list"
  be_print :: "string \<Rightarrow> BenchmarkResult \<Rightarrow> string \<Rightarrow> disk \<Rightarrow> (string \<times> disk \<times> gerror option) outcome"

type_synonym bench_end = "disk \<times> gerror option"

definition bench_report ::
  "'ev bench_env \<Rightarrow> string \<Rightarrow> BenchmarkResult \<Rightarrow> string \<Rightarrow> disk \<Rightarrow> bench_end outcome" where
  "bench_report env operationType r output d =
     bind_out (be_print env operationType r output d) (\<lambda>(txt, d', e).
       Returns (d', map_option (\<lambda>e. EWrap ''failed to write benchmark results: '' e []) e))"

definition with_client ::
  "'ev bench_env \<Rightarrow> disk \<Rightarrow> (mpcClient \<Rightarrow> bench_end outcome) \<Rightarrow> bench_end outcome" where
  "with_client env d k =
     bind_out (be_client env) (\<lambda>r. case r of Inl e \<Rightarrow> Returns (d, Some e) | Inr c \<Rightarrow> k c)"

definition after_listen :: "'ev bench_env \<Rightarrow> disk \<Rightarrow> bench_end outcome \<Rightarrow> bench_end outcome" where
  "after_listen env d k =
     (case be_listen env of
        Inl e \<Rightarrow> Returns (d, Some (EWrap ''failed to set up result listener: '' e []))
      | Inr _ \<Rightarrow> k)"

definition run_turns ::
  "'ev bench_env \<Rightarrow> ('ev \<Rightarrow> tracker \<Rightarrow> tracker outcome) \<Rightarrow> (nat \<Rightarrow> 'ev turn \<Rightarrow> string) \<Rightarrow>
   (nat \<Rightarrow> 'ev turn \<Rightarrow> gerror option) \<Rightarrow> nat list \<Rightarrow> tracker outcome" where
  "run_turns env arrive mkID publish idx =
     bind_out (bench_turns arrive mkID publish (zip idx (be_turns env)) new_tracker) (bench_wait arrive (be_tail env))"

definition keygen_id :: "int \<Rightarrow> nat \<Rightarrow> 'ev turn \<Rightarrow> string" where
  "keygen_id pid i it = generateUniqueID (''benchmark-keygen-'' @ itoa (int i)) (it_nano it) pid (it_random it)"

definition runKeygenBenchmark ::
  "(KeygenResultEvent \<times> int) bench_env \<Rightarrow> bench_flags \<Rightarrow> string list \<Rightarrow> disk \<Rightarrow> bench_end outcome" where
  "runKeygenBenchmark env fl args d =
     (case args of
        [] \<Rightarrow> Returns (d, Some (ENew ''missing required argument: num_operations''))
      | numOps # _ \<Rightarrow>
          (case parseNumOps numOps of
             Inl e \<Rightarrow> Returns (d, Some e)
           | Inr n \<Rightarrow>
               with_client env d (\<lambda>c.
               after_listen env d (
               bind_out (run_turns env keygen_arrival (keygen_id (be_pid env))
                   (\<lambda>i it. err_of (CreateWallet (it_net it) c (keygen_id (be_pid env) i it))) [0..<n]) (\<lambda>tk.
               bench_report env ''Keygen'' (calculateBenchmarkResult (tk_results tk) (be_totalTime env) 1 [be_totalTime env])
                 (bf_output fl) d)))))"

text \<open>The batches of the signing benchmark, each with its first index and the one after its last.\<close>

definition totalBatches :: "nat \<Rightarrow> int \<Rightarrow> int outcome" where
  "totalBatches n batchSize =
     (if batchSize = 0 then Aborts ''integer divide by zero'' else Returns (go_quot (int n + batchSize - 1) batchSize))"

definition batch_range :: "nat \<Rightarrow> int \<Rightarrow> int \<Rightarrow> int \<times> int" where
  "batch_range n batchSize k = (k * batchSize, min (k * batchSize + batchSize) (int n))"

definition batch_indices :: "nat \<Rightarrow> int \<Rightarrow> int \<Rightarrow> nat list" where
  "batch_indices n batchSize batches = map nat (concat (map (\<lambda>k. case batch_range n batchSize k of (a, b) \<Rightarrow> [a..b - 1]) [0..batches - 1]))"

definition sign_id :: "string \<Rightarrow> int \<Rightarrow> nat \<Rightarrow> 'ev turn \<Rightarrow> string" where
  "sign_id keyTypeName pid i it =
     generateUniqueID (''benchmark-'' @ keyTypeName @ ''-sign-'' @ itoa (int i)) (it_nano it) pid (it_random it)"

definition benchmark_tx :: "KeyType \<Rightarrow> string \<Rightarrow> string \<Rightarrow> bytes res \<Rightarrow> SignTxMessage" where
  "benchmark_tx keyType walletID txID random =
     \<lparr>st_KeyType = keyType, st_WalletID = walletID, st_NetworkInternalCode = ''benchmark'', st_TxID = txID,
      st_Tx = Some (case random of Inl e \<Rightarrow> replicate 32 0 | Inr b \<Rightarrow> b), st_Signature = None, st_DerivationPath = [],
      st_AuthorizerSignatures = []\<rparr>"

definition runSignBenchmark ::
  "(SigningResultEvent \<times> int) bench_env \<Rightarrow> bench_flags \<Rightarrow> KeyType \<Rightarrow> string \<Rightarrow> string list \<Rightarrow> disk \<Rightarrow> bench_end outcome" where
  "runSignBenchmark env fl keyType keyTypeName args d =
     (case args of
        numOps # walletID # _ \<Rightarrow>
          (case parseNumOps numOps of
             Inl e \<Rightarrow> Returns (d, Some e)
           | Inr n \<Rightarrow>
               with_client env d (\<lambda>c.
               bind_out (totalBatches n (bf_batchSize fl)) (\<lambda>batches.
               after_listen env d (
               bind_out (run_turns env sign_arrival (sign_id keyTypeName (be_pid env))
                   (\<lambda>i it. err_of (SignTransaction (it_net it) c
                      (benchmark_tx keyType walletID (sign_id keyTypeName (be_pid env) i it) (it_data it))))
                   (batch_indices n (bf_batchSize fl) batches)) (\<lambda>tk.
               bench_report env (keyTypeName @ '' Signing'')
                 (calculateBenchmarkResult (tk_results tk) (be_totalTime env) (bf_batchSize fl) (be_batchTimes env))
                 (bf_output fl) d)))))
      | _ \<Rightarrow> Returns (d, Some (ENew ''missing required arguments: num_operations and wallet_id'')))"

definition runECDSASignBenchmark ::
  "(SigningResultEvent \<times> int) bench_env \<Rightarrow> bench_flags \<Rightarrow> string list \<Rightarrow> disk \<Rightarrow> bench_end outcome" where
  "runECDSASignBenchmark env fl args d = runSignBenchmark env fl KeyTypeSecp256k1 ''ECDSA'' args d"

definition runEdDSASignBenchmark ::
  "(SigningResultEvent \<times> int) bench_env \<Rightarrow> bench_flags \<Rightarrow> string list \<Rightarrow> disk \<Rightarrow> bench_end outcome" where
  "runEdDSASignBenchmark env fl args d = runSignBenchmark env fl KeyTypeEd25519 ''EdDSA'' args d"

definition reshare_session :: "int \<Rightarrow> nat \<Rightarrow> 'ev turn \<Rightarrow> string" where
  "reshare_session pid i it = generateUniqueID (''benchmark-reshare-'' @ itoa (int i)) (it_nano it) pid (it_random it)"

definition runReshareBenchmark ::
  "(ResharingResultEvent \<times> int) bench_env \<Rightarrow> bench_flags \<Rightarrow> string list \<Rightarrow> disk \<Rightarrow> bench_end outcome" where
  "runReshareBenchmark env fl args d =
     (case args of
        numOps # walletID # _ \<Rightarrow>
          (case parseNumOps numOps of
             Inl e \<Rightarrow> Returns (d, Some e)
           | Inr n \<Rightarrow>
               if bf_nodeIDs fl = [] then Returns (d, Some (ENew ''node-ids are required for resharing benchmark''))
               else
                 with_client env d (\<lambda>c.
                 after_listen env d (
                 bind_out (run_turns env reshare_arrival (\<lambda>i it. walletID @ ''-'' @ itoa (int i))
                     (\<lambda>i it. err_of (client_Resharing (it_net it) c
                        \<lparr>rs_SessionID = reshare_session (be_pid env) i it, rs_NodeIDs = Some (bf_nodeIDs fl),
                         rs_NewThreshold = bf_newThreshold fl, rs_KeyType = KeyTypeSecp256k1, rs_WalletID = walletID,
                         rs_Signature = None, rs_AuthorizerSignatures = []\<rparr>))
                     [0..<n]) (\<lambda>tk.
                 bench_report env ''Reshare'' (calculateBenchmarkResult (tk_results tk) (be_totalTime env) 1 [be_totalTime env])
                   (bf_output fl) d))))
      | _ \<Rightarrow> Returns (d, Some (ENew ''missing required arguments: num_operations and wallet_id'')))"

end
