(* ===== verification/Benchmark_Properties.thy ===== *)
theory Benchmark_Properties
  imports Benchmark
begin

text \<open>
  The counts of a benchmark: the wait group counts the pending operations, so the wait ends early only
  when every operation has its result; every operation is sent once, whatever the size of a batch; and
  the report accounts for all of them.
\<close>

section \<open>The wait group\<close>

definition pending :: "OperationResult list \<Rightarrow> nat" where
  "pending rs = length (filter (\<lambda>r. \<not> op_Completed r) rs)"

lemma pending_simps [simp]:
  "pending [] = 0"
  "pending (r # rs) = (if op_Completed r then 0 else 1) + pending rs"
  "pending (rs @ ss) = pending rs + pending ss"
  by (simp_all add: pending_def)

lemma pending_0: "pending rs = 0 \<longleftrightarrow> (\<forall>r \<in> set rs. op_Completed r)"
  by (auto simp: pending_def filter_empty_conv)

definition counted :: "tracker \<Rightarrow> bool" where
  "counted tk \<longleftrightarrow> tk_wg tk = pending (tk_results tk)"

text \<open>What a step of the listener may do: complete one pending operation.\<close>

definition settles :: "(OperationResult \<Rightarrow> OperationResult) \<Rightarrow> bool" where
  "settles f \<longleftrightarrow> (\<forall>r. op_Completed (f r) \<and> op_ID (f r) = op_ID r)"

lemma settles_completed [simp]: "settles (completed now ok reason code)"
  by (simp add: settles_def completed_def Let_def)

lemma settle_pending:
  assumes "settle m f rs = Some rs'" and "settles f"
  shows "pending rs = Suc (pending rs') \<and> map op_ID rs' = map op_ID rs"
  using assms by (induction rs arbitrary: rs') (auto simp: settles_def split: if_splits)

lemma on_arrival_counted:
  assumes "counted tk" and "settles f"
  shows "\<exists>tk'. on_arrival m f tk = Returns tk' \<and> counted tk' \<and> map op_ID (tk_results tk') = map op_ID (tk_results tk)"
proof (cases "settle m f (tk_results tk)")
  case None
  with assms show ?thesis by (simp add: on_arrival_def)
next
  case (Some rs)
  with settle_pending [OF Some assms(2)] assms(1) show ?thesis
    by (simp add: on_arrival_def wg_Done_def counted_def)
qed

text \<open>A listener keeps the counter right.\<close>

definition keeps_count :: "('ev \<Rightarrow> tracker \<Rightarrow> tracker outcome) \<Rightarrow> bool" where
  "keeps_count arrive \<longleftrightarrow> (\<forall>ev tk. counted tk \<longrightarrow>
     (\<exists>tk'. arrive ev tk = Returns tk' \<and> counted tk' \<and> map op_ID (tk_results tk') = map op_ID (tk_results tk)))"

lemma listeners_keep_count: "keeps_count keygen_arrival" "keeps_count sign_arrival" "keeps_count reshare_arrival"
  by (auto simp: keeps_count_def keygen_arrival_def sign_arrival_def reshare_arrival_def intro!: on_arrival_counted)

lemma arrivals_counted:
  assumes "keeps_count arrive" and "counted tk"
  shows "\<exists>tk'. arrivals arrive evs tk = Returns tk' \<and> counted tk' \<and> map op_ID (tk_results tk') = map op_ID (tk_results tk)"
  using assms(2)
proof (induction evs arbitrary: tk)
  case (Cons ev evs)
  from assms(1) Cons.prems obtain tk1 where "arrive ev tk = Returns tk1" "counted tk1"
    "map op_ID (tk_results tk1) = map op_ID (tk_results tk)"
    unfolding keeps_count_def by metis
  with Cons.IH [of tk1] show ?case by auto
qed simp

lemma publish_failed_counted:
  assumes "counted tk" and "i < length (tk_results tk)" and "\<not> op_Completed (tk_results tk ! i)"
  shows "\<exists>tk'. publish_failed i now e tk = Returns tk' \<and> counted tk' \<and> map op_ID (tk_results tk') = map op_ID (tk_results tk)"
proof -
  let ?r = "(tk_results tk ! i)\<lparr>op_Completed := True, op_Success := False, op_ErrorReason := Error e, op_EndTime := Some now\<rparr>"
  have split: "tk_results tk = take i (tk_results tk) @ tk_results tk ! i # drop (Suc i) (tk_results tk)"
    using assms(2) by (rule id_take_nth_drop)
  have upd: "(tk_results tk)[i := ?r] = take i (tk_results tk) @ ?r # drop (Suc i) (tk_results tk)"
    using assms(2) by (rule upd_conv_take_nth_drop)
  have "pending (tk_results tk) = Suc (pending ((tk_results tk)[i := ?r]))"
    unfolding upd by (subst split) (simp add: assms(3))
  moreover have "map op_ID ((tk_results tk)[i := ?r]) = map op_ID (tk_results tk)"
    by (simp add: map_update) (metis assms(2) length_map list_update_id nth_map)
  ultimately show ?thesis using assms(1,2) by (simp add: publish_failed_def wg_Done_def counted_def)
qed

text \<open>
  A publication that fails after its result has arrived would count its operation twice; the runs below
  exclude it.
\<close>

lemma late_failure_miscounts:
  assumes "counted tk" and "i < length (tk_results tk)" and "op_Completed (tk_results tk ! i)"
  shows "case publish_failed i now e tk of
           Returns tk' \<Rightarrow> Suc (tk_wg tk') = pending (tk_results tk')
         | Aborts _ \<Rightarrow> pending (tk_results tk) = 0"
proof -
  let ?r = "(tk_results tk ! i)\<lparr>op_Completed := True, op_Success := False, op_ErrorReason := Error e, op_EndTime := Some now\<rparr>"
  have split: "tk_results tk = take i (tk_results tk) @ tk_results tk ! i # drop (Suc i) (tk_results tk)"
    using assms(2) by (rule id_take_nth_drop)
  have upd: "(tk_results tk)[i := ?r] = take i (tk_results tk) @ ?r # drop (Suc i) (tk_results tk)"
    using assms(2) by (rule upd_conv_take_nth_drop)
  have "pending (tk_results tk) = pending ((tk_results tk)[i := ?r])"
    unfolding upd by (subst split) (simp add: assms(3))
  with assms(1,2) show ?thesis by (auto simp: publish_failed_def wg_Done_def counted_def)
qed

section \<open>A run\<close>

definition failures_are_early :: "(nat \<Rightarrow> 'ev turn \<Rightarrow> gerror option) \<Rightarrow> (nat \<times> 'ev turn) list \<Rightarrow> bool" where
  "failures_are_early publish its \<longleftrightarrow> (\<forall>(i, it) \<in> set its. publish i it \<noteq> None \<longrightarrow> it_early it = [])"

lemma add_operation_counted:
  assumes "counted tk"
  shows "counted (add_operation i start tk)"
    and "map op_ID (tk_results (add_operation i start tk)) = map op_ID (tk_results tk) @ [i]"
  using assms by (simp_all add: counted_def add_operation_def)

lemma bench_turn_counted:
  assumes "keeps_count arrive" and "counted tk" and "i = length (tk_results tk)"
    and "publish i it \<noteq> None \<longrightarrow> it_early it = []"
  shows "\<exists>tk'. bench_turn arrive mkID publish i it tk = Returns tk' \<and> counted tk' \<and>
           map op_ID (tk_results tk') = map op_ID (tk_results tk) @ [mkID i it]"
proof -
  let ?tk = "add_operation (mkID i it) (it_start it) tk"
  note add = add_operation_counted [OF assms(2), of "mkID i it" "it_start it"]
  obtain tk1 where tk1: "arrivals arrive (it_early it) ?tk = Returns tk1" "counted tk1"
      "map op_ID (tk_results tk1) = map op_ID (tk_results tk) @ [mkID i it]"
    using arrivals_counted [OF assms(1) add(1), of "it_early it"] add(2) by auto
  have "\<exists>tk2. (case publish i it of None \<Rightarrow> Returns tk1 | Some e \<Rightarrow> publish_failed i (it_failed it) e tk1) = Returns tk2 \<and>
      counted tk2 \<and> map op_ID (tk_results tk2) = map op_ID (tk_results tk) @ [mkID i it]"
  proof (cases "publish i it")
    case None
    with tk1 show ?thesis by simp
  next
    case (Some e)
    with assms(4) tk1(1) have "tk1 = ?tk" by simp
    then have "i < length (tk_results tk1)" and "\<not> op_Completed (tk_results tk1 ! i)"
      using assms(3) by (simp_all add: add_operation_def)
    with publish_failed_counted [OF tk1(2), of i "it_failed it" e] Some tk1(3) show ?thesis by simp
  qed
  then obtain tk2 where tk2: "(case publish i it of None \<Rightarrow> Returns tk1 | Some e \<Rightarrow> publish_failed i (it_failed it) e tk1) = Returns tk2"
      "counted tk2" "map op_ID (tk_results tk2) = map op_ID (tk_results tk) @ [mkID i it]" by blast
  with arrivals_counted [OF assms(1) tk2(2), of "it_late it"] tk1(1) show ?thesis
    by (auto simp: bench_turn_def)
qed

lemma bench_turns_counted:
  assumes "keeps_count arrive" and "counted tk" and "failures_are_early publish (zip [length (tk_results tk)..<n] its)"
  shows "\<exists>tk'. bench_turns arrive mkID publish (zip [length (tk_results tk)..<n] its) tk = Returns tk' \<and> counted tk' \<and>
           map op_ID (tk_results tk') = map op_ID (tk_results tk) @ map (\<lambda>(i, it). mkID i it) (zip [length (tk_results tk)..<n] its)"
  using assms(2,3)
proof (induction its arbitrary: tk)
  case (Cons it its)
  let ?k = "length (tk_results tk)"
  show ?case
  proof (cases "?k < n")
    case True
    then have upt: "[?k..<n] = ?k # [Suc ?k..<n]" by (rule upt_conv_Cons)
    with Cons.prems(2) have "publish ?k it \<noteq> None \<longrightarrow> it_early it = []"
      and rest: "failures_are_early publish (zip [Suc ?k..<n] its)"
      by (auto simp: failures_are_early_def)
    then obtain tk1 where tk1: "bench_turn arrive mkID publish ?k it tk = Returns tk1" "counted tk1"
        "map op_ID (tk_results tk1) = map op_ID (tk_results tk) @ [mkID ?k it]"
      using bench_turn_counted [OF assms(1) Cons.prems(1), where i = ?k] by blast
    then have "length (tk_results tk1) = Suc ?k" by (metis length_append_singleton length_map)
    with Cons.IH [OF tk1(2)] rest tk1 upt show ?thesis by auto
  qed (use Cons.prems in simp)
qed simp

lemma bench_wait_counted:
  assumes "keeps_count arrive" and "counted tk"
  shows "\<exists>tk'. bench_wait arrive evs tk = Returns tk' \<and> counted tk' \<and> map op_ID (tk_results tk') = map op_ID (tk_results tk)"
  using assms(2)
proof (induction evs arbitrary: tk)
  case (Cons ev evs)
  from assms(1) Cons.prems obtain tk1 where "arrive ev tk = Returns tk1" "counted tk1"
    "map op_ID (tk_results tk1) = map op_ID (tk_results tk)"
    unfolding keeps_count_def by metis
  with Cons.IH [of tk1] Cons.prems show ?case by auto
qed simp

text \<open>
  A run of \<open>n\<close> turns never drives the counter below zero, tracks one operation for each turn in the order
  of the turns, and leaves the counter at zero exactly when every operation is completed.
\<close>

lemma benchmark_accounts:
  assumes "keeps_count arrive" and "length (be_turns env) = n"
    and "failures_are_early publish (zip [0..<n] (be_turns env))"
  shows "\<exists>tk. run_turns env arrive mkID publish [0..<n] = Returns tk \<and>
    map op_ID (tk_results tk) = map (\<lambda>(i, it). mkID i it) (zip [0..<n] (be_turns env)) \<and>
    (tk_wg tk = 0 \<longleftrightarrow> (\<forall>r \<in> set (tk_results tk). op_Completed r))"
proof -
  have start: "counted new_tracker" "tk_results new_tracker = []" by (simp_all add: counted_def new_tracker_def)
  obtain tk1 where tk1: "bench_turns arrive mkID publish (zip [0..<n] (be_turns env)) new_tracker = Returns tk1" "counted tk1"
      "map op_ID (tk_results tk1) = map (\<lambda>(i, it). mkID i it) (zip [0..<n] (be_turns env))"
    using bench_turns_counted [OF assms(1) start(1), of publish n "be_turns env" mkID] assms(3) start(2) by auto
  obtain tk where "bench_wait arrive (be_tail env) tk1 = Returns tk" "counted tk"
      "map op_ID (tk_results tk) = map op_ID (tk_results tk1)"
    using bench_wait_counted [OF assms(1) tk1(2)] by blast
  with tk1 show ?thesis by (auto simp: run_turns_def counted_def pending_0)
qed

section \<open>Batches\<close>

lemma upto_batches:
  assumes "0 < bs"
  shows "concat (map (\<lambda>k. [k * bs..min (k * bs + bs) n - 1]) [a..b - 1]) = (if a \<le> b then [a * bs..min (b * bs) n - 1] else [])"
proof (induction "nat (b - a)" arbitrary: a)
  case 0
  then show ?case by auto
next
  case (Suc m)
  then have ab: "a < b" by simp
  then have "[a..b - 1] = a # [a + 1..b - 1]" by (simp add: upto_rec1)
  moreover have "concat (map (\<lambda>k. [k * bs..min (k * bs + bs) n - 1]) [a + 1..b - 1]) = [(a + 1) * bs..min (b * bs) n - 1]"
    using Suc(1) [of "a + 1"] Suc(2) ab by simp
  moreover have "[a * bs..min (a * bs + bs) n - 1] @ [(a + 1) * bs..min (b * bs) n - 1] = [a * bs..min (b * bs) n - 1]"
  proof (cases "a * bs + bs \<le> n")
    case True
    have le: "(a + 1) * bs \<le> b * bs" using ab assms by (intro mult_right_mono) simp_all
    have "[a * bs..min (b * bs) n - 1] = [a * bs..(a + 1) * bs - 1] @ [(a + 1) * bs..min (b * bs) n - 1]"
    proof (cases "(a + 1) * bs \<le> min (b * bs) n - 1")
      case True
      then show ?thesis using upto_split1 [of "a * bs" "(a + 1) * bs" "min (b * bs) n - 1"] assms
        by (simp add: algebra_simps)
    next
      case False
      then have "min (b * bs) n = (a + 1) * bs" using le True by (simp add: algebra_simps min_def split: if_splits)
      then show ?thesis by simp
    qed
    then show ?thesis using True by (simp add: algebra_simps min_def)
  next
    case False
    have "(a + 1) * bs \<le> b * bs" using ab assms by (intro mult_right_mono) simp_all
    with False have "min (b * bs) n = n" and "\<not> (a + 1) * bs \<le> n - 1" by (simp_all add: algebra_simps)
    then show ?thesis using False by simp
  qed
  ultimately show ?case using ab by simp
qed

text \<open>With a positive size the batches are the numbers of all operations in order; a batch of size zero panics.\<close>

lemma batches_cover:
  assumes "0 < bs"
  shows "\<exists>k. totalBatches n bs = Returns k \<and> batch_indices n bs k = [0..<n]"
proof -
  let ?k = "(int n + bs - 1) div bs"
  have "int n \<le> ?k * bs"
  proof -
    have "int n + bs - 1 = ?k * bs + (int n + bs - 1) mod bs" by simp
    moreover have "(int n + bs - 1) mod bs \<le> bs - 1" using assms by (simp add: pos_mod_bound zle_diff1_eq)
    ultimately show ?thesis by linarith
  qed
  then have m: "min (?k * bs) (int n) = int n" by simp
  have "0 \<le> ?k" using assms by (simp add: pos_imp_zdiv_nonneg_iff)
  then have "concat (map (\<lambda>k. [k * bs..min (k * bs + bs) (int n) - 1]) [0..?k - 1]) = [0..int n - 1]"
    using upto_batches [OF assms, of "int n" 0 ?k] m by simp
  then have "batch_indices n bs ?k = map nat [0..int n - 1]"
    by (simp add: batch_indices_def batch_range_def)
  also have "\<dots> = [0..<n]"
    by (rule nth_equalityI) (simp_all add: nth_upto)
  finally show ?thesis using assms by (simp add: totalBatches_def)
qed

section \<open>The report\<close>

lemma calculate_accounts:
  assumes "r = calculateBenchmarkResult results totalTime bs bt"
  shows "br_SuccessfulOps r + br_FailedOps r = br_TotalOperations r"
    and "int (length (br_OperationTimes r)) \<le> br_SuccessfulOps r" and "sorted (br_OperationTimes r)"
proof -
  have len: "length (operation_times results) \<le> length (filter succeeded results)"
    by (induction results) (auto split: option.splits)
  show "br_SuccessfulOps r + br_FailedOps r = br_TotalOperations r"
    using sum_length_filter_compl [of succeeded results] assms by (simp add: calculateBenchmarkResult_def Let_def)
  show "int (length (br_OperationTimes r)) \<le> br_SuccessfulOps r" "sorted (br_OperationTimes r)"
    using len assms by (simp_all add: calculateBenchmarkResult_def Let_def)
qed

lemma median_bounds:
  assumes "sorted ts" and "ts \<noteq> []" and "\<forall>t \<in> set ts. 0 \<le> t"
  shows "hd ts \<le> median_time ts \<and> median_time ts \<le> last ts"
proof -
  let ?n = "length ts"
  have n: "0 < ?n" using assms(2) by simp
  have lo: "hd ts \<le> ts ! i" and hi: "ts ! i \<le> last ts" if "i < ?n" for i
    using sorted_nth_mono [OF assms(1), of 0 i] sorted_nth_mono [OF assms(1), of i "?n - 1"] that n
    by (simp_all add: hd_conv_nth last_conv_nth assms(2))
  show ?thesis
  proof (cases "even ?n")
    case True
    let ?a = "ts ! (?n div 2 - 1)" and ?b = "ts ! (?n div 2)"
    have i: "?n div 2 - 1 < ?n" "?n div 2 < ?n" using n by linarith+
    then have "0 \<le> ?a" "0 \<le> ?b" using assms(3) by (meson nth_mem)+
    then have "median_time ts = (?a + ?b) div 2" using True n by (simp add: median_time_def Let_def)
    with lo [OF i(1)] lo [OF i(2)] hi [OF i(1)] hi [OF i(2)] show ?thesis by linarith
  next
    case False
    have "?n div 2 < ?n" using n by simp
    with lo hi False n show ?thesis by (simp add: median_time_def Let_def)
  qed
qed

text \<open>
  The analysis of the first operations reads the sorted times, so it is that of the fastest ones: its
  fastest and slowest are the first and the last of them.
\<close>

lemma foldl_min_sorted: "sorted (x # xs) \<Longrightarrow> foldl min x xs = (x::int)"
  by (induction xs) (auto simp: min_def)

lemma first_n_are_fastest:
  assumes "sorted (x # xs)"
  shows "foldl min (hd (x # xs)) (x # xs) = (x::int)"
  using foldl_min_sorted [OF assms] by simp

end
