(* ===== verification/Authorizers.thy ===== *)
theory Authorizers
  imports Signer_Properties Request_Properties
begin

text \<open>
  Requests with authorizers, as the two example programs make them (\<^verbatim>\<open>examples/authorizers/generate\<close>,
  \<^verbatim>\<open>examples/authorizers/sign\<close>): the initiator signs the payload, every authorizer signs the payload with
  that signature, and the client signs the payload again when it publishes. The property joins the
  programs with the client and the check of a node.
\<close>

section \<open>The programs\<close>

definition authorizer_key_path :: "string \<Rightarrow> string" where
  "authorizer_key_path authorizerID = ''./'' @ authorizerID @ ''.authorizer.key''"

fun load_authorizer_signers ::
  "('k, 'p) private_keys \<Rightarrow> files \<Rightarrow> age \<Rightarrow> string list \<Rightarrow> (string \<times> 'p LocalSigner) list outcome" where
  "load_authorizer_signers pr F A [] = Returns []"
| "load_authorizer_signers pr F A (i # ids) =
     bind_out (NewLocalSigner pr F A EventInitiatorKeyTypeEd25519
         \<lparr>lo_KeyPath = authorizer_key_path i, lo_Encrypted = False, lo_Password = []\<rparr>) (\<lambda>r.
       case r of
         Inl e \<Rightarrow> Aborts (''Failed to create authorizer signer for '' @ i)
       | Inr s \<Rightarrow> bind_out (load_authorizer_signers pr F A ids) (\<lambda>ss. Returns ((i, s) # ss)))"

text \<open>The program that generates wallets leaves out an authorizer that fails to sign; the one that signs exits.\<close>

fun sign_or_skip ::
  "'k crypto \<Rightarrow> ('k, 'p) private_keys \<Rightarrow> bytes \<Rightarrow> (string \<times> 'p LocalSigner) list \<Rightarrow> AuthorizerSignature list outcome" where
  "sign_or_skip cr pr raw [] = Returns []"
| "sign_or_skip cr pr raw ((i, s) # auths) =
     bind_out (local_Sign cr pr s raw) (\<lambda>r.
     bind_out (sign_or_skip cr pr raw auths) (\<lambda>sigs.
       Returns (case r of Inl e \<Rightarrow> sigs | Inr sig \<Rightarrow> \<lparr>as_AuthorizerID = i, as_Signature = sig\<rparr> # sigs)))"

fun sign_or_fatal ::
  "'k crypto \<Rightarrow> ('k, 'p) private_keys \<Rightarrow> bytes \<Rightarrow> (string \<times> 'p LocalSigner) list \<Rightarrow> AuthorizerSignature list outcome" where
  "sign_or_fatal cr pr raw [] = Returns []"
| "sign_or_fatal cr pr raw ((i, s) # auths) =
     bind_out (local_Sign cr pr s raw) (\<lambda>r.
       case r of
         Inl e \<Rightarrow> Aborts (''Failed to sign with authorizer '' @ i)
       | Inr sig \<Rightarrow> bind_out (sign_or_fatal cr pr raw auths) (\<lambda>sigs.
           Returns (\<lparr>as_AuthorizerID = i, as_Signature = sig\<rparr> # sigs)))"

text \<open>One wallet; \<open>None\<close> when the initiator fails to sign, which is logged. The result is what is published.\<close>

definition create_authorized_wallet ::
  "'k crypto \<Rightarrow> ('k, 'p) private_keys \<Rightarrow> 'p LocalSigner \<Rightarrow> (string \<times> 'p LocalSigner) list \<Rightarrow>
   (string \<Rightarrow> bytes \<Rightarrow> headers \<Rightarrow> unit res) \<Rightarrow> mpcClient \<Rightarrow> string \<Rightarrow> (string \<times> bytes \<times> headers) res option outcome" where
  "create_authorized_wallet cr pr s auths publish c walletID =
     (let tempMsg = \<lparr>gk_WalletID = walletID, gk_Signature = None, gk_AuthorizerSignatures = []\<rparr> in
      bind_out (local_Sign cr pr s (Raw (GenerateKey tempMsg))) (\<lambda>r.
        case r of
          Inl e \<Rightarrow> Returns None
        | Inr signature \<Rightarrow>
            bind_out (sign_or_skip cr pr (ComposeAuthorizerRaw (GenerateKey (tempMsg\<lparr>gk_Signature := Some signature\<rparr>))) auths) (\<lambda>sigs.
              Returns (Some (CreateWalletWithAuthorizers publish c walletID sigs)))))"

definition sign_authorized_tx ::
  "'k crypto \<Rightarrow> ('k, 'p) private_keys \<Rightarrow> 'p LocalSigner \<Rightarrow> (string \<times> 'p LocalSigner) list \<Rightarrow>
   (string \<Rightarrow> bytes \<Rightarrow> headers \<Rightarrow> unit res) \<Rightarrow> mpcClient \<Rightarrow> SignTxMessage \<Rightarrow> (string \<times> bytes \<times> headers) outcome" where
  "sign_authorized_tx cr pr s auths publish c txMsg =
     bind_out (local_Sign cr pr s (Raw (SignTx txMsg))) (\<lambda>r.
       case r of
         Inl e \<Rightarrow> Aborts ''Failed to sign message''
       | Inr signature \<Rightarrow>
           (let signed_tx = txMsg\<lparr>st_Signature := Some signature\<rparr> in
            bind_out (sign_or_fatal cr pr (ComposeAuthorizerRaw (SignTx signed_tx)) auths) (\<lambda>sigs.
              case SignTransaction publish c (signed_tx\<lparr>st_AuthorizerSignatures := st_AuthorizerSignatures signed_tx @ sigs\<rparr>) of
                Inl e \<Rightarrow> Aborts ''SignTransaction failed''
              | Inr p \<Rightarrow> Returns p)))"

text \<open>The client of a local signer.\<close>

definition local_client :: "'k crypto \<Rightarrow> ('k, 'p) private_keys \<Rightarrow> 'p LocalSigner \<Rightarrow> string \<Rightarrow> mpcClient" where
  "local_client cr pr s clientID =
     \<lparr>mc_signer = (\<lambda>data. case local_Sign cr pr s data of Returns r \<Rightarrow> r | Aborts m \<Rightarrow> Inl (ENew m)), mc_clientID = clientID\<rparr>"

section \<open>Signatures of authorizers\<close>

definition ed25519_signer :: "('k, 'p) private_keys \<Rightarrow> 'p LocalSigner \<Rightarrow> bool" where
  "ed25519_signer pr s \<longleftrightarrow> local_ok pr s \<and> ls_keyType s = EventInitiatorKeyTypeEd25519"

lemma ed25519_signer_signs:
  assumes "private_keys_ok cr pr" and "ed25519_signer pr s"
  obtains k where "length k = 64" and "\<And>d. local_Sign cr pr s d = Returns (Inr (prim_Ed25519_Sign cr k d))"
    and "\<And>d. length (prim_Ed25519_Sign cr k d) = 64" and "\<And>d. prim_Ed25519_Verify cr (drop 32 k) d (prim_Ed25519_Sign cr k d)"
    and "local_PublicKey cr pr s = Inr (hex_Encode (drop 32 k))"
proof -
  from assms(2) obtain seed where k: "length seed = 32" "ls_ed25519Key s = Some (sg_NewKeyFromSeed pr seed)"
    and t: "ls_keyType s = EventInitiatorKeyTypeEd25519"
    by (auto simp: ed25519_signer_def local_ok_def)
  let ?k = "sg_NewKeyFromSeed pr seed"
  from assms(1) k(1) have key: "length ?k = 64" "\<And>d. length (prim_Ed25519_Sign cr ?k d) = 64"
    "\<And>d. prim_Ed25519_Verify cr (drop 32 ?k) d (prim_Ed25519_Sign cr ?k d)"
    unfolding private_keys_ok_def by blast+
  show ?thesis
    by (rule that [of ?k]) (use key k(2) t in \<open>simp_all add: local_Sign_def local_PublicKey_def ed25519_Sign_def\<close>)
qed

lemma loaded_signers:
  "load_authorizer_signers pr F A ids = Returns auths \<Longrightarrow> map fst auths = ids \<and> (\<forall>(i, s) \<in> set auths. ed25519_signer pr s)"
proof (induction ids arbitrary: auths)
  case (Cons i ids)
  let ?new = "NewLocalSigner pr F A EventInitiatorKeyTypeEd25519
    \<lparr>lo_KeyPath = authorizer_key_path i, lo_Encrypted = False, lo_Password = []\<rparr>"
  obtain r where r: "?new = Returns r" using Cons.prems by (cases ?new) simp_all
  then obtain s where s: "r = Inr s" using Cons.prems by (cases r) simp_all
  with Cons.prems r obtain ss where ss: "load_authorizer_signers pr F A ids = Returns ss" "auths = (i, s) # ss"
    by (auto simp: bind_out_Returns)
  with NewLocalSigner_ok [OF r [unfolded s]] Cons.IH [OF ss(1)] show ?case by (simp add: ed25519_signer_def)
qed simp

text \<open>Whoever signs with an Ed25519 key file signs always, so both loops collect the same signatures.\<close>

lemma collected_signatures:
  assumes "private_keys_ok cr pr" and "\<forall>(i, s) \<in> set auths. ed25519_signer pr s"
  shows "\<exists>sigs. sign_or_skip cr pr raw auths = Returns sigs \<and> sign_or_fatal cr pr raw auths = Returns sigs \<and>
    map as_AuthorizerID sigs = map fst auths \<and>
    (\<forall>sig \<in> set sigs. \<exists>s. (as_AuthorizerID sig, s) \<in> set auths \<and> local_Sign cr pr s raw = Returns (Inr (as_Signature sig)))"
  using assms(2)
proof (induction auths)
  case (Cons a auths)
  obtain i s where a: "a = (i, s)" by (cases a)
  with Cons.prems have "ed25519_signer pr s" by simp
  with assms(1) obtain k where "local_Sign cr pr s raw = Returns (Inr (prim_Ed25519_Sign cr k raw))"
    by (metis ed25519_signer_signs)
  with Cons a show ?case by fastforce
qed simp

lemma collected_valid:
  assumes "private_keys_ok cr pr" and "ed25519_signer pr s" and "local_Sign cr pr s raw = Returns (Inr (as_Signature sig))"
    and "map_of (ac_AuthorizerPublicKeys ac) (as_AuthorizerID sig) = Some m" and "ak_Algorithm m = AlgorithmEd25519"
    and "local_PublicKey cr pr s = Inr (ak_PublicKey m)"
  shows "authorizer_valid cr ac raw sig"
proof (rule ed25519_signer_signs [OF assms(1,2)])
  fix k assume k: "\<And>d. local_Sign cr pr s d = Returns (Inr (prim_Ed25519_Sign cr k d))" "length k = 64"
    "\<And>d. length (prim_Ed25519_Sign cr k d) = 64" "\<And>d. prim_Ed25519_Verify cr (drop 32 k) d (prim_Ed25519_Sign cr k d)"
    "local_PublicKey cr pr s = Inr (hex_Encode (drop 32 k))"
  with assms(3,6) have "as_Signature sig = prim_Ed25519_Sign cr k raw" "ak_PublicKey m = hex_Encode (drop 32 k)" by simp_all
  with assms(4,5) k show ?thesis by (simp add: authorizer_valid_def ParseEd25519_hex)
qed

section \<open>Accepted requests\<close>

text \<open>
  The keys that a node must know: the initiator's from its settings, and for each authorizer of the
  program an Ed25519 entry with the key that its file reports; the node requires no other authorizer.
\<close>

definition node_knows ::
  "('k, 'p) private_keys \<Rightarrow> 'k net \<Rightarrow> (string \<Rightarrow> string) \<Rightarrow> 'p LocalSigner \<Rightarrow> (string \<times> 'p LocalSigner) list \<Rightarrow> bool" where
  "node_knows pr nt viper s auths \<longleftrightarrow>
     (\<exists>pk. local_PublicKey (nt_crypto nt) pr s = Inr pk \<and> node_config viper EventInitiatorKeyTypeEd25519 pk) \<and>
     loadInitiatorKeys (nt_crypto nt) viper = Inr (fs_initiatorKey (nt_store nt)) \<and> keys_loaded nt \<and>
     (\<forall>(i, a) \<in> set auths. \<exists>m. map_of (ac_AuthorizerPublicKeys (fs_authConfig (nt_store nt))) i = Some m \<and>
        ak_Algorithm m = AlgorithmEd25519 \<and> local_PublicKey (nt_crypto nt) pr a = Inr (ak_PublicKey m)) \<and>
     set (ac_RequiredAuthorizers (fs_authConfig (nt_store nt))) \<subseteq> fst ` set auths"

lemma collected_authorized:
  assumes "private_keys_ok (nt_crypto nt) pr" and "ed25519_signer pr s" and "\<forall>(i, a) \<in> set auths. ed25519_signer pr a"
    and "node_knows pr nt viper s auths"
    and "local_Sign (nt_crypto nt) pr s (Raw msg) = Returns (Inr (sig_bytes (Sig msg)))"
    and "map as_AuthorizerID (GetAuthorizerSignatures msg) = map fst auths"
    and "\<forall>sig \<in> set (GetAuthorizerSignatures msg). \<exists>a. (as_AuthorizerID sig, a) \<in> set auths \<and>
          local_Sign (nt_crypto nt) pr a (ComposeAuthorizerRaw msg) = Returns (Inr (as_Signature sig))"
  shows "VerifyInitiatorMessage (nt_crypto nt) (nt_store nt) msg = Returns (Inr ()) \<and>
    AuthorizeInitiatorMessage (nt_crypto nt) (nt_store nt) msg = Returns (Inr ())"
proof -
  from assms(4) obtain pk where pk: "local_PublicKey (nt_crypto nt) pr s = Inr pk" "node_config viper EventInitiatorKeyTypeEd25519 pk"
    and load: "loadInitiatorKeys (nt_crypto nt) viper = Inr (fs_initiatorKey (nt_store nt))" and keys: "keys_loaded nt"
    and known: "\<forall>(i, a) \<in> set auths. \<exists>m. map_of (ac_AuthorizerPublicKeys (fs_authConfig (nt_store nt))) i = Some m \<and>
        ak_Algorithm m = AlgorithmEd25519 \<and> local_PublicKey (nt_crypto nt) pr a = Inr (ak_PublicKey m)"
    and req: "set (ac_RequiredAuthorizers (fs_authConfig (nt_store nt))) \<subseteq> fst ` set auths"
    unfolding node_knows_def by blast
  have s: "local_ok pr s" "local_Algorithm s = EventInitiatorKeyTypeEd25519"
    using assms(2) by (simp_all add: ed25519_signer_def local_Algorithm_def)
  have "initiator_valid (nt_crypto nt) (fs_initiatorKey (nt_store nt)) (Raw msg) (sig_bytes (Sig msg))"
    using local_signed_valid [OF assms(1) s(1) pk(1) assms(5), of viper] pk(2) s(2) load by auto
  moreover have "authorizer_valid (nt_crypto nt) (fs_authConfig (nt_store nt)) (ComposeAuthorizerRaw msg) sig"
    if sig: "sig \<in> set (GetAuthorizerSignatures msg)" for sig
  proof -
    from assms(7) sig obtain a where a: "(as_AuthorizerID sig, a) \<in> set auths"
      "local_Sign (nt_crypto nt) pr a (ComposeAuthorizerRaw msg) = Returns (Inr (as_Signature sig))" by blast
    with known obtain m where m: "map_of (ac_AuthorizerPublicKeys (fs_authConfig (nt_store nt))) (as_AuthorizerID sig) = Some m"
      "ak_Algorithm m = AlgorithmEd25519" "local_PublicKey (nt_crypto nt) pr a = Inr (ak_PublicKey m)" by blast
    have "ed25519_signer pr a" using assms(3) a(1) by blast
    from collected_valid [OF assms(1) this a(2) m] show ?thesis .
  qed
  moreover have "as_AuthorizerID ` set (GetAuthorizerSignatures msg) = fst ` set auths"
    using arg_cong [OF assms(6), of set] by simp
  ultimately have "authorized nt msg" using req by (simp add: authorized_def)
  with authorized_iff [OF keys] show ?thesis by simp
qed

lemma tx_updates:
  "tx\<lparr>st_AuthorizerSignatures := sigs, st_Signature := sig\<rparr> = tx\<lparr>st_Signature := sig, st_AuthorizerSignatures := sigs\<rparr>"
  by simp

text \<open>
  (C11) What the two programs publish is accepted: with Ed25519 key files of the initiator and of the
  authorizers, and a node that knows their keys and requires no other authorizer, the published bytes
  decode to the request, carry a signature of each authorizer, and pass both checks of the node, although
  the client signs the request a second time after the authorizers. This rests on Ed25519 signing the
  same bytes the same way: with a P-256 key, which a node accepts as well, the second signature of the
  initiator differs from the one that the authorizers signed.
\<close>

theorem authorized_request_accepted:
  assumes "private_keys_ok (nt_crypto nt) pr"
    and "NewLocalSigner pr F A EventInitiatorKeyTypeEd25519 opts = Returns (Inr s)"
    and "load_authorizer_signers pr F A ids = Returns auths"
    and "node_knows pr nt viper s auths"
    and "c = local_client (nt_crypto nt) pr s clientID" and "st_AuthorizerSignatures tx = []"
  shows "(create_authorized_wallet (nt_crypto nt) pr s auths publish c walletID = Returns (Some (Inr (subj, wire, hdr))) \<longrightarrow>
      (\<exists>msg. json_Unmarshal GenerateKeyMessage_fields zero_GenerateKeyMessage wire = Inr msg \<and> gk_WalletID msg = walletID \<and>
         map as_AuthorizerID (gk_AuthorizerSignatures msg) = ids \<and>
         VerifyInitiatorMessage (nt_crypto nt) (nt_store nt) (GenerateKey msg) = Returns (Inr ()) \<and>
         AuthorizeInitiatorMessage (nt_crypto nt) (nt_store nt) (GenerateKey msg) = Returns (Inr ()))) \<and>
    (sign_authorized_tx (nt_crypto nt) pr s auths publish c tx = Returns (subj, wire, hdr) \<longrightarrow>
      (\<exists>msg. json_Unmarshal SignTxMessage_fields zero_SignTxMessage wire = Inr msg \<and>
         msg = tx\<lparr>st_Signature := st_Signature msg, st_AuthorizerSignatures := st_AuthorizerSignatures msg\<rparr> \<and>
         map as_AuthorizerID (st_AuthorizerSignatures msg) = ids \<and>
         VerifyInitiatorMessage (nt_crypto nt) (nt_store nt) (SignTx msg) = Returns (Inr ()) \<and>
         AuthorizeInitiatorMessage (nt_crypto nt) (nt_store nt) (SignTx msg) = Returns (Inr ())))"
proof -
  let ?cr = "nt_crypto nt"
  have s: "ed25519_signer pr s" using NewLocalSigner_ok [OF assms(2)] by (simp add: ed25519_signer_def)
  note auths = loaded_signers [OF assms(3)]
  obtain k where k: "\<And>d. local_Sign ?cr pr s d = Returns (Inr (prim_Ed25519_Sign ?cr k d))"
    using ed25519_signer_signs [OF assms(1) s] by metis
  note accepted = collected_authorized [OF assms(1) s conjunct2 [OF auths] assms(4)]
  show ?thesis
  proof (intro conjI impI)
    let ?sig = "prim_Ed25519_Sign ?cr k (go_bytes walletID)"
    let ?temp = "\<lparr>gk_WalletID = walletID, gk_Signature = Some ?sig, gk_AuthorizerSignatures = []\<rparr>"
    obtain sigs where sigs: "sign_or_skip ?cr pr (ComposeAuthorizerRaw (GenerateKey ?temp)) auths = Returns sigs"
        "map as_AuthorizerID sigs = map fst auths"
        "\<forall>sig \<in> set sigs. \<exists>a. (as_AuthorizerID sig, a) \<in> set auths \<and>
           local_Sign ?cr pr a (ComposeAuthorizerRaw (GenerateKey ?temp)) = Returns (Inr (as_Signature sig))"
      using collected_signatures [OF assms(1) conjunct2 [OF auths]] by blast
    let ?msg = "\<lparr>gk_WalletID = walletID, gk_Signature = Some ?sig, gk_AuthorizerSignatures = sigs\<rparr>"
    have raw: "ComposeAuthorizerRaw (GenerateKey ?msg) = ComposeAuthorizerRaw (GenerateKey ?temp)"
      by (simp add: ComposeAuthorizerRaw_eq)
    assume run: "create_authorized_wallet ?cr pr s auths publish c walletID = Returns (Some (Inr (subj, wire, hdr)))"
    then have wire: "wire = json_Marshal (enc_GenerateKeyMessage ?msg)"
      using sigs(1) assms(5)
      by (simp add: create_authorized_wallet_def k CreateWalletWithAuthorizers_def publish_request_ok local_client_def)
    show "\<exists>msg. json_Unmarshal GenerateKeyMessage_fields zero_GenerateKeyMessage wire = Inr msg \<and> gk_WalletID msg = walletID \<and>
        map as_AuthorizerID (gk_AuthorizerSignatures msg) = ids \<and>
        VerifyInitiatorMessage ?cr (nt_store nt) (GenerateKey msg) = Returns (Inr ()) \<and>
        AuthorizeInitiatorMessage ?cr (nt_store nt) (GenerateKey msg) = Returns (Inr ())"
      using accepted [of "GenerateKey ?msg"] sigs(2,3) auths raw
      by (intro exI [of _ ?msg]) (simp add: wire Unmarshal_GenerateKeyMessage k sig_bytes_def)
  next
    let ?sig = "prim_Ed25519_Sign ?cr k (Raw (SignTx tx))"
    let ?temp = "tx\<lparr>st_Signature := Some ?sig\<rparr>"
    obtain sigs where sigs: "sign_or_fatal ?cr pr (ComposeAuthorizerRaw (SignTx ?temp)) auths = Returns sigs"
        "map as_AuthorizerID sigs = map fst auths"
        "\<forall>sig \<in> set sigs. \<exists>a. (as_AuthorizerID sig, a) \<in> set auths \<and>
           local_Sign ?cr pr a (ComposeAuthorizerRaw (SignTx ?temp)) = Returns (Inr (as_Signature sig))"
      using collected_signatures [OF assms(1) conjunct2 [OF auths]] by blast
    let ?msg = "tx\<lparr>st_Signature := Some ?sig, st_AuthorizerSignatures := sigs\<rparr>"
    have pay: "Raw (SignTx ?msg) = Raw (SignTx tx)" by (simp add: SignTx_payload_def)
    have raw: "ComposeAuthorizerRaw (SignTx ?msg) = ComposeAuthorizerRaw (SignTx ?temp)"
      by (simp add: ComposeAuthorizerRaw_eq SignTx_payload_def)
    assume run: "sign_authorized_tx ?cr pr s auths publish c tx = Returns (subj, wire, hdr)"
    then have "SignTransaction publish c ?msg = Inr (subj, wire, hdr)"
      using sigs(1) assms(6)
      by (simp add: sign_authorized_tx_def k Let_def split: sum.splits)
    then have wire: "wire = json_Marshal (enc_SignTxMessage ?msg)"
      using pay by (simp add: SignTransaction_def publish_request_ok assms(5) local_client_def k tx_updates)
    show "\<exists>msg. json_Unmarshal SignTxMessage_fields zero_SignTxMessage wire = Inr msg \<and>
        msg = tx\<lparr>st_Signature := st_Signature msg, st_AuthorizerSignatures := st_AuthorizerSignatures msg\<rparr> \<and>
        map as_AuthorizerID (st_AuthorizerSignatures msg) = ids \<and>
        VerifyInitiatorMessage ?cr (nt_store nt) (SignTx msg) = Returns (Inr ()) \<and>
        AuthorizeInitiatorMessage ?cr (nt_store nt) (SignTx msg) = Returns (Inr ())"
      using accepted [of "SignTx ?msg"] sigs(2,3) auths raw pay
      by (intro exI [of _ ?msg]) (simp add: wire Unmarshal_SignTxMessage k sig_bytes_def del: Raw.simps)
  qed
qed

text \<open>One authorizer whose key file equals that of the initiator.\<close>

lemma demo_authorizers_load:
  "load_authorizer_signers signer_keys demo_key_files plain_age [''ops''] = Returns [(''ops'', demo_local)]"
proof -
  have "NewLocalSigner signer_keys demo_key_files plain_age EventInitiatorKeyTypeEd25519
      \<lparr>lo_KeyPath = authorizer_key_path ''ops'', lo_Encrypted = False, lo_Password = []\<rparr> = Returns (Inr demo_local)"
    by (simp add: NewLocalSigner_def authorizer_key_path_def readKeyFile_def demo_key_files_def loadEd25519Key_def trim_hex_zeros
        ed25519_NewKeyFromSeed_def signer_keys_def demo_local_def Let_def suffix_def)
  then show ?thesis by simp
qed

lemma demo_local_key: "local_PublicKey demo_crypto signer_keys demo_local = Inr (hex_Encode (replicate 32 0))"
  by (simp add: local_PublicKey_def demo_local_def)

lemma demo_node_knows: "node_knows signer_keys (demo_net ''alice'') demo_viper_key demo_local [(''ops'', demo_local)]"
proof -
  have cfg: "node_config demo_viper_key EventInitiatorKeyTypeEd25519 (hex_Encode (replicate 32 0))"
    by (simp add: node_config_def demo_viper_key_def)
  have load: "loadInitiatorKeys demo_crypto demo_viper_key = Inr (fs_initiatorKey (demo_store ''alice''))"
    using load_ed25519 [OF cfg] by (simp add: demo_store_def EventInitiatorKeyTypeEd25519_def)
  have net: "nt_crypto (demo_net ''alice'') = demo_crypto" "nt_store (demo_net ''alice'') = demo_store ''alice''"
    by (simp_all add: demo_net_def)
  show ?thesis unfolding node_knows_def net
    using cfg load demo_local_key demo_keys_loaded [of "''alice''"]
    by (simp add: demo_store_def demo_auth_def AlgorithmEd25519_def)
qed

theorem authorized_request_accepted_witness:
  "\<exists>wire hdr msg.
     create_authorized_wallet demo_crypto signer_keys demo_local [(''ops'', demo_local)] (\<lambda>_ _ _. Inr ())
       (local_client demo_crypto signer_keys demo_local ''me'') ''w'' = Returns (Some (Inr (KeygenRequestTopic, wire, hdr))) \<and>
     json_Unmarshal GenerateKeyMessage_fields zero_GenerateKeyMessage wire = Inr msg \<and>
     map as_AuthorizerID (gk_AuthorizerSignatures msg) = [''ops''] \<and>
     AuthorizeInitiatorMessage demo_crypto (demo_store ''alice'') (GenerateKey msg) = Returns (Inr ())"
proof -
  let ?c = "local_client demo_crypto signer_keys demo_local ''me''"
  let ?nt = "demo_net ''alice''"
  have net: "nt_crypto ?nt = demo_crypto" "nt_store ?nt = demo_store ''alice''" by (simp_all add: demo_net_def)
  have sign: "local_Sign demo_crypto signer_keys demo_local d = Returns (Inr (demo_sign d))" for d
    by (simp add: local_Sign_def demo_local_def ed25519_Sign_def)
  obtain wire hdr where run: "create_authorized_wallet demo_crypto signer_keys demo_local [(''ops'', demo_local)] (\<lambda>_ _ _. Inr ()) ?c ''w'' =
      Returns (Some (Inr (KeygenRequestTopic, wire, hdr)))"
    by (simp add: create_authorized_wallet_def sign CreateWalletWithAuthorizers_def publish_request_def local_client_def Let_def)
  have ok: "private_keys_ok (nt_crypto ?nt) signer_keys" using signer_keys_ok net by simp
  have none: "st_AuthorizerSignatures (demo_tx ''ed25519'') = []" by (simp add: demo_tx_def)
  have "create_authorized_wallet demo_crypto signer_keys demo_local [(''ops'', demo_local)] (\<lambda>_ _ _. Inr ()) ?c ''w'' =
      Returns (Some (Inr (KeygenRequestTopic, wire, hdr))) \<longrightarrow>
    (\<exists>msg. json_Unmarshal GenerateKeyMessage_fields zero_GenerateKeyMessage wire = Inr msg \<and> gk_WalletID msg = ''w'' \<and>
      map as_AuthorizerID (gk_AuthorizerSignatures msg) = [''ops''] \<and>
      VerifyInitiatorMessage demo_crypto (demo_store ''alice'') (GenerateKey msg) = Returns (Inr ()) \<and>
      AuthorizeInitiatorMessage demo_crypto (demo_store ''alice'') (GenerateKey msg) = Returns (Inr ()))"
    by (rule conjunct1 [OF authorized_request_accepted
          [OF ok demo_signer_loads demo_authorizers_load demo_node_knows refl none, unfolded net]])
  from mp [OF this run] obtain msg where
    m: "json_Unmarshal GenerateKeyMessage_fields zero_GenerateKeyMessage wire = Inr msg"
      "map as_AuthorizerID (gk_AuthorizerSignatures msg) = [''ops'']"
      "AuthorizeInitiatorMessage demo_crypto (demo_store ''alice'') (GenerateKey msg) = Returns (Inr ())" by metis
  show ?thesis by (intro exI conjI, rule run, rule m(1), rule m(2), rule m(3))
qed

end
