(* ===== verification/Child_Keys.thy ===== *)
theory Child_Keys
  imports Backups
begin

text \<open>
  \<^verbatim>\<open>pkg/ckdutil\<close>: the derivation of child public keys that clients run on their own, without the
  cluster. The two curves and HMAC-SHA512 are parameters; both functions of the source have the same
  loop, which differ in the reduction of the left half of the MAC.
\<close>

section \<open>Compressed points\<close>

definition paddedBytes :: "nat \<Rightarrow> bytes \<Rightarrow> bytes" where
  "paddedBytes n src = (if length src < n then replicate (n - length src) 0 @ src else src)"

definition serializeCompressed :: "nat \<Rightarrow> nat \<Rightarrow> bytes" where
  "serializeCompressed x y = (if odd y then 3 else 2) # paddedBytes 32 (nat_be x)"

lemma length_paddedBytes: "length src \<le> n \<Longrightarrow> length (paddedBytes n src) = n"
  by (simp add: paddedBytes_def)

lemma be_nat_paddedBytes [simp]: "be_nat (paddedBytes n src) = be_nat src"
  by (simp add: paddedBytes_def)

lemma length_serializeCompressed: "x < 2 ^ 256 \<Longrightarrow> length (serializeCompressed x y) = 33"
  using nat_be_length [of x 32] by (simp add: serializeCompressed_def length_paddedBytes)

text \<open>The encoding fixes the abscissa and the parity of the ordinate.\<close>

lemma serializeCompressed_inj:
  "serializeCompressed x y = serializeCompressed x' y' \<longleftrightarrow> x = x' \<and> (odd y \<longleftrightarrow> odd y')"
proof
  assume e: "serializeCompressed x y = serializeCompressed x' y'"
  then have "paddedBytes 32 (nat_be x) = paddedBytes 32 (nat_be x')" by (simp add: serializeCompressed_def)
  then have "be_nat (paddedBytes 32 (nat_be x)) = be_nat (paddedBytes 32 (nat_be x'))" by simp
  then have "x = x'" by simp
  with e show "x = x' \<and> (odd y \<longleftrightarrow> odd y')" by (auto simp: serializeCompressed_def split: if_splits)
qed (auto simp: serializeCompressed_def)

section \<open>The loop\<close>

text \<open>
  \<open>cc_Add\<close> is \<open>None\<close> where a coordinate of the sum is nil; \<open>cc_reduce\<close> is applied to the left half
  of the MAC: the identity on secp256k1, the remainder by the order on ed25519.
\<close>

record child_curve =
  cc_N :: nat
  cc_reduce :: "nat \<Rightarrow> nat"
  cc_ScalarBaseMult :: "bytes \<Rightarrow> nat \<times> nat"
  cc_Add :: "nat \<times> nat \<Rightarrow> nat \<times> nat \<Rightarrow> (nat \<times> nat) option"
  cc_HMAC :: "bytes \<Rightarrow> bytes \<Rightarrow> bytes"

definition hardenedKeyStart :: "32 word" where "hardenedKeyStart = 0x80000000"

definition child_data :: "nat \<times> nat \<Rightarrow> 32 word \<Rightarrow> bytes" where
  "child_data p index = take 33 (serializeCompressed (fst p) (snd p) @ replicate 33 0) @ be32 (unat index)"

definition child_num :: "child_curve \<Rightarrow> nat \<times> nat \<Rightarrow> bytes \<Rightarrow> 32 word \<Rightarrow> nat" where
  "child_num C p chainCode index = cc_reduce C (be_nat (take 32 (cc_HMAC C chainCode (child_data p index))))"

definition child_step :: "child_curve \<Rightarrow> (nat \<times> nat) \<times> bytes \<Rightarrow> 32 word \<Rightarrow> ((nat \<times> nat) \<times> bytes) res" where
  "child_step C s index =
     (let (p, chainCode) = s in
      if index \<ge> hardenedKeyStart then Inl (ENew (''hardened derivation not supported: '' @ show_nat (unat index)))
      else
        (let ilNum = child_num C p chainCode index in
         if ilNum = 0 \<or> ilNum \<ge> cc_N C then Inl (ENew (''invalid IL for index '' @ show_nat (unat index)))
         else (case cc_Add C p (cc_ScalarBaseMult C (nat_be ilNum)) of
                 None \<Rightarrow> Inl (ENew (''invalid child point at index '' @ show_nat (unat index)))
               | Some (x, y) \<Rightarrow>
                   if x = 0 \<or> y = 0 then Inl (ENew (''invalid child point at index '' @ show_nat (unat index)))
                   else Inr ((x, y), drop 32 (cc_HMAC C chainCode (child_data p index))))))"

fun child_path :: "child_curve \<Rightarrow> 32 word list \<Rightarrow> (nat \<times> nat) \<times> bytes \<Rightarrow> ((nat \<times> nat) \<times> bytes) res" where
  "child_path C [] s = Inr s"
| "child_path C (index # path) s = (case child_step C s index of Inl e \<Rightarrow> Inl e | Inr s' \<Rightarrow> child_path C path s')"

definition chain_code :: "string \<Rightarrow> bytes res" where
  "chain_code chainCodeHex =
     (case hex_Decode chainCodeHex of
        Inl e \<Rightarrow> Inl (EWrap ''decode chain code: '' e [])
      | Inr c \<Rightarrow> if length c \<noteq> 32 then Inl (ENew (''invalid chain code length: '' @ show_nat (length c))) else Inr c)"

section \<open>Child keys\<close>

definition DeriveSecp256k1ChildCompressed ::
  "child_curve \<Rightarrow> (bytes \<Rightarrow> (nat \<times> nat) res) \<Rightarrow> bytes \<Rightarrow> string \<Rightarrow> 32 word list \<Rightarrow> bytes res" where
  "DeriveSecp256k1ChildCompressed C parse masterPubKey chainCodeHex path =
     (if length masterPubKey \<noteq> 33 then Inl (ENew (''invalid master pubkey length: '' @ show_nat (length masterPubKey)))
      else (case parse masterPubKey of
              Inl e \<Rightarrow> Inl (EWrap ''decode master pubkey: '' e [])
            | Inr pub \<Rightarrow>
                bind_res (chain_code chainCodeHex) (\<lambda>c.
                bind_res (child_path C path (pub, c)) (\<lambda>(p, c'). Inr (serializeCompressed (fst p) (snd p))))))"

definition deriveEd25519ChildCompressed ::
  "child_curve \<Rightarrow> (nat \<times> nat \<Rightarrow> bytes) \<Rightarrow> (nat \<times> nat) option \<Rightarrow> string \<Rightarrow> 32 word list \<Rightarrow> bytes res" where
  "deriveEd25519ChildCompressed C serialize masterPub chainCodeHex path =
     (case masterPub of
        None \<Rightarrow> Inl (ENew ''invalid master public key'')
      | Some pub \<Rightarrow>
          bind_res (chain_code chainCodeHex) (\<lambda>c.
          bind_res (child_path C path (pub, c)) (\<lambda>(p, c'). Inr (serialize p))))"

definition DeriveEd25519ChildCompressed ::
  "child_curve \<Rightarrow> (bytes \<Rightarrow> (nat \<times> nat) res) \<Rightarrow> (nat \<times> nat \<Rightarrow> bytes) \<Rightarrow> bytes \<Rightarrow> string \<Rightarrow> 32 word list \<Rightarrow> bytes res" where
  "DeriveEd25519ChildCompressed C parse serialize masterPubKey chainCodeHex path =
     (if length masterPubKey = 0 then Inl (ENew ''master public key is empty'')
      else (case parse masterPubKey of
              Inl e \<Rightarrow> Inl (EWrap ''decode master pubkey: '' e [])
            | Inr pub \<Rightarrow> deriveEd25519ChildCompressed C serialize (Some pub) chainCodeHex path))"

section \<open>Paths\<close>

text \<open>A path may be derived in parts.\<close>

lemma child_path_append: "child_path C (p @ q) s = bind_res (child_path C p s) (child_path C q)"
  by (induction p arbitrary: s) (auto split: sum.splits)

text \<open>No path with a hardened index has a child.\<close>

lemma hardened_step: "index \<ge> hardenedKeyStart \<Longrightarrow> \<exists>e. child_step C s index = Inl e"
  by (cases s) (simp add: child_step_def)

lemma hardened_refused: "index \<in> set path \<Longrightarrow> index \<ge> hardenedKeyStart \<Longrightarrow> \<exists>e. child_path C path s = Inl e"
proof (induction path arbitrary: s)
  case (Cons i path)
  show ?case
  proof (cases "child_step C s i")
    case (Inr s')
    with hardened_step [of i C s] Cons.prems have "index \<in> set path" by (cases "i = index") auto
    with Cons.IH Cons.prems(2) Inr show ?thesis by simp
  qed simp
qed simp

text \<open>Where the MAC has 64 bytes, chain codes keep their length.\<close>

lemma child_path_chain:
  assumes "\<And>k m. length (cc_HMAC C k m) = 64"
  shows "child_path C path (p, c) = Inr (p', c') \<Longrightarrow> length c = 32 \<Longrightarrow> length c' = 32"
proof (induction path arbitrary: p c)
  case (Cons i path)
  from Cons.prems(1) obtain p1 c1 where s: "child_step C (p, c) i = Inr (p1, c1)" "child_path C path (p1, c1) = Inr (p', c')"
    by (auto split: sum.splits)
  from s(1) have "length c1 = 32" using assms by (auto simp: child_step_def Let_def split: if_splits option.splits)
  then show ?case using Cons.IH s(2) by blast
qed simp

section \<open>The shift of a child\<close>

text \<open>
  What the derivation relies on of a curve, for the points \<open>on\<close> it: \<open>G n\<close> is the \<open>n\<close>-fold of the base
  point, \<open>padd\<close> the addition of the group. Nothing is said of pairs that are no point of the curve.
\<close>

definition child_group ::
  "child_curve \<Rightarrow> (nat \<times> nat \<Rightarrow> bool) \<Rightarrow> (nat \<Rightarrow> nat \<times> nat) \<Rightarrow> (nat \<times> nat \<Rightarrow> nat \<times> nat \<Rightarrow> nat \<times> nat) \<Rightarrow> bool" where
  "child_group C on G padd \<longleftrightarrow>
     (\<forall>b. cc_ScalarBaseMult C b = G (be_nat b)) \<and>
     (\<forall>p m r. on p \<longrightarrow> cc_Add C p (G m) = Some r \<longrightarrow> r = padd p (G m)) \<and>
     (\<forall>p m. on p \<longrightarrow> on (padd p (G m))) \<and>
     (\<forall>p m n. on p \<longrightarrow> padd (padd p (G m)) (G n) = padd p (G (m + n)))"

text \<open>The sum of the left halves along a path, the tweak that the signers apply to their shares.\<close>

fun path_shift :: "child_curve \<Rightarrow> 32 word list \<Rightarrow> (nat \<times> nat) \<times> bytes \<Rightarrow> nat" where
  "path_shift C [] s = 0"
| "path_shift C (index # path) s =
     (case child_step C s index of
        Inl e \<Rightarrow> 0
      | Inr s' \<Rightarrow> child_num C (fst s) (snd s) index + path_shift C path s')"

lemma child_step_shift:
  assumes "child_group C on G padd" and "on p" and "child_step C (p, c) i = Inr (p', c')"
  shows "p' = padd p (G (child_num C p c i))" and "on p'"
proof -
  have "\<And>p m r. on p \<Longrightarrow> cc_Add C p (G m) = Some r \<Longrightarrow> r = padd p (G m)" "\<And>b. cc_ScalarBaseMult C b = G (be_nat b)"
    using assms(1) unfolding child_group_def by blast+
  with assms(2,3) show p': "p' = padd p (G (child_num C p c i))"
    by (auto simp: child_step_def Let_def split: if_splits option.splits prod.splits)
  from assms(1,2) show "on p'" unfolding p' child_group_def by blast
qed

lemma child_path_shift:
  assumes "child_group C on G padd"
  shows "child_path C path (p, c) = Inr (p', c') \<Longrightarrow> path \<noteq> [] \<Longrightarrow> on p \<Longrightarrow> p' = padd p (G (path_shift C path (p, c)))"
proof (induction path arbitrary: p c)
  case (Cons i path)
  from Cons.prems(1) obtain p1 c1 where s: "child_step C (p, c) i = Inr (p1, c1)" "child_path C path (p1, c1) = Inr (p', c')"
    by (auto split: sum.splits)
  note p1 = child_step_shift [OF assms Cons.prems(3) s(1)]
  show ?case
  proof (cases "path = []")
    case False
    have law: "padd (padd p (G m)) (G n) = padd p (G (m + n))" for m n
      using assms Cons.prems(3) unfolding child_group_def by blast
    from False Cons.IH [OF s(2) _ p1(2)] p1(1) s(1) show ?thesis by (simp add: law)
  qed (use s p1 in simp)
qed simp

lemma child_path_point:
  assumes "child_group C on G padd" and "child_path C path (pub, c) = Inr (p', c')" and "path \<noteq> []" and "on pub"
  shows "p' = padd pub (G (path_shift C path (pub, c))) \<and> (\<forall>i \<in> set path. i < hardenedKeyStart) \<and> fst p' \<noteq> 0 \<and> snd p' \<noteq> 0"
proof -
  have "i < hardenedKeyStart" if "i \<in> set path" for i
    using hardened_refused [OF that, of C "(pub, c)"] assms(2) by (cases "hardenedKeyStart \<le> i") auto
  moreover have "fst p' \<noteq> 0 \<and> snd p' \<noteq> 0"
  proof -
    obtain q i where q: "path = q @ [i]" using assms(3) rev_exhaust by blast
    from assms(2) obtain s where "child_path C [i] s = Inr (p', c')" unfolding q child_path_append bind_res_Inr by blast
    then have "child_step C s i = Inr (p', c')" by (cases "child_step C s i") simp_all
    then show ?thesis by (cases s) (auto simp: child_step_def Let_def split: if_splits option.splits)
  qed
  ultimately show ?thesis using child_path_shift [OF assms] by blast
qed

text \<open>
  (C17) On secp256k1 and on ed25519, a child key is the master key shifted by a multiple of the base
  point that the master key, the chain code and the path determine, never with a coordinate that is
  zero; a path with a hardened index has no child. The curve follows the laws of its group on its own
  points, and a decoded key is such a point.
\<close>

theorem child_is_shifted:
  assumes "child_group C on G padd" and "\<And>b p. parse b = Inr p \<Longrightarrow> on p" and "path \<noteq> []"
  shows "(DeriveSecp256k1ChildCompressed C parse master chainCodeHex path = Inr key \<longrightarrow>
      (\<exists>pub c. parse master = Inr pub \<and> hex_Decode chainCodeHex = Inr c \<and> length c = 32 \<and>
        (\<forall>i \<in> set path. i < hardenedKeyStart) \<and>
        (let child = padd pub (G (path_shift C path (pub, c))) in
           key = serializeCompressed (fst child) (snd child) \<and> fst child \<noteq> 0 \<and> snd child \<noteq> 0))) \<and>
    (DeriveEd25519ChildCompressed C parse serialize master chainCodeHex path = Inr key \<longrightarrow>
      (\<exists>pub c. parse master = Inr pub \<and> hex_Decode chainCodeHex = Inr c \<and> length c = 32 \<and>
        (\<forall>i \<in> set path. i < hardenedKeyStart) \<and>
        (let child = padd pub (G (path_shift C path (pub, c))) in
           key = serialize child \<and> fst child \<noteq> 0 \<and> snd child \<noteq> 0)))"
proof (intro conjI impI)
  assume d: "DeriveSecp256k1ChildCompressed C parse master chainCodeHex path = Inr key"
  then obtain pub where pub: "parse master = Inr pub"
    by (auto simp: DeriveSecp256k1ChildCompressed_def split: if_splits sum.splits)
  with d obtain c p' c' where "hex_Decode chainCodeHex = Inr c" "length c = 32" "child_path C path (pub, c) = Inr (p', c')"
    "key = serializeCompressed (fst p') (snd p')"
    by (fastforce simp: DeriveSecp256k1ChildCompressed_def chain_code_def bind_res_Inr split: if_splits sum.splits)
  with pub child_path_point [OF assms(1) _ assms(3) assms(2) [OF pub]]
  show "\<exists>pub c. parse master = Inr pub \<and> hex_Decode chainCodeHex = Inr c \<and> length c = 32 \<and> (\<forall>i \<in> set path. i < hardenedKeyStart) \<and>
      (let child = padd pub (G (path_shift C path (pub, c))) in
         key = serializeCompressed (fst child) (snd child) \<and> fst child \<noteq> 0 \<and> snd child \<noteq> 0)"
    unfolding Let_def by metis
next
  assume d: "DeriveEd25519ChildCompressed C parse serialize master chainCodeHex path = Inr key"
  then obtain pub where pub: "parse master = Inr pub"
    by (auto simp: DeriveEd25519ChildCompressed_def split: if_splits sum.splits)
  with d obtain c p' c' where "hex_Decode chainCodeHex = Inr c" "length c = 32" "child_path C path (pub, c) = Inr (p', c')"
    "key = serialize p'"
    by (fastforce simp: DeriveEd25519ChildCompressed_def deriveEd25519ChildCompressed_def chain_code_def bind_res_Inr
        split: if_splits sum.splits)
  with pub child_path_point [OF assms(1) _ assms(3) assms(2) [OF pub]]
  show "\<exists>pub c. parse master = Inr pub \<and> hex_Decode chainCodeHex = Inr c \<and> length c = 32 \<and> (\<forall>i \<in> set path. i < hardenedKeyStart) \<and>
      (let child = padd pub (G (path_shift C path (pub, c))) in key = serialize child \<and> fst child \<noteq> 0 \<and> snd child \<noteq> 0)"
    unfolding Let_def by metis
qed

text \<open>A group of seven points with a MAC that ignores its key.\<close>

definition demo_child :: child_curve where
  "demo_child = \<lparr>cc_N = 7, cc_reduce = (\<lambda>n. n), cc_ScalarBaseMult = (\<lambda>b. (be_nat b mod 7 + 1, 1)),
     cc_Add = (\<lambda>p q. Some ((fst p - 1 + (fst q - 1)) mod 7 + 1, 1)),
     cc_HMAC = (\<lambda>k m. replicate 31 0 @ [3] @ replicate 32 0)\<rparr>"

definition demo_on :: "nat \<times> nat \<Rightarrow> bool" where
  "demo_on p \<longleftrightarrow> 1 \<le> fst p \<and> fst p \<le> 7 \<and> snd p = 1"

lemma demo_child_group:
  "child_group demo_child demo_on (\<lambda>n. (n mod 7 + 1, 1)) (\<lambda>p q. ((fst p - 1 + (fst q - 1)) mod 7 + 1, 1))"
proof -
  have law: "(a + (m mod 7 + n mod 7)) mod 7 = (a + ((m + n) mod 7)) mod 7" for a m n :: nat
    by (metis mod_add_eq mod_add_right_eq)
  have "(a + (m mod 7 + n mod 7) - Suc 0) mod 7 = (a + (m + n) mod 7 - Suc 0) mod 7" if "Suc 0 \<le> a" for a m n :: nat
    using law [of "a - 1" m n] that by simp
  moreover have "Suc (n mod 7) \<le> 7" for n :: nat by (simp add: Suc_leI)
  ultimately show ?thesis by (simp add: child_group_def demo_child_def demo_on_def mod_add_left_eq add.assoc)
qed

lemma demo_child_num: "child_num demo_child p c i = 3"
proof -
  have "be_nat (replicate 31 0 @ [3]) = 3" by (simp only: be_nat_leading_zeros) (simp add: be_nat_def)
  then show ?thesis by (simp add: child_num_def demo_child_def del: be_nat_snoc)
qed

lemma demo_child_step:
  "i < hardenedKeyStart \<Longrightarrow> child_step demo_child (p, c) i = Inr (((fst p - 1 + 3) mod 7 + 1, 1), replicate 32 0)"
proof -
  assume i: "i < hardenedKeyStart"
  have "cc_N demo_child = 7" "cc_Add demo_child p (cc_ScalarBaseMult demo_child (nat_be 3)) = Some ((fst p - 1 + 3) mod 7 + 1, 1)"
    "drop 32 (cc_HMAC demo_child k m) = replicate 32 0" for k m
    by (simp_all add: demo_child_def)
  with i show ?thesis by (simp add: child_step_def demo_child_num)
qed

theorem child_is_shifted_witness:
  "\<exists>key. DeriveSecp256k1ChildCompressed demo_child (\<lambda>b. Inr (2, 1)) (replicate 33 2) (hex_Encode (replicate 32 0)) [44, 0] = Inr key \<and>
     key = serializeCompressed 1 1 \<and>
     DeriveEd25519ChildCompressed demo_child (\<lambda>b. Inr (2, 1)) (\<lambda>p. nat_be (fst p)) (replicate 33 2) (hex_Encode (replicate 32 0)) [44, 0] =
       Inr (nat_be 1)"
proof -
  let ?m = "replicate 33 2 :: bytes" and ?x = "hex_Encode (replicate 32 0)" and ?p = "\<lambda>b :: bytes. Inr (2, 1)"
  let ?d = "DeriveSecp256k1ChildCompressed demo_child ?p ?m ?x [44, 0]"
  let ?e = "DeriveEd25519ChildCompressed demo_child ?p (\<lambda>p. nat_be (fst p)) ?m ?x [44, 0]"
  have i: "(44 :: 32 word) < hardenedKeyStart" "(0 :: 32 word) < hardenedKeyStart" by (simp_all add: hardenedKeyStart_def)
  have "\<exists>key. ?d = Inr key" "\<exists>key. ?e = Inr key"
    by (simp_all add: DeriveSecp256k1ChildCompressed_def DeriveEd25519ChildCompressed_def deriveEd25519ChildCompressed_def
        chain_code_def demo_child_step i)
  then obtain key key' where k: "?d = Inr key" "?e = Inr key'" by blast
  have on: "\<And>b p. (Inr (2, 1) :: (nat \<times> nat) res) = Inr p \<Longrightarrow> demo_on p" by (auto simp: demo_on_def)
  note shifted = child_is_shifted [OF demo_child_group, of ?p "[44, 0]" ?m ?x _ "\<lambda>p. nat_be (fst p)"]
  have "key = serializeCompressed 1 1" "key' = nat_be 1"
    using shifted [of key] shifted [of key'] on k by (simp_all add: demo_child_step demo_child_num i Let_def)
  with k show ?thesis by blast
qed

end
