(* ===== verification/Hd_Wallet.thy ===== *)
theory Hd_Wallet
  imports Child_Keys Client
begin

unbundle bit_operations_syntax

text \<open>
  The two example wallets (\<^verbatim>\<open>examples/hdwallet/ecdsa\<close>, \<^verbatim>\<open>examples/hdwallet/eddsa\<close>): one key of the cluster,
  addresses derived from it by the client alone, and one signature for each address, which the client
  verifies under the derived key. Both programs have the same flow, here over a scheme.
\<close>

section \<open>Ethereum\<close>

text \<open>
  What the program uses of Keccak and of secp256k1: the parsing of a point in both encodings, the curve
  equation and the verification of a signature.
\<close>

record hd_ecdsa =
  he_keccak :: "bytes \<Rightarrow> bytes"
  he_ParsePubKey :: "bytes \<Rightarrow> (nat \<times> nat) res"
  he_IsOnCurve :: "nat \<Rightarrow> nat \<Rightarrow> bool"
  he_Verify :: "nat \<times> nat \<Rightarrow> bytes \<Rightarrow> nat \<Rightarrow> nat \<Rightarrow> bool"

text \<open>The copies into a slice of 64 zeros.\<close>

definition serializeUncompressed :: "nat \<times> nat \<Rightarrow> bytes outcome" where
  "serializeUncompressed p =
     (let xb = nat_be (fst p); yb = nat_be (snd p) in
      if length xb > 32 \<or> length yb > 64 then Aborts ''slice bounds out of range''
      else Returns (take (64 - length yb) (paddedBytes 32 xb @ replicate 32 0) @ yb))"

definition hd_deriveChildPublicKey ::
  "hd_ecdsa \<Rightarrow> child_curve \<Rightarrow> bytes \<Rightarrow> string \<Rightarrow> 32 word list \<Rightarrow> bytes res outcome" where
  "hd_deriveChildPublicKey H C masterPubKey chainCodeHex path =
     (if length masterPubKey \<noteq> 64 then Returns (Inl (ENew (''invalid master key length: '' @ show_nat (length masterPubKey))))
      else (case he_ParsePubKey H (4 # masterPubKey) of
              Inl e \<Rightarrow> Returns (Inl (EWrap ''parse master pubkey: '' e []))
            | Inr (x, y) \<Rightarrow>
                (case DeriveSecp256k1ChildCompressed C (he_ParsePubKey H) (serializeCompressed x y) chainCodeHex path of
                   Inl e \<Rightarrow> Returns (Inl (EWrap ''derive child pubkey: '' e []))
                 | Inr child \<Rightarrow>
                     (case he_ParsePubKey H child of
                        Inl e \<Rightarrow> Returns (Inl (EWrap ''parse child pubkey: '' e []))
                      | Inr q \<Rightarrow> bind_out (serializeUncompressed q) (\<lambda>b. Returns (Inr b))))))"

text \<open>The checksum of EIP-55: a letter is a capital where the nibble of the hash is at least eight.\<close>

definition checksum_char :: "bytes \<Rightarrow> string \<Rightarrow> nat \<Rightarrow> char" where
  "checksum_char h a i =
     (let b = h ! (i div 2); nibble = (if even i then drop_bit 4 b else b AND 0xF) in
      if nibble \<ge> 8 then upper_char (a ! i) else a ! i)"

definition toChecksumAddress :: "(bytes \<Rightarrow> bytes) \<Rightarrow> string \<Rightarrow> string outcome" where
  "toChecksumAddress keccak address =
     (let a = to_lower (trim_prefix address ''0x''); h = keccak (go_bytes a) in
      if length a > 2 * length h then Aborts ''index out of range''
      else Returns (''0x'' @ map (checksum_char h a) [0..<length a]))"

definition deriveEthereumAddress :: "hd_ecdsa \<Rightarrow> bytes \<Rightarrow> string outcome" where
  "deriveEthereumAddress H pubKey =
     (if length pubKey \<noteq> 64 then Returns []
      else (let h = he_keccak H pubKey in
            if length h < 20 then Aborts ''slice bounds out of range''
            else toChecksumAddress (he_keccak H) (''0x'' @ hex_Encode (drop (length h - 20) h))))"

definition hd_verifySignature :: "hd_ecdsa \<Rightarrow> bytes \<Rightarrow> bytes \<Rightarrow> bytes \<Rightarrow> bytes \<Rightarrow> bool res" where
  "hd_verifySignature H message pubKey rBytes sBytes =
     (if length pubKey \<noteq> 64 then Inl (ENew (''invalid public key length: '' @ show_nat (length pubKey)))
      else if rBytes = [] \<or> sBytes = [] then Inl (ENew ''signature components missing'')
      else (let x = be_nat (take 32 pubKey); y = be_nat (drop 32 pubKey); r = be_nat rBytes; s = be_nat sBytes in
            if \<not> he_IsOnCurve H x y then Inl (ENew ''public key not on secp256k1 curve'')
            else if r = 0 \<or> s = 0 then Inl (ENew ''invalid signature values'')
            else Inr (he_Verify H (x, y) message r s)))"

section \<open>Solana\<close>

record ('pub, 'sig) hd_eddsa =
  hs_base58 :: "bytes \<Rightarrow> string"
  hs_DecodeEDDSAPubKey :: "bytes \<Rightarrow> 'pub res"
  hs_ParseSignature :: "bytes \<Rightarrow> 'sig res"
  hs_Verify :: "'pub \<Rightarrow> bytes \<Rightarrow> 'sig \<Rightarrow> bool"

definition deriveChildPublicKeyEd25519 ::
  "child_curve \<Rightarrow> (bytes \<Rightarrow> (nat \<times> nat) res) \<Rightarrow> (nat \<times> nat \<Rightarrow> bytes) \<Rightarrow> bytes \<Rightarrow> string \<Rightarrow> 32 word list \<Rightarrow> bytes res" where
  "deriveChildPublicKeyEd25519 C parse serialize masterPubKey chainCodeHex path =
     (if masterPubKey = [] then Inl (ENew ''master public key is empty'')
      else (case DeriveEd25519ChildCompressed C parse serialize masterPubKey chainCodeHex path of
              Inl e \<Rightarrow> Inl e
            | Inr derived \<Rightarrow>
                if length derived \<noteq> 32 then Inl (ENew (''unexpected derived pubkey length: '' @ show_nat (length derived)))
                else Inr derived))"

definition deriveSolanaAddress :: "('pub, 'sig) hd_eddsa \<Rightarrow> bytes \<Rightarrow> string" where
  "deriveSolanaAddress H pubKey = (if length pubKey \<noteq> 32 then [] else hs_base58 H pubKey)"

definition verifySignatureEd25519 :: "('pub, 'sig) hd_eddsa \<Rightarrow> bytes \<Rightarrow> bytes \<Rightarrow> bytes \<Rightarrow> bool" where
  "verifySignatureEd25519 H message pubKey signature =
     (if pubKey = [] \<or> signature = [] then False
      else (case hs_DecodeEDDSAPubKey H pubKey of
              Inl e \<Rightarrow> False
            | Inr pub \<Rightarrow> (case hs_ParseSignature H signature of Inl e \<Rightarrow> False | Inr sg \<Rightarrow> hs_Verify H pub message sg)))"

section \<open>The flow\<close>

record DerivedAddress =
  da_Index :: "32 word"
  da_DerivationPath :: "32 word list"
  da_PublicKey :: bytes
  da_Address :: string

text \<open>
  What differs between the programs: the key in the result of the key generation, paths, derivation and
  addresses, the type and network of a request, and the verification, which tells whether the signature
  is good.
\<close>

record hd_scheme =
  sc_masterKey :: "KeygenResultEvent \<Rightarrow> bytes"
  sc_path :: "nat \<Rightarrow> 32 word list"
  sc_derive :: "bytes \<Rightarrow> string \<Rightarrow> 32 word list \<Rightarrow> bytes res outcome"
  sc_address :: "bytes \<Rightarrow> string outcome"
  sc_keyType :: KeyType
  sc_network :: string
  sc_verify :: "bytes \<Rightarrow> bytes \<Rightarrow> SigningResultEvent \<Rightarrow> bool"

definition ethereum_scheme :: "hd_ecdsa \<Rightarrow> child_curve \<Rightarrow> hd_scheme" where
  "ethereum_scheme H C =
     \<lparr>sc_masterKey = kr_ECDSAPubKey, sc_path = (\<lambda>i. [44, 60, 0, 0, of_nat i]), sc_derive = hd_deriveChildPublicKey H C,
      sc_address = deriveEthereumAddress H, sc_keyType = KeyTypeSecp256k1, sc_network = ''ethereum-mainnet'',
      sc_verify = (\<lambda>m k ev. hd_verifySignature H m k (sr_R ev) (sr_S ev) = Inr True)\<rparr>"

definition solana_scheme ::
  "('pub, 'sig) hd_eddsa \<Rightarrow> child_curve \<Rightarrow> (bytes \<Rightarrow> (nat \<times> nat) res) \<Rightarrow> (nat \<times> nat \<Rightarrow> bytes) \<Rightarrow> hd_scheme" where
  "solana_scheme H C parse serialize =
     \<lparr>sc_masterKey = kr_EDDSAPubKey, sc_path = (\<lambda>i. [44, 501, of_nat i, 0]),
      sc_derive = (\<lambda>k c p. Returns (deriveChildPublicKeyEd25519 C parse serialize k c p)),
      sc_address = (\<lambda>k. Returns (deriveSolanaAddress H k)), sc_keyType = KeyTypeEd25519, sc_network = ''solana-devnet'',
      sc_verify = (\<lambda>m k ev. verifySignatureEd25519 H m k (sr_Signature ev))\<rparr>"

definition derived_address :: "hd_scheme \<Rightarrow> bytes \<Rightarrow> string \<Rightarrow> nat \<Rightarrow> DerivedAddress outcome" where
  "derived_address S masterPubKey chainCodeHex i =
     bind_out (sc_derive S masterPubKey chainCodeHex (sc_path S i)) (\<lambda>child.
       case child of
         Inl e \<Rightarrow> Aborts ''Failed to derive child public key''
       | Inr k \<Rightarrow> bind_out (sc_address S k) (\<lambda>a.
           Returns \<lparr>da_Index = of_nat i, da_DerivationPath = sc_path S i, da_PublicKey = k, da_Address = a\<rparr>))"

fun map_out :: "('a \<Rightarrow> 'b outcome) \<Rightarrow> 'a list \<Rightarrow> 'b list outcome" where
  "map_out f [] = Returns []"
| "map_out f (x # xs) = bind_out (f x) (\<lambda>y. bind_out (map_out f xs) (\<lambda>ys. Returns (y # ys)))"

text \<open>How the wait for a signature ends: a result on the channel of the transaction, or 45 seconds.\<close>

datatype hd_wait = HdResult SigningResultEvent | HdTimeout

datatype hd_signature = NotSent gerror | TimedOut | Refused | Verified bool

definition hd_tx :: "hd_scheme \<Rightarrow> (bytes \<Rightarrow> bytes) \<Rightarrow> string \<Rightarrow> string \<Rightarrow> DerivedAddress \<Rightarrow> SignTxMessage" where
  "hd_tx S keccak walletID txID a =
     \<lparr>st_KeyType = sc_keyType S, st_WalletID = walletID, st_NetworkInternalCode = sc_network S, st_TxID = txID,
      st_Tx = Some (keccak (go_bytes (''Sequential signing from address '' @ show_nat (unat (da_Index a + 1)) @ '' ('' @ da_Address a @ '')''))),
      st_Signature = None, st_DerivationPath = da_DerivationPath a, st_AuthorizerSignatures = []\<rparr>"

definition sign_address ::
  "hd_scheme \<Rightarrow> (bytes \<Rightarrow> bytes) \<Rightarrow> (SignTxMessage \<Rightarrow> gerror option) \<Rightarrow> (SignTxMessage \<Rightarrow> hd_wait) \<Rightarrow> string \<Rightarrow> string \<Rightarrow>
   DerivedAddress \<Rightarrow> hd_signature" where
  "sign_address S keccak submit wait walletID txID a =
     (let msg = hd_tx S keccak walletID txID a in
      case submit msg of
        Some e \<Rightarrow> NotSent e
      | None \<Rightarrow>
          (case wait msg of
             HdTimeout \<Rightarrow> TimedOut
           | HdResult ev \<Rightarrow>
               if sr_ResultType ev = ResultTypeError then Refused
               else Verified (sc_verify S (case st_Tx msg of None \<Rightarrow> [] | Some h \<Rightarrow> h) (da_PublicKey a) ev)))"

definition successCount :: "hd_signature list \<Rightarrow> nat" where
  "successCount rs = length (filter (\<lambda>r. \<exists>v. r = Verified v) rs)"

definition verifiedCount :: "hd_signature list \<Rightarrow> nat" where
  "verifiedCount rs = length (filter (\<lambda>r. r = Verified True) rs)"

text \<open>
  The program after it is connected: \<open>create\<close> answers the request for the wallet, \<open>created\<close> is the
  result for it, \<open>uuids\<close> are the identifiers of the wallet and of the transactions. Exits of the process
  are \<open>Aborts\<close>; printing the first forty digits of the key needs twenty bytes.
\<close>

definition hd_main ::
  "hd_scheme \<Rightarrow> (bytes \<Rightarrow> bytes) \<Rightarrow> unit res \<Rightarrow> (string \<Rightarrow> gerror option) \<Rightarrow> KeygenResultEvent \<Rightarrow> string \<Rightarrow> unit res \<Rightarrow>
   (SignTxMessage \<Rightarrow> gerror option) \<Rightarrow> (SignTxMessage \<Rightarrow> hd_wait) \<Rightarrow> string \<Rightarrow> string list \<Rightarrow>
   (DerivedAddress list \<times> hd_signature list) outcome" where
  "hd_main S keccak onWallet create created chainCodeHex onSign submit wait walletID txIDs =
     (if err_of onWallet \<noteq> None then Aborts ''Failed to subscribe to wallet creation results''
      else if create walletID \<noteq> None then Aborts ''Failed to create master wallet''
      else
        (let masterPubKey = (if kr_ResultType created = ResultTypeError then [] else sc_masterKey S created) in
         if masterPubKey = [] then Aborts ''Master wallet creation failed''
         else if length masterPubKey < 20 then Aborts ''slice bounds out of range''
         else if chainCodeHex = [] then Aborts ''chain_code not found in config''
         else
           bind_out (map_out (derived_address S masterPubKey chainCodeHex) [0..<2]) (\<lambda>addresses.
           if err_of onSign \<noteq> None then Aborts ''Failed to subscribe to signing results''
           else Returns (addresses, map (\<lambda>(a, txID). sign_address S keccak submit wait walletID txID a) (zip addresses txIDs)))))"

section \<open>Facts\<close>

text \<open>A child key of the client is again a key the derivation accepts, of 64 bytes.\<close>

lemma serializeUncompressed_length:
  assumes "x < 2 ^ 256" and "y < 2 ^ 256"
  shows "\<exists>b. serializeUncompressed (x, y) = Returns b \<and> length b = 64 \<and> be_nat (take 32 b) = x \<and> be_nat (drop 32 b) = y"
proof -
  let ?xb = "nat_be x" and ?yb = "nat_be y"
  have lens: "length ?xb \<le> 32" "length ?yb \<le> 32" using nat_be_length [of x 32] nat_be_length [of y 32] assms by simp_all
  then have px: "length (paddedBytes 32 ?xb) = 32" by (simp add: length_paddedBytes)
  have b: "take (64 - length ?yb) (paddedBytes 32 ?xb @ replicate 32 0) @ ?yb = paddedBytes 32 ?xb @ paddedBytes 32 ?yb"
  proof (cases "length ?yb < 32")
    case True
    then show ?thesis using px lens by (simp add: paddedBytes_def)
  next
    case False
    then have "length ?yb = 32" using lens by simp
    then show ?thesis using px by (simp add: paddedBytes_def)
  qed
  have "serializeUncompressed (x, y) = Returns (paddedBytes 32 ?xb @ paddedBytes 32 ?yb)"
    using lens b by (simp add: serializeUncompressed_def Let_def)
  then show ?thesis using px lens by (simp add: length_paddedBytes)
qed

lemma lower_upper [simp]: "lower_char (upper_char c) = lower_char c"
proof (cases "97 \<le> (of_char c :: nat) \<and> of_char c \<le> (122 :: nat)")
  case True
  then have "of_char (char_of (of_char c - 32 :: nat) :: char) = (of_char c - 32 :: nat)"
    by (subst of_char_of) (rule mod_less, linarith)
  moreover have "65 \<le> (of_char c - 32 :: nat)" "(of_char c - 32 :: nat) \<le> 90" using True by linarith+
  ultimately show ?thesis using True by (simp add: upper_char_def lower_char_def Let_def)
qed (auto simp: upper_char_def Let_def)

lemma lower_lower [simp]: "lower_char (lower_char c) = lower_char c"
  by (auto simp: lower_char_def Let_def)

text \<open>The checksum changes nothing but the case of letters, and an address with its checksum keeps it.\<close>

lemma checksum_lower:
  assumes "toChecksumAddress keccak address = Returns r"
  shows "to_lower r = ''0x'' @ to_lower (trim_prefix address ''0x'')"
proof -
  let ?a = "to_lower (trim_prefix address ''0x'')"
  have "lower_char (checksum_char h ?a i) = ?a ! i" if "i < length ?a" for h i
    using that by (simp add: checksum_char_def Let_def to_lower_def)
  then have "map (lower_char \<circ> checksum_char h ?a) [0..<length ?a] = ?a" for h
    by (intro nth_equalityI) simp_all
  moreover have "lower_char CHR ''0'' = CHR ''0''" "lower_char CHR ''x'' = CHR ''x''"
    by (simp_all add: lower_char_def)
  ultimately show ?thesis
    using assms by (auto simp: toChecksumAddress_def Let_def to_lower_def split: if_splits)
qed

lemma checksum_idem:
  assumes "toChecksumAddress keccak address = Returns r"
  shows "toChecksumAddress keccak r = Returns r"
proof -
  let ?a = "to_lower (trim_prefix address ''0x'')"
  from assms obtain h where r: "r = ''0x'' @ map (checksum_char h ?a) [0..<length ?a]"
    by (auto simp: toChecksumAddress_def Let_def split: if_splits)
  then have "''0x'' @ to_lower (trim_prefix r ''0x'') = to_lower r"
    by (simp add: trim_prefix_def to_lower_def lower_char_def)
  with checksum_lower [OF assms] have "to_lower (trim_prefix r ''0x'') = ?a" by simp
  with assms show ?thesis by (simp add: toChecksumAddress_def)
qed

lemma hd_counts: "verifiedCount rs \<le> successCount rs \<and> successCount rs \<le> length rs"
proof -
  have "filter (\<lambda>r. r = Verified True) rs = filter (\<lambda>r. r = Verified True) (filter (\<lambda>r. \<exists>v. r = Verified v) rs)"
    by (induction rs) auto
  then show ?thesis unfolding verifiedCount_def successCount_def by (metis length_filter_le)
qed

text \<open>
  A signature counts as verified only under the key of its address, over the hash that was sent, and the
  request names the path of that key.
\<close>

lemma verified_under_child:
  assumes "sign_address S keccak submit wait walletID txID a = Verified True"
  shows "\<exists>ev msg. msg = hd_tx S keccak walletID txID a \<and> st_DerivationPath msg = da_DerivationPath a \<and>
    wait msg = HdResult ev \<and> (\<exists>h. st_Tx msg = Some h \<and> sc_verify S h (da_PublicKey a) ev)"
  using assms by (auto simp: sign_address_def hd_tx_def Let_def split: option.splits hd_wait.splits if_splits)

end
