(* ===== verification/Migration.thy ===== *)
theory Migration
  imports Stores
begin

text \<open>
  The scripts that bring stored keys to the names that carry the type of the key:
  \<^verbatim>\<open>scripts/migration/add-key-type\<close> for the shares in Badger, \<^verbatim>\<open>scripts/migration/update-keyinfo\<close> for the
  key information in Consul, and \<^verbatim>\<open>scripts/print-keys\<close>, which lists a database.
\<close>

section \<open>Shares\<close>

definition typed_key :: "bytes \<Rightarrow> bool" where
  "typed_key k \<longleftrightarrow> prefix ''eddsa:'' (go_string k) \<or> prefix ''ecdsa:'' (go_string k)"

definition ecdsa_key :: "bytes \<Rightarrow> bytes" where
  "ecdsa_key k = go_bytes (''ecdsa:'' @ go_string k)"

text \<open>
  One update transaction: a failure of either call undoes both. The iterator reads a snapshot, so the
  loop runs over the pairs that were there at its start.
\<close>

definition rename_key :: "'d badger_ops \<Rightarrow> bytes \<Rightarrow> bytes \<Rightarrow> 'd \<Rightarrow> 'd res" where
  "rename_key ops k v d = bind_res (txn_Set ops d (ecdsa_key k) v) (\<lambda>d1. txn_Delete ops d1 k)"

fun rename_keys :: "'d badger_ops \<Rightarrow> (bytes \<times> bytes res) list \<Rightarrow> 'd \<Rightarrow> 'd \<times> gerror option" where
  "rename_keys ops [] d = (d, None)"
| "rename_keys ops ((k, val) # items) d =
     (case val of
        Inl e \<Rightarrow> (d, Some e)
      | Inr v \<Rightarrow>
          if typed_key k then rename_keys ops items d
          else (case rename_key ops k v d of
                  Inl e \<Rightarrow> (d, Some e)
                | Inr d' \<Rightarrow> rename_keys ops items d'))"

definition migration_config :: "string \<Rightarrow> BadgerConfig" where
  "migration_config nodeName = \<lparr>bc_NodeID = nodeName, bc_EncryptionKey = [], bc_BackupEncryptionKey = [],
     bc_BackupDir = ''./backups'', bc_DBPath = ''./db/'' @ nodeName\<rparr>"

text \<open>\<open>items\<close> is the snapshot of a database. The result is the database and the keys that are printed.\<close>

definition add_key_type ::
  "'d badger_ops \<Rightarrow> (string \<Rightarrow> bytes \<Rightarrow> 'd res) \<Rightarrow> ('d \<Rightarrow> (bytes \<times> bytes res) list) \<Rightarrow> string \<Rightarrow>
   ('d BadgerKVStore \<times> string list) outcome" where
  "add_key_type ops open_db items nodeName =
     (if nodeName = [] then Aborts ''Node name is required''
      else (case NewBadgerKVStore ops open_db (migration_config nodeName) of
              Inl e \<Rightarrow> Aborts ''Failed to create badger kv store''
            | Inr b \<Rightarrow>
                (case rename_keys ops (items (kv_state b)) (kv_state b) of
                   (d, Some e) \<Rightarrow> Aborts ''Failed to migrate keys''
                 | (d, None) \<Rightarrow> Returns (b\<lparr>kv_state := d\<rparr>, kv_Keys (b\<lparr>kv_state := d\<rparr>)))))"

text \<open>The store refuses an empty key, so the script never reaches its migration.\<close>

lemma add_key_type_never_runs: "\<exists>m. add_key_type ops open_db items nodeName = Aborts m"
  by (simp add: add_key_type_def NewBadgerKVStore_def migration_config_def)

text \<open>A deletion removes one key.\<close>

definition badger_delete_ok :: "'d badger_ops \<Rightarrow> bool" where
  "badger_delete_ok ops \<longleftrightarrow>
     (\<forall>d k d'. txn_Delete ops d k = Inr d' \<longrightarrow>
        (\<forall>k'. k' \<noteq> k \<longrightarrow> txn_Get ops d' k' = txn_Get ops d k') \<and> (\<exists>e. txn_Get ops d' k = Inl e))"

lemma ecdsa_key_typed [simp]: "typed_key (ecdsa_key k)"
  by (simp add: typed_key_def ecdsa_key_def)

lemma ecdsa_key_inj: "ecdsa_key k = ecdsa_key k' \<longleftrightarrow> k = k'"
  by (metis ecdsa_key_def go_bytes_go_string go_string_go_bytes same_append_eq)

lemma rename_key_gets:
  assumes "badger_ok ops" and "badger_delete_ok ops" and "rename_key ops k v d = Inr d'" and "\<not> typed_key k"
  shows "txn_Get ops d' (ecdsa_key k) = Inr v"
    and "\<exists>e. txn_Get ops d' k = Inl e"
    and "k' \<noteq> k \<Longrightarrow> k' \<noteq> ecdsa_key k \<Longrightarrow> txn_Get ops d' k' = txn_Get ops d k'"
proof -
  from assms(3) obtain d1 where s: "txn_Set ops d (ecdsa_key k) v = Inr d1" and del: "txn_Delete ops d1 k = Inr d'"
    by (auto simp: rename_key_def bind_res_Inr)
  have "ecdsa_key k \<noteq> k" using assms(4) ecdsa_key_typed [of k] by metis
  with s del assms(1,2) show "txn_Get ops d' (ecdsa_key k) = Inr v" "\<exists>e. txn_Get ops d' k = Inl e"
    "k' \<noteq> k \<Longrightarrow> k' \<noteq> ecdsa_key k \<Longrightarrow> txn_Get ops d' k' = txn_Get ops d k'"
    unfolding badger_ok_def badger_delete_ok_def by metis+
qed

text \<open>
  On a database that opens, the loop moves each share without a type to its typed name and touches
  nothing else, provided no typed name is taken already.
\<close>

lemma rename_keys_moves:
  assumes ok: "badger_ok ops" "badger_delete_ok ops" and "rename_keys ops items d = (d', None)"
    and "distinct (map fst items)" and "\<forall>(k, val) \<in> set items. ecdsa_key k \<notin> fst ` set items"
  shows "(\<forall>k v. (k, Inr v) \<in> set items \<and> \<not> typed_key k \<longrightarrow>
       txn_Get ops d' (ecdsa_key k) = Inr v \<and> (\<exists>e. txn_Get ops d' k = Inl e)) \<and>
    (\<forall>k. k \<notin> fst ` set items \<and> k \<notin> ecdsa_key ` fst ` set items \<longrightarrow> txn_Get ops d' k = txn_Get ops d k) \<and>
    (\<forall>k \<in> fst ` set items. typed_key k \<longrightarrow> txn_Get ops d' k = txn_Get ops d k)"
  using assms(3-5)
proof (induction items arbitrary: d)
  case (Cons a items)
  obtain k val where a: "a = (k, val)" by (cases a)
  with Cons.prems obtain v where v: "val = Inr v" by (auto split: sum.splits)
  have tail: "distinct (map fst items)" "\<forall>(k, val) \<in> set items. ecdsa_key k \<notin> fst ` set items"
    using Cons.prems(2,3) by auto
  have new: "k \<notin> fst ` set items" "k \<notin> ecdsa_key ` fst ` set items" "ecdsa_key k \<notin> fst ` set items"
    using Cons.prems(2,3) a by (auto simp: image_iff)
  show ?case
  proof (cases "typed_key k")
    case True
    with Cons.prems(1) a v have "rename_keys ops items d = (d', None)" by simp
    from Cons.IH [OF this tail] new True a v show ?thesis by auto
  next
    case False
    with Cons.prems(1) a v obtain d1 where d1: "rename_key ops k v d = Inr d1" "rename_keys ops items d1 = (d', None)"
      by (auto split: sum.splits)
    note g = rename_key_gets [OF ok d1(1) False]
    note IH = Cons.IH [OF d1(2) tail]
    have ek: "ecdsa_key k \<notin> ecdsa_key ` fst ` set items" using new(1) by (metis ecdsa_key_inj imageE)
    have "txn_Get ops d' (ecdsa_key k) = Inr v" and "\<exists>e. txn_Get ops d' k = Inl e"
      using IH g(1,2) new ek by metis+
    moreover have "txn_Get ops d' k' = txn_Get ops d k'" if "k' \<notin> fst ` set (a # items)" "k' \<notin> ecdsa_key ` fst ` set (a # items)" for k'
      using that IH g(3) [of k'] a by auto
    moreover have "txn_Get ops d' k' = txn_Get ops d k'" if "k' \<in> fst ` set (a # items)" "typed_key k'" for k'
    proof -
      have "k' \<noteq> k" using that(2) False by blast
      with that(1) a have i: "k' \<in> fst ` set items" by simp
      with new(3) have "k' \<noteq> ecdsa_key k" by blast
      with IH g(3) [OF \<open>k' \<noteq> k\<close>] i that(2) show ?thesis by metis
    qed
    ultimately show ?thesis using IH a v by auto
  qed
qed simp

section \<open>Key information\<close>

text \<open>\<^verbatim>\<open>Sscanf\<close> with \<^verbatim>\<open>threshold_keyinfo/%s\<close>: the first word after the literal text.\<close>

definition scan_walletID :: "string \<Rightarrow> string option" where
  "scan_walletID key =
     (if \<not> prefix ''threshold_keyinfo/'' key then None
      else (let w = takeWhile (\<lambda>c. \<not> is_space c) (dropWhile is_space (drop (length ''threshold_keyinfo/'') key)) in
            if w = [] then None else Some w))"

text \<open>
  The loop over the listed keys, with \<open>del\<close> for the deletion in Consul. Failures of \<^verbatim>\<open>Put\<close> and \<^verbatim>\<open>Delete\<close>
  are logged; the result tells whether the loop came to its end.
\<close>

definition put_or_log :: "'c consul_ops \<Rightarrow> string \<Rightarrow> bytes \<Rightarrow> 'c \<Rightarrow> 'c" where
  "put_or_log ops key v c = (case consul_Put ops c key v of Inl e \<Rightarrow> c | Inr c' \<Rightarrow> c')"

definition delete_or_log :: "('c \<Rightarrow> string \<Rightarrow> 'c res) \<Rightarrow> string \<Rightarrow> 'c \<Rightarrow> 'c" where
  "delete_or_log del key c = (case del c key of Inl e \<Rightarrow> c | Inr c' \<Rightarrow> c')"

fun update_keyinfo :: "'c consul_ops \<Rightarrow> ('c \<Rightarrow> string \<Rightarrow> 'c res) \<Rightarrow> string list \<Rightarrow> 'c \<Rightarrow> ('c \<times> bool) outcome" where
  "update_keyinfo ops del [] c = Returns (c, True)"
| "update_keyinfo ops del (key # keys) c =
     (if str_contains key ''ecdsa'' \<or> str_contains key ''eddsa'' then update_keyinfo ops del keys c
      else (case consul_Get ops c key of
              Inl e \<Rightarrow> Aborts (Error e)
            | Inr pair \<Rightarrow>
                (case scan_walletID key of
                   None \<Rightarrow> Returns (c, False)
                 | Some walletID \<Rightarrow>
                     (case pair of
                        None \<Rightarrow> Aborts ''nil pointer dereference''
                      | Some v \<Rightarrow> update_keyinfo ops del keys
                          (delete_or_log del key (put_or_log ops (''threshold_keyinfo/ecdsa:'' @ walletID) v c))))))"

definition consul_delete_ok :: "'c consul_ops \<Rightarrow> ('c \<Rightarrow> string \<Rightarrow> 'c res) \<Rightarrow> bool" where
  "consul_delete_ok ops del \<longleftrightarrow>
     (\<forall>c k c'. del c k = Inr c' \<longrightarrow>
        consul_Get ops c' k = Inr None \<and> (\<forall>k'. k' \<noteq> k \<longrightarrow> consul_Get ops c' k' = consul_Get ops c k'))"

text \<open>One key moves when the write succeeds, and is lost when the write fails and the deletion does not.\<close>

lemma update_keyinfo_moves:
  assumes "consul_ok ops" and "consul_delete_ok ops del" and "\<not> str_contains key ''ecdsa''" "\<not> str_contains key ''eddsa''"
    and "consul_Get ops c key = Inr (Some v)" and "scan_walletID key = Some w"
    and "consul_Put ops c (''threshold_keyinfo/ecdsa:'' @ w) v = Inr c1" and "del c1 key = Inr c2"
  shows "update_keyinfo ops del [key] c = Returns (c2, True) \<and> consul_Get ops c2 (composeKeyinfoKey (''ecdsa:'' @ w)) = Inr (Some v) \<and>
    consul_Get ops c2 key = Inr None"
proof -
  let ?new = "''threshold_keyinfo/ecdsa:'' @ w"
  have "str_contains ?new ''ecdsa''" unfolding str_contains_iff
    by (rule exI [of _ "''threshold_keyinfo/''"], rule exI [of _ "'':'' @ w"]) simp
  with assms(3) have "?new \<noteq> key" by blast
  moreover have "consul_Get ops c1 ?new = Inr (Some v)"
    using assms(1,7) unfolding consul_ok_def by blast
  moreover have "consul_Get ops c2 key = Inr None" and "\<forall>k'. k' \<noteq> key \<longrightarrow> consul_Get ops c2 k' = consul_Get ops c1 k'"
    using assms(2,8) unfolding consul_delete_ok_def by blast+
  ultimately have "consul_Get ops c2 ?new = Inr (Some v)" and "consul_Get ops c2 key = Inr None" by simp_all
  with assms(3-8) show ?thesis by (simp add: put_or_log_def delete_or_log_def composeKeyinfoKey_def)
qed

lemma failed_put_loses_keyinfo:
  assumes "consul_delete_ok ops del" and "\<not> str_contains key ''ecdsa''" "\<not> str_contains key ''eddsa''"
    and "consul_Get ops c key = Inr (Some v)" and "scan_walletID key = Some w"
    and "consul_Put ops c (''threshold_keyinfo/ecdsa:'' @ w) v = Inl e" and "del c key = Inr c'"
  shows "update_keyinfo ops del [key] c = Returns (c', True) \<and> consul_Get ops c' key = Inr None"
  using assms unfolding consul_delete_ok_def by (simp add: put_or_log_def delete_or_log_def)

section \<open>Listing a database\<close>

definition print_keys_text :: "string list \<Rightarrow> string" where
  "print_keys_text keys =
     concat (map (\<lambda>(i, k). show_nat (Suc i) @ ''. '' @ k @ [CHR 0x0A]) (zip [0..<length keys] keys))
     @ (if keys = [] then ''No keys found in the database.'' @ [CHR 0x0A]
        else [CHR 0x0A] @ ''Total keys: '' @ show_nat (length keys) @ [CHR 0x0A])"

text \<open>\<open>open_ro\<close> opens the database read-only with the password as its key.\<close>

definition printKeys :: "bytes res \<Rightarrow> (string \<Rightarrow> bytes \<Rightarrow> 'd res) \<Rightarrow> 'd badger_ops \<Rightarrow> string \<Rightarrow> string res" where
  "printKeys terminal open_ro ops dbPath =
     (case terminal of
        Inl e \<Rightarrow> Inl (ENew (''failed to read password: '' @ Error e))
      | Inr password \<Rightarrow>
          (case open_ro dbPath password of
             Inl e \<Rightarrow> Inl (ENew (''failed to open BadgerDB: '' @ Error e))
           | Inr d \<Rightarrow> Inr (''Opening database at: '' @ dbPath @ [CHR 0x0A] @ ''=== All Keys in Database ==='' @ [CHR 0x0A]
               @ print_keys_text (map go_string (txn_Keys ops d)))))"

end
