(* ===== verification/Spec2Isabelle.thy ===== *)
theory Spec2Isabelle
  imports Worker_Properties Route_Properties Provisioning_Properties Benchmark_Properties Authorizers Hd_Wallet Migration
begin

text \<open>
  A verification library for mpcium, a cluster of nodes that generate keys, sign and reshare by
  threshold protocols, and for the wallet service on top of it. The paths below are those of the
  repository; the theories are shallow embeddings of its Go code.

  \<^bold>\<open>The program.\<close> An initiator signs a request (\<^verbatim>\<open>pkg/client\<close>, \<^verbatim>\<open>pkg/types\<close>) and publishes it on a JetStream
  stream (\<^verbatim>\<open>pkg/messaging\<close>). On each node a stream consumer waits until enough peers are ready,
  forwards the request to the event consumers with a reply inbox, and settles the message of the stream
  (\<^verbatim>\<open>pkg/eventconsumer/sign_consumer.go\<close>, \<^verbatim>\<open>keygen_consumer.go\<close>). The event consumers of all nodes
  (\<^verbatim>\<open>event_consumer.go\<close>) queue it, check the initiator and the authorizers (\<^verbatim>\<open>pkg/identity\<close>), guard against
  duplicates, create a session (\<^verbatim>\<open>pkg/mpc/node.go\<close>), wait for the other parties, and run the protocol of
  tss-lib; the messages of the protocol travel signed or encrypted between the sessions
  (\<^verbatim>\<open>pkg/mpc/session.go\<close>). Shares go to Badger (\<^verbatim>\<open>pkg/kvstore\<close>), which is backed up, key information goes to
  Consul (\<^verbatim>\<open>pkg/keyinfo\<close>), and a result goes to the queue of the client that asked (\<^verbatim>\<open>pkg/event\<close>). The
  registry (\<^verbatim>\<open>pkg/mpc/registry.go\<close>) follows which peers are ready and starts the key exchange with them
  (\<^verbatim>\<open>key_exchange_session.go\<close>). A command line tool (\<^verbatim>\<open>cmd/mpcium-cli\<close>) sets a cluster up, and a node
  (\<^verbatim>\<open>cmd/mpcium\<close>) puts the parts together when it starts. The wallet service (\<^verbatim>\<open>wallet-api\<close>) turns HTTP
  requests into transfers, has the cluster sign them and broadcasts them.

  \<^bold>\<open>Layers.\<close> \<open>Go_Prelude\<close> has errors as values (\<open>gerror\<close>, \<open>'a res\<close>, and \<open>outcome\<close> for panics and fatal exits),
  strings, numbers, byte strings and Go maps as association lists; \<open>Json\<close> has \<^verbatim>\<open>encoding/json\<close> and base64
  with their inverse laws. Every other theory models one part of the code:

  \<^item> \<open>Party_Ids\<close>, \<open>Messages\<close>, \<open>Requests\<close>, \<open>Events\<close>, \<open>Topics\<close>: identities of parties, the requests and protocol
    messages with their signed bytes, results, subjects, topics and keys.
  \<^item> \<open>Crypto\<close>, \<open>Encoding\<close>, \<open>Shares\<close>, \<open>Child_Keys\<close>: the wrappers of \<^verbatim>\<open>pkg/encryption\<close>, the encoding of public
    keys, the fields of shares, the derivation of child keys inside (\<^verbatim>\<open>pkg/mpc/ckd.go\<close>) and outside
    (\<^verbatim>\<open>pkg/ckdutil\<close>) of the cluster, and zeroing.
  \<^item> \<open>Identity\<close>, \<open>Key_Exchange\<close>: the keys a node holds and the checks it makes with them, and the agreement
    on symmetric keys.
  \<^item> \<open>Registry\<close>, \<open>Registry_Steps\<close>: the peers a node considers ready. The first has the operations, and a step
    relation with an iteration of the watch loop as one step; the second interleaves the accesses of
    the watch loop with those of the callback of the key exchange.
  \<^item> \<open>Stores\<close>, \<open>Backups\<close>, \<open>Migration\<close>: shares in Badger, key information in Consul, encrypted backups and
    their restoring, and the scripts that rename stored keys (\<^verbatim>\<open>scripts\<close>).
  \<^item> \<open>Rounds\<close>, \<open>Sessions\<close>, \<open>Protocols\<close>, \<open>Node\<close>: protocol messages between sessions, the barrier, the loops of
    key generation, signing and resharing on both curves, and the creation of sessions.
  \<^item> \<open>Session_Table\<close>, \<open>Event_Consumer\<close>, \<open>Workers\<close>: the guard against duplicates, the three handlers, and the
    queues and workers in front of them.
  \<^item> \<open>Messaging\<close>, \<open>Stream_Consumers\<close>: streams, queues and direct messages, and the consumers of the request
    streams.
  \<^item> \<open>Paths\<close>, \<open>Configuration\<close>, \<open>Node_Start\<close>: safe paths (\<^verbatim>\<open>pkg/common/pathutil\<close>), settings, peers and identity
    files (\<^verbatim>\<open>pkg/config\<close>), and how a node starts, waits and shuts down (\<^verbatim>\<open>cmd/mpcium\<close>, \<^verbatim>\<open>pkg/healthcheck\<close>).
  \<^item> \<open>Client\<close>, \<open>Signers\<close>, \<open>Authorizers\<close>, \<open>Hd_Wallet\<close>: the client, its signers, and the example programs that
    collect authorizations and derive wallets (\<^verbatim>\<open>pkg/client\<close>, \<^verbatim>\<open>examples\<close>).
  \<^item> \<open>Provisioning\<close>, \<open>Benchmark\<close>: the commands of \<^verbatim>\<open>cmd/mpcium-cli\<close> that set up a cluster and measure it.
  \<^item> \<open>Wallet_Chain\<close>, \<open>Wallet_Service\<close>, \<open>Wallet_Accounts\<close>, \<open>Wallet_Http\<close>, \<open>Wallet_Routes\<close>: transfers and their
    nonces, the pipeline that sends, cancels and speeds up, waiting for results, wallets, the indexer,
    tokens and handlers, the table of routes, and the server as one step on the state of all services.

  \<^bold>\<open>State and operations.\<close> A struct is a record with its fields, an operation is one definition from the old
  state to the new state and what it sends (\<open>consumer_effect\<close>, \<open>stream_effect\<close>, \<open>nats_call\<close>, \<open>send_effect\<close>,
  \<open>reg_event\<close>). Every early return, error, panic and fatal exit of the source is a branch. A mutex makes a
  method one step; where goroutines interleave, the steps form a relation (registry, workers) or the
  order of events is an input (the run of a protocol, the answers of peers, the results that reach a
  benchmark, the turns of a listener). A program that starts, like a node, is a chain of steps with a trace.

  \<^bold>\<open>Parameters.\<close> Code outside of the repository is an argument: cryptographic primitives (\<open>crypto\<close>, \<open>ecdh\<close>,
  \<open>jwt\<close>, \<open>private_keys\<close>), curves (\<open>child_curve\<close>) and tss-lib, Badger, Consul, NATS and its matching of
  subjects, Redis, PostgreSQL, go-ethereum, AWS KMS, age, chi, the file system (\<open>files\<close>, \<open>disk\<close>), terminals,
  time and random numbers. What theorems need of them are named predicates on these records that state
  documented behaviour (\<open>aead_correct\<close>, \<open>ed25519_pair\<close>, \<open>x25519_ok\<close>, \<open>private_keys_ok\<close>, \<open>child_group\<close>,
  \<open>badger_ok\<close>, \<open>consul_ok\<close>, \<open>redis_ok\<close>, \<open>badger_backup_ok\<close>, \<open>jwt_ok\<close>, \<open>nats_ok\<close>, \<open>chi_ok\<close>). \<open>Instances\<close> gives
  lawful instances and the state of a cluster of three nodes; the witness next to each property with
  hypotheses applies it there or at an instance of its own theory.

  \<^bold>\<open>Interfaces.\<close> The locales state what one part relies on in another: \<open>keyed_store\<close> (\<open>Stores\<close>) the contract
  of both stores, \<open>symmetric_keys\<close> (\<open>Identity\<close>) what agreed keys are good for, \<open>topic_composer\<close> (\<open>Topics\<close>) what
  separates the topics of sessions, \<open>peer_registry\<close> (\<open>Node\<close>) what a node needs to know of its peers,
  \<open>exclusive_sessions\<close> (\<open>Session_Table\<close>) the guard against duplicates, and \<open>request_signer\<close>
  (\<open>Signer_Properties\<close>) what a node needs of the signer of its initiator. Each is interpreted on the
  definitions of the model in the theory that provides them.

  \<^bold>\<open>What is shown.\<close>
  \<^item> \<open>Wire_Properties\<close>: what a signature covers and where payloads of different kinds can coincide, messages
    survive their encoding, keys of parties and topics identify what they name, results reach only the
    client that asked when identifiers are single tokens.
  \<^item> \<open>Cluster_Properties\<close>: two nodes agree on a key; the counter of ready peers is right in every reachable
    state; what the readiness flag means when the watch loop and the key exchange interleave, and the
    race in which it is wrong; who takes part in a session; which messages reach a party, with the
    exception of the topic of a node to itself; messages are delivered; the barrier ends; what health
    checks and listing errors do.
  \<^item> \<open>Request_Properties\<close>: an unauthorized request has no effect but an error result; a published
    signature verifies under the stored key, or under the child of it that the path of the request
    determines; a second request for an active session is refused, whatever other requests and
    removals of old sessions come between; stored results are replayed.
  \<^item> \<open>Keygen_Properties\<close>, \<open>Reshare_Properties\<close>: an announced success implies that the shares of the announced
    keys and the key information are persisted, also when the deadline passed while the parties waited.
  \<^item> \<open>Stream_Properties\<close>, \<open>Worker_Properties\<close>: each request is settled once, handlers return, workers keep
    their bounds and refine a queue.
  \<^item> \<open>Start_Properties\<close>, \<open>Provisioning_Properties\<close>, \<open>Signer_Properties\<close>, \<open>Authorizers\<close>: a started node has the
    identifier that Consul lists for its name and meets the hypotheses of the other properties; what the
    commands leave behind loads on a node; requests of configured signers, and of an Ed25519 initiator with
    authorizers, are accepted.
  \<^item> \<open>Child_Keys\<close>, \<open>Hd_Wallet\<close>: child keys are shifted master keys, on both curves.
  \<^item> \<open>Backup_Properties\<close>, \<open>Migration\<close>: a restore gives the database back or fails, whatever writes failed;
    what migrations keep.
  \<^item> \<open>Benchmark_Properties\<close>: the report of a benchmark accounts for every operation.
  \<^item> \<open>Wallet_Properties\<close>, \<open>Route_Properties\<close>: what sending a transfer leaves behind whatever the database
    answers, which waiter gets a result, that a released nonce collides; and which requests to the server
    may change what, down to the wallet that signs.

  \<^bold>\<open>Bounds.\<close> The wait for a reply polls at most 90 times, the quotient of the two constants of the source
  (45 seconds at 500 milliseconds), when each timeout takes the polling interval; the loop is a
  \<open>partial_function\<close> and its return is a theorem. The buffers of the workers hold 100 and 200 requests as in
  the source. Versions and watermarks of backups, nonces and derivation indices are machine words;
  thresholds, counts and the counters of Redis are unbounded, and the theories that use them say where
  the source would wrap. JSON is parsed with fuel given by the length of the text, which suffices for
  every rendered value (\<open>json_parse_render\<close>); its text is valid UTF-8.

  \<^bold>\<open>Not modelled.\<close> Logging and metrics; the declaration of flags and commands, the banner, and the reading
  and decoding of settings by viper and mapstructure; the process of the wallet service (\<^verbatim>\<open>wallet-api/cmd\<close>),
  which does not build; the HTTP servers and the JSON of HTTP bodies, whose decoded form is the input of
  the handlers; the remaining examples, which call the client once and print, the comparison with tss-lib
  in one of the example wallets, and the end-to-end tests; the web frontend; the mathematics of the threshold
  protocols, which is that of tss-lib.
\<close>

end
